(* ===== verification/Prelude.thy ===== *)
theory Prelude
  imports Main "HOL-Library.Char_ord" "HOL-Library.Sublist"
begin

text \<open>
  The vocabulary every other theory of the library speaks: strings of the language as lists of
  UTF-16 code units, the string methods the sources call, decimal rendering of numbers, and the
  lookup of a key in an object literal.

  \<^item> A string is a list of code units, each a natural number below \<open>2^16\<close>; \<^term>\<open>js\<close> embeds an
    ASCII literal, so that \<open>js ''/login''\<close> is the literal of the source.
  \<^item> \<open>undefined\<close> is \<^term>\<open>None\<close>; a value that may be absent is an \<open>option\<close>.
  \<^item> A key looked up in an object literal also finds the properties that every object inherits
    from \<open>Object.prototype\<close> (\<open>constructor\<close>, \<open>toString\<close>, \ldots), so a lookup has three outcomes.
\<close>

named_theorems js_eval \<open>equations that evaluate string operations on concrete arguments\<close>
named_theorems js_defs \<open>definitions of the string operations\<close>

type_synonym jstr = "nat list"

definition js :: "string \<Rightarrow> jstr" where
  "js s = map of_char s"

lemma js_Nil [simp]: "js [] = []"
  by (simp add: js_def)

lemma js_Cons [js_eval]: "js (c # s) = of_char c # js s"
  by (simp add: js_def)

lemma js_append: "js (s @ t) = js s @ js t"
  by (simp add: js_def)

lemma js_eq_iff [simp]: "js s = js t \<longleftrightarrow> s = t"
  unfolding js_def by (simp add: inj_def)

text \<open>Lookups in literal tables, one comparison at a time.\<close>

lemma map_of_js_miss [js_eval]: "a \<noteq> b \<Longrightarrow> map_of ((js a, v) # xs) (js b) = map_of xs (js b)"
  by simp

lemma map_of_js_hit [js_eval]: "map_of ((js a, v) # xs) (js a) = Some v"
  by simp

lemma js_eq_Nil [simp]: "js s = [] \<longleftrightarrow> s = []" "[] = js s \<longleftrightarrow> s = []"
  by (simp_all add: js_def)

lemma length_js [simp]: "length (js s) = length s"
  by (simp add: js_def)

lemma js_less_256: "c \<in> set (js s) \<Longrightarrow> c < 256"
  by (auto simp: js_def)

text \<open>White space and line terminators, as \<open>trim\<close> and the class \<open>\s\<close> see them.\<close>

definition ws_char :: "nat \<Rightarrow> bool" where
  "ws_char c \<longleftrightarrow> c \<in> {9, 10, 11, 12, 13, 32, 0xA0, 0x1680, 0x2028, 0x2029, 0x202F, 0x205F, 0x3000, 0xFEFF}
     \<or> 0x2000 \<le> c \<and> c \<le> 0x200A"

definition trim :: "jstr \<Rightarrow> jstr" where
  "trim s = rev (dropWhile ws_char (rev (dropWhile ws_char s)))"

lemma hd_dropWhile_not: "dropWhile P xs \<noteq> [] \<Longrightarrow> \<not> P (hd (dropWhile P xs))"
  by (rule hd_dropWhile)

lemma dropWhile_id: "xs = [] \<or> \<not> P (hd xs) \<Longrightarrow> dropWhile P xs = xs"
  by (cases xs) auto

text \<open>What \<open>trim\<close> returns neither starts nor ends with white space, and only such strings are kept.\<close>

definition trimmed :: "jstr \<Rightarrow> bool" where
  "trimmed s \<longleftrightarrow> s = [] \<or> \<not> ws_char (hd s) \<and> \<not> ws_char (last s)"

lemma trim_trimmed: "trimmed (trim s)"
proof (cases "trim s = []")
  case False
  let ?u = "dropWhile ws_char s" and ?v = "dropWhile ws_char (rev (dropWhile ws_char s))"
  have nv: "?v \<noteq> []" using False by (simp add: trim_def)
  then have last: "\<not> ws_char (last (trim s))"
    by (metis hd_dropWhile last_rev trim_def rev_is_Nil_conv)
  obtain p where p: "rev ?u = p @ ?v"
    by (metis takeWhile_dropWhile_id)
  then have u: "?u = rev ?v @ rev p"
    by (metis rev_append rev_rev_ident)
  from nv have nr: "rev ?v \<noteq> []" by simp
  have "hd (trim s) = hd ?u"
    unfolding trim_def using hd_append2 [OF nr, of "rev p"] u by metis
  moreover have "?u \<noteq> []" using u nr by (metis append_is_Nil_conv)
  ultimately have "\<not> ws_char (hd (trim s))" by (metis hd_dropWhile)
  with last show ?thesis by (simp add: trimmed_def)
qed (simp add: trimmed_def)

lemma trim_id: "trimmed s \<Longrightarrow> trim s = s"
  unfolding trim_def trimmed_def
  by (cases "s = []") (auto simp: dropWhile_id hd_rev)

lemma trim_idem [simp]: "trim (trim s) = trim s"
  by (rule trim_id) (rule trim_trimmed)

lemma set_trim: "set (trim s) \<subseteq> set s"
proof
  fix x assume "x \<in> set (trim s)"
  then have "x \<in> set (rev (dropWhile ws_char s))"
    unfolding trim_def set_rev by (metis set_dropWhileD set_rev)
  then show "x \<in> set s" by (auto dest: set_dropWhileD)
qed

lemma length_trim: "length (trim s) \<le> length s"
  unfolding trim_def
  by (metis length_dropWhile_le length_rev order_trans)

text \<open>The other methods: \<open>includes\<close>, \<open>replaceAll\<close> of one unit, \<open>split\<close>, \<open>join\<close>, \<open>padStart\<close>.\<close>

abbreviation startsWith :: "jstr \<Rightarrow> jstr \<Rightarrow> bool" where
  "startsWith s p \<equiv> prefix p s"

abbreviation endsWith :: "jstr \<Rightarrow> jstr \<Rightarrow> bool" where
  "endsWith s p \<equiv> suffix p s"

abbreviation includesStr :: "jstr \<Rightarrow> jstr \<Rightarrow> bool" where
  "includesStr s p \<equiv> sublist p s"

definition replaceUnit :: "nat \<Rightarrow> nat \<Rightarrow> jstr \<Rightarrow> jstr" where
  "replaceUnit a b s = map (\<lambda>c. if c = a then b else c) s"

fun joinWith :: "jstr \<Rightarrow> jstr list \<Rightarrow> jstr" where
  "joinWith sep [] = []"
| "joinWith sep [x] = x"
| "joinWith sep (x # y # ys) = x @ sep @ joinWith sep (y # ys)"

lemma joinWith_Cons: "xs \<noteq> [] \<Longrightarrow> joinWith sep (x # xs) = x @ sep @ joinWith sep xs"
  by (cases xs) simp_all

fun splitOn :: "nat \<Rightarrow> jstr \<Rightarrow> jstr list" where
  "splitOn c [] = [[]]"
| "splitOn c (x # xs) = (if x = c then [] # splitOn c xs
     else (case splitOn c xs of [] \<Rightarrow> [[x]] | y # ys \<Rightarrow> (x # y) # ys))"

lemma splitOn_nonempty [simp]: "splitOn c s \<noteq> []"
  by (induction s) (auto split: list.splits)

lemma splitOn_no_sep: "c \<notin> set s \<Longrightarrow> splitOn c s = [s]"
  by (induction s) auto

lemma splitOn_append_sep: "c \<notin> set s \<Longrightarrow> splitOn c (s @ c # t) = s # splitOn c t"
  by (induction s) auto

lemma splitOn_joinWith:
  "\<lbrakk>xs \<noteq> []; \<forall>x\<in>set xs. c \<notin> set x\<rbrakk> \<Longrightarrow> splitOn c (joinWith [c] xs) = xs"
proof (induction xs rule: list_nonempty_induct)
  case (single x)
  then show ?case by (simp add: splitOn_no_sep)
next
  case (cons x xs)
  then show ?case by (simp add: joinWith_Cons splitOn_append_sep)
qed

definition padStart :: "nat \<Rightarrow> nat \<Rightarrow> jstr \<Rightarrow> jstr" where
  "padStart n c s = replicate (n - length s) c @ s"

text \<open>Rendering a number: \<open>String(n)\<close> and \<open>n.toString(radix)\<close> for non-negative integers.\<close>

definition digit_unit :: "nat \<Rightarrow> nat" where
  "digit_unit d = (if d < 10 then 0x30 + d else 0x61 + (d - 10))"

function radix_str :: "nat \<Rightarrow> nat \<Rightarrow> jstr" where
  "radix_str b n = (if b < 2 \<or> n < b then [digit_unit n] else radix_str b (n div b) @ [digit_unit (n mod b)])"
  by pat_completeness auto
termination
  by (relation "measure snd") auto

declare radix_str.simps [simp del]

definition nat_str :: "nat \<Rightarrow> jstr" where
  "nat_str n = radix_str 10 n"

definition int_str :: "int \<Rightarrow> jstr" where
  "int_str i = (if i < 0 then 0x2D # nat_str (nat (- i)) else nat_str (nat i))"

lemma nat_str_rec [js_eval]:
  "nat_str n = (if n < 10 then [0x30 + n] else nat_str (n div 10) @ [0x30 + n mod 10])"
  unfolding nat_str_def by (subst radix_str.simps) (simp add: digit_unit_def)

definition digit :: "nat \<Rightarrow> bool" where
  "digit c \<longleftrightarrow> 0x30 \<le> c \<and> c \<le> 0x39"

text \<open>The value of a digit string, as \<open>Number\<close> reads it.\<close>

definition digits_val :: "jstr \<Rightarrow> nat" where
  "digits_val ds = foldl (\<lambda>a c. 10 * a + (c - 0x30)) 0 ds"

lemma digits_val_Nil [simp]: "digits_val [] = 0"
  by (simp add: digits_val_def)

lemma digits_val_snoc: "digits_val (ds @ [c]) = 10 * digits_val ds + (c - 0x30)"
  by (simp add: digits_val_def)

lemma nat_str_induct [case_names small step]:
  assumes "\<And>n. n < 10 \<Longrightarrow> P n" and "\<And>n. 10 \<le> n \<Longrightarrow> P (n div 10) \<Longrightarrow> P n"
  shows "P (n::nat)"
proof (induction n rule: less_induct)
  case (less n)
  then show ?case using assms by (cases "n < 10") auto
qed

lemma digits_val_nat_str [simp]: "digits_val (nat_str n) = n"
proof (induction n rule: nat_str_induct)
  case (small n)
  then show ?case by (subst nat_str_rec) (simp add: digits_val_def)
next
  case (step n)
  then show ?case by (subst nat_str_rec) (simp add: digits_val_snoc)
qed

lemma digit_nat_str: "c \<in> set (nat_str n) \<Longrightarrow> digit c"
proof (induction n rule: nat_str_induct)
  case (small n)
  then show ?case using nat_str_rec [of n] by (auto simp: digit_def)
next
  case (step n)
  then show ?case using nat_str_rec [of n] by (auto simp: digit_def)
qed

lemma nat_str_nonempty [simp]: "nat_str n \<noteq> []"
  by (subst nat_str_rec) simp

lemma nat_str_inj [simp]: "nat_str m = nat_str n \<longleftrightarrow> m = n"
  by (metis digits_val_nat_str)

text \<open>
  \<open>table[key]\<close> on an object literal: an own property, a property inherited from
  \<open>Object.prototype\<close> (never nullish, never a string), or nothing.
\<close>

datatype 'a looked = Own 'a | Inherited | Absent

definition proto_names :: "jstr list" where
  "proto_names = map js [''constructor'', ''__defineGetter__'', ''__defineSetter__'', ''hasOwnProperty'',
     ''__lookupGetter__'', ''__lookupSetter__'', ''isPrototypeOf'', ''propertyIsEnumerable'', ''toString'',
     ''valueOf'', ''__proto__'', ''toLocaleString'']"

definition get_prop :: "(jstr \<times> 'a) list \<Rightarrow> jstr \<Rightarrow> 'a looked" where
  "get_prop t k = (case map_of t k of Some v \<Rightarrow> Own v
     | None \<Rightarrow> if k \<in> set proto_names then Inherited else Absent)"

lemma get_prop_Own: "get_prop t k = Own v \<longleftrightarrow> map_of t k = Some v"
  by (simp add: get_prop_def split: option.splits)

lemma get_prop_ordinary:
  "k \<notin> set proto_names \<Longrightarrow> get_prop t k = (case map_of t k of Some v \<Rightarrow> Own v | None \<Rightarrow> Absent)"
  by (simp add: get_prop_def split: option.splits)

lemma get_prop_Own_in: "get_prop t k = Own v \<Longrightarrow> (k, v) \<in> set t"
  by (simp add: get_prop_Own map_of_SomeD)

text \<open>A truthy string is a non-empty one; \<open>a || b\<close> and \<open>a ?? b\<close> on optional strings.\<close>

fun truthy :: "jstr option \<Rightarrow> bool" where
  "truthy None = False"
| "truthy (Some s) = (s \<noteq> [])"

definition orElse :: "jstr option \<Rightarrow> jstr option \<Rightarrow> jstr option" where
  "orElse a b = (if truthy a then a else b)"

definition nullish :: "'a option \<Rightarrow> 'a \<Rightarrow> 'a" where
  "nullish a b = (case a of None \<Rightarrow> b | Some v \<Rightarrow> v)"

lemma nullish_simps [simp]: "nullish None b = b" "nullish (Some v) b = v"
  by (simp_all add: nullish_def)

text \<open>\<open>`${value}`\<close>: an undefined value renders as the word.\<close>

definition tmpl :: "jstr option \<Rightarrow> jstr" where
  "tmpl v = nullish v (js ''undefined'')"

lemma tmpl_Some [simp]: "tmpl (Some s) = s"
  by (simp add: tmpl_def)

text \<open>Iteration over a string by code point: a surrogate pair counts once, a lone surrogate as itself.\<close>

definition high_surrogate :: "nat \<Rightarrow> bool" where
  "high_surrogate c \<longleftrightarrow> 0xD800 \<le> c \<and> c \<le> 0xDBFF"

definition low_surrogate :: "nat \<Rightarrow> bool" where
  "low_surrogate c \<longleftrightarrow> 0xDC00 \<le> c \<and> c \<le> 0xDFFF"

fun codePoints :: "jstr \<Rightarrow> nat list" where
  "codePoints [] = []"
| "codePoints [c] = [c]"
| "codePoints (c # d # s) =
     (if high_surrogate c \<and> low_surrogate d
      then (0x10000 + 0x400 * (c - 0xD800) + (d - 0xDC00)) # codePoints s
      else c # codePoints (d # s))"

lemma codePoints_eq_Nil [simp]: "codePoints s = [] \<longleftrightarrow> s = []"
  by (cases s rule: codePoints.cases) auto

lemma codePoints_bmp: "\<forall>c\<in>set s. \<not> high_surrogate c \<Longrightarrow> codePoints s = s"
  by (induction s rule: codePoints.induct) auto

lemma length_codePoints_le: "length (codePoints s) \<le> length s"
  by (induction s rule: codePoints.induct) auto

subsection \<open>Literals\<close>

lemma inj_js: "inj js"
  by (simp add: inj_def)

fun splitChar :: "char \<Rightarrow> string \<Rightarrow> string list" where
  "splitChar c [] = [[]]"
| "splitChar c (x # xs) = (if x = c then [] # splitChar c xs
     else (case splitChar c xs of [] \<Rightarrow> [[x]] | y # ys \<Rightarrow> (x # y) # ys))"

lemma splitOn_js: "splitOn (of_char c) (js s) = map js (splitChar c s)"
proof (induction s)
  case (Cons x s)
  then show ?case
    by (cases "splitChar c s") (auto simp: js_def of_char_eq_iff [where 'a = nat])
qed simp

lemma splitOn_js_colon: "splitOn 0x3A (js s) = map js (splitChar (CHR 0x3A) s)"
  using splitOn_js [of "CHR 0x3A" s] by simp

lemma splitOn_js_dot: "splitOn 0x2E (js s) = map js (splitChar (CHR 0x2E) s)"
  using splitOn_js [of "CHR 0x2E" s] by simp

end
