(* ===== verification/JsRegex.thy ===== *)
theory JsRegex
  imports Prelude
begin

text \<open>
  The regular expressions of the sources, as values of a datatype with the backtracking matcher
  of the language: \<^term>\<open>matches\<close> lists the ways a pattern matches a prefix of the input, in the
  order the engine tries them (alternatives from left to right, repetition greedily), each with
  the rest of the input and the captured groups. The patterns of the sources are anchored, so
  \<^term>\<open>rx_exec\<close> is the first way that uses up the input (\<open>^...$\<close>) and \<^term>\<open>rx_prefix\<close> a pattern
  anchored at the start only. Code units are compared one by one, since no pattern of the sources
  has the flag \<open>u\<close>. A repetition never iterates over an empty match, as in the language; captures
  inside a repetition, which the language resets at each iteration, are not read by any of these patterns.

  The lemmas relate the matcher to the language of the pattern (\<^term>\<open>rx_lang\<close>) and give the
  captures of the shapes the sources use.
\<close>

datatype cls = In "(nat \<times> nat) list" | NotIn "(nat \<times> nat) list"

fun in_cls :: "cls \<Rightarrow> nat \<Rightarrow> bool" where
  "in_cls (In rs) c = (\<exists>(lo, hi)\<in>set rs. lo \<le> c \<and> c \<le> hi)"
| "in_cls (NotIn rs) c = (\<not> (\<exists>(lo, hi)\<in>set rs. lo \<le> c \<and> c \<le> hi))"

lemma in_cls_single [simp]: "in_cls (In [(c, c)]) x \<longleftrightarrow> x = c"
  by auto

datatype rx = Eps | Unit cls | Cat rx rx | Or rx rx | Many rx | Group nat rx

type_synonym caps = "nat \<Rightarrow> jstr option"

definition no_caps :: caps where
  "no_caps = (\<lambda>_. None)"

function matches :: "rx \<Rightarrow> jstr \<Rightarrow> caps \<Rightarrow> (jstr \<times> caps) list" where
  "matches Eps s g = [(s, g)]"
| "matches (Unit k) s g = (case s of [] \<Rightarrow> [] | c # t \<Rightarrow> if in_cls k c then [(t, g)] else [])"
| "matches (Cat a b) s g = concat (map (\<lambda>(t, h). matches b t h) (matches a s g))"
| "matches (Or a b) s g = matches a s g @ matches b s g"
| "matches (Many a) s g =
     concat (map (\<lambda>(t, h). if length t < length s then matches (Many a) t h else []) (matches a s g)) @ [(s, g)]"
| "matches (Group n a) s g = map (\<lambda>(t, h). (t, h(n \<mapsto> take (length s - length t) s))) (matches a s g)"
  by pat_completeness auto
termination
  by (relation "measures [\<lambda>(r, s, g). size r, \<lambda>(r, s, g). length s]") auto

declare matches.simps(5) [simp del]

definition rx_exec :: "rx \<Rightarrow> jstr \<Rightarrow> caps option" where
  "rx_exec r s = map_option snd (find (\<lambda>(t, g). t = []) (matches r s no_caps))"

definition rx_test :: "rx \<Rightarrow> jstr \<Rightarrow> bool" where
  "rx_test r s \<longleftrightarrow> rx_exec r s \<noteq> None"

definition rx_prefix :: "rx \<Rightarrow> jstr \<Rightarrow> (jstr \<times> caps) option" where
  "rx_prefix r s = (case matches r s no_caps of [] \<Rightarrow> None | x # _ \<Rightarrow> Some x)"

text \<open>Shorthands of the pattern syntax.\<close>

fun rlit :: "jstr \<Rightarrow> rx" where
  "rlit [] = Eps"
| "rlit (c # s) = Cat (Unit (In [(c, c)])) (rlit s)"

fun rtimes :: "nat \<Rightarrow> rx \<Rightarrow> rx" where
  "rtimes 0 r = Eps"
| "rtimes (Suc n) r = Cat r (rtimes n r)"

fun rcat :: "rx list \<Rightarrow> rx" where
  "rcat [] = Eps"
| "rcat [r] = r"
| "rcat (r # rs) = Cat r (rcat rs)"

fun ralt :: "rx list \<Rightarrow> rx" where
  "ralt [] = Unit (In [])"
| "ralt [r] = r"
| "ralt (r # rs) = Or r (ralt rs)"

definition rplus :: "rx \<Rightarrow> rx" where
  "rplus r = Cat r (Many r)"

definition ropt :: "rx \<Rightarrow> rx" where
  "ropt r = Or r Eps"

definition rdigit :: rx where
  "rdigit = Unit (In [(0x30, 0x39)])"

definition rword :: rx where
  "rword = Unit (In [(0x41, 0x5A), (0x61, 0x7A), (0x30, 0x39), (0x5F, 0x5F)])"

definition rdot :: rx where
  "rdot = Unit (NotIn [(10, 10), (13, 13), (0x2028, 0x2029)])"

definition rany :: rx where
  "rany = Unit (NotIn [])"

text \<open>The language of a pattern.\<close>

inductive_set star_lang :: "jstr set \<Rightarrow> jstr set" for L where
  star_Nil: "[] \<in> star_lang L"
| star_step: "\<lbrakk>u \<in> L; u \<noteq> []; v \<in> star_lang L\<rbrakk> \<Longrightarrow> u @ v \<in> star_lang L"

fun rx_lang :: "rx \<Rightarrow> jstr set" where
  "rx_lang Eps = {[]}"
| "rx_lang (Unit k) = {[c] | c. in_cls k c}"
| "rx_lang (Cat a b) = {u @ v | u v. u \<in> rx_lang a \<and> v \<in> rx_lang b}"
| "rx_lang (Or a b) = rx_lang a \<union> rx_lang b"
| "rx_lang (Many a) = star_lang (rx_lang a)"
| "rx_lang (Group n a) = rx_lang a"

lemma matches_sound: "(t, h) \<in> set (matches r s g) \<Longrightarrow> \<exists>u\<in>rx_lang r. s = u @ t"
proof (induction r s g arbitrary: t h rule: matches.induct)
  case (2 k s g)
  then show ?case by (auto split: list.splits if_splits)
next
  case (3 a b s g)
  then obtain t1 h1 where 1: "(t1, h1) \<in> set (matches a s g)" and 2: "(t, h) \<in> set (matches b t1 h1)"
    by auto
  from "3.IH"(1) [OF 1] "3.IH"(2) [OF 1 refl 2] obtain u v
    where "u \<in> rx_lang a" "s = u @ t1" "v \<in> rx_lang b" "t1 = v @ t" by blast
  then have "u @ v \<in> rx_lang (Cat a b)" "s = (u @ v) @ t" by auto
  then show ?case by blast
next
  case (5 a s g)
  from "5.prems" consider "t = s"
    | t1 h1 where "(t1, h1) \<in> set (matches a s g)" "length t1 < length s" "(t, h) \<in> set (matches (Many a) t1 h1)"
    by (subst (asm) matches.simps(5)) (auto split: if_splits)
  then show ?case
  proof cases
    case 1
    then show ?thesis by (auto intro: star_Nil)
  next
    case 2
    from "5.IH"(1) [OF 2(1)] "5.IH"(2) [OF 2(1) refl 2(2,3)] obtain u v
      where "u \<in> rx_lang a" "s = u @ t1" "v \<in> star_lang (rx_lang a)" "t1 = v @ t" by auto
    with 2(2) have "u @ v \<in> star_lang (rx_lang a)" "s = (u @ v) @ t"
      by (auto intro: star_step)
    then show ?thesis by auto
  qed
next
  case (4 a b s g)
  then show ?case by (simp only: matches.simps set_append Un_iff rx_lang.simps) blast
qed auto

lemma matches_Many_end: "(s, g) \<in> set (matches (Many a) s g)"
  by (subst matches.simps(5)) simp

lemma matches_Many_step:
  "\<lbrakk>(t1, h1) \<in> set (matches a s g); length t1 < length s; (t, h) \<in> set (matches (Many a) t1 h1)\<rbrakk>
   \<Longrightarrow> (t, h) \<in> set (matches (Many a) s g)"
  by (subst matches.simps(5)) (simp, blast)

lemma matches_complete: "u \<in> rx_lang r \<Longrightarrow> \<exists>h. (t, h) \<in> set (matches r (u @ t) g)"
proof (induction r arbitrary: u t g)
  case (Cat a b)
  from Cat.prems obtain v w where uvw: "u = v @ w" "v \<in> rx_lang a" "w \<in> rx_lang b" by auto
  obtain h1 where 1: "(w @ t, h1) \<in> set (matches a (v @ w @ t) g)" using Cat.IH(1) uvw by blast
  obtain h2 where 2: "(t, h2) \<in> set (matches b (w @ t) h1)" using Cat.IH(2) uvw by blast
  from 1 2 uvw(1) show ?case by force
next
  case (Many a)
  from Many.prems have "u \<in> star_lang (rx_lang a)" by simp
  then show ?case
  proof (induction arbitrary: g)
    case star_Nil
    then show ?case using matches_Many_end by fastforce
  next
    case (star_step v w)
    from Many.IH [OF star_step.hyps(1)] obtain h1
      where 1: "(w @ t, h1) \<in> set (matches a (v @ (w @ t)) g)" by blast
    from star_step.IH obtain h where "(t, h) \<in> set (matches (Many a) (w @ t) h1)" by blast
    with 1 star_step.hyps(2) have "(t, h) \<in> set (matches (Many a) (v @ w @ t) g)"
      by (intro matches_Many_step [OF 1]) auto
    then show ?case by auto
  qed
next
  case (Or a b)
  then show ?case by fastforce
next
  case (Group n a)
  then obtain h where "(t, h) \<in> set (matches a (u @ t) g)" by force
  then have "(t, h(n \<mapsto> take (length (u @ t) - length t) (u @ t))) \<in> set (matches (Group n a) (u @ t) g)"
    unfolding matches.simps set_map by (rule rev_image_eqI) simp
  then show ?case by blast
qed auto

lemma rx_exec_Some: "rx_exec r s = Some g \<Longrightarrow> ([], g) \<in> set (matches r s no_caps)"
  unfolding rx_exec_def by (auto simp: find_Some_iff) (metis nth_mem)

theorem rx_test_lang: "rx_test r s \<longleftrightarrow> s \<in> rx_lang r"
proof
  assume "rx_test r s"
  then obtain g where "([], g) \<in> set (matches r s no_caps)"
    unfolding rx_test_def using rx_exec_Some by blast
  then show "s \<in> rx_lang r" using matches_sound by fastforce
next
  assume "s \<in> rx_lang r"
  then obtain h where "([], h) \<in> set (matches r s no_caps)"
    using matches_complete [of s r "[]"] by auto
  then show "rx_test r s"
    unfolding rx_test_def rx_exec_def by (auto simp: find_None_iff)
qed

lemma rx_exec_None: "rx_exec r s = None \<longleftrightarrow> s \<notin> rx_lang r"
  using rx_test_lang [of r s] unfolding rx_test_def by blast

text \<open>Languages of the shorthands.\<close>

lemma rx_lang_Cat_Unit: "s \<in> rx_lang (Cat (Unit k) r) \<longleftrightarrow> (\<exists>c t. s = c # t \<and> in_cls k c \<and> t \<in> rx_lang r)"
proof -
  have "s \<in> rx_lang (Cat (Unit k) r) \<longleftrightarrow> (\<exists>c v. s = [c] @ v \<and> in_cls k c \<and> v \<in> rx_lang r)"
    by (simp only: rx_lang.simps) blast
  then show ?thesis by simp
qed

lemma rx_lang_rlit [simp]: "rx_lang (rlit w) = {w}"
proof (induction w)
  case (Cons c w)
  have "s \<in> rx_lang (rlit (c # w)) \<longleftrightarrow> s = c # w" for s
    unfolding rlit.simps rx_lang_Cat_Unit in_cls_single Cons by blast
  then show ?case by blast
qed simp

lemma star_lang_Unit: "star_lang {[c] | c. P c} = {s. \<forall>c\<in>set s. P c}" (is "?A = ?B")
proof
  show "?A \<subseteq> ?B"
  proof
    fix s assume "s \<in> ?A" then show "s \<in> ?B" by induction auto
  qed
  show "?B \<subseteq> ?A"
  proof
    fix s assume "s \<in> ?B" then show "s \<in> ?A"
    proof (induction s)
      case (Cons c s)
      then have "[c] @ s \<in> ?A" by (intro star_step) auto
      then show ?case by simp
    qed (auto intro: star_Nil)
  qed
qed

lemma rx_lang_Many_Unit [simp]: "rx_lang (Many (Unit k)) = {s. \<forall>c\<in>set s. in_cls k c}"
  by (simp add: star_lang_Unit)

lemma rx_lang_rplus_Unit [simp]: "rx_lang (rplus (Unit k)) = {s. s \<noteq> [] \<and> (\<forall>c\<in>set s. in_cls k c)}"
proof -
  have "s \<in> rx_lang (rplus (Unit k)) \<longleftrightarrow> s \<noteq> [] \<and> (\<forall>c\<in>set s. in_cls k c)" for s
    unfolding rplus_def rx_lang_Cat_Unit by (cases s) (simp_all del: rx_lang.simps)
  then show ?thesis by blast
qed

lemma rx_lang_rtimes_Unit [simp]:
  "rx_lang (rtimes n (Unit k)) = {s. length s = n \<and> (\<forall>c\<in>set s. in_cls k c)}"
proof (induction n)
  case (Suc n)
  have "s \<in> rx_lang (rtimes (Suc n) (Unit k)) \<longleftrightarrow> length s = Suc n \<and> (\<forall>c\<in>set s. in_cls k c)" for s
    unfolding rtimes.simps rx_lang_Cat_Unit using Suc by (cases s) auto
  then show ?case by blast
qed auto

text \<open>
  Matching step by step: a literal, a class, and a greedy run of a class, for the proofs that
  need the captures and not only the language.
\<close>

lemma matches_rlit: "matches (rlit w) s g = (if prefix w s then [(drop (length w) s, g)] else [])"
proof (induction w arbitrary: s)
  case (Cons c w)
  then show ?case by (cases s) (auto simp: Cons_prefix_Cons)
qed simp

lemma matches_Cat_rlit:
  "matches (Cat (rlit w) r) s g = (if prefix w s then matches r (drop (length w) s) g else [])"
  by (simp add: matches_rlit)

text \<open>Captures a pattern does not mention are left alone.\<close>

fun groups :: "rx \<Rightarrow> nat set" where
  "groups Eps = {}"
| "groups (Unit k) = {}"
| "groups (Cat a b) = groups a \<union> groups b"
| "groups (Or a b) = groups a \<union> groups b"
| "groups (Many a) = groups a"
| "groups (Group n a) = insert n (groups a)"

lemma matches_frame: "(t, h) \<in> set (matches r s g) \<Longrightarrow> n \<notin> groups r \<Longrightarrow> h n = g n"
proof (induction r s g arbitrary: t h rule: matches.induct)
  case (2 k s g)
  then show ?case by (auto split: list.splits if_splits)
next
  case (3 a b s g)
  then show ?case by fastforce
next
  case (5 a s g)
  from "5.prems"(1) consider "h = g"
    | t1 h1 where "(t1, h1) \<in> set (matches a s g)" "length t1 < length s" "(t, h) \<in> set (matches (Many a) t1 h1)"
    by (subst (asm) matches.simps(5)) (auto split: if_splits)
  then show ?case
  proof cases
    case 2
    then show ?thesis
      using "5.IH"(1) [OF 2(1)] "5.IH"(2) [OF 2(1) refl 2(2,3)] "5.prems"(2) by simp
  qed simp
qed auto

lemma matches_Group: "(t, h) \<in> set (matches (Group n a) s g) \<Longrightarrow>
  \<exists>u. u \<in> rx_lang a \<and> s = u @ t \<and> h n = Some u"
  by (fastforce dest: matches_sound)

lemma matches_suffix: "(t, h) \<in> set (matches r s g) \<Longrightarrow> length t \<le> length s"
  by (auto dest!: matches_sound)

end
