(* ===== verification/JsUrl.thy ===== *)
theory JsUrl
  imports Prelude
begin

text \<open>
  The platform's \<open>URLSearchParams\<close> and \<open>encodeURIComponent\<close>, as the sources use them: an ordered
  list of name and value pairs, the form-urlencoded parser and serializer over UTF-8 bytes, and
  the component encoder, which fails on a lone surrogate. The main result is that parsing what
  the serializer wrote gives the pairs back.
\<close>

subsection \<open>UTF-16 and UTF-8\<close>

definition well_formed :: "jstr \<Rightarrow> bool" where
  "well_formed s \<longleftrightarrow> (\<forall>c\<in>set (codePoints s). c < 0x110000 \<and> \<not> high_surrogate c \<and> \<not> low_surrogate c)"

definition scalar :: "nat \<Rightarrow> bool" where
  "scalar c \<longleftrightarrow> c < 0x110000 \<and> \<not> high_surrogate c \<and> \<not> low_surrogate c"

definition units_of :: "nat \<Rightarrow> jstr" where
  "units_of c = (if c < 0x10000 then [c]
     else [0xD800 + (c - 0x10000) div 0x400, 0xDC00 + (c - 0x10000) mod 0x400])"

definition to_units :: "nat list \<Rightarrow> jstr" where
  "to_units cs = concat (map units_of cs)"

text \<open>A string as the sequence of scalar values the URL code works on.\<close>

definition usv :: "jstr \<Rightarrow> nat list" where
  "usv s = map (\<lambda>c. if high_surrogate c \<or> low_surrogate c then 0xFFFD else c) (codePoints s)"

definition utf8_char :: "nat \<Rightarrow> nat list" where
  "utf8_char c =
     (if c < 0x80 then [c]
      else if c < 0x800 then [0xC0 + c div 0x40, 0x80 + c mod 0x40]
      else if c < 0x10000 then [0xE0 + c div 0x1000, 0x80 + c div 0x40 mod 0x40, 0x80 + c mod 0x40]
      else [0xF0 + c div 0x40000, 0x80 + c div 0x1000 mod 0x40, 0x80 + c div 0x40 mod 0x40, 0x80 + c mod 0x40])"

definition utf8_encode :: "nat list \<Rightarrow> nat list" where
  "utf8_encode cs = concat (map utf8_char cs)"

text \<open>
  The decoder of the Encoding standard: \<open>need\<close> continuation bytes are missing, the next one must
  lie between \<open>lo\<close> and \<open>hi\<close>; a byte that does not fit ends the sequence with U+FFFD and is read again.
\<close>

function utf8_dec :: "nat \<Rightarrow> nat \<Rightarrow> nat \<Rightarrow> nat \<Rightarrow> nat list \<Rightarrow> nat list" where
  "utf8_dec need lo hi cp [] = (if need = 0 then [] else [0xFFFD])"
| "utf8_dec need lo hi cp (b # bs) =
     (if need = 0 then
        (if b < 0x80 then b # utf8_dec 0 0x80 0xBF 0 bs
         else if 0xC2 \<le> b \<and> b \<le> 0xDF then utf8_dec 1 0x80 0xBF (b - 0xC0) bs
         else if 0xE0 \<le> b \<and> b \<le> 0xEF then
           utf8_dec 2 (if b = 0xE0 then 0xA0 else 0x80) (if b = 0xED then 0x9F else 0xBF) (b - 0xE0) bs
         else if 0xF0 \<le> b \<and> b \<le> 0xF4 then
           utf8_dec 3 (if b = 0xF0 then 0x90 else 0x80) (if b = 0xF4 then 0x8F else 0xBF) (b - 0xF0) bs
         else 0xFFFD # utf8_dec 0 0x80 0xBF 0 bs)
      else if b < lo \<or> hi < b then 0xFFFD # utf8_dec 0 0x80 0xBF 0 (b # bs)
      else if need = 1 then (cp * 0x40 + (b - 0x80)) # utf8_dec 0 0x80 0xBF 0 bs
      else utf8_dec (need - 1) 0x80 0xBF (cp * 0x40 + (b - 0x80)) bs)"
  by pat_completeness auto
termination
  by (relation "measures [\<lambda>(need, lo, hi, cp, bs). length bs, \<lambda>(need, lo, hi, cp, bs). need]") auto

declare utf8_dec.simps(2) [simp del]

definition utf8_decode :: "nat list \<Rightarrow> nat list" where
  "utf8_decode bs = utf8_dec 0 0x80 0xBF 0 bs"

lemma utf8_dec_cont:
  "\<lbrakk>lo \<le> b; b \<le> hi\<rbrakk> \<Longrightarrow> utf8_dec (Suc (Suc n)) lo hi cp (b # bs) = utf8_dec (Suc n) 0x80 0xBF (cp * 0x40 + (b - 0x80)) bs"
  by (subst utf8_dec.simps) simp

lemma utf8_dec_last:
  "\<lbrakk>lo \<le> b; b \<le> hi\<rbrakk> \<Longrightarrow> utf8_dec (Suc 0) lo hi cp (b # bs) = (cp * 0x40 + (b - 0x80)) # utf8_dec 0 0x80 0xBF 0 bs"
  by (subst utf8_dec.simps) simp

lemma utf8_dec_char1: "c < 0x80 \<Longrightarrow> utf8_dec 0 lo hi cp (c # bs) = c # utf8_dec 0 0x80 0xBF 0 bs"
  by (subst utf8_dec.simps) simp

lemma utf8_dec_char2:
  assumes "0x80 \<le> c" "c < 0x800"
  shows "utf8_dec 0 lo hi cp ((0xC0 + c div 0x40) # (0x80 + c mod 0x40) # bs) = c # utf8_dec 0 0x80 0xBF 0 bs"
proof -
  have z: "c mod 0x40 < 0x40" by simp
  have "2 \<le> c div 0x40" "c div 0x40 < 0x20" using assms by (auto simp: less_eq_div_iff_mult_less_eq div_less_iff_less_mult)
  then have "utf8_dec 0 lo hi cp ((0xC0 + c div 0x40) # (0x80 + c mod 0x40) # bs)
      = utf8_dec (Suc 0) 0x80 0xBF (c div 0x40) ((0x80 + c mod 0x40) # bs)"
    by (subst utf8_dec.simps) simp
  also have "\<dots> = (c div 0x40 * 0x40 + c mod 0x40) # utf8_dec 0 0x80 0xBF 0 bs"
    using z by (subst utf8_dec_last) auto
  also have "c div 0x40 * 0x40 + c mod 0x40 = c" by (rule div_mult_mod_eq)
  finally show ?thesis .
qed

lemma utf8_dec_seq3:
  assumes c: "c = (x * 0x40 + y) * 0x40 + z" and y: "y < 0x40" and z: "z < 0x40"
    and r: "0x800 \<le> c" "c < 0x10000" "scalar c"
  shows "utf8_dec 0 lo hi cp ((0xE0 + x) # (0x80 + y) # (0x80 + z) # bs) = c # utf8_dec 0 0x80 0xBF 0 bs"
proof -
  have "x * 0x1000 \<le> c" using c by (simp add: algebra_simps)
  then have x: "x < 0x10" using r(2) by simp
  have y0: "x = 0 \<Longrightarrow> 0x20 \<le> y" using r(1) c y z by auto
  have yd: "x = 0xD \<Longrightarrow> y \<le> 0x1F"
    using r(3) c y z by (auto simp: scalar_def high_surrogate_def low_surrogate_def)
  define l h where "l = (if 0xE0 + x = 0xE0 then 0xA0 else 0x80::nat)" "h = (if 0xE0 + x = 0xED then 0x9F else 0xBF::nat)"
  have "utf8_dec 0 lo hi cp ((0xE0 + x) # (0x80 + y) # (0x80 + z) # bs)
      = utf8_dec (Suc (Suc 0)) l h x ((0x80 + y) # (0x80 + z) # bs)"
    using x by (subst utf8_dec.simps) (simp add: l_h_def numeral_2_eq_2)
  also have "\<dots> = utf8_dec (Suc 0) 0x80 0xBF (x * 0x40 + y) ((0x80 + z) # bs)"
    using y y0 yd by (subst utf8_dec_cont) (auto simp: l_h_def)
  also have "\<dots> = c # utf8_dec 0 0x80 0xBF 0 bs"
    using z c by (subst utf8_dec_last) auto
  finally show ?thesis .
qed

lemma utf8_dec_seq4:
  assumes c: "c = ((w * 0x40 + x) * 0x40 + y) * 0x40 + z" and b: "x < 0x40" "y < 0x40" "z < 0x40"
    and r: "0x10000 \<le> c" "c < 0x110000"
  shows "utf8_dec 0 lo hi cp ((0xF0 + w) # (0x80 + x) # (0x80 + y) # (0x80 + z) # bs) = c # utf8_dec 0 0x80 0xBF 0 bs"
proof -
  have "w * 0x40000 \<le> c" using c by (simp add: algebra_simps)
  then have w: "w \<le> 4" using r(2) by simp
  have w0: "w = 0 \<Longrightarrow> 0x10 \<le> x" using r(1) c b by auto
  have w4: "w = 4 \<Longrightarrow> x \<le> 0xF" using r(2) c b by auto
  define l h where "l = (if 0xF0 + w = 0xF0 then 0x90 else 0x80::nat)" "h = (if 0xF0 + w = 0xF4 then 0x8F else 0xBF::nat)"
  have "utf8_dec 0 lo hi cp ((0xF0 + w) # (0x80 + x) # (0x80 + y) # (0x80 + z) # bs)
      = utf8_dec (Suc (Suc (Suc 0))) l h w ((0x80 + x) # (0x80 + y) # (0x80 + z) # bs)"
    using w by (subst utf8_dec.simps) (simp add: l_h_def numeral_3_eq_3)
  also have "\<dots> = utf8_dec (Suc (Suc 0)) 0x80 0xBF (w * 0x40 + x) ((0x80 + y) # (0x80 + z) # bs)"
    using b w0 w4 by (subst utf8_dec_cont) (auto simp: l_h_def)
  also have "\<dots> = utf8_dec (Suc 0) 0x80 0xBF ((w * 0x40 + x) * 0x40 + y) ((0x80 + z) # bs)"
    using b by (subst utf8_dec_cont) auto
  also have "\<dots> = c # utf8_dec 0 0x80 0xBF 0 bs"
    using b c by (subst utf8_dec_last) auto
  finally show ?thesis .
qed

lemma base64_digits:
  "(c::nat) = (c div 0x1000 * 0x40 + c div 0x40 mod 0x40) * 0x40 + c mod 0x40"
  "(c::nat) = ((c div 0x40000 * 0x40 + c div 0x1000 mod 0x40) * 0x40 + c div 0x40 mod 0x40) * 0x40 + c mod 0x40"
proof -
  have 1: "c = c div 0x40 * 0x40 + c mod 0x40"
    and 2: "c div 0x40 = c div 0x1000 * 0x40 + c div 0x40 mod 0x40"
    and 3: "c div 0x1000 = c div 0x40000 * 0x40 + c div 0x1000 mod 0x40"
    using div_mult_mod_eq [of c "0x40"] div_mult_mod_eq [of "c div 0x40" "0x40"] div_mult_mod_eq [of "c div 0x1000" "0x40"]
    by (simp_all add: div_mult2_eq [symmetric])
  show "c = (c div 0x1000 * 0x40 + c div 0x40 mod 0x40) * 0x40 + c mod 0x40"
    using 1 2 by metis
  show "c = ((c div 0x40000 * 0x40 + c div 0x1000 mod 0x40) * 0x40 + c div 0x40 mod 0x40) * 0x40 + c mod 0x40"
    using 1 2 3 by metis
qed

lemmas utf8_dec_char3 = utf8_dec_seq3 [OF base64_digits(1)]
lemmas utf8_dec_char4 = utf8_dec_seq4 [OF base64_digits(2)]

lemma utf8_roundtrip: "\<forall>c\<in>set cs. scalar c \<Longrightarrow> utf8_decode (utf8_encode cs) = cs"
proof (induction cs)
  case (Cons c cs)
  then have s: "scalar c" and IH: "utf8_dec 0 0x80 0xBF 0 (utf8_encode cs) = cs"
    by (simp_all add: utf8_decode_def)
  have "utf8_dec 0 0x80 0xBF 0 (utf8_char c @ utf8_encode cs) = c # utf8_dec 0 0x80 0xBF 0 (utf8_encode cs)"
    unfolding utf8_char_def
    using s by (auto simp: utf8_dec_char1 utf8_dec_char2 utf8_dec_char3 utf8_dec_char4 scalar_def)
  with IH show ?case by (simp add: utf8_decode_def utf8_encode_def)
qed (simp add: utf8_decode_def utf8_encode_def)

lemma utf8_encode_bytes: "\<lbrakk>\<forall>c\<in>set cs. c < 0x110000; b \<in> set (utf8_encode cs)\<rbrakk> \<Longrightarrow> b < 0x100"
  by (auto simp: utf8_encode_def utf8_char_def div_less_iff_less_mult split: if_splits)

subsection \<open>Percent encoding\<close>

definition hex_unit :: "nat \<Rightarrow> nat" where
  "hex_unit d = (if d < 10 then 0x30 + d else 0x41 + (d - 10))"

definition hex_val :: "nat \<Rightarrow> nat option" where
  "hex_val c = (if 0x30 \<le> c \<and> c \<le> 0x39 then Some (c - 0x30)
     else if 0x41 \<le> c \<and> c \<le> 0x46 then Some (c - 0x41 + 10)
     else if 0x61 \<le> c \<and> c \<le> 0x66 then Some (c - 0x61 + 10) else None)"

lemma hex_val_unit [simp]: "d < 16 \<Longrightarrow> hex_val (hex_unit d) = Some d"
  by (auto simp: hex_val_def hex_unit_def)

definition alnum :: "nat \<Rightarrow> bool" where
  "alnum c \<longleftrightarrow> 0x30 \<le> c \<and> c \<le> 0x39 \<or> 0x41 \<le> c \<and> c \<le> 0x5A \<or> 0x61 \<le> c \<and> c \<le> 0x7A"

definition pct :: "nat \<Rightarrow> jstr" where
  "pct b = [0x25, hex_unit (b div 16), hex_unit (b mod 16)]"

text \<open>The form serializer keeps \<open>* - . _\<close> and alphanumerics and writes a space as \<open>+\<close>.\<close>

definition form_byte :: "nat \<Rightarrow> jstr" where
  "form_byte b = (if b = 0x20 then [0x2B] else if alnum b \<or> b \<in> {0x2A, 0x2D, 0x2E, 0x5F} then [b] else pct b)"

definition form_encode :: "jstr \<Rightarrow> jstr" where
  "form_encode s = concat (map form_byte (utf8_encode (usv s)))"

fun percent_decode :: "nat list \<Rightarrow> nat list" where
  "percent_decode (a # b # c # bs) =
     (if a = 0x25 then (case (hex_val b, hex_val c) of
          (Some h, Some l) \<Rightarrow> (16 * h + l) # percent_decode bs
        | _ \<Rightarrow> a # percent_decode (b # c # bs))
      else a # percent_decode (b # c # bs))"
| "percent_decode bs = bs"

definition form_decode :: "nat list \<Rightarrow> jstr" where
  "form_decode bs = to_units (utf8_decode (percent_decode (replaceUnit 0x2B 0x20 bs)))"

lemma percent_decode_plain: "a \<noteq> 0x25 \<Longrightarrow> percent_decode (a # bs) = a # percent_decode bs"
  by (cases bs rule: percent_decode.cases) auto

lemma percent_decode_pct: "b < 0x100 \<Longrightarrow> percent_decode (pct b @ bs) = b # percent_decode bs"
proof -
  assume b: "b < 0x100"
  then have "b div 16 < 16" "b mod 16 < 16" by (simp_all add: div_less_iff_less_mult)
  then show ?thesis by (simp add: pct_def)
qed

lemma form_byte_decode: "b < 0x100 \<Longrightarrow>
  percent_decode (replaceUnit 0x2B 0x20 (form_byte b) @ bs) = b # percent_decode bs"
proof -
  assume b: "b < 0x100"
  have "hex_unit d \<noteq> 0x2B" for d by (simp add: hex_unit_def)
  then have "replaceUnit 0x2B 0x20 (pct b) = pct b" by (simp add: replaceUnit_def pct_def)
  moreover have "alnum b \<Longrightarrow> b \<noteq> 0x25 \<and> b \<noteq> 0x2B" by (auto simp: alnum_def)
  ultimately show ?thesis
    using percent_decode_pct [OF b]
    by (auto simp: form_byte_def percent_decode_plain replaceUnit_def)
qed

lemma form_bytes_decode: "\<forall>b\<in>set bs. b < 0x100 \<Longrightarrow>
  percent_decode (replaceUnit 0x2B 0x20 (concat (map form_byte bs))) = bs"
proof (induction bs)
  case (Cons b bs)
  then show ?case
    using form_byte_decode [of b "replaceUnit 0x2B 0x20 (concat (map form_byte bs))"]
    by (simp add: replaceUnit_def)
qed (simp add: replaceUnit_def)

text \<open>Well-formed strings survive the way through code points and back.\<close>

lemma to_units_codePoints:
  "\<lbrakk>\<forall>c\<in>set s. c < 0x10000; well_formed s\<rbrakk> \<Longrightarrow> to_units (codePoints s) = s"
proof (induction s rule: codePoints.induct)
  case (3 c d s)
  show ?case
  proof (cases "high_surrogate c \<and> low_surrogate d")
    case True
    then have h: "0xD800 \<le> c" "c \<le> 0xDBFF" "0xDC00 \<le> d" "d \<le> 0xDFFF"
      by (simp_all add: high_surrogate_def low_surrogate_def)
    have "(0x400 * (c - 0xD800) + (d - 0xDC00)) div 0x400 = c - 0xD800"
      "(0x400 * (c - 0xD800) + (d - 0xDC00)) mod 0x400 = d - 0xDC00"
      using h(3,4) by (auto simp del: diff_add_assoc diff_add_assoc2 add_diff_assoc add_diff_assoc2)
    then have "units_of (0x10000 + 0x400 * (c - 0xD800) + (d - 0xDC00)) = [c, d]"
      using h by (simp add: units_of_def add.assoc)
    with "3.IH"(1) [OF True] "3.prems" True show ?thesis
      by (simp add: to_units_def well_formed_def)
  next
    case False
    with "3.IH"(2) [OF False] "3.prems" show ?thesis
      by (auto simp: to_units_def well_formed_def units_of_def)
  qed
qed (auto simp: to_units_def units_of_def)

definition unicode :: "jstr \<Rightarrow> bool" where
  "unicode s \<longleftrightarrow> (\<forall>c\<in>set s. c < 0x10000) \<and> well_formed s"

lemma usv_unicode: "unicode s \<Longrightarrow> usv s = codePoints s"
  by (auto simp: unicode_def well_formed_def usv_def intro!: map_idI)

lemma unicode_Nil [simp]: "unicode []"
  by (simp add: unicode_def well_formed_def)

lemma unicode_ascii: "\<forall>c\<in>set s. c < 0x100 \<Longrightarrow> unicode s"
  unfolding unicode_def well_formed_def
  by (subst codePoints_bmp) (auto simp: high_surrogate_def low_surrogate_def)

lemma unicode_js [simp]: "unicode (js w)"
  by (intro unicode_ascii ballI) (simp add: js_less_256)

lemma form_roundtrip: "unicode s \<Longrightarrow> form_decode (form_encode s) = s"
proof -
  assume s: "unicode s"
  then have sc: "\<forall>c\<in>set (codePoints s). scalar c"
    by (simp add: unicode_def well_formed_def scalar_def)
  then have "\<forall>b\<in>set (utf8_encode (codePoints s)). b < 0x100"
    using utf8_encode_bytes by (auto simp: scalar_def)
  with s sc show ?thesis
    by (simp add: form_decode_def form_encode_def usv_unicode form_bytes_decode utf8_roundtrip
        to_units_codePoints unicode_def)
qed

text \<open>What the serializer writes never contains a separator.\<close>

definition form_safe :: "nat \<Rightarrow> bool" where
  "form_safe c \<longleftrightarrow> alnum c \<or> c \<in> {0x2A, 0x2D, 0x2E, 0x5F, 0x2B, 0x25}"

lemma hex_unit_alnum: "d < 16 \<Longrightarrow> alnum (hex_unit d)"
  by (auto simp: hex_unit_def alnum_def)

lemma form_byte_safe: "\<lbrakk>b < 0x100; c \<in> set (form_byte b)\<rbrakk> \<Longrightarrow> form_safe c"
  by (auto simp: form_byte_def form_safe_def pct_def hex_unit_alnum div_less_iff_less_mult split: if_splits)

lemma usv_bound: "\<forall>c\<in>set s. c < 0x10000 \<Longrightarrow> \<forall>c\<in>set (usv s). c < 0x110000"
proof -
  assume "\<forall>c\<in>set s. c < 0x10000"
  then have "\<forall>c\<in>set (codePoints s). c < 0x110000"
    by (induction s rule: codePoints.induct) (auto simp: high_surrogate_def low_surrogate_def)
  then show ?thesis by (auto simp: usv_def)
qed

lemma form_encode_safe: "\<lbrakk>\<forall>c\<in>set s. c < 0x10000; c \<in> set (form_encode s)\<rbrakk> \<Longrightarrow> form_safe c"
  using form_byte_safe utf8_encode_bytes [OF usv_bound, of s] unfolding form_encode_def by fastforce

subsection \<open>URLSearchParams\<close>

type_synonym params = "(jstr \<times> jstr) list"

definition form_pair :: "nat list \<Rightarrow> jstr \<times> jstr" where
  "form_pair bs = (form_decode (takeWhile (\<lambda>b. b \<noteq> 0x3D) bs),
     form_decode (drop 1 (dropWhile (\<lambda>b. b \<noteq> 0x3D) bs)))"

text \<open>The constructor on a string: one leading question mark is dropped.\<close>

definition parse_params :: "jstr \<Rightarrow> params" where
  "parse_params s =
     (let t = (case s of [] \<Rightarrow> [] | c # u \<Rightarrow> if c = 0x3F then u else s)
      in map form_pair (filter (\<lambda>p. p \<noteq> []) (splitOn 0x26 (utf8_encode (usv t)))))"

definition params_str :: "params \<Rightarrow> jstr" where
  "params_str ps = joinWith [0x26] (map (\<lambda>(k, v). form_encode k @ 0x3D # form_encode v) ps)"

fun params_set :: "jstr \<Rightarrow> jstr \<Rightarrow> params \<Rightarrow> params" where
  "params_set k v [] = [(k, v)]"
| "params_set k v ((k', v') # ps) =
     (if k' = k then (k, v) # filter (\<lambda>p. fst p \<noteq> k) ps else (k', v') # params_set k v ps)"

definition params_delete :: "jstr \<Rightarrow> params \<Rightarrow> params" where
  "params_delete k ps = filter (\<lambda>p. fst p \<noteq> k) ps"

definition params_get :: "params \<Rightarrow> jstr \<Rightarrow> jstr option" where
  "params_get ps k = map_of ps k"

definition params_getAll :: "params \<Rightarrow> jstr \<Rightarrow> jstr list" where
  "params_getAll ps k = map snd (filter (\<lambda>p. fst p = k) ps)"

definition params_keys :: "params \<Rightarrow> jstr list" where
  "params_keys ps = map fst ps"

lemma params_get_set [simp]: "params_get (params_set k v ps) k' = (if k' = k then Some v else params_get ps k')"
proof -
  have "map_of (filter (\<lambda>p. fst p \<noteq> k) ps) k' = (if k' = k then None else map_of ps k')" for ps :: params
    by (induction ps) auto
  then show ?thesis
    unfolding params_get_def by (induction k v ps rule: params_set.induct) auto
qed

lemma params_get_delete [simp]: "params_get (params_delete k ps) k' = (if k' = k then None else params_get ps k')"
  unfolding params_get_def params_delete_def by (induction ps) auto

lemma params_get_Nil [simp]: "params_get [] k = None"
  by (simp add: params_get_def)

definition unicode_params :: "params \<Rightarrow> bool" where
  "unicode_params ps \<longleftrightarrow> (\<forall>(k, v)\<in>set ps. unicode k \<and> unicode v)"

lemma unicode_params_set: "\<lbrakk>unicode_params ps; unicode k; unicode v\<rbrakk> \<Longrightarrow> unicode_params (params_set k v ps)"
  unfolding unicode_params_def by (induction k v ps rule: params_set.induct) auto

lemma ascii_usv: "\<forall>c\<in>set s. c < 0x80 \<Longrightarrow> utf8_encode (usv s) = s"
proof -
  assume a: "\<forall>c\<in>set s. c < 0x80"
  then have "usv s = s"
    unfolding usv_def by (subst codePoints_bmp)
      (auto simp: high_surrogate_def low_surrogate_def intro!: map_idI)
  moreover have "utf8_encode s = s"
    using a unfolding utf8_encode_def by (induction s) (simp_all add: utf8_char_def)
  ultimately show ?thesis by simp
qed

lemma form_safe_ascii: "form_safe c \<Longrightarrow> c < 0x80 \<and> c \<noteq> 0x26 \<and> c \<noteq> 0x3D \<and> c \<noteq> 0x3F"
  by (auto simp: form_safe_def alnum_def)

lemma form_pair_roundtrip:
  assumes "unicode k" "unicode v"
  shows "form_pair (form_encode k @ 0x3D # form_encode v) = (k, v)"
proof -
  have "\<forall>c\<in>set (form_encode k). c \<noteq> 0x3D"
    using form_encode_safe form_safe_ascii assms(1) unfolding unicode_def by blast
  then show ?thesis
    by (simp add: form_pair_def form_roundtrip [OF assms(1)] form_roundtrip [OF assms(2)]
        takeWhile_append2 dropWhile_append2)
qed

theorem params_roundtrip: "unicode_params ps \<Longrightarrow> parse_params (params_str ps) = ps"
proof (cases "ps = []")
  case True
  then show ?thesis by (simp add: parse_params_def params_str_def usv_def utf8_encode_def)
next
  case False
  assume u: "unicode_params ps"
  let ?w = "\<lambda>(k, v). form_encode k @ 0x3D # form_encode v"
  let ?ws = "map ?w ps"
  have pair: "\<forall>x\<in>set ?ws. x \<noteq> [] \<and> hd x \<noteq> 0x3F \<and> (\<forall>c\<in>set x. c < 0x80 \<and> c \<noteq> 0x26)"
  proof
    fix x assume "x \<in> set ?ws"
    then obtain k v where kv: "(k, v) \<in> set ps" and x: "x = form_encode k @ 0x3D # form_encode v" by auto
    from u kv have "\<forall>c\<in>set (form_encode k) \<union> set (form_encode v). form_safe c"
      using form_encode_safe unfolding unicode_params_def unicode_def by blast
    then have s: "\<forall>c\<in>set (form_encode k) \<union> set (form_encode v). c < 0x80 \<and> c \<noteq> 0x26 \<and> c \<noteq> 0x3F"
      using form_safe_ascii by blast
    then have "hd x \<noteq> 0x3F" unfolding x by (cases "form_encode k") auto
    with s show "x \<noteq> [] \<and> hd x \<noteq> 0x3F \<and> (\<forall>c\<in>set x. c < 0x80 \<and> c \<noteq> 0x26)"
      unfolding x by auto
  qed
  have "set (joinWith [0x26] xs) \<subseteq> insert 0x26 (\<Union>(set ` set xs))" for xs :: "nat list list"
    by (induction "[0x26::nat]" xs rule: joinWith.induct) auto
  then have "set (params_str ps) \<subseteq> insert 0x26 (\<Union>(set ` set ?ws))"
    unfolding params_str_def by blast
  then have "\<forall>c\<in>set (params_str ps). c < 0x80" using pair by fastforce
  then have e: "utf8_encode (usv (params_str ps)) = params_str ps" by (rule ascii_usv)
  have h: "hd (params_str ps) \<noteq> 0x3F \<and> params_str ps \<noteq> []"
    using False pair unfolding params_str_def
    by (cases ps; cases "tl ps") (auto simp: hd_append)
  then have "(case params_str ps of [] \<Rightarrow> [] | c # u \<Rightarrow> if c = 0x3F then u else params_str ps) = params_str ps"
    by (cases "params_str ps") auto
  then have "parse_params (params_str ps) = map form_pair (filter (\<lambda>p. p \<noteq> []) (splitOn 0x26 (params_str ps)))"
    by (simp add: parse_params_def e)
  also have "splitOn 0x26 (params_str ps) = ?ws"
    unfolding params_str_def using False pair by (intro splitOn_joinWith) auto
  also have "filter (\<lambda>p. p \<noteq> []) ?ws = ?ws" using pair by simp
  also have "map form_pair ?ws = ps"
    using u form_pair_roundtrip by (auto simp: unicode_params_def intro!: map_idI)
  finally show ?thesis .
qed

subsection \<open>encodeURIComponent\<close>

definition uri_unreserved :: "nat \<Rightarrow> bool" where
  "uri_unreserved c \<longleftrightarrow> alnum c \<or> c \<in> {0x2D, 0x5F, 0x2E, 0x21, 0x7E, 0x2A, 0x27, 0x28, 0x29}"

text \<open>A lone surrogate raises \<open>URIError\<close>: \<^term>\<open>None\<close>.\<close>

definition encodeURIComponent :: "jstr \<Rightarrow> jstr option" where
  "encodeURIComponent s = (if \<exists>c\<in>set (codePoints s). high_surrogate c \<or> low_surrogate c then None
     else Some (concat (map (\<lambda>b. if uri_unreserved b then [b] else pct b) (utf8_encode (codePoints s)))))"

text \<open>An encoded component holds no delimiter of a path, so it stays one segment.\<close>

lemma encodeURIComponent_safe:
  assumes "encodeURIComponent s = Some e" and "\<forall>c\<in>set s. c < 0x10000" and "c \<in> set e"
  shows "uri_unreserved c \<or> c = 0x25"
proof -
  have "\<forall>c\<in>set (codePoints s). c < 0x110000"
    using assms(2) by (induction s rule: codePoints.induct) (auto simp: high_surrogate_def low_surrogate_def)
  then have "\<forall>b\<in>set (utf8_encode (codePoints s)). b < 0x100" using utf8_encode_bytes by blast
  then show ?thesis
    using assms(1,3)
    by (auto simp: encodeURIComponent_def pct_def uri_unreserved_def hex_unit_alnum div_less_iff_less_mult
        split: if_splits)
qed

lemma uri_unreserved_plain: "uri_unreserved c \<or> c = 0x25 \<Longrightarrow> c \<notin> {0x2F, 0x3F, 0x23, 0x26, 0x3D, 0x5C}"
  by (auto simp: uri_unreserved_def alnum_def)

text \<open>The decoder yields scalar values only, so what is read from an address is well-formed text.\<close>

definition dec_inv :: "nat \<Rightarrow> nat \<Rightarrow> nat \<Rightarrow> nat \<Rightarrow> bool" where
  "dec_inv need lo hi cp \<longleftrightarrow> need = 0 \<or> need \<le> 3 \<and> 0x80 \<le> lo \<and> lo \<le> hi \<and> hi \<le> 0xBF \<and>
     (let k = 0x40 ^ (need - 1); a = (cp * 0x40 + (lo - 0x80)) * k; z = (cp * 0x40 + (hi - 0x80)) * k + (k - 1)
      in z < 0x110000 \<and> (z < 0xD800 \<or> 0xDFFF < a))"

lemma dec_inv_last: "\<lbrakk>dec_inv 1 lo hi cp; lo \<le> b; b \<le> hi\<rbrakk> \<Longrightarrow> scalar (cp * 0x40 + (b - 0x80))"
  by (auto simp: dec_inv_def Let_def scalar_def high_surrogate_def low_surrogate_def)

lemma dec_inv_cont:
  assumes "dec_inv need lo hi cp" "lo \<le> b" "b \<le> hi" "need \<noteq> 0" "need \<noteq> 1"
  shows "dec_inv (need - 1) 0x80 0xBF (cp * 0x40 + (b - 0x80))"
proof -
  have "need = 2 \<or> need = 3" using assms by (auto simp: dec_inv_def)
  then show ?thesis using assms by (auto simp: dec_inv_def)
qed

lemma dec_inv_lead:
  "\<lbrakk>0xC2 \<le> b; b \<le> 0xDF\<rbrakk> \<Longrightarrow> dec_inv 1 0x80 0xBF (b - 0xC0)"
  "\<lbrakk>0xE0 \<le> b; b \<le> 0xEF\<rbrakk> \<Longrightarrow> dec_inv 2 (if b = 0xE0 then 0xA0 else 0x80) (if b = 0xED then 0x9F else 0xBF) (b - 0xE0)"
  "\<lbrakk>0xF0 \<le> b; b \<le> 0xF4\<rbrakk> \<Longrightarrow> dec_inv 3 (if b = 0xF0 then 0x90 else 0x80) (if b = 0xF4 then 0x8F else 0xBF) (b - 0xF0)"
  by (auto simp: dec_inv_def)

lemma utf8_dec_scalar: "\<lbrakk>dec_inv need lo hi cp; c \<in> set (utf8_dec need lo hi cp bs)\<rbrakk> \<Longrightarrow> scalar c"
proof (induction need lo hi cp bs rule: utf8_dec.induct)
  case (1 need lo hi cp)
  then show ?case by (auto simp: scalar_def high_surrogate_def low_surrogate_def split: if_splits)
next
  case (2 need lo hi cp b bs)
  have z: "dec_inv 0 l h p" for l h p by (simp add: dec_inv_def)
  have r: "scalar 0xFFFD" "b < 0x80 \<Longrightarrow> scalar b" by (auto simp: scalar_def high_surrogate_def low_surrogate_def)
  from 2 z r dec_inv_lead [of b] dec_inv_last [of lo hi cp b] dec_inv_cont [of need lo hi cp b] show ?case
    by (auto simp: utf8_dec.simps(2) [of need] not_less split: if_splits)
qed

lemma codePoints_to_units: "\<forall>c\<in>set cs. scalar c \<Longrightarrow> codePoints (to_units cs) = cs"
proof (induction cs)
  case Nil
  then show ?case by (simp add: to_units_def)
next
  case (Cons c cs)
  have u: "to_units (c # cs) = units_of c @ to_units cs" by (simp add: to_units_def)
  show ?case
  proof (cases "c < 0x10000")
    case True
    then have "\<not> high_surrogate c" using Cons.prems by (simp add: scalar_def)
    then show ?thesis using True Cons u by (cases "to_units cs") (simp_all add: units_of_def)
  next
    case False
    let ?a = "0xD800 + (c - 0x10000) div 0x400" and ?b = "0xDC00 + (c - 0x10000) mod 0x400"
    have c: "c < 0x110000" using Cons.prems by (simp add: scalar_def)
    then have h: "high_surrogate ?a" "low_surrogate ?b"
      using False by (auto simp: high_surrogate_def low_surrogate_def)
    have "(c - 0x10000) div 0x400 * 0x400 + (c - 0x10000) mod 0x400 = c - 0x10000" by simp
    then show ?thesis using h Cons u False by (simp add: units_of_def)
  qed
qed

lemma unicode_to_units: "\<forall>c\<in>set cs. scalar c \<Longrightarrow> unicode (to_units cs)"
  unfolding unicode_def well_formed_def
  by (subst codePoints_to_units) (auto simp: scalar_def to_units_def units_of_def split: if_splits)

lemma form_decode_unicode: "unicode (form_decode bs)"
  unfolding form_decode_def utf8_decode_def
  by (intro unicode_to_units ballI utf8_dec_scalar) (auto simp: dec_inv_def)

lemma parse_params_unicode: "unicode_params (parse_params s)"
  by (auto simp: parse_params_def unicode_params_def form_pair_def form_decode_unicode Let_def)

end
