(* ===== verification/SetupAuthority.thy ===== *)
theory SetupAuthority
  imports JsRegex JsUrl
begin

text \<open>
  \<open>shared/bootstrap/setup-authority.ts\<close>: the one-time tokens that setup, password reset and
  invitation links carry in the URL fragment. The module keeps one token per flow
  (\<open>authorities\<close>); a capture reads the fragment of the current location, keeps a token of the
  canonical form and replaces the URL in the history without its fragment. \<open>bootstrap_captures\<close> is the
  order in which \<open>main.tsx\<close> captures at start-up.
\<close>

definition b64url :: cls where
  "b64url = In [(0x41, 0x5A), (0x61, 0x7A), (0x30, 0x39), (0x5F, 0x5F), (0x2D, 0x2D)]"

definition TOKEN_PATTERN :: rx where
  "TOKEN_PATTERN = rtimes 43 (Unit b64url)"

definition PASSWORD_RESET_TOKEN_PATTERN :: rx where
  "PASSWORD_RESET_TOKEN_PATTERN =
     rcat [rlit (js ''v1.''), rtimes 22 (Unit b64url), rlit (js ''.''), rtimes 43 (Unit b64url)]"

definition INVITATION_TOKEN_PATTERN :: rx where
  "INVITATION_TOKEN_PATTERN = PASSWORD_RESET_TOKEN_PATTERN"

definition isCanonicalSetupAuthority :: "jstr \<Rightarrow> bool" where
  "isCanonicalSetupAuthority value = rx_test TOKEN_PATTERN value"

definition isCanonicalPasswordResetAuthority :: "jstr \<Rightarrow> bool" where
  "isCanonicalPasswordResetAuthority value = rx_test PASSWORD_RESET_TOKEN_PATTERN value"

definition isCanonicalInvitationAuthority :: "jstr \<Rightarrow> bool" where
  "isCanonicalInvitationAuthority value = rx_test INVITATION_TOKEN_PATTERN value"

record location =
  pathname :: jstr
  search :: jstr
  hash :: jstr

text \<open>\<open>captureAuthority\<close>: the candidate, and the URL given to \<open>history.replaceState\<close>, if it is called.\<close>

definition captureAuthority :: "location \<Rightarrow> jstr \<Rightarrow> (jstr \<Rightarrow> bool) \<Rightarrow> jstr option \<times> jstr option" where
  "captureAuthority loc path validate =
     (if pathname loc \<noteq> path then (None, None)
      else if hash loc = [] then (None, None)
      else
        let params = parse_params (drop 1 (hash loc));
            tokens = params_getAll params (js ''token'');
            entries = params_keys params;
            candidate = (if length tokens = 1 \<and> length entries = 1 \<and> validate (tokens ! 0)
                         then Some (tokens ! 0) else None)
        in (candidate, Some (pathname loc @ search loc)))"

record authorities =
  setupAuthority :: "jstr option"
  passwordResetAuthority :: "jstr option"
  invitationAuthority :: "jstr option"

definition no_authorities :: authorities where
  "no_authorities = \<lparr>setupAuthority = None, passwordResetAuthority = None, invitationAuthority = None\<rparr>"

text \<open>The window: the module's tokens and the current location, which \<open>replaceState\<close> rewrites.\<close>

record window =
  auths :: authorities
  loc :: location

definition replaceState :: "jstr option \<Rightarrow> location \<Rightarrow> location" where
  "replaceState url l = (case url of None \<Rightarrow> l | Some _ \<Rightarrow> l\<lparr>hash := []\<rparr>)"

definition captureSetupAuthority :: "window \<Rightarrow> window \<times> jstr option" where
  "captureSetupAuthority w =
     (let (c, url) = captureAuthority (loc w) (js ''/setup'') isCanonicalSetupAuthority
      in (w\<lparr>auths := (auths w)\<lparr>setupAuthority := c\<rparr>, loc := replaceState url (loc w)\<rparr>, c))"

definition capturePasswordResetAuthority :: "window \<Rightarrow> window \<times> jstr option" where
  "capturePasswordResetAuthority w =
     (let (c, url) = captureAuthority (loc w) (js ''/reset-password'') isCanonicalPasswordResetAuthority
      in (w\<lparr>auths := (auths w)\<lparr>passwordResetAuthority := c\<rparr>, loc := replaceState url (loc w)\<rparr>, c))"

definition captureInvitationAuthority :: "window \<Rightarrow> window \<times> jstr option" where
  "captureInvitationAuthority w =
     (let (c, url) = captureAuthority (loc w) (js ''/accept-invitation'') isCanonicalInvitationAuthority
      in (w\<lparr>auths := (auths w)\<lparr>invitationAuthority := c\<rparr>, loc := replaceState url (loc w)\<rparr>, c))"

definition getSetupAuthority :: "authorities \<Rightarrow> jstr option" where
  "getSetupAuthority a = setupAuthority a"

definition clearSetupAuthority :: "authorities \<Rightarrow> authorities" where
  "clearSetupAuthority a = a\<lparr>setupAuthority := None\<rparr>"

definition getPasswordResetAuthority :: "authorities \<Rightarrow> jstr option" where
  "getPasswordResetAuthority a = passwordResetAuthority a"

definition clearPasswordResetAuthority :: "authorities \<Rightarrow> authorities" where
  "clearPasswordResetAuthority a = a\<lparr>passwordResetAuthority := None\<rparr>"

definition getInvitationAuthority :: "authorities \<Rightarrow> jstr option" where
  "getInvitationAuthority a = invitationAuthority a"

definition clearInvitationAuthority :: "authorities \<Rightarrow> authorities" where
  "clearInvitationAuthority a = a\<lparr>invitationAuthority := None\<rparr>"

definition bootstrap_captures :: "window \<Rightarrow> window" where
  "bootstrap_captures w = fst (captureInvitationAuthority (fst (capturePasswordResetAuthority (fst (captureSetupAuthority w)))))"

subsection \<open>The canonical forms\<close>

definition b64 :: "jstr \<Rightarrow> bool" where
  "b64 s \<longleftrightarrow> (\<forall>c\<in>set s. alnum c \<or> c = 0x5F \<or> c = 0x2D)"

lemma in_b64url: "in_cls b64url c \<longleftrightarrow> alnum c \<or> c = 0x5F \<or> c = 0x2D"
  unfolding b64url_def alnum_def in_cls.simps by auto

lemma TOKEN_lang: "s \<in> rx_lang TOKEN_PATTERN \<longleftrightarrow> length s = 43 \<and> b64 s"
  unfolding TOKEN_PATTERN_def by (simp only: rx_lang_rtimes_Unit b64_def in_b64url mem_Collect_eq)

lemma RESET_lang: "s \<in> rx_lang PASSWORD_RESET_TOKEN_PATTERN \<longleftrightarrow>
  (\<exists>a b. s = js ''v1.'' @ a @ js ''.'' @ b \<and> length a = 22 \<and> length b = 43 \<and> b64 a \<and> b64 b)"
proof -
  have "s \<in> rx_lang PASSWORD_RESET_TOKEN_PATTERN \<longleftrightarrow>
    (\<exists>u v. s = u @ v \<and> u = js ''v1.'' \<and> (\<exists>a w. v = a @ w \<and> (length a = 22 \<and> b64 a) \<and>
      (\<exists>d b. w = d @ b \<and> d = js ''.'' \<and> length b = 43 \<and> b64 b)))"
    unfolding PASSWORD_RESET_TOKEN_PATTERN_def rcat.simps rx_lang.simps
    by (simp only: rx_lang_rlit rx_lang_rtimes_Unit mem_Collect_eq singleton_iff b64_def in_b64url)
  then show ?thesis by blast
qed

lemma b64_units: "b64 s \<Longrightarrow> \<forall>c\<in>set s. c < 0x80 \<and> c \<notin> {0x25, 0x26, 0x2B, 0x3D}"
  by (auto simp: b64_def alnum_def)

text \<open>A single plain pair parses to itself.\<close>

definition plain :: "jstr \<Rightarrow> bool" where
  "plain s \<longleftrightarrow> (\<forall>c\<in>set s. c < 0x80 \<and> c \<notin> {0x25, 0x26, 0x2B, 0x3D, 0x3F})"

lemma percent_decode_id: "\<forall>c\<in>set s. c \<noteq> 0x25 \<Longrightarrow> percent_decode s = s"
  by (induction s) (auto simp: percent_decode_plain)

lemma utf8_decode_ascii: "\<forall>c\<in>set s. c < 0x80 \<Longrightarrow> utf8_decode s = s"
proof -
  assume a: "\<forall>c\<in>set s. c < 0x80"
  then have "utf8_encode s = s"
    unfolding utf8_encode_def by (induction s) (simp_all add: utf8_char_def)
  moreover from a have "\<forall>c\<in>set s. scalar c"
    by (auto simp: scalar_def high_surrogate_def low_surrogate_def)
  ultimately show ?thesis using utf8_roundtrip [of s] by simp
qed

lemma to_units_ascii: "\<forall>c\<in>set s. c < 0x80 \<Longrightarrow> to_units s = s"
  unfolding to_units_def by (induction s) (auto simp: units_of_def)

lemma form_decode_plain:
  assumes "plain s"
  shows "form_decode s = s"
proof -
  have u: "\<forall>c\<in>set s. c < 0x80" "\<forall>c\<in>set s. c \<noteq> 0x25" "\<forall>c\<in>set s. c \<noteq> 0x2B"
    using assms unfolding plain_def by blast+
  have "replaceUnit 0x2B 0x20 s = s"
    unfolding replaceUnit_def using u(3) by (intro map_idI) simp
  then show ?thesis
    unfolding form_decode_def by (simp only: percent_decode_id [OF u(2)] utf8_decode_ascii [OF u(1)]
      to_units_ascii [OF u(1)])
qed

lemma parse_plain_pair:
  assumes "plain k" "plain v" "k \<noteq> []"
  shows "parse_params (k @ 0x3D # v) = [(k, v)]"
proof -
  let ?s = "k @ 0x3D # v"
  have a: "\<forall>c\<in>set ?s. c < 0x80 \<and> c \<noteq> 0x26" using assms(1,2) by (auto simp: plain_def)
  have h: "(case ?s of [] \<Rightarrow> [] | c # u \<Rightarrow> if c = 0x3F then u else ?s) = ?s"
    using assms(1,3) by (cases k) (auto simp: plain_def)
  have "splitOn 0x26 ?s = [?s]" using a by (intro splitOn_no_sep) blast
  then have "parse_params ?s = [form_pair ?s]"
    unfolding parse_params_def h Let_def using a by (simp add: ascii_usv)
  moreover have "\<forall>c\<in>set k. c \<noteq> 0x3D" using assms(1) by (auto simp: plain_def)
  ultimately show ?thesis
    using assms(1,2) by (simp add: form_pair_def takeWhile_append2 dropWhile_append2 form_decode_plain)
qed

lemma plain_token: "plain (js ''token'')"
  by (simp add: plain_def js_eval)

lemma captureAuthority_token:
  assumes "plain t" "validate t" "hash l = js ''#token='' @ t"
  shows "captureAuthority l (pathname l) validate = (Some t, Some (pathname l @ search l))"
proof -
  have "drop 1 (hash l) = js ''token'' @ 0x3D # t" unfolding assms(3) by (simp add: js_eval)
  moreover have "hash l \<noteq> []" unfolding assms(3) by (simp add: js_eval)
  ultimately show ?thesis
    using parse_plain_pair [OF plain_token assms(1)] assms(2)
    by (simp add: captureAuthority_def params_getAll_def params_keys_def)
qed

subsection \<open>What a capture keeps\<close>

lemma captureAuthority_Some:
  "captureAuthority l p f = (Some t, u) \<Longrightarrow> f t \<and> pathname l = p \<and> u = Some (pathname l @ search l)"
  by (auto simp: captureAuthority_def Let_def split: if_splits)

lemma captureAuthority_None: "pathname l \<noteq> p \<Longrightarrow> captureAuthority l p f = (None, None)"
  by (simp add: captureAuthority_def)

lemma captureAuthority_replaces:
  "pathname l = p \<Longrightarrow> hash (replaceState (snd (captureAuthority l p f)) l) = []"
  by (auto simp: captureAuthority_def Let_def replaceState_def)

lemma captureAuthority_frame: "replaceState (snd (captureAuthority l p f)) l = l \<or>
  replaceState (snd (captureAuthority l p f)) l = l\<lparr>hash := []\<rparr>"
  by (auto simp: replaceState_def split: option.splits)

definition canonical_reset :: "jstr \<Rightarrow> bool" where
  "canonical_reset s \<longleftrightarrow> (\<exists>a b. s = js ''v1.'' @ a @ js ''.'' @ b \<and> length a = 22 \<and> length b = 43 \<and> b64 a \<and> b64 b)"

lemma canonical_setup_iff: "isCanonicalSetupAuthority s \<longleftrightarrow> length s = 43 \<and> b64 s"
  by (simp add: isCanonicalSetupAuthority_def rx_test_lang TOKEN_lang)

lemma canonical_reset_iff:
  "isCanonicalPasswordResetAuthority s \<longleftrightarrow> canonical_reset s"
  "isCanonicalInvitationAuthority s \<longleftrightarrow> canonical_reset s"
  by (simp_all add: isCanonicalPasswordResetAuthority_def isCanonicalInvitationAuthority_def
      INVITATION_TOKEN_PATTERN_def rx_test_lang RESET_lang canonical_reset_def)

lemma capture_simps [simp]:
  "pathname (replaceState u l) = pathname l"
  by (simp add: replaceState_def split: option.splits)

lemma capture_loc:
  "loc (fst (captureSetupAuthority w)) =
     replaceState (snd (captureAuthority (loc w) (js ''/setup'') isCanonicalSetupAuthority)) (loc w)"
  "loc (fst (capturePasswordResetAuthority w)) =
     replaceState (snd (captureAuthority (loc w) (js ''/reset-password'') isCanonicalPasswordResetAuthority)) (loc w)"
  "loc (fst (captureInvitationAuthority w)) =
     replaceState (snd (captureAuthority (loc w) (js ''/accept-invitation'') isCanonicalInvitationAuthority)) (loc w)"
  by (simp_all add: captureSetupAuthority_def capturePasswordResetAuthority_def
      captureInvitationAuthority_def split: prod.splits)

lemma capture_auths:
  "auths (fst (captureSetupAuthority w)) = (auths w)\<lparr>setupAuthority :=
     fst (captureAuthority (loc w) (js ''/setup'') isCanonicalSetupAuthority)\<rparr>"
  "auths (fst (capturePasswordResetAuthority w)) = (auths w)\<lparr>passwordResetAuthority :=
     fst (captureAuthority (loc w) (js ''/reset-password'') isCanonicalPasswordResetAuthority)\<rparr>"
  "auths (fst (captureInvitationAuthority w)) = (auths w)\<lparr>invitationAuthority :=
     fst (captureAuthority (loc w) (js ''/accept-invitation'') isCanonicalInvitationAuthority)\<rparr>"
  by (simp_all add: captureSetupAuthority_def capturePasswordResetAuthority_def
      captureInvitationAuthority_def split: prod.splits)

text \<open>A capture on another path leaves the location alone, so the three do not interfere.\<close>

lemma replaceState_other: "pathname l \<noteq> p \<Longrightarrow> replaceState (snd (captureAuthority l p f)) l = l"
  by (simp add: captureAuthority_None replaceState_def)

lemma replaceState_same: "pathname l = p \<Longrightarrow> replaceState (snd (captureAuthority l p f)) l = l\<lparr>hash := []\<rparr>"
  by (cases l) (auto simp: captureAuthority_def Let_def replaceState_def)

lemma bootstrap_loc:
  "loc (bootstrap_captures w) =
     (if pathname (loc w) \<in> {js ''/setup'', js ''/reset-password'', js ''/accept-invitation''}
      then (loc w)\<lparr>hash := []\<rparr> else loc w)"
  unfolding bootstrap_captures_def
  by (cases "pathname (loc w) = js ''/setup''"; cases "pathname (loc w) = js ''/reset-password''";
      cases "pathname (loc w) = js ''/accept-invitation''")
    (simp_all add: capture_loc replaceState_other replaceState_same)

lemma replaceState_None [simp]: "replaceState None l = l"
  by (simp add: replaceState_def)

lemma authorities_eqI:
  "\<lbrakk>setupAuthority a = x; passwordResetAuthority a = y; invitationAuthority a = z\<rbrakk> \<Longrightarrow>
     a = \<lparr>setupAuthority = x, passwordResetAuthority = y, invitationAuthority = z\<rparr>"
  by (cases a) simp

lemma bootstrap_auths:
  "auths (bootstrap_captures w) =
     \<lparr>setupAuthority = fst (captureAuthority (loc w) (js ''/setup'') isCanonicalSetupAuthority),
      passwordResetAuthority =
        fst (captureAuthority (loc w) (js ''/reset-password'') isCanonicalPasswordResetAuthority),
      invitationAuthority =
        fst (captureAuthority (loc w) (js ''/accept-invitation'') isCanonicalInvitationAuthority)\<rparr>"
  unfolding bootstrap_captures_def
  by (rule authorities_eqI; cases "pathname (loc w) = js ''/setup''"; cases "pathname (loc w) = js ''/reset-password''";
      cases "pathname (loc w) = js ''/accept-invitation''")
    (simp_all add: capture_loc capture_auths captureAuthority_None replaceState_other replaceState_same)

lemma captured: "fst (captureAuthority l p f) = Some t \<Longrightarrow> pathname l = p \<and> f t"
  using captureAuthority_Some [of l p f t "snd (captureAuthority l p f)"] by (cases "captureAuthority l p f") simp

text \<open>
  After start-up on any URL, no credential is left in the address bar of a credential route:
  on \<open>/setup\<close>, \<open>/reset-password\<close> and \<open>/accept-invitation\<close> the fragment is gone, whatever it held
  and whether or not it was a valid token, and on every other path the location is untouched.
\<close>

theorem captures_erase_fragment:
  "(if pathname (loc w) \<in> {js ''/setup'', js ''/reset-password'', js ''/accept-invitation''}
    then hash (loc (bootstrap_captures w)) = []
    else loc (bootstrap_captures w) = loc w)
   \<and> pathname (loc (bootstrap_captures w)) = pathname (loc w)
   \<and> search (loc (bootstrap_captures w)) = search (loc w)"
  by (simp add: bootstrap_loc)

text \<open>
  Start-up keeps at most one token, only on the path of its own flow, and only in the
  canonical form: 43 base64url characters for setup, \<open>v1.\<close> with 22 and 43 of them for the others.
\<close>

theorem captures_keep_canonical:
  "(case setupAuthority (auths (bootstrap_captures w)) of None \<Rightarrow> True
      | Some t \<Rightarrow> pathname (loc w) = js ''/setup'' \<and> length t = 43 \<and> b64 t)
   \<and> (case passwordResetAuthority (auths (bootstrap_captures w)) of None \<Rightarrow> True
      | Some t \<Rightarrow> pathname (loc w) = js ''/reset-password'' \<and> canonical_reset t)
   \<and> (case invitationAuthority (auths (bootstrap_captures w)) of None \<Rightarrow> True
      | Some t \<Rightarrow> pathname (loc w) = js ''/accept-invitation'' \<and> canonical_reset t)"
  by (auto simp: bootstrap_auths canonical_setup_iff canonical_reset_iff dest!: captured split: option.splits)

subsection \<open>Which fragments are captured\<close>

lemma b64_plain: "b64 s \<Longrightarrow> plain s"
  by (auto simp: b64_def plain_def alnum_def)

lemma canonical_reset_plain: "canonical_reset t \<Longrightarrow> plain t"
proof -
  have "plain (js ''v1.'')" "plain (js ''.'')" by (simp_all add: plain_def js_eval)
  moreover have "plain (a @ b) = (plain a \<and> plain b)" for a b
    unfolding plain_def by (simp only: set_append ball_Un)
  ultimately show "canonical_reset t \<Longrightarrow> plain t"
    unfolding canonical_reset_def by (elim exE conjE) (simp only: b64_plain simp_thms)
qed

text \<open>
  A link of the canonical form is accepted, so no issued token is lost: on the path of a flow
  and with the fragment \<open>#token=\<close> and a canonical token, the flow's authority after start-up is
  exactly that token and the other two are absent.
\<close>

theorem captures_accept_links:
  assumes "hash (loc w) = js ''#token='' @ t"
  shows "(pathname (loc w) = js ''/setup'' \<and> length t = 43 \<and> b64 t \<longrightarrow>
            auths (bootstrap_captures w) = no_authorities\<lparr>setupAuthority := Some t\<rparr>)
       \<and> (pathname (loc w) = js ''/reset-password'' \<and> canonical_reset t \<longrightarrow>
            auths (bootstrap_captures w) = no_authorities\<lparr>passwordResetAuthority := Some t\<rparr>)
       \<and> (pathname (loc w) = js ''/accept-invitation'' \<and> canonical_reset t \<longrightarrow>
            auths (bootstrap_captures w) = no_authorities\<lparr>invitationAuthority := Some t\<rparr>)"
proof -
  have c: "fst (captureAuthority (loc w) p f) = Some t" if "pathname (loc w) = p" "plain t" "f t" for p f
    using captureAuthority_token [where validate = f, OF that(2) that(3) assms] that(1) by simp
  have n: "fst (captureAuthority (loc w) p f) = None" if "pathname (loc w) \<noteq> p" for p f
    using captureAuthority_None [OF that] by simp
  show ?thesis
    by (auto simp: bootstrap_auths no_authorities_def c n canonical_setup_iff canonical_reset_iff
        b64_plain canonical_reset_plain)
qed

definition example_token :: jstr where
  "example_token = replicate 43 0x41"

definition example_window :: window where
  "example_window = \<lparr>auths = no_authorities,
     loc = \<lparr>pathname = js ''/setup'', search = [], hash = js ''#token='' @ example_token\<rparr>\<rparr>"

theorem captures_accept_links_witness:
  "auths (bootstrap_captures example_window) = no_authorities\<lparr>setupAuthority := Some example_token\<rparr>"
proof -
  have "b64 example_token" by (simp add: example_token_def b64_def alnum_def)
  then show ?thesis
    using captures_accept_links [of example_window example_token]
    by (simp add: example_window_def example_token_def)
qed

end
