(* ===== verification/Problems.thy ===== *)
theory Problems
  imports Prelude
begin

text \<open>
  \<open>shared/api/problems.ts\<close> and the error classes of \<open>shared/api/client.ts\<close>: how a failed call is
  classified (signed out, account disabled, forbidden, cancelled, \ldots) and which message key it is
  shown with. A thrown value is one of the three error classes or anything else; the translation
  function \<open>t\<close> of the i18n package is an argument. A key looked up in one of the tables may also be
  a property of \<open>Object.prototype\<close>, so a message key is a \<^typ>\<open>jstr looked\<close>.
\<close>

record FieldProblem =
  pointer :: jstr
  fcode :: jstr

record ProblemDetails =
  ptype :: jstr
  title :: jstr
  status :: int
  code :: "jstr option"
  detail :: "jstr option"
  errors :: "FieldProblem list option"

datatype thrown =
    ApiProblemError ProblemDetails
  | ApiProtocolError jstr
  | ApiTransportError jstr bool
  | OtherError

type_synonym msgkey = "jstr looked"

definition typeKeys :: "(jstr \<times> jstr) list" where
  "typeKeys =
  [(js ''/problems/invalid-request'', js ''problems:invalidRequest''),
   (js ''/problems/invalid-credentials'', js ''problems:invalidCredentials''),
   (js ''/problems/unauthenticated'', js ''problems:unauthenticated''),
   (js ''/problems/forbidden'', js ''problems:forbidden''),
   (js ''/problems/invalid-setup-token'', js ''problems:invalidSetupToken''),
   (js ''/problems/invalid-password-reset-token'', js ''problems:invalidPasswordResetToken''),
   (js ''/problems/invalid-invitation'', js ''problems:invalidInvitation''),
   (js ''/problems/role-in-use'', js ''problems:roleInUse''),
   (js ''/problems/role-immutable'', js ''problems:roleImmutable''),
   (js ''/problems/last-super-admin'', js ''problems:lastSuperAdmin''),
   (js ''/problems/stale-revision'', js ''problems:staleRevision''),
   (js ''/problems/role-already-exists'', js ''problems:roleAlreadyExists''),
   (js ''/problems/invitation-pending'', js ''problems:invitationPending''),
   (js ''/problems/not-found'', js ''problems:notFound''),
   (js ''/problems/method-not-allowed'', js ''problems:methodNotAllowed''),
   (js ''/problems/setup-complete'', js ''problems:setupComplete''),
   (js ''/problems/content-too-large'', js ''problems:contentTooLarge''),
   (js ''/problems/unsupported-media-type'', js ''problems:unsupportedMediaType''),
   (js ''/problems/validation-failed'', js ''problems:validationFailed''),
   (js ''/problems/rate-limited'', js ''problems:rateLimited''),
   (js ''/problems/internal-error'', js ''problems:internalError''),
   (js ''/problems/service-unavailable'', js ''problems:serviceUnavailable''),
   (js ''/problems/mail-not-configured'', js ''problems:mailNotConfigured''),
   (js ''/problems/mail-task-not-found'', js ''problems:mailTaskNotFound''),
   (js ''/problems/mail-task-sending'', js ''problems:mailTaskSending''),
   (js ''/problems/mail-task-not-retryable'', js ''problems:mailTaskNotRetryable''),
   (js ''/problems/mail-settings-not-saved'', js ''problems:mailSettingsNotSaved''),
   (js ''/problems/permission-scope'', js ''problems:permissionScope'')]"

definition codeKeys :: "(jstr \<times> jstr) list" where
  "codeKeys =
  [(js ''account_disabled'', js ''problems:accountDisabled''),
   (js ''self_user_operation'', js ''problems:selfUserOperation''),
   (js ''invalid_request'', js ''problems:invalidRequest''),
   (js ''invalid_credentials'', js ''problems:invalidCredentials''),
   (js ''unauthenticated'', js ''problems:unauthenticated''),
   (js ''forbidden'', js ''problems:forbidden''),
   (js ''invalid_setup_token'', js ''problems:invalidSetupToken''),
   (js ''invalid_password_reset_token'', js ''problems:invalidPasswordResetToken''),
   (js ''invalid_invitation'', js ''problems:invalidInvitation''),
   (js ''role_in_use'', js ''problems:roleInUse''),
   (js ''role_immutable'', js ''problems:roleImmutable''),
   (js ''last_super_admin'', js ''problems:lastSuperAdmin''),
   (js ''stale_revision'', js ''problems:staleRevision''),
   (js ''role_already_exists'', js ''problems:roleAlreadyExists''),
   (js ''invitation_pending'', js ''problems:invitationPending''),
   (js ''setup_complete'', js ''problems:setupComplete''),
   (js ''validation_failed'', js ''problems:validationFailed''),
   (js ''rate_limited'', js ''problems:rateLimited''),
   (js ''service_unavailable'', js ''problems:serviceUnavailable''),
   (js ''mail_not_configured'', js ''problems:mailNotConfigured''),
   (js ''mail_task_sending'', js ''problems:mailTaskSending''),
   (js ''mail_task_not_retryable'', js ''problems:mailTaskNotRetryable''),
   (js ''mail_settings_not_saved'', js ''problems:mailSettingsNotSaved''),
   (js ''permission_scope_forbidden'', js ''problems:permissionScope''),
   (js ''invalid_mail_settings'', js ''problems:invalidMailSettings''),
   (js ''invalid_email_change'', js ''problems:emailChangeInvalid''),
   (js ''email_change_resend_too_soon'', js ''problems:emailChangeResendTooSoon''),
   (js ''invalid_email_change_code'', js ''problems:emailChangeCodeInvalid''),
   (js ''email_change_attempts_exceeded'', js ''problems:emailChangeAttemptsExceeded'')]"

definition fieldKeys :: "(jstr \<times> jstr) list" where
  "fieldKeys =
  [(js ''required'', js ''problems:fields.required''),
   (js ''invalid_name'', js ''problems:fields.invalidName''),
   (js ''invalid_email'', js ''problems:fields.invalidEmail''),
   (js ''invalid_password'', js ''problems:fields.invalidPassword''),
   (js ''invalid_login_password'', js ''problems:fields.invalidLoginPassword''),
   (js ''login_password_required'', js ''problems:fields.loginPasswordRequired''),
   (js ''login_password_too_long'', js ''problems:fields.loginPasswordTooLong''),
   (js ''invalid_value'', js ''problems:fields.invalidValue''),
   (js ''email_already_registered'', js ''problems:fields.emailAlreadyRegistered''),
   (js ''password_mismatch'', js ''problems:fields.passwordMismatch''),
   (js ''empty_permissions'', js ''problems:fields.emptyPermissions''),
   (js ''unknown_permission'', js ''problems:fields.unknownPermission''),
   (js ''invalid_role'', js ''problems:fields.invalidRole''),
   (js ''duplicate_role'', js ''problems:fields.duplicateRole''),
   (js ''invalid_revision'', js ''problems:fields.invalidRevision''),
   (js ''invalid_limit'', js ''problems:fields.invalidLimit''),
   (js ''invalid_cursor'', js ''problems:fields.invalidCursor''),
   (js ''invalid_role_set'', js ''problems:fields.invalidRoleSet''),
   (js ''invalid_description'', js ''problems:fields.invalidDescription''),
   (js ''invalid_retry_count'', js ''problems:fields.invalidRetryCount''),
   (js ''invalid_retention_days'', js ''problems:fields.invalidRetentionDays''),
   (js ''invalid_time'', js ''problems:fields.invalidTime''),
   (js ''invalid_time_range'', js ''problems:fields.invalidTimeRange''),
   (js ''invalid_batch'', js ''problems:fields.invalidBatch''),
   (js ''invalid_id'', js ''problems:fields.invalidID''),
   (js ''duplicate_id'', js ''problems:fields.duplicateID''),
   (js ''invalid_locale'', js ''problems:fields.invalidValue''),
   (js ''too_long'', js ''problems:fields.tooLong''),
   (js ''control_character'', js ''problems:fields.invalidValue''),
   (js ''invalid_icon'', js ''problems:fields.invalidIcon''),
   (js ''unsupported_type'', js ''problems:fields.unsupportedImageType''),
   (js ''same_email'', js ''problems:fields.sameEmail''),
   (js ''invalid_code'', js ''problems:fields.invalidCode'')]"

text \<open>\<open>a ?? b\<close> on looked-up keys: an inherited property is not nullish.\<close>

fun coalesce :: "msgkey \<Rightarrow> msgkey \<Rightarrow> msgkey" where
  "coalesce Absent b = b"
| "coalesce a b = a"

lemma coalesce_not_Absent: "a \<noteq> Absent \<Longrightarrow> coalesce a b = a"
  by (cases a) simp_all

lemma coalesce_Absent_iff [simp]: "coalesce a b = Absent \<longleftrightarrow> a = Absent \<and> b = Absent"
  by (cases a) simp_all

definition fieldMessageKey :: "jstr option \<Rightarrow> msgkey" where
  "fieldMessageKey c = coalesce (get_prop fieldKeys (nullish c [])) (Own (js ''problems:fields.invalidValue''))"

fun isUnauthenticated :: "thrown \<Rightarrow> bool" where
  "isUnauthenticated (ApiProblemError p) \<longleftrightarrow> status p = 401 \<and>
     (ptype p = js ''/problems/unauthenticated'' \<or> code p = Some (js ''unauthenticated''))"
| "isUnauthenticated _ \<longleftrightarrow> False"

fun isAccountDisabled :: "thrown \<Rightarrow> bool" where
  "isAccountDisabled (ApiProblemError p) \<longleftrightarrow> status p = 401 \<and> code p = Some (js ''account_disabled'')"
| "isAccountDisabled _ \<longleftrightarrow> False"

fun isForbidden :: "thrown \<Rightarrow> bool" where
  "isForbidden (ApiProblemError p) \<longleftrightarrow> status p = 403 \<or> code p = Some (js ''forbidden'')"
| "isForbidden _ \<longleftrightarrow> False"

fun isRequestCancelled :: "thrown \<Rightarrow> bool" where
  "isRequestCancelled (ApiTransportError _ aborted) \<longleftrightarrow> aborted"
| "isRequestCancelled _ \<longleftrightarrow> False"

fun isInvalidSetupToken :: "thrown \<Rightarrow> bool" where
  "isInvalidSetupToken (ApiProblemError p) \<longleftrightarrow> status p = 403 \<and>
     (ptype p = js ''/problems/invalid-setup-token'' \<or> code p = Some (js ''invalid_setup_token''))"
| "isInvalidSetupToken _ \<longleftrightarrow> False"

fun isSetupComplete :: "thrown \<Rightarrow> bool" where
  "isSetupComplete (ApiProblemError p) \<longleftrightarrow> status p = 409 \<and>
     (ptype p = js ''/problems/setup-complete'' \<or> code p = Some (js ''setup_complete''))"
| "isSetupComplete _ \<longleftrightarrow> False"

fun isInvalidPasswordResetToken :: "thrown \<Rightarrow> bool" where
  "isInvalidPasswordResetToken (ApiProblemError p) \<longleftrightarrow> status p = 403 \<and>
     (ptype p = js ''/problems/invalid-password-reset-token'' \<or> code p = Some (js ''invalid_password_reset_token''))"
| "isInvalidPasswordResetToken _ \<longleftrightarrow> False"

definition specialCodes :: "jstr list" where
  "specialCodes = [js ''invalid_mail_settings'', js ''invalid_email_change'', js ''email_change_resend_too_soon'',
     js ''invalid_email_change_code'', js ''email_change_attempts_exceeded'']"

fun problemMessageKey :: "thrown \<Rightarrow> msgkey" where
  "problemMessageKey (ApiProblemError p) =
     (let c = nullish (code p) [] in
      if c \<in> set specialCodes then get_prop codeKeys c
      else coalesce (get_prop typeKeys (ptype p)) (coalesce (get_prop codeKeys c) (Own (js ''problems:generic''))))"
| "problemMessageKey (ApiTransportError _ aborted) =
     Own (if aborted then js ''problems:requestCancelled'' else js ''problems:network'')"
| "problemMessageKey (ApiProtocolError _) = Own (js ''problems:malformedResponse'')"
| "problemMessageKey OtherError = Own (js ''problems:generic'')"

definition translateProblem :: "thrown \<Rightarrow> (msgkey \<Rightarrow> jstr) \<Rightarrow> jstr" where
  "translateProblem e t = t (problemMessageKey e)"

definition problemFieldKey :: "FieldProblem \<Rightarrow> msgkey" where
  "problemFieldKey f = fieldMessageKey (Some (fcode f))"

fun fieldProblemFor :: "thrown \<Rightarrow> jstr \<Rightarrow> FieldProblem option" where
  "fieldProblemFor (ApiProblemError p) ptr =
     (case errors p of None \<Rightarrow> None | Some fs \<Rightarrow> find (\<lambda>f. pointer f = ptr) fs)"
| "fieldProblemFor _ ptr = None"

definition translateFieldProblem :: "FieldProblem option \<Rightarrow> (msgkey \<Rightarrow> jstr) \<Rightarrow> jstr option" where
  "translateFieldProblem f t = map_option (\<lambda>f. t (problemFieldKey f)) f"

definition translateProblemWithFields :: "thrown \<Rightarrow> (msgkey \<Rightarrow> jstr) \<Rightarrow> jstr" where
  "translateProblemWithFields e t =
     (let message = translateProblem e t in
      case e of
        ApiProblemError p \<Rightarrow>
          (case errors p of
             None \<Rightarrow> message
           | Some fs \<Rightarrow>
               if fs = [] then message
               else let fields = filter (\<lambda>v. v \<noteq> []) (map (\<lambda>f. t (problemFieldKey f)) fs)
                    in if fields \<noteq> [] then message @ js '' '' @ joinWith (js '' '') fields else message)
      | _ \<Rightarrow> message)"

fun isRateLimited :: "thrown \<Rightarrow> bool" where
  "isRateLimited (ApiProblemError p) \<longleftrightarrow> status p = 429 \<and>
     (ptype p = js ''/problems/rate-limited'' \<or> code p = Some (js ''rate_limited''))"
| "isRateLimited _ \<longleftrightarrow> False"

definition translateRateLimitedProblem :: "thrown \<Rightarrow> (msgkey \<Rightarrow> jstr) \<Rightarrow> jstr \<Rightarrow> jstr" where
  "translateRateLimitedProblem e t key =
     (if isRateLimited e then t (Own (js ''problems:'' @ key)) else translateProblem e t)"

definition translatePasswordResetProblem :: "thrown \<Rightarrow> (msgkey \<Rightarrow> jstr) \<Rightarrow> jstr" where
  "translatePasswordResetProblem e t = translateRateLimitedProblem e t (js ''passwordResetRateLimited'')"

definition translateRateLimitedProblemWithFields :: "thrown \<Rightarrow> (msgkey \<Rightarrow> jstr) \<Rightarrow> jstr \<Rightarrow> jstr" where
  "translateRateLimitedProblemWithFields e t key =
     (if isRateLimited e then t (Own (js ''problems:'' @ key)) else translateProblemWithFields e t)"

text \<open>A client-side error of the form library: only its message is read.\<close>

definition translateClientFieldError :: "jstr option option \<Rightarrow> (msgkey \<Rightarrow> jstr) \<Rightarrow> jstr option" where
  "translateClientFieldError e t = map_option (\<lambda>m. t (fieldMessageKey m)) e"

subsection \<open>The tables\<close>

lemmas key_tables = typeKeys_def codeKeys_def fieldKeys_def

lemma codeKeys_special:
  "(js ''invalid_mail_settings'', js ''problems:invalidMailSettings'') \<in> set codeKeys"
  "(js ''invalid_email_change'', js ''problems:emailChangeInvalid'') \<in> set codeKeys"
  "(js ''email_change_resend_too_soon'', js ''problems:emailChangeResendTooSoon'') \<in> set codeKeys"
  "(js ''invalid_email_change_code'', js ''problems:emailChangeCodeInvalid'') \<in> set codeKeys"
  "(js ''email_change_attempts_exceeded'', js ''problems:emailChangeAttemptsExceeded'') \<in> set codeKeys"
  unfolding codeKeys_def list.set by ((rule insertI1 | rule insertI2)+)

lemma specialCodes_in_table: "c \<in> set specialCodes \<Longrightarrow> map_of codeKeys c \<noteq> None"
  using codeKeys_special unfolding specialCodes_def map_of_eq_None_iff by (auto intro: rev_image_eqI)

lemma not_Absent_ordinary:
  "k \<notin> set proto_names \<Longrightarrow> get_prop t k \<noteq> Inherited"
  by (simp add: get_prop_ordinary split: option.splits)

text \<open>The keys that the classification can produce.\<close>

definition problem_keys :: "jstr list" where
  "problem_keys = map snd typeKeys @ map snd codeKeys @
     map js [''problems:generic'', ''problems:network'', ''problems:requestCancelled'', ''problems:malformedResponse'']"

lemma get_prop_Own_snd: "get_prop t k = Own v \<Longrightarrow> v \<in> snd ` set t"
  by (force dest: get_prop_Own_in)

end
