(* ===== verification/Resources.thy ===== *)
theory Resources
  imports Prelude
begin

text \<open>
  \<open>shared/i18n/resources.ts\<close>: the English and the Chinese message catalogue, one definition per
  namespace with the messages in the order of the source. A catalogue is a tree of groups and texts;
  a text outside ASCII is written by its code units. \<open>messageVars\<close> lists the interpolation variables
  (\<open>{{name}}\<close>) of a text, and \<open>messageAt\<close> follows a key of the form \<open>namespace:path.to.text\<close>.
\<close>

datatype msg = Text jstr | Group "(jstr \<times> msg) list"

definition english_onlineUsers :: msg where
  "english_onlineUsers = Group [
    (js ''title'', Text (js ''Online users'')),
    (js ''description'', Text (js ''Users with at least one valid sign-in session, including sessions with no recent activity. Open pages check in every 30 seconds; this list refreshes every 15 seconds.'')),
    (js ''sessions'', Text (js ''Valid sessions'')),
    (js ''lastSeen'', Text (js ''Last active'')),
    (js ''you'', Text (js ''You'')),
    (js ''forceSignOut'', Text (js ''Force sign out'')),
    (js ''refresh'', Text (js ''Refresh'')),
    (js ''empty'', Text (js ''No users online.'')),
    (js ''confirmTitle'', Text (js ''Force sign out this user?'')),
    (js ''confirm'', Text (js ''Force sign out {{name}} ({{email}}) from all devices. They can sign in again.'')),
    (js ''confirmSelf'', Text (js ''You will be force signed out of all devices, including this page. You can sign in again.'')),
    (js ''working'', Text (js ''Forcing sign out'' @ [0x2026])),
    (js ''success'', Text (js ''{{name}} was force signed out.'')),
    (js ''loadFailed'', Text (js ''Unable to load online users.'')),
    (js ''forceSignOutFailed'', Text (js ''Force sign out failed.''))]"

definition english_emailTasks :: msg where
  "english_emailTasks = Group [
    (js ''title'', Text (js ''Email tasks'')),
    (js ''description'', Text (js ''Inspect system email delivery without exposing message contents.'')),
    (js ''filtersTitle'', Text (js ''Filter email tasks'')),
    (js ''detailDescription'', Text (js ''Delivery metadata and safe attempt history only; message content is never shown.'')),
    (js ''detailUnavailable'', Text (js ''Email task details are unavailable.'')),
    (js ''attemptHistory'', Text (js ''Attempt history'')),
    (js ''noAttempts'', Text (js ''No delivery attempts yet.'')),
    (js ''finishedAt'', Text (js ''Finished'')),
    (js ''timeRangeError'', Text (js ''The end time must be later than the start time.'')),
    (js ''selectAll'', Text (js ''Select all'')),
    (js ''select'', Text (js ''Select'')),
    (js ''recipient'', Text (js ''Recipient'')),
    (js ''recipientPlaceholder'', Text (js ''Filter by recipient'' @ [0x2026])),
    (js ''purpose'', Text (js ''Purpose'')),
    (js ''allPurposes'', Text (js ''All purposes'')),
    (js ''status'', Text (js ''Status'')),
    (js ''allStatuses'', Text (js ''All statuses'')),
    (js ''createdFrom'', Text (js ''Created from'')),
    (js ''createdTo'', Text (js ''Created to'')),
    (js ''failedOnly'', Text (js ''Failed only'')),
    (js ''applyFilters'', Text (js ''Apply filters'')),
    (js ''resetFilters'', Text (js ''Reset filters'')),
    (js ''createdAt'', Text (js ''Created'')),
    (js ''language'', Text (js ''Language'')),
    (js ''attempts'', Text (js ''Attempts'')),
    (js ''actions'', Text (js ''Actions'')),
    (js ''details'', Text (js ''Details'')),
    (js ''viewDetails'', Text (js ''View details'')),
    (js ''retry'', Text (js ''Retry'')),
    (js ''delete'', Text (js ''Delete'')),
    (js ''retrySelected'', Text (js ''Retry selected'')),
    (js ''deleteSelected'', Text (js ''Delete selected'')),
    (js ''confirmDeleteTitle'', Text (js ''Delete email task?'')),
    (js ''confirmDeleteDescription'', Text (js ''This permanently removes the task, resend material, and attempt history. A copy already accepted by SMTP cannot be recalled.'')),
    (js ''confirmBulkDeleteDescription'', Text (js ''Delete the selected email tasks permanently? Sending tasks will be skipped.'')),
    (js ''cancel'', Text (js ''Cancel'')),
    (js ''queued'', Text (js ''Pending'')),
    (js ''sending'', Text (js ''Sending'')),
    (js ''waitingRetry'', Text (js ''Waiting to retry'')),
    (js ''sent'', Text (js ''Sent by SMTP'')),
    (js ''failed'', Text (js ''Failed'')),
    (js ''purposePasswordReset'', Text (js ''Password reset'')),
    (js ''purposePasswordChanged'', Text (js ''Password changed'')),
    (js ''purposeInvitation'', Text (js ''Invitation'')),
    (js ''purposeEmailChangeCode'', Text (js ''Email-change code'')),
    (js ''purposeEmailChanged'', Text (js ''Email changed'')),
    (js ''purposeTestEmail'', Text (js ''Test email'')),
    (js ''outcomeSent'', Text (js ''Accepted'')),
    (js ''outcomeFailed'', Text (js ''Failed'')),
    (js ''failureTemporary'', Text (js ''Temporary delivery problem'')),
    (js ''failurePermanent'', Text (js ''Permanent delivery problem'')),
    (js ''failureDependency'', Text (js ''Delivery service unavailable'')),
    (js ''failureExpired'', Text (js ''Delivery window expired'')),
    (js ''failureSuperseded'', Text (js ''Superseded'')),
    (js ''failureInvalid'', Text (js ''Invalid delivery material'')),
    (js ''empty'', Text (js ''No email tasks match these filters.'')),
    (js ''loading'', Text (js ''Loading email tasks'' @ [0x2026])),
    (js ''readUnavailableTitle'', Text (js ''Email tasks are unavailable'')),
    (js ''readUnavailableDescription'', Text (js ''The API could not load email tasks. Refresh the page to try again.'')),
    (js ''operationFailed'', Text (js ''Email task operation failed.'')),
    (js ''partialResult'', Text (js ''{{succeeded}} succeeded, {{skipped}} skipped, {{failed}} failed.'')),
    (js ''skippedReasons'', Text (js ''Skipped because: {{reasons}}.'')),
    (js ''notFailed'', Text (js ''not in a failed state'')),
    (js ''notFound'', Text (js ''task not found'')),
    (js ''deleted'', Text (js ''Email task deleted.'')),
    (js ''retried'', Text (js ''Email task retry submitted.'')),
    (js ''noRead'', Text (js ''You do not have permission to view email tasks.'')),
    (js ''noWrite'', Text (js ''Your role can view email tasks but cannot retry or delete them.''))]"

definition english_common :: msg where
  "english_common = Group [
    (js ''home'', Text (js ''Home'')),
    (js ''settings'', Text (js ''System settings'')),
    (js ''systemMonitoring'', Text (js ''System monitoring'')),
    (js ''configureSettings'', Text (js ''Configure settings'')),
    (js ''menu'', Text (js ''Menu'')),
    (js ''language'', Text (js ''Language'')),
    (js ''english'', Text (js ''English'')),
    (js ''chinese'', Text ([0x7B80, 0x4F53, 0x4E2D, 0x6587])),
    (js ''appearance'', Text (js ''Appearance'')),
    (js ''appearanceSettings'', Text (js ''Appearance settings'')),
    (js ''languageSettings'', Text (js ''Language settings'')),
    (js ''theme'', Text (js ''Color mode'')),
    (js ''light'', Text (js ''Light'')),
    (js ''dark'', Text (js ''Dark'')),
    (js ''system'', Text (js ''Follow system'')),
    (js ''logout'', Text (js ''Log out'')),
    (js ''retry'', Text (js ''Try again'')),
    (js ''refreshPage'', Text (js ''Refresh the page to load the latest data.'')),
    (js ''loading'', Text (js ''Loading'' @ [0x2026])),
    (js ''backToLogin'', Text (js ''Back to login'')),
    (js ''required'', Text (js ''Required'')),
    (js ''close'', Text (js ''Close'')),
    (js ''cancel'', Text (js ''Cancel'')),
    (js ''reset'', Text (js ''Reset'')),
    (js ''search'', Text (js ''Search'')),
    (js ''sortAscending'', Text (js ''Sort ascending'')),
    (js ''sortDescending'', Text (js ''Sort descending'')),
    (js ''clearSort'', Text (js ''Clear sort'')),
    (js ''save'', Text (js ''Save'')),
    (js ''saving'', Text (js ''Saving'' @ [0x2026])),
    (js ''personalSettings'', Text (js ''Personal settings''))]"

definition english_auth :: msg where
  "english_auth = Group [
    (js ''setupTitle'', Text (js ''Create your administrator account'')),
    (js ''nameLabel'', Text (js ''Name'')),
    (js ''emailLabel'', Text (js ''Email'')),
    (js ''passwordLabel'', Text (js ''Password'')),
    (js ''confirmPasswordLabel'', Text (js ''Confirm password'')),
    (js ''initialize'', Text (js ''Create administrator'')),
    (js ''initializing'', Text (js ''Creating administrator'' @ [0x2026])),
    (js ''showPassword'', Text (js ''Show password'')),
    (js ''hidePassword'', Text (js ''Hide password'')),
    (js ''setupCompleteTitle'', Text (js ''Already initialized'')),
    (js ''setupCompleteDescription'', Text (js ''The first administrator has already been created. Sign in to continue.'')),
    (js ''setupDependencyTitle'', Text (js ''Setup status is unavailable'')),
    (js ''setupDependencyDescription'', Text (js ''Could not confirm whether initialization is complete. Try again when the API is available.'')),
    (js ''loginTitle'', Text (js ''Sign in'')),
    (js ''login'', Text (js ''Sign in'')),
    (js ''loggingIn'', Text (js ''Signing in'' @ [0x2026])),
    (js ''forgotPassword'', Text (js ''Forgot password?'')),
    (js ''forgotPasswordTitle'', Text (js ''Reset your password'')),
    (js ''forgotPasswordDescription'', Text (js ''Enter your account email and we will send a reset link if an account matches.'')),
    (js ''sendResetLink'', Text (js ''Send reset link'')),
    (js ''sendingResetLink'', Text (js ''Sending reset link'' @ [0x2026])),
    (js ''resetRequestAcceptedTitle'', Text (js ''Check your email'')),
    (js ''resetRequestAcceptedDescription'', Text (js ''If an account matches that email, a password reset link will arrive shortly.'')),
    (js ''resetAgain'', Text (js ''Request another link'')),
    (js ''resetPasswordTitle'', Text (js ''Choose a new password'')),
    (js ''resetPasswordDescription'', Text (js ''Set a new password for your account.'')),
    (js ''resetPassword'', Text (js ''Set new password'')),
    (js ''resettingPassword'', Text (js ''Updating password'' @ [0x2026])),
    (js ''resetPasswordSuccessTitle'', Text (js ''Password updated'')),
    (js ''resetPasswordSuccessDescription'', Text (js ''Your password was updated and existing sessions were signed out. Sign in with the new password.'')),
    (js ''invalidResetLinkTitle'', Text (js ''This reset link is invalid'')),
    (js ''invalidResetLinkDescription'', Text (js ''The link may be expired, already used, or replaced by a newer request. Request a new link to continue.'')),
    (js ''loggingOut'', Text (js ''Signing out'' @ [0x2026])),
    (js ''logoutSuccess'', Text (js ''You are signed out.'')),
    (js ''logoutFailedTitle'', Text (js ''You are still signed in'')),
    (js ''logoutFailedDescription'', Text (js ''The server did not confirm that your session was revoked. Try again.'')),
    (js ''sessionUnavailableTitle'', Text (js ''Your session could not be checked'')),
    (js ''sessionUnavailableDescription'', Text (js ''The API is unavailable or returned an unexpected response. Your current session was kept.'')),
    (js ''sessionExpired'', Text (js ''Your session has expired. Sign in again.'')),
    (js ''homeTitle'', Text (js ''Home'')),
    (js ''welcome'', Text (js ''Welcome back, {{name}}.'')),
    (js ''operationalWarningTitle'', Text (js ''Action needed'')),
    (js ''operationalWarningUnavailableTitle'', Text (js ''Could not load action alerts'')),
    (js ''emailNotConfiguredWarning'', Text (js ''Email delivery is not configured. Configure it in System settings before sending invitations or password recovery emails.''))]"

definition english_operationLog_passwordActions :: msg where
  "english_operationLog_passwordActions = Group [
    (js ''updated'', Text (js ''Updated'')),
    (js ''cleared'', Text (js ''Cleared'')),
    (js ''unchanged'', Text (js ''Unchanged''))]"

definition english_operationLog_failureReasons :: msg where
  "english_operationLog_failureReasons = Group [
    (js ''account_disabled'', Text (js ''The account was deactivated.'')),
    (js ''self_user_operation'', Text (js ''You cannot deactivate or delete your own account.'')),
    (js ''last_super_admin'', Text (js ''At least one available Super Admin must remain.'')),
    (js ''not_found'', Text (js ''The user no longer exists.'')),
    (js ''forbidden'', Text (js ''The actor did not have permission for this action.'')),
    (js ''unauthenticated'', Text (js ''The session was missing or expired.'')),
    (js ''invalid_credentials'', Text (js ''The email or password was incorrect.'')),
    (js ''rate_limited'', Text (js ''Too many requests. The action was rate limited.'')),
    (js ''stale_revision'', Text (js ''The data changed before this action was saved.'')),
    (js ''dependency_unavailable'', Text (js ''A required service was unavailable.'')),
    (js ''invalid_settings'', Text (js ''The email settings were invalid.'')),
    (js ''mail_task_sending'', Text (js ''The email task was already being sent.'')),
    (js ''mail_task_not_retryable'', Text (js ''Only failed email tasks can be retried.'')),
    (js ''mail_settings_not_saved'', Text (js ''Save email settings before submitting a test.'')),
    (js ''mail_task_dependency'', Text (js ''The email task service was unavailable.'')),
    (js ''invalid_token'', Text (js ''The reset link was invalid or expired.'')),
    (js ''invalid_invitation'', Text (js ''The invitation was invalid or expired.'')),
    (js ''invalid_email_change'', Text (js ''The email change request was invalid or expired.'')),
    (js ''invalid_email_change_code'', Text (js ''The verification code was incorrect.'')),
    (js ''email_change_expired'', Text (js ''The email change request expired.'')),
    (js ''email_change_attempts_exceeded'', Text (js ''Too many incorrect verification codes were entered.'')),
    (js ''email_change_resend_too_soon'', Text (js ''The verification code can be resent after the cooldown.'')),
    (js ''avatar_not_found'', Text (js ''The avatar was not found.'')),
    (js ''operation_failed'', Text (js ''The action could not be completed.''))]"

definition english_operationLog_actionLabels :: msg where
  "english_operationLog_actionLabels = Group [
    (js ''auth_login'', Text (js ''Sign in'')),
    (js ''auth_logout'', Text (js ''Sign out'')),
    (js ''auth_password_reset_request'', Text (js ''Request password reset'')),
    (js ''auth_password_reset_complete'', Text (js ''Complete password reset'')),
    (js ''auth_invitation_accept'', Text (js ''Accept invitation'')),
    (js ''auth_setup_complete'', Text (js ''Complete setup'')),
    (js ''roles_create'', Text (js ''Create role'')),
    (js ''roles_update'', Text (js ''Update role'')),
    (js ''roles_delete'', Text (js ''Delete role'')),
    (js ''users_sessions_revoke'', Text (js ''Force sign out'')),
    (js ''users_roles_update'', Text (js ''Update user roles'')),
    (js ''users_deactivate'', Text (js ''Deactivate user'')),
    (js ''users_reactivate'', Text (js ''Reactivate user'')),
    (js ''users_delete'', Text (js ''Delete user'')),
    (js ''invitations_create'', Text (js ''Create invitation'')),
    (js ''invitations_resend'', Text (js ''Resend invitation'')),
    (js ''invitations_revoke'', Text (js ''Revoke invitation'')),
    (js ''settings_email_update'', Text (js ''Update email settings'')),
    (js ''settings_email_test'', Text (js ''Test email settings'')),
    (js ''mail_tasks_retry'', Text (js ''Retry email task'')),
    (js ''mail_tasks_delete'', Text (js ''Delete email task'')),
    (js ''mail_tasks_bulk_retry'', Text (js ''Retry email tasks'')),
    (js ''mail_tasks_bulk_delete'', Text (js ''Delete email tasks'')),
    (js ''settings_system_identity_update'', Text (js ''Update system identity'')),
    (js ''settings_operation_log_retention_update'', Text (js ''Update history retention'')),
    (js ''auth_profile_name_update'', Text (js ''Update personal name'')),
    (js ''auth_profile_avatar_update'', Text (js ''Update personal avatar'')),
    (js ''auth_profile_avatar_delete'', Text (js ''Remove personal avatar'')),
    (js ''auth_profile_password_update'', Text (js ''Change personal password'')),
    (js ''auth_profile_email_request'', Text (js ''Request email change'')),
    (js ''auth_profile_email_resend'', Text (js ''Resend email-change code'')),
    (js ''auth_profile_email_update'', Text (js ''Change personal email''))]"

definition english_operationLog_objectLabels :: msg where
  "english_operationLog_objectLabels = Group [
    (js ''session'', Text (js ''Session'')),
    (js ''account'', Text (js ''Account'')),
    (js ''password_reset'', Text (js ''Password reset'')),
    (js ''password'', Text (js ''Password'')),
    (js ''invitation'', Text (js ''Invitation'')),
    (js ''email_change'', Text (js ''Email change'')),
    (js ''mail_task'', Text (js ''Email task'')),
    (js ''role'', Text (js ''Role'')),
    (js ''user'', Text (js ''User'')),
    (js ''email_settings'', Text (js ''Email settings'')),
    (js ''system_identity'', Text (js ''System identity'')),
    (js ''operation_log_settings'', Text (js ''History settings''))]"

definition english_operationLog_detailLabels :: msg where
  "english_operationLog_detailLabels = Group [
    (js ''creator'', Text (js ''Created by'')),
    (js ''disabled'', Text (js ''Disabled'')),
    (js ''configured'', Text (js ''Configured'')),
    (js ''host'', Text (js ''SMTP host'')),
    (js ''port'', Text (js ''Port'')),
    (js ''security'', Text (js ''Connection security'')),
    (js ''username'', Text (js ''SMTP username'')),
    (js ''passwordSet'', Text (js ''Password configured'')),
    (js ''fromAddress'', Text (js ''Sender email'')),
    (js ''fromName'', Text (js ''Sender name'')),
    (js ''defaultLocale'', Text (js ''Default language'')),
    (js ''systemName'', Text (js ''System name'')),
    (js ''hasCustomIcon'', Text (js ''Custom icon'')),
    (js ''expiresAt'', Text (js ''Expires at'')),
    (js ''changedAt'', Text (js ''Changed at'')),
    (js ''before'', Text (js ''Before'')),
    (js ''after'', Text (js ''After'')),
    (js ''target'', Text (js ''Target'')),
    (js ''id'', Text (js ''ID'')),
    (js ''name'', Text (js ''Name'')),
    (js ''email'', Text (js ''Email'')),
    (js ''description'', Text (js ''Description'')),
    (js ''permissions'', Text (js ''Permissions'')),
    (js ''roleIds'', Text (js ''Role IDs'')),
    (js ''roles'', Text (js ''Roles'')),
    (js ''authVersion'', Text (js ''Auth version'')),
    (js ''revision'', Text (js ''Revision'')),
    (js ''requestedRevision'', Text (js ''Requested revision'')),
    (js ''requestedAuthVersion'', Text (js ''Requested auth version'')),
    (js ''retentionDays'', Text (js ''Retention days'')),
    (js ''passwordAction'', Text (js ''Password action'')),
    (js ''fieldsModified'', Text (js ''Fields modified'')),
    (js ''objectLabel'', Text (js ''Object label'')),
    (js ''failure'', Text (js ''Failure'')),
    (js ''validation'', Text (js ''Validation'')),
    (js ''mailQueued'', Text (js ''Mail queued'')),
    (js ''accountActivated'', Text (js ''Account activated'')),
    (js ''verificationQueued'', Text (js ''Verification queued'')),
    (js ''sessionsRevoked'', Text (js ''Sessions revoked'')),
    (js ''hasAvatar'', Text (js ''Has avatar'')),
    (js ''avatarVersion'', Text (js ''Avatar version'')),
    (js ''sessionCreated'', Text (js ''Session created'')),
    (js ''requestAccepted'', Text (js ''Request accepted'')),
    (js ''deleted'', Text (js ''Deleted'')),
    (js ''revoked'', Text (js ''Revoked''))]"

definition english_operationLog :: msg where
  "english_operationLog = Group [
    (js ''title'', Text (js ''Operation history'')),
    (js ''description'', Text (js ''Review administrative actions and account activity recorded by this service.'')),
    (js ''filtersTitle'', Text (js ''Filter history'')),
    (js ''action'', Text (js ''Action'')),
    (js ''actionPlaceholder'', Text (js ''Filter by action'' @ [0x2026])),
    (js ''actorFilter'', Text (js ''Actor ID'')),
    (js ''actorFilterPlaceholder'', Text (js ''Filter by actor UUID'' @ [0x2026])),
    (js ''actorFilterError'', Text (js ''Enter a valid actor UUID.'')),
    (js ''objectType'', Text (js ''Object type'')),
    (js ''objectTypePlaceholder'', Text (js ''Filter by object type'' @ [0x2026])),
    (js ''objectId'', Text (js ''Object ID'')),
    (js ''objectIdPlaceholder'', Text (js ''Filter by object ID'' @ [0x2026])),
    (js ''from'', Text (js ''From'')),
    (js ''to'', Text (js ''To'')),
    (js ''timeRangeError'', Text (js ''The end time must be later than the start time.'')),
    (js ''object'', Text (js ''Object'')),
    (js ''result'', Text (js ''Result'')),
    (js ''allResults'', Text (js ''All results'')),
    (js ''success'', Text (js ''Success'')),
    (js ''failure'', Text (js ''Failure'')),
    (js ''actor'', Text (js ''Actor'')),
    (js ''actorName'', Text (js ''Actor name'')),
    (js ''actorEmail'', Text (js ''Actor email'')),
    (js ''detailDescription'', Text (js ''Who performed this action, its outcome, and what changed.'')),
    (js ''loginSummary'', Text (js ''Signed in successfully. A login session was created.'')),
    (js ''changes'', Text (js ''Changes'')),
    (js ''field'', Text (js ''Field'')),
    (js ''beforeChange'', Text (js ''Before'')),
    (js ''afterChange'', Text (js ''After'')),
    (js ''noFieldChanges'', Text (js ''No changes to the recorded fields.'')),
    (js ''objectDetails'', Text (js ''Affected object'')),
    (js ''technicalDetails'', Text (js ''Technical details'')),
    (js ''recordId'', Text (js ''Record ID'')),
    (js ''actionCode'', Text (js ''Action code'')),
    (js ''emptyValue'', Text (js ''None'')),
    (js ''mailQueuedExplanation'', Text (js ''Queued for sending. This does not confirm delivery.'')),
    (js ''passwordActions'', english_operationLog_passwordActions),
    (js ''failureReasons'', english_operationLog_failureReasons),
    (js ''attemptedAccount'', Text (js ''Attempted account'')),
    (js ''unverifiedActor'', Text (js ''Unverified attempt'')),
    (js ''unknownActor'', Text (js ''Unknown actor'')),
    (js ''systemActor'', Text (js ''System'')),
    (js ''yes'', Text (js ''Yes'')),
    (js ''no'', Text (js ''No'')),
    (js ''occurredAt'', Text (js ''Time'')),
    (js ''sourceIp'', Text (js ''Source IP'')),
    (js ''details'', Text (js ''Details'')),
    (js ''notAvailable'', Text (js ''Unavailable'')),
    (js ''empty'', Text (js ''No operation history matches these filters.'')),
    (js ''viewDetails'', Text (js ''View operation details'')),
    (js ''detailTitle'', Text (js ''Operation details'')),
    (js ''detailUnavailable'', Text (js ''Operation details are unavailable.'')),
    (js ''readUnavailableTitle'', Text (js ''Operation history is unavailable'')),
    (js ''readUnavailableDescription'', Text (js ''The API could not load operation history. Refresh the page to try again.'')),
    (js ''statusUnavailableTitle'', Text (js ''Could not load operation recording status'')),
    (js ''statusUnavailableDescription'', Text (js ''The current recording status is unavailable. Refresh the page to try again.'')),
    (js ''statusUnknownTitle'', Text (js ''Operation history has no recording result yet'')),
    (js ''statusUnknownDescription'', Text (js ''No successful or failed operation-log write has been observed since this service started.'')),
    (js ''statusFailedTitle'', Text (js ''Operation history recording needs attention'')),
    (js ''statusFailedDescription'', Text (js ''Some recent operations may be missing from history. Review the recording status.'')),
    (js ''statusRecoveredTitle'', Text (js ''Operation history recording recovered'')),
    (js ''statusRecoveredDescription'', Text (js ''New operations are being recorded again. Operations during the failure may be missing.'')),
    (js ''retentionTitle'', Text (js ''Operation history'')),
    (js ''retentionDescription'', Text (js ''Choose how many days operation history is kept before automatic cleanup.'')),
    (js ''retentionDays'', Text (js ''Retention days'')),
    (js ''retentionDaysError'', Text (js ''Choose a whole number between 1 and 3650 days.'')),
    (js ''retentionShorteningTitle'', Text (js ''Shortening retention removes older history'')),
    (js ''retentionShorteningDescription'', Text (js ''The next cleanup will remove records older than the new period. Removed records cannot be restored.'')),
    (js ''retentionSaveSuccess'', Text (js ''Operation history retention saved.'')),
    (js ''retentionSaveFailed'', Text (js ''Operation history retention could not be saved.'')),
    (js ''retentionReadUnavailableTitle'', Text (js ''Operation history retention is unavailable'')),
    (js ''retentionReadUnavailableDescription'', Text (js ''The API could not load the retention setting. Refresh the page to try again.'')),
    (js ''actionLabels'', english_operationLog_actionLabels),
    (js ''objectLabels'', english_operationLog_objectLabels),
    (js ''deletedUser'', Text (js ''Deleted user'')),
    (js ''detailLabels'', english_operationLog_detailLabels)]"

definition english_settings_identity :: msg where
  "english_settings_identity = Group [
    (js ''title'', Text (js ''System identity'')),
    (js ''description'', Text (js ''Set the name and icon shown across this installation.'')),
    (js ''systemName'', Text (js ''System name'')),
    (js ''systemNameDescription'', Text (js ''Required. Leading and trailing spaces are removed; use up to 50 characters.'')),
    (js ''nameRequired'', Text (js ''Enter a system name.'')),
    (js ''nameTooLong'', Text (js ''Use 50 characters or fewer.'')),
    (js ''icon'', Text (js ''System icon'')),
    (js ''chooseIcon'', Text (js ''Choose an image'')),
    (js ''noIconFile'', Text (js ''No image chosen'')),
    (js ''iconDescription'', Text (js ''PNG, JPEG, or WebP up to 2 MB. The image is centered without cropping or stretching.'')),
    (js ''iconRequired'', Text (js ''Choose an image before saving the replacement.'')),
    (js ''restoreDefault'', Text (js ''Restore default'')),
    (js ''defaultIconPending'', Text (js ''Default icon will be restored on save.'')),
    (js ''newIconPending'', Text (js ''New icon will be published on save.'')),
    (js ''currentIcon'', Text (js ''Current published icon'')),
    (js ''saveSuccess'', Text (js ''System identity saved.'')),
    (js ''saveFailed'', Text (js ''System identity could not be saved.'')),
    (js ''readUnavailableTitle'', Text (js ''System identity is unavailable'')),
    (js ''readUnavailableDescription'', Text (js ''The API could not load system identity. Refresh the page to try again.''))]"

definition english_settings_email :: msg where
  "english_settings_email = Group [
    (js ''title'', Text (js ''Email delivery'')),
    (js ''description'', Text (js ''SMTP is stored securely and applies to new messages without restarting the service.'')),
    (js ''host'', Text (js ''SMTP host'')),
    (js ''port'', Text (js ''Port'')),
    (js ''security'', Text (js ''Security'')),
    (js ''securityNone'', Text (js ''None'')),
    (js ''securityStartTLS'', Text (js ''STARTTLS'')),
    (js ''securityTLS'', Text (js ''TLS'')),
    (js ''username'', Text (js ''Username'')),
    (js ''authentication'', Text (js ''Authentication'')),
    (js ''useAuthentication'', Text (js ''Use SMTP authentication'')),
    (js ''authenticationDescription'', Text (js ''Enable this when the relay requires a username and password.'')),
    (js ''password'', Text (js ''Password'')),
    (js ''passwordReplace'', Text (js ''Replace password'')),
    (js ''clearPassword'', Text (js ''Clear saved password'')),
    (js ''passwordCleared'', Text (js ''Password will be cleared'')),
    (js ''fromAddress'', Text (js ''From address'')),
    (js ''fromName'', Text (js ''From name'')),
    (js ''defaultLocale'', Text (js ''Default email language'')),
    (js ''chooseLocale'', Text (js ''Choose a language'')),
    (js ''testTitle'', Text (js ''Send test email'')),
    (js ''testRecipient'', Text (js ''Recipient email'')),
    (js ''testRecipientPlaceholder'', Text (js ''name@example.com'')),
    (js ''sendTest'', Text (js ''Send test email'')),
    (js ''testing'', Text (js ''Submitting'' @ [0x2026])),
    (js ''testSubmitted'', Text (js ''Test email submitted. Delivery is still in progress.'')),
    (js ''testDelivered'', Text (js ''Test email accepted by the SMTP service.'')),
    (js ''testDeliveryFailed'', Text (js ''Test email delivery failed. Check Email tasks for details.'')),
    (js ''testNotSavedTitle'', Text (js ''Save email settings first'')),
    (js ''testNotSavedDescription'', Text (js ''Save your SMTP changes before submitting a test email.'')),
    (js ''testSuccess'', Text (js ''Test email submitted. Delivery is still in progress.'')),
    (js ''testFailed'', Text (js ''Test email could not be submitted.'')),
    (js ''autoRetryCount'', Text (js ''Automatic retry count'')),
    (js ''autoRetryDescription'', Text (js ''Retries after the initial attempt. Set to 0 to disable automatic retries.'')),
    (js ''retentionDays'', Text (js ''Email record retention days'')),
    (js ''retentionDescription'', Text (js ''Completed tasks are removed after this many days.'')),
    (js ''policyInvalid'', Text (js ''Use whole numbers: retries 0'' @ [0x2013] @ js ''100 and retention 1'' @ [0x2013] @ js ''3650 days.'')),
    (js ''saveSuccess'', Text (js ''Email settings saved.'')),
    (js ''saveFailed'', Text (js ''Email settings could not be saved.'')),
    (js ''readUnavailableTitle'', Text (js ''Email settings are unavailable'')),
    (js ''readUnavailableDescription'', Text (js ''The API could not load email settings. Refresh the page to try again.''))]"

definition english_settings :: msg where
  "english_settings = Group [
    (js ''onThisPage'', Text (js ''On this page'')),
    (js ''title'', Text (js ''System settings'')),
    (js ''description'', Text (js ''Configure shared settings for this {{systemName}} installation.'')),
    (js ''identity'', english_settings_identity),
    (js ''email'', english_settings_email)]"

definition english_personalSettings_profile :: msg where
  "english_personalSettings_profile = Group [
    (js ''title'', Text (js ''Profile'')),
    (js ''name'', Text (js ''Display name'')),
    (js ''avatar'', Text (js ''Profile photo'')),
    (js ''avatarDescription'', Text (js ''JPG, PNG, or WebP up to 5 MB. The saved image is cropped to a 256 '' @ [0xD7] @ js '' 256 PNG.'')),
    (js ''email'', Text (js ''Email address'')),
    (js ''emailDescription'', Text (js ''Changing your email requires your current password and a verification code sent to the new address.''))]"

definition english_personalSettings_appearance :: msg where
  "english_personalSettings_appearance = Group [
    (js ''title'', Text (js ''Appearance and language'')),
    (js ''language'', Text (js ''Account language'')),
    (js ''languageDescription'', Text (js ''This preference follows your account on every device. Guest language remains browser-local.'')),
    (js ''theme'', Text (js ''Color mode'')),
    (js ''themeDescription'', Text (js ''Light, dark, or follow your operating system. This preference stays in this browser.''))]"

definition english_personalSettings_security :: msg where
  "english_personalSettings_security = Group [
    (js ''title'', Text (js ''Security'')),
    (js ''passwordTitle'', Text (js ''Change password'')),
    (js ''passwordDescription'', Text (js ''Changing your password signs out every device, including this one.'')),
    (js ''currentPassword'', Text (js ''Current password'')),
    (js ''newPassword'', Text (js ''New password'')),
    (js ''confirmPassword'', Text (js ''Confirm new password'')),
    (js ''savePassword'', Text (js ''Change password'')),
    (js ''passwordSaved'', Text (js ''Password changed. Sign in again.'')),
    (js ''passwordSaveFailed'', Text (js ''Password could not be changed.'')),
    (js ''emailTitle'', Text (js ''Change email address'')),
    (js ''emailDescription'', Text (js ''We will send a six-digit code to your new email address. It is valid for 10 minutes; existing sessions remain valid until verification.'')),
    (js ''newEmail'', Text (js ''New email address'')),
    (js ''sendCode'', Text (js ''Send verification code'')),
    (js ''codeSent'', Text (js ''Verification code sent.'')),
    (js ''codeSentTo'', Text (js ''Enter the code sent to {{email}}.'')),
    (js ''verificationCode'', Text (js ''Verification code'')),
    (js ''codeValidity'', Text (js ''This code is valid for 10 minutes.'')),
    (js ''resendIn'', Text (js ''You can resend in {{seconds}}s.'')),
    (js ''attemptsRemaining'', Text (js ''{{count}} attempts remaining'')),
    (js ''verify'', Text (js ''Verify and change email'')),
    (js ''resend'', Text (js ''Resend code'')),
    (js ''emailChanged'', Text (js ''Email changed. Sign in again.'')),
    (js ''emailChangeFailed'', Text (js ''Email change could not be started.'')),
    (js ''verifyFailed'', Text (js ''Email could not be changed.''))]"

definition english_personalSettings :: msg where
  "english_personalSettings = Group [
    (js ''title'', Text (js ''Personal settings'')),
    (js ''description'', Text (js ''Manage your profile, appearance, and account security.'')),
    (js ''loadFailed'', Text (js ''Personal settings could not be loaded. Refresh the page to try again.'')),
    (js ''nameSaved'', Text (js ''Your name was saved.'')),
    (js ''nameSaveFailed'', Text (js ''Your name could not be saved.'')),
    (js ''localeSaved'', Text (js ''Language preference saved.'')),
    (js ''localeSaveFailed'', Text (js ''Language preference could not be saved.'')),
    (js ''chooseAvatar'', Text (js ''Choose avatar'')),
    (js ''saveAvatar'', Text (js ''Save avatar'')),
    (js ''removeAvatar'', Text (js ''Remove avatar'')),
    (js ''avatarSaved'', Text (js ''Avatar saved.'')),
    (js ''avatarRemoved'', Text (js ''Avatar removed.'')),
    (js ''avatarSaveFailed'', Text (js ''Avatar could not be saved.'')),
    (js ''avatarUnsupported'', Text (js ''Choose a JPG, PNG, or WebP image.'')),
    (js ''avatarTooLarge'', Text (js ''Choose an image no larger than 5 MB.'')),
    (js ''avatarInvalid'', Text (js ''This image could not be processed.'')),
    (js ''avatarZoom'', Text (js ''Crop zoom'')),
    (js ''avatarPreview'', Text (js ''Avatar preview'')),
    (js ''profile'', english_personalSettings_profile),
    (js ''appearance'', english_personalSettings_appearance),
    (js ''security'', english_personalSettings_security)]"

definition english_access :: msg where
  "english_access = Group [
    (js ''users'', Text (js ''Users'')),
    (js ''usersAccess'', Text (js ''Users & access'')),
    (js ''roles'', Text (js ''Roles'')),
    (js ''usersTitle'', Text (js ''User management'')),
    (js ''creator'', Text (js ''Created by'')),
    (js ''lifecycleSaved'', Text (js ''User updated.'')),
    (js ''deletedUser'', Text (js ''Deleted user'')),
    (js ''activeStatus'', Text (js ''Active'')),
    (js ''disabledStatus'', Text (js ''Disabled'')),
    (js ''deactivate'', Text (js ''Deactivate'')),
    (js ''reactivate'', Text (js ''Reactivate'')),
    (js ''deleteUser'', Text (js ''Delete'')),
    (js ''confirmReactivate'', Text (js ''Reactivate {{name}}?'')),
    (js ''confirmDeactivate'', Text (js ''Deactivate {{name}}?'')),
    (js ''deletePrompt'', Text (js ''Type {{email}} to permanently delete this user'')),
    (js ''deleteWarning'', Text (js ''This cannot be undone. Historical records will be retained.'')),
    (js ''usersDescription'', Text (js ''Review activated users and assign their roles.'')),
    (js ''rolesTitle'', Text (js ''Role management'')),
    (js ''rolesDescription'', Text (js ''Define the permission bundles available to users.'')),
    (js ''invitations'', Text (js ''Invitations'')),
    (js ''invitationsTitle'', Text (js ''Invitation management'')),
    (js ''invitationsDescription'', Text (js ''Track invitations that have not been accepted yet.'')),
    (js ''invitationFormDescription'', Text (js ''Choose the roles to grant after activation. The system default email language is used.'')),
    (js ''inviteUser'', Text (js ''Invite user'')),
    (js ''createRole'', Text (js ''Create role'')),
    (js ''editRole'', Text (js ''Edit role'')),
    (js ''saveRole'', Text (js ''Save role'')),
    (js ''saving'', Text (js ''Saving'' @ [0x2026])),
    (js ''roleCreated'', Text (js ''Role created.'')),
    (js ''roleUpdated'', Text (js ''Role updated.'')),
    (js ''roleDeleted'', Text (js ''Role deleted.'')),
    (js ''assignmentsSaved'', Text (js ''Role assignments saved.'')),
    (js ''invitationCreated'', Text (js ''Invitation created and email submitted.'')),
    (js ''invitationResent'', Text (js ''Invitation email submitted.'')),
    (js ''invitationRenewed'', Text (js ''Invitation renewed and email submitted.'')),
    (js ''invitationRevoked'', Text (js ''Invitation revoked.'')),
    (js ''roleName'', Text (js ''Role name'')),
    (js ''roleDescription'', Text (js ''Description'')),
    (js ''permissions'', Text (js ''Permissions'')),
    (js ''role'', Text (js ''Role'')),
    (js ''assignedRoles'', Text (js ''Assigned roles'')),
    (js ''assignRoles'', Text (js ''Assign roles'')),
    (js ''saveAssignments'', Text (js ''Save assignments'')),
    (js ''noUsers'', Text (js ''No activated users yet.'')),
    (js ''noRoles'', Text (js ''No roles yet.'')),
    (js ''noInvitations'', Text (js ''No invitations yet.'')),
    (js ''systemRole'', Text (js ''Built-in role'')),
    (js ''systemRoleReadOnly'', Text (js ''Built-in role '' @ [0xB7] @ js '' read-only'')),
    (js ''customRole'', Text (js ''Custom role'')),
    (js ''superAdmin'', Text (js ''Super Admin'')),
    (js ''readOnly'', Text (js ''Read only'')),
    (js ''inviteName'', Text (js ''Name'')),
    (js ''inviteEmail'', Text (js ''Email'')),
    (js ''sendInvitation'', Text (js ''Send invitation'')),
    (js ''resending'', Text (js ''Resending'' @ [0x2026])),
    (js ''resend'', Text (js ''Resend'')),
    (js ''revoke'', Text (js ''Revoke'')),
    (js ''revokeConfirm'', Text (js ''Revoke the invitation for {{email}}? The activation link will stop working.'')),
    (js ''deleteRole'', Text (js ''Delete role'')),
    (js ''deleteRoleConfirm'', Text (js ''Delete '' @ [0x201C] @ js ''{{name}}'' @ [0x201D] @ js ''?'')),
    (js ''roleInUse'', Text (js ''Reassign every user and pending invitation before deleting this role.'')),
    (js ''lastSuperAdmin'', Text (js ''At least one usable Super Admin must remain.'')),
    (js ''staleRevision'', Text (js ''This item changed elsewhere. Refresh the page before trying again. Unsaved changes may be lost.'')),
    (js ''forbiddenTitle'', Text (js ''Access denied'')),
    (js ''forbiddenDescription'', Text (js ''Your account does not have permission to view this page.'')),
    (js ''conflictTitle'', Text (js ''This record changed'')),
    (js ''conflictDescription'', Text (js ''Another administrator changed this record. Refresh the page before trying again. Refreshing will discard unsaved changes.'')),
    (js ''validationTitle'', Text (js ''Review the access details'')),
    (js ''validationDescription'', Text (js ''The submitted access details were not accepted. Correct the highlighted values and try again.'')),
    (js ''reload'', Text (js ''Reload'')),
    (js ''unavailableTitle'', Text (js ''Access data is unavailable'')),
    (js ''unavailableDescription'', Text (js ''The API could not load access data. Refresh the page to try again.'')),
    (js ''invitationTitle'', Text (js ''Accept your invitation'')),
    (js ''invitationDescription'', Text (js ''Set a password to activate your {{systemName}} administrator account.'')),
    (js ''acceptInvitation'', Text (js ''Accept invitation'')),
    (js ''acceptingInvitation'', Text (js ''Activating account'' @ [0x2026])),
    (js ''invitationAccepted'', Text (js ''Invitation accepted'')),
    (js ''invitationAcceptedDescription'', Text (js ''Your account is ready. Sign in to continue.'')),
    (js ''invalidInvitationTitle'', Text (js ''This invitation is invalid'')),
    (js ''invalidInvitationDescription'', Text (js ''The link may be expired, revoked, or already used. Ask an administrator for a new invitation.'')),
    (js ''onlineUsers'', Text (js ''Online users'')),
    (js ''permissionOnlineUsersRead'', Text (js ''View online users'')),
    (js ''permissionOnlineUsersWrite'', Text (js ''Force sign out'')),
    (js ''permissionOnlineUsersReadDescription'', Text (js ''View users with a valid sign-in session.'')),
    (js ''permissionOnlineUsersWriteDescription'', Text (js ''Force any user to sign out of all devices, including a Super Admin or yourself.'')),
    (js ''permissionUsersRead'', Text (js ''View users'')),
    (js ''permissionUsersWrite'', Text (js ''Manage users'')),
    (js ''permissionRolesRead'', Text (js ''View roles'')),
    (js ''permissionRolesWrite'', Text (js ''Manage roles'')),
    (js ''permissionUsersReadDescription'', Text (js ''View activated users and assigned roles.'')),
    (js ''permissionUsersWriteDescription'', Text (js ''Assign roles and deactivate, reactivate, or delete other users, including Super Admins.'')),
    (js ''permissionRolesReadDescription'', Text (js ''View roles and their permission grants.'')),
    (js ''permissionRolesWriteDescription'', Text (js ''Create, edit, and delete custom roles.'')),
    (js ''permissionInvitationsRead'', Text (js ''View invitations'')),
    (js ''permissionInvitationsWrite'', Text (js ''Manage invitations'')),
    (js ''permissionInvitationsReadDescription'', Text (js ''View invitations, their status, expiry, and assigned roles.'')),
    (js ''permissionInvitationsWriteDescription'', Text (js ''Create, resend, renew, and revoke invitations.'')),
    (js ''permissionSettingsRead'', Text (js ''View system settings'')),
    (js ''permissionSettingsWrite'', Text (js ''Manage system settings'')),
    (js ''permissionSettingsReadDescription'', Text (js ''View shared system settings.'')),
    (js ''permissionSettingsWriteDescription'', Text (js ''Update shared system settings.'')),
    (js ''permissionOperationLogsRead'', Text (js ''View operation history'')),
    (js ''permissionOperationLogsReadDescription'', Text (js ''View administrative actions, account activity, and recording status.'')),
    (js ''permissionMailTasksRead'', Text (js ''View email tasks'')),
    (js ''permissionMailTasksWrite'', Text (js ''Manage email tasks'')),
    (js ''permissionMailTasksReadDescription'', Text (js ''View system email tasks and safe delivery attempts.'')),
    (js ''permissionMailTasksWriteDescription'', Text (js ''Retry failed tasks or permanently delete tasks.'')),
    (js ''operationLog'', Text (js ''Operation history'')),
    (js ''emailTasks'', Text (js ''Email tasks'')),
    (js ''searchUsers'', Text (js ''Search users by name or email'' @ [0x2026])),
    (js ''searchInvitations'', Text (js ''Search invitations by name or email'' @ [0x2026])),
    (js ''searchRoles'', Text (js ''Search roles by name'' @ [0x2026])),
    (js ''noSearchResults'', Text (js ''No matching records.'')),
    (js ''actions'', Text (js ''Actions'')),
    (js ''edit'', Text (js ''Edit'')),
    (js ''delete'', Text (js ''Delete'')),
    (js ''createdAt'', Text (js ''Created'')),
    (js ''expiresAt'', Text (js ''Expires'')),
    (js ''emailLanguage'', Text (js ''Email language'')),
    (js ''roleCount'', Text (js ''Roles'')),
    (js ''permissionCount'', Text (js ''Permissions'')),
    (js ''assignmentCount'', Text (js ''Assignments'')),
    (js ''assignmentCountDescription'', Text (js ''Includes activated users and invitations, including expired invitations.'')),
    (js ''assignmentCountDetail'', Text (js ''{{count}} assigned users or invitations'')),
    (js ''type'', Text (js ''Type'')),
    (js ''status'', Text (js ''Status'')),
    (js ''pending'', Text (js ''Pending'')),
    (js ''expired'', Text (js ''Expired'')),
    (js ''expiresOn'', Text (js ''Expires {{date}}'')),
    (js ''renewInvitation'', Text (js ''Renew invitation'')),
    (js ''renewAndSend'', Text (js ''Renew and send'')),
    (js ''sendInvitationConfirm'', Text (js ''Send an invitation to {{email}}? The previous link will stop working.'')),
    (js ''filterByRole'', Text (js ''Filter by role'')),
    (js ''filterByStatus'', Text (js ''Filter by status'')),
    (js ''allRoles'', Text (js ''All roles'')),
    (js ''allStatuses'', Text (js ''All statuses'')),
    (js ''moreRoles'', Text (js ''{{count}} more roles'')),
    (js ''moreActions'', Text (js ''More actions'')),
    (js ''view'', Text (js ''View details'')),
    (js ''builtInRoleTooltip'', Text (js ''{{systemName}} built-in role; it cannot be edited or deleted.'')),
    (js ''builtInRoleDescription'', Text (js ''Built-in role '' @ [0xB7] @ js '' read-only'')),
    (js ''customRoleDescription'', Text (js ''Custom role'')),
    (js ''permissionRequired'', Text (js ''Required by this feature'')),
    (js ''noPermissions'', Text (js ''No permissions are available for this role.'')),
    (js ''deleteRoleDisabled'', Text (js ''Reassign all users and invitations before deleting this role.'')),
    (js ''unavailable'', Text (js ''Unavailable'')),
    (js ''invitationActionUnavailable'', Text (js ''You need higher permissions to manage this invitation.'')),
    (js ''clearSearch'', Text (js ''Clear search'')),
    (js ''reloadLatest'', Text (js ''Discard draft and reload'')),
    (js ''draftConflictTitle'', Text (js ''This record changed'')),
    (js ''draftConflictDescription'', Text (js ''Another administrator changed this record. Refresh the page before trying again. Refreshing will discard unsaved changes.'')),
    (js ''discardDraft'', Text (js ''Discard draft and reload'')),
    (js ''invalidPermissionSelection'', Text (js ''One or more selected permissions are no longer available. Refresh the page before saving.'')),
    (js ''invalidRoleSelection'', Text (js ''One or more selected roles are no longer available. Refresh the page before saving.'')),
    (js ''requiredRole'', Text (js ''Select at least one role.'')),
    (js ''requiredPermission'', Text (js ''Select at least one permission.'')),
    (js ''pagination'', Text (js ''Pagination'')),
    (js ''previousPage'', Text (js ''Previous page'')),
    (js ''nextPage'', Text (js ''Next page''))]"

definition english_problems_fields :: msg where
  "english_problems_fields = Group [
    (js ''required'', Text (js ''This field is required.'')),
    (js ''invalidName'', Text (js ''Enter a name between 1 and 100 characters without control characters.'')),
    (js ''invalidEmail'', Text (js ''Enter a valid email address.'')),
    (js ''invalidPassword'', Text (js ''Use a password between 8 and 128 characters with uppercase, lowercase, a number, and a special character.'')),
    (js ''invalidLoginPassword'', Text (js ''Enter a valid password.'')),
    (js ''loginPasswordRequired'', Text (js ''Enter your password.'')),
    (js ''loginPasswordTooLong'', Text (js ''Password must not exceed 128 characters.'')),
    (js ''invalidValue'', Text (js ''Enter a valid value.'')),
    (js ''tooLong'', Text (js ''Use 50 characters or fewer.'')),
    (js ''invalidIcon'', Text (js ''Choose a complete PNG, JPEG, or WebP image no larger than 2 MB.'')),
    (js ''unsupportedImageType'', Text (js ''Use a PNG, JPEG, or WebP image.'')),
    (js ''emailAlreadyRegistered'', Text (js ''That email address is already registered.'')),
    (js ''sameEmail'', Text (js ''That is already your current email address.'')),
    (js ''invalidCode'', Text (js ''Enter the six-digit verification code.'')),
    (js ''passwordMismatch'', Text (js ''The passwords do not match.'')),
    (js ''emptyPermissions'', Text (js ''Select at least one permission.'')),
    (js ''unknownPermission'', Text (js ''Select a permission from the current catalog.'')),
    (js ''invalidRole'', Text (js ''Select an existing role.'')),
    (js ''duplicateRole'', Text (js ''Remove duplicate roles.'')),
    (js ''invalidRevision'', Text (js ''Refresh the page before saving.'')),
    (js ''invalidLimit'', Text (js ''Choose a page size between 1 and 100.'')),
    (js ''invalidCursor'', Text (js ''Reload the page to continue.'')),
    (js ''invalidRoleSet'', Text (js ''Select at least one valid role.'')),
    (js ''invalidDescription'', Text (js ''Use 500 characters or fewer.'')),
    (js ''invalidRetryCount'', Text (js ''Choose a whole number between 0 and 100.'')),
    (js ''invalidRetentionDays'', Text (js ''Choose a whole number between 1 and 3650 days.'')),
    (js ''invalidTime'', Text (js ''Enter a valid date and time.'')),
    (js ''invalidTimeRange'', Text (js ''Choose an end after the start.'')),
    (js ''invalidBatch'', Text (js ''Select between 1 and 100 tasks.'')),
    (js ''invalidID'', Text (js ''Select a valid task.'')),
    (js ''duplicateID'', Text (js ''Do not select a task more than once.''))]"

definition english_problems :: msg where
  "english_problems = Group [
    (js ''generic'', Text (js ''Something went wrong. Try again.'')),
    (js ''accountDisabled'', Text (js ''Your account has been deactivated. Contact an administrator.'')),
    (js ''selfUserOperation'', Text (js ''You cannot deactivate or delete your own account.'')),
    (js ''invalidRequest'', Text (js ''The request could not be understood. Review the form and try again.'')),
    (js ''invalidCredentials'', Text (js ''The email or password is incorrect.'')),
    (js ''unauthenticated'', Text (js ''Your session has ended. Sign in again to continue.'')),
    (js ''forbidden'', Text (js ''This action is not allowed from the current browser origin.'')),
    (js ''invalidSetupToken'', Text (js ''This setup link is invalid or has expired. Retrieve the latest link from the API log and open it again.'')),
    (js ''invalidPasswordResetToken'', Text (js ''This password reset link is invalid or has expired. Request a new link to continue.'')),
    (js ''notFound'', Text (js ''That resource could not be found.'')),
    (js ''methodNotAllowed'', Text (js ''That action is not available here.'')),
    (js ''setupComplete'', Text (js ''Already initialized. Sign in with the administrator account.'')),
    (js ''contentTooLarge'', Text (js ''The submitted data is too large. Shorten it and try again.'')),
    (js ''unsupportedMediaType'', Text (js ''The request format is not supported. Try again from this page.'')),
    (js ''validationFailed'', Text (js ''Review the highlighted fields and try again.'')),
    (js ''rateLimited'', Text (js ''Too many sign in attempts. Wait a moment and try again.'')),
    (js ''passwordResetRateLimited'', Text (js ''Too many password reset requests. Wait a moment and try again.'')),
    (js ''passwordResetCompletionRateLimited'', Text (js ''Too many password reset attempts. Wait a moment and try again.'')),
    (js ''invitationRateLimited'', Text (js ''Too many invitation attempts. Wait a moment and try again.'')),
    (js ''setupRateLimited'', Text (js ''Too many setup attempts. Wait a moment and try again.'')),
    (js ''invitationSendRateLimited'', Text (js ''Too many invitation emails. Wait a moment and try again.'')),
    (js ''testEmailRateLimited'', Text (js ''Too many test emails. Wait a moment and try again.'')),
    (js ''emailChangeInvalid'', Text (js ''This email change request is invalid or expired. Request a new code.'')),
    (js ''emailChangeCodeInvalid'', Text (js ''That verification code is incorrect.'')),
    (js ''emailChangeAttemptsExceeded'', Text (js ''Too many incorrect codes. Request a new code.'')),
    (js ''emailChangeResendTooSoon'', Text (js ''Wait 60 seconds before requesting another code.'')),
    (js ''internalError'', Text (js ''The server could not complete that request. Try again.'')),
    (js ''serviceUnavailable'', Text (js ''A required service is temporarily unavailable. Try again shortly.'')),
    (js ''invalidInvitation'', Text (js ''This invitation is invalid or has expired. Ask an administrator for a new invitation.'')),
    (js ''roleInUse'', Text (js ''This role is still assigned. Reassign users and invitations first.'')),
    (js ''roleImmutable'', Text (js ''The built-in Super Admin role cannot be changed.'')),
    (js ''lastSuperAdmin'', Text (js ''At least one usable Super Admin must remain.'')),
    (js ''staleRevision'', Text (js ''This record changed elsewhere. Refresh the page before trying again. Unsaved changes may be lost.'')),
    (js ''roleAlreadyExists'', Text (js ''A role with that name already exists.'')),
    (js ''invitationPending'', Text (js ''An invitation is already pending for that email.'')),
    (js ''network'', Text (js ''The API could not be reached. Check the connection and try again.'')),
    (js ''requestCancelled'', Text (js ''The request was cancelled.'')),
    (js ''malformedResponse'', Text (js ''The API returned an unexpected response. Try again or contact the operator.'')),
    (js ''mailNotConfigured'', Text (js ''Email service is not configured. Contact an administrator.'')),
    (js ''mailTaskNotFound'', Text (js ''That email task no longer exists.'')),
    (js ''mailTaskSending'', Text (js ''That email task is currently sending. Try again after it finishes.'')),
    (js ''mailTaskNotRetryable'', Text (js ''Only failed email tasks can be retried.'')),
    (js ''mailSettingsNotSaved'', Text (js ''Save email settings before submitting a test email.'')),
    (js ''invalidMailSettings'', Text (js ''Email settings are invalid. If you changed the SMTP host, port, or username, enter a new password; to use an unauthenticated connection, explicitly clear the saved password.'')),
    (js ''permissionScope'', Text (js ''You can only grant permissions that you already have.'')),
    (js ''fields'', english_problems_fields)]"

definition english :: msg where
  "english = Group [
    (js ''onlineUsers'', english_onlineUsers),
    (js ''emailTasks'', english_emailTasks),
    (js ''common'', english_common),
    (js ''auth'', english_auth),
    (js ''operationLog'', english_operationLog),
    (js ''settings'', english_settings),
    (js ''personalSettings'', english_personalSettings),
    (js ''access'', english_access),
    (js ''problems'', english_problems)]"

definition chinese_onlineUsers :: msg where
  "chinese_onlineUsers = Group [
    (js ''title'', Text ([0x5728, 0x7EBF, 0x7528, 0x6237])),
    (js ''description'', Text ([0x663E, 0x793A, 0x81F3, 0x5C11, 0x6709, 0x4E00, 0x4E2A, 0x6709, 0x6548, 0x767B, 0x5F55, 0x4F1A, 0x8BDD, 0x7684, 0x7528, 0x6237, 0xFF0C, 0x5305, 0x62EC, 0x8FD1, 0x671F, 0x6CA1, 0x6709, 0x6D3B, 0x52A8, 0x7684, 0x4F1A, 0x8BDD, 0x3002, 0x6253, 0x5F00, 0x7684, 0x9875, 0x9762, 0x6BCF] @ js '' 30 '' @ [0x79D2, 0x68C0, 0x67E5, 0x4E00, 0x6B21, 0x4F1A, 0x8BDD, 0xFF0C, 0x5217, 0x8868, 0x6BCF] @ js '' 15 '' @ [0x79D2, 0x5237, 0x65B0, 0x3002])),
    (js ''sessions'', Text ([0x6709, 0x6548, 0x4F1A, 0x8BDD, 0x6570])),
    (js ''lastSeen'', Text ([0x6700, 0x8FD1, 0x6D3B, 0x52A8])),
    (js ''you'', Text ([0x4F60])),
    (js ''forceSignOut'', Text ([0x5F3A, 0x5236, 0x9000, 0x51FA])),
    (js ''refresh'', Text ([0x5237, 0x65B0])),
    (js ''empty'', Text ([0x6682, 0x65E0, 0x5728, 0x7EBF, 0x7528, 0x6237, 0x3002])),
    (js ''confirmTitle'', Text ([0x786E, 0x8BA4, 0x5F3A, 0x5236, 0x9000, 0x51FA, 0xFF1F])),
    (js ''confirm'', Text ([0x5C06] @ js '' {{name}}'' @ [0xFF08] @ js ''{{email}}'' @ [0xFF09, 0x5728, 0x6240, 0x6709, 0x8BBE, 0x5907, 0x4E0A, 0x7684, 0x767B, 0x5F55, 0x4F1A, 0x8BDD, 0x5F3A, 0x5236, 0x9000, 0x51FA, 0x3002, 0x8BE5, 0x7528, 0x6237, 0x53EF, 0x4EE5, 0x91CD, 0x65B0, 0x767B, 0x5F55, 0x3002])),
    (js ''confirmSelf'', Text ([0x4F60, 0x7684, 0x6240, 0x6709, 0x8BBE, 0x5907, 0xFF08, 0x5305, 0x62EC, 0x5F53, 0x524D, 0x9875, 0x9762, 0xFF09, 0x90FD, 0x5C06, 0x5F3A, 0x5236, 0x9000, 0x51FA, 0x3002, 0x4F60, 0x53EF, 0x4EE5, 0x91CD, 0x65B0, 0x767B, 0x5F55, 0x3002])),
    (js ''working'', Text ([0x6B63, 0x5728, 0x5F3A, 0x5236, 0x9000, 0x51FA, 0x2026])),
    (js ''success'', Text ([0x5DF2, 0x5C06] @ js '' {{name}} '' @ [0x5F3A, 0x5236, 0x9000, 0x51FA, 0x3002])),
    (js ''loadFailed'', Text ([0x65E0, 0x6CD5, 0x52A0, 0x8F7D, 0x5728, 0x7EBF, 0x7528, 0x6237, 0x3002])),
    (js ''forceSignOutFailed'', Text ([0x5F3A, 0x5236, 0x9000, 0x51FA, 0x5931, 0x8D25, 0x3002]))]"

definition chinese_emailTasks :: msg where
  "chinese_emailTasks = Group [
    (js ''title'', Text ([0x90AE, 0x4EF6, 0x4EFB, 0x52A1])),
    (js ''description'', Text ([0x67E5, 0x770B, 0x90AE, 0x4EF6, 0x6295, 0x9012, 0x8FDB, 0x5C55, 0xFF0C, 0x4E0D, 0x5C55, 0x793A, 0x90AE, 0x4EF6, 0x6B63, 0x6587, 0x6216, 0x5B89, 0x5168, 0x51ED, 0x636E, 0x3002])),
    (js ''filtersTitle'', Text ([0x7B5B, 0x9009, 0x90AE, 0x4EF6, 0x4EFB, 0x52A1])),
    (js ''detailDescription'', Text ([0x8FD9, 0x91CC, 0x53EA, 0x663E, 0x793A, 0x6295, 0x9012, 0x5143, 0x6570, 0x636E, 0x548C, 0x5B89, 0x5168, 0x7684, 0x5C1D, 0x8BD5, 0x8BB0, 0x5F55, 0xFF0C, 0x4E0D, 0x5C55, 0x793A, 0x90AE, 0x4EF6, 0x6B63, 0x6587, 0x3002])),
    (js ''detailUnavailable'', Text ([0x65E0, 0x6CD5, 0x83B7, 0x53D6, 0x90AE, 0x4EF6, 0x4EFB, 0x52A1, 0x8BE6, 0x60C5, 0x3002])),
    (js ''attemptHistory'', Text ([0x53D1, 0x9001, 0x5C1D, 0x8BD5, 0x8BB0, 0x5F55])),
    (js ''noAttempts'', Text ([0x5C1A, 0x65E0, 0x53D1, 0x9001, 0x5C1D, 0x8BD5, 0x3002])),
    (js ''finishedAt'', Text ([0x7ED3, 0x675F, 0x65F6, 0x95F4])),
    (js ''timeRangeError'', Text ([0x7ED3, 0x675F, 0x65F6, 0x95F4, 0x5FC5, 0x987B, 0x665A, 0x4E8E, 0x5F00, 0x59CB, 0x65F6, 0x95F4, 0x3002])),
    (js ''selectAll'', Text ([0x5168, 0x9009])),
    (js ''select'', Text ([0x9009, 0x62E9])),
    (js ''recipient'', Text ([0x6536, 0x4EF6, 0x5730, 0x5740])),
    (js ''recipientPlaceholder'', Text ([0x6309, 0x6536, 0x4EF6, 0x5730, 0x5740, 0x7B5B, 0x9009, 0x2026])),
    (js ''purpose'', Text ([0x7528, 0x9014])),
    (js ''allPurposes'', Text ([0x5168, 0x90E8, 0x7528, 0x9014])),
    (js ''status'', Text ([0x72B6, 0x6001])),
    (js ''allStatuses'', Text ([0x5168, 0x90E8, 0x72B6, 0x6001])),
    (js ''createdFrom'', Text ([0x521B, 0x5EFA, 0x65F6, 0x95F4, 0x8D77])),
    (js ''createdTo'', Text ([0x521B, 0x5EFA, 0x65F6, 0x95F4, 0x6B62])),
    (js ''failedOnly'', Text ([0x4EC5, 0x663E, 0x793A, 0x53D1, 0x9001, 0x5931, 0x8D25])),
    (js ''applyFilters'', Text ([0x5E94, 0x7528, 0x7B5B, 0x9009])),
    (js ''resetFilters'', Text ([0x91CD, 0x7F6E, 0x7B5B, 0x9009])),
    (js ''createdAt'', Text ([0x521B, 0x5EFA, 0x65F6, 0x95F4])),
    (js ''language'', Text ([0x8BED, 0x8A00])),
    (js ''attempts'', Text ([0x5C1D, 0x8BD5, 0x6B21, 0x6570])),
    (js ''actions'', Text ([0x64CD, 0x4F5C])),
    (js ''details'', Text ([0x8BE6, 0x60C5])),
    (js ''viewDetails'', Text ([0x67E5, 0x770B, 0x8BE6, 0x60C5])),
    (js ''retry'', Text ([0x91CD, 0x8BD5])),
    (js ''delete'', Text ([0x5220, 0x9664])),
    (js ''retrySelected'', Text ([0x91CD, 0x8BD5, 0x6240, 0x9009])),
    (js ''deleteSelected'', Text ([0x5220, 0x9664, 0x6240, 0x9009])),
    (js ''confirmDeleteTitle'', Text ([0x5220, 0x9664, 0x90AE, 0x4EF6, 0x4EFB, 0x52A1, 0xFF1F])),
    (js ''confirmDeleteDescription'', Text ([0x5C06, 0x6C38, 0x4E45, 0x5220, 0x9664, 0x4EFB, 0x52A1, 0x3001, 0x91CD, 0x53D1, 0x6750, 0x6599, 0x548C, 0x5C1D, 0x8BD5, 0x8BB0, 0x5F55, 0x3002] @ js ''SMTP '' @ [0x5DF2, 0x63A5, 0x53D7, 0x7684, 0x526F, 0x672C, 0x65E0, 0x6CD5, 0x64A4, 0x56DE, 0x3002])),
    (js ''confirmBulkDeleteDescription'', Text ([0x6C38, 0x4E45, 0x5220, 0x9664, 0x6240, 0x9009, 0x90AE, 0x4EF6, 0x4EFB, 0x52A1, 0xFF1F, 0x53D1, 0x9001, 0x4E2D, 0x7684, 0x4EFB, 0x52A1, 0x4F1A, 0x88AB, 0x8DF3, 0x8FC7, 0x3002])),
    (js ''cancel'', Text ([0x53D6, 0x6D88])),
    (js ''queued'', Text ([0x5F85, 0x53D1, 0x9001])),
    (js ''sending'', Text ([0x53D1, 0x9001, 0x4E2D])),
    (js ''waitingRetry'', Text ([0x7B49, 0x5F85, 0x91CD, 0x8BD5])),
    (js ''sent'', Text (js ''SMTP '' @ [0x5DF2, 0x63A5, 0x6536])),
    (js ''failed'', Text ([0x53D1, 0x9001, 0x5931, 0x8D25])),
    (js ''purposePasswordReset'', Text ([0x5BC6, 0x7801, 0x91CD, 0x7F6E])),
    (js ''purposePasswordChanged'', Text ([0x5BC6, 0x7801, 0x5DF2, 0x4FEE, 0x6539])),
    (js ''purposeInvitation'', Text ([0x9080, 0x8BF7])),
    (js ''purposeEmailChangeCode'', Text ([0x90AE, 0x7BB1, 0x9A8C, 0x8BC1, 0x7801])),
    (js ''purposeEmailChanged'', Text ([0x90AE, 0x7BB1, 0x5DF2, 0x4FEE, 0x6539])),
    (js ''purposeTestEmail'', Text ([0x6D4B, 0x8BD5, 0x90AE, 0x4EF6])),
    (js ''outcomeSent'', Text ([0x5DF2, 0x63A5, 0x6536])),
    (js ''outcomeFailed'', Text ([0x5931, 0x8D25])),
    (js ''failureTemporary'', Text ([0x4E34, 0x65F6, 0x6295, 0x9012, 0x95EE, 0x9898])),
    (js ''failurePermanent'', Text ([0x6C38, 0x4E45, 0x6295, 0x9012, 0x95EE, 0x9898])),
    (js ''failureDependency'', Text ([0x6295, 0x9012, 0x670D, 0x52A1, 0x4E0D, 0x53EF, 0x7528])),
    (js ''failureExpired'', Text ([0x6295, 0x9012, 0x671F, 0x9650, 0x5DF2, 0x8FC7])),
    (js ''failureSuperseded'', Text ([0x5DF2, 0x88AB, 0x66FF, 0x4EE3])),
    (js ''failureInvalid'', Text ([0x6295, 0x9012, 0x6750, 0x6599, 0x65E0, 0x6548])),
    (js ''empty'', Text ([0x6CA1, 0x6709, 0x7B26, 0x5408, 0x7B5B, 0x9009, 0x6761, 0x4EF6, 0x7684, 0x90AE, 0x4EF6, 0x4EFB, 0x52A1, 0x3002])),
    (js ''loading'', Text ([0x6B63, 0x5728, 0x52A0, 0x8F7D, 0x90AE, 0x4EF6, 0x4EFB, 0x52A1, 0x2026])),
    (js ''readUnavailableTitle'', Text ([0x65E0, 0x6CD5, 0x83B7, 0x53D6, 0x90AE, 0x4EF6, 0x4EFB, 0x52A1])),
    (js ''readUnavailableDescription'', Text (js ''API '' @ [0x6682, 0x65F6, 0x65E0, 0x6CD5, 0x52A0, 0x8F7D, 0x90AE, 0x4EF6, 0x4EFB, 0x52A1, 0xFF0C, 0x8BF7, 0x5237, 0x65B0, 0x9875, 0x9762, 0x540E, 0x518D, 0x8BD5, 0x3002])),
    (js ''operationFailed'', Text ([0x90AE, 0x4EF6, 0x4EFB, 0x52A1, 0x64CD, 0x4F5C, 0x5931, 0x8D25, 0x3002])),
    (js ''partialResult'', Text ([0x6210, 0x529F] @ js '' {{succeeded}} '' @ [0x6761, 0xFF0C, 0x8DF3, 0x8FC7] @ js '' {{skipped}} '' @ [0x6761, 0xFF0C, 0x5931, 0x8D25] @ js '' {{failed}} '' @ [0x6761, 0x3002])),
    (js ''skippedReasons'', Text ([0x8DF3, 0x8FC7, 0x539F, 0x56E0, 0xFF1A] @ js ''{{reasons}}'' @ [0x3002])),
    (js ''notFailed'', Text ([0x4E0D, 0x662F, 0x53D1, 0x9001, 0x5931, 0x8D25, 0x72B6, 0x6001])),
    (js ''notFound'', Text ([0x4EFB, 0x52A1, 0x4E0D, 0x5B58, 0x5728])),
    (js ''deleted'', Text ([0x90AE, 0x4EF6, 0x4EFB, 0x52A1, 0x5DF2, 0x5220, 0x9664, 0x3002])),
    (js ''retried'', Text ([0x5DF2, 0x63D0, 0x4EA4, 0x90AE, 0x4EF6, 0x4EFB, 0x52A1, 0x91CD, 0x8BD5, 0x3002])),
    (js ''noRead'', Text ([0x4F60, 0x6CA1, 0x6709, 0x67E5, 0x770B, 0x90AE, 0x4EF6, 0x4EFB, 0x52A1, 0x7684, 0x6743, 0x9650, 0x3002])),
    (js ''noWrite'', Text ([0x4F60, 0x7684, 0x89D2, 0x8272, 0x53EF, 0x4EE5, 0x67E5, 0x770B, 0x90AE, 0x4EF6, 0x4EFB, 0x52A1, 0xFF0C, 0x4F46, 0x4E0D, 0x80FD, 0x91CD, 0x8BD5, 0x6216, 0x5220, 0x9664, 0x3002]))]"

definition chinese_common :: msg where
  "chinese_common = Group [
    (js ''home'', Text ([0x9996, 0x9875])),
    (js ''settings'', Text ([0x7CFB, 0x7EDF, 0x8BBE, 0x7F6E])),
    (js ''systemMonitoring'', Text ([0x7CFB, 0x7EDF, 0x76D1, 0x63A7])),
    (js ''configureSettings'', Text ([0x914D, 0x7F6E, 0x7CFB, 0x7EDF, 0x8BBE, 0x7F6E])),
    (js ''menu'', Text ([0x83DC, 0x5355])),
    (js ''language'', Text ([0x8BED, 0x8A00])),
    (js ''english'', Text (js ''English'')),
    (js ''chinese'', Text ([0x7B80, 0x4F53, 0x4E2D, 0x6587])),
    (js ''appearance'', Text ([0x5916, 0x89C2])),
    (js ''appearanceSettings'', Text ([0x5916, 0x89C2, 0x8BBE, 0x7F6E])),
    (js ''languageSettings'', Text ([0x8BED, 0x8A00, 0x8BBE, 0x7F6E])),
    (js ''theme'', Text ([0x989C, 0x8272, 0x6A21, 0x5F0F])),
    (js ''light'', Text ([0x660E, 0x4EAE])),
    (js ''dark'', Text ([0x6697, 0x9ED1])),
    (js ''system'', Text ([0x8DDF, 0x968F, 0x7CFB, 0x7EDF])),
    (js ''logout'', Text ([0x9000, 0x51FA, 0x767B, 0x5F55])),
    (js ''retry'', Text ([0x91CD, 0x8BD5])),
    (js ''refreshPage'', Text ([0x8BF7, 0x5237, 0x65B0, 0x9875, 0x9762, 0x4EE5, 0x52A0, 0x8F7D, 0x6700, 0x65B0, 0x6570, 0x636E, 0x3002])),
    (js ''loading'', Text ([0x52A0, 0x8F7D, 0x4E2D, 0x2026])),
    (js ''backToLogin'', Text ([0x8FD4, 0x56DE, 0x767B, 0x5F55])),
    (js ''required'', Text ([0x5FC5, 0x586B])),
    (js ''close'', Text ([0x5173, 0x95ED])),
    (js ''cancel'', Text ([0x53D6, 0x6D88])),
    (js ''reset'', Text ([0x91CD, 0x7F6E])),
    (js ''search'', Text ([0x641C, 0x7D22])),
    (js ''sortAscending'', Text ([0x5347, 0x5E8F, 0x6392, 0x5217])),
    (js ''sortDescending'', Text ([0x964D, 0x5E8F, 0x6392, 0x5217])),
    (js ''clearSort'', Text ([0x6E05, 0x9664, 0x6392, 0x5E8F])),
    (js ''save'', Text ([0x4FDD, 0x5B58])),
    (js ''saving'', Text ([0x4FDD, 0x5B58, 0x4E2D, 0x2026])),
    (js ''personalSettings'', Text ([0x4E2A, 0x4EBA, 0x8BBE, 0x7F6E]))]"

definition chinese_auth :: msg where
  "chinese_auth = Group [
    (js ''setupTitle'', Text ([0x521B, 0x5EFA, 0x7BA1, 0x7406, 0x5458, 0x8D26, 0x6237])),
    (js ''nameLabel'', Text ([0x540D, 0x79F0])),
    (js ''emailLabel'', Text ([0x90AE, 0x7BB1])),
    (js ''passwordLabel'', Text ([0x5BC6, 0x7801])),
    (js ''confirmPasswordLabel'', Text ([0x786E, 0x8BA4, 0x5BC6, 0x7801])),
    (js ''initialize'', Text ([0x521B, 0x5EFA, 0x7BA1, 0x7406, 0x5458])),
    (js ''initializing'', Text ([0x6B63, 0x5728, 0x521B, 0x5EFA, 0x7BA1, 0x7406, 0x5458, 0x2026])),
    (js ''showPassword'', Text ([0x663E, 0x793A, 0x5BC6, 0x7801])),
    (js ''hidePassword'', Text ([0x9690, 0x85CF, 0x5BC6, 0x7801])),
    (js ''setupCompleteTitle'', Text ([0x5DF2, 0x7ECF, 0x5B8C, 0x6210, 0x521D, 0x59CB, 0x5316])),
    (js ''setupCompleteDescription'', Text ([0x7B2C, 0x4E00, 0x4E2A, 0x7BA1, 0x7406, 0x5458, 0x5DF2, 0x7ECF, 0x521B, 0x5EFA, 0xFF0C, 0x8BF7, 0x767B, 0x5F55, 0x7EE7, 0x7EED, 0x3002])),
    (js ''setupDependencyTitle'', Text ([0x65E0, 0x6CD5, 0x83B7, 0x53D6, 0x521D, 0x59CB, 0x5316, 0x72B6, 0x6001])),
    (js ''setupDependencyDescription'', Text ([0x65E0, 0x6CD5, 0x786E, 0x8BA4, 0x521D, 0x59CB, 0x5316, 0x662F, 0x5426, 0x5B8C, 0x6210, 0x3002, 0x8BF7, 0x5728] @ js '' API '' @ [0x53EF, 0x7528, 0x540E, 0x91CD, 0x8BD5, 0x3002])),
    (js ''loginTitle'', Text ([0x767B, 0x5F55])),
    (js ''login'', Text ([0x767B, 0x5F55])),
    (js ''loggingIn'', Text ([0x6B63, 0x5728, 0x767B, 0x5F55, 0x2026])),
    (js ''forgotPassword'', Text ([0x5FD8, 0x8BB0, 0x5BC6, 0x7801, 0xFF1F])),
    (js ''forgotPasswordTitle'', Text ([0x91CD, 0x7F6E, 0x5BC6, 0x7801])),
    (js ''forgotPasswordDescription'', Text ([0x8F93, 0x5165, 0x8D26, 0x6237, 0x90AE, 0x7BB1, 0x3002, 0x5982, 0x679C, 0x5339, 0x914D, 0x5230, 0x8D26, 0x6237, 0xFF0C, 0x6211, 0x4EEC, 0x4F1A, 0x53D1, 0x9001, 0x91CD, 0x7F6E, 0x94FE, 0x63A5, 0x3002])),
    (js ''sendResetLink'', Text ([0x53D1, 0x9001, 0x91CD, 0x7F6E, 0x94FE, 0x63A5])),
    (js ''sendingResetLink'', Text ([0x6B63, 0x5728, 0x53D1, 0x9001, 0x91CD, 0x7F6E, 0x94FE, 0x63A5, 0x2026])),
    (js ''resetRequestAcceptedTitle'', Text ([0x8BF7, 0x68C0, 0x67E5, 0x90AE, 0x7BB1])),
    (js ''resetRequestAcceptedDescription'', Text ([0x5982, 0x679C, 0x8BE5, 0x90AE, 0x7BB1, 0x5339, 0x914D, 0x5230, 0x8D26, 0x6237, 0xFF0C, 0x91CD, 0x7F6E, 0x5BC6, 0x7801, 0x94FE, 0x63A5, 0x5F88, 0x5FEB, 0x4F1A, 0x53D1, 0x9001, 0x5230, 0x90AE, 0x7BB1, 0x3002])),
    (js ''resetAgain'', Text ([0x518D, 0x6B21, 0x8BF7, 0x6C42, 0x94FE, 0x63A5])),
    (js ''resetPasswordTitle'', Text ([0x8BBE, 0x7F6E, 0x65B0, 0x5BC6, 0x7801])),
    (js ''resetPasswordDescription'', Text ([0x4E3A, 0x8D26, 0x6237, 0x8BBE, 0x7F6E, 0x4E00, 0x4E2A, 0x65B0, 0x5BC6, 0x7801, 0x3002])),
    (js ''resetPassword'', Text ([0x8BBE, 0x7F6E, 0x65B0, 0x5BC6, 0x7801])),
    (js ''resettingPassword'', Text ([0x6B63, 0x5728, 0x66F4, 0x65B0, 0x5BC6, 0x7801, 0x2026])),
    (js ''resetPasswordSuccessTitle'', Text ([0x5BC6, 0x7801, 0x5DF2, 0x66F4, 0x65B0])),
    (js ''resetPasswordSuccessDescription'', Text ([0x5BC6, 0x7801, 0x5DF2, 0x66F4, 0x65B0, 0xFF0C, 0x73B0, 0x6709, 0x767B, 0x5F55, 0x72B6, 0x6001, 0x5DF2, 0x9000, 0x51FA, 0x3002, 0x8BF7, 0x4F7F, 0x7528, 0x65B0, 0x5BC6, 0x7801, 0x767B, 0x5F55, 0x3002])),
    (js ''invalidResetLinkTitle'', Text ([0x91CD, 0x7F6E, 0x94FE, 0x63A5, 0x65E0, 0x6548])),
    (js ''invalidResetLinkDescription'', Text ([0x94FE, 0x63A5, 0x53EF, 0x80FD, 0x5DF2, 0x8FC7, 0x671F, 0x3001, 0x5DF2, 0x7ECF, 0x4F7F, 0x7528, 0xFF0C, 0x6216, 0x88AB, 0x65B0, 0x7684, 0x8BF7, 0x6C42, 0x66FF, 0x6362, 0x3002, 0x8BF7, 0x91CD, 0x65B0, 0x8BF7, 0x6C42, 0x94FE, 0x63A5, 0x3002])),
    (js ''loggingOut'', Text ([0x6B63, 0x5728, 0x9000, 0x51FA, 0x2026])),
    (js ''logoutSuccess'', Text ([0x5DF2, 0x9000, 0x51FA, 0x767B, 0x5F55, 0x3002])),
    (js ''logoutFailedTitle'', Text ([0x5F53, 0x524D, 0x4ECD, 0x4FDD, 0x6301, 0x767B, 0x5F55])),
    (js ''logoutFailedDescription'', Text ([0x670D, 0x52A1, 0x5668, 0x6CA1, 0x6709, 0x786E, 0x8BA4, 0x4F1A, 0x8BDD, 0x5DF2, 0x7ECF, 0x64A4, 0x9500, 0xFF0C, 0x8BF7, 0x91CD, 0x8BD5, 0x3002])),
    (js ''sessionUnavailableTitle'', Text ([0x65E0, 0x6CD5, 0x68C0, 0x67E5, 0x767B, 0x5F55, 0x72B6, 0x6001])),
    (js ''sessionUnavailableDescription'', Text (js ''API '' @ [0x6682, 0x65F6, 0x4E0D, 0x53EF, 0x7528, 0x6216, 0x8FD4, 0x56DE, 0x4E86, 0x5F02, 0x5E38, 0x54CD, 0x5E94, 0x3002, 0x5F53, 0x524D, 0x4F1A, 0x8BDD, 0x4ECD, 0x4F1A, 0x4FDD, 0x7559, 0x3002])),
    (js ''sessionExpired'', Text ([0x767B, 0x5F55, 0x5DF2, 0x5931, 0x6548, 0xFF0C, 0x8BF7, 0x91CD, 0x65B0, 0x767B, 0x5F55, 0x3002])),
    (js ''homeTitle'', Text ([0x9996, 0x9875])),
    (js ''welcome'', Text ([0x6B22, 0x8FCE, 0x56DE, 0x6765, 0xFF0C] @ js ''{{name}}'' @ [0x3002])),
    (js ''operationalWarningTitle'', Text ([0x9700, 0x8981, 0x5904, 0x7406])),
    (js ''operationalWarningUnavailableTitle'', Text ([0x65E0, 0x6CD5, 0x83B7, 0x53D6, 0x7CFB, 0x7EDF, 0x63D0, 0x9192])),
    (js ''emailNotConfiguredWarning'', Text ([0x90AE, 0x4EF6, 0x670D, 0x52A1, 0x5C1A, 0x672A, 0x914D, 0x7F6E, 0x3002, 0x8BF7, 0x5148, 0x5728, 0x7CFB, 0x7EDF, 0x8BBE, 0x7F6E, 0x4E2D, 0x914D, 0x7F6E, 0xFF0C, 0x7136, 0x540E, 0x518D, 0x53D1, 0x9001, 0x9080, 0x8BF7, 0x6216, 0x5BC6, 0x7801, 0x6062, 0x590D, 0x90AE, 0x4EF6, 0x3002]))]"

definition chinese_operationLog_passwordActions :: msg where
  "chinese_operationLog_passwordActions = Group [
    (js ''updated'', Text ([0x5DF2, 0x4FEE, 0x6539])),
    (js ''cleared'', Text ([0x5DF2, 0x6E05, 0x9664])),
    (js ''unchanged'', Text ([0x672A, 0x4FEE, 0x6539]))]"

definition chinese_operationLog_failureReasons :: msg where
  "chinese_operationLog_failureReasons = Group [
    (js ''account_disabled'', Text ([0x8D26, 0x53F7, 0x5DF2, 0x505C, 0x7528, 0x3002])),
    (js ''self_user_operation'', Text ([0x4E0D, 0x80FD, 0x505C, 0x7528, 0x6216, 0x5220, 0x9664, 0x672C, 0x4EBA, 0x8D26, 0x53F7, 0x3002])),
    (js ''last_super_admin'', Text ([0x5FC5, 0x987B, 0x4FDD, 0x7559, 0x81F3, 0x5C11, 0x4E00, 0x4F4D, 0x53EF, 0x7528, 0x8D85, 0x7EA7, 0x7BA1, 0x7406, 0x5458, 0x3002])),
    (js ''not_found'', Text ([0x7528, 0x6237, 0x5DF2, 0x4E0D, 0x5B58, 0x5728, 0x3002])),
    (js ''forbidden'', Text ([0x672A, 0x83B7, 0x5F97, 0x6267, 0x884C, 0x6B64, 0x64CD, 0x4F5C, 0x7684, 0x6743, 0x9650, 0x3002])),
    (js ''unauthenticated'', Text ([0x672A, 0x767B, 0x5F55, 0x6216, 0x767B, 0x5F55, 0x4F1A, 0x8BDD, 0x5DF2, 0x8FC7, 0x671F, 0x3002])),
    (js ''invalid_credentials'', Text ([0x90AE, 0x7BB1, 0x6216, 0x5BC6, 0x7801, 0x4E0D, 0x6B63, 0x786E, 0x3002])),
    (js ''rate_limited'', Text ([0x8BF7, 0x6C42, 0x8FC7, 0x4E8E, 0x9891, 0x7E41, 0xFF0C, 0x64CD, 0x4F5C, 0x88AB, 0x9650, 0x6D41, 0x3002])),
    (js ''stale_revision'', Text ([0x4FDD, 0x5B58, 0x65F6, 0x6570, 0x636E, 0x5DF2, 0x88AB, 0x5176, 0x4ED6, 0x64CD, 0x4F5C, 0x4FEE, 0x6539, 0x3002])),
    (js ''dependency_unavailable'', Text ([0x64CD, 0x4F5C, 0x4F9D, 0x8D56, 0x7684, 0x670D, 0x52A1, 0x6682, 0x65F6, 0x4E0D, 0x53EF, 0x7528, 0x3002])),
    (js ''invalid_settings'', Text ([0x90AE, 0x4EF6, 0x8BBE, 0x7F6E, 0x4E0D, 0x7B26, 0x5408, 0x8981, 0x6C42, 0x3002])),
    (js ''mail_task_sending'', Text ([0x90AE, 0x4EF6, 0x4EFB, 0x52A1, 0x5DF2, 0x7ECF, 0x5728, 0x53D1, 0x9001, 0x4E2D, 0x3002])),
    (js ''mail_task_not_retryable'', Text ([0x53EA, 0x6709, 0x53D1, 0x9001, 0x5931, 0x8D25, 0x7684, 0x90AE, 0x4EF6, 0x4EFB, 0x52A1, 0x53EF, 0x4EE5, 0x91CD, 0x8BD5, 0x3002])),
    (js ''mail_settings_not_saved'', Text ([0x63D0, 0x4EA4, 0x6D4B, 0x8BD5, 0x90AE, 0x4EF6, 0x524D, 0x8BF7, 0x5148, 0x4FDD, 0x5B58, 0x90AE, 0x4EF6, 0x8BBE, 0x7F6E, 0x3002])),
    (js ''mail_task_dependency'', Text ([0x90AE, 0x4EF6, 0x4EFB, 0x52A1, 0x670D, 0x52A1, 0x6682, 0x65F6, 0x4E0D, 0x53EF, 0x7528, 0x3002])),
    (js ''invalid_token'', Text ([0x5BC6, 0x7801, 0x91CD, 0x7F6E, 0x94FE, 0x63A5, 0x65E0, 0x6548, 0x6216, 0x5DF2, 0x8FC7, 0x671F, 0x3002])),
    (js ''invalid_invitation'', Text ([0x9080, 0x8BF7, 0x65E0, 0x6548, 0x6216, 0x5DF2, 0x8FC7, 0x671F, 0x3002])),
    (js ''invalid_email_change'', Text ([0x90AE, 0x7BB1, 0x4FEE, 0x6539, 0x8BF7, 0x6C42, 0x65E0, 0x6548, 0x6216, 0x5DF2, 0x8FC7, 0x671F, 0x3002])),
    (js ''invalid_email_change_code'', Text ([0x9A8C, 0x8BC1, 0x7801, 0x4E0D, 0x6B63, 0x786E, 0x3002])),
    (js ''email_change_expired'', Text ([0x90AE, 0x7BB1, 0x4FEE, 0x6539, 0x8BF7, 0x6C42, 0x5DF2, 0x8FC7, 0x671F, 0x3002])),
    (js ''email_change_attempts_exceeded'', Text ([0x9A8C, 0x8BC1, 0x7801, 0x9519, 0x8BEF, 0x6B21, 0x6570, 0x8FC7, 0x591A, 0x3002])),
    (js ''email_change_resend_too_soon'', Text ([0x9A8C, 0x8BC1, 0x7801, 0x4ECD, 0x5728, 0x91CD, 0x65B0, 0x53D1, 0x9001, 0x51B7, 0x5374, 0x65F6, 0x95F4, 0x5185, 0x3002])),
    (js ''avatar_not_found'', Text ([0x627E, 0x4E0D, 0x5230, 0x5934, 0x50CF, 0x3002])),
    (js ''operation_failed'', Text ([0x64CD, 0x4F5C, 0x672A, 0x80FD, 0x5B8C, 0x6210, 0x3002]))]"

definition chinese_operationLog_actionLabels :: msg where
  "chinese_operationLog_actionLabels = Group [
    (js ''auth_login'', Text ([0x767B, 0x5F55])),
    (js ''auth_logout'', Text ([0x9000, 0x51FA, 0x767B, 0x5F55])),
    (js ''auth_password_reset_request'', Text ([0x8BF7, 0x6C42, 0x5BC6, 0x7801, 0x91CD, 0x7F6E])),
    (js ''auth_password_reset_complete'', Text ([0x5B8C, 0x6210, 0x5BC6, 0x7801, 0x91CD, 0x7F6E])),
    (js ''auth_invitation_accept'', Text ([0x63A5, 0x53D7, 0x9080, 0x8BF7])),
    (js ''auth_setup_complete'', Text ([0x5B8C, 0x6210, 0x521D, 0x59CB, 0x5316])),
    (js ''roles_create'', Text ([0x521B, 0x5EFA, 0x89D2, 0x8272])),
    (js ''roles_update'', Text ([0x66F4, 0x65B0, 0x89D2, 0x8272])),
    (js ''roles_delete'', Text ([0x5220, 0x9664, 0x89D2, 0x8272])),
    (js ''users_sessions_revoke'', Text ([0x5F3A, 0x5236, 0x9000, 0x51FA])),
    (js ''users_roles_update'', Text ([0x66F4, 0x65B0, 0x7528, 0x6237, 0x89D2, 0x8272])),
    (js ''users_deactivate'', Text ([0x505C, 0x7528, 0x7528, 0x6237])),
    (js ''users_reactivate'', Text ([0x6062, 0x590D, 0x7528, 0x6237])),
    (js ''users_delete'', Text ([0x5220, 0x9664, 0x7528, 0x6237])),
    (js ''invitations_create'', Text ([0x521B, 0x5EFA, 0x9080, 0x8BF7])),
    (js ''invitations_resend'', Text ([0x91CD, 0x65B0, 0x53D1, 0x9001, 0x9080, 0x8BF7])),
    (js ''invitations_revoke'', Text ([0x64A4, 0x9500, 0x9080, 0x8BF7])),
    (js ''settings_email_update'', Text ([0x66F4, 0x65B0, 0x90AE, 0x4EF6, 0x8BBE, 0x7F6E])),
    (js ''settings_email_test'', Text ([0x6D4B, 0x8BD5, 0x90AE, 0x4EF6, 0x8BBE, 0x7F6E])),
    (js ''mail_tasks_retry'', Text ([0x91CD, 0x8BD5, 0x90AE, 0x4EF6, 0x4EFB, 0x52A1])),
    (js ''mail_tasks_delete'', Text ([0x5220, 0x9664, 0x90AE, 0x4EF6, 0x4EFB, 0x52A1])),
    (js ''mail_tasks_bulk_retry'', Text ([0x6279, 0x91CF, 0x91CD, 0x8BD5, 0x90AE, 0x4EF6, 0x4EFB, 0x52A1])),
    (js ''mail_tasks_bulk_delete'', Text ([0x6279, 0x91CF, 0x5220, 0x9664, 0x90AE, 0x4EF6, 0x4EFB, 0x52A1])),
    (js ''settings_system_identity_update'', Text ([0x66F4, 0x65B0, 0x7CFB, 0x7EDF, 0x8EAB, 0x4EFD])),
    (js ''settings_operation_log_retention_update'', Text ([0x66F4, 0x65B0, 0x5386, 0x53F2, 0x4FDD, 0x7559, 0x671F, 0x9650])),
    (js ''auth_profile_name_update'', Text ([0x4FEE, 0x6539, 0x4E2A, 0x4EBA, 0x59D3, 0x540D])),
    (js ''auth_profile_avatar_update'', Text ([0x66F4, 0x65B0, 0x4E2A, 0x4EBA, 0x5934, 0x50CF])),
    (js ''auth_profile_avatar_delete'', Text ([0x79FB, 0x9664, 0x4E2A, 0x4EBA, 0x5934, 0x50CF])),
    (js ''auth_profile_password_update'', Text ([0x4FEE, 0x6539, 0x4E2A, 0x4EBA, 0x5BC6, 0x7801])),
    (js ''auth_profile_email_request'', Text ([0x8BF7, 0x6C42, 0x4FEE, 0x6539, 0x90AE, 0x7BB1])),
    (js ''auth_profile_email_resend'', Text ([0x91CD, 0x65B0, 0x53D1, 0x9001, 0x90AE, 0x7BB1, 0x9A8C, 0x8BC1, 0x7801])),
    (js ''auth_profile_email_update'', Text ([0x4FEE, 0x6539, 0x4E2A, 0x4EBA, 0x90AE, 0x7BB1]))]"

definition chinese_operationLog_objectLabels :: msg where
  "chinese_operationLog_objectLabels = Group [
    (js ''session'', Text ([0x4F1A, 0x8BDD])),
    (js ''account'', Text ([0x8D26, 0x6237])),
    (js ''password_reset'', Text ([0x5BC6, 0x7801, 0x91CD, 0x7F6E])),
    (js ''password'', Text ([0x5BC6, 0x7801])),
    (js ''invitation'', Text ([0x9080, 0x8BF7])),
    (js ''email_change'', Text ([0x90AE, 0x7BB1, 0x4FEE, 0x6539])),
    (js ''mail_task'', Text ([0x90AE, 0x4EF6, 0x4EFB, 0x52A1])),
    (js ''role'', Text ([0x89D2, 0x8272])),
    (js ''user'', Text ([0x7528, 0x6237])),
    (js ''email_settings'', Text ([0x90AE, 0x4EF6, 0x8BBE, 0x7F6E])),
    (js ''system_identity'', Text ([0x7CFB, 0x7EDF, 0x8EAB, 0x4EFD])),
    (js ''operation_log_settings'', Text ([0x5386, 0x53F2, 0x8BBE, 0x7F6E]))]"

definition chinese_operationLog_detailLabels :: msg where
  "chinese_operationLog_detailLabels = Group [
    (js ''creator'', Text ([0x521B, 0x5EFA, 0x8005])),
    (js ''disabled'', Text ([0x505C, 0x7528])),
    (js ''configured'', Text ([0x5DF2, 0x914D, 0x7F6E])),
    (js ''host'', Text (js ''SMTP '' @ [0x670D, 0x52A1, 0x5668])),
    (js ''port'', Text ([0x7AEF, 0x53E3])),
    (js ''security'', Text ([0x8FDE, 0x63A5, 0x5B89, 0x5168, 0x65B9, 0x5F0F])),
    (js ''username'', Text (js ''SMTP '' @ [0x7528, 0x6237, 0x540D])),
    (js ''passwordSet'', Text ([0x5DF2, 0x8BBE, 0x7F6E, 0x5BC6, 0x7801])),
    (js ''fromAddress'', Text ([0x53D1, 0x4EF6, 0x4EBA, 0x90AE, 0x7BB1])),
    (js ''fromName'', Text ([0x53D1, 0x4EF6, 0x4EBA, 0x540D, 0x79F0])),
    (js ''defaultLocale'', Text ([0x9ED8, 0x8BA4, 0x8BED, 0x8A00])),
    (js ''systemName'', Text ([0x7CFB, 0x7EDF, 0x540D, 0x79F0])),
    (js ''hasCustomIcon'', Text ([0x81EA, 0x5B9A, 0x4E49, 0x56FE, 0x6807])),
    (js ''expiresAt'', Text ([0x5230, 0x671F, 0x65F6, 0x95F4])),
    (js ''changedAt'', Text ([0x53D8, 0x66F4, 0x65F6, 0x95F4])),
    (js ''before'', Text ([0x4E4B, 0x524D])),
    (js ''after'', Text ([0x4E4B, 0x540E])),
    (js ''target'', Text ([0x76EE, 0x6807])),
    (js ''id'', Text (js ''ID'')),
    (js ''name'', Text ([0x540D, 0x79F0])),
    (js ''email'', Text ([0x90AE, 0x7BB1])),
    (js ''description'', Text ([0x63CF, 0x8FF0])),
    (js ''permissions'', Text ([0x6743, 0x9650])),
    (js ''roleIds'', Text ([0x89D2, 0x8272] @ js '' ID'')),
    (js ''roles'', Text ([0x89D2, 0x8272])),
    (js ''authVersion'', Text ([0x8BA4, 0x8BC1, 0x7248, 0x672C])),
    (js ''revision'', Text ([0x4FEE, 0x8BA2, 0x7248, 0x672C])),
    (js ''requestedRevision'', Text ([0x8BF7, 0x6C42, 0x7684, 0x4FEE, 0x8BA2, 0x7248, 0x672C])),
    (js ''requestedAuthVersion'', Text ([0x8BF7, 0x6C42, 0x7684, 0x8BA4, 0x8BC1, 0x7248, 0x672C])),
    (js ''retentionDays'', Text ([0x4FDD, 0x7559, 0x5929, 0x6570])),
    (js ''passwordAction'', Text ([0x5BC6, 0x7801, 0x64CD, 0x4F5C])),
    (js ''fieldsModified'', Text ([0x4FEE, 0x6539, 0x7684, 0x5B57, 0x6BB5])),
    (js ''objectLabel'', Text ([0x5BF9, 0x8C61, 0x6807, 0x7B7E])),
    (js ''failure'', Text ([0x5931, 0x8D25, 0x539F, 0x56E0])),
    (js ''validation'', Text ([0x6821, 0x9A8C])),
    (js ''mailQueued'', Text ([0x90AE, 0x4EF6, 0x5DF2, 0x63D0, 0x4EA4])),
    (js ''accountActivated'', Text ([0x8D26, 0x6237, 0x5DF2, 0x6FC0, 0x6D3B])),
    (js ''verificationQueued'', Text ([0x9A8C, 0x8BC1, 0x7801, 0x5DF2, 0x52A0, 0x5165, 0x961F, 0x5217])),
    (js ''sessionsRevoked'', Text ([0x4F1A, 0x8BDD, 0x5DF2, 0x5931, 0x6548])),
    (js ''hasAvatar'', Text ([0x6709, 0x5934, 0x50CF])),
    (js ''avatarVersion'', Text ([0x5934, 0x50CF, 0x7248, 0x672C])),
    (js ''sessionCreated'', Text ([0x4F1A, 0x8BDD, 0x5DF2, 0x521B, 0x5EFA])),
    (js ''requestAccepted'', Text ([0x8BF7, 0x6C42, 0x5DF2, 0x63A5, 0x53D7])),
    (js ''deleted'', Text ([0x5DF2, 0x5220, 0x9664])),
    (js ''revoked'', Text ([0x5DF2, 0x64A4, 0x9500]))]"

definition chinese_operationLog :: msg where
  "chinese_operationLog = Group [
    (js ''title'', Text ([0x64CD, 0x4F5C, 0x5386, 0x53F2])),
    (js ''description'', Text ([0x67E5, 0x770B, 0x6B64, 0x670D, 0x52A1, 0x8BB0, 0x5F55, 0x7684, 0x7BA1, 0x7406, 0x64CD, 0x4F5C, 0x548C, 0x8D26, 0x6237, 0x6D3B, 0x52A8, 0x3002])),
    (js ''filtersTitle'', Text ([0x7B5B, 0x9009, 0x5386, 0x53F2])),
    (js ''action'', Text ([0x64CD, 0x4F5C])),
    (js ''actionPlaceholder'', Text ([0x6309, 0x64CD, 0x4F5C, 0x7B5B, 0x9009, 0x2026])),
    (js ''actorFilter'', Text ([0x64CD, 0x4F5C, 0x4EBA] @ js '' ID'')),
    (js ''actorFilterPlaceholder'', Text ([0x6309, 0x64CD, 0x4F5C, 0x4EBA] @ js '' UUID '' @ [0x7B5B, 0x9009, 0x2026])),
    (js ''actorFilterError'', Text ([0x8BF7, 0x8F93, 0x5165, 0x6709, 0x6548, 0x7684, 0x64CD, 0x4F5C, 0x4EBA] @ js '' UUID'' @ [0x3002])),
    (js ''objectType'', Text ([0x5BF9, 0x8C61, 0x7C7B, 0x578B])),
    (js ''objectTypePlaceholder'', Text ([0x6309, 0x5BF9, 0x8C61, 0x7C7B, 0x578B, 0x7B5B, 0x9009, 0x2026])),
    (js ''objectId'', Text ([0x5BF9, 0x8C61] @ js '' ID'')),
    (js ''objectIdPlaceholder'', Text ([0x6309, 0x5BF9, 0x8C61] @ js '' ID '' @ [0x7B5B, 0x9009, 0x2026])),
    (js ''from'', Text ([0x5F00, 0x59CB, 0x65F6, 0x95F4])),
    (js ''to'', Text ([0x7ED3, 0x675F, 0x65F6, 0x95F4])),
    (js ''timeRangeError'', Text ([0x7ED3, 0x675F, 0x65F6, 0x95F4, 0x5FC5, 0x987B, 0x665A, 0x4E8E, 0x5F00, 0x59CB, 0x65F6, 0x95F4, 0x3002])),
    (js ''object'', Text ([0x5BF9, 0x8C61])),
    (js ''result'', Text ([0x7ED3, 0x679C])),
    (js ''allResults'', Text ([0x5168, 0x90E8, 0x7ED3, 0x679C])),
    (js ''success'', Text ([0x6210, 0x529F])),
    (js ''failure'', Text ([0x5931, 0x8D25])),
    (js ''actor'', Text ([0x64CD, 0x4F5C, 0x4EBA])),
    (js ''actorName'', Text ([0x64CD, 0x4F5C, 0x4EBA, 0x59D3, 0x540D])),
    (js ''actorEmail'', Text ([0x64CD, 0x4F5C, 0x4EBA, 0x90AE, 0x7BB1])),
    (js ''detailDescription'', Text ([0x67E5, 0x770B, 0x8C01, 0x6267, 0x884C, 0x4E86, 0x64CD, 0x4F5C, 0x3001, 0x6267, 0x884C, 0x7ED3, 0x679C, 0x4EE5, 0x53CA, 0x5177, 0x4F53, 0x53D8, 0x5316, 0x3002])),
    (js ''loginSummary'', Text ([0x5DF2, 0x6210, 0x529F, 0x767B, 0x5F55, 0x7CFB, 0x7EDF, 0xFF0C, 0x5E76, 0x5EFA, 0x7ACB, 0x767B, 0x5F55, 0x4F1A, 0x8BDD, 0x3002])),
    (js ''changes'', Text ([0x53D8, 0x66F4, 0x5185, 0x5BB9])),
    (js ''field'', Text ([0x5B57, 0x6BB5])),
    (js ''beforeChange'', Text ([0x4FEE, 0x6539, 0x524D])),
    (js ''afterChange'', Text ([0x4FEE, 0x6539, 0x540E])),
    (js ''noFieldChanges'', Text ([0x8BB0, 0x5F55, 0x7684, 0x5B57, 0x6BB5, 0x6CA1, 0x6709, 0x53D8, 0x5316, 0x3002])),
    (js ''objectDetails'', Text ([0x64CD, 0x4F5C, 0x5BF9, 0x8C61, 0x4FE1, 0x606F])),
    (js ''technicalDetails'', Text ([0x6280, 0x672F, 0x4FE1, 0x606F])),
    (js ''recordId'', Text ([0x8BB0, 0x5F55] @ js '' ID'')),
    (js ''actionCode'', Text ([0x64CD, 0x4F5C, 0x4EE3, 0x7801])),
    (js ''emptyValue'', Text ([0x65E0])),
    (js ''mailQueuedExplanation'', Text ([0x5DF2, 0x52A0, 0x5165, 0x53D1, 0x9001, 0x961F, 0x5217, 0xFF0C, 0x5C1A, 0x4E0D, 0x4EE3, 0x8868, 0x90AE, 0x4EF6, 0x5DF2, 0x9001, 0x8FBE, 0x3002])),
    (js ''passwordActions'', chinese_operationLog_passwordActions),
    (js ''failureReasons'', chinese_operationLog_failureReasons),
    (js ''attemptedAccount'', Text ([0x5C1D, 0x8BD5, 0x7684, 0x8D26, 0x6237])),
    (js ''unverifiedActor'', Text ([0x672A, 0x9A8C, 0x8BC1, 0x7684, 0x5C1D, 0x8BD5])),
    (js ''unknownActor'', Text ([0x672A, 0x77E5, 0x64CD, 0x4F5C, 0x4EBA])),
    (js ''systemActor'', Text ([0x7CFB, 0x7EDF])),
    (js ''yes'', Text ([0x662F])),
    (js ''no'', Text ([0x5426])),
    (js ''occurredAt'', Text ([0x65F6, 0x95F4])),
    (js ''sourceIp'', Text ([0x6765, 0x6E90] @ js '' IP'')),
    (js ''details'', Text ([0x8BE6, 0x60C5])),
    (js ''notAvailable'', Text ([0x4E0D, 0x53EF, 0x7528])),
    (js ''empty'', Text ([0x6CA1, 0x6709, 0x7B26, 0x5408, 0x7B5B, 0x9009, 0x6761, 0x4EF6, 0x7684, 0x64CD, 0x4F5C, 0x5386, 0x53F2, 0x3002])),
    (js ''viewDetails'', Text ([0x67E5, 0x770B, 0x64CD, 0x4F5C, 0x8BE6, 0x60C5])),
    (js ''detailTitle'', Text ([0x64CD, 0x4F5C, 0x8BE6, 0x60C5])),
    (js ''detailUnavailable'', Text ([0x64CD, 0x4F5C, 0x8BE6, 0x60C5, 0x4E0D, 0x53EF, 0x7528, 0x3002])),
    (js ''readUnavailableTitle'', Text ([0x65E0, 0x6CD5, 0x83B7, 0x53D6, 0x64CD, 0x4F5C, 0x5386, 0x53F2])),
    (js ''readUnavailableDescription'', Text (js ''API '' @ [0x6682, 0x65F6, 0x65E0, 0x6CD5, 0x52A0, 0x8F7D, 0x64CD, 0x4F5C, 0x5386, 0x53F2, 0xFF0C, 0x8BF7, 0x5237, 0x65B0, 0x9875, 0x9762, 0x540E, 0x518D, 0x8BD5, 0x3002])),
    (js ''statusUnavailableTitle'', Text ([0x65E0, 0x6CD5, 0x83B7, 0x53D6, 0x64CD, 0x4F5C, 0x8BB0, 0x5F55, 0x72B6, 0x6001])),
    (js ''statusUnavailableDescription'', Text ([0x5F53, 0x524D, 0x65E0, 0x6CD5, 0x83B7, 0x53D6, 0x8BB0, 0x5F55, 0x72B6, 0x6001, 0xFF0C, 0x8BF7, 0x5237, 0x65B0, 0x9875, 0x9762, 0x540E, 0x518D, 0x8BD5, 0x3002])),
    (js ''statusUnknownTitle'', Text ([0x64CD, 0x4F5C, 0x5386, 0x53F2, 0x5C1A, 0x65E0, 0x8BB0, 0x5F55, 0x7ED3, 0x679C])),
    (js ''statusUnknownDescription'', Text ([0x6B64, 0x670D, 0x52A1, 0x542F, 0x52A8, 0x540E, 0x5C1A, 0x672A, 0x89C2, 0x5BDF, 0x5230, 0x6210, 0x529F, 0x6216, 0x5931, 0x8D25, 0x7684, 0x64CD, 0x4F5C, 0x5386, 0x53F2, 0x5199, 0x5165, 0x3002])),
    (js ''statusFailedTitle'', Text ([0x64CD, 0x4F5C, 0x5386, 0x53F2, 0x8BB0, 0x5F55, 0x9700, 0x8981, 0x5904, 0x7406])),
    (js ''statusFailedDescription'', Text ([0x6700, 0x8FD1, 0x7684, 0x4E00, 0x4E9B, 0x64CD, 0x4F5C, 0x53EF, 0x80FD, 0x6CA1, 0x6709, 0x5199, 0x5165, 0x5386, 0x53F2, 0xFF0C, 0x8BF7, 0x67E5, 0x770B, 0x8BB0, 0x5F55, 0x72B6, 0x6001, 0x3002])),
    (js ''statusRecoveredTitle'', Text ([0x64CD, 0x4F5C, 0x5386, 0x53F2, 0x8BB0, 0x5F55, 0x5DF2, 0x6062, 0x590D])),
    (js ''statusRecoveredDescription'', Text ([0x65B0, 0x7684, 0x64CD, 0x4F5C, 0x5DF2, 0x6062, 0x590D, 0x8BB0, 0x5F55, 0x3002, 0x6545, 0x969C, 0x671F, 0x95F4, 0x7684, 0x64CD, 0x4F5C, 0x53EF, 0x80FD, 0x7F3A, 0x5C11, 0x5386, 0x53F2, 0x8BB0, 0x5F55, 0x3002])),
    (js ''retentionTitle'', Text ([0x64CD, 0x4F5C, 0x5386, 0x53F2])),
    (js ''retentionDescription'', Text ([0x9009, 0x62E9, 0x64CD, 0x4F5C, 0x5386, 0x53F2, 0x5728, 0x81EA, 0x52A8, 0x6E05, 0x7406, 0x524D, 0x4FDD, 0x7559, 0x7684, 0x5929, 0x6570, 0x3002])),
    (js ''retentionDays'', Text ([0x4FDD, 0x7559, 0x5929, 0x6570])),
    (js ''retentionDaysError'', Text ([0x8BF7, 0x8F93, 0x5165] @ js '' 1 '' @ [0x5230] @ js '' 3650 '' @ [0x4E4B, 0x95F4, 0x7684, 0x6574, 0x6570, 0x5929, 0x6570, 0x3002])),
    (js ''retentionShorteningTitle'', Text ([0x7F29, 0x77ED, 0x4FDD, 0x7559, 0x671F, 0x9650, 0x4F1A, 0x5220, 0x9664, 0x65E7, 0x5386, 0x53F2])),
    (js ''retentionShorteningDescription'', Text ([0x4E0B, 0x6B21, 0x6E05, 0x7406, 0x4F1A, 0x5220, 0x9664, 0x65E9, 0x4E8E, 0x65B0, 0x671F, 0x9650, 0x7684, 0x8BB0, 0x5F55, 0xFF0C, 0x5220, 0x9664, 0x540E, 0x65E0, 0x6CD5, 0x6062, 0x590D, 0x3002])),
    (js ''retentionSaveSuccess'', Text ([0x64CD, 0x4F5C, 0x5386, 0x53F2, 0x4FDD, 0x7559, 0x671F, 0x9650, 0x5DF2, 0x4FDD, 0x5B58, 0x3002])),
    (js ''retentionSaveFailed'', Text ([0x64CD, 0x4F5C, 0x5386, 0x53F2, 0x4FDD, 0x7559, 0x671F, 0x9650, 0x4FDD, 0x5B58, 0x5931, 0x8D25, 0x3002])),
    (js ''retentionReadUnavailableTitle'', Text ([0x65E0, 0x6CD5, 0x83B7, 0x53D6, 0x64CD, 0x4F5C, 0x5386, 0x53F2, 0x4FDD, 0x7559, 0x671F, 0x9650])),
    (js ''retentionReadUnavailableDescription'', Text (js ''API '' @ [0x6682, 0x65F6, 0x65E0, 0x6CD5, 0x52A0, 0x8F7D, 0x4FDD, 0x7559, 0x8BBE, 0x7F6E, 0xFF0C, 0x8BF7, 0x5237, 0x65B0, 0x9875, 0x9762, 0x540E, 0x518D, 0x8BD5, 0x3002])),
    (js ''actionLabels'', chinese_operationLog_actionLabels),
    (js ''objectLabels'', chinese_operationLog_objectLabels),
    (js ''deletedUser'', Text ([0x5DF2, 0x5220, 0x9664, 0x7528, 0x6237])),
    (js ''detailLabels'', chinese_operationLog_detailLabels)]"

definition chinese_settings_identity :: msg where
  "chinese_settings_identity = Group [
    (js ''title'', Text ([0x7CFB, 0x7EDF, 0x8EAB, 0x4EFD])),
    (js ''description'', Text ([0x8BBE, 0x7F6E, 0x6B64, 0x90E8, 0x7F72, 0x4E2D, 0x7EDF, 0x4E00, 0x663E, 0x793A, 0x7684, 0x7CFB, 0x7EDF, 0x540D, 0x79F0, 0x548C, 0x56FE, 0x6807, 0x3002])),
    (js ''systemName'', Text ([0x7CFB, 0x7EDF, 0x540D, 0x79F0])),
    (js ''systemNameDescription'', Text ([0x5FC5, 0x586B, 0xFF0C, 0x81EA, 0x52A8, 0x53BB, 0x9664, 0x9996, 0x5C3E, 0x7A7A, 0x683C, 0xFF0C, 0x6700, 0x591A] @ js '' 50 '' @ [0x4E2A, 0x5B57, 0x7B26, 0x3002])),
    (js ''nameRequired'', Text ([0x8BF7, 0x8F93, 0x5165, 0x7CFB, 0x7EDF, 0x540D, 0x79F0, 0x3002])),
    (js ''nameTooLong'', Text ([0x6700, 0x591A, 0x8F93, 0x5165] @ js '' 50 '' @ [0x4E2A, 0x5B57, 0x7B26, 0x3002])),
    (js ''icon'', Text ([0x7CFB, 0x7EDF, 0x56FE, 0x6807])),
    (js ''chooseIcon'', Text ([0x9009, 0x62E9, 0x56FE, 0x7247])),
    (js ''noIconFile'', Text ([0x672A, 0x9009, 0x62E9, 0x56FE, 0x7247])),
    (js ''iconDescription'', Text ([0x652F, 0x6301] @ js '' PNG'' @ [0x3001] @ js ''JPEG '' @ [0x6216] @ js '' WebP'' @ [0xFF0C, 0x6700, 0x5927] @ js '' 2 MB'' @ [0x3002, 0x56FE, 0x7247, 0x4F1A, 0x7B49, 0x6BD4, 0x4F8B, 0x5C45, 0x4E2D, 0x663E, 0x793A, 0xFF0C, 0x4E0D, 0x88C1, 0x5207, 0x3001, 0x4E0D, 0x62C9, 0x4F38, 0x3002])),
    (js ''iconRequired'', Text ([0x8BF7, 0x9009, 0x62E9, 0x56FE, 0x7247, 0x540E, 0x518D, 0x4FDD, 0x5B58, 0x66FF, 0x6362, 0x3002])),
    (js ''restoreDefault'', Text ([0x6062, 0x590D, 0x9ED8, 0x8BA4])),
    (js ''defaultIconPending'', Text ([0x4FDD, 0x5B58, 0x540E, 0x6062, 0x590D, 0x9ED8, 0x8BA4, 0x56FE, 0x6807, 0x3002])),
    (js ''newIconPending'', Text ([0x4FDD, 0x5B58, 0x540E, 0x53D1, 0x5E03, 0x65B0, 0x56FE, 0x6807, 0x3002])),
    (js ''currentIcon'', Text ([0x5F53, 0x524D, 0x5DF2, 0x53D1, 0x5E03, 0x56FE, 0x6807])),
    (js ''saveSuccess'', Text ([0x7CFB, 0x7EDF, 0x8EAB, 0x4EFD, 0x5DF2, 0x4FDD, 0x5B58, 0x3002])),
    (js ''saveFailed'', Text ([0x7CFB, 0x7EDF, 0x8EAB, 0x4EFD, 0x4FDD, 0x5B58, 0x5931, 0x8D25, 0x3002])),
    (js ''readUnavailableTitle'', Text ([0x65E0, 0x6CD5, 0x83B7, 0x53D6, 0x7CFB, 0x7EDF, 0x8EAB, 0x4EFD])),
    (js ''readUnavailableDescription'', Text (js ''API '' @ [0x6682, 0x65F6, 0x65E0, 0x6CD5, 0x52A0, 0x8F7D, 0x7CFB, 0x7EDF, 0x8EAB, 0x4EFD, 0xFF0C, 0x8BF7, 0x5237, 0x65B0, 0x9875, 0x9762, 0x540E, 0x518D, 0x8BD5, 0x3002]))]"

definition chinese_settings_email :: msg where
  "chinese_settings_email = Group [
    (js ''title'', Text ([0x90AE, 0x4EF6, 0x6295, 0x9012])),
    (js ''description'', Text (js ''SMTP '' @ [0x51ED, 0x636E, 0x4F1A, 0x5B89, 0x5168, 0x5B58, 0x50A8, 0xFF0C, 0x4FDD, 0x5B58, 0x540E, 0x65B0, 0x90AE, 0x4EF6, 0x65E0, 0x9700, 0x91CD, 0x542F, 0x670D, 0x52A1, 0x5373, 0x53EF, 0x4F7F, 0x7528, 0x3002])),
    (js ''host'', Text (js ''SMTP '' @ [0x4E3B, 0x673A])),
    (js ''port'', Text ([0x7AEF, 0x53E3])),
    (js ''security'', Text ([0x5B89, 0x5168, 0x65B9, 0x5F0F])),
    (js ''securityNone'', Text ([0x65E0])),
    (js ''securityStartTLS'', Text (js ''STARTTLS'')),
    (js ''securityTLS'', Text (js ''TLS'')),
    (js ''username'', Text ([0x7528, 0x6237, 0x540D])),
    (js ''authentication'', Text ([0x8EAB, 0x4EFD, 0x9A8C, 0x8BC1])),
    (js ''useAuthentication'', Text ([0x4F7F, 0x7528] @ js '' SMTP '' @ [0x8EAB, 0x4EFD, 0x9A8C, 0x8BC1])),
    (js ''authenticationDescription'', Text ([0x90AE, 0x4EF6, 0x4E2D, 0x7EE7, 0x8981, 0x6C42, 0x7528, 0x6237, 0x540D, 0x548C, 0x5BC6, 0x7801, 0x65F6, 0x542F, 0x7528, 0x6B64, 0x9879, 0x3002])),
    (js ''password'', Text ([0x5BC6, 0x7801])),
    (js ''passwordReplace'', Text ([0x66FF, 0x6362, 0x5BC6, 0x7801])),
    (js ''clearPassword'', Text ([0x6E05, 0x9664, 0x5DF2, 0x4FDD, 0x5B58, 0x5BC6, 0x7801])),
    (js ''passwordCleared'', Text ([0x4FDD, 0x5B58, 0x540E, 0x5C06, 0x6E05, 0x9664, 0x5BC6, 0x7801])),
    (js ''fromAddress'', Text ([0x53D1, 0x4EF6, 0x5730, 0x5740])),
    (js ''fromName'', Text ([0x53D1, 0x4EF6, 0x4EBA, 0x540D, 0x79F0])),
    (js ''defaultLocale'', Text ([0x9ED8, 0x8BA4, 0x90AE, 0x4EF6, 0x8BED, 0x8A00])),
    (js ''chooseLocale'', Text ([0x8BF7, 0x9009, 0x62E9, 0x8BED, 0x8A00])),
    (js ''testTitle'', Text ([0x53D1, 0x9001, 0x6D4B, 0x8BD5, 0x90AE, 0x4EF6])),
    (js ''testRecipient'', Text ([0x6536, 0x4EF6, 0x4EBA, 0x90AE, 0x7BB1])),
    (js ''testRecipientPlaceholder'', Text (js ''name@example.com'')),
    (js ''sendTest'', Text ([0x53D1, 0x9001, 0x6D4B, 0x8BD5, 0x90AE, 0x4EF6])),
    (js ''testing'', Text ([0x63D0, 0x4EA4, 0x4E2D, 0x2026])),
    (js ''testSubmitted'', Text ([0x6D4B, 0x8BD5, 0x90AE, 0x4EF6, 0x5DF2, 0x63D0, 0x4EA4, 0xFF0C, 0x4ECD, 0x5728, 0x6295, 0x9012, 0x4E2D, 0x3002])),
    (js ''testDelivered'', Text (js ''SMTP '' @ [0x670D, 0x52A1, 0x5DF2, 0x63A5, 0x6536, 0x6D4B, 0x8BD5, 0x90AE, 0x4EF6, 0x3002])),
    (js ''testDeliveryFailed'', Text ([0x6D4B, 0x8BD5, 0x90AE, 0x4EF6, 0x6295, 0x9012, 0x5931, 0x8D25, 0xFF0C, 0x8BF7, 0x5728, 0x90AE, 0x4EF6, 0x4EFB, 0x52A1, 0x4E2D, 0x67E5, 0x770B, 0x8BE6, 0x60C5, 0x3002])),
    (js ''testNotSavedTitle'', Text ([0x8BF7, 0x5148, 0x4FDD, 0x5B58, 0x90AE, 0x4EF6, 0x8BBE, 0x7F6E])),
    (js ''testNotSavedDescription'', Text ([0x63D0, 0x4EA4, 0x6D4B, 0x8BD5, 0x90AE, 0x4EF6, 0x524D, 0xFF0C, 0x8BF7, 0x5148, 0x4FDD, 0x5B58] @ js '' SMTP '' @ [0x4FEE, 0x6539, 0x3002])),
    (js ''testSuccess'', Text ([0x6D4B, 0x8BD5, 0x90AE, 0x4EF6, 0x5DF2, 0x63D0, 0x4EA4, 0xFF0C, 0x4ECD, 0x5728, 0x6295, 0x9012, 0x4E2D, 0x3002])),
    (js ''testFailed'', Text ([0x6D4B, 0x8BD5, 0x90AE, 0x4EF6, 0x63D0, 0x4EA4, 0x5931, 0x8D25, 0x3002])),
    (js ''autoRetryCount'', Text ([0x81EA, 0x52A8, 0x91CD, 0x8BD5, 0x6B21, 0x6570])),
    (js ''autoRetryDescription'', Text ([0x521D, 0x6B21, 0x53D1, 0x9001, 0x540E, 0x7684, 0x91CD, 0x8BD5, 0x6B21, 0x6570, 0x3002, 0x8BBE, 0x4E3A] @ js '' 0 '' @ [0x53EF, 0x5173, 0x95ED, 0x81EA, 0x52A8, 0x91CD, 0x8BD5, 0x3002])),
    (js ''retentionDays'', Text ([0x90AE, 0x4EF6, 0x8BB0, 0x5F55, 0x4FDD, 0x7559, 0x5929, 0x6570])),
    (js ''retentionDescription'', Text ([0x5DF2, 0x7ED3, 0x675F, 0x4EFB, 0x52A1, 0x5C06, 0x5728, 0x6B64, 0x5929, 0x6570, 0x540E, 0x81EA, 0x52A8, 0x5220, 0x9664, 0x3002])),
    (js ''policyInvalid'', Text ([0x8BF7, 0x8F93, 0x5165, 0x6574, 0x6570, 0xFF1A, 0x91CD, 0x8BD5, 0x6B21, 0x6570] @ js '' 0'' @ [0x2013] @ js ''100'' @ [0xFF0C, 0x4FDD, 0x7559, 0x5929, 0x6570] @ js '' 1'' @ [0x2013] @ js ''3650'' @ [0x3002])),
    (js ''saveSuccess'', Text ([0x90AE, 0x4EF6, 0x8BBE, 0x7F6E, 0x5DF2, 0x4FDD, 0x5B58, 0x3002])),
    (js ''saveFailed'', Text ([0x90AE, 0x4EF6, 0x8BBE, 0x7F6E, 0x4FDD, 0x5B58, 0x5931, 0x8D25, 0x3002])),
    (js ''readUnavailableTitle'', Text ([0x65E0, 0x6CD5, 0x83B7, 0x53D6, 0x90AE, 0x4EF6, 0x8BBE, 0x7F6E])),
    (js ''readUnavailableDescription'', Text (js ''API '' @ [0x6682, 0x65F6, 0x65E0, 0x6CD5, 0x52A0, 0x8F7D, 0x90AE, 0x4EF6, 0x8BBE, 0x7F6E, 0xFF0C, 0x8BF7, 0x5237, 0x65B0, 0x9875, 0x9762, 0x540E, 0x518D, 0x8BD5, 0x3002]))]"

definition chinese_settings :: msg where
  "chinese_settings = Group [
    (js ''onThisPage'', Text ([0x9875, 0x5185, 0x5BFC, 0x822A])),
    (js ''title'', Text ([0x7CFB, 0x7EDF, 0x8BBE, 0x7F6E])),
    (js ''description'', Text ([0x914D, 0x7F6E, 0x6B64] @ js '' {{systemName}} '' @ [0x5B9E, 0x4F8B, 0x7684, 0x5171, 0x4EAB, 0x8BBE, 0x7F6E, 0x3002])),
    (js ''identity'', chinese_settings_identity),
    (js ''email'', chinese_settings_email)]"

definition chinese_personalSettings_profile :: msg where
  "chinese_personalSettings_profile = Group [
    (js ''title'', Text ([0x8D44, 0x6599])),
    (js ''name'', Text ([0x663E, 0x793A, 0x540D, 0x79F0])),
    (js ''avatar'', Text ([0x5934, 0x50CF])),
    (js ''avatarDescription'', Text ([0x652F, 0x6301] @ js '' JPG'' @ [0x3001] @ js ''PNG '' @ [0x6216] @ js '' WebP'' @ [0xFF0C, 0x5927, 0x5C0F, 0x4E0D, 0x8D85, 0x8FC7] @ js '' 5 MB'' @ [0x3002, 0x4FDD, 0x5B58, 0x540E, 0x4F1A, 0x88C1, 0x526A, 0x4E3A] @ js '' 256 '' @ [0xD7] @ js '' 256 PNG'' @ [0x3002])),
    (js ''email'', Text ([0x90AE, 0x7BB1, 0x5730, 0x5740])),
    (js ''emailDescription'', Text ([0x4FEE, 0x6539, 0x90AE, 0x7BB1, 0x9700, 0x8981, 0x5F53, 0x524D, 0x5BC6, 0x7801, 0xFF0C, 0x5E76, 0x5411, 0x65B0, 0x90AE, 0x7BB1, 0x53D1, 0x9001, 0x9A8C, 0x8BC1, 0x7801, 0x3002]))]"

definition chinese_personalSettings_appearance :: msg where
  "chinese_personalSettings_appearance = Group [
    (js ''title'', Text ([0x5916, 0x89C2, 0x4E0E, 0x8BED, 0x8A00])),
    (js ''language'', Text ([0x8D26, 0x6237, 0x8BED, 0x8A00])),
    (js ''languageDescription'', Text ([0x6B64, 0x504F, 0x597D, 0x4F1A, 0x968F, 0x8D26, 0x6237, 0x5728, 0x4E0D, 0x540C, 0x8BBE, 0x5907, 0x4FDD, 0x6301, 0x4E00, 0x81F4, 0x3002, 0x8BBF, 0x5BA2, 0x8BED, 0x8A00, 0x4ECD, 0x4FDD, 0x5B58, 0x5728, 0x6D4F, 0x89C8, 0x5668, 0x672C, 0x5730, 0x3002])),
    (js ''theme'', Text ([0x989C, 0x8272, 0x6A21, 0x5F0F])),
    (js ''themeDescription'', Text ([0x6D45, 0x8272, 0x3001, 0x6DF1, 0x8272, 0x6216, 0x8DDF, 0x968F, 0x7CFB, 0x7EDF, 0x3002, 0x6B64, 0x504F, 0x597D, 0x4EC5, 0x4FDD, 0x5B58, 0x5728, 0x5F53, 0x524D, 0x6D4F, 0x89C8, 0x5668, 0x3002]))]"

definition chinese_personalSettings_security :: msg where
  "chinese_personalSettings_security = Group [
    (js ''title'', Text ([0x5B89, 0x5168])),
    (js ''passwordTitle'', Text ([0x4FEE, 0x6539, 0x5BC6, 0x7801])),
    (js ''passwordDescription'', Text ([0x4FEE, 0x6539, 0x5BC6, 0x7801, 0x4F1A, 0x5F3A, 0x5236, 0x9000, 0x51FA, 0x6240, 0x6709, 0x8BBE, 0x5907, 0xFF0C, 0x5305, 0x62EC, 0x5F53, 0x524D, 0x8BBE, 0x5907, 0x3002])),
    (js ''currentPassword'', Text ([0x5F53, 0x524D, 0x5BC6, 0x7801])),
    (js ''newPassword'', Text ([0x65B0, 0x5BC6, 0x7801])),
    (js ''confirmPassword'', Text ([0x786E, 0x8BA4, 0x65B0, 0x5BC6, 0x7801])),
    (js ''savePassword'', Text ([0x4FEE, 0x6539, 0x5BC6, 0x7801])),
    (js ''passwordSaved'', Text ([0x5BC6, 0x7801, 0x5DF2, 0x4FEE, 0x6539, 0xFF0C, 0x8BF7, 0x91CD, 0x65B0, 0x767B, 0x5F55, 0x3002])),
    (js ''passwordSaveFailed'', Text ([0x5BC6, 0x7801, 0x4FEE, 0x6539, 0x5931, 0x8D25, 0x3002])),
    (js ''emailTitle'', Text ([0x4FEE, 0x6539, 0x90AE, 0x7BB1, 0x5730, 0x5740])),
    (js ''emailDescription'', Text ([0x6211, 0x4EEC, 0x4F1A, 0x5411, 0x65B0, 0x90AE, 0x7BB1, 0x53D1, 0x9001, 0x516D, 0x4F4D, 0x9A8C, 0x8BC1, 0x7801, 0xFF0C, 0x6709, 0x6548, 0x671F] @ js '' 10 '' @ [0x5206, 0x949F, 0x3002, 0x9A8C, 0x8BC1, 0x524D, 0x73B0, 0x6709, 0x767B, 0x5F55, 0x4ECD, 0x7136, 0x6709, 0x6548, 0x3002])),
    (js ''newEmail'', Text ([0x65B0, 0x90AE, 0x7BB1, 0x5730, 0x5740])),
    (js ''sendCode'', Text ([0x53D1, 0x9001, 0x9A8C, 0x8BC1, 0x7801])),
    (js ''codeSent'', Text ([0x9A8C, 0x8BC1, 0x7801, 0x5DF2, 0x53D1, 0x9001, 0x3002])),
    (js ''codeSentTo'', Text ([0x8BF7, 0x8F93, 0x5165, 0x53D1, 0x9001, 0x5230] @ js '' {{email}} '' @ [0x7684, 0x9A8C, 0x8BC1, 0x7801, 0x3002])),
    (js ''verificationCode'', Text ([0x9A8C, 0x8BC1, 0x7801])),
    (js ''codeValidity'', Text ([0x9A8C, 0x8BC1, 0x7801, 0x6709, 0x6548, 0x671F, 0x4E3A] @ js '' 10 '' @ [0x5206, 0x949F, 0x3002])),
    (js ''resendIn'', Text (js ''{{seconds}} '' @ [0x79D2, 0x540E, 0x53EF, 0x91CD, 0x65B0, 0x53D1, 0x9001, 0x3002])),
    (js ''attemptsRemaining'', Text ([0x5269, 0x4F59] @ js '' {{count}} '' @ [0x6B21, 0x5C1D, 0x8BD5])),
    (js ''verify'', Text ([0x9A8C, 0x8BC1, 0x5E76, 0x4FEE, 0x6539, 0x90AE, 0x7BB1])),
    (js ''resend'', Text ([0x91CD, 0x65B0, 0x53D1, 0x9001, 0x9A8C, 0x8BC1, 0x7801])),
    (js ''emailChanged'', Text ([0x90AE, 0x7BB1, 0x5DF2, 0x4FEE, 0x6539, 0xFF0C, 0x8BF7, 0x91CD, 0x65B0, 0x767B, 0x5F55, 0x3002])),
    (js ''emailChangeFailed'', Text ([0x65E0, 0x6CD5, 0x5F00, 0x59CB, 0x4FEE, 0x6539, 0x90AE, 0x7BB1, 0x3002])),
    (js ''verifyFailed'', Text ([0x90AE, 0x7BB1, 0x4FEE, 0x6539, 0x5931, 0x8D25, 0x3002]))]"

definition chinese_personalSettings :: msg where
  "chinese_personalSettings = Group [
    (js ''title'', Text ([0x4E2A, 0x4EBA, 0x8BBE, 0x7F6E])),
    (js ''description'', Text ([0x7BA1, 0x7406, 0x4F60, 0x7684, 0x8D44, 0x6599, 0x3001, 0x5916, 0x89C2, 0x548C, 0x8D26, 0x6237, 0x5B89, 0x5168, 0x3002])),
    (js ''loadFailed'', Text ([0x4E2A, 0x4EBA, 0x8BBE, 0x7F6E, 0x52A0, 0x8F7D, 0x5931, 0x8D25, 0xFF0C, 0x8BF7, 0x5237, 0x65B0, 0x9875, 0x9762, 0x91CD, 0x8BD5, 0x3002])),
    (js ''nameSaved'', Text ([0x59D3, 0x540D, 0x5DF2, 0x4FDD, 0x5B58, 0x3002])),
    (js ''nameSaveFailed'', Text ([0x59D3, 0x540D, 0x4FDD, 0x5B58, 0x5931, 0x8D25, 0x3002])),
    (js ''localeSaved'', Text ([0x8D26, 0x6237, 0x8BED, 0x8A00, 0x5DF2, 0x4FDD, 0x5B58, 0x3002])),
    (js ''localeSaveFailed'', Text ([0x8D26, 0x6237, 0x8BED, 0x8A00, 0x4FDD, 0x5B58, 0x5931, 0x8D25, 0x3002])),
    (js ''chooseAvatar'', Text ([0x9009, 0x62E9, 0x5934, 0x50CF])),
    (js ''saveAvatar'', Text ([0x4FDD, 0x5B58, 0x5934, 0x50CF])),
    (js ''removeAvatar'', Text ([0x79FB, 0x9664, 0x5934, 0x50CF])),
    (js ''avatarSaved'', Text ([0x5934, 0x50CF, 0x5DF2, 0x4FDD, 0x5B58, 0x3002])),
    (js ''avatarRemoved'', Text ([0x5934, 0x50CF, 0x5DF2, 0x79FB, 0x9664, 0x3002])),
    (js ''avatarSaveFailed'', Text ([0x5934, 0x50CF, 0x4FDD, 0x5B58, 0x5931, 0x8D25, 0x3002])),
    (js ''avatarUnsupported'', Text ([0x8BF7, 0x9009, 0x62E9] @ js '' JPG'' @ [0x3001] @ js ''PNG '' @ [0x6216] @ js '' WebP '' @ [0x56FE, 0x7247, 0x3002])),
    (js ''avatarTooLarge'', Text ([0x56FE, 0x7247, 0x4E0D, 0x80FD, 0x8D85, 0x8FC7] @ js '' 5 MB'' @ [0x3002])),
    (js ''avatarInvalid'', Text ([0x65E0, 0x6CD5, 0x5904, 0x7406, 0x8FD9, 0x5F20, 0x56FE, 0x7247, 0x3002])),
    (js ''avatarZoom'', Text ([0x88C1, 0x526A, 0x7F29, 0x653E])),
    (js ''avatarPreview'', Text ([0x5934, 0x50CF, 0x9884, 0x89C8])),
    (js ''profile'', chinese_personalSettings_profile),
    (js ''appearance'', chinese_personalSettings_appearance),
    (js ''security'', chinese_personalSettings_security)]"

definition chinese_access :: msg where
  "chinese_access = Group [
    (js ''users'', Text ([0x7528, 0x6237])),
    (js ''usersAccess'', Text ([0x7528, 0x6237, 0x4E0E, 0x6743, 0x9650])),
    (js ''roles'', Text ([0x89D2, 0x8272])),
    (js ''usersTitle'', Text ([0x7528, 0x6237, 0x7BA1, 0x7406])),
    (js ''creator'', Text ([0x521B, 0x5EFA, 0x8005])),
    (js ''lifecycleSaved'', Text ([0x7528, 0x6237, 0x5DF2, 0x66F4, 0x65B0, 0x3002])),
    (js ''deletedUser'', Text ([0x5DF2, 0x5220, 0x9664, 0x7528, 0x6237])),
    (js ''activeStatus'', Text ([0x6B63, 0x5E38])),
    (js ''disabledStatus'', Text ([0x505C, 0x7528])),
    (js ''deactivate'', Text ([0x505C, 0x7528])),
    (js ''reactivate'', Text ([0x6062, 0x590D])),
    (js ''deleteUser'', Text ([0x5220, 0x9664])),
    (js ''confirmReactivate'', Text ([0x6062, 0x590D] @ js '' {{name}}'' @ [0xFF1F])),
    (js ''confirmDeactivate'', Text ([0x505C, 0x7528] @ js '' {{name}}'' @ [0xFF1F])),
    (js ''deletePrompt'', Text ([0x8F93, 0x5165] @ js '' {{email}} '' @ [0x4EE5, 0x6C38, 0x4E45, 0x5220, 0x9664, 0x6B64, 0x7528, 0x6237])),
    (js ''deleteWarning'', Text ([0x6B64, 0x64CD, 0x4F5C, 0x4E0D, 0x53EF, 0x6062, 0x590D, 0xFF0C, 0x5386, 0x53F2, 0x8BB0, 0x5F55, 0x5C06, 0x4FDD, 0x7559, 0x3002])),
    (js ''usersDescription'', Text ([0x67E5, 0x770B, 0x5DF2, 0x6FC0, 0x6D3B, 0x7528, 0x6237, 0x5E76, 0x5206, 0x914D, 0x89D2, 0x8272, 0x3002])),
    (js ''rolesTitle'', Text ([0x89D2, 0x8272, 0x7BA1, 0x7406])),
    (js ''rolesDescription'', Text ([0x5B9A, 0x4E49, 0x53EF, 0x6388, 0x4E88, 0x7528, 0x6237, 0x7684, 0x6743, 0x9650, 0x96C6, 0x5408, 0x3002])),
    (js ''invitations'', Text ([0x9080, 0x8BF7])),
    (js ''invitationsTitle'', Text ([0x9080, 0x8BF7, 0x7BA1, 0x7406])),
    (js ''invitationsDescription'', Text ([0x8DDF, 0x8E2A, 0x5C1A, 0x672A, 0x63A5, 0x53D7, 0x7684, 0x9080, 0x8BF7, 0x3002])),
    (js ''invitationFormDescription'', Text ([0x9009, 0x62E9, 0x8D26, 0x6237, 0x6FC0, 0x6D3B, 0x540E, 0x8981, 0x6388, 0x4E88, 0x7684, 0x89D2, 0x8272, 0xFF0C, 0x90AE, 0x4EF6, 0x4F7F, 0x7528, 0x7CFB, 0x7EDF, 0x9ED8, 0x8BA4, 0x8BED, 0x8A00, 0x3002])),
    (js ''inviteUser'', Text ([0x9080, 0x8BF7, 0x7528, 0x6237])),
    (js ''createRole'', Text ([0x521B, 0x5EFA, 0x89D2, 0x8272])),
    (js ''editRole'', Text ([0x7F16, 0x8F91, 0x89D2, 0x8272])),
    (js ''saveRole'', Text ([0x4FDD, 0x5B58, 0x89D2, 0x8272])),
    (js ''saving'', Text ([0x4FDD, 0x5B58, 0x4E2D, 0x2026])),
    (js ''roleCreated'', Text ([0x89D2, 0x8272, 0x5DF2, 0x521B, 0x5EFA, 0x3002])),
    (js ''roleUpdated'', Text ([0x89D2, 0x8272, 0x5DF2, 0x66F4, 0x65B0, 0x3002])),
    (js ''roleDeleted'', Text ([0x89D2, 0x8272, 0x5DF2, 0x5220, 0x9664, 0x3002])),
    (js ''assignmentsSaved'', Text ([0x89D2, 0x8272, 0x5206, 0x914D, 0x5DF2, 0x4FDD, 0x5B58, 0x3002])),
    (js ''invitationCreated'', Text ([0x9080, 0x8BF7, 0x5DF2, 0x521B, 0x5EFA, 0xFF0C, 0x90AE, 0x4EF6, 0x5DF2, 0x63D0, 0x4EA4, 0x53D1, 0x9001, 0x3002])),
    (js ''invitationResent'', Text ([0x9080, 0x8BF7, 0x90AE, 0x4EF6, 0x5DF2, 0x63D0, 0x4EA4, 0x53D1, 0x9001, 0x3002])),
    (js ''invitationRenewed'', Text ([0x9080, 0x8BF7, 0x5DF2, 0x7EED, 0x671F, 0xFF0C, 0x90AE, 0x4EF6, 0x5DF2, 0x63D0, 0x4EA4, 0x53D1, 0x9001, 0x3002])),
    (js ''invitationRevoked'', Text ([0x9080, 0x8BF7, 0x5DF2, 0x64A4, 0x9500, 0x3002])),
    (js ''roleName'', Text ([0x89D2, 0x8272, 0x540D, 0x79F0])),
    (js ''roleDescription'', Text ([0x63CF, 0x8FF0])),
    (js ''permissions'', Text ([0x6743, 0x9650])),
    (js ''role'', Text ([0x89D2, 0x8272])),
    (js ''assignedRoles'', Text ([0x5DF2, 0x5206, 0x914D, 0x89D2, 0x8272])),
    (js ''assignRoles'', Text ([0x5206, 0x914D, 0x89D2, 0x8272])),
    (js ''saveAssignments'', Text ([0x4FDD, 0x5B58, 0x5206, 0x914D])),
    (js ''noUsers'', Text ([0x6682, 0x65E0, 0x5DF2, 0x6FC0, 0x6D3B, 0x7528, 0x6237, 0x3002])),
    (js ''noRoles'', Text ([0x6682, 0x65E0, 0x89D2, 0x8272, 0x3002])),
    (js ''noInvitations'', Text ([0x6682, 0x65E0, 0x9080, 0x8BF7, 0x3002])),
    (js ''systemRole'', Text ([0x5185, 0x7F6E, 0x89D2, 0x8272])),
    (js ''systemRoleReadOnly'', Text ([0x5185, 0x7F6E, 0x89D2, 0x8272] @ js '' '' @ [0xB7] @ js '' '' @ [0x53EA, 0x8BFB])),
    (js ''customRole'', Text ([0x81EA, 0x5B9A, 0x4E49, 0x89D2, 0x8272])),
    (js ''superAdmin'', Text ([0x8D85, 0x7EA7, 0x7BA1, 0x7406, 0x5458])),
    (js ''readOnly'', Text ([0x53EA, 0x8BFB])),
    (js ''inviteName'', Text ([0x540D, 0x79F0])),
    (js ''inviteEmail'', Text ([0x90AE, 0x7BB1])),
    (js ''sendInvitation'', Text ([0x53D1, 0x9001, 0x9080, 0x8BF7])),
    (js ''resending'', Text ([0x91CD, 0x65B0, 0x53D1, 0x9001, 0x4E2D, 0x2026])),
    (js ''resend'', Text ([0x91CD, 0x65B0, 0x53D1, 0x9001])),
    (js ''revoke'', Text ([0x64A4, 0x9500])),
    (js ''revokeConfirm'', Text ([0x64A4, 0x9500, 0x53D1, 0x7ED9] @ js '' {{email}} '' @ [0x7684, 0x9080, 0x8BF7, 0xFF1F, 0x6FC0, 0x6D3B, 0x94FE, 0x63A5, 0x5C06, 0x7ACB, 0x5373, 0x5931, 0x6548, 0x3002])),
    (js ''deleteRole'', Text ([0x5220, 0x9664, 0x89D2, 0x8272])),
    (js ''deleteRoleConfirm'', Text ([0x5220, 0x9664, 0x201C] @ js ''{{name}}'' @ [0x201D, 0xFF1F])),
    (js ''roleInUse'', Text ([0x8BF7, 0x5148, 0x4E3A, 0x6240, 0x6709, 0x7528, 0x6237, 0x548C, 0x5F85, 0x5904, 0x7406, 0x9080, 0x8BF7, 0x91CD, 0x65B0, 0x5206, 0x914D, 0x89D2, 0x8272, 0xFF0C, 0x518D, 0x5220, 0x9664, 0x6B64, 0x89D2, 0x8272, 0x3002])),
    (js ''lastSuperAdmin'', Text ([0x7CFB, 0x7EDF, 0x5FC5, 0x987B, 0x81F3, 0x5C11, 0x4FDD, 0x7559, 0x4E00, 0x4F4D, 0x53EF, 0x7528, 0x8D85, 0x7EA7, 0x7BA1, 0x7406, 0x5458, 0x3002])),
    (js ''staleRevision'', Text ([0x6B64, 0x8BB0, 0x5F55, 0x5DF2, 0x5728, 0x5176, 0x4ED6, 0x4F4D, 0x7F6E, 0x4FEE, 0x6539, 0xFF0C, 0x8BF7, 0x5237, 0x65B0, 0x9875, 0x9762, 0x540E, 0x518D, 0x8BD5, 0x3002, 0x672A, 0x4FDD, 0x5B58, 0x7684, 0x4FEE, 0x6539, 0x53EF, 0x80FD, 0x4F1A, 0x4E22, 0x5931, 0x3002])),
    (js ''forbiddenTitle'', Text ([0x65E0, 0x6743, 0x8BBF, 0x95EE])),
    (js ''forbiddenDescription'', Text ([0x5F53, 0x524D, 0x8D26, 0x6237, 0x6CA1, 0x6709, 0x67E5, 0x770B, 0x6B64, 0x9875, 0x9762, 0x7684, 0x6743, 0x9650, 0x3002])),
    (js ''conflictTitle'', Text ([0x8BB0, 0x5F55, 0x5DF2, 0x53D8, 0x66F4])),
    (js ''conflictDescription'', Text ([0x5176, 0x4ED6, 0x7BA1, 0x7406, 0x5458, 0x5DF2, 0x4FEE, 0x6539, 0x6B64, 0x8BB0, 0x5F55, 0xFF0C, 0x8BF7, 0x5237, 0x65B0, 0x9875, 0x9762, 0x540E, 0x518D, 0x8BD5, 0x3002, 0x5237, 0x65B0, 0x4F1A, 0x4E22, 0x5931, 0x672A, 0x4FDD, 0x5B58, 0x7684, 0x4FEE, 0x6539, 0x3002])),
    (js ''validationTitle'', Text ([0x8BF7, 0x68C0, 0x67E5, 0x8BBF, 0x95EE, 0x4FE1, 0x606F])),
    (js ''validationDescription'', Text ([0x63D0, 0x4EA4, 0x7684, 0x8BBF, 0x95EE, 0x4FE1, 0x606F, 0x672A, 0x901A, 0x8FC7, 0x6821, 0x9A8C, 0xFF0C, 0x8BF7, 0x4FEE, 0x6B63, 0x6807, 0x8BB0, 0x7684, 0x5185, 0x5BB9, 0x540E, 0x91CD, 0x8BD5, 0x3002])),
    (js ''reload'', Text ([0x91CD, 0x65B0, 0x52A0, 0x8F7D])),
    (js ''unavailableTitle'', Text ([0x65E0, 0x6CD5, 0x83B7, 0x53D6, 0x8BBF, 0x95EE, 0x6570, 0x636E])),
    (js ''unavailableDescription'', Text (js ''API '' @ [0x6682, 0x65F6, 0x65E0, 0x6CD5, 0x52A0, 0x8F7D, 0x8BBF, 0x95EE, 0x6570, 0x636E, 0xFF0C, 0x8BF7, 0x5237, 0x65B0, 0x9875, 0x9762, 0x540E, 0x518D, 0x8BD5, 0x3002])),
    (js ''invitationTitle'', Text ([0x63A5, 0x53D7, 0x9080, 0x8BF7])),
    (js ''invitationDescription'', Text ([0x8BBE, 0x7F6E, 0x5BC6, 0x7801, 0x4EE5, 0x6FC0, 0x6D3B] @ js '' {{systemName}} '' @ [0x7BA1, 0x7406, 0x5458, 0x8D26, 0x6237, 0x3002])),
    (js ''acceptInvitation'', Text ([0x63A5, 0x53D7, 0x9080, 0x8BF7])),
    (js ''acceptingInvitation'', Text ([0x6B63, 0x5728, 0x6FC0, 0x6D3B, 0x8D26, 0x6237, 0x2026])),
    (js ''invitationAccepted'', Text ([0x9080, 0x8BF7, 0x5DF2, 0x63A5, 0x53D7])),
    (js ''invitationAcceptedDescription'', Text ([0x8D26, 0x6237, 0x5DF2, 0x51C6, 0x5907, 0x5C31, 0x7EEA, 0xFF0C, 0x8BF7, 0x767B, 0x5F55, 0x7EE7, 0x7EED, 0x3002])),
    (js ''invalidInvitationTitle'', Text ([0x9080, 0x8BF7, 0x94FE, 0x63A5, 0x65E0, 0x6548])),
    (js ''invalidInvitationDescription'', Text ([0x94FE, 0x63A5, 0x53EF, 0x80FD, 0x5DF2, 0x8FC7, 0x671F, 0x3001, 0x64A4, 0x9500, 0x6216, 0x4F7F, 0x7528, 0x8FC7, 0xFF0C, 0x8BF7, 0x5411, 0x7BA1, 0x7406, 0x5458, 0x7D22, 0x8981, 0x65B0, 0x7684, 0x9080, 0x8BF7, 0x3002])),
    (js ''onlineUsers'', Text ([0x5728, 0x7EBF, 0x7528, 0x6237])),
    (js ''permissionOnlineUsersRead'', Text ([0x67E5, 0x770B, 0x5728, 0x7EBF, 0x7528, 0x6237])),
    (js ''permissionOnlineUsersWrite'', Text ([0x5F3A, 0x5236, 0x9000, 0x51FA])),
    (js ''permissionOnlineUsersReadDescription'', Text ([0x67E5, 0x770B, 0x62E5, 0x6709, 0x6709, 0x6548, 0x767B, 0x5F55, 0x4F1A, 0x8BDD, 0x7684, 0x7528, 0x6237, 0x3002])),
    (js ''permissionOnlineUsersWriteDescription'', Text ([0x5C06, 0x4EFB, 0x610F, 0x7528, 0x6237, 0x5728, 0x6240, 0x6709, 0x8BBE, 0x5907, 0x4E0A, 0x7684, 0x767B, 0x5F55, 0x4F1A, 0x8BDD, 0x5F3A, 0x5236, 0x9000, 0x51FA, 0xFF0C, 0x5305, 0x62EC, 0x8D85, 0x7EA7, 0x7BA1, 0x7406, 0x5458, 0x548C, 0x81EA, 0x5DF1, 0x3002])),
    (js ''permissionUsersRead'', Text ([0x67E5, 0x770B, 0x7528, 0x6237])),
    (js ''permissionUsersWrite'', Text ([0x7BA1, 0x7406, 0x7528, 0x6237])),
    (js ''permissionRolesRead'', Text ([0x67E5, 0x770B, 0x89D2, 0x8272])),
    (js ''permissionRolesWrite'', Text ([0x7BA1, 0x7406, 0x89D2, 0x8272])),
    (js ''permissionUsersReadDescription'', Text ([0x67E5, 0x770B, 0x5DF2, 0x6FC0, 0x6D3B, 0x7528, 0x6237, 0x53CA, 0x5176, 0x89D2, 0x8272, 0x3002])),
    (js ''permissionUsersWriteDescription'', Text ([0x5206, 0x914D, 0x89D2, 0x8272, 0xFF0C, 0x5E76, 0x505C, 0x7528, 0x3001, 0x6062, 0x590D, 0x6216, 0x5220, 0x9664, 0x5176, 0x4ED6, 0x7528, 0x6237, 0xFF0C, 0x5305, 0x62EC, 0x8D85, 0x7EA7, 0x7BA1, 0x7406, 0x5458, 0x3002])),
    (js ''permissionRolesReadDescription'', Text ([0x67E5, 0x770B, 0x89D2, 0x8272, 0x53CA, 0x5176, 0x6743, 0x9650, 0x3002])),
    (js ''permissionRolesWriteDescription'', Text ([0x521B, 0x5EFA, 0x3001, 0x7F16, 0x8F91, 0x548C, 0x5220, 0x9664, 0x81EA, 0x5B9A, 0x4E49, 0x89D2, 0x8272, 0x3002])),
    (js ''permissionInvitationsRead'', Text ([0x67E5, 0x770B, 0x9080, 0x8BF7])),
    (js ''permissionInvitationsWrite'', Text ([0x7BA1, 0x7406, 0x9080, 0x8BF7])),
    (js ''permissionInvitationsReadDescription'', Text ([0x67E5, 0x770B, 0x9080, 0x8BF7, 0x3001, 0x72B6, 0x6001, 0x3001, 0x5230, 0x671F, 0x65F6, 0x95F4, 0x53CA, 0x5DF2, 0x5206, 0x914D, 0x89D2, 0x8272, 0x3002])),
    (js ''permissionInvitationsWriteDescription'', Text ([0x521B, 0x5EFA, 0x3001, 0x91CD, 0x65B0, 0x53D1, 0x9001, 0x3001, 0x7EED, 0x671F, 0x5E76, 0x64A4, 0x9500, 0x9080, 0x8BF7, 0x3002])),
    (js ''permissionSettingsRead'', Text ([0x67E5, 0x770B, 0x7CFB, 0x7EDF, 0x8BBE, 0x7F6E])),
    (js ''permissionSettingsWrite'', Text ([0x7BA1, 0x7406, 0x7CFB, 0x7EDF, 0x8BBE, 0x7F6E])),
    (js ''permissionSettingsReadDescription'', Text ([0x67E5, 0x770B, 0x5171, 0x4EAB, 0x7CFB, 0x7EDF, 0x8BBE, 0x7F6E, 0x3002])),
    (js ''permissionSettingsWriteDescription'', Text ([0x66F4, 0x65B0, 0x5171, 0x4EAB, 0x7CFB, 0x7EDF, 0x8BBE, 0x7F6E, 0x3002])),
    (js ''permissionOperationLogsRead'', Text ([0x67E5, 0x770B, 0x64CD, 0x4F5C, 0x5386, 0x53F2])),
    (js ''permissionOperationLogsReadDescription'', Text ([0x67E5, 0x770B, 0x7BA1, 0x7406, 0x64CD, 0x4F5C, 0x3001, 0x8D26, 0x6237, 0x6D3B, 0x52A8, 0x548C, 0x8BB0, 0x5F55, 0x72B6, 0x6001, 0x3002])),
    (js ''permissionMailTasksRead'', Text ([0x67E5, 0x770B, 0x90AE, 0x4EF6, 0x4EFB, 0x52A1])),
    (js ''permissionMailTasksWrite'', Text ([0x7BA1, 0x7406, 0x90AE, 0x4EF6, 0x4EFB, 0x52A1])),
    (js ''permissionMailTasksReadDescription'', Text ([0x67E5, 0x770B, 0x7CFB, 0x7EDF, 0x90AE, 0x4EF6, 0x4EFB, 0x52A1, 0x548C, 0x5B89, 0x5168, 0x7684, 0x53D1, 0x9001, 0x5C1D, 0x8BD5, 0x8BB0, 0x5F55, 0x3002])),
    (js ''permissionMailTasksWriteDescription'', Text ([0x91CD, 0x8BD5, 0x5931, 0x8D25, 0x4EFB, 0x52A1, 0x6216, 0x6C38, 0x4E45, 0x5220, 0x9664, 0x4EFB, 0x52A1, 0x3002])),
    (js ''operationLog'', Text ([0x64CD, 0x4F5C, 0x5386, 0x53F2])),
    (js ''emailTasks'', Text ([0x90AE, 0x4EF6, 0x4EFB, 0x52A1])),
    (js ''searchUsers'', Text ([0x6309, 0x59D3, 0x540D, 0x6216, 0x90AE, 0x7BB1, 0x641C, 0x7D22, 0x7528, 0x6237, 0x2026])),
    (js ''searchInvitations'', Text ([0x6309, 0x59D3, 0x540D, 0x6216, 0x90AE, 0x7BB1, 0x641C, 0x7D22, 0x9080, 0x8BF7, 0x2026])),
    (js ''searchRoles'', Text ([0x6309, 0x540D, 0x79F0, 0x641C, 0x7D22, 0x89D2, 0x8272, 0x2026])),
    (js ''noSearchResults'', Text ([0x6CA1, 0x6709, 0x5339, 0x914D, 0x7684, 0x8BB0, 0x5F55, 0x3002])),
    (js ''actions'', Text ([0x64CD, 0x4F5C])),
    (js ''edit'', Text ([0x7F16, 0x8F91])),
    (js ''delete'', Text ([0x5220, 0x9664])),
    (js ''createdAt'', Text ([0x521B, 0x5EFA, 0x65F6, 0x95F4])),
    (js ''expiresAt'', Text ([0x5230, 0x671F, 0x65F6, 0x95F4])),
    (js ''emailLanguage'', Text ([0x90AE, 0x4EF6, 0x8BED, 0x8A00])),
    (js ''roleCount'', Text ([0x89D2, 0x8272])),
    (js ''permissionCount'', Text ([0x6743, 0x9650])),
    (js ''assignmentCount'', Text ([0x5206, 0x914D, 0x6570, 0x91CF])),
    (js ''assignmentCountDescription'', Text ([0x5305, 0x542B, 0x5DF2, 0x6FC0, 0x6D3B, 0x7528, 0x6237, 0x548C, 0x9080, 0x8BF7, 0xFF0C, 0x5305, 0x62EC, 0x5DF2, 0x8FC7, 0x671F, 0x7684, 0x9080, 0x8BF7, 0x3002])),
    (js ''assignmentCountDetail'', Text (js ''{{count}} '' @ [0x4E2A, 0x5DF2, 0x5206, 0x914D, 0x7528, 0x6237, 0x6216, 0x9080, 0x8BF7])),
    (js ''type'', Text ([0x7C7B, 0x578B])),
    (js ''status'', Text ([0x72B6, 0x6001])),
    (js ''pending'', Text ([0x5F85, 0x5904, 0x7406])),
    (js ''expired'', Text ([0x5DF2, 0x8FC7, 0x671F])),
    (js ''expiresOn'', Text (js ''{{date}} '' @ [0x5230, 0x671F])),
    (js ''renewInvitation'', Text ([0x7EED, 0x671F, 0x9080, 0x8BF7])),
    (js ''renewAndSend'', Text ([0x7EED, 0x671F, 0x5E76, 0x53D1, 0x9001])),
    (js ''sendInvitationConfirm'', Text ([0x5411] @ js '' {{email}} '' @ [0x53D1, 0x9001, 0x9080, 0x8BF7, 0xFF1F, 0x65E7, 0x94FE, 0x63A5, 0x5C06, 0x7ACB, 0x5373, 0x5931, 0x6548, 0x3002])),
    (js ''filterByRole'', Text ([0x6309, 0x89D2, 0x8272, 0x7B5B, 0x9009])),
    (js ''filterByStatus'', Text ([0x6309, 0x72B6, 0x6001, 0x7B5B, 0x9009])),
    (js ''allRoles'', Text ([0x5168, 0x90E8, 0x89D2, 0x8272])),
    (js ''allStatuses'', Text ([0x5168, 0x90E8, 0x72B6, 0x6001])),
    (js ''moreRoles'', Text ([0x53E6, 0x5916] @ js '' {{count}} '' @ [0x4E2A, 0x89D2, 0x8272])),
    (js ''moreActions'', Text ([0x66F4, 0x591A, 0x64CD, 0x4F5C])),
    (js ''view'', Text ([0x67E5, 0x770B, 0x8BE6, 0x60C5])),
    (js ''builtInRoleTooltip'', Text (js ''{{systemName}} '' @ [0x63D0, 0x4F9B, 0x7684, 0x5185, 0x7F6E, 0x89D2, 0x8272, 0xFF0C, 0x4E0D, 0x80FD, 0x7F16, 0x8F91, 0x6216, 0x5220, 0x9664, 0x3002])),
    (js ''builtInRoleDescription'', Text ([0x5185, 0x7F6E, 0x89D2, 0x8272] @ js '' '' @ [0xB7] @ js '' '' @ [0x53EA, 0x8BFB])),
    (js ''customRoleDescription'', Text ([0x81EA, 0x5B9A, 0x4E49, 0x89D2, 0x8272])),
    (js ''permissionRequired'', Text ([0x8BE5, 0x529F, 0x80FD, 0x9700, 0x8981])),
    (js ''noPermissions'', Text ([0x6B64, 0x89D2, 0x8272, 0x6CA1, 0x6709, 0x53EF, 0x7528, 0x6743, 0x9650, 0x3002])),
    (js ''deleteRoleDisabled'', Text ([0x8BF7, 0x5148, 0x4E3A, 0x6240, 0x6709, 0x7528, 0x6237, 0x548C, 0x9080, 0x8BF7, 0x91CD, 0x65B0, 0x5206, 0x914D, 0x89D2, 0x8272, 0xFF0C, 0x518D, 0x5220, 0x9664, 0x6B64, 0x89D2, 0x8272, 0x3002])),
    (js ''unavailable'', Text ([0x4E0D, 0x53EF, 0x7528])),
    (js ''invitationActionUnavailable'', Text ([0x9700, 0x8981, 0x66F4, 0x9AD8, 0x6743, 0x9650, 0x624D, 0x80FD, 0x7BA1, 0x7406, 0x6B64, 0x9080, 0x8BF7, 0x3002])),
    (js ''clearSearch'', Text ([0x6E05, 0x9664, 0x641C, 0x7D22])),
    (js ''reloadLatest'', Text ([0x653E, 0x5F03, 0x8349, 0x7A3F, 0x5E76, 0x91CD, 0x65B0, 0x52A0, 0x8F7D])),
    (js ''draftConflictTitle'', Text ([0x8BB0, 0x5F55, 0x5DF2, 0x53D8, 0x66F4])),
    (js ''draftConflictDescription'', Text ([0x5176, 0x4ED6, 0x7BA1, 0x7406, 0x5458, 0x5DF2, 0x4FEE, 0x6539, 0x6B64, 0x8BB0, 0x5F55, 0xFF0C, 0x8BF7, 0x5237, 0x65B0, 0x9875, 0x9762, 0x540E, 0x518D, 0x8BD5, 0x3002, 0x5237, 0x65B0, 0x4F1A, 0x4E22, 0x5931, 0x672A, 0x4FDD, 0x5B58, 0x7684, 0x4FEE, 0x6539, 0x3002])),
    (js ''discardDraft'', Text ([0x4E22, 0x5F03, 0x8349, 0x7A3F, 0x5E76, 0x91CD, 0x65B0, 0x52A0, 0x8F7D])),
    (js ''invalidPermissionSelection'', Text ([0x5DF2, 0x9009, 0x62E9, 0x7684, 0x6743, 0x9650, 0x4E2D, 0x6709, 0x4E00, 0x9879, 0x6216, 0x591A, 0x9879, 0x5DF2, 0x4E0D, 0x53EF, 0x7528, 0xFF0C, 0x8BF7, 0x5237, 0x65B0, 0x9875, 0x9762, 0x540E, 0x518D, 0x4FDD, 0x5B58, 0x3002])),
    (js ''invalidRoleSelection'', Text ([0x5DF2, 0x9009, 0x62E9, 0x7684, 0x89D2, 0x8272, 0x4E2D, 0x6709, 0x4E00, 0x9879, 0x6216, 0x591A, 0x9879, 0x5DF2, 0x4E0D, 0x53EF, 0x7528, 0xFF0C, 0x8BF7, 0x5237, 0x65B0, 0x9875, 0x9762, 0x540E, 0x518D, 0x4FDD, 0x5B58, 0x3002])),
    (js ''requiredRole'', Text ([0x81F3, 0x5C11, 0x9009, 0x62E9, 0x4E00, 0x4E2A, 0x89D2, 0x8272, 0x3002])),
    (js ''requiredPermission'', Text ([0x81F3, 0x5C11, 0x9009, 0x62E9, 0x4E00, 0x9879, 0x6743, 0x9650, 0x3002])),
    (js ''pagination'', Text ([0x5206, 0x9875])),
    (js ''previousPage'', Text ([0x4E0A, 0x4E00, 0x9875])),
    (js ''nextPage'', Text ([0x4E0B, 0x4E00, 0x9875]))]"

definition chinese_problems_fields :: msg where
  "chinese_problems_fields = Group [
    (js ''required'', Text ([0x6B64, 0x5B57, 0x6BB5, 0x4E3A, 0x5FC5, 0x586B, 0x9879, 0x3002])),
    (js ''invalidName'', Text ([0x8BF7, 0x8F93, 0x5165] @ js '' 1 '' @ [0x5230] @ js '' 100 '' @ [0x4E2A, 0x5B57, 0x7B26, 0x7684, 0x540D, 0x79F0, 0xFF0C, 0x4E14, 0x4E0D, 0x80FD, 0x5305, 0x542B, 0x63A7, 0x5236, 0x5B57, 0x7B26, 0x3002])),
    (js ''invalidEmail'', Text ([0x8BF7, 0x8F93, 0x5165, 0x6709, 0x6548, 0x7684, 0x90AE, 0x7BB1, 0x5730, 0x5740, 0x3002])),
    (js ''invalidPassword'', Text ([0x8BF7, 0x8F93, 0x5165] @ js '' 8 '' @ [0x5230] @ js '' 128 '' @ [0x4E2A, 0x5B57, 0x7B26, 0x7684, 0x5BC6, 0x7801, 0xFF0C, 0x5E76, 0x81F3, 0x5C11, 0x5305, 0x542B, 0x5927, 0x5199, 0x5B57, 0x6BCD, 0x3001, 0x5C0F, 0x5199, 0x5B57, 0x6BCD, 0x3001, 0x6570, 0x5B57, 0x548C, 0x7279, 0x6B8A, 0x7B26, 0x53F7, 0x3002])),
    (js ''invalidLoginPassword'', Text ([0x8BF7, 0x8F93, 0x5165, 0x6709, 0x6548, 0x7684, 0x5BC6, 0x7801, 0x3002])),
    (js ''loginPasswordRequired'', Text ([0x8BF7, 0x8F93, 0x5165, 0x5BC6, 0x7801, 0x3002])),
    (js ''loginPasswordTooLong'', Text ([0x5BC6, 0x7801, 0x4E0D, 0x80FD, 0x8D85, 0x8FC7] @ js '' 128 '' @ [0x4E2A, 0x5B57, 0x7B26, 0x3002])),
    (js ''invalidValue'', Text ([0x8BF7, 0x8F93, 0x5165, 0x6709, 0x6548, 0x7684, 0x503C, 0x3002])),
    (js ''tooLong'', Text ([0x8BF7, 0x8F93, 0x5165, 0x4E0D, 0x8D85, 0x8FC7] @ js '' 50 '' @ [0x4E2A, 0x5B57, 0x7B26, 0x7684, 0x5185, 0x5BB9, 0x3002])),
    (js ''invalidIcon'', Text ([0x8BF7, 0x9009, 0x62E9, 0x5B8C, 0x6574, 0x7684] @ js '' PNG'' @ [0x3001] @ js ''JPEG '' @ [0x6216] @ js '' WebP '' @ [0x56FE, 0x7247, 0xFF0C, 0x5927, 0x5C0F, 0x4E0D, 0x8D85, 0x8FC7] @ js '' 2 MB'' @ [0x3002])),
    (js ''unsupportedImageType'', Text ([0x8BF7, 0x9009, 0x62E9] @ js '' PNG'' @ [0x3001] @ js ''JPEG '' @ [0x6216] @ js '' WebP '' @ [0x56FE, 0x7247, 0x3002])),
    (js ''emailAlreadyRegistered'', Text ([0x8FD9, 0x4E2A, 0x90AE, 0x7BB1, 0x5730, 0x5740, 0x5DF2, 0x7ECF, 0x6CE8, 0x518C, 0x3002])),
    (js ''sameEmail'', Text ([0x8FD9, 0x5DF2, 0x7ECF, 0x662F, 0x5F53, 0x524D, 0x90AE, 0x7BB1, 0x5730, 0x5740, 0x3002])),
    (js ''invalidCode'', Text ([0x8BF7, 0x8F93, 0x5165, 0x516D, 0x4F4D, 0x6570, 0x5B57, 0x9A8C, 0x8BC1, 0x7801, 0x3002])),
    (js ''passwordMismatch'', Text ([0x4E24, 0x6B21, 0x8F93, 0x5165, 0x7684, 0x5BC6, 0x7801, 0x4E0D, 0x4E00, 0x81F4, 0x3002])),
    (js ''emptyPermissions'', Text ([0x81F3, 0x5C11, 0x9009, 0x62E9, 0x4E00, 0x9879, 0x6743, 0x9650, 0x3002])),
    (js ''unknownPermission'', Text ([0x8BF7, 0x9009, 0x62E9, 0x5F53, 0x524D, 0x6743, 0x9650, 0x76EE, 0x5F55, 0x4E2D, 0x7684, 0x6743, 0x9650, 0x3002])),
    (js ''invalidRole'', Text ([0x8BF7, 0x9009, 0x62E9, 0x5DF2, 0x5B58, 0x5728, 0x7684, 0x89D2, 0x8272, 0x3002])),
    (js ''duplicateRole'', Text ([0x8BF7, 0x79FB, 0x9664, 0x91CD, 0x590D, 0x89D2, 0x8272, 0x3002])),
    (js ''invalidRevision'', Text ([0x8BF7, 0x5237, 0x65B0, 0x9875, 0x9762, 0x540E, 0x518D, 0x4FDD, 0x5B58, 0x3002])),
    (js ''invalidLimit'', Text ([0x8BF7, 0x9009, 0x62E9] @ js '' 1 '' @ [0x5230] @ js '' 100 '' @ [0x4E4B, 0x95F4, 0x7684, 0x5206, 0x9875, 0x5927, 0x5C0F, 0x3002])),
    (js ''invalidCursor'', Text ([0x8BF7, 0x91CD, 0x65B0, 0x52A0, 0x8F7D, 0x9875, 0x9762, 0x540E, 0x7EE7, 0x7EED, 0x3002])),
    (js ''invalidRoleSet'', Text ([0x8BF7, 0x9009, 0x62E9, 0x81F3, 0x5C11, 0x4E00, 0x4E2A, 0x6709, 0x6548, 0x89D2, 0x8272, 0x3002])),
    (js ''invalidDescription'', Text ([0x63CF, 0x8FF0, 0x4E0D, 0x80FD, 0x8D85, 0x8FC7] @ js '' 500 '' @ [0x4E2A, 0x5B57, 0x7B26, 0x3002])),
    (js ''invalidRetryCount'', Text ([0x8BF7, 0x8F93, 0x5165] @ js '' 0 '' @ [0x5230] @ js '' 100 '' @ [0x4E4B, 0x95F4, 0x7684, 0x6574, 0x6570, 0x3002])),
    (js ''invalidRetentionDays'', Text ([0x8BF7, 0x8F93, 0x5165] @ js '' 1 '' @ [0x5230] @ js '' 3650 '' @ [0x4E4B, 0x95F4, 0x7684, 0x6574, 0x6570, 0x5929, 0x6570, 0x3002])),
    (js ''invalidTime'', Text ([0x8BF7, 0x8F93, 0x5165, 0x6709, 0x6548, 0x7684, 0x65E5, 0x671F, 0x548C, 0x65F6, 0x95F4, 0x3002])),
    (js ''invalidTimeRange'', Text ([0x8BF7, 0x9009, 0x62E9, 0x665A, 0x4E8E, 0x5F00, 0x59CB, 0x65F6, 0x95F4, 0x7684, 0x7ED3, 0x675F, 0x65F6, 0x95F4, 0x3002])),
    (js ''invalidBatch'', Text ([0x8BF7, 0x9009, 0x62E9] @ js '' 1 '' @ [0x5230] @ js '' 100 '' @ [0x4E2A, 0x90AE, 0x4EF6, 0x4EFB, 0x52A1, 0x3002])),
    (js ''invalidID'', Text ([0x8BF7, 0x9009, 0x62E9, 0x6709, 0x6548, 0x7684, 0x90AE, 0x4EF6, 0x4EFB, 0x52A1, 0x3002])),
    (js ''duplicateID'', Text ([0x540C, 0x4E00, 0x90AE, 0x4EF6, 0x4EFB, 0x52A1, 0x4E0D, 0x80FD, 0x91CD, 0x590D, 0x9009, 0x62E9, 0x3002]))]"

definition chinese_problems :: msg where
  "chinese_problems = Group [
    (js ''generic'', Text ([0x53D1, 0x751F, 0x4E86, 0x9519, 0x8BEF, 0xFF0C, 0x8BF7, 0x91CD, 0x8BD5, 0x3002])),
    (js ''accountDisabled'', Text ([0x8D26, 0x53F7, 0x5DF2, 0x505C, 0x7528, 0xFF0C, 0x8BF7, 0x8054, 0x7CFB, 0x7BA1, 0x7406, 0x5458, 0x3002])),
    (js ''selfUserOperation'', Text ([0x4E0D, 0x80FD, 0x505C, 0x7528, 0x6216, 0x5220, 0x9664, 0x672C, 0x4EBA, 0x8D26, 0x53F7, 0x3002])),
    (js ''invalidRequest'', Text ([0x65E0, 0x6CD5, 0x7406, 0x89E3, 0x8FD9, 0x6B21, 0x8BF7, 0x6C42, 0xFF0C, 0x8BF7, 0x68C0, 0x67E5, 0x8868, 0x5355, 0x540E, 0x91CD, 0x8BD5, 0x3002])),
    (js ''invalidCredentials'', Text ([0x90AE, 0x7BB1, 0x6216, 0x5BC6, 0x7801, 0x9519, 0x8BEF, 0x3002])),
    (js ''unauthenticated'', Text ([0x767B, 0x5F55, 0x72B6, 0x6001, 0x5DF2, 0x7ED3, 0x675F, 0xFF0C, 0x8BF7, 0x91CD, 0x65B0, 0x767B, 0x5F55, 0x3002])),
    (js ''forbidden'', Text ([0x5F53, 0x524D, 0x6D4F, 0x89C8, 0x5668, 0x6765, 0x6E90, 0x4E0D, 0x5141, 0x8BB8, 0x6267, 0x884C, 0x6B64, 0x64CD, 0x4F5C, 0x3002])),
    (js ''invalidSetupToken'', Text ([0x521D, 0x59CB, 0x5316, 0x94FE, 0x63A5, 0x65E0, 0x6548, 0x6216, 0x5DF2, 0x8FC7, 0x671F, 0xFF0C, 0x8BF7, 0x4ECE] @ js '' API '' @ [0x65E5, 0x5FD7, 0x83B7, 0x53D6, 0x6700, 0x65B0, 0x94FE, 0x63A5, 0x540E, 0x91CD, 0x65B0, 0x6253, 0x5F00, 0x3002])),
    (js ''invalidPasswordResetToken'', Text ([0x5BC6, 0x7801, 0x91CD, 0x7F6E, 0x94FE, 0x63A5, 0x65E0, 0x6548, 0x6216, 0x5DF2, 0x8FC7, 0x671F, 0xFF0C, 0x8BF7, 0x91CD, 0x65B0, 0x8BF7, 0x6C42, 0x94FE, 0x63A5, 0x3002])),
    (js ''notFound'', Text ([0x627E, 0x4E0D, 0x5230, 0x8BF7, 0x6C42, 0x7684, 0x8D44, 0x6E90, 0x3002])),
    (js ''methodNotAllowed'', Text ([0x5F53, 0x524D, 0x4F4D, 0x7F6E, 0x4E0D, 0x652F, 0x6301, 0x6B64, 0x64CD, 0x4F5C, 0x3002])),
    (js ''setupComplete'', Text ([0x5DF2, 0x7ECF, 0x5B8C, 0x6210, 0x521D, 0x59CB, 0x5316, 0xFF0C, 0x8BF7, 0x4F7F, 0x7528, 0x7BA1, 0x7406, 0x5458, 0x8D26, 0x6237, 0x767B, 0x5F55, 0x3002])),
    (js ''contentTooLarge'', Text ([0x63D0, 0x4EA4, 0x7684, 0x6570, 0x636E, 0x8FC7, 0x5927, 0xFF0C, 0x8BF7, 0x7F29, 0x77ED, 0x5185, 0x5BB9, 0x540E, 0x91CD, 0x8BD5, 0x3002])),
    (js ''unsupportedMediaType'', Text ([0x4E0D, 0x652F, 0x6301, 0x6B64, 0x8BF7, 0x6C42, 0x683C, 0x5F0F, 0xFF0C, 0x8BF7, 0x4ECE, 0x5F53, 0x524D, 0x9875, 0x9762, 0x91CD, 0x8BD5, 0x3002])),
    (js ''validationFailed'', Text ([0x8BF7, 0x68C0, 0x67E5, 0x6807, 0x8BB0, 0x51FA, 0x7684, 0x5B57, 0x6BB5, 0x540E, 0x91CD, 0x8BD5, 0x3002])),
    (js ''rateLimited'', Text ([0x767B, 0x5F55, 0x5C1D, 0x8BD5, 0x6B21, 0x6570, 0x8FC7, 0x591A, 0xFF0C, 0x8BF7, 0x7A0D, 0x540E, 0x91CD, 0x8BD5, 0x3002])),
    (js ''passwordResetRateLimited'', Text ([0x5BC6, 0x7801, 0x91CD, 0x7F6E, 0x8BF7, 0x6C42, 0x6B21, 0x6570, 0x8FC7, 0x591A, 0xFF0C, 0x8BF7, 0x7A0D, 0x540E, 0x91CD, 0x8BD5, 0x3002])),
    (js ''passwordResetCompletionRateLimited'', Text ([0x5BC6, 0x7801, 0x91CD, 0x7F6E, 0x5C1D, 0x8BD5, 0x6B21, 0x6570, 0x8FC7, 0x591A, 0xFF0C, 0x8BF7, 0x7A0D, 0x540E, 0x91CD, 0x8BD5, 0x3002])),
    (js ''invitationRateLimited'', Text ([0x9080, 0x8BF7, 0x64CD, 0x4F5C, 0x6B21, 0x6570, 0x8FC7, 0x591A, 0xFF0C, 0x8BF7, 0x7A0D, 0x540E, 0x91CD, 0x8BD5, 0x3002])),
    (js ''setupRateLimited'', Text ([0x521D, 0x59CB, 0x5316, 0x5C1D, 0x8BD5, 0x6B21, 0x6570, 0x8FC7, 0x591A, 0xFF0C, 0x8BF7, 0x7A0D, 0x540E, 0x91CD, 0x8BD5, 0x3002])),
    (js ''invitationSendRateLimited'', Text ([0x9080, 0x8BF7, 0x90AE, 0x4EF6, 0x53D1, 0x9001, 0x6B21, 0x6570, 0x8FC7, 0x591A, 0xFF0C, 0x8BF7, 0x7A0D, 0x540E, 0x91CD, 0x8BD5, 0x3002])),
    (js ''testEmailRateLimited'', Text ([0x6D4B, 0x8BD5, 0x90AE, 0x4EF6, 0x53D1, 0x9001, 0x6B21, 0x6570, 0x8FC7, 0x591A, 0xFF0C, 0x8BF7, 0x7A0D, 0x540E, 0x91CD, 0x8BD5, 0x3002])),
    (js ''emailChangeInvalid'', Text ([0x90AE, 0x7BB1, 0x4FEE, 0x6539, 0x8BF7, 0x6C42, 0x5DF2, 0x5931, 0x6548, 0x6216, 0x8FC7, 0x671F, 0xFF0C, 0x8BF7, 0x91CD, 0x65B0, 0x83B7, 0x53D6, 0x9A8C, 0x8BC1, 0x7801, 0x3002])),
    (js ''emailChangeCodeInvalid'', Text ([0x9A8C, 0x8BC1, 0x7801, 0x4E0D, 0x6B63, 0x786E, 0x3002])),
    (js ''emailChangeAttemptsExceeded'', Text ([0x9A8C, 0x8BC1, 0x7801, 0x9519, 0x8BEF, 0x6B21, 0x6570, 0x8FC7, 0x591A, 0xFF0C, 0x8BF7, 0x91CD, 0x65B0, 0x83B7, 0x53D6, 0x9A8C, 0x8BC1, 0x7801, 0x3002])),
    (js ''emailChangeResendTooSoon'', Text ([0x8BF7, 0x7B49, 0x5F85] @ js '' 60 '' @ [0x79D2, 0x540E, 0x518D, 0x91CD, 0x65B0, 0x53D1, 0x9001, 0x9A8C, 0x8BC1, 0x7801, 0x3002])),
    (js ''internalError'', Text ([0x670D, 0x52A1, 0x5668, 0x65E0, 0x6CD5, 0x5B8C, 0x6210, 0x8BF7, 0x6C42, 0xFF0C, 0x8BF7, 0x91CD, 0x8BD5, 0x3002])),
    (js ''serviceUnavailable'', Text ([0x6240, 0x9700, 0x670D, 0x52A1, 0x6682, 0x65F6, 0x4E0D, 0x53EF, 0x7528, 0xFF0C, 0x8BF7, 0x7A0D, 0x540E, 0x91CD, 0x8BD5, 0x3002])),
    (js ''invalidInvitation'', Text ([0x9080, 0x8BF7, 0x94FE, 0x63A5, 0x65E0, 0x6548, 0x6216, 0x5DF2, 0x8FC7, 0x671F, 0xFF0C, 0x8BF7, 0x5411, 0x7BA1, 0x7406, 0x5458, 0x7D22, 0x8981, 0x65B0, 0x7684, 0x9080, 0x8BF7, 0x3002])),
    (js ''roleInUse'', Text ([0x6B64, 0x89D2, 0x8272, 0x4ECD, 0x5728, 0x4F7F, 0x7528, 0xFF0C, 0x8BF7, 0x5148, 0x4E3A, 0x7528, 0x6237, 0x548C, 0x9080, 0x8BF7, 0x91CD, 0x65B0, 0x5206, 0x914D, 0x3002])),
    (js ''roleImmutable'', Text ([0x5185, 0x7F6E, 0x8D85, 0x7EA7, 0x7BA1, 0x7406, 0x5458, 0x89D2, 0x8272, 0x4E0D, 0x80FD, 0x4FEE, 0x6539, 0x3002])),
    (js ''lastSuperAdmin'', Text ([0x7CFB, 0x7EDF, 0x5FC5, 0x987B, 0x81F3, 0x5C11, 0x4FDD, 0x7559, 0x4E00, 0x4F4D, 0x53EF, 0x7528, 0x8D85, 0x7EA7, 0x7BA1, 0x7406, 0x5458, 0x3002])),
    (js ''staleRevision'', Text ([0x8BB0, 0x5F55, 0x5DF2, 0x5728, 0x5176, 0x4ED6, 0x4F4D, 0x7F6E, 0x4FEE, 0x6539, 0xFF0C, 0x8BF7, 0x5237, 0x65B0, 0x9875, 0x9762, 0x540E, 0x518D, 0x8BD5, 0x3002, 0x672A, 0x4FDD, 0x5B58, 0x7684, 0x4FEE, 0x6539, 0x53EF, 0x80FD, 0x4F1A, 0x4E22, 0x5931, 0x3002])),
    (js ''roleAlreadyExists'', Text ([0x8FD9, 0x4E2A, 0x89D2, 0x8272, 0x540D, 0x79F0, 0x5DF2, 0x7ECF, 0x5B58, 0x5728, 0x3002])),
    (js ''invitationPending'', Text ([0x8FD9, 0x4E2A, 0x90AE, 0x7BB1, 0x5DF2, 0x6709, 0x5F85, 0x5904, 0x7406, 0x9080, 0x8BF7, 0x3002])),
    (js ''network'', Text ([0x65E0, 0x6CD5, 0x8FDE, 0x63A5] @ js '' API'' @ [0xFF0C, 0x8BF7, 0x68C0, 0x67E5, 0x8FDE, 0x63A5, 0x540E, 0x91CD, 0x8BD5, 0x3002])),
    (js ''requestCancelled'', Text ([0x8BF7, 0x6C42, 0x5DF2, 0x53D6, 0x6D88, 0x3002])),
    (js ''malformedResponse'', Text (js ''API '' @ [0x8FD4, 0x56DE, 0x4E86, 0x5F02, 0x5E38, 0x54CD, 0x5E94, 0xFF0C, 0x8BF7, 0x91CD, 0x8BD5, 0x6216, 0x8054, 0x7CFB, 0x7EF4, 0x62A4, 0x8005, 0x3002])),
    (js ''mailNotConfigured'', Text ([0x90AE, 0x4EF6, 0x670D, 0x52A1, 0x5C1A, 0x672A, 0x914D, 0x7F6E, 0xFF0C, 0x8BF7, 0x8054, 0x7CFB, 0x7BA1, 0x7406, 0x5458, 0x3002])),
    (js ''mailTaskNotFound'', Text ([0x90AE, 0x4EF6, 0x4EFB, 0x52A1, 0x5DF2, 0x4E0D, 0x5B58, 0x5728, 0x3002])),
    (js ''mailTaskSending'', Text ([0x90AE, 0x4EF6, 0x4EFB, 0x52A1, 0x6B63, 0x5728, 0x53D1, 0x9001, 0xFF0C, 0x8BF7, 0x5B8C, 0x6210, 0x540E, 0x91CD, 0x8BD5, 0x3002])),
    (js ''mailTaskNotRetryable'', Text ([0x53EA, 0x6709, 0x53D1, 0x9001, 0x5931, 0x8D25, 0x7684, 0x90AE, 0x4EF6, 0x4EFB, 0x52A1, 0x53EF, 0x4EE5, 0x91CD, 0x8BD5, 0x3002])),
    (js ''mailSettingsNotSaved'', Text ([0x63D0, 0x4EA4, 0x6D4B, 0x8BD5, 0x90AE, 0x4EF6, 0x524D, 0x8BF7, 0x5148, 0x4FDD, 0x5B58, 0x90AE, 0x4EF6, 0x8BBE, 0x7F6E, 0x3002])),
    (js ''invalidMailSettings'', Text ([0x90AE, 0x4EF6, 0x8BBE, 0x7F6E, 0x65E0, 0x6548, 0x3002, 0x5982, 0x679C, 0x4FEE, 0x6539, 0x4E86] @ js '' SMTP '' @ [0x4E3B, 0x673A, 0x3001, 0x7AEF, 0x53E3, 0x6216, 0x7528, 0x6237, 0x540D, 0xFF0C, 0x8BF7, 0x8F93, 0x5165, 0x65B0, 0x5BC6, 0x7801, 0xFF1B, 0x5982, 0x9700, 0x4F7F, 0x7528, 0x65E0, 0x8BA4, 0x8BC1, 0x8FDE, 0x63A5, 0xFF0C, 0x8BF7, 0x660E, 0x786E, 0x6E05, 0x9664, 0x5DF2, 0x4FDD, 0x5B58, 0x7684, 0x5BC6, 0x7801, 0x3002])),
    (js ''permissionScope'', Text ([0x4F60, 0x53EA, 0x80FD, 0x6388, 0x4E88, 0x81EA, 0x5DF1, 0x5DF2, 0x7ECF, 0x62E5, 0x6709, 0x7684, 0x6743, 0x9650, 0x3002])),
    (js ''fields'', chinese_problems_fields)]"

definition chinese :: msg where
  "chinese = Group [
    (js ''onlineUsers'', chinese_onlineUsers),
    (js ''emailTasks'', chinese_emailTasks),
    (js ''common'', chinese_common),
    (js ''auth'', chinese_auth),
    (js ''operationLog'', chinese_operationLog),
    (js ''settings'', chinese_settings),
    (js ''personalSettings'', chinese_personalSettings),
    (js ''access'', chinese_access),
    (js ''problems'', chinese_problems)]"

subsection \<open>Interpolation variables and lookup\<close>

fun messageVars :: "jstr \<Rightarrow> jstr list" where
  "messageVars (a # b # s) =
     (if a = 0x7B \<and> b = 0x7B then takeWhile (\<lambda>c. c \<noteq> 0x7D) s # messageVars s else messageVars (b # s))"
| "messageVars _ = []"

fun sameMessages :: "msg \<Rightarrow> msg \<Rightarrow> bool" where
  "sameMessages (Text a) (Text b) \<longleftrightarrow> set (messageVars a) = set (messageVars b)"
| "sameMessages (Group []) (Group []) \<longleftrightarrow> True"
| "sameMessages (Group ((k, m) # xs)) (Group ((l, n) # ys)) \<longleftrightarrow>
     k = l \<and> sameMessages m n \<and> sameMessages (Group xs) (Group ys)"
| "sameMessages _ _ \<longleftrightarrow> False"

lemma messageVars_skip: "a \<noteq> 0x7B \<Longrightarrow> messageVars (a # s) = messageVars s"
  by (cases s) simp_all

lemma messageVars_js: "CHR 0x7B \<notin> set s \<Longrightarrow> messageVars (js s @ t) = messageVars t"
proof (induction s)
  case (Cons c s)
  have "of_char c \<noteq> (0x7B :: nat)"
  proof
    assume "of_char c = (0x7B :: nat)"
    then have "of_char c = (of_char (CHR 0x7B) :: nat)" by simp
    then have "c = CHR 0x7B" by (simp only: of_char_eq_iff)
    with Cons.prems show False by simp
  qed
  with Cons show ?case by (simp add: js_Cons messageVars_skip)
qed simp

lemma messageVars_js_end: "CHR 0x7B \<notin> set s \<Longrightarrow> messageVars (js s) = []"
  using messageVars_js [of s "[]"] by simp

lemma messageVars_open: "messageVars (0x7B # 0x7B # s) = takeWhile (\<lambda>c. c \<noteq> 0x7D) s # messageVars s"
  by simp

lemma messageVars_one: "messageVars [a] = []"
  by simp

lemmas scan_messages = messageVars_js messageVars_js_end messageVars_skip messageVars_open messageVars_one js_eval

lemma onlineUsers_agree: "sameMessages english_onlineUsers chinese_onlineUsers"
  unfolding english_onlineUsers_def chinese_onlineUsers_def
  by (simp add: scan_messages del: messageVars.simps(1))

lemma emailTasks_agree: "sameMessages english_emailTasks chinese_emailTasks"
  unfolding english_emailTasks_def chinese_emailTasks_def
  by (simp add: scan_messages del: messageVars.simps(1))

lemma common_agree: "sameMessages english_common chinese_common"
  unfolding english_common_def chinese_common_def
  by (simp add: scan_messages del: messageVars.simps(1))

lemma auth_agree: "sameMessages english_auth chinese_auth"
  unfolding english_auth_def chinese_auth_def
  by (simp add: scan_messages del: messageVars.simps(1))

lemma operationLog_passwordActions_agree: "sameMessages english_operationLog_passwordActions chinese_operationLog_passwordActions"
  unfolding english_operationLog_passwordActions_def chinese_operationLog_passwordActions_def
  by (simp add: scan_messages del: messageVars.simps(1))

lemma operationLog_failureReasons_agree: "sameMessages english_operationLog_failureReasons chinese_operationLog_failureReasons"
  unfolding english_operationLog_failureReasons_def chinese_operationLog_failureReasons_def
  by (simp add: scan_messages del: messageVars.simps(1))

lemma operationLog_actionLabels_agree: "sameMessages english_operationLog_actionLabels chinese_operationLog_actionLabels"
  unfolding english_operationLog_actionLabels_def chinese_operationLog_actionLabels_def
  by (simp add: scan_messages del: messageVars.simps(1))

lemma operationLog_objectLabels_agree: "sameMessages english_operationLog_objectLabels chinese_operationLog_objectLabels"
  unfolding english_operationLog_objectLabels_def chinese_operationLog_objectLabels_def
  by (simp add: scan_messages del: messageVars.simps(1))

lemma operationLog_detailLabels_agree: "sameMessages english_operationLog_detailLabels chinese_operationLog_detailLabels"
  unfolding english_operationLog_detailLabels_def chinese_operationLog_detailLabels_def
  by (simp add: scan_messages del: messageVars.simps(1))

lemma operationLog_agree: "sameMessages english_operationLog chinese_operationLog"
  unfolding english_operationLog_def chinese_operationLog_def
  by (simp add: scan_messages operationLog_passwordActions_agree operationLog_failureReasons_agree operationLog_actionLabels_agree operationLog_objectLabels_agree operationLog_detailLabels_agree del: messageVars.simps(1))

lemma settings_identity_agree: "sameMessages english_settings_identity chinese_settings_identity"
  unfolding english_settings_identity_def chinese_settings_identity_def
  by (simp add: scan_messages del: messageVars.simps(1))

lemma settings_email_agree: "sameMessages english_settings_email chinese_settings_email"
  unfolding english_settings_email_def chinese_settings_email_def
  by (simp add: scan_messages del: messageVars.simps(1))

lemma settings_agree: "sameMessages english_settings chinese_settings"
  unfolding english_settings_def chinese_settings_def
  by (simp add: scan_messages settings_identity_agree settings_email_agree del: messageVars.simps(1))

lemma personalSettings_profile_agree: "sameMessages english_personalSettings_profile chinese_personalSettings_profile"
  unfolding english_personalSettings_profile_def chinese_personalSettings_profile_def
  by (simp add: scan_messages del: messageVars.simps(1))

lemma personalSettings_appearance_agree: "sameMessages english_personalSettings_appearance chinese_personalSettings_appearance"
  unfolding english_personalSettings_appearance_def chinese_personalSettings_appearance_def
  by (simp add: scan_messages del: messageVars.simps(1))

lemma personalSettings_security_agree: "sameMessages english_personalSettings_security chinese_personalSettings_security"
  unfolding english_personalSettings_security_def chinese_personalSettings_security_def
  by (simp add: scan_messages del: messageVars.simps(1))

lemma personalSettings_agree: "sameMessages english_personalSettings chinese_personalSettings"
  unfolding english_personalSettings_def chinese_personalSettings_def
  by (simp add: scan_messages personalSettings_profile_agree personalSettings_appearance_agree personalSettings_security_agree del: messageVars.simps(1))

lemma access_agree: "sameMessages english_access chinese_access"
  unfolding english_access_def chinese_access_def
  by (simp add: scan_messages del: messageVars.simps(1))

lemma problems_agree: "sameMessages english_problems chinese_problems"
  unfolding english_problems_def chinese_problems_def english_problems_fields_def chinese_problems_fields_def
  by (simp add: scan_messages del: messageVars.simps(1))

lemma catalogues_same: "sameMessages english chinese"
  unfolding english_def chinese_def
  by (simp add: onlineUsers_agree common_agree emailTasks_agree auth_agree operationLog_agree
      settings_agree personalSettings_agree access_agree problems_agree)

text \<open>Following a key of the form \<open>namespace:path.to.text\<close> in a catalogue.\<close>

fun messageAt :: "jstr list \<Rightarrow> msg \<Rightarrow> jstr option" where
  "messageAt [] (Text s) = Some s"
| "messageAt (k # ks) (Group xs) = (case map_of xs k of None \<Rightarrow> None | Some m \<Rightarrow> messageAt ks m)"
| "messageAt _ _ = None"

definition keyPath :: "jstr \<Rightarrow> jstr list" where
  "keyPath k = (case splitOn 0x3A k of [ns, p] \<Rightarrow> ns # splitOn 0x2E p | _ \<Rightarrow> js ''common'' # splitOn 0x2E k)"

definition hasMessage :: "jstr \<Rightarrow> msg \<Rightarrow> bool" where
  "hasMessage k m \<longleftrightarrow> messageAt (keyPath k) m \<noteq> None"

lemma sameMessages_Text: "sameMessages (Text a) n \<Longrightarrow> \<exists>b. n = Text b"
  by (cases n) simp_all

lemma sameMessages_Group: "sameMessages (Group xs) n \<Longrightarrow> \<exists>ys. n = Group ys"
  by (cases n; cases xs) simp_all

lemma sameMessages_Cons:
  "sameMessages (Group ((k, m) # xs)) (Group ys) \<Longrightarrow>
     \<exists>n zs. ys = (k, n) # zs \<and> sameMessages m n \<and> sameMessages (Group xs) (Group zs)"
  by (cases ys) auto

lemma sameMessages_Nil: "sameMessages (Group []) (Group ys) \<Longrightarrow> ys = []"
  by (cases ys) auto

lemma sameMessages_lookup:
  "sameMessages (Group xs) (Group ys) \<Longrightarrow> rel_option sameMessages (map_of xs k) (map_of ys k)"
proof (induction xs arbitrary: ys)
  case Nil
  then show ?case using sameMessages_Nil by fastforce
next
  case (Cons p xs)
  obtain l m where p: "p = (l, m)" by (cases p)
  obtain n zs where "ys = (l, n) # zs" "sameMessages m n" "sameMessages (Group xs) (Group zs)"
    using sameMessages_Cons Cons.prems unfolding p by blast
  with Cons.IH [of zs] p show ?case by simp
qed

lemma sameMessages_messageAt:
  "sameMessages m n \<Longrightarrow>
     rel_option (\<lambda>a b. set (messageVars a) = set (messageVars b)) (messageAt p m) (messageAt p n)"
proof (induction p arbitrary: m n)
  case Nil
  show ?case
  proof (cases m)
    case (Text a)
    with Nil show ?thesis by (cases n) simp_all
  next
    case (Group xs)
    with Nil show ?thesis by (auto dest: sameMessages_Group)
  qed
next
  case (Cons k ks)
  show ?case
  proof (cases m)
    case (Text a)
    with Cons.prems show ?thesis by (auto dest: sameMessages_Text)
  next
    case (Group xs)
    with Cons.prems obtain ys where n: "n = Group ys" by (auto dest: sameMessages_Group)
    have "rel_option sameMessages (map_of xs k) (map_of ys k)"
      using sameMessages_lookup Cons.prems Group n by blast
    then show ?thesis
      using Cons.IH Group n by (cases "map_of xs k"; cases "map_of ys k") auto
  qed
qed

lemma hasMessage_both: "hasMessage k chinese \<longleftrightarrow> hasMessage k english"
  using sameMessages_messageAt [OF catalogues_same, of "keyPath k"]
  by (cases "messageAt (keyPath k) english"; cases "messageAt (keyPath k) chinese") (simp_all add: hasMessage_def)

text \<open>
  The two catalogues agree: every key, followed in both, finds a message in both or in none, and
  the two messages use exactly the same interpolation variables, so no placeholder is left unfilled
  in one language when the other one is complete.
\<close>

theorem catalogues_agree:
  "rel_option (\<lambda>a b. set (messageVars a) = set (messageVars b))
     (messageAt (keyPath k) english) (messageAt (keyPath k) chinese)"
  by (rule sameMessages_messageAt) (rule catalogues_same)

end
