(* ===== verification/ProblemMessages.thy ===== *)
theory ProblemMessages
  imports Problems Resources
begin

text \<open>
  The keys of \<open>shared/api/problems.ts\<close> against the catalogues of \<open>shared/i18n/resources.ts\<close>: whatever
  a call fails with, the message shown exists in both languages.
\<close>

text \<open>The texts of the namespace \<open>problems\<close> and of its group \<open>fields\<close>.\<close>

fun textsOf :: "(jstr \<times> msg) list \<Rightarrow> jstr list" where
  "textsOf [] = []"
| "textsOf ((k, Text s) # xs) = k # textsOf xs"
| "textsOf ((k, Group g) # xs) = textsOf xs"

lemma textsOf_in: "k \<in> set (textsOf xs) \<Longrightarrow> \<exists>s. (k, Text s) \<in> set xs"
  by (induction xs rule: textsOf.induct) auto

lemma textsOf_found:
  "\<lbrakk>distinct (map fst xs); k \<in> set (textsOf xs)\<rbrakk> \<Longrightarrow> messageAt [k] (Group xs) \<noteq> None"
  using map_of_is_SomeI [of xs k] by (auto dest!: textsOf_in)

definition problemNames :: "string list" where
  "problemNames =
   [''generic'', ''accountDisabled'', ''selfUserOperation'', ''invalidRequest'', ''invalidCredentials'',
    ''unauthenticated'', ''forbidden'', ''invalidSetupToken'', ''invalidPasswordResetToken'', ''notFound'',
    ''methodNotAllowed'', ''setupComplete'', ''contentTooLarge'', ''unsupportedMediaType'',
    ''validationFailed'', ''rateLimited'', ''passwordResetRateLimited'',
    ''passwordResetCompletionRateLimited'', ''invitationRateLimited'', ''setupRateLimited'',
    ''invitationSendRateLimited'', ''testEmailRateLimited'', ''emailChangeInvalid'',
    ''emailChangeCodeInvalid'', ''emailChangeAttemptsExceeded'', ''emailChangeResendTooSoon'',
    ''internalError'', ''serviceUnavailable'', ''invalidInvitation'', ''roleInUse'', ''roleImmutable'',
    ''lastSuperAdmin'', ''staleRevision'', ''roleAlreadyExists'', ''invitationPending'', ''network'',
    ''requestCancelled'', ''malformedResponse'', ''mailNotConfigured'', ''mailTaskNotFound'',
    ''mailTaskSending'', ''mailTaskNotRetryable'', ''mailSettingsNotSaved'', ''invalidMailSettings'',
    ''permissionScope'']"

definition fieldNames :: "string list" where
  "fieldNames =
   [''required'', ''invalidName'', ''invalidEmail'', ''invalidPassword'', ''invalidLoginPassword'',
    ''loginPasswordRequired'', ''loginPasswordTooLong'', ''invalidValue'', ''tooLong'', ''invalidIcon'',
    ''unsupportedImageType'', ''emailAlreadyRegistered'', ''sameEmail'', ''invalidCode'',
    ''passwordMismatch'', ''emptyPermissions'', ''unknownPermission'', ''invalidRole'', ''duplicateRole'',
    ''invalidRevision'', ''invalidLimit'', ''invalidCursor'', ''invalidRoleSet'', ''invalidDescription'',
    ''invalidRetryCount'', ''invalidRetentionDays'', ''invalidTime'', ''invalidTimeRange'', ''invalidBatch'',
    ''invalidID'', ''duplicateID'']"

fun members :: "msg \<Rightarrow> (jstr \<times> msg) list" where
  "members (Group xs) = xs"
| "members (Text _) = []"

lemma found_in_group:
  assumes "g = Group (members g)" "textsOf (members g) = map js ns" "map fst (members g) = map js ns" "distinct ns" "k \<in> set ns"
  shows "messageAt [js k] g \<noteq> None"
  using assms textsOf_found [of "members g" "js k"]
  by (simp add: distinct_map inj_on_subset [OF inj_js] image_iff)

lemma problem_members:
  "english_problems = Group (members english_problems)"
  "(js ''fields'', english_problems_fields) \<in> set (members english_problems)"
  unfolding english_problems_def members.simps list.set
  by (rule refl, (rule insertI1 | rule insertI2)+)

lemma problem_texts:
  "textsOf (members english_problems) = map js problemNames"
  "map fst (members english_problems) = map js problemNames @ [js ''fields'']"
  unfolding english_problems_def english_problems_fields_def members.simps
  by (simp_all only: problemNames_def textsOf.simps list.map fst_conv append.simps)

lemma field_texts:
  "english_problems_fields = Group (members english_problems_fields)"
  "textsOf (members english_problems_fields) = map js fieldNames"
  "map fst (members english_problems_fields) = map js fieldNames"
  unfolding english_problems_fields_def members.simps
  by (rule refl, simp_all only: fieldNames_def textsOf.simps list.map fst_conv)

lemma distinct_names: "distinct (problemNames @ [''fields''])" "distinct fieldNames"
  by (simp_all add: problemNames_def fieldNames_def)

lemma distinct_texts:
  "distinct (map fst (members english_problems))" "distinct (map fst (members english_problems_fields))"
  unfolding problem_texts(2) field_texts(3) map_append [symmetric] list.map [symmetric]
  using distinct_names by (simp_all add: distinct_map inj_on_subset [OF inj_js] image_iff)

lemma problemName_found:
  "k \<in> set problemNames \<Longrightarrow> messageAt [js k] english_problems \<noteq> None"
  using textsOf_found [OF distinct_texts(1), of "js k"] unfolding problem_texts(1) problem_members(1) [symmetric]
  by simp

lemma fieldName_found:
  "k \<in> set fieldNames \<Longrightarrow> messageAt [js ''fields'', js k] english_problems \<noteq> None"
  using textsOf_found [OF distinct_texts(2), of "js k"] unfolding field_texts(2) field_texts(1) [symmetric]
  by (subst problem_members(1)) (simp add: map_of_is_SomeI [OF distinct_texts(1) problem_members(2)])

lemma messageAt_english: "messageAt (js ''problems'' # ks) english = messageAt ks english_problems"
  by (simp add: english_def)

lemma has_problem:
  "k \<in> set problemNames \<Longrightarrow> splitChar (CHR 0x3A) (''problems:'' @ k) = [''problems'', k] \<Longrightarrow>
     splitChar (CHR 0x2E) k = [k] \<Longrightarrow> hasMessage (js (''problems:'' @ k)) english"
  using problemName_found [of k]
  by (simp only: hasMessage_def keyPath_def splitOn_js_colon splitOn_js_dot list.map list.case messageAt_english
      simp_thms)

lemma has_field:
  "k \<in> set fieldNames \<Longrightarrow> splitChar (CHR 0x3A) (''problems:fields.'' @ k) = [''problems'', ''fields.'' @ k] \<Longrightarrow>
     splitChar (CHR 0x2E) (''fields.'' @ k) = [''fields'', k] \<Longrightarrow> hasMessage (js (''problems:fields.'' @ k)) english"
  using fieldName_found [of k]
  by (simp only: hasMessage_def keyPath_def splitOn_js_colon splitOn_js_dot list.map list.case messageAt_english
      simp_thms)

definition nameOk :: "string \<Rightarrow> bool" where
  "nameOk k \<longleftrightarrow> splitChar (CHR 0x3A) k = [k] \<and> splitChar (CHR 0x2E) k = [k]"

lemma names_ok: "list_all nameOk problemNames" "list_all nameOk fieldNames"
  by (simp_all add: problemNames_def fieldNames_def nameOk_def)

lemma has_problemName: "k \<in> set problemNames \<Longrightarrow> hasMessage (js (''problems:'' @ k)) english"
  using names_ok(1) by (intro has_problem) (auto simp: list_all_iff nameOk_def)

lemma has_fieldName: "k \<in> set fieldNames \<Longrightarrow> hasMessage (js (''problems:fields.'' @ k)) english"
  using names_ok(2) by (intro has_field) (auto simp: list_all_iff nameOk_def)

definition allKnown :: "(jstr \<times> jstr) list \<Rightarrow> bool" where
  "allKnown t \<longleftrightarrow> (\<forall>(c, k) \<in> set t. hasMessage k english)"

lemma table_names:
  "map snd typeKeys = map (\<lambda>k. js (''problems:'' @ k))
    [''invalidRequest'', ''invalidCredentials'', ''unauthenticated'', ''forbidden'', ''invalidSetupToken'',
    ''invalidPasswordResetToken'', ''invalidInvitation'', ''roleInUse'', ''roleImmutable'',
    ''lastSuperAdmin'', ''staleRevision'', ''roleAlreadyExists'', ''invitationPending'', ''notFound'',
    ''methodNotAllowed'', ''setupComplete'', ''contentTooLarge'', ''unsupportedMediaType'',
    ''validationFailed'', ''rateLimited'', ''internalError'', ''serviceUnavailable'', ''mailNotConfigured'',
    ''mailTaskNotFound'', ''mailTaskSending'', ''mailTaskNotRetryable'', ''mailSettingsNotSaved'',
    ''permissionScope'']"
  "map snd codeKeys = map (\<lambda>k. js (''problems:'' @ k))
    [''accountDisabled'', ''selfUserOperation'', ''invalidRequest'', ''invalidCredentials'',
    ''unauthenticated'', ''forbidden'', ''invalidSetupToken'', ''invalidPasswordResetToken'',
    ''invalidInvitation'', ''roleInUse'', ''roleImmutable'', ''lastSuperAdmin'', ''staleRevision'',
    ''roleAlreadyExists'', ''invitationPending'', ''setupComplete'', ''validationFailed'', ''rateLimited'',
    ''serviceUnavailable'', ''mailNotConfigured'', ''mailTaskSending'', ''mailTaskNotRetryable'',
    ''mailSettingsNotSaved'', ''permissionScope'', ''invalidMailSettings'', ''emailChangeInvalid'',
    ''emailChangeResendTooSoon'', ''emailChangeCodeInvalid'', ''emailChangeAttemptsExceeded'']"
  "map snd fieldKeys = map (\<lambda>k. js (''problems:fields.'' @ k))
    [''required'', ''invalidName'', ''invalidEmail'', ''invalidPassword'', ''invalidLoginPassword'',
    ''loginPasswordRequired'', ''loginPasswordTooLong'', ''invalidValue'', ''emailAlreadyRegistered'',
    ''passwordMismatch'', ''emptyPermissions'', ''unknownPermission'', ''invalidRole'', ''duplicateRole'',
    ''invalidRevision'', ''invalidLimit'', ''invalidCursor'', ''invalidRoleSet'', ''invalidDescription'',
    ''invalidRetryCount'', ''invalidRetentionDays'', ''invalidTime'', ''invalidTimeRange'', ''invalidBatch'',
    ''invalidID'', ''duplicateID'', ''invalidValue'', ''tooLong'', ''invalidValue'', ''invalidIcon'',
    ''unsupportedImageType'', ''sameEmail'', ''invalidCode'']"
  by (simp_all add: typeKeys_def codeKeys_def fieldKeys_def)

lemma tables_in_names:
  "set (map snd typeKeys) \<subseteq> set (map (\<lambda>k. js (''problems:'' @ k)) problemNames)"
  "set (map snd codeKeys) \<subseteq> set (map (\<lambda>k. js (''problems:'' @ k)) problemNames)"
  "set (map snd fieldKeys) \<subseteq> set (map (\<lambda>k. js (''problems:fields.'' @ k)) fieldNames)"
  unfolding table_names set_map by (rule image_mono, simp add: problemNames_def fieldNames_def)+

lemma allKnown_sub:
  assumes "set (map snd t) \<subseteq> set (map f ns)" "\<And>n. n \<in> set ns \<Longrightarrow> hasMessage (f n) english"
  shows "allKnown t"
proof -
  have "hasMessage k english" if "(c, k) \<in> set t" for c k
  proof -
    have "k \<in> set (map snd t)" using that by (metis in_set_zipE set_zip_rightD snd_conv zip_map_fst_snd)
    then obtain n where "n \<in> set ns" "k = f n" using assms(1) by auto
    then show ?thesis using assms(2) by blast
  qed
  then show ?thesis unfolding allKnown_def by blast
qed

lemma typeKeys_known: "allKnown typeKeys"
  by (rule allKnown_sub [OF tables_in_names(1) has_problemName])

lemma codeKeys_known: "allKnown codeKeys"
  by (rule allKnown_sub [OF tables_in_names(2) has_problemName])

lemma fieldKeys_known: "allKnown fieldKeys"
  by (rule allKnown_sub [OF tables_in_names(3) has_fieldName])

lemma fixedKeys_known:
  "hasMessage (js ''problems:generic'') english" "hasMessage (js ''problems:network'') english"
  "hasMessage (js ''problems:requestCancelled'') english" "hasMessage (js ''problems:malformedResponse'') english"
  "hasMessage (js ''problems:fields.invalidValue'') english"
  using has_problemName [of "''generic''"] has_problemName [of "''network''"] has_problemName [of "''requestCancelled''"]
    has_problemName [of "''malformedResponse''"] has_fieldName [of "''invalidValue''"]
  by (simp_all add: problemNames_def fieldNames_def)

lemma allKnownD: "\<lbrakk>allKnown t; get_prop t c = Own k\<rbrakk> \<Longrightarrow> hasMessage k english"
  using get_prop_Own_in [of t c k] by (fastforce simp: allKnown_def)

definition known :: "msgkey \<Rightarrow> bool" where
  "known m = (case m of Own k \<Rightarrow> hasMessage k english \<and> hasMessage k chinese | _ \<Rightarrow> False)"

lemma known_Own [simp]: "known (Own k) \<longleftrightarrow> hasMessage k english"
  by (simp add: known_def hasMessage_both)

lemma known_coalesce:
  "\<lbrakk>allKnown t; c \<notin> set proto_names; known m\<rbrakk> \<Longrightarrow> known (coalesce (get_prop t c) m)"
  using allKnownD [of t c] not_Absent_ordinary [of c t] by (cases "get_prop t c") auto

lemma Nil_ordinary: "[] \<notin> set proto_names"
  by (simp add: proto_names_def)

lemma special_known: "c \<in> set specialCodes \<Longrightarrow> known (get_prop codeKeys c)"
  using specialCodes_in_table [of c] allKnownD [OF codeKeys_known, of c]
  by (cases "map_of codeKeys c") (auto simp: get_prop_def)

text \<open>
  Whatever a call fails with, the message key it is shown with exists in both catalogues; the
  only exception is a problem document whose type or code is the name of a property of
  \<open>Object.prototype\<close>, which the table lookup finds by inheritance.
\<close>

theorem problem_message_known:
  "known (problemMessageKey e) \<or>
   (\<exists>p. e = ApiProblemError p \<and> (ptype p \<in> set proto_names \<or> code p \<in> Some ` set proto_names))"
proof (cases e)
  case (ApiProblemError p)
  have "nullish (code p) [] \<notin> set proto_names" if "code p \<notin> Some ` set proto_names"
    using that Nil_ordinary by (cases "code p") auto
  then show ?thesis
    using ApiProblemError special_known
    by (auto simp: Let_def fixedKeys_known intro!: known_coalesce typeKeys_known codeKeys_known)
qed (simp_all add: fixedKeys_known)

text \<open>
  A field problem reported by the server, and an error of a form's own validation, are shown
  with a message of both catalogues, whatever their code, inherited names aside.
\<close>

theorem field_message_known:
  "known (fieldMessageKey c) \<or> c \<in> Some ` set proto_names"
proof -
  have "nullish c [] \<notin> set proto_names" if "c \<notin> Some ` set proto_names"
    using that Nil_ordinary by (cases c) auto
  then show ?thesis
    by (auto simp: fieldMessageKey_def fixedKeys_known intro!: known_coalesce fieldKeys_known)
qed

text \<open>The exception is real: an unlucky code is looked up on the prototype and never translated.\<close>

lemma inherited_message_key:
  "problemMessageKey (ApiProblemError \<lparr>ptype = js ''constructor'', title = [], status = 400, code = None,
     detail = None, errors = None\<rparr>) = Inherited"
  by (simp add: get_prop_def typeKeys_def codeKeys_def proto_names_def specialCodes_def)

end
