(* ===== verification/Contracts.thy ===== *)
theory Contracts
  imports Complex_Main Prelude
begin

text \<open>
  \<open>shared/api/contracts.ts\<close>: the schemas of every document the interface exchanges with its server,
  as values. A schema is written with the combinators of the package zod, which is not part of the
  repository: parsing against a schema is a function argument of the client, and this theory only
  holds the schemas the code declares and what can be read off them.
\<close>

datatype json =
    JNull
  | JBool bool
  | JNum rat
  | JStr jstr
  | JArr "json list"
  | JObj "(jstr \<times> json) list"

text \<open>What happens to keys that an object schema does not name: refused, kept, or dropped.\<close>

datatype unknownKeys = Strict | Passthrough | Strip

datatype zschema =
    ZString | ZBool | ZNumber | ZUnknown
  | ZUuid zschema | ZDatetime zschema
  | ZInt zschema | ZPositive zschema | ZNonnegative zschema
  | ZEnum "jstr list" | ZLiteral jstr
  | ZOptional zschema | ZNullable zschema | ZDefault json zschema
  | ZArray zschema | ZRecord zschema zschema | ZUnion "zschema list"
  | ZObject unknownKeys "(jstr \<times> zschema) list"

definition roleSchema :: zschema where
  "roleSchema =
    ZObject Strict [
      (js ''id'', ZUuid ZString),
      (js ''name'', ZString),
      (js ''description'', ZString),
      (js ''system'', ZOptional ZString),
      (js ''permissions'', ZArray ZString),
      (js ''revision'', ZPositive (ZInt ZNumber)),
      (js ''assignmentCount'', ZOptional (ZNonnegative (ZInt ZNumber))),
      (js ''createdAt'', ZOptional ZString),
      (js ''updatedAt'', ZOptional ZString)]"

definition userSchema :: zschema where
  "userSchema =
    ZObject Strict [
      (js ''id'', ZUuid ZString),
      (js ''name'', ZString),
      (js ''email'', ZString),
      (js ''locale'', ZOptional (ZEnum [js ''en'', js ''zh-CN''])),
      (js ''avatarUrl'', ZOptional ZString),
      (js ''hasAvatar'', ZDefault (JBool False) ZBool),
      (js ''avatarVersion'', ZOptional (ZNonnegative (ZInt ZNumber))),
      (js ''roles'', ZOptional (ZArray roleSchema)),
      (js ''permissions'', ZOptional (ZArray ZString)),
      (js ''superAdmin'', ZOptional ZBool)]"

definition userEnvelopeSchema :: zschema where
  "userEnvelopeSchema =
    ZObject Strict [
      (js ''user'', userSchema)]"

definition permissionSchema :: zschema where
  "permissionSchema =
    ZObject Strict [
      (js ''key'', ZString),
      (js ''resource'', ZString),
      (js ''action'', ZString),
      (js ''labelKey'', ZString),
      (js ''description'', ZString),
      (js ''dependencies'', ZOptional (ZArray ZString))]"

definition roleOptionSchema :: zschema where
  "roleOptionSchema =
    ZObject Strict [
      (js ''id'', ZUuid ZString),
      (js ''name'', ZString)]"

definition principalEnvelopeSchema :: zschema where
  "principalEnvelopeSchema =
    ZObject Strict [
      (js ''user'', ZObject Strict [
        (js ''id'', ZUuid ZString),
        (js ''name'', ZString),
        (js ''email'', ZString),
        (js ''locale'', ZOptional (ZEnum [js ''en'', js ''zh-CN''])),
        (js ''avatarUrl'', ZOptional ZString),
        (js ''hasAvatar'', ZDefault (JBool False) ZBool),
        (js ''avatarVersion'', ZOptional (ZNonnegative (ZInt ZNumber)))]),
      (js ''roles'', ZArray roleSchema),
      (js ''permissions'', ZArray ZString),
      (js ''superAdmin'', ZBool)]"

definition authEnvelopeSchema :: zschema where
  "authEnvelopeSchema =
    ZUnion [userEnvelopeSchema, principalEnvelopeSchema]"

definition rolesResponseSchema :: zschema where
  "rolesResponseSchema =
    ZObject Strict [
      (js ''roles'', ZArray roleSchema),
      (js ''permissions'', ZArray permissionSchema),
      (js ''combinations'', ZOptional (ZArray (ZObject Strict [
        (js ''key'', ZString),
        (js ''labelKey'', ZString),
        (js ''description'', ZString),
        (js ''permissions'', ZArray ZString),
        (js ''trigger'', ZOptional (ZArray ZString))])))]"

definition roleOptionsResponseSchema :: zschema where
  "roleOptionsResponseSchema =
    ZObject Strict [
      (js ''roles'', ZArray roleOptionSchema)]"

definition roleResponseSchema :: zschema where
  "roleResponseSchema =
    ZObject Strict [
      (js ''role'', roleSchema)]"

definition accessUserSchema :: zschema where
  "accessUserSchema =
    ZObject Strict [
      (js ''id'', ZUuid ZString),
      (js ''name'', ZString),
      (js ''email'', ZString),
      (js ''locale'', ZOptional (ZEnum [js ''en'', js ''zh-CN''])),
      (js ''avatarUrl'', ZOptional ZString),
      (js ''hasAvatar'', ZDefault (JBool False) ZBool),
      (js ''avatarVersion'', ZOptional (ZNonnegative (ZInt ZNumber))),
      (js ''createdAt'', ZString),
      (js ''authVersion'', ZPositive (ZInt ZNumber)),
      (js ''disabled'', ZDefault (JBool False) ZBool),
      (js ''roles'', ZArray roleSchema)]"

definition usersResponseSchema :: zschema where
  "usersResponseSchema =
    ZObject Strict [
      (js ''users'', ZArray accessUserSchema),
      (js ''nextCursor'', ZOptional ZString)]"

definition userRoleResponseSchema :: zschema where
  "userRoleResponseSchema =
    ZObject Strict [
      (js ''user'', accessUserSchema)]"

definition invitationSchema :: zschema where
  "invitationSchema =
    ZObject Strict [
      (js ''creator'', ZOptional (ZObject Strip [
        (js ''id'', ZOptional ZString),
        (js ''name'', ZOptional ZString),
        (js ''email'', ZOptional ZString),
        (js ''deleted'', ZOptional ZBool)])),
      (js ''id'', ZUuid ZString),
      (js ''name'', ZString),
      (js ''email'', ZString),
      (js ''locale'', ZEnum [js ''en'', js ''zh-CN'']),
      (js ''roles'', ZArray roleSchema),
      (js ''expiresAt'', ZString),
      (js ''createdAt'', ZString),
      (js ''revision'', ZPositive (ZInt ZNumber))]"

definition invitationsResponseSchema :: zschema where
  "invitationsResponseSchema =
    ZObject Strict [
      (js ''invitations'', ZArray invitationSchema),
      (js ''nextCursor'', ZOptional ZString)]"

definition invitationResponseSchema :: zschema where
  "invitationResponseSchema =
    ZObject Strict [
      (js ''invitation'', invitationSchema)]"

definition setupStatusSchema :: zschema where
  "setupStatusSchema =
    ZObject Strict [
      (js ''status'', ZEnum [js ''required'', js ''complete''])]"

definition setupResponseSchema :: zschema where
  "setupResponseSchema =
    ZObject Strict [
      (js ''status'', ZLiteral (js ''complete''))]"

definition setupInputSchema :: zschema where
  "setupInputSchema =
    ZObject Strict [
      (js ''token'', ZString),
      (js ''name'', ZString),
      (js ''email'', ZString),
      (js ''password'', ZString),
      (js ''locale'', ZOptional (ZEnum [js ''en'', js ''zh-CN'']))]"

definition loginInputSchema :: zschema where
  "loginInputSchema =
    ZObject Strict [
      (js ''email'', ZString),
      (js ''password'', ZString),
      (js ''locale'', ZOptional (ZEnum [js ''en'', js ''zh-CN'']))]"

definition passwordResetRequestInputSchema :: zschema where
  "passwordResetRequestInputSchema =
    ZObject Strict [
      (js ''email'', ZString)]"

definition passwordResetCompleteInputSchema :: zschema where
  "passwordResetCompleteInputSchema =
    ZObject Strict [
      (js ''token'', ZString),
      (js ''password'', ZString)]"

definition roleMutationInputSchema :: zschema where
  "roleMutationInputSchema =
    ZObject Strict [
      (js ''name'', ZString),
      (js ''description'', ZString),
      (js ''permissions'', ZArray ZString),
      (js ''revision'', ZOptional (ZNonnegative (ZInt ZNumber)))]"

definition assignmentInputSchema :: zschema where
  "assignmentInputSchema =
    ZObject Strict [
      (js ''roleIds'', ZArray (ZUuid ZString)),
      (js ''authVersion'', ZPositive (ZInt ZNumber))]"

definition invitationInputSchema :: zschema where
  "invitationInputSchema =
    ZObject Strict [
      (js ''name'', ZString),
      (js ''email'', ZString),
      (js ''roleIds'', ZArray (ZUuid ZString))]"

definition invitationAcceptanceInputSchema :: zschema where
  "invitationAcceptanceInputSchema =
    ZObject Strict [
      (js ''token'', ZString),
      (js ''password'', ZString)]"

definition emailSettingsSchema :: zschema where
  "emailSettingsSchema =
    ZObject Strict [
      (js ''configured'', ZBool),
      (js ''host'', ZOptional ZString),
      (js ''port'', ZOptional (ZInt ZNumber)),
      (js ''security'', ZOptional (ZEnum [js ''none'', js ''starttls'', js ''tls''])),
      (js ''username'', ZOptional ZString),
      (js ''passwordSet'', ZBool),
      (js ''fromAddress'', ZOptional ZString),
      (js ''fromName'', ZOptional ZString),
      (js ''defaultLocale'', ZOptional (ZEnum [js ''en'', js ''zh-CN''])),
      (js ''autoRetryCount'', ZOptional (ZNonnegative (ZInt ZNumber))),
      (js ''retentionDays'', ZOptional (ZPositive (ZInt ZNumber))),
      (js ''revision'', ZNonnegative (ZInt ZNumber)),
      (js ''updatedAt'', ZOptional ZString)]"

definition emailSettingsResponseSchema :: zschema where
  "emailSettingsResponseSchema =
    ZObject Strict [
      (js ''email'', emailSettingsSchema)]"

definition emailTaskStatusSchema :: zschema where
  "emailTaskStatusSchema =
    ZEnum [js ''queued'', js ''sending'', js ''waiting_retry'', js ''sent'', js ''failed'']"

definition emailTaskKindSchema :: zschema where
  "emailTaskKindSchema =
    ZEnum [js ''password_reset'', js ''password_changed'', js ''user_invitation'', js ''email_change_code'', js ''email_changed'', js ''test_email'']"

definition emailTaskAttemptSchema :: zschema where
  "emailTaskAttemptSchema =
    ZObject Strict [
      (js ''id'', ZOptional (ZUuid ZString)),
      (js ''round'', ZOptional (ZPositive (ZInt ZNumber))),
      (js ''attempt'', ZOptional (ZPositive (ZInt ZNumber))),
      (js ''outcome'', ZEnum [js ''sent'', js ''failed'']),
      (js ''errorCode'', ZOptional ZString),
      (js ''occurredAt'', ZDatetime ZString)]"

definition emailTaskSchema :: zschema where
  "emailTaskSchema =
    ZObject Strict [
      (js ''id'', ZUuid ZString),
      (js ''kind'', emailTaskKindSchema),
      (js ''purpose'', ZOptional ZString),
      (js ''recipientEmail'', ZString),
      (js ''recipientName'', ZOptional ZString),
      (js ''locale'', ZEnum [js ''en'', js ''zh-CN'']),
      (js ''status'', emailTaskStatusSchema),
      (js ''createdAt'', ZDatetime ZString),
      (js ''availableAt'', ZOptional (ZDatetime ZString)),
      (js ''finishedAt'', ZOptional (ZDatetime ZString)),
      (js ''attemptCount'', ZNonnegative (ZInt ZNumber)),
      (js ''round'', ZOptional (ZPositive (ZInt ZNumber))),
      (js ''roundAttemptCount'', ZOptional (ZNonnegative (ZInt ZNumber))),
      (js ''lastErrorCode'', ZOptional ZString),
      (js ''attempts'', ZOptional (ZArray emailTaskAttemptSchema))]"

definition emailTasksResponseSchema :: zschema where
  "emailTasksResponseSchema =
    ZObject Strict [
      (js ''tasks'', ZArray emailTaskSchema),
      (js ''nextCursor'', ZOptional ZString)]"

definition emailTaskResponseSchema :: zschema where
  "emailTaskResponseSchema =
    ZObject Strict [
      (js ''task'', emailTaskSchema)]"

definition emailTaskBulkItemSchema :: zschema where
  "emailTaskBulkItemSchema =
    ZObject Strict [
      (js ''id'', ZUuid ZString),
      (js ''result'', ZEnum [js ''succeeded'', js ''skipped'', js ''failed'']),
      (js ''code'', ZOptional ZString)]"

definition emailTaskBulkResponseSchema :: zschema where
  "emailTaskBulkResponseSchema =
    ZObject Strict [
      (js ''succeeded'', ZNonnegative (ZInt ZNumber)),
      (js ''skipped'', ZNonnegative (ZInt ZNumber)),
      (js ''failed'', ZNonnegative (ZInt ZNumber)),
      (js ''items'', ZArray emailTaskBulkItemSchema)]"

definition submittedEmailTaskResponseSchema :: zschema where
  "submittedEmailTaskResponseSchema =
    ZObject Strict [
      (js ''status'', ZLiteral (js ''accepted'')),
      (js ''task'', ZOptional emailTaskSchema)]"

definition operationalWarningsSchema :: zschema where
  "operationalWarningsSchema =
    ZObject Strict [
      (js ''warnings'', ZArray (ZObject Strict [
        (js ''key'', ZString),
        (js ''severity'', ZString)]))]"

definition systemIdentitySchema :: zschema where
  "systemIdentitySchema =
    ZObject Strict [
      (js ''systemName'', ZString),
      (js ''iconUrl'', ZString),
      (js ''hasCustomIcon'', ZBool),
      (js ''revision'', ZNonnegative (ZInt ZNumber)),
      (js ''updatedAt'', ZOptional ZString)]"

definition systemIdentityResponseSchema :: zschema where
  "systemIdentityResponseSchema =
    systemIdentitySchema"

definition operationActorSchema :: zschema where
  "operationActorSchema =
    ZObject Strict [
      (js ''deleted'', ZOptional ZBool),
      (js ''id'', ZOptional ZString),
      (js ''name'', ZOptional ZString),
      (js ''email'', ZOptional ZString),
      (js ''kind'', ZOptional ZString),
      (js ''label'', ZOptional ZString)]"

definition operationLogSchema :: zschema where
  "operationLogSchema =
    ZObject Strict [
      (js ''id'', ZUuid ZString),
      (js ''actor'', operationActorSchema),
      (js ''action'', ZString),
      (js ''objectType'', ZString),
      (js ''objectId'', ZOptional ZString),
      (js ''objectDeleted'', ZOptional ZBool),
      (js ''result'', ZEnum [js ''success'', js ''failure'']),
      (js ''occurredAt'', ZString),
      (js ''sourceIp'', ZOptional ZString),
      (js ''attemptedAccount'', ZOptional ZString),
      (js ''details'', ZRecord ZString ZUnknown)]"

definition operationLogsResponseSchema :: zschema where
  "operationLogsResponseSchema =
    ZObject Strict [
      (js ''logs'', ZArray operationLogSchema),
      (js ''nextCursor'', ZOptional ZString)]"

definition operationLogResponseSchema :: zschema where
  "operationLogResponseSchema =
    ZObject Strict [
      (js ''log'', operationLogSchema)]"

definition operationLogStatusSchema :: zschema where
  "operationLogStatusSchema =
    ZObject Strict [
      (js ''state'', ZEnum [js ''unknown'', js ''healthy'', js ''failed'', js ''recovered'']),
      (js ''failureCount'', ZNonnegative (ZInt ZNumber)),
      (js ''lastFailureAt'', ZOptional ZString),
      (js ''lastSuccessAt'', ZOptional ZString)]"

definition operationLogRetentionSchema :: zschema where
  "operationLogRetentionSchema =
    ZObject Strict [
      (js ''retentionDays'', ZInt ZNumber),
      (js ''revision'', ZNonnegative (ZInt ZNumber)),
      (js ''updatedAt'', ZOptional ZString)]"

definition passwordResetAcceptedSchema :: zschema where
  "passwordResetAcceptedSchema =
    ZObject Strict [
      (js ''status'', ZLiteral (js ''accepted''))]"

definition sessionStatusSchema :: zschema where
  "sessionStatusSchema =
    ZObject Strict [
      (js ''status'', ZLiteral (js ''ok''))]"

definition fieldProblemSchema :: zschema where
  "fieldProblemSchema =
    ZObject Passthrough [
      (js ''pointer'', ZString),
      (js ''code'', ZString),
      (js ''params'', ZOptional (ZRecord ZString ZUnknown))]"

definition problemDetailsSchema :: zschema where
  "problemDetailsSchema =
    ZObject Passthrough [
      (js ''type'', ZString),
      (js ''title'', ZString),
      (js ''status'', ZInt ZNumber),
      (js ''code'', ZOptional ZString),
      (js ''detail'', ZOptional ZString),
      (js ''instance'', ZOptional ZString),
      (js ''errors'', ZOptional (ZArray fieldProblemSchema))]"

definition onlineUsersResponseSchema :: zschema where
  "onlineUsersResponseSchema =
    ZObject Strict [
      (js ''users'', ZArray (ZObject Strict [
        (js ''id'', ZUuid ZString),
        (js ''name'', ZString),
        (js ''email'', ZString),
        (js ''avatarUrl'', ZOptional ZString),
        (js ''hasAvatar'', ZDefault (JBool False) ZBool),
        (js ''avatarVersion'', ZOptional (ZNonnegative (ZInt ZNumber))),
        (js ''lastSeenAt'', ZDatetime ZString),
        (js ''sessionCount'', ZPositive (ZInt ZNumber))]))]"

definition emailChangeSchema :: zschema where
  "emailChangeSchema =
    ZObject Strict [
      (js ''id'', ZUuid ZString),
      (js ''oldEmail'', ZString),
      (js ''newEmail'', ZString),
      (js ''expiresAt'', ZDatetime ZString),
      (js ''resendAvailableAt'', ZDatetime ZString),
      (js ''attemptsRemaining'', ZNonnegative (ZInt ZNumber)),
      (js ''revision'', ZPositive (ZInt ZNumber))]"

definition personalProfileResponseSchema :: zschema where
  "personalProfileResponseSchema =
    ZObject Strict [
      (js ''user'', userSchema),
      (js ''emailChange'', ZOptional (ZNullable emailChangeSchema))]"

definition emailChangeResponseSchema :: zschema where
  "emailChangeResponseSchema =
    ZObject Strict [
      (js ''emailChange'', emailChangeSchema)]"

definition personalEmailChangeStatusSchema :: zschema where
  "personalEmailChangeStatusSchema =
    ZObject Strict [
      (js ''emailChange'', ZNullable emailChangeSchema)]"

definition personalPasswordInputSchema :: zschema where
  "personalPasswordInputSchema =
    ZObject Strict [
      (js ''currentPassword'', ZString),
      (js ''newPassword'', ZString),
      (js ''confirmPassword'', ZString)]"

definition personalEmailChangeInputSchema :: zschema where
  "personalEmailChangeInputSchema =
    ZObject Strict [
      (js ''currentPassword'', ZString),
      (js ''newEmail'', ZString)]"

definition personalEmailVerifyInputSchema :: zschema where
  "personalEmailVerifyInputSchema =
    ZObject Strict [
      (js ''requestId'', ZUuid ZString),
      (js ''code'', ZString)]"

subsection \<open>Reading a schema\<close>

text \<open>Every key that a schema names, and whether every object in it refuses other keys.\<close>

fun schemaKeys :: "zschema \<Rightarrow> jstr list" where
  "schemaKeys (ZUuid z) = schemaKeys z"
| "schemaKeys (ZDatetime z) = schemaKeys z"
| "schemaKeys (ZInt z) = schemaKeys z"
| "schemaKeys (ZPositive z) = schemaKeys z"
| "schemaKeys (ZNonnegative z) = schemaKeys z"
| "schemaKeys (ZOptional z) = schemaKeys z"
| "schemaKeys (ZNullable z) = schemaKeys z"
| "schemaKeys (ZDefault d z) = schemaKeys z"
| "schemaKeys (ZArray z) = schemaKeys z"
| "schemaKeys (ZRecord k v) = schemaKeys k @ schemaKeys v"
| "schemaKeys (ZUnion zs) = concat (map schemaKeys zs)"
| "schemaKeys (ZObject u fs) = concat (map (\<lambda>(k, z). k # schemaKeys z) fs)"
| "schemaKeys _ = []"

text \<open>The keys of the documents that carry a credential in a request.\<close>

definition credentialKeys :: "jstr list" where
  "credentialKeys = map js [''password'', ''token'', ''currentPassword'', ''newPassword'', ''confirmPassword'']"

definition discloses :: "zschema \<Rightarrow> bool" where
  "discloses z \<longleftrightarrow> list_ex (\<lambda>k. k \<in> set credentialKeys) (schemaKeys z)"

end
