(* ===== verification/ApiClient.thy ===== *)
theory ApiClient
  imports Contracts Problems JsUrl "HOL-Library.AList"
begin

text \<open>
  \<open>shared/api/client.ts\<close>: one \<open>fetch\<close> per call. A call either throws before anything is sent (an
  argument the schema refuses, an identifier that cannot be encoded) or sends one request and
  classifies its outcome: a rejected fetch, a problem document, an unexpected response, a value.
  \<open>createApiClient\<close> gives for each method of the interface the request it sends and what it returns.
  \<open>zparse\<close>, the parser of the package zod, is an argument: \<open>zparse s v\<close> is the parsed value, \<open>None\<close>
  when it throws.
\<close>

subsection \<open>Requests and responses\<close>

datatype httpMethod = GET | POST | PUT | PATCH | DELETE

datatype part = TextPart jstr | FilePart "nat list" jstr

datatype body = Json json | Form "(jstr \<times> part) list"

record httpRequest =
  url :: jstr
  reqMethod :: httpMethod
  headers :: "(jstr \<times> jstr) list"
  reqBody :: "body option"

text \<open>A response: its status, its content type, and what \<open>response.json()\<close> gives (\<open>None\<close>: it rejects).\<close>

record response =
  rstatus :: nat
  contentType :: "jstr option"
  jsonBody :: "json option"

datatype outcome = FetchRejected bool | Response response

definition ok :: "response \<Rightarrow> bool" where
  "ok r \<longleftrightarrow> 200 \<le> rstatus r \<and> rstatus r \<le> 299"

text \<open>\<open>toLowerCase\<close> on a header value, whose units are bytes.\<close>

definition lowerUnit :: "nat \<Rightarrow> nat" where
  "lowerUnit c = (if 0x41 \<le> c \<and> c \<le> 0x5A \<or> 0xC0 \<le> c \<and> c \<le> 0xDE \<and> c \<noteq> 0xD7 then c + 0x20 else c)"

definition mediaType :: "jstr option \<Rightarrow> jstr option" where
  "mediaType ct = map_option (\<lambda>v. map lowerUnit (trim (hd (splitOn 0x3B v)))) ct"

type_synonym zod = "zschema \<Rightarrow> json \<Rightarrow> json option"

text \<open>The \<open>schema\<close> argument of \<open>request\<close>: a schema, or one of the two literal objects with a \<open>parse\<close> function.\<close>

datatype parser = Schema zschema | Identity | Discard

fun parseWith :: "zod \<Rightarrow> parser \<Rightarrow> json \<Rightarrow> json option option" where
  "parseWith zparse (Schema s) v = map_option Some (zparse s v)"
| "parseWith zparse Identity v = Some (Some v)"
| "parseWith zparse Discard v = Some None"

text \<open>The fields of a parsed problem document.\<close>

fun field :: "jstr \<Rightarrow> json \<Rightarrow> json option" where
  "field k (JObj fs) = map_of fs k"
| "field k _ = None"

fun strOf :: "json \<Rightarrow> jstr option" where
  "strOf (JStr s) = Some s"
| "strOf _ = None"

fun numOf :: "json \<Rightarrow> int option" where
  "numOf (JNum q) = (if of_int \<lfloor>q\<rfloor> = q then Some \<lfloor>q\<rfloor> else None)"
| "numOf _ = None"

fun listOf :: "json \<Rightarrow> json list option" where
  "listOf (JArr vs) = Some vs"
| "listOf _ = None"

definition strField :: "jstr \<Rightarrow> json \<Rightarrow> jstr option" where
  "strField k v = Option.bind (field k v) strOf"

definition fieldProblemOf :: "json \<Rightarrow> FieldProblem" where
  "fieldProblemOf v = \<lparr>pointer = nullish (strField (js ''pointer'') v) [], fcode = nullish (strField (js ''code'') v) []\<rparr>"

definition problemOf :: "json \<Rightarrow> ProblemDetails" where
  "problemOf v = \<lparr>ptype = nullish (strField (js ''type'') v) [], title = nullish (strField (js ''title'') v) [],
     status = nullish (Option.bind (field (js ''status'') v) numOf) 0, code = strField (js ''code'') v,
     detail = strField (js ''detail'') v,
     errors = map_option (map fieldProblemOf) (Option.bind (field (js ''errors'') v) listOf)\<rparr>"

text \<open>From the outcome of the fetch to the end of \<open>request\<close>.\<close>

definition receive :: "zod \<Rightarrow> parser \<Rightarrow> nat \<Rightarrow> outcome \<Rightarrow> thrown + json option" where
  "receive zparse schema expectedStatus out =
     (case out of
        FetchRejected aborted \<Rightarrow>
          Inl (ApiTransportError (if aborted then js ''The request was cancelled.'' else js ''The network request failed.'')
                 aborted)
      | Response r \<Rightarrow>
          if \<not> ok r then
            if mediaType (contentType r) \<noteq> Some (js ''application/problem+json'')
            then Inl (ApiProtocolError (js ''The server returned an unexpected response.''))
            else (case jsonBody r of
                None \<Rightarrow> Inl (ApiProtocolError (js ''The server returned malformed error data.''))
              | Some b \<Rightarrow>
                  (case zparse problemDetailsSchema b of
                     None \<Rightarrow> Inl (ApiProtocolError (js ''The server returned an unexpected response.''))
                   | Some d \<Rightarrow>
                       if status (problemOf d) \<noteq> int (rstatus r)
                       then Inl (ApiProtocolError (js ''The server returned an unexpected response.''))
                       else Inl (ApiProblemError (problemOf d))))
          else if rstatus r \<noteq> expectedStatus
          then Inl (ApiProtocolError (js ''The server returned an unexpected response.''))
          else if rstatus r = 204 then Inr None
          else if mediaType (contentType r) \<noteq> Some (js ''application/json'')
          then Inl (ApiProtocolError (js ''The server returned an unexpected response.''))
          else (case jsonBody r of
              None \<Rightarrow> Inl (ApiProtocolError (js ''The server returned malformed data.''))
            | Some b \<Rightarrow>
                (case parseWith zparse schema b of
                   None \<Rightarrow> Inl (ApiProtocolError (js ''The server returned data in an unexpected shape.''))
                 | Some v \<Rightarrow> Inr v)))"

text \<open>A call: it throws at once, or sends one request and continues with its outcome.\<close>

datatype call = Throws thrown | Sends httpRequest "outcome \<Rightarrow> thrown + json option"

definition JSON_HEADERS :: "(jstr \<times> jstr) list" where
  "JSON_HEADERS = [(js ''Accept'', js ''application/json, application/problem+json''),
     (js ''Cache-Control'', js ''no-store'')]"

fun isForm :: "body option \<Rightarrow> bool" where
  "isForm (Some (Form _)) \<longleftrightarrow> True"
| "isForm _ \<longleftrightarrow> False"

definition request :: "zod \<Rightarrow> jstr \<Rightarrow> parser \<Rightarrow> httpMethod \<Rightarrow> body option \<Rightarrow> nat \<Rightarrow> call" where
  "request zparse path schema m b expectedStatus =
     Sends \<lparr>url = path, reqMethod = m,
            headers = JSON_HEADERS @
              (if b \<noteq> None \<and> \<not> isForm b then [(js ''Content-Type'', js ''application/json'')] else []),
            reqBody = b\<rparr>
       (receive zparse schema expectedStatus)"

text \<open>\<open>await request(\ldots)\<close> with its value dropped, a member of its value, and a function of its value.\<close>

fun andThen :: "call \<Rightarrow> (json option \<Rightarrow> thrown + json option) \<Rightarrow> call" where
  "andThen (Throws e) f = Throws e"
| "andThen (Sends r k) f = Sends r (\<lambda>out. case k out of Inl e \<Rightarrow> Inl e | Inr v \<Rightarrow> f v)"

definition void :: "call \<Rightarrow> call" where
  "void c = andThen c (\<lambda>_. Inr None)"

fun memberOf :: "jstr \<Rightarrow> json option \<Rightarrow> thrown + json option" where
  "memberOf k None = Inl OtherError"
| "memberOf k (Some JNull) = Inl OtherError"
| "memberOf k (Some v) = Inr (field k v)"

text \<open>\<open>schema.parse(input)\<close> before the request, and an identifier in the path.\<close>

definition parsed :: "zod \<Rightarrow> zschema \<Rightarrow> json \<Rightarrow> (body option \<Rightarrow> call) \<Rightarrow> call" where
  "parsed zparse s input k = (case zparse s input of None \<Rightarrow> Throws OtherError | Some b \<Rightarrow> k (Some (Json b)))"

definition withId :: "jstr \<Rightarrow> (jstr \<Rightarrow> call) \<Rightarrow> call" where
  "withId i k = (case encodeURIComponent i of None \<Rightarrow> Throws OtherError | Some e \<Rightarrow> k e)"

definition paramIf :: "jstr \<Rightarrow> jstr option \<Rightarrow> params \<Rightarrow> params" where
  "paramIf k v ps = (if truthy v then params_set k (the v) ps else ps)"

definition withQuery :: "jstr \<Rightarrow> params \<Rightarrow> jstr" where
  "withQuery path query = path @ (if query \<noteq> [] then 0x3F # params_str query else [])"

text \<open>The user of a principal envelope carries the roles and permissions beside it.\<close>

definition setField :: "jstr \<Rightarrow> json option \<Rightarrow> (jstr \<times> json) list \<Rightarrow> (jstr \<times> json) list" where
  "setField k v fs = (case v of None \<Rightarrow> filter (\<lambda>(l, _). l \<noteq> k) fs | Some w \<Rightarrow> AList.update k w fs)"

fun fieldsOf :: "json option \<Rightarrow> (jstr \<times> json) list" where
  "fieldsOf (Some (JObj fs)) = fs"
| "fieldsOf _ = []"

definition principalUser :: "json option \<Rightarrow> thrown + json option" where
  "principalUser result =
     (case result of
        Some (JObj fs) \<Rightarrow>
          if js ''roles'' \<in> fst ` set fs
          then Inr (Some (JObj
            (setField (js ''superAdmin'') (map_of fs (js ''superAdmin''))
              (setField (js ''permissions'') (map_of fs (js ''permissions''))
                (setField (js ''roles'') (map_of fs (js ''roles'')) (fieldsOf (map_of fs (js ''user''))))))))
          else Inr (map_of fs (js ''user''))
      | _ \<Rightarrow> Inl OtherError)"


subsection \<open>The methods of the interface\<close>

record listOptions =
  cursor :: "jstr option"
  limit :: "int option"
  q :: "jstr option"
  roleId :: "jstr option"
  optStatus :: "jstr option"
  sort :: "jstr option"
  direction :: "jstr option"

record taskOptions =
  tCursor :: "jstr option"
  tLimit :: "int option"
  recipient :: "jstr option"
  kind :: "jstr option"
  purpose :: "jstr option"
  tStatus :: "jstr option"
  tFrom :: "jstr option"
  tTo :: "jstr option"
  failedOnly :: bool

record logOptions =
  lCursor :: "jstr option"
  lLimit :: "int option"
  lFrom :: "jstr option"
  lTo :: "jstr option"
  actorId :: "jstr option"
  action :: "jstr option"
  objectType :: "jstr option"
  objectId :: "jstr option"
  result :: "jstr option"

datatype sessionMethod =
    GetOnlineUsers | KickUser jstr | CheckSession | GetSetupStatus | Setup json | Login json | Me

datatype profileMethod =
    GetPersonalProfile | UpdatePersonalName jstr | UpdatePersonalLocale jstr
  | SavePersonalAvatar "nat list" | RemovePersonalAvatar | ChangePersonalPassword json
  | RequestPersonalEmailChange json | GetPersonalEmailChange | ResendPersonalEmailChange
  | VerifyPersonalEmailChange json

datatype roleMethod =
    GetRoles | GetRoleOptions | GetRole jstr | CreateRole json | ReplaceRole jstr json
  | DeleteRole jstr

datatype userMethod =
    GetUsers listOptions | ReplaceUserRoles jstr json | DeactivateUser jstr int
  | ReactivateUser jstr int | DeleteUser jstr int | GetInvitations listOptions
  | CreateInvitation json | ResendInvitation jstr | RevokeInvitation jstr

datatype linkMethod =
    AcceptInvitation json | Logout | RequestPasswordReset json | CompletePasswordReset json

datatype mailMethod =
    GetEmailSettings | SaveEmailSettings json | TestEmailSettings json | GetEmailTasks taskOptions
  | GetEmailTask jstr | RetryEmailTask jstr | DeleteEmailTask jstr | RetryEmailTasks "jstr list"
  | DeleteEmailTasks "jstr list" | GetSubmittedTestEmailStatus jstr

datatype systemMethod =
    GetOperationalWarnings | GetOperationLogStatus | GetOperationLogs logOptions
  | GetOperationLog jstr | GetOperationLogRetention | SaveOperationLogRetention json
  | GetPublicSystemIdentity | GetSystemIdentity | SaveSystemIdentity "(jstr \<times> part) list"

datatype apiMethod =
    Session sessionMethod | Profile profileMethod | Roles roleMethod | Users userMethod
  | Links linkMethod | Mail mailMethod | System systemMethod

text \<open>The query strings, parameter by parameter in the order of the code.\<close>

definition limitParam :: "int option \<Rightarrow> params \<Rightarrow> params" where
  "limitParam l ps = (case l of None \<Rightarrow> ps | Some n \<Rightarrow> params_set (js ''limit'') (int_str n) ps)"

definition listQuery :: "listOptions \<Rightarrow> params" where
  "listQuery opt =
     (paramIf (js ''direction'') (direction opt) (paramIf (js ''sort'') (sort opt)
       (paramIf (js ''status'') (optStatus opt) (paramIf (js ''roleId'') (roleId opt)
         (paramIf (js ''q'') (q opt) (limitParam (limit opt) (paramIf (js ''cursor'') (cursor opt) [])))))))"

definition taskQuery :: "taskOptions \<Rightarrow> params" where
  "taskQuery opt =
     (let ps = paramIf (js ''recipient'') (recipient opt)
                 (limitParam (tLimit opt) (paramIf (js ''cursor'') (tCursor opt) []));
          ps = (if truthy (kind opt) then params_set (js ''kind'') (the (kind opt)) ps
                else paramIf (js ''purpose'') (purpose opt) ps);
          ps = paramIf (js ''to'') (tTo opt) (paramIf (js ''from'') (tFrom opt) (paramIf (js ''status'') (tStatus opt) ps))
      in if failedOnly opt then params_set (js ''failedOnly'') (js ''true'') ps else ps)"

definition logQuery :: "logOptions \<Rightarrow> params" where
  "logQuery opt =
     (paramIf (js ''result'') (result opt) (paramIf (js ''objectId'') (objectId opt)
       (paramIf (js ''objectType'') (objectType opt) (paramIf (js ''action'') (action opt)
         (paramIf (js ''actorId'') (actorId opt) (paramIf (js ''to'') (lTo opt) (paramIf (js ''from'') (lFrom opt)
           (limitParam (lLimit opt) (paramIf (js ''cursor'') (lCursor opt) [])))))))))"

definition object :: "(string \<times> json) list \<Rightarrow> body option" where
  "object fs = Some (Json (JObj (map (\<lambda>(k, v). (js k, v)) fs)))"

definition strings :: "jstr list \<Rightarrow> json" where
  "strings ss = JArr (map JStr ss)"

text \<open>\<open>createApiClient\<close>: the request of each method and what it returns.\<close>

text \<open>Calls for the users online, the session and the setup.\<close>

primrec sessionCall :: "zod \<Rightarrow> sessionMethod \<Rightarrow> call" where
  "sessionCall z GetOnlineUsers =
     request z (js ''/api/online-users'') (Schema onlineUsersResponseSchema) GET None 200"
| "sessionCall z (KickUser i) =
     withId i (\<lambda>e. void (request z (js ''/api/online-users/'' @ e @ js ''/kick'') Identity POST None 204))"
| "sessionCall z CheckSession =
     void (request z (js ''/api/auth/session-status'') (Schema sessionStatusSchema) GET None 200)"
| "sessionCall z GetSetupStatus =
     request z (js ''/api/setup/status'') (Schema setupStatusSchema) GET None 200"
| "sessionCall z (Setup input) =
     parsed z setupInputSchema input (\<lambda>b. void (request z (js ''/api/setup'') (Schema setupResponseSchema) POST b 201))"
| "sessionCall z (Login input) =
     parsed z loginInputSchema input (\<lambda>b. andThen (request z (js ''/api/auth/login'') (Schema authEnvelopeSchema) POST b 200) principalUser)"
| "sessionCall z Me =
     andThen (request z (js ''/api/auth/me'') (Schema authEnvelopeSchema) GET None 200) principalUser"

text \<open>Calls for the signed-in user's own profile.\<close>

primrec profileCall :: "zod \<Rightarrow> profileMethod \<Rightarrow> call" where
  "profileCall z GetPersonalProfile =
     request z (js ''/api/auth/me/profile'') (Schema personalProfileResponseSchema) GET None 200"
| "profileCall z (UpdatePersonalName name) =
     andThen (request z (js ''/api/auth/me/profile'') (Schema userEnvelopeSchema) PUT (object [(''name'', JStr name)]) 200) (memberOf (js ''user''))"
| "profileCall z (UpdatePersonalLocale locale) =
     andThen (request z (js ''/api/auth/me/preferences'') (Schema userEnvelopeSchema) PUT (object [(''locale'', JStr locale)]) 200) (memberOf (js ''user''))"
| "profileCall z (SavePersonalAvatar file) =
     andThen (request z (js ''/api/auth/me/avatar'') (Schema userEnvelopeSchema) PUT (Some (Form [(js ''avatar'', FilePart file (js ''avatar.png''))])) 200) (memberOf (js ''user''))"
| "profileCall z RemovePersonalAvatar =
     andThen (request z (js ''/api/auth/me/avatar'') (Schema userEnvelopeSchema) DELETE None 200) (memberOf (js ''user''))"
| "profileCall z (ChangePersonalPassword input) =
     parsed z personalPasswordInputSchema input (\<lambda>b. void (request z (js ''/api/auth/me/password'') Identity PUT b 204))"
| "profileCall z (RequestPersonalEmailChange input) =
     parsed z personalEmailChangeInputSchema input (\<lambda>b. andThen (request z (js ''/api/auth/me/email-change'') (Schema emailChangeResponseSchema) POST b 202) (memberOf (js ''emailChange'')))"
| "profileCall z GetPersonalEmailChange =
     andThen (request z (js ''/api/auth/me/email-change'') (Schema personalEmailChangeStatusSchema) GET None 200) (memberOf (js ''emailChange''))"
| "profileCall z ResendPersonalEmailChange =
     andThen (request z (js ''/api/auth/me/email-change/resend'') (Schema emailChangeResponseSchema) POST None 202) (memberOf (js ''emailChange''))"
| "profileCall z (VerifyPersonalEmailChange input) =
     parsed z personalEmailVerifyInputSchema input (\<lambda>b. void (request z (js ''/api/auth/me/email-change/verify'') Identity POST b 204))"

text \<open>Calls for roles.\<close>

primrec roleCall :: "zod \<Rightarrow> roleMethod \<Rightarrow> call" where
  "roleCall z GetRoles =
     request z (js ''/api/roles'') (Schema rolesResponseSchema) GET None 200"
| "roleCall z GetRoleOptions =
     request z (js ''/api/access/role-options'') (Schema roleOptionsResponseSchema) GET None 200"
| "roleCall z (GetRole i) =
     withId i (\<lambda>e. andThen (request z (js ''/api/roles/'' @ e) (Schema roleResponseSchema) GET None 200) (memberOf (js ''role'')))"
| "roleCall z (CreateRole input) =
     parsed z roleMutationInputSchema input (\<lambda>b. andThen (request z (js ''/api/roles'') (Schema roleResponseSchema) POST b 201) (memberOf (js ''role'')))"
| "roleCall z (ReplaceRole i input) =
     withId i (\<lambda>e. parsed z roleMutationInputSchema input (\<lambda>b. andThen (request z (js ''/api/roles/'' @ e) (Schema roleResponseSchema) PUT b 200) (memberOf (js ''role''))))"
| "roleCall z (DeleteRole i) =
     withId i (\<lambda>e. void (request z (js ''/api/roles/'' @ e) Identity DELETE None 204))"

text \<open>Calls for users and invitations.\<close>

primrec userCall :: "zod \<Rightarrow> userMethod \<Rightarrow> call" where
  "userCall z (GetUsers opt) =
     request z (withQuery (js ''/api/users'') (listQuery opt)) (Schema usersResponseSchema) GET None 200"
| "userCall z (ReplaceUserRoles i input) =
     withId i (\<lambda>e. parsed z assignmentInputSchema input (\<lambda>b. request z (js ''/api/users/'' @ e @ js ''/roles'') (Schema userRoleResponseSchema) PUT b 200))"
| "userCall z (DeactivateUser i authVersion) =
     withId i (\<lambda>e. void (request z (js ''/api/users/'' @ e @ js ''/deactivate'') Discard POST (object [(''authVersion'', JNum (of_int authVersion))]) 200))"
| "userCall z (ReactivateUser i authVersion) =
     withId i (\<lambda>e. void (request z (js ''/api/users/'' @ e @ js ''/reactivate'') Discard POST (object [(''authVersion'', JNum (of_int authVersion))]) 200))"
| "userCall z (DeleteUser i authVersion) =
     withId i (\<lambda>e. void (request z (js ''/api/users/'' @ e) Discard DELETE (object [(''authVersion'', JNum (of_int authVersion))]) 204))"
| "userCall z (GetInvitations opt) =
     request z (withQuery (js ''/api/user-invitations'') (listQuery opt)) (Schema invitationsResponseSchema) GET None 200"
| "userCall z (CreateInvitation input) =
     parsed z invitationInputSchema input (\<lambda>b. request z (js ''/api/user-invitations'') (Schema invitationResponseSchema) POST b 201)"
| "userCall z (ResendInvitation i) =
     withId i (\<lambda>e. request z (js ''/api/user-invitations/'' @ e @ js ''/resend'') (Schema invitationResponseSchema) POST None 202)"
| "userCall z (RevokeInvitation i) =
     withId i (\<lambda>e. void (request z (js ''/api/user-invitations/'' @ e) Identity DELETE None 204))"

text \<open>Calls for the credential links and the end of a session.\<close>

primrec linkCall :: "zod \<Rightarrow> linkMethod \<Rightarrow> call" where
  "linkCall z (AcceptInvitation input) =
     parsed z invitationAcceptanceInputSchema input (\<lambda>b. void (request z (js ''/api/auth/invitations/accept'') Identity POST b 204))"
| "linkCall z Logout =
     void (request z (js ''/api/auth/logout'') Identity POST None 204)"
| "linkCall z (RequestPasswordReset input) =
     parsed z passwordResetRequestInputSchema input (\<lambda>b. void (request z (js ''/api/auth/password-reset/request'') (Schema passwordResetAcceptedSchema) POST b 202))"
| "linkCall z (CompletePasswordReset input) =
     parsed z passwordResetCompleteInputSchema input (\<lambda>b. void (request z (js ''/api/auth/password-reset/complete'') Identity POST b 204))"

text \<open>Calls for the mail settings and mail tasks.\<close>

primrec mailCall :: "zod \<Rightarrow> mailMethod \<Rightarrow> call" where
  "mailCall z GetEmailSettings =
     andThen (request z (js ''/api/settings/email'') (Schema emailSettingsResponseSchema) GET None 200) (memberOf (js ''email''))"
| "mailCall z (SaveEmailSettings input) =
     andThen (request z (js ''/api/settings/email'') (Schema emailSettingsResponseSchema) PUT (Some (Json input)) 200) (memberOf (js ''email''))"
| "mailCall z (TestEmailSettings input) =
     request z (js ''/api/settings/email/test'') (Schema submittedEmailTaskResponseSchema) POST (Some (Json input)) 202"
| "mailCall z (GetEmailTasks topt) =
     request z (withQuery (js ''/api/mail-tasks'') (taskQuery topt)) (Schema emailTasksResponseSchema) GET None 200"
| "mailCall z (GetEmailTask i) =
     withId i (\<lambda>e. andThen (request z (js ''/api/mail-tasks/'' @ e) (Schema emailTaskResponseSchema) GET None 200) (memberOf (js ''task'')))"
| "mailCall z (RetryEmailTask i) =
     withId i (\<lambda>e. andThen (request z (js ''/api/mail-tasks/'' @ e @ js ''/retry'') (Schema emailTaskResponseSchema) POST None 200) (memberOf (js ''task'')))"
| "mailCall z (DeleteEmailTask i) =
     withId i (\<lambda>e. void (request z (js ''/api/mail-tasks/'' @ e) Identity DELETE None 204))"
| "mailCall z (RetryEmailTasks ids) =
     request z (js ''/api/mail-tasks/bulk-retry'') (Schema emailTaskBulkResponseSchema) POST (object [(''ids'', strings ids)]) 200"
| "mailCall z (DeleteEmailTasks ids) =
     request z (js ''/api/mail-tasks/bulk-delete'') (Schema emailTaskBulkResponseSchema) POST (object [(''ids'', strings ids)]) 200"
| "mailCall z (GetSubmittedTestEmailStatus i) =
     withId i (\<lambda>e. andThen (request z (js ''/api/settings/email/test/'' @ e) (Schema emailTaskResponseSchema) GET None 200) (memberOf (js ''task'')))"

text \<open>Calls for warnings, the operation log and the system identity.\<close>

primrec systemCall :: "zod \<Rightarrow> systemMethod \<Rightarrow> call" where
  "systemCall z GetOperationalWarnings =
     request z (js ''/api/operational-warnings'') (Schema operationalWarningsSchema) GET None 200"
| "systemCall z GetOperationLogStatus =
     request z (js ''/api/operation-logs/status'') (Schema operationLogStatusSchema) GET None 200"
| "systemCall z (GetOperationLogs lopt) =
     request z (withQuery (js ''/api/operation-logs'') (logQuery lopt)) (Schema operationLogsResponseSchema) GET None 200"
| "systemCall z (GetOperationLog i) =
     withId i (\<lambda>e. andThen (request z (js ''/api/operation-logs/'' @ e) (Schema operationLogResponseSchema) GET None 200) (memberOf (js ''log'')))"
| "systemCall z GetOperationLogRetention =
     request z (js ''/api/settings/operation-log'') (Schema operationLogRetentionSchema) GET None 200"
| "systemCall z (SaveOperationLogRetention input) =
     request z (js ''/api/settings/operation-log'') (Schema operationLogRetentionSchema) PUT (Some (Json input)) 200"
| "systemCall z GetPublicSystemIdentity =
     request z (js ''/api/public/system-identity'') (Schema systemIdentityResponseSchema) GET None 200"
| "systemCall z GetSystemIdentity =
     request z (js ''/api/settings/system-identity'') (Schema systemIdentityResponseSchema) GET None 200"
| "systemCall z (SaveSystemIdentity form) =
     request z (js ''/api/settings/system-identity'') (Schema systemIdentityResponseSchema) PUT (Some (Form form)) 200"

primrec createApiClient :: "zod \<Rightarrow> apiMethod \<Rightarrow> call" where
  "createApiClient z (Session m) = sessionCall z m"
| "createApiClient z (Profile m) = profileCall z m"
| "createApiClient z (Roles m) = roleCall z m"
| "createApiClient z (Users m) = userCall z m"
| "createApiClient z (Links m) = linkCall z m"
| "createApiClient z (Mail m) = mailCall z m"
| "createApiClient z (System m) = systemCall z m"

end
