(* ===== verification/ApiContract.thy ===== *)
theory ApiContract
  imports ApiClient
begin

text \<open>
  What the client of \<open>shared/api/client.ts\<close> promises its callers. A call is \<open>sound\<close> when the request
  it sends is well formed and its continuation reports what really happened; every group of methods
  is shown to consist of sound calls, as an instance of the contract \<open>endpoint_group\<close>.
\<close>

subsection \<open>Sound calls\<close>

definition wellFormed :: "httpRequest \<Rightarrow> bool" where
  "wellFormed rq \<longleftrightarrow> prefix (js ''/api/'') (url rq)
     \<and> (reqMethod rq = GET \<longrightarrow> reqBody rq = None)
     \<and> ((js ''Content-Type'', js ''application/json'') \<in> set (headers rq) \<longleftrightarrow> (\<exists>v. reqBody rq = Some (Json v)))"

text \<open>
  A continuation is honest when a rejected fetch is a transport error with the abort flag it had, a
  problem error is a problem document of an unsuccessful response with that very status, and a value
  comes from a successful response.
\<close>

definition isProblemResponse :: "zod \<Rightarrow> response \<Rightarrow> ProblemDetails \<Rightarrow> bool" where
  "isProblemResponse z r p \<longleftrightarrow> \<not> ok r \<and> mediaType (contentType r) = Some (js ''application/problem+json'')
     \<and> int (rstatus r) = status p
     \<and> (\<exists>b d. jsonBody r = Some b \<and> z problemDetailsSchema b = Some d \<and> p = problemOf d)"

definition honest :: "zod \<Rightarrow> (outcome \<Rightarrow> thrown + json option) \<Rightarrow> bool" where
  "honest z k \<longleftrightarrow> (\<forall>out. case k out of
       Inl (ApiTransportError _ aborted) \<Rightarrow> out = FetchRejected aborted
     | Inl (ApiProblemError p) \<Rightarrow> (\<exists>r. out = Response r \<and> isProblemResponse z r p)
     | Inl _ \<Rightarrow> (\<exists>r. out = Response r)
     | Inr v \<Rightarrow> (\<exists>r. out = Response r \<and> ok r))"

fun sound :: "zod \<Rightarrow> call \<Rightarrow> bool" where
  "sound z (Throws e) \<longleftrightarrow> e = OtherError"
| "sound z (Sends rq k) \<longleftrightarrow> wellFormed rq \<and> honest z k"

lemma receive_honest: "honest z (receive z s e)"
  unfolding honest_def
proof
  fix out
  show "case receive z s e out of
       Inl (ApiTransportError _ aborted) \<Rightarrow> out = FetchRejected aborted
     | Inl (ApiProblemError p) \<Rightarrow> (\<exists>r. out = Response r \<and> isProblemResponse z r p)
     | Inl _ \<Rightarrow> (\<exists>r. out = Response r)
     | Inr v \<Rightarrow> (\<exists>r. out = Response r \<and> ok r)"
    by (cases out)
      (simp_all add: receive_def isProblemResponse_def split: option.split if_split)
qed

lemma headers_json: "(js ''Content-Type'', v) \<notin> set JSON_HEADERS"
  by (simp add: JSON_HEADERS_def)

lemma sound_request:
  "\<lbrakk>prefix (js ''/api/'') path; m = GET \<longrightarrow> b = None\<rbrakk> \<Longrightarrow> sound z (request z path s m b e)"
  using headers_json by (cases b; cases "the b") (auto simp: request_def wellFormed_def receive_honest)

text \<open>Consuming the value afterwards keeps a call sound, as long as that raises no error of the client's own.\<close>

definition plainErrors :: "(json option \<Rightarrow> thrown + json option) \<Rightarrow> bool" where
  "plainErrors f \<longleftrightarrow> (\<forall>v. case f v of Inl e \<Rightarrow> e = OtherError | Inr _ \<Rightarrow> True)"

lemma sound_andThen: "\<lbrakk>sound z c; plainErrors f\<rbrakk> \<Longrightarrow> sound z (andThen c f)"
proof (cases c)
  case (Sends rq k)
  assume "sound z c" and f: "plainErrors f"
  then have w: "wellFormed rq" and h: "honest z k" using Sends by simp_all
  have "honest z (\<lambda>out. case k out of Inl e \<Rightarrow> Inl e | Inr v \<Rightarrow> f v)"
    unfolding honest_def
  proof
    fix out
    show "case (case k out of Inl e \<Rightarrow> Inl e | Inr v \<Rightarrow> f v) of
       Inl (ApiTransportError _ aborted) \<Rightarrow> out = FetchRejected aborted
     | Inl (ApiProblemError p) \<Rightarrow> (\<exists>r. out = Response r \<and> isProblemResponse z r p)
     | Inl _ \<Rightarrow> (\<exists>r. out = Response r)
     | Inr v \<Rightarrow> (\<exists>r. out = Response r \<and> ok r)"
    proof (cases "k out")
      case (Inl e)
      then show ?thesis using h [unfolded honest_def, rule_format, of out] by simp
    next
      case (Inr v)
      then have "\<exists>r. out = Response r \<and> ok r" using h [unfolded honest_def, rule_format, of out] by simp
      moreover have "case f v of Inl e \<Rightarrow> e = OtherError | Inr _ \<Rightarrow> True"
        using f unfolding plainErrors_def by (rule spec)
      ultimately show ?thesis using Inr by (cases "f v") auto
    qed
  qed
  with w Sends show ?thesis by simp
qed simp

lemma plainErrors_void: "plainErrors (\<lambda>_. Inr v)"
  by (simp add: plainErrors_def)

lemma plainErrors_member: "plainErrors (memberOf k)"
  unfolding plainErrors_def
proof
  fix v show "case memberOf k v of Inl e \<Rightarrow> e = OtherError | Inr _ \<Rightarrow> True"
    by (cases "(k, v)" rule: memberOf.cases) auto
qed

lemma plainErrors_principal: "plainErrors principalUser"
  by (auto simp: plainErrors_def principalUser_def split: option.splits json.splits)

lemma sound_void: "sound z c \<Longrightarrow> sound z (void c)"
  by (simp add: void_def sound_andThen plainErrors_void)

lemma sound_parsed: "(\<And>b. sound z (k (Some (Json b)))) \<Longrightarrow> sound z (parsed z s input k)"
  by (simp add: parsed_def split: option.split)

lemma sound_withId: "(\<And>e. sound z (k e)) \<Longrightarrow> sound z (withId i k)"
  by (simp add: withId_def split: option.split)

lemma prefix_js [simp]: "prefix (js s) (js t) \<longleftrightarrow> prefix s t"
proof
  assume "prefix (js s) (js t)"
  then obtain u where "js t = js s @ u" by (auto simp: prefix_def)
  then have "map of_char (take (length s) t) = map (of_char :: char \<Rightarrow> nat) s"
    by (metis append_eq_conv_conj js_def length_js take_map)
  then have "take (length s) t = s" by (metis js_def js_eq_iff)
  then show "prefix s t" by (metis take_is_prefix)
qed (auto simp: prefix_def js_append)

lemma prefix_withQuery: "prefix p path \<Longrightarrow> prefix p (withQuery path ps)"
  by (simp add: withQuery_def prefix_prefix)

lemmas sound_intros = sound_void sound_parsed sound_withId sound_andThen sound_request
  plainErrors_member plainErrors_principal prefix_withQuery prefix_prefix


subsection \<open>The contract of a group of methods\<close>

locale endpoint_group =
  fixes perform :: "zod \<Rightarrow> 'm \<Rightarrow> call"
  assumes sound_call: "sound z (perform z m)"
begin

lemma throws_only_before_sending: "perform z m = Throws e \<Longrightarrow> e = OtherError"
  using sound_call [of z m] by simp

lemma sent_request: "perform z m = Sends rq k \<Longrightarrow> wellFormed rq"
  using sound_call [of z m] by simp

lemma sent_honest: "perform z m = Sends rq k \<Longrightarrow> honest z k"
  using sound_call [of z m] by simp

lemma problem_is_reported:
  "\<lbrakk>perform z m = Sends rq k; k out = Inl (ApiProblemError p)\<rbrakk> \<Longrightarrow>
     \<exists>r. out = Response r \<and> isProblemResponse z r p"
  using sent_honest [of z m rq k, unfolded honest_def, THEN spec, of out] by simp

lemma abort_is_reported:
  "\<lbrakk>perform z m = Sends rq k; k out = Inl (ApiTransportError msg a)\<rbrakk> \<Longrightarrow> out = FetchRejected a"
  using sent_honest [of z m rq k, unfolded honest_def, THEN spec, of out] by simp

end

lemma session_sound: "sound z (sessionCall z m)"
  by (cases m) (simp_all only: sessionCall.simps, (intro sound_intros; simp)+)

lemma profile_sound: "sound z (profileCall z m)"
  by (cases m) (simp_all only: profileCall.simps, (intro sound_intros; simp)+)

lemma role_sound: "sound z (roleCall z m)"
  by (cases m) (simp_all only: roleCall.simps, (intro sound_intros; simp)+)

lemma user_sound: "sound z (userCall z m)"
  by (cases m) (simp_all only: userCall.simps, (intro sound_intros; simp)+)

lemma link_sound: "sound z (linkCall z m)"
  by (cases m) (simp_all only: linkCall.simps, (intro sound_intros; simp)+)

lemma mail_sound: "sound z (mailCall z m)"
  by (cases m) (simp_all only: mailCall.simps, (intro sound_intros; simp)+)

lemma system_sound: "sound z (systemCall z m)"
  by (cases m) (simp_all only: systemCall.simps, (intro sound_intros; simp)+)


interpretation session: endpoint_group sessionCall
  by unfold_locales (rule session_sound)

interpretation profile: endpoint_group profileCall
  by unfold_locales (rule profile_sound)

interpretation role: endpoint_group roleCall
  by unfold_locales (rule role_sound)

interpretation user: endpoint_group userCall
  by unfold_locales (rule user_sound)

interpretation link: endpoint_group linkCall
  by unfold_locales (rule link_sound)

interpretation mail: endpoint_group mailCall
  by unfold_locales (rule mail_sound)

interpretation system: endpoint_group systemCall
  by unfold_locales (rule system_sound)

interpretation api: endpoint_group createApiClient
  by unfold_locales
    (case_tac m; simp add: session.sound_call profile.sound_call role.sound_call user.sound_call
      link.sound_call mail.sound_call system.sound_call)

subsection \<open>What the client promises\<close>

text \<open>
  C1. No method of the client lies about its outcome, and none reports a failure before anything was
  sent except a refused argument: every request is a same-origin request under \<open>/api/\<close>, a \<open>GET\<close> has
  no body, the JSON content type is set exactly when there is a JSON body; and a problem error always
  is a problem document of an unsuccessful response with that status, so that in particular a
  signed-out or account-disabled error means that the server answered 401.
\<close>

theorem client_calls_sound:
  "case createApiClient z m of
     Throws e \<Rightarrow> e = OtherError
   | Sends rq k \<Rightarrow> wellFormed rq \<and>
       (\<forall>out. case k out of
          Inl (ApiTransportError _ aborted) \<Rightarrow> out = FetchRejected aborted
        | Inl (ApiProblemError p) \<Rightarrow> (\<exists>r. out = Response r \<and> isProblemResponse z r p)
        | Inl _ \<Rightarrow> (\<exists>r. out = Response r)
        | Inr v \<Rightarrow> (\<exists>r. out = Response r \<and> ok r))"
  using api.sound_call [of z m] by (cases "createApiClient z m") (simp_all add: honest_def)

text \<open>
  C3. \<open>request\<close> returns a value exactly when the fetch produced a successful response of the expected
  status that is either empty (204, and the value is undefined) or a JSON document which the schema
  accepts; every other outcome is an error.
\<close>

theorem request_returns:
  "receive z s e out = Inr v \<longleftrightarrow>
     (\<exists>r. out = Response r \<and> ok r \<and> rstatus r = e \<and>
        (if e = 204 then v = None
         else mediaType (contentType r) = Some (js ''application/json'') \<and>
              (\<exists>b. jsonBody r = Some b \<and> parseWith z s b = Some v)))"
  by (cases out) (auto simp: receive_def split: option.split if_split)

text \<open>
  C12. A session ends on the server's word only: what a method rejects with counts as signed out or as
  a disabled account only when the server answered 401 with a problem document, and it counts as a
  cancelled request exactly when the fetch was aborted.
\<close>

theorem session_end_needs_401:
  "case createApiClient z m of
     Throws e \<Rightarrow> \<not> isUnauthenticated e \<and> \<not> isAccountDisabled e \<and> \<not> isRequestCancelled e
   | Sends rq k \<Rightarrow> (\<forall>out. case k out of
        Inr v \<Rightarrow> True
      | Inl e \<Rightarrow> isRequestCancelled e = (out = FetchRejected True) \<and>
          (if isUnauthenticated e \<or> isAccountDisabled e
           then \<exists>r p. out = Response r \<and> rstatus r = 401 \<and> isProblemResponse z r p else True))"
proof (cases "createApiClient z m")
  case (Throws e)
  then show ?thesis using api.throws_only_before_sending by fastforce
next
  case (Sends rq k)
  have "case k out of
        Inr v \<Rightarrow> True
      | Inl e \<Rightarrow> isRequestCancelled e = (out = FetchRejected True) \<and>
          (if isUnauthenticated e \<or> isAccountDisabled e
           then \<exists>r p. out = Response r \<and> rstatus r = 401 \<and> isProblemResponse z r p else True)" for out
  proof (cases "k out")
    case (Inl e)
    show ?thesis
    proof (cases e)
      case (ApiProblemError p)
      then obtain r where r: "out = Response r" "isProblemResponse z r p"
        using api.problem_is_reported [OF Sends] Inl by blast
      then have "rstatus r = 401" if "status p = 401" using that by (simp add: isProblemResponse_def)
      with r show ?thesis using Inl ApiProblemError by auto
    next
      case (ApiTransportError msg a)
      then have "out = FetchRejected a" using api.abort_is_reported [OF Sends] Inl by blast
      then show ?thesis using Inl ApiTransportError by simp
    qed (use Inl api.sent_honest [OF Sends, unfolded honest_def, THEN spec, of out] in auto)
  qed simp
  then show ?thesis using Sends by simp
qed

subsection \<open>Identifiers and queries in the URL\<close>

definition pathSegments :: "jstr \<Rightarrow> jstr list" where
  "pathSegments u = splitOn 0x2F (takeWhile (\<lambda>c. c \<noteq> 0x3F) u)"

lemma splitOn_append2:
  "c \<notin> set e \<Longrightarrow> splitOn c (p @ e @ r) =
     butlast (splitOn c p) @ [last (splitOn c p) @ e @ hd (splitOn c r)] @ tl (splitOn c r)"
proof (induction p)
  case Nil
  then show ?case
  proof (induction e)
    case Nil
    then show ?case by simp
  next
    case (Cons x e)
    then show ?case by (cases "splitOn c r") simp_all
  qed
next
  case (Cons x p)
  then show ?case by (cases "splitOn c p") auto
qed

definition delimiterFree :: "jstr \<Rightarrow> bool" where
  "delimiterFree e \<longleftrightarrow> 0x2F \<notin> set e \<and> 0x3F \<notin> set e \<and> 0x23 \<notin> set e"

lemma encoded_delimiterFree:
  "\<lbrakk>encodeURIComponent i = Some e; \<forall>c\<in>set i. c < 0x10000\<rbrakk> \<Longrightarrow> delimiterFree e"
  using encodeURIComponent_safe [of i e] uri_unreserved_plain unfolding delimiterFree_def by blast

lemma mem_js: "of_char c \<in> set (js s) \<longleftrightarrow> c \<in> set s"
  by (auto simp: js_def of_char_eq_iff [where 'a = nat])

lemma mem_js_question: "0x3F \<in> set (js s) \<longleftrightarrow> CHR 0x3F \<in> set s"
  using mem_js [of "CHR 0x3F" s] by simp

lemma of_char_0x2F: "of_char (CHR 0x2F) = (0x2F :: nat)"
  by simp

lemma splitOn_snoc_sep: "splitOn c (s @ [c]) = splitOn c s @ [[]]"
proof (induction s)
  case (Cons x s)
  then show ?case by (cases "splitOn c s") auto
qed simp

lemma pathSegments_id:
  assumes "delimiterFree e" "CHR 0x3F \<notin> set pre" "CHR 0x3F \<notin> set post" "pre \<noteq> []" "last pre = CHR 0x2F"
    "post = [] \<or> hd post = CHR 0x2F"
  shows "pathSegments (js pre @ e @ js post) =
    butlast (splitOn 0x2F (js pre)) @ e # tl (splitOn 0x2F (js post))"
proof -
  have "last (splitOn 0x2F (js pre)) = []"
  proof -
    have "js pre = js (butlast pre) @ [0x2F]"
      using assms(4,5) by (metis append_butlast_last_id js_append js_Cons js_Nil of_char_0x2F)
    then show ?thesis by (simp add: splitOn_snoc_sep)
  qed
  moreover have "hd (splitOn 0x2F (js post)) = []"
    using assms(6) by (cases post) (auto simp: js_Cons)
  moreover have t: "takeWhile (\<lambda>c. c \<noteq> 0x3F) (js pre @ e @ js post) = js pre @ e @ js post"
    using assms(1-3) by (intro takeWhile_eq_all_conv [THEN iffD2]) (auto simp: delimiterFree_def mem_js_question)
  ultimately show ?thesis
    using assms(1) unfolding pathSegments_def t by (simp add: delimiterFree_def splitOn_append2)
qed

text \<open>The methods that take an identifier, with their other arguments.\<close>

definition idMethods :: "json \<Rightarrow> int \<Rightarrow> (jstr \<Rightarrow> apiMethod) list" where
  "idMethods input v =
     [\<lambda>i. Session (KickUser i), \<lambda>i. Roles (GetRole i), \<lambda>i. Roles (ReplaceRole i input), \<lambda>i. Roles (DeleteRole i),
      \<lambda>i. Users (ReplaceUserRoles i input), \<lambda>i. Users (DeactivateUser i v), \<lambda>i. Users (ReactivateUser i v),
      \<lambda>i. Users (DeleteUser i v), \<lambda>i. Users (ResendInvitation i), \<lambda>i. Users (RevokeInvitation i),
      \<lambda>i. Mail (GetEmailTask i), \<lambda>i. Mail (RetryEmailTask i), \<lambda>i. Mail (DeleteEmailTask i),
      \<lambda>i. Mail (GetSubmittedTestEmailStatus i), \<lambda>i. System (GetOperationLog i)]"

definition sentPath :: "call \<Rightarrow> jstr list option" where
  "sentPath c = (case c of Throws e \<Rightarrow> None | Sends rq k \<Rightarrow> Some (pathSegments (url rq)))"

lemma sentPath_simps [simp]:
  "sentPath (request z p s m b e) = Some (pathSegments p)" "sentPath (andThen c f) = sentPath c"
  "sentPath (void c) = sentPath c"
  by (cases c; simp add: sentPath_def request_def void_def)+

text \<open>An identifier is one segment between fixed ones, or the call throws.\<close>

definition idSegment :: "(jstr \<Rightarrow> call) \<Rightarrow> bool" where
  "idSegment f \<longleftrightarrow> (\<exists>pre post. \<forall>i. if \<exists>c\<in>set i. 0x10000 \<le> c then True
     else (case sentPath (f i) of None \<Rightarrow> True
       | Some segs \<Rightarrow> map_option (\<lambda>e. pre @ e # post) (encodeURIComponent i) = Some segs))"

definition routes :: "(jstr \<Rightarrow> call) \<Rightarrow> string \<Rightarrow> string \<Rightarrow> bool" where
  "routes k pre post \<longleftrightarrow>
     (\<forall>e. sentPath (k e) = None \<or> sentPath (k e) = Some (pathSegments (js pre @ e @ js post)))"

lemma routes_request:
  "routes (\<lambda>e. request z (js pre @ e @ js post) s m b n) pre post"
  "routes (\<lambda>e. request z (js pre @ e) s m b n) pre []"
  by (simp_all add: routes_def)

lemma routes_then: "routes k pre post \<Longrightarrow> routes (\<lambda>e. andThen (k e) f) pre post"
  by (simp add: routes_def)

lemma routes_void: "routes k pre post \<Longrightarrow> routes (\<lambda>e. void (k e)) pre post"
  by (simp add: routes_def)

lemma routes_parsed:
  "(\<And>b. routes (\<lambda>e. k e b) pre post) \<Longrightarrow> routes (\<lambda>e. parsed z s input (k e)) pre post"
  by (auto simp: routes_def parsed_def sentPath_def split: option.split)

lemma idSegment_request:
  assumes "routes k pre post"
    and "CHR 0x3F \<notin> set pre" "CHR 0x3F \<notin> set post" "pre \<noteq> []" "last pre = CHR 0x2F" "post = [] \<or> hd post = CHR 0x2F"
  shows "idSegment (\<lambda>i. withId i k)"
  unfolding idSegment_def
proof (intro exI allI)
  fix i
  show "if \<exists>c\<in>set i. 0x10000 \<le> c then True
     else (case sentPath (withId i k) of None \<Rightarrow> True
       | Some segs \<Rightarrow> map_option (\<lambda>e. butlast (splitOn 0x2F (js pre)) @ e # tl (splitOn 0x2F (js post)))
           (encodeURIComponent i) = Some segs)"
  proof (cases "(\<exists>c\<in>set i. 0x10000 \<le> c) \<or> encodeURIComponent i = None")
    case False
    then obtain e where e: "encodeURIComponent i = Some e" "\<forall>c\<in>set i. c < 0x10000" by fastforce
    then have "sentPath (withId i k) = sentPath (k e)" by (simp add: withId_def)
    with assms(1) [unfolded routes_def, THEN spec, of e] pathSegments_id [OF encoded_delimiterFree [OF e] assms(2-6)] e(1)
    show ?thesis by auto
  qed (auto simp: withId_def sentPath_def)
qed


subsection \<open>Queries\<close>

lemma params_set_fresh: "k \<notin> fst ` set ps \<Longrightarrow> params_set k v ps = ps @ [(k, v)]"
  by (induction ps) auto

definition optional :: "string \<Rightarrow> jstr option \<Rightarrow> params" where
  "optional k v = (if truthy v then [(js k, the v)] else [])"

lemma paramIf_fresh: "js k \<notin> fst ` set ps \<Longrightarrow> paramIf (js k) v ps = ps @ optional k v"
  by (simp add: paramIf_def optional_def params_set_fresh)

lemma limitParam_fresh:
  "js ''limit'' \<notin> fst ` set ps \<Longrightarrow> limitParam l ps = ps @ optional ''limit'' (map_option int_str l)"
  by (cases l) (simp_all add: limitParam_def optional_def params_set_fresh int_str_def)

lemma optional_mem [simp]: "js k \<in> fst ` set (optional l v) \<longleftrightarrow> k = l \<and> truthy v"
  by (auto simp: optional_def)

lemmas query_append = paramIf_fresh limitParam_fresh image_Un

text \<open>The filters a caller sets, in the order of the query.\<close>

definition listFilters :: "listOptions \<Rightarrow> params" where
  "listFilters opt = optional ''cursor'' (cursor opt) @ optional ''limit'' (map_option int_str (limit opt))
     @ optional ''q'' (q opt) @ optional ''roleId'' (roleId opt) @ optional ''status'' (optStatus opt)
     @ optional ''sort'' (sort opt) @ optional ''direction'' (direction opt)"

lemma listQuery_filters: "listQuery opt = listFilters opt"
  unfolding listQuery_def listFilters_def by (simp add: query_append)


definition taskFilters :: "taskOptions \<Rightarrow> params" where
  "taskFilters opt = optional ''cursor'' (tCursor opt) @ optional ''limit'' (map_option int_str (tLimit opt))
     @ optional ''recipient'' (recipient opt) @ optional ''kind'' (kind opt)
     @ (if truthy (kind opt) then [] else optional ''purpose'' (purpose opt))
     @ optional ''status'' (tStatus opt) @ optional ''from'' (tFrom opt) @ optional ''to'' (tTo opt)
     @ (if failedOnly opt then [(js ''failedOnly'', js ''true'')] else [])"

definition logFilters :: "logOptions \<Rightarrow> params" where
  "logFilters opt = optional ''cursor'' (lCursor opt) @ optional ''limit'' (map_option int_str (lLimit opt))
     @ optional ''from'' (lFrom opt) @ optional ''to'' (lTo opt) @ optional ''actorId'' (actorId opt)
     @ optional ''action'' (action opt) @ optional ''objectType'' (objectType opt)
     @ optional ''objectId'' (objectId opt) @ optional ''result'' (result opt)"

lemma logQuery_filters: "logQuery opt = logFilters opt"
  unfolding logQuery_def logFilters_def by (simp add: query_append)

lemma taskQuery_filters: "taskQuery opt = taskFilters opt"
proof (cases "truthy (kind opt)")
  case True
  then show ?thesis
    by (simp add: taskQuery_def taskFilters_def query_append params_set_fresh optional_def [of "''kind''"] Let_def)
next
  case False
  then show ?thesis
    by (simp add: taskQuery_def taskFilters_def query_append params_set_fresh optional_def [of "''kind''"] Let_def)
qed

text \<open>The query the server reads from a URL.\<close>

definition queryOf :: "jstr \<Rightarrow> params" where
  "queryOf u = parse_params (drop 1 (dropWhile (\<lambda>c. c \<noteq> 0x3F) u))"

lemma queryOf_withQuery:
  assumes "CHR 0x3F \<notin> set path" "unicode_params ps"
  shows "queryOf (withQuery (js path) ps) = ps"
proof -
  have "\<forall>c\<in>set (js path). c \<noteq> 0x3F" using assms(1) by (metis mem_js_question)
  then have "dropWhile (\<lambda>c. c \<noteq> 0x3F) (js path) = []"
    "dropWhile (\<lambda>c. c \<noteq> 0x3F) (js path @ 0x3F # params_str ps) = 0x3F # params_str ps"
    by (simp_all add: dropWhile_append2)
  moreover have "parse_params [] = []" by (simp add: parse_params_def usv_def utf8_encode_def)
  ultimately show ?thesis
    using params_roundtrip [OF assms(2)] by (simp add: queryOf_def withQuery_def)
qed

definition sentQuery :: "call \<Rightarrow> params option" where
  "sentQuery c = (case c of Throws e \<Rightarrow> None | Sends rq k \<Rightarrow> Some (queryOf (url rq)))"

text \<open>
  C31. The filters a caller gives are the filters the server reads: parsing the query of the request
  of each of the four listing methods gives exactly the options that are set, each once, in order;
  an empty or absent option leaves no trace, and a kind hides the legacy purpose.
\<close>

theorem listing_queries_exact:
  assumes "unicode_params (listFilters opt)" "unicode_params (taskFilters topt)" "unicode_params (logFilters lopt)"
  shows "sentQuery (createApiClient z (Users (GetUsers opt))) = Some (listFilters opt)
    \<and> sentQuery (createApiClient z (Users (GetInvitations opt))) = Some (listFilters opt)
    \<and> sentQuery (createApiClient z (Mail (GetEmailTasks topt))) = Some (taskFilters topt)
    \<and> sentQuery (createApiClient z (System (GetOperationLogs lopt))) = Some (logFilters lopt)"
  using assms
  by (simp add: sentQuery_def request_def queryOf_withQuery listQuery_filters taskQuery_filters logQuery_filters)

definition exampleList :: listOptions where
  "exampleList = \<lparr>cursor = None, limit = Some 20, q = Some [0x4E2D, 0x26, 0x3D, 0x20], roleId = Some [], optStatus = None,
     sort = Some (js ''name''), direction = None\<rparr>"

definition exampleTasks :: taskOptions where
  "exampleTasks = \<lparr>tCursor = None, tLimit = None, recipient = None, kind = Some (js ''test_email''),
     purpose = Some (js ''x''), tStatus = None, tFrom = None, tTo = None, failedOnly = True\<rparr>"

definition exampleLogs :: logOptions where
  "exampleLogs = \<lparr>lCursor = None, lLimit = None, lFrom = None, lTo = None, actorId = None,
     action = Some (js ''login''), objectType = None, objectId = None, result = None\<rparr>"

lemma unicode_examples:
  "unicode_params (listFilters exampleList)" "unicode_params (taskFilters exampleTasks)"
  "unicode_params (logFilters exampleLogs)"
  by (simp_all add: unicode_params_def listFilters_def taskFilters_def logFilters_def exampleList_def
      exampleTasks_def exampleLogs_def optional_def unicode_def js_eval int_str_def well_formed_def
      high_surrogate_def low_surrogate_def)

definition anyParse :: zod where
  "anyParse s v = Some v"

theorem listing_queries_exact_witness:
  "sentQuery (createApiClient anyParse (Users (GetUsers exampleList))) =
     Some [(js ''limit'', js ''20''), (js ''q'', [0x4E2D, 0x26, 0x3D, 0x20]), (js ''sort'', js ''name'')]
   \<and> sentQuery (createApiClient anyParse (Mail (GetEmailTasks exampleTasks))) =
     Some [(js ''kind'', js ''test_email''), (js ''failedOnly'', js ''true'')]
   \<and> sentQuery (createApiClient anyParse (System (GetOperationLogs exampleLogs))) = Some [(js ''action'', js ''login'')]"
  using listing_queries_exact [OF unicode_examples, of anyParse]
  by (simp add: listFilters_def taskFilters_def logFilters_def exampleList_def exampleTasks_def exampleLogs_def
      optional_def js_eval int_str_def)

end
