(* ===== verification/AuthSchemas.thy ===== *)
theory AuthSchemas
  imports JsRegex
begin

text \<open>
  \<open>features/auth/schemas.ts\<close>: the validators of the credential forms and the normalizers applied
  before a form is sent. An issue is the path of a field and a code. Unicode normalization
  (\<open>normalize('NFC')\<close>) needs the Unicode tables and is the argument \<open>nfc\<close> of every definition that
  uses it; \<open>normalizer\<close> states the two laws of the standard that the results rely on.
\<close>

type_synonym issue = "jstr \<times> jstr"

definition normalizeName :: "(jstr \<Rightarrow> jstr) \<Rightarrow> jstr \<Rightarrow> jstr" where
  "normalizeName nfc value = trim (nfc value)"

definition normalizeEmail :: "jstr \<Rightarrow> jstr" where
  "normalizeEmail value = trim value"

definition normalizePassword :: "(jstr \<Rightarrow> jstr) \<Rightarrow> jstr \<Rightarrow> jstr" where
  "normalizePassword nfc value = nfc value"

definition isControlCharacter :: "jstr \<Rightarrow> bool" where
  "isControlCharacter value =
     list_ex (\<lambda>c. c \<le> 31 \<or> 127 \<le> c \<and> c \<le> 159 \<or> c = 0x2028 \<or> c = 0x2029) (codePoints value)"

definition validateName :: "(jstr \<Rightarrow> jstr) \<Rightarrow> jstr \<Rightarrow> issue list" where
  "validateName nfc value =
     (let normalized = normalizeName nfc value in
      if length normalized = 0 \<or> isControlCharacter normalized \<or> length (codePoints normalized) > 100
      then [(js ''name'', js ''invalid_name'')] else [])"

text \<open>\<open>/^[^\s@]+@[^\s@]+$/\<close>\<close>

definition notSpaceAt :: cls where
  "notSpaceAt = NotIn [(9, 13), (32, 32), (0xA0, 0xA0), (0x1680, 0x1680), (0x2000, 0x200A), (0x2028, 0x2029),
     (0x202F, 0x202F), (0x205F, 0x205F), (0x3000, 0x3000), (0xFEFF, 0xFEFF), (0x40, 0x40)]"

definition emailPattern :: rx where
  "emailPattern = rcat [rplus (Unit notSpaceAt), rlit (js ''@''), rplus (Unit notSpaceAt)]"

definition validateEmail :: "jstr \<Rightarrow> issue list" where
  "validateEmail value =
     (let normalized = normalizeEmail value in
      if length normalized = 0 \<or> length normalized > 254 \<or> list_ex (\<lambda>c. c > 127) (codePoints normalized)
         \<or> \<not> rx_test emailPattern normalized \<or> includesStr normalized (js ''..'')
      then [(js ''email'', js ''invalid_email'')] else [])"

definition isPasswordSpecial :: "nat \<Rightarrow> bool" where
  "isPasswordSpecial c \<longleftrightarrow> 0x21 \<le> c \<and> c \<le> 0x2F \<or> 0x3A \<le> c \<and> c \<le> 0x40 \<or> 0x5B \<le> c \<and> c \<le> 0x60
     \<or> 0x7B \<le> c \<and> c \<le> 0x7E"

text \<open>The loop of \<open>validatePassword\<close>: four flags updated character by character.\<close>

fun passwordFlags :: "nat list \<Rightarrow> bool \<times> bool \<times> bool \<times> bool \<Rightarrow> bool \<times> bool \<times> bool \<times> bool" where
  "passwordFlags [] fl = fl"
| "passwordFlags (c # cs) (up, lo, di, sp) =
     passwordFlags cs (up \<or> 0x41 \<le> c \<and> c \<le> 0x5A, lo \<or> 0x61 \<le> c \<and> c \<le> 0x7A, di \<or> 0x30 \<le> c \<and> c \<le> 0x39,
       sp \<or> isPasswordSpecial c)"

definition validatePassword :: "(jstr \<Rightarrow> jstr) \<Rightarrow> jstr \<Rightarrow> issue list" where
  "validatePassword nfc value =
     (let characters = codePoints (normalizePassword nfc value);
          (hasUppercase, hasLowercase, hasDigit, hasSpecial) = passwordFlags characters (False, False, False, False)
      in if length characters < 8 \<or> length characters > 128 \<or> \<not> hasUppercase \<or> \<not> hasLowercase \<or> \<not> hasDigit
            \<or> \<not> hasSpecial
         then [(js ''password'', js ''invalid_password'')] else [])"

definition validateLoginPassword :: "(jstr \<Rightarrow> jstr) \<Rightarrow> jstr \<Rightarrow> issue list" where
  "validateLoginPassword nfc value =
     (let n = length (codePoints (normalizePassword nfc value)) in
      if n = 0 then [(js ''password'', js ''login_password_required'')]
      else if n > 128 then [(js ''password'', js ''login_password_too_long'')]
      else [])"

record SetupFormValues =
  name :: jstr
  email :: jstr
  password :: jstr
  passwordConfirmation :: jstr

record LoginFormValues =
  loginEmail :: jstr
  loginPassword :: jstr

definition setupFormSchema :: "(jstr \<Rightarrow> jstr) \<Rightarrow> SetupFormValues \<Rightarrow> issue list" where
  "setupFormSchema nfc v =
     validateName nfc (name v) @ validateEmail (email v) @ validatePassword nfc (password v) @
     (if normalizePassword nfc (password v) \<noteq> normalizePassword nfc (passwordConfirmation v)
      then [(js ''passwordConfirmation'', js ''password_mismatch'')] else [])"

definition loginFormSchema :: "(jstr \<Rightarrow> jstr) \<Rightarrow> LoginFormValues \<Rightarrow> issue list" where
  "loginFormSchema nfc v = validateEmail (loginEmail v) @ validateLoginPassword nfc (loginPassword v)"

definition personalNameFormSchema :: "(jstr \<Rightarrow> jstr) \<Rightarrow> jstr \<Rightarrow> issue list" where
  "personalNameFormSchema nfc v = validateName nfc v"

definition personalEmailChangeFormSchema :: "jstr \<Rightarrow> issue list" where
  "personalEmailChangeFormSchema v = validateEmail v"

definition passwordResetRequestFormSchema :: "jstr \<Rightarrow> issue list" where
  "passwordResetRequestFormSchema v = validateEmail v"

definition passwordResetFormSchema :: "(jstr \<Rightarrow> jstr) \<Rightarrow> jstr \<Rightarrow> jstr \<Rightarrow> issue list" where
  "passwordResetFormSchema nfc pw confirmation =
     validatePassword nfc pw @
     (if normalizePassword nfc pw \<noteq> normalizePassword nfc confirmation
      then [(js ''passwordConfirmation'', js ''password_mismatch'')] else [])"

definition normalizeSetupValues :: "(jstr \<Rightarrow> jstr) \<Rightarrow> SetupFormValues \<Rightarrow> jstr \<times> jstr \<times> jstr" where
  "normalizeSetupValues nfc v =
     (normalizeName nfc (name v), normalizeEmail (email v), normalizePassword nfc (password v))"

definition normalizeLoginValues :: "(jstr \<Rightarrow> jstr) \<Rightarrow> LoginFormValues \<Rightarrow> LoginFormValues" where
  "normalizeLoginValues nfc v =
     \<lparr>loginEmail = normalizeEmail (loginEmail v), loginPassword = normalizePassword nfc (loginPassword v)\<rparr>"

definition normalizePasswordResetRequestValues :: "jstr \<Rightarrow> jstr" where
  "normalizePasswordResetRequestValues v = normalizeEmail v"

definition normalizePasswordResetValues :: "(jstr \<Rightarrow> jstr) \<Rightarrow> jstr \<Rightarrow> jstr" where
  "normalizePasswordResetValues nfc pw = normalizePassword nfc pw"

subsection \<open>What the validators accept\<close>

lemma notSpaceAt_iff: "in_cls notSpaceAt c \<longleftrightarrow> \<not> ws_char c \<and> c \<noteq> 0x40"
proof -
  have r: "9 \<le> c \<and> c \<le> 13 \<longleftrightarrow> c = 9 \<or> c = 10 \<or> c = 11 \<or> c = 12 \<or> c = 13" by arith
  have l: "0x2028 \<le> c \<and> c \<le> 0x2029 \<longleftrightarrow> c = 0x2028 \<or> c = 0x2029" by arith
  have e: "a \<le> c \<and> c \<le> a \<longleftrightarrow> c = a" for a :: nat by auto
  show ?thesis
    unfolding notSpaceAt_def ws_char_def in_cls.simps list.set bex_simps insert_iff empty_iff prod.case r l e
    by blast
qed

lemma emailPattern_lang: "s \<in> rx_lang emailPattern \<longleftrightarrow>
  (\<exists>u v. s = u @ js ''@'' @ v \<and> u \<noteq> [] \<and> v \<noteq> [] \<and> (\<forall>c\<in>set u \<union> set v. \<not> ws_char c \<and> c \<noteq> 0x40))"
proof -
  have "s \<in> rx_lang emailPattern \<longleftrightarrow>
    (\<exists>u w. s = u @ w \<and> (u \<noteq> [] \<and> (\<forall>c\<in>set u. \<not> ws_char c \<and> c \<noteq> 0x40)) \<and>
      (\<exists>d v. w = d @ v \<and> d = js ''@'' \<and> v \<noteq> [] \<and> (\<forall>c\<in>set v. \<not> ws_char c \<and> c \<noteq> 0x40)))"
    unfolding emailPattern_def rcat.simps rx_lang.simps
    by (simp only: rx_lang_rlit rx_lang_rplus_Unit mem_Collect_eq singleton_iff notSpaceAt_iff)
  then show ?thesis by blast
qed

text \<open>An ASCII address with one at-sign between two non-empty parts, without white space or \<open>..\<close>.\<close>

definition validAddress :: "jstr \<Rightarrow> bool" where
  "validAddress e \<longleftrightarrow> length e \<le> 254 \<and> (\<forall>c\<in>set e. c \<le> 127 \<and> \<not> ws_char c) \<and> \<not> sublist (js ''..'') e
     \<and> (\<exists>u v. e = u @ js ''@'' @ v \<and> u \<noteq> [] \<and> v \<noteq> [] \<and> 0x40 \<notin> set u \<union> set v)"

lemma ascii_codePoints: "(\<forall>c\<in>set (codePoints s). c \<le> 127) \<longleftrightarrow> (\<forall>c\<in>set s. c \<le> 127)"
  by (induction s rule: codePoints.induct) (auto simp: high_surrogate_def)

lemma at_not_ws: "\<not> ws_char 0x40"
  by (simp add: ws_char_def)

text \<open>
  The e-mail validator accepts exactly the values whose trimmed text is an address of at most 254
  ASCII characters with a single at-sign between two non-empty parts and neither white space nor two
  consecutive dots; there is one issue, on the field \<open>email\<close>, otherwise.
\<close>

theorem validateEmail_accepts:
  "validateEmail s = (if validAddress (trim s) then [] else [(js ''email'', js ''invalid_email'')])"
proof -
  let ?e = "trim s"
  have p: "rx_test emailPattern ?e \<longleftrightarrow> (\<exists>u v. ?e = u @ js ''@'' @ v \<and> u \<noteq> [] \<and> v \<noteq> [] \<and>
      (\<forall>c\<in>set u \<union> set v. \<not> ws_char c \<and> c \<noteq> 0x40))"
    by (simp only: rx_test_lang emailPattern_lang)
  also have "\<dots> \<longleftrightarrow> (\<forall>c\<in>set ?e. \<not> ws_char c) \<and>
      (\<exists>u v. ?e = u @ js ''@'' @ v \<and> u \<noteq> [] \<and> v \<noteq> [] \<and> 0x40 \<notin> set u \<union> set v)"
    (is "?l \<longleftrightarrow> ?ws \<and> ?r")
  proof
    assume ?l then show "?ws \<and> ?r" using at_not_ws by (fastforce simp: js_Cons)
  next
    assume r: "?ws \<and> ?r"
    then obtain u v where uv: "?e = u @ js ''@'' @ v" "u \<noteq> []" "v \<noteq> []" "0x40 \<notin> set u \<union> set v" by blast
    then have "\<forall>c\<in>set u \<union> set v. \<not> ws_char c" using r unfolding uv(1) set_append by blast
    then have "\<forall>c\<in>set u \<union> set v. \<not> ws_char c \<and> c \<noteq> 0x40" using uv(4) by blast
    with uv show ?l by blast
  qed
  finally have r: "rx_test emailPattern ?e \<longleftrightarrow> (\<forall>c\<in>set ?e. \<not> ws_char c) \<and>
      (\<exists>u v. ?e = u @ js ''@'' @ v \<and> u \<noteq> [] \<and> v \<noteq> [] \<and> 0x40 \<notin> set u \<union> set v)" .
  have a: "list_ex (\<lambda>c. c > 127) (codePoints ?e) \<longleftrightarrow> \<not> (\<forall>c\<in>set ?e. c \<le> 127)"
    using ascii_codePoints [of ?e] by (auto simp: list_ex_iff not_le)
  have "?e \<noteq> []" if "validAddress ?e" using that by (auto simp: validAddress_def)
  then show ?thesis
    unfolding validateEmail_def normalizeEmail_def Let_def r a validAddress_def by auto
qed

lemma passwordFlags_exists:
  "passwordFlags cs (up, lo, di, sp) =
     (up \<or> (\<exists>c\<in>set cs. 0x41 \<le> c \<and> c \<le> 0x5A), lo \<or> (\<exists>c\<in>set cs. 0x61 \<le> c \<and> c \<le> 0x7A),
      di \<or> (\<exists>c\<in>set cs. 0x30 \<le> c \<and> c \<le> 0x39), sp \<or> (\<exists>c\<in>set cs. isPasswordSpecial c))"
  by (induction cs arbitrary: up lo di sp) auto

definition strongPassword :: "jstr \<Rightarrow> bool" where
  "strongPassword s \<longleftrightarrow> (let cs = codePoints s in
     8 \<le> length cs \<and> length cs \<le> 128 \<and> (\<exists>c\<in>set cs. 0x41 \<le> c \<and> c \<le> 0x5A) \<and> (\<exists>c\<in>set cs. 0x61 \<le> c \<and> c \<le> 0x7A)
     \<and> (\<exists>c\<in>set cs. 0x30 \<le> c \<and> c \<le> 0x39) \<and> (\<exists>c\<in>set cs. isPasswordSpecial c))"

text \<open>
  The password validator's loop computes the four character classes: a password is accepted
  exactly when its normal form has 8 to 128 code points, among them an ASCII capital, a small letter,
  a digit and one of the 32 ASCII punctuation characters; what it accepts the login form accepts too.
\<close>

theorem validatePassword_accepts:
  "validatePassword nfc s = (if strongPassword (nfc s) then [] else [(js ''password'', js ''invalid_password'')])
   \<and> (if validatePassword nfc s = [] then validateLoginPassword nfc s = [] else True)"
  by (auto simp: validatePassword_def validateLoginPassword_def normalizePassword_def strongPassword_def Let_def
      passwordFlags_exists not_less)

subsection \<open>Normalization\<close>

text \<open>A cut between two characters of a text, not inside a surrogate pair.\<close>

definition cut :: "jstr \<Rightarrow> jstr \<Rightarrow> bool" where
  "cut u t \<longleftrightarrow> u = [] \<or> t = [] \<or> \<not> (high_surrogate (last u) \<and> low_surrogate (hd t))"

text \<open>
  Two laws of the Unicode standard (UAX 15): normalization is idempotent, and a substring of a
  normalized text is normalized.
\<close>

definition normalizer :: "(jstr \<Rightarrow> jstr) \<Rightarrow> bool" where
  "normalizer nfc \<longleftrightarrow> (\<forall>s. nfc (nfc s) = nfc s)
     \<and> (\<forall>u t v. nfc (u @ t @ v) = u @ t @ v \<and> cut u (t @ v) \<and> cut (u @ t) v \<longrightarrow> nfc t = t)"

lemma normalizer_idem: "normalizer nfc \<Longrightarrow> nfc (nfc s) = nfc s"
  by (simp add: normalizer_def)

lemma ws_no_surrogate: "ws_char c \<Longrightarrow> \<not> low_surrogate c \<and> \<not> high_surrogate c"
  by (auto simp: ws_char_def low_surrogate_def high_surrogate_def)

lemma trim_split: "\<exists>u v. s = u @ trim s @ v \<and> (\<forall>c\<in>set u \<union> set v. ws_char c)"
proof -
  let ?d = "dropWhile ws_char s"
  have s: "s = takeWhile ws_char s @ ?d" by simp
  have "rev ?d = takeWhile ws_char (rev ?d) @ dropWhile ws_char (rev ?d)" by simp
  then have d: "?d = trim s @ rev (takeWhile ws_char (rev ?d))"
    unfolding trim_def by (metis rev_append rev_rev_ident)
  have "s = takeWhile ws_char s @ trim s @ rev (takeWhile ws_char (rev ?d))"
    using s d by metis
  moreover have "\<forall>c\<in>set (takeWhile ws_char s) \<union> set (rev (takeWhile ws_char (rev ?d))). ws_char c"
    by (auto dest: set_takeWhileD)
  ultimately show ?thesis by blast
qed

lemma normalizer_trim:
  assumes "normalizer nfc" "nfc s = s"
  shows "nfc (trim s) = trim s"
proof -
  obtain u v where s: "s = u @ trim s @ v" and w: "\<forall>c\<in>set u \<union> set v. ws_char c"
    using trim_split by blast
  have "cut u (trim s @ v)"
    using w ws_no_surrogate unfolding cut_def by (cases "u = []") auto
  moreover have "cut (u @ trim s) v"
    using w ws_no_surrogate unfolding cut_def by (cases "v = []") auto
  ultimately show ?thesis using assms s unfolding normalizer_def by metis
qed

lemma normalizeName_idem: "normalizer nfc \<Longrightarrow> normalizeName nfc (normalizeName nfc s) = normalizeName nfc s"
  unfolding normalizeName_def by (simp add: normalizer_trim normalizer_idem)

lemma normalizeEmail_idem: "normalizeEmail (normalizeEmail s) = normalizeEmail s"
  by (simp add: normalizeEmail_def)

text \<open>
  What the setup form sends is canonical and still valid: normalizing the sent values again
  changes nothing, and the schema finds the same issues in the sent values, confirmation included,
  as in what was typed, so a form that passes its own validation sends values that pass it.
\<close>

theorem setup_values_canonical:
  assumes "normalizer nfc" "normalizeSetupValues nfc v = (n, e, p)"
    and "w = \<lparr>name = n, email = e, password = p, passwordConfirmation = nfc (passwordConfirmation v)\<rparr>"
  shows "normalizeSetupValues nfc w = (n, e, p) \<and> setupFormSchema nfc w = setupFormSchema nfc v"
proof -
  have nep: "n = normalizeName nfc (name v)" "e = normalizeEmail (email v)" "p = nfc (password v)"
    using assms(2) by (simp_all add: normalizeSetupValues_def normalizePassword_def)
  have idem: "normalizeName nfc n = n" "normalizeEmail e = e" "\<And>s. nfc (nfc s) = nfc s"
    unfolding nep using normalizeName_idem [OF assms(1)] normalizeEmail_idem normalizer_idem [OF assms(1)] by simp_all
  have "validateName nfc n = validateName nfc (name v)" "validateEmail e = validateEmail (email v)"
    "validatePassword nfc p = validatePassword nfc (password v)"
    unfolding validateName_def validateEmail_def validatePassword_def normalizePassword_def
    by (simp_all only: idem nep(3)) (simp_all only: nep)
  then show ?thesis
    unfolding assms(3) by (simp add: normalizeSetupValues_def setupFormSchema_def normalizePassword_def idem nep(3))
qed

definition exampleSetup :: SetupFormValues where
  "exampleSetup = \<lparr>name = js '' Ann '', email = js '' a@b.c '', password = js ''Secret-42'',
     passwordConfirmation = js ''Secret-42''\<rparr>"

lemma normalizer_example: "normalizer (\<lambda>s. s)"
  by (simp add: normalizer_def)

theorem setup_values_canonical_witness:
  "normalizeSetupValues (\<lambda>s. s) \<lparr>name = js ''Ann'', email = js ''a@b.c'', password = js ''Secret-42'',
     passwordConfirmation = js ''Secret-42''\<rparr> = (js ''Ann'', js ''a@b.c'', js ''Secret-42'')
   \<and> setupFormSchema (\<lambda>s. s) \<lparr>name = js ''Ann'', email = js ''a@b.c'', password = js ''Secret-42'',
     passwordConfirmation = js ''Secret-42''\<rparr> = setupFormSchema (\<lambda>s. s) exampleSetup"
proof (rule setup_values_canonical [OF normalizer_example])
  show "normalizeSetupValues (\<lambda>s. s) exampleSetup = (js ''Ann'', js ''a@b.c'', js ''Secret-42'')"
    by (simp add: normalizeSetupValues_def exampleSetup_def normalizeName_def normalizeEmail_def
        normalizePassword_def trim_def ws_char_def js_eval)
qed (simp add: exampleSetup_def)

end
