(* ===== verification/Drafts.thy ===== *)
theory Drafts
  imports Complex_Main Prelude
begin

text \<open>
  \<open>features/access/drafts.ts\<close>: the store of unsaved edits. It belongs to one signed-in user
  (\<open>ownerID\<close>) and holds a draft for a new role, one per edited role, the invitation, one per user
  whose roles are being assigned, the mail settings and the operation-log retention. The objects
  \<open>roleEdits\<close> and \<open>assignments\<close> are keyed by server identifiers and are maps here. A second counter,
  outside the store, numbers the submissions.
\<close>

text \<open>The value of a number field: \<open>Number(text)\<close> may be a fraction, not a number or infinite.\<close>

datatype jsnum = Finite rat | NotFinite

fun isInteger :: "jsnum \<Rightarrow> bool" where
  "isInteger (Finite x) \<longleftrightarrow> of_int \<lfloor>x\<rfloor> = x"
| "isInteger NotFinite \<longleftrightarrow> False"

fun inRange :: "rat \<Rightarrow> rat \<Rightarrow> jsnum \<Rightarrow> bool" where
  "inRange lo hi (Finite x) \<longleftrightarrow> lo \<le> x \<and> x \<le> hi"
| "inRange lo hi NotFinite \<longleftrightarrow> False"

datatype roleIssue = NameIssue | PermissionsIssue | InvalidPermissionsIssue

record RoleDraft =
  rID :: "jstr option"
  rRevision :: "int option"
  rName :: jstr
  rDescription :: jstr
  rPermissions :: "jstr list"
  rExplicit :: "jstr list option"
  rSubmitting :: bool
  rConflict :: bool
  rSubmissionID :: "jstr option"
  rValidationError :: "roleIssue option"

datatype invitationIssue = InviteName | InviteEmail | InviteRoles | InviteInvalidRoles

record InvitationDraft =
  iName :: jstr
  iEmail :: jstr
  iRoleIDs :: "jstr list"
  iSubmitting :: bool
  iSubmissionID :: "jstr option"
  iValidationError :: "invitationIssue option"

record AssignmentDraft =
  aUserID :: jstr
  aAuthVersion :: int
  aRoleIDs :: "jstr list"
  aSubmitting :: bool
  aConflict :: bool
  aSubmissionID :: "jstr option"
  aValidationError :: bool
  aInvalidRoleSelection :: bool

datatype mailSecurity = NoSecurity | StartTLS | TLS

datatype uiLocale = En | ZhCN

record EmailSettingsDraft =
  eHost :: jstr
  ePort :: jsnum
  eSecurity :: mailSecurity
  eAuthentication :: bool
  eUsername :: jstr
  ePassword :: jstr
  eClearPassword :: bool
  ePasswordSet :: bool
  eFromAddress :: jstr
  eFromName :: jstr
  eDefaultLocale :: "uiLocale option"
  eAutoRetryCount :: jsnum
  eRetentionDays :: jsnum
  eRevision :: int
  eConfigured :: bool
  eSubmitting :: bool
  eConflict :: bool

record OperationLogRetentionDraft =
  oOwnerID :: "jstr option"
  oRetentionDays :: jsnum
  oRevision :: int
  oSubmitting :: bool
  oConflict :: bool
  oAuthoritative :: bool
  oSubmissionID :: "jstr option"

record DraftState =
  ownerID :: "jstr option"
  roleCreate :: "RoleDraft option"
  roleEdits :: "jstr \<rightharpoonup> RoleDraft"
  invitation :: "InvitationDraft option"
  assignments :: "jstr \<rightharpoonup> AssignmentDraft"
  emailSettings :: "EmailSettingsDraft option"
  operationLogRetention :: "OperationLogRetentionDraft option"

definition emptyDrafts :: DraftState where
  "emptyDrafts = \<lparr>ownerID = None, roleCreate = None, roleEdits = Map.empty, invitation = None,
     assignments = Map.empty, emailSettings = None, operationLogRetention = None\<rparr>"

definition setOwner :: "jstr \<Rightarrow> DraftState \<Rightarrow> DraftState" where
  "setOwner u s = (if ownerID s = None \<or> ownerID s = Some u then s\<lparr>ownerID := Some u\<rparr>
     else \<lparr>ownerID = Some u, roleCreate = None, roleEdits = Map.empty, invitation = None,
       assignments = Map.empty, emailSettings = None, operationLogRetention = None\<rparr>)"

definition setRoleCreate :: "RoleDraft option \<Rightarrow> DraftState \<Rightarrow> DraftState" where
  "setRoleCreate d s = s\<lparr>roleCreate := d\<rparr>"

definition setRoleEdit :: "jstr \<Rightarrow> RoleDraft option \<Rightarrow> DraftState \<Rightarrow> DraftState" where
  "setRoleEdit i d s = s\<lparr>roleEdits := (roleEdits s)(i := d)\<rparr>"

definition setInvitation :: "InvitationDraft option \<Rightarrow> DraftState \<Rightarrow> DraftState" where
  "setInvitation d s = s\<lparr>invitation := d\<rparr>"

definition setAssignment :: "jstr \<Rightarrow> AssignmentDraft option \<Rightarrow> DraftState \<Rightarrow> DraftState" where
  "setAssignment i d s = s\<lparr>assignments := (assignments s)(i := d)\<rparr>"

definition setEmailSettings :: "EmailSettingsDraft option \<Rightarrow> DraftState \<Rightarrow> DraftState" where
  "setEmailSettings d s = s\<lparr>emailSettings := d\<rparr>"

definition setOperationLogRetention :: "OperationLogRetentionDraft option \<Rightarrow> DraftState \<Rightarrow> DraftState" where
  "setOperationLogRetention d s = s\<lparr>operationLogRetention := d\<rparr>"

definition clearAll :: "DraftState \<Rightarrow> DraftState" where
  "clearAll s = emptyDrafts"

definition clearAccessDrafts :: "DraftState \<Rightarrow> DraftState" where
  "clearAccessDrafts s = clearAll s"

definition clearEmailSettingsPasswordDraft :: "DraftState \<Rightarrow> DraftState" where
  "clearEmailSettingsPasswordDraft s = (case emailSettings s of None \<Rightarrow> s
     | Some d \<Rightarrow> setEmailSettings (Some (d\<lparr>ePassword := [], eClearPassword := False\<rparr>)) s)"

text \<open>\<open>nextDraftSubmissionID\<close>: the counter after the call and the identifier, at the time \<open>now\<close>.\<close>

definition nextDraftSubmissionID :: "nat \<Rightarrow> nat \<Rightarrow> nat \<times> jstr" where
  "nextDraftSubmissionID now sequence =
     (let n = sequence + 1 in (n, radix_str 36 now @ js ''-'' @ radix_str 36 n))"

subsection \<open>Identifiers are never reused\<close>

lemma digit_unit_base36: "d < 36 \<Longrightarrow> digit_unit d \<noteq> 0x2D"
  by (simp add: digit_unit_def)

lemma radix36_no_dash: "0x2D \<notin> set (radix_str 36 n)"
proof (induction n rule: less_induct)
  case (less n)
  show ?case
  proof (cases "n < 36")
    case True
    then show ?thesis using digit_unit_base36 [of n] by (simp add: radix_str.simps [of 36 n])
  next
    case False
    then have "0x2D \<notin> set (radix_str 36 (n div 36))" using less.IH by simp
    then show ?thesis using False digit_unit_base36 [of "n mod 36"] by (simp add: radix_str.simps [of 36 n])
  qed
qed

definition unit_digit :: "nat \<Rightarrow> nat" where
  "unit_digit u = (if u < 0x40 then u - 0x30 else u - 0x61 + 10)"

definition radix_val :: "nat \<Rightarrow> jstr \<Rightarrow> nat" where
  "radix_val b s = foldl (\<lambda>a u. b * a + unit_digit u) 0 s"

lemma unit_digit_inverse: "d < 36 \<Longrightarrow> unit_digit (digit_unit d) = d"
  by (simp add: unit_digit_def digit_unit_def)

lemma radix_val_radix_str: "radix_val 36 (radix_str 36 n) = n"
proof (induction n rule: less_induct)
  case (less n)
  show ?case
  proof (cases "n < 36")
    case True
    then show ?thesis by (simp add: radix_str.simps [of 36 n] radix_val_def unit_digit_inverse)
  next
    case False
    then have "radix_val 36 (radix_str 36 (n div 36)) = n div 36" using less.IH by simp
    then show ?thesis using False
      by (simp add: radix_str.simps [of 36 n] radix_val_def unit_digit_inverse)
  qed
qed

lemma radix36_inj: "radix_str 36 m = radix_str 36 n \<longleftrightarrow> m = n"
  by (metis radix_val_radix_str)

lemma dash_split: "\<lbrakk>a @ c # b = a' @ c # b'; c \<notin> set a; c \<notin> set a'\<rbrakk> \<Longrightarrow> a = a' \<and> b = b'"
  by (induction a arbitrary: a') (case_tac a'; auto)+

lemma submission_id_inj:
  "(snd (nextDraftSubmissionID t m) = snd (nextDraftSubmissionID u n)) = (t = u \<and> m = n)"
proof
  assume "snd (nextDraftSubmissionID t m) = snd (nextDraftSubmissionID u n)"
  then have "radix_str 36 t @ 0x2D # radix_str 36 (m + 1) = radix_str 36 u @ 0x2D # radix_str 36 (n + 1)"
    by (simp add: nextDraftSubmissionID_def js_eval)
  from dash_split [OF this radix36_no_dash radix36_no_dash] show "t = u \<and> m = n"
    by (simp add: radix36_inj)
qed simp

text \<open>The identifiers drawn at the given clock readings, one after the other.\<close>

fun drawn :: "nat list \<Rightarrow> nat \<Rightarrow> jstr list" where
  "drawn [] n = []"
| "drawn (now # clock) n = (case nextDraftSubmissionID now n of (n', i) \<Rightarrow> i # drawn clock n')"

lemma drawn_later: "i \<in> set (drawn clock n) \<Longrightarrow> \<exists>t m. n \<le> m \<and> i = snd (nextDraftSubmissionID t m)"
proof (induction clock arbitrary: n)
  case (Cons now clock)
  have draw: "nextDraftSubmissionID now n = (n + 1, snd (nextDraftSubmissionID now n))"
    by (simp add: nextDraftSubmissionID_def)
  from Cons.prems consider "i = snd (nextDraftSubmissionID now n)" | "i \<in> set (drawn clock (n + 1))"
    by (subst (asm) drawn.simps, subst (asm) draw) auto
  then show ?case
  proof cases
    case 2
    from Cons.IH [OF this] obtain t m where "n + 1 \<le> m" "i = snd (nextDraftSubmissionID t m)" by blast
    then show ?thesis by (intro exI [of _ t] exI [of _ m]) simp
  qed blast
qed simp

text \<open>
  A submission identifier is never drawn twice, whatever the clock does, even when it stands still
  or goes back.
\<close>

theorem submission_ids_unique: "distinct (drawn clock n)"
proof (induction clock arbitrary: n)
  case (Cons now clock)
  have draw: "nextDraftSubmissionID now n = (n + 1, snd (nextDraftSubmissionID now n))"
    by (simp add: nextDraftSubmissionID_def)
  have "snd (nextDraftSubmissionID now n) \<notin> set (drawn clock (n + 1))"
  proof
    assume "snd (nextDraftSubmissionID now n) \<in> set (drawn clock (n + 1))"
    from drawn_later [OF this] obtain t m where "n + 1 \<le> m" "n = m" unfolding submission_id_inj by blast
    then show False by simp
  qed
  then show ?case using Cons.IH by (subst drawn.simps, subst draw) simp
qed simp

text \<open>Taking the store over for another user leaves nothing of the previous one.\<close>

lemma setOwner_same: "ownerID s = Some u \<Longrightarrow> setOwner u s = s"
  by (simp add: setOwner_def)

lemma setOwner_other:
  "\<lbrakk>ownerID s = Some v; v \<noteq> u\<rbrakk> \<Longrightarrow> setOwner u s = emptyDrafts\<lparr>ownerID := Some u\<rparr>"
  by (simp add: setOwner_def emptyDrafts_def)

lemma setOwner_owner [simp]: "ownerID (setOwner u s) = Some u"
  by (simp add: setOwner_def)

lemma set_slots_owner [simp]:
  "ownerID (setRoleCreate d s) = ownerID s" "ownerID (setRoleEdit i d s) = ownerID s"
  "ownerID (setInvitation e s) = ownerID s" "ownerID (setAssignment i f s) = ownerID s"
  "ownerID (setEmailSettings g s) = ownerID s" "ownerID (setOperationLogRetention h s) = ownerID s"
  by (simp_all add: setRoleCreate_def setRoleEdit_def setInvitation_def setAssignment_def setEmailSettings_def
      setOperationLogRetention_def)

end
