(* ===== verification/DraftEditors.thy ===== *)
theory DraftEditors
  imports Drafts Problems
begin

text \<open>
  The editors that submit drafts: the role editor (\<open>features/access/roles-page.tsx\<close>), the role
  assignment of a user and the invitation form (\<open>features/access/users-page.tsx\<close>), and the mail
  settings (\<open>features/settings/email-settings-page.tsx\<close>). A submission remembers the owner of the
  store and a fresh identifier; the asynchronous parts of a mutation (\<open>mutationFn\<close>, \<open>onSuccess\<close>,
  \<open>onError\<close>) check both before they touch the draft. The three guarded editors are instances of the
  contract \<open>guarded_editor\<close>; \<open>editor_step\<close> is the life of the submissions of the role editor.
\<close>

record submission =
  subOwner :: "jstr option"
  subUser :: jstr
  subID :: jstr

text \<open>What a mutation does besides updating the store.\<close>

datatype effect = NotifySuccess jstr | NotifyError thrown jstr | Invalidate "jstr list" | Done

text \<open>The requests of the editors, as the arguments of the client's methods.\<close>

datatype accessRequest =
    ReplaceRoleRequest jstr jstr jstr "jstr list" int
  | CreateRoleRequest jstr jstr "jstr list"
  | ReplaceUserRolesRequest jstr "jstr list" int
  | CreateInvitationRequest jstr jstr "jstr list"

text \<open>An error of a mutation: one of the client's, or \<open>new Error(message)\<close> thrown by the editor itself.\<close>

datatype editorError = ClientError thrown | Message jstr

fun isStaleRevision :: "editorError \<Rightarrow> bool" where
  "isStaleRevision (ClientError (ApiProblemError p)) \<longleftrightarrow>
     code p = Some (js ''stale_revision'') \<or> ptype p = js ''/problems/stale-revision''"
| "isStaleRevision _ \<longleftrightarrow> False"

fun asThrown :: "editorError \<Rightarrow> thrown" where
  "asThrown (ClientError e) = e"
| "asThrown (Message _) = OtherError"

subsection \<open>The role editor\<close>

record roleRef =
  refID :: jstr
  refRevision :: int

text \<open>The slot of an editor: \<open>None\<close> creates a role, otherwise the edited role.\<close>

definition roleSlot :: "roleRef option \<Rightarrow> DraftState \<Rightarrow> RoleDraft option" where
  "roleSlot role s = (case role of Some r \<Rightarrow> roleEdits s (refID r) | None \<Rightarrow> roleCreate s)"

definition setRoleSlot :: "roleRef option \<Rightarrow> RoleDraft option \<Rightarrow> DraftState \<Rightarrow> DraftState" where
  "setRoleSlot role d s = (case role of Some r \<Rightarrow> setRoleEdit (refID r) d s | None \<Rightarrow> setRoleCreate d s)"

definition roleUpdateDraft ::
    "roleRef option \<Rightarrow> RoleDraft \<Rightarrow> (RoleDraft \<Rightarrow> RoleDraft) \<Rightarrow> submission option \<Rightarrow> DraftState \<Rightarrow> DraftState \<times> bool" where
  "roleUpdateDraft role cur patch sub s =
     (let existing = roleSlot role s in
      case sub of
        Some b \<Rightarrow>
          if ownerID s \<noteq> subOwner b \<or> Option.bind existing rSubmissionID \<noteq> Some (subID b) then (s, False)
          else (setRoleSlot role (Some (patch (nullish existing cur))) s, True)
      | None \<Rightarrow> (setRoleSlot role (Some (patch (nullish existing cur))) s, True))"

definition roleBeginSubmission ::
    "roleRef option \<Rightarrow> RoleDraft \<Rightarrow> nat \<Rightarrow> nat \<Rightarrow> DraftState \<Rightarrow> DraftState \<times> nat \<times> submission" where
  "roleBeginSubmission role cur now sequence s =
     (let (n, i) = nextDraftSubmissionID now sequence;
          b = \<lparr>subOwner = ownerID s, subUser = [], subID = i\<rparr>
      in (fst (roleUpdateDraft role cur
            (\<lambda>_. (nullish (roleSlot role s) cur)\<lparr>rSubmissionID := Some i, rSubmitting := False, rConflict := False\<rparr>) None s),
          n, b))"

definition roleCurrent :: "roleRef option \<Rightarrow> submission \<Rightarrow> DraftState \<Rightarrow> bool" where
  "roleCurrent role b s \<longleftrightarrow> (case roleSlot role s of None \<Rightarrow> False
     | Some d \<Rightarrow> ownerID s = subOwner b \<and> rSubmissionID d = Some (subID b))"

text \<open>\<open>mutationFn\<close>: the store afterwards, and the error it throws or the request it sends.\<close>

definition roleMutationFn ::
    "roleRef option \<Rightarrow> RoleDraft \<Rightarrow> jstr list \<Rightarrow> submission \<Rightarrow> DraftState \<Rightarrow> DraftState \<times> (editorError + accessRequest)" where
  "roleMutationFn role cur permissions b s =
     (let draft = roleSlot role s;
          update = (\<lambda>patch s. roleUpdateDraft role cur patch (Some b) s)
      in case draft of
           None \<Rightarrow> (s, Inl (Message (js ''stale draft'')))
         | Some d \<Rightarrow>
             if ownerID s \<noteq> subOwner b \<or> rSubmissionID d \<noteq> Some (subID b) then (s, Inl (Message (js ''stale draft'')))
             else if trim (rName d) = []
             then (fst (update (\<lambda>d. d\<lparr>rValidationError := Some NameIssue\<rparr>) s), Inl (Message (js ''invalid name'')))
             else if length (rPermissions d) = 0
             then (fst (update (\<lambda>d. d\<lparr>rValidationError := Some PermissionsIssue\<rparr>) s), Inl (Message (js ''invalid permissions'')))
             else if list_ex (\<lambda>p. p \<notin> set permissions) (rPermissions d)
             then (fst (update (\<lambda>d. d\<lparr>rValidationError := Some InvalidPermissionsIssue\<rparr>) s),
                   Inl (Message (js ''invalid permissions'')))
             else (case update (\<lambda>d. d\<lparr>rSubmitting := True, rValidationError := None, rConflict := False\<rparr>) s of
                 (s', applied) \<Rightarrow>
                   if \<not> applied then (s', Inl (Message (js ''stale draft'')))
                   else (s', Inr (case role of
                       Some r \<Rightarrow> ReplaceRoleRequest (refID r) (rName d) (rDescription d) (rPermissions d)
                                  (nullish (rRevision d) (refRevision r))
                     | None \<Rightarrow> CreateRoleRequest (rName d) (rDescription d) (rPermissions d)))))"

definition roleOnSuccess :: "roleRef option \<Rightarrow> submission \<Rightarrow> DraftState \<Rightarrow> DraftState \<times> effect list" where
  "roleOnSuccess role b s =
     (if ownerID s \<noteq> subOwner b then (s, [])
      else
        let inv = Invalidate [js ''access'', js ''roles''] #
                    (case role of Some r \<Rightarrow> [Invalidate [js ''access'', js ''roles'', refID r]] | None \<Rightarrow> [])
        in if Option.bind (roleSlot role s) rSubmissionID \<noteq> Some (subID b) then (s, inv)
           else (setRoleSlot role None s,
                 inv @ [NotifySuccess (if role \<noteq> None then js ''roleUpdated'' else js ''roleCreated''), Done]))"

definition roleOnError ::
    "roleRef option \<Rightarrow> RoleDraft \<Rightarrow> editorError \<Rightarrow> submission \<Rightarrow> DraftState \<Rightarrow> DraftState \<times> effect list" where
  "roleOnError role cur err b s =
     (case roleUpdateDraft role cur (\<lambda>d. d\<lparr>rSubmitting := False\<rparr>) (Some b) s of
        (s', applied) \<Rightarrow>
          if \<not> applied then (s', [])
          else if isStaleRevision err
          then (fst (roleUpdateDraft role cur (\<lambda>d. d\<lparr>rConflict := True\<rparr>) (Some b) s'),
                [NotifyError (asThrown err) (js ''conflictTitle'')])
          else if err \<noteq> Message (js ''invalid name'') \<and> err \<noteq> Message (js ''invalid permissions'')
          then (s', [NotifyError (asThrown err) (if role \<noteq> None then js ''saveRole'' else js ''createRole'')])
          else (s', []))"

text \<open>The buttons of the form: the submit guard, and \<open>resetDraft\<close>.\<close>

definition roleMaySubmit :: "RoleDraft \<Rightarrow> bool \<Rightarrow> bool" where
  "roleMaySubmit cur pending \<longleftrightarrow> \<not> rSubmitting cur \<and> \<not> pending \<and> \<not> rConflict cur"

definition roleReset :: "roleRef option \<Rightarrow> RoleDraft \<Rightarrow> DraftState \<Rightarrow> DraftState" where
  "roleReset role ini s = setRoleSlot role (Some (ini\<lparr>rSubmitting := False, rConflict := False,
     rSubmissionID := None, rValidationError := None\<rparr>)) s"

subsection \<open>The role assignment of a user\<close>

definition assignmentUpdateDraft ::
    "jstr \<Rightarrow> AssignmentDraft \<Rightarrow> (AssignmentDraft \<Rightarrow> AssignmentDraft) \<Rightarrow> submission option \<Rightarrow> DraftState \<Rightarrow> DraftState \<times> bool" where
  "assignmentUpdateDraft user cur patch sub s =
     (let existing = assignments s user in
      case sub of
        Some b \<Rightarrow>
          if ownerID s \<noteq> subOwner b \<or> map_option aUserID existing \<noteq> Some (subUser b)
             \<or> Option.bind existing aSubmissionID \<noteq> Some (subID b)
          then (s, False)
          else (setAssignment user (Some (patch (nullish existing cur))) s, True)
      | None \<Rightarrow> (setAssignment user (Some (patch (nullish existing cur))) s, True))"

definition assignmentBeginSubmission ::
    "jstr \<Rightarrow> AssignmentDraft \<Rightarrow> nat \<Rightarrow> nat \<Rightarrow> DraftState \<Rightarrow> DraftState \<times> nat \<times> submission" where
  "assignmentBeginSubmission user cur now sequence s =
     (let (n, i) = nextDraftSubmissionID now sequence;
          b = \<lparr>subOwner = ownerID s, subUser = user, subID = i\<rparr>
      in (fst (assignmentUpdateDraft user cur
            (\<lambda>_. (nullish (assignments s user) cur)\<lparr>aSubmissionID := Some i, aSubmitting := False, aConflict := False\<rparr>) None s),
          n, b))"

definition assignmentCurrent :: "jstr \<Rightarrow> submission \<Rightarrow> DraftState \<Rightarrow> bool" where
  "assignmentCurrent user b s \<longleftrightarrow> (case assignments s user of None \<Rightarrow> False
     | Some d \<Rightarrow> ownerID s = subOwner b \<and> aUserID d = subUser b \<and> aSubmissionID d = Some (subID b))"

definition assignmentMutationFn ::
    "jstr \<Rightarrow> AssignmentDraft \<Rightarrow> jstr list \<Rightarrow> submission \<Rightarrow> DraftState \<Rightarrow> DraftState \<times> (editorError + accessRequest)" where
  "assignmentMutationFn user cur roles b s =
     (let draft = assignments s user;
          update = (\<lambda>patch s. assignmentUpdateDraft user cur patch (Some b) s)
      in case draft of
           None \<Rightarrow> (s, Inl (Message (js ''stale draft'')))
         | Some d \<Rightarrow>
             if ownerID s \<noteq> subOwner b \<or> aUserID d \<noteq> subUser b \<or> aSubmissionID d \<noteq> Some (subID b)
             then (s, Inl (Message (js ''stale draft'')))
             else if length (aRoleIDs d) = 0
             then (fst (update (\<lambda>d. d\<lparr>aValidationError := True, aInvalidRoleSelection := False\<rparr>) s),
                   Inl (Message (js ''invalid roles'')))
             else if list_ex (\<lambda>i. i \<notin> set roles) (aRoleIDs d)
             then (fst (update (\<lambda>d. d\<lparr>aValidationError := True, aInvalidRoleSelection := True\<rparr>) s),
                   Inl (Message (js ''invalid roles'')))
             else (case update (\<lambda>d. d\<lparr>aSubmitting := True, aValidationError := False, aInvalidRoleSelection := False,
                                    aConflict := False\<rparr>) s of
                 (s', applied) \<Rightarrow>
                   if \<not> applied then (s', Inl (Message (js ''stale draft'')))
                   else (s', Inr (ReplaceUserRolesRequest user (aRoleIDs d) (aAuthVersion d)))))"

definition assignmentOnSuccess :: "jstr \<Rightarrow> submission \<Rightarrow> DraftState \<Rightarrow> DraftState \<times> effect list" where
  "assignmentOnSuccess user b s =
     (if ownerID s \<noteq> subOwner b then (s, [])
      else
        let inv = [Invalidate [js ''access'', js ''users''], Invalidate [js ''auth'', js ''current-user'']];
            existing = assignments s user
        in if map_option aUserID existing \<noteq> Some (subUser b) \<or> Option.bind existing aSubmissionID \<noteq> Some (subID b)
           then (s, inv)
           else (setAssignment user None s, inv @ [NotifySuccess (js ''assignmentsSaved''), Done]))"

definition assignmentOnError ::
    "jstr \<Rightarrow> AssignmentDraft \<Rightarrow> editorError \<Rightarrow> submission \<Rightarrow> DraftState \<Rightarrow> DraftState \<times> effect list" where
  "assignmentOnError user cur err b s =
     (case assignmentUpdateDraft user cur (\<lambda>d. d\<lparr>aSubmitting := False\<rparr>) (Some b) s of
        (s', applied) \<Rightarrow>
          if \<not> applied then (s', [])
          else if isStaleRevision err
          then (fst (assignmentUpdateDraft user cur (\<lambda>d. d\<lparr>aConflict := True\<rparr>) (Some b) s'),
                [NotifyError (asThrown err) (js ''conflictTitle'')])
          else if err \<noteq> Message (js ''invalid roles'') \<and> err \<noteq> Message (js ''stale draft'')
          then (s', [NotifyError (asThrown err) (js ''saveAssignments'')])
          else (s', []))"

definition assignmentReset :: "jstr \<Rightarrow> int \<Rightarrow> jstr list \<Rightarrow> DraftState \<Rightarrow> DraftState" where
  "assignmentReset user authVersion initialRoles s =
     setAssignment user (Some \<lparr>aUserID = user, aAuthVersion = authVersion, aRoleIDs = initialRoles, aSubmitting = False,
       aConflict = False, aSubmissionID = None, aValidationError = False, aInvalidRoleSelection = False\<rparr>) s"

subsection \<open>The invitation form\<close>

definition emptyInvitation :: InvitationDraft where
  "emptyInvitation = \<lparr>iName = [], iEmail = [], iRoleIDs = [], iSubmitting = False, iSubmissionID = None,
     iValidationError = None\<rparr>"

definition invitationUpdateDraft ::
    "InvitationDraft \<Rightarrow> (InvitationDraft \<Rightarrow> InvitationDraft) \<Rightarrow> submission option \<Rightarrow> DraftState \<Rightarrow> DraftState \<times> bool" where
  "invitationUpdateDraft cur patch sub s =
     (let existing = invitation s in
      case sub of
        Some b \<Rightarrow>
          if ownerID s \<noteq> subOwner b \<or> Option.bind existing iSubmissionID \<noteq> Some (subID b) then (s, False)
          else (setInvitation (Some (patch (nullish existing cur))) s, True)
      | None \<Rightarrow> (setInvitation (Some (patch (nullish existing cur))) s, True))"

definition invitationBeginSubmission ::
    "InvitationDraft \<Rightarrow> nat \<Rightarrow> nat \<Rightarrow> DraftState \<Rightarrow> DraftState \<times> nat \<times> submission" where
  "invitationBeginSubmission cur now sequence s =
     (let (n, i) = nextDraftSubmissionID now sequence;
          b = \<lparr>subOwner = ownerID s, subUser = [], subID = i\<rparr>
      in (fst (invitationUpdateDraft cur
            (\<lambda>_. (nullish (invitation s) cur)\<lparr>iSubmissionID := Some i, iSubmitting := False\<rparr>) None s),
          n, b))"

definition invitationCurrent :: "submission \<Rightarrow> DraftState \<Rightarrow> bool" where
  "invitationCurrent b s \<longleftrightarrow> (case invitation s of None \<Rightarrow> False
     | Some d \<Rightarrow> ownerID s = subOwner b \<and> iSubmissionID d = Some (subID b))"

text \<open>\<open>available\<close> are the roles the form offers and the actor may assign.\<close>

definition invitationMutationFn ::
    "InvitationDraft \<Rightarrow> jstr list \<Rightarrow> jstr list option \<Rightarrow> submission \<Rightarrow> DraftState \<Rightarrow> DraftState \<times> (editorError + accessRequest)" where
  "invitationMutationFn cur roles assignable b s =
     (let update = (\<lambda>patch s. invitationUpdateDraft cur patch (Some b) s);
          fail = (\<lambda>issue. (fst (update (\<lambda>d. d\<lparr>iValidationError := Some issue\<rparr>) s), Inl (Message (js ''validation''))));
          available = filter (\<lambda>i. case assignable of None \<Rightarrow> True | Some ids \<Rightarrow> i \<in> set ids) roles
      in case invitation s of
           None \<Rightarrow> (s, Inl (Message (js ''stale draft'')))
         | Some d \<Rightarrow>
             if ownerID s \<noteq> subOwner b \<or> iSubmissionID d \<noteq> Some (subID b) then (s, Inl (Message (js ''stale draft'')))
             else if trim (iName d) = [] then fail InviteName
             else if trim (iEmail d) = [] then fail InviteEmail
             else if length (iRoleIDs d) = 0 then fail InviteRoles
             else if list_ex (\<lambda>i. i \<notin> set available) (iRoleIDs d) then fail InviteInvalidRoles
             else (case update (\<lambda>d. d\<lparr>iSubmitting := True, iValidationError := None\<rparr>) s of
                 (s', applied) \<Rightarrow>
                   if \<not> applied then (s', Inl (Message (js ''stale draft'')))
                   else (s', Inr (CreateInvitationRequest (iName d) (iEmail d) (iRoleIDs d)))))"

definition invitationOnSuccess :: "submission \<Rightarrow> DraftState \<Rightarrow> DraftState \<times> effect list" where
  "invitationOnSuccess b s =
     (if ownerID s \<noteq> subOwner b then (s, [])
      else if Option.bind (invitation s) iSubmissionID \<noteq> Some (subID b)
      then (s, [Invalidate [js ''access'', js ''invitations'']])
      else (setInvitation None s,
            [Invalidate [js ''access'', js ''invitations''], NotifySuccess (js ''invitationCreated''), Done]))"

definition invitationOnError :: "InvitationDraft \<Rightarrow> editorError \<Rightarrow> submission \<Rightarrow> DraftState \<Rightarrow> DraftState \<times> effect list" where
  "invitationOnError cur err b s =
     (case invitationUpdateDraft cur (\<lambda>d. d\<lparr>iSubmitting := False\<rparr>) (Some b) s of
        (s', applied) \<Rightarrow>
          if \<not> applied then (s', [])
          else if err \<noteq> Message (js ''validation'') \<and> err \<noteq> Message (js ''stale draft'')
          then (s', [NotifyError (asThrown err) (js ''sendInvitation'')])
          else (s', []))"

definition invitationReset :: "DraftState \<Rightarrow> DraftState" where
  "invitationReset s = setInvitation (Some emptyInvitation) s"


subsection \<open>The mail settings\<close>

text \<open>The settings document of the server, as far as the page reads it.\<close>

record EmailSettings =
  sHost :: "jstr option"
  sPort :: "jsnum option"
  sSecurity :: "mailSecurity option"
  sUsername :: "jstr option"
  sPasswordSet :: bool
  sFromAddress :: "jstr option"
  sFromName :: "jstr option"
  sDefaultLocale :: "uiLocale option"
  sAutoRetryCount :: "jsnum option"
  sRetentionDays :: "jsnum option"
  sRevision :: int
  sConfigured :: bool

definition emptyEmailDraft :: EmailSettingsDraft where
  "emptyEmailDraft = \<lparr>eHost = [], ePort = Finite 587, eSecurity = StartTLS, eAuthentication = False, eUsername = [],
     ePassword = [], eClearPassword = False, ePasswordSet = False, eFromAddress = [], eFromName = js ''Bind Plane'',
     eDefaultLocale = None, eAutoRetryCount = Finite 9, eRetentionDays = Finite 30, eRevision = 0, eConfigured = False,
     eSubmitting = False, eConflict = False\<rparr>"

definition fromSettings :: "EmailSettings \<Rightarrow> EmailSettingsDraft" where
  "fromSettings e = \<lparr>eHost = nullish (sHost e) [], ePort = nullish (sPort e) (Finite 587),
     eSecurity = nullish (sSecurity e) StartTLS, eAuthentication = (truthy (sUsername e) \<or> sPasswordSet e),
     eUsername = nullish (sUsername e) [], ePassword = [], eClearPassword = False, ePasswordSet = sPasswordSet e,
     eFromAddress = nullish (sFromAddress e) [], eFromName = nullish (sFromName e) [],
     eDefaultLocale = sDefaultLocale e, eAutoRetryCount = nullish (sAutoRetryCount e) (Finite 9),
     eRetentionDays = nullish (sRetentionDays e) (Finite 30), eRevision = sRevision e, eConfigured = sConfigured e,
     eSubmitting = False, eConflict = False\<rparr>"

definition emailCurrent :: "EmailSettingsDraft option \<Rightarrow> EmailSettings option \<Rightarrow> EmailSettingsDraft" where
  "emailCurrent draft data = (case draft of Some d \<Rightarrow> d
     | None \<Rightarrow> (case data of Some e \<Rightarrow> fromSettings e | None \<Rightarrow> emptyEmailDraft))"

definition emailIsDirty :: "EmailSettingsDraft \<Rightarrow> EmailSettings option \<Rightarrow> bool" where
  "emailIsDirty cur data = (case data of None \<Rightarrow> False
     | Some e \<Rightarrow> let a = fromSettings e in
         eHost cur \<noteq> eHost a \<or> ePort cur \<noteq> ePort a \<or> eSecurity cur \<noteq> eSecurity a
         \<or> eAuthentication cur \<noteq> eAuthentication a \<or> eUsername cur \<noteq> eUsername a \<or> ePassword cur \<noteq> []
         \<or> eClearPassword cur \<or> eFromAddress cur \<noteq> eFromAddress a \<or> eFromName cur \<noteq> eFromName a
         \<or> eDefaultLocale cur \<noteq> eDefaultLocale a \<or> eAutoRetryCount cur \<noteq> eAutoRetryCount a
         \<or> eRetentionDays cur \<noteq> eRetentionDays a)"

text \<open>The body of the save request; an empty password is left out.\<close>

record EmailSettingsInput =
  nHost :: jstr
  nPort :: jsnum
  nSecurity :: mailSecurity
  nUsername :: jstr
  nPassword :: "jstr option"
  nClearPassword :: bool
  nFromAddress :: jstr
  nFromName :: jstr
  nDefaultLocale :: uiLocale
  nAutoRetryCount :: jsnum
  nRetentionDays :: jsnum
  nRevision :: int

definition emailMutationFn ::
    "EmailSettingsDraft \<Rightarrow> DraftState \<Rightarrow> DraftState \<times> (editorError + EmailSettingsInput)" where
  "emailMutationFn cur s =
     (case eDefaultLocale cur of
        None \<Rightarrow> (s, Inl (Message (js ''default locale required'')))
      | Some l \<Rightarrow>
          if \<not> inRange 0 100 (eAutoRetryCount cur) \<or> \<not> isInteger (eAutoRetryCount cur)
             \<or> \<not> inRange 1 3650 (eRetentionDays cur) \<or> \<not> isInteger (eRetentionDays cur)
          then (s, Inl (Message (js ''invalid email task policy'')))
          else (setEmailSettings (Some (cur\<lparr>eSubmitting := True\<rparr>)) s,
                Inr \<lparr>nHost = eHost cur, nPort = ePort cur, nSecurity = eSecurity cur, nUsername = eUsername cur,
                  nPassword = (if ePassword cur = [] then None else Some (ePassword cur)),
                  nClearPassword = eClearPassword cur, nFromAddress = eFromAddress cur, nFromName = eFromName cur,
                  nDefaultLocale = l, nAutoRetryCount = eAutoRetryCount cur, nRetentionDays = eRetentionDays cur,
                  nRevision = eRevision cur\<rparr>))"

definition emailOnSuccess :: "EmailSettings \<Rightarrow> DraftState \<Rightarrow> DraftState" where
  "emailOnSuccess saved s =
     setEmailSettings (Some ((fromSettings saved)\<lparr>ePassword := [], eSubmitting := False, eConflict := False\<rparr>)) s"

text \<open>\<open>onError\<close> falls back to the draft its closure rendered last, \<open>cur\<close>.\<close>

definition emailOnError :: "EmailSettingsDraft \<Rightarrow> editorError \<Rightarrow> DraftState \<Rightarrow> DraftState" where
  "emailOnError cur err s =
     setEmailSettings (Some ((nullish (emailSettings s) cur)\<lparr>eSubmitting := False, eConflict := isStaleRevision err\<rparr>)) s"

subsection \<open>The contract of a guarded editor\<close>

locale guarded_editor =
  fixes slot :: "DraftState \<Rightarrow> 'd option"
    and put :: "'d option \<Rightarrow> DraftState \<Rightarrow> DraftState"
    and current :: "submission \<Rightarrow> DraftState \<Rightarrow> bool"
    and update :: "('d \<Rightarrow> 'd) \<Rightarrow> submission \<Rightarrow> DraftState \<Rightarrow> DraftState \<times> bool"
  assumes put_slot: "slot (put v s) = v"
    and current_slot: "current b s \<Longrightarrow> slot s \<noteq> None"
    and update_stale: "\<not> current b s \<Longrightarrow> update p b s = (s, False)"
    and update_fresh: "\<lbrakk>current b s; slot s = Some d\<rbrakk> \<Longrightarrow> update p b s = (put (Some (p d)) s, True)"
begin

lemma update_iff: "snd (update p b s) \<longleftrightarrow> current b s"
  using update_stale [of b s p] update_fresh [of b s "the (slot s)" p] current_slot [of b s]
  by (cases "current b s") auto

lemma update_slot: "slot s = Some d \<Longrightarrow> slot (fst (update p b s)) = Some (if current b s then p d else d)"
  using update_stale [of b s p] update_fresh [of b s d p] put_slot by (cases "current b s") auto

lemma stale_keeps: "\<not> current b s \<Longrightarrow> fst (update p b s) = s"
  using update_stale [of b s p] by simp

end

lemma role_editor: "guarded_editor (roleSlot role) (setRoleSlot role) (roleCurrent role)
    (\<lambda>p b. roleUpdateDraft role cur p (Some b))"
  by unfold_locales
    (auto simp: roleSlot_def setRoleSlot_def roleCurrent_def roleUpdateDraft_def setRoleEdit_def setRoleCreate_def
      split: option.splits)

lemma assignment_editor: "guarded_editor (\<lambda>s. assignments s user) (setAssignment user) (assignmentCurrent user)
    (\<lambda>p b. assignmentUpdateDraft user cur p (Some b))"
  by unfold_locales
    (auto simp: assignmentCurrent_def assignmentUpdateDraft_def setAssignment_def split: option.splits)

lemma invitation_editor: "guarded_editor invitation setInvitation invitationCurrent
    (\<lambda>p b. invitationUpdateDraft cur p (Some b))"
  by unfold_locales
    (auto simp: invitationCurrent_def invitationUpdateDraft_def setInvitation_def split: option.splits)

interpretation role: guarded_editor "roleSlot role" "setRoleSlot role" "roleCurrent role"
    "\<lambda>p b. roleUpdateDraft role cur p (Some b)" for role cur
  by (rule role_editor)

interpretation assignment: guarded_editor "\<lambda>s. assignments s user" "setAssignment user" "assignmentCurrent user"
    "\<lambda>p b. assignmentUpdateDraft user cur p (Some b)" for user cur
  by (rule assignment_editor)

interpretation invite: guarded_editor invitation setInvitation invitationCurrent
    "\<lambda>p b. invitationUpdateDraft cur p (Some b)" for cur
  by (rule invitation_editor)

lemmas stale_updates = role.update_stale assignment.update_stale invite.update_stale
lemmas fresh_updates = role.update_fresh assignment.update_fresh invite.update_fresh

lemma role_stale:
  assumes "\<not> roleCurrent role b s"
  shows "\<exists>e. roleMutationFn role cur ps b s = (s, Inl e)" "fst (roleOnSuccess role b s) = s"
    "NotifySuccess m \<notin> set (snd (roleOnSuccess role b s))" "roleOnError role cur err b s = (s, [])"
  using assms role.update_stale [OF assms]
  by (auto simp: roleMutationFn_def roleOnSuccess_def roleOnError_def roleCurrent_def Let_def split: option.splits)

lemma assignment_stale:
  assumes "\<not> assignmentCurrent user b s"
  shows "\<exists>e. assignmentMutationFn user cur ps b s = (s, Inl e)" "fst (assignmentOnSuccess user b s) = s"
    "NotifySuccess m \<notin> set (snd (assignmentOnSuccess user b s))" "assignmentOnError user cur err b s = (s, [])"
  using assms assignment.update_stale [OF assms]
  by (auto simp: assignmentMutationFn_def assignmentOnSuccess_def assignmentOnError_def assignmentCurrent_def Let_def
      split: option.splits)

lemma invitation_stale:
  assumes "\<not> invitationCurrent b s"
  shows "\<exists>e. invitationMutationFn cur roles ids b s = (s, Inl e)" "fst (invitationOnSuccess b s) = s"
    "NotifySuccess m \<notin> set (snd (invitationOnSuccess b s))" "invitationOnError cur err b s = (s, [])"
  using assms invite.update_stale [OF assms]
  by (auto simp: invitationMutationFn_def invitationOnSuccess_def invitationOnError_def invitationCurrent_def Let_def
      split: option.splits)

lemma other_owner_stale:
  assumes "ownerID s \<noteq> subOwner b"
  shows "\<not> roleCurrent role b s" "\<not> assignmentCurrent user b s" "\<not> invitationCurrent b s"
  using assms by (simp_all add: roleCurrent_def assignmentCurrent_def invitationCurrent_def split: option.splits)

text \<open>
  C40. A submission started for one user is inert for every other user: once the store belongs to
  somebody else, its mutation sends nothing, its success and its failure leave the whole store as it
  is, and neither announces a success nor reports an error; this holds for the role editor, the role
  assignment and the invitation form, whatever the drafts are.
\<close>

theorem foreign_submissions_inert:
  "let s' = setOwner u s in
   if subOwner b = Some u then True else
     (\<exists>e. roleMutationFn role cur ps b s' = (s', Inl e)) \<and> fst (roleOnSuccess role b s') = s'
     \<and> NotifySuccess m \<notin> set (snd (roleOnSuccess role b s')) \<and> roleOnError role cur err b s' = (s', [])
     \<and> (\<exists>e. assignmentMutationFn user acur roles b s' = (s', Inl e)) \<and> fst (assignmentOnSuccess user b s') = s'
     \<and> NotifySuccess m \<notin> set (snd (assignmentOnSuccess user b s')) \<and> assignmentOnError user acur err b s' = (s', [])
     \<and> (\<exists>e. invitationMutationFn icur roles ids b s' = (s', Inl e)) \<and> fst (invitationOnSuccess b s') = s'
     \<and> NotifySuccess m \<notin> set (snd (invitationOnSuccess b s')) \<and> invitationOnError icur err b s' = (s', [])"
proof (cases "subOwner b = Some u")
  case False
  then have o: "ownerID (setOwner u s) \<noteq> subOwner b" by auto
  show ?thesis
    unfolding Let_def using False role_stale [OF other_owner_stale(1) [OF o]]
      assignment_stale [OF other_owner_stale(2) [OF o]] invitation_stale [OF other_owner_stale(3) [OF o]]
    by simp
qed simp

end
