(* ===== verification/DraftLifecycle.thy ===== *)
theory DraftLifecycle
  imports DraftEditors
begin

text \<open>
  The life of a submission: what a mutation sends, and the interleavings of the role editor's
  submissions with edits, sign-out and changes of user, as a step relation over the store, the
  submissions whose mutation has not run yet and those whose request is in flight.
\<close>

subsection \<open>What is sent\<close>

lemma roleMutationFn_send:
  assumes "roleMutationFn role cur ps b s = (s', Inr rq)"
  shows "\<exists>d. roleSlot role s = Some d \<and> roleCurrent role b s \<and> trim (rName d) \<noteq> [] \<and> rPermissions d \<noteq> []
    \<and> set (rPermissions d) \<subseteq> set ps
    \<and> s' = setRoleSlot role (Some (d\<lparr>rSubmitting := True, rValidationError := None, rConflict := False\<rparr>)) s
    \<and> rq = (case role of Some r \<Rightarrow> ReplaceRoleRequest (refID r) (rName d) (rDescription d) (rPermissions d)
              (nullish (rRevision d) (refRevision r))
            | None \<Rightarrow> CreateRoleRequest (rName d) (rDescription d) (rPermissions d))"
proof -
  obtain d where d: "roleSlot role s = Some d"
    using assms by (auto simp: roleMutationFn_def Let_def split: option.splits)
  have c: "roleCurrent role b s"
    using assms d by (auto simp: roleMutationFn_def Let_def roleCurrent_def split: if_splits)
  have u: "roleUpdateDraft role cur p (Some b) s = (setRoleSlot role (Some (p d)) s, True)" for p
    by (rule role.update_fresh [OF c d])
  show ?thesis
    using assms c d u by (auto simp: roleMutationFn_def Let_def list_ex_iff split: if_splits)
qed

lemma assignmentMutationFn_send:
  assumes "assignmentMutationFn user cur roles b s = (s', Inr rq)"
  shows "\<exists>d. assignments s user = Some d \<and> assignmentCurrent user b s \<and> aRoleIDs d \<noteq> []
    \<and> set (aRoleIDs d) \<subseteq> set roles \<and> rq = ReplaceUserRolesRequest user (aRoleIDs d) (aAuthVersion d)"
proof -
  obtain d where d: "assignments s user = Some d"
    using assms by (auto simp: assignmentMutationFn_def Let_def split: option.splits)
  have c: "assignmentCurrent user b s"
    using assms d by (auto simp: assignmentMutationFn_def Let_def assignmentCurrent_def split: if_splits)
  have u: "assignmentUpdateDraft user cur p (Some b) s = (setAssignment user (Some (p d)) s, True)" for p
    by (rule assignment.update_fresh [OF c d])
  show ?thesis
    using assms c d u by (auto simp: assignmentMutationFn_def Let_def list_ex_iff split: if_splits)
qed

lemma invitationMutationFn_send:
  assumes "invitationMutationFn cur roles ids b s = (s', Inr rq)"
  shows "\<exists>d. invitation s = Some d \<and> invitationCurrent b s \<and> trim (iName d) \<noteq> [] \<and> trim (iEmail d) \<noteq> []
    \<and> iRoleIDs d \<noteq> [] \<and> set (iRoleIDs d) \<subseteq> {i \<in> set roles. case ids of None \<Rightarrow> True | Some is \<Rightarrow> i \<in> set is}
    \<and> rq = CreateInvitationRequest (iName d) (iEmail d) (iRoleIDs d)"
proof -
  obtain d where d: "invitation s = Some d"
    using assms by (auto simp: invitationMutationFn_def Let_def split: option.splits)
  have c: "invitationCurrent b s"
    using assms d by (auto simp: invitationMutationFn_def Let_def invitationCurrent_def split: if_splits)
  have u: "invitationUpdateDraft cur p (Some b) s = (setInvitation (Some (p d)) s, True)" for p
    by (rule invite.update_fresh [OF c d])
  show ?thesis
    using assms c d u by (auto simp: invitationMutationFn_def Let_def list_ex_iff split: if_splits)
qed

lemma roleMutationFn_sends:
  "case snd (roleMutationFn role cur ps b s) of
    Inl e \<Rightarrow> \<exists>msg. e = Message msg
  | Inr rq \<Rightarrow> \<exists>d. roleSlot role s = Some d \<and> roleCurrent role b s \<and> trim (rName d) \<noteq> []
      \<and> rPermissions d \<noteq> [] \<and> set (rPermissions d) \<subseteq> set ps
      \<and> rq = (case role of Some r \<Rightarrow> ReplaceRoleRequest (refID r) (rName d) (rDescription d) (rPermissions d)
                (nullish (rRevision d) (refRevision r))
              | None \<Rightarrow> CreateRoleRequest (rName d) (rDescription d) (rPermissions d))"
proof (cases "roleMutationFn role cur ps b s")
  case (Pair s' out)
  show ?thesis
  proof (cases out)
    case (Inl e)
    then show ?thesis using Pair by (auto simp: roleMutationFn_def Let_def split: option.splits if_splits prod.splits)
  next
    case (Inr rq)
    then show ?thesis using Pair roleMutationFn_send [of role cur ps b s s' rq] by fastforce
  qed
qed

lemma assignmentMutationFn_sends:
  "case snd (assignmentMutationFn user acur roles b s) of
    Inl e \<Rightarrow> \<exists>msg. e = Message msg
  | Inr rq \<Rightarrow> \<exists>d. assignments s user = Some d \<and> assignmentCurrent user b s \<and> aRoleIDs d \<noteq> []
      \<and> set (aRoleIDs d) \<subseteq> set roles \<and> rq = ReplaceUserRolesRequest user (aRoleIDs d) (aAuthVersion d)"
proof (cases "assignmentMutationFn user acur roles b s")
  case (Pair s' out)
  show ?thesis
  proof (cases out)
    case (Inl e)
    then show ?thesis using Pair
      by (auto simp: assignmentMutationFn_def Let_def split: option.splits if_splits prod.splits)
  next
    case (Inr rq)
    then show ?thesis using Pair assignmentMutationFn_send [of user acur roles b s s' rq] by fastforce
  qed
qed

lemma invitationMutationFn_sends:
  "case snd (invitationMutationFn icur roles ids b s) of
    Inl e \<Rightarrow> \<exists>msg. e = Message msg
  | Inr rq \<Rightarrow> \<exists>d. invitation s = Some d \<and> invitationCurrent b s \<and> trim (iName d) \<noteq> [] \<and> trim (iEmail d) \<noteq> []
      \<and> iRoleIDs d \<noteq> [] \<and> set (iRoleIDs d) \<subseteq> {i \<in> set roles. case ids of None \<Rightarrow> True | Some is \<Rightarrow> i \<in> set is}
      \<and> rq = CreateInvitationRequest (iName d) (iEmail d) (iRoleIDs d)"
proof (cases "invitationMutationFn icur roles ids b s")
  case (Pair s' out)
  show ?thesis
  proof (cases out)
    case (Inl e)
    then show ?thesis using Pair
      by (auto simp: invitationMutationFn_def Let_def split: option.splits if_splits prod.splits)
  next
    case (Inr rq)
    then show ?thesis using Pair invitationMutationFn_send [of icur roles ids b s s' rq] by simp
  qed
qed

text \<open>
  Only complete and permitted drafts are sent. When the mutation of an editor sends a request, the
  submission is the current one of its draft, the names are not blank, and the chosen permissions or
  roles are not empty and all among those offered; for an invitation they are also among those the
  actor may assign. When it sends nothing it throws an error of its own.
\<close>

theorem sent_requests_valid:
  "(case snd (roleMutationFn role cur ps b s) of
      Inl e \<Rightarrow> \<exists>msg. e = Message msg
    | Inr rq \<Rightarrow> \<exists>d. roleSlot role s = Some d \<and> roleCurrent role b s \<and> trim (rName d) \<noteq> []
        \<and> rPermissions d \<noteq> [] \<and> set (rPermissions d) \<subseteq> set ps
        \<and> rq = (case role of Some r \<Rightarrow> ReplaceRoleRequest (refID r) (rName d) (rDescription d) (rPermissions d)
                  (nullish (rRevision d) (refRevision r))
                | None \<Rightarrow> CreateRoleRequest (rName d) (rDescription d) (rPermissions d)))
   \<and> (case snd (assignmentMutationFn user acur roles b s) of
      Inl e \<Rightarrow> \<exists>msg. e = Message msg
    | Inr rq \<Rightarrow> \<exists>d. assignments s user = Some d \<and> assignmentCurrent user b s \<and> aRoleIDs d \<noteq> []
        \<and> set (aRoleIDs d) \<subseteq> set roles \<and> rq = ReplaceUserRolesRequest user (aRoleIDs d) (aAuthVersion d))
   \<and> (case snd (invitationMutationFn icur roles ids b s) of
      Inl e \<Rightarrow> \<exists>msg. e = Message msg
    | Inr rq \<Rightarrow> \<exists>d. invitation s = Some d \<and> invitationCurrent b s \<and> trim (iName d) \<noteq> [] \<and> trim (iEmail d) \<noteq> []
        \<and> iRoleIDs d \<noteq> [] \<and> set (iRoleIDs d) \<subseteq> {i \<in> set roles. case ids of None \<Rightarrow> True | Some is \<Rightarrow> i \<in> set is}
        \<and> rq = CreateInvitationRequest (iName d) (iEmail d) (iRoleIDs d))"
  by (intro conjI roleMutationFn_sends assignmentMutationFn_sends invitationMutationFn_sends)

subsection \<open>The life of the role editor's submissions\<close>

record life =
  store :: DraftState
  sequence :: nat
  queued :: "(roleRef option \<times> submission) set"
  inFlight :: "(roleRef option \<times> submission) set"

definition startLife :: life where
  "startLife = \<lparr>store = emptyDrafts, sequence = 0, queued = {}, inFlight = {}\<rparr>"

text \<open>A patch of the form's fields: it touches neither the submission nor its progress.\<close>

definition fieldPatch :: "(RoleDraft \<Rightarrow> RoleDraft) \<Rightarrow> bool" where
  "fieldPatch p \<longleftrightarrow> (\<forall>d. rSubmitting (p d) = rSubmitting d \<and> rSubmissionID (p d) = rSubmissionID d)"

text \<open>
  The steps. The form is inside the authenticated shell, whose effect has set the owner, so a
  submission begins with an owner; a freshly initialized draft (\<open>cur\<close>) is not submitting.
\<close>

inductive editor_step :: "life \<Rightarrow> life \<Rightarrow> bool" where
  own: "editor_step L (L\<lparr>store := setOwner u (store L)\<rparr>)"
| clear: "editor_step L (L\<lparr>store := clearAccessDrafts (store L)\<rparr>)"
| edit: "\<lbrakk>fieldPatch p; \<not> rSubmitting cur\<rbrakk> \<Longrightarrow>
    editor_step L (L\<lparr>store := fst (roleUpdateDraft role cur p None (store L))\<rparr>)"
| reset: "editor_step L (L\<lparr>store := roleReset role ini (store L)\<rparr>)"
| drop: "editor_step L (L\<lparr>store := setRoleEdit i None (store L)\<rparr>)"
| begin_submission: "\<lbrakk>roleMaySubmit (nullish (roleSlot role (store L)) cur) pending; ownerID (store L) \<noteq> None;
    roleBeginSubmission role cur now (sequence L) (store L) = (s', n, b)\<rbrakk> \<Longrightarrow>
    editor_step L (L\<lparr>store := s', sequence := n, queued := insert (role, b) (queued L)\<rparr>)"
| reject: "\<lbrakk>(role, b) \<in> queued L; roleMutationFn role cur ps b (store L) = (s', Inl err)\<rbrakk> \<Longrightarrow>
    editor_step L (L\<lparr>store := fst (roleOnError role cur err b s'), queued := queued L - {(role, b)}\<rparr>)"
| send: "\<lbrakk>(role, b) \<in> queued L; roleMutationFn role cur ps b (store L) = (s', Inr rq)\<rbrakk> \<Longrightarrow>
    editor_step L (L\<lparr>store := s', queued := queued L - {(role, b)}, inFlight := insert (role, b) (inFlight L)\<rparr>)"
| succeed: "(role, b) \<in> inFlight L \<Longrightarrow>
    editor_step L (L\<lparr>store := fst (roleOnSuccess role b (store L)), inFlight := inFlight L - {(role, b)}\<rparr>)"
| fail: "(role, b) \<in> inFlight L \<Longrightarrow>
    editor_step L (L\<lparr>store := fst (roleOnError role cur err b (store L)), inFlight := inFlight L - {(role, b)}\<rparr>)"

inductive editor_reach :: "life \<Rightarrow> bool" where
  start: "editor_reach startLife"
| step: "\<lbrakk>editor_reach L; editor_step L L'\<rbrakk> \<Longrightarrow> editor_reach L'"

text \<open>Two references to the same role share their slot, whatever revision they show.\<close>

definition sameSlot :: "roleRef option \<Rightarrow> roleRef option \<Rightarrow> bool" where
  "sameSlot r q \<longleftrightarrow> map_option refID r = map_option refID q"

lemma sameSlot_refl [simp]: "sameSlot r r"
  by (simp add: sameSlot_def)

lemma sameSlot_slot: "sameSlot r q \<Longrightarrow> roleSlot r s = roleSlot q s"
  by (cases r; cases q) (simp_all add: sameSlot_def roleSlot_def)

lemma sameSlot_current: "sameSlot r q \<Longrightarrow> roleCurrent r b s = roleCurrent q b s"
  by (simp add: roleCurrent_def sameSlot_slot)

lemma slot_of_set:
  "roleSlot q (setRoleSlot r d s) = (if sameSlot r q then d else roleSlot q s)"
  by (cases r; cases q) (auto simp: sameSlot_def roleSlot_def setRoleSlot_def setRoleEdit_def setRoleCreate_def)

lemma owner_of_set [simp]: "ownerID (setRoleSlot r d s) = ownerID s"
  by (simp add: setRoleSlot_def split: option.split)

lemma slot_empty [simp]: "roleSlot q emptyDrafts = None" "roleSlot q (emptyDrafts\<lparr>ownerID := u\<rparr>) = None"
  by (simp_all add: roleSlot_def emptyDrafts_def split: option.split)

lemma slot_owner_update [simp]: "roleSlot q (s\<lparr>ownerID := u\<rparr>) = roleSlot q s"
  by (simp add: roleSlot_def split: option.split)

text \<open>Every draft that shows its request as running has that request in flight.\<close>

definition saving :: "DraftState \<Rightarrow> (roleRef option \<times> submission) set \<Rightarrow> bool" where
  "saving s F \<longleftrightarrow> (\<forall>q d. roleSlot q s = Some d \<and> rSubmitting d \<longrightarrow>
     ownerID s \<noteq> None \<and> (\<exists>r b. (r, b) \<in> F \<and> sameSlot r q \<and> roleCurrent q b s))"

lemma savingI:
  "(\<And>q d. \<lbrakk>roleSlot q s = Some d; rSubmitting d\<rbrakk> \<Longrightarrow>
      ownerID s \<noteq> None \<and> (\<exists>r b. (r, b) \<in> F \<and> sameSlot r q \<and> roleCurrent q b s)) \<Longrightarrow> saving s F"
  unfolding saving_def by blast

lemma savingD:
  "\<lbrakk>saving s F; roleSlot q s = Some d; rSubmitting d\<rbrakk> \<Longrightarrow>
     ownerID s \<noteq> None \<and> (\<exists>r b. (r, b) \<in> F \<and> sameSlot r q \<and> roleCurrent q b s)"
  unfolding saving_def by blast

lemma current_other: "\<not> sameSlot r q \<Longrightarrow> roleCurrent q b (setRoleSlot r v s) = roleCurrent q b s"
  by (simp add: roleCurrent_def slot_of_set split: option.split)

definition quiet :: "RoleDraft option \<Rightarrow> bool" where
  "quiet v \<longleftrightarrow> (case v of None \<Rightarrow> True | Some d \<Rightarrow> \<not> rSubmitting d)"

lemma saving_put_quiet:
  assumes "saving s F" "quiet v" "\<And>r' b. \<lbrakk>(r', b) \<in> F; \<not> sameSlot r' r\<rbrakk> \<Longrightarrow> (r', b) \<in> F'"
  shows "saving (setRoleSlot r v s) F'"
proof (rule savingI)
  fix q d assume d: "roleSlot q (setRoleSlot r v s) = Some d" "rSubmitting d"
  then have n: "\<not> sameSlot r q" using assms(2) by (auto simp: slot_of_set quiet_def)
  then have "roleSlot q s = Some d" using d(1) by (simp add: slot_of_set)
  from savingD [OF assms(1) this d(2)]
  obtain r' b where "(r', b) \<in> F" "sameSlot r' q" "roleCurrent q b s" "ownerID s \<noteq> None" by blast
  moreover from this n have "\<not> sameSlot r' r" by (auto simp: sameSlot_def)
  ultimately show "ownerID (setRoleSlot r v s) \<noteq> None \<and>
      (\<exists>r' b. (r', b) \<in> F' \<and> sameSlot r' q \<and> roleCurrent q b (setRoleSlot r v s))"
    using assms(3) n by (auto simp: current_other)
qed

text \<open>A change of the form's fields moves neither the submission nor its progress.\<close>

lemma saving_put_fields:
  assumes "saving s F" "roleSlot r s = Some d" "fieldPatch p"
  shows "saving (setRoleSlot r (Some (p d)) s) F"
proof (rule savingI)
  fix q d' assume d': "roleSlot q (setRoleSlot r (Some (p d)) s) = Some d'" "rSubmitting d'"
  have "\<exists>e. roleSlot q s = Some e \<and> rSubmitting e"
    using d' assms(2,3) sameSlot_slot [of r q s]
    by (cases "sameSlot r q") (auto simp: slot_of_set fieldPatch_def)
  then obtain e where e: "roleSlot q s = Some e" "rSubmitting e" by blast
  have "roleCurrent q b (setRoleSlot r (Some (p d)) s) = roleCurrent q b s" for b
    using assms(2,3) sameSlot_slot [of r q s]
    by (cases "sameSlot r q") (auto simp: roleCurrent_def slot_of_set fieldPatch_def split: option.split)
  with savingD [OF assms(1) e] show "ownerID (setRoleSlot r (Some (p d)) s) \<noteq> None \<and>
      (\<exists>r' b. (r', b) \<in> F \<and> sameSlot r' q \<and> roleCurrent q b (setRoleSlot r (Some (p d)) s))"
    by simp
qed

lemma saving_edit:
  assumes "saving s F" "fieldPatch p" "\<not> rSubmitting cur"
  shows "saving (fst (roleUpdateDraft role cur p None s)) F"
proof (cases "roleSlot role s")
  case None
  then show ?thesis using assms saving_put_quiet [OF assms(1), of "Some (p cur)" role F]
    by (simp add: roleUpdateDraft_def quiet_def fieldPatch_def)
next
  case (Some d)
  then show ?thesis using saving_put_fields [OF assms(1) Some assms(2)] by (simp add: roleUpdateDraft_def)
qed

lemma saving_update:
  assumes "saving s F" "fieldPatch p"
  shows "saving (fst (roleUpdateDraft role cur p (Some b) s)) F"
proof (cases "roleCurrent role b s")
  case True
  then obtain d where d: "roleSlot role s = Some d" by (auto simp: roleCurrent_def split: option.splits)
  show ?thesis using role.update_fresh [OF True d] saving_put_fields [OF assms(1) d assms(2)] by simp
qed (use assms role.stale_keeps in simp)

lemma current_set: "roleCurrent role b (setRoleSlot role (Some d) s) \<longleftrightarrow>
    ownerID s = subOwner b \<and> rSubmissionID d = Some (subID b)"
  by (simp add: roleCurrent_def slot_of_set)

lemma set_set: "setRoleSlot r v (setRoleSlot r w s) = setRoleSlot r v s"
  by (cases r) (simp_all add: setRoleSlot_def setRoleEdit_def setRoleCreate_def)

lemma roleOnError_store:
  "if roleCurrent role b s then \<exists>d. fst (roleOnError role cur err b s) = setRoleSlot role (Some d) s \<and> \<not> rSubmitting d
   else fst (roleOnError role cur err b s) = s"
proof (cases "roleCurrent role b s")
  case True
  then obtain d where d: "roleSlot role s = Some d" by (auto simp: roleCurrent_def split: option.splits)
  let ?d = "d\<lparr>rSubmitting := False\<rparr>"
  have c: "roleCurrent role b (setRoleSlot role (Some ?d) s)"
    using True d by (simp add: current_set) (simp add: roleCurrent_def)
  have "roleSlot role (setRoleSlot role (Some ?d) s) = Some ?d" by (simp add: slot_of_set)
  from role.update_fresh [OF c this] role.update_fresh [OF True d] True show ?thesis
    by (auto simp: roleOnError_def set_set)
qed (use role_stale(4) in \<open>simp add: role.update_stale\<close>)

lemma saving_drop_stale:
  assumes "saving s F" "\<not> roleCurrent role b s"
  shows "saving s (F - {(role, b)})"
proof (rule savingI)
  fix q d assume "roleSlot q s = Some d" "rSubmitting d"
  from savingD [OF assms(1) this] obtain r' b' where
    "ownerID s \<noteq> None" "(r', b') \<in> F" "sameSlot r' q" "roleCurrent q b' s" by blast
  moreover from this have "(r', b') \<noteq> (role, b)" using assms(2) sameSlot_current by blast
  ultimately show "ownerID s \<noteq> None \<and> (\<exists>r b'. (r, b') \<in> F - {(role, b)} \<and> sameSlot r q \<and> roleCurrent q b' s)"
    by blast
qed

lemma saving_onError: "saving s F \<Longrightarrow> saving (fst (roleOnError role cur err b s)) (F - {(role, b)})"
  using roleOnError_store [of role b s cur err] saving_drop_stale [of s F role b]
  by (cases "roleCurrent role b s") (auto simp: quiet_def intro!: saving_put_quiet)

lemma saving_mono: "\<lbrakk>saving s F; F \<subseteq> F'\<rbrakk> \<Longrightarrow> saving s F'"
  unfolding saving_def by blast

lemma saving_onSuccess: "saving s F \<Longrightarrow> saving (fst (roleOnSuccess role b s)) (F - {(role, b)})"
proof (cases "roleCurrent role b s")
  case True
  assume s: "saving s F"
  have "fst (roleOnSuccess role b s) = setRoleSlot role None s"
    using True by (auto simp: roleOnSuccess_def roleCurrent_def Let_def split: option.splits)
  then show ?thesis using s by (auto simp: quiet_def intro!: saving_put_quiet)
qed (use role_stale(2) saving_drop_stale in simp)

lemma saving_reject:
  assumes "saving s F" "roleMutationFn role cur ps b s = (s', Inl err)"
  shows "saving s' F"
proof -
  have "s' = s \<or> (\<exists>v. s' = fst (roleUpdateDraft role cur (\<lambda>d. d\<lparr>rValidationError := v\<rparr>) (Some b) s))
    \<or> (\<exists>p. roleUpdateDraft role cur p (Some b) s = (s', False))"
    using assms(2) by (auto simp: roleMutationFn_def Let_def split: option.splits if_splits prod.splits)
  moreover have "fieldPatch (\<lambda>d. d\<lparr>rValidationError := v\<rparr>)" for v by (simp add: fieldPatch_def)
  moreover have "s' = s" if "roleUpdateDraft role cur p (Some b) s = (s', False)" for p
    using that by (auto simp: roleUpdateDraft_def Let_def split: if_splits)
  ultimately show ?thesis using assms(1) saving_update by blast
qed

lemma saving_send:
  assumes "saving s F" "roleMutationFn role cur ps b s = (s', Inr rq)" "ownerID s \<noteq> None"
  shows "saving s' (insert (role, b) F)"
proof (rule savingI)
  fix q d assume d: "roleSlot q s' = Some d" "rSubmitting d"
  from roleMutationFn_send [OF assms(2)] obtain d0 where d0: "roleSlot role s = Some d0" "roleCurrent role b s"
    and s': "s' = setRoleSlot role (Some (d0\<lparr>rSubmitting := True, rValidationError := None, rConflict := False\<rparr>)) s"
    by blast
  show "ownerID s' \<noteq> None \<and> (\<exists>r b'. (r, b') \<in> insert (role, b) F \<and> sameSlot r q \<and> roleCurrent q b' s')"
  proof (cases "sameSlot role q")
    case True
    have "roleCurrent role b s'" using d0 unfolding s' current_set by (simp add: roleCurrent_def)
    then show ?thesis using True sameSlot_current assms(3) unfolding s' by fastforce
  next
    case False
    then show ?thesis using savingD [OF assms(1), of q d] d unfolding s' by (auto simp: slot_of_set current_other)
  qed
qed


text \<open>A request in flight was sent for an owner, so a draft that is saving has one.\<close>

definition owned :: "life \<Rightarrow> bool" where
  "owned L \<longleftrightarrow> (\<forall>(r, b)\<in>queued L. subOwner b \<noteq> None)"

lemma current_owner: "roleCurrent role b s \<Longrightarrow> ownerID s = subOwner b"
  by (simp add: roleCurrent_def split: option.splits)

lemma saving_own: "saving s F \<Longrightarrow> saving (setOwner u s) F"
proof (cases "ownerID s")
  case None
  assume "saving s F"
  then have "\<And>q d. roleSlot q s = Some d \<Longrightarrow> \<not> rSubmitting d" using savingD None by blast
  then show ?thesis using None unfolding setOwner_def saving_def by fastforce
next
  case (Some v)
  then show "saving s F \<Longrightarrow> ?thesis"
    by (cases "v = u") (simp_all add: setOwner_same setOwner_other saving_def)
qed

lemma roleBegin_store:
  assumes "roleBeginSubmission role cur now n0 s = (s', n, b)"
  shows "subOwner b = ownerID s \<and> (\<exists>d. s' = setRoleSlot role (Some d) s \<and> \<not> rSubmitting d)"
  using assms by (auto simp: roleBeginSubmission_def roleUpdateDraft_def Let_def split: prod.splits)

lemma editor_step_saving:
  assumes "editor_step L L'" "saving (store L) (inFlight L)" "owned L"
  shows "saving (store L') (inFlight L') \<and> owned L'"
  using assms
proof (induction rule: editor_step.induct)
  case (own L u)
  then show ?case by (simp add: saving_own owned_def)
next
  case (clear L)
  then show ?case by (simp add: saving_def clearAccessDrafts_def clearAll_def owned_def)
next
  case (edit p cur L role)
  then show ?case by (simp add: saving_edit owned_def)
next
  case (reset L role ini)
  then show ?case by (auto simp: roleReset_def quiet_def owned_def intro!: saving_put_quiet)
next
  case (drop L i)
  have "setRoleEdit i None (store L) = setRoleSlot (Some \<lparr>refID = i, refRevision = 0\<rparr>) None (store L)"
    by (simp add: setRoleSlot_def)
  with drop show ?case by (auto simp: quiet_def owned_def intro!: saving_put_quiet)
next
  case (begin_submission role L cur pending now s' n b)
  then show ?case using roleBegin_store [OF begin_submission(3)]
    by (auto simp: quiet_def owned_def intro!: saving_put_quiet)
next
  case (reject role b L cur ps s' err)
  then have "saving s' (inFlight L)" using saving_reject by blast
  from saving_mono [OF saving_onError [OF this]] reject show ?case by (auto simp: owned_def)
next
  case (send role b L cur ps s' rq)
  then have "ownerID (store L) \<noteq> None"
    using roleMutationFn_send [OF send(2)] current_owner by (fastforce simp: owned_def)
  with send show ?case using saving_send by (auto simp: owned_def)
next
  case (succeed role b L)
  then show ?case by (simp add: saving_onSuccess owned_def)
next
  case (fail role b L cur err)
  then show ?case by (simp add: saving_onError owned_def)
qed

lemma editor_reach_saving: "editor_reach L \<Longrightarrow> saving (store L) (inFlight L) \<and> owned L"
proof (induction rule: editor_reach.induct)
  case start
  then show ?case by (simp add: startLife_def saving_def owned_def)
qed (use editor_step_saving in blast)

text \<open>
  No role draft is stuck in the saving state. In every interleaving of edits, submissions, replies
  in any order, sign-out and changes of user, a draft that shows its request as running has such a
  request in flight for the very submission and owner it names; so when no reply is outstanding no
  role draft is saving.
\<close>

theorem no_draft_stuck:
  assumes "editor_reach L"
  shows "saving (store L) (inFlight L) \<and>
    (inFlight L = {} \<longrightarrow> (case roleSlot q (store L) of None \<Rightarrow> True | Some d \<Rightarrow> \<not> rSubmitting d))"
  using editor_reach_saving [OF assms] savingD [of "store L" "inFlight L" q] by (auto split: option.splits)

text \<open>A run: an administrator fills the form, submits it, and is signed out before the reply.\<close>

definition exampleDraft :: RoleDraft where
  "exampleDraft = \<lparr>rID = None, rRevision = None, rName = js ''Ops'', rDescription = [], rPermissions = [js ''users.read''],
     rExplicit = None, rSubmitting = False, rConflict = False, rSubmissionID = None, rValidationError = None\<rparr>"

definition exampleBegun :: "DraftState \<times> nat \<times> submission" where
  "exampleBegun = roleBeginSubmission None exampleDraft 0 0 (setOwner (js ''u1'') emptyDrafts)"

definition exampleSent :: DraftState where
  "exampleSent = fst (roleMutationFn None exampleDraft [js ''users.read''] (snd (snd exampleBegun)) (fst exampleBegun))"

definition exampleLife :: life where
  "exampleLife = \<lparr>store = exampleSent, sequence = 1, queued = {}, inFlight = {(None, snd (snd exampleBegun))}\<rparr>"

lemma example_begin:
  "exampleBegun = (emptyDrafts\<lparr>ownerID := Some (js ''u1''), roleCreate := Some (exampleDraft\<lparr>rSubmissionID := Some (js ''0-1'')\<rparr>)\<rparr>,
     1, \<lparr>subOwner = Some (js ''u1''), subUser = [], subID = js ''0-1''\<rparr>)"
  by (simp add: exampleBegun_def roleBeginSubmission_def nextDraftSubmissionID_def roleUpdateDraft_def roleSlot_def
      setRoleSlot_def setRoleCreate_def setOwner_def emptyDrafts_def exampleDraft_def radix_str.simps digit_unit_def
      js_eval)

lemma example_send:
  "roleMutationFn None exampleDraft [js ''users.read''] (snd (snd exampleBegun)) (fst exampleBegun) =
     (exampleSent, Inr (CreateRoleRequest (js ''Ops'') [] [js ''users.read'']))"
  by (simp add: exampleSent_def example_begin roleMutationFn_def roleUpdateDraft_def roleSlot_def exampleDraft_def
      trim_def ws_char_def js_eval)

lemma example_reach: "editor_reach exampleLife"
proof -
  let ?L1 = "startLife\<lparr>store := setOwner (js ''u1'') (store startLife)\<rparr>"
  let ?L2 = "?L1\<lparr>store := fst exampleBegun, sequence := fst (snd exampleBegun),
    queued := insert (None, snd (snd exampleBegun)) (queued ?L1)\<rparr>"
  let ?b = "snd (snd exampleBegun)"
  have 1: "editor_reach ?L1" by (rule editor_reach.step [OF editor_reach.start editor_step.own])
  have "editor_step ?L1 ?L2"
  proof (rule editor_step.begin_submission)
    show "roleMaySubmit (nullish (roleSlot None (store ?L1)) exampleDraft) False"
      by (simp add: roleMaySubmit_def exampleDraft_def roleSlot_def startLife_def setOwner_def emptyDrafts_def)
    show "roleBeginSubmission None exampleDraft 0 (life.sequence ?L1) (store ?L1) =
        (fst exampleBegun, fst (snd exampleBegun), snd (snd exampleBegun))"
      by (simp add: exampleBegun_def startLife_def)
  qed simp
  with 1 have 2: "editor_reach ?L2" by (rule editor_reach.step)
  have "editor_step ?L2 (?L2\<lparr>store := exampleSent, queued := queued ?L2 - {(None, ?b)},
      inFlight := insert (None, ?b) (inFlight ?L2)\<rparr>)"
  proof (rule editor_step.send)
    show "roleMutationFn None exampleDraft [js ''users.read''] ?b (store ?L2) =
        (exampleSent, Inr (CreateRoleRequest (js ''Ops'') [] [js ''users.read'']))"
      using example_send by simp
  qed simp
  from editor_reach.step [OF 2 this] show ?thesis
    by (simp add: exampleLife_def startLife_def example_begin)
qed

theorem no_draft_stuck_witness:
  "saving (store exampleLife) (inFlight exampleLife) \<and> inFlight exampleLife \<noteq> {}
   \<and> (case roleSlot None (store exampleLife) of None \<Rightarrow> False | Some d \<Rightarrow> rSubmitting d)"
  using no_draft_stuck [OF example_reach, of None]
  by (simp add: exampleLife_def exampleSent_def example_begin roleMutationFn_def roleUpdateDraft_def roleSlot_def
      setRoleSlot_def setRoleCreate_def exampleDraft_def trim_def ws_char_def js_eval)


subsection \<open>The mail settings\<close>

lemma whole_inRange:
  "\<lbrakk>inRange (of_int lo) (of_int hi) v; isInteger v\<rbrakk> \<Longrightarrow> \<exists>n::int. v = Finite (of_int n) \<and> lo \<le> n \<and> n \<le> hi"
proof (cases v)
  case (Finite x)
  assume r: "inRange (of_int lo) (of_int hi) v" "isInteger v"
  then obtain n :: int where n: "x = of_int n" using Finite by (metis isInteger.simps(1))
  with r(1) Finite show ?thesis by auto
qed simp

text \<open>
  The mail settings are sent only with a default language and a retry policy in range, and an empty
  password field never overwrites the stored password: the request carries a password only if it is
  not empty. Otherwise nothing is sent and the store is unchanged.
\<close>

theorem mail_settings_sent_valid:
  "case emailMutationFn cur s of
     (s', Inl e) \<Rightarrow> s' = s \<and> (\<exists>msg. e = Message msg)
   | (s', Inr inp) \<Rightarrow> eDefaultLocale cur = Some (nDefaultLocale inp) \<and> nPassword inp \<noteq> Some []
       \<and> (\<exists>n::int. nAutoRetryCount inp = Finite (of_int n) \<and> 0 \<le> n \<and> n \<le> 100)
       \<and> (\<exists>n::int. nRetentionDays inp = Finite (of_int n) \<and> 1 \<le> n \<and> n \<le> 3650)
       \<and> nRevision inp = eRevision cur \<and> ownerID s' = ownerID s
       \<and> emailSettings s' = Some (cur\<lparr>eSubmitting := True\<rparr>)"
  using whole_inRange [of 0 100 "eAutoRetryCount cur"] whole_inRange [of 1 3650 "eRetentionDays cur"]
  by (simp add: emailMutationFn_def setEmailSettings_def split: option.split)

text \<open>
  The mail settings are not guarded by a submission. When the drafts are cleared (sign-out, expired
  session) while a save is running and the save then fails, \<open>onError\<close> puts the draft it last rendered
  back into the store, password included; the next user takes the store over with it, since the
  cleared store has no owner.
\<close>

lemma email_failure_resurrects_password:
  "case emailSettings (setOwner u (emailOnError cur err (clearAccessDrafts s))) of
     None \<Rightarrow> False | Some d \<Rightarrow> ePassword d = ePassword cur"
  by (simp add: emailOnError_def clearAccessDrafts_def clearAll_def emptyDrafts_def setOwner_def setEmailSettings_def)

end
