(* ===== verification/Messages.thy ===== *)
theory Messages
  imports JsRegex
begin

text \<open>
  The texts of the Bind Plane API and its worker in the interface language
  (\<open>features/release/messages.ts\<close>): a table of fixed texts, a list of patterns for texts that
  carry values, and the functions that look a text up. A template is the list of its pieces:
  literal text, a captured part, a captured part translated in its turn, and the three words chosen
  by a captured part. A function that returns \<open>undefined\<close> gives \<open>None\<close>.
\<close>

type_synonym words = "jstr \<times> jstr"

definition chooseWord :: "words \<Rightarrow> bool \<Rightarrow> jstr" where
  "chooseWord v zh = (if zh then snd v else fst v)"

definition unavailable :: words where
  "unavailable = (js ''The service is unavailable right now. Try again shortly.'', [0x670D, 0x52A1, 0x6682, 0x65F6, 0x4E0D, 0x53EF, 0x7528, 0xFF0C, 0x8BF7, 0x7A0D, 0x540E, 0x91CD, 0x8BD5, 0x3002])"

definition unreadable :: words where
  "unreadable = (js ''The request could not be read. Refresh the page and try again.'', [0x8BF7, 0x6C42, 0x65E0, 0x6CD5, 0x8BC6, 0x522B, 0xFF0C, 0x8BF7, 0x5237, 0x65B0, 0x9875, 0x9762, 0x540E, 0x91CD, 0x8BD5, 0x3002])"

definition rejectedRow :: words where
  "rejectedRow = (js ''The database rejected this row.'', [0x6570, 0x636E, 0x5E93, 0x62D2, 0x7EDD, 0x4E86, 0x8FD9, 0x4E00, 0x884C, 0x3002])"

definition tooShort :: words where
  "tooShort = (js ''The backup output is too short to be a configuration.'', [0x5907, 0x4EFD, 0x8F93, 0x51FA, 0x8FC7, 0x77ED, 0xFF0C, 0x4E0D, 0x50CF, 0x5B8C, 0x6574, 0x914D, 0x7F6E, 0x3002])"

definition fixed :: "(jstr \<times> words) list" where
  "fixed = [
    (js ''invalid request'', unreadable),
    (js ''JSON required'', unreadable),
    (js ''exactly one JSON object required'', unreadable),
    (js ''invalid filter'', (js ''These filters cannot be used. Clear them and try again.'', [0x7B5B, 0x9009, 0x6761, 0x4EF6, 0x65E0, 0x6548, 0xFF0C, 0x8BF7, 0x6E05, 0x9664, 0x540E, 0x91CD, 0x8BD5, 0x3002])),
    (js ''login required'', (js ''Your session has ended. Sign in again.'', [0x767B, 0x5F55, 0x5DF2, 0x5931, 0x6548, 0xFF0C, 0x8BF7, 0x91CD, 0x65B0, 0x767B, 0x5F55, 0x3002])),
    (js ''invalid origin'', (js ''The request was refused because it came from another site.'', [0x8BF7, 0x6C42, 0x6765, 0x6E90, 0x4E0D, 0x53D7, 0x4FE1, 0x4EFB, 0xFF0C, 0x5DF2, 0x88AB, 0x62D2, 0x7EDD, 0x3002])),
    (js ''admin role required'', (js ''This needs the Admin role.'', [0x9700, 0x8981, 0x7BA1, 0x7406, 0x5458, 0x89D2, 0x8272, 0x3002])),
    (js ''operator role required'', (js ''This needs the Operator or Admin role.'', [0x9700, 0x8981, 0x64CD, 0x4F5C, 0x5458, 0x6216, 0x7BA1, 0x7406, 0x5458, 0x89D2, 0x8272, 0x3002])),
    (js ''admin force required'', (js ''Only an admin can force a release.'', [0x53EA, 0x6709, 0x7BA1, 0x7406, 0x5458, 0x53EF, 0x4EE5, 0x5F3A, 0x5236, 0x89E3, 0x7ED1, 0x3002])),
    (js ''preparation job required'', (js ''Query the binding first.'', [0x8BF7, 0x5148, 0x67E5, 0x8BE2, 0x7ED1, 0x5B9A, 0x72B6, 0x6001, 0x3002])),
    (js ''release reason required'', (js ''Choose a release reason.'', [0x8BF7, 0x9009, 0x62E9, 0x89E3, 0x7ED1, 0x539F, 0x56E0, 0x3002])),
    (js ''not found'', (js ''It no longer exists, or you cannot see it.'', [0x5BF9, 0x8C61, 0x4E0D, 0x5B58, 0x5728, 0xFF0C, 0x6216, 0x4F60, 0x65E0, 0x6743, 0x67E5, 0x770B, 0x3002])),
    (js ''conflict'', (js ''It changed in the meantime. Reload and try again.'', [0x5185, 0x5BB9, 0x5DF2, 0x88AB, 0x4FEE, 0x6539, 0xFF0C, 0x8BF7, 0x5237, 0x65B0, 0x540E, 0x91CD, 0x8BD5, 0x3002])),
    (js ''service unavailable'', unavailable),
    (js ''asset store unavailable'', unavailable),
    (js ''asset audit unavailable'', unavailable),
    (js ''device operations store unavailable'', unavailable),
    (js ''encryption unavailable'', (js ''Credential encryption is not configured on the server.'', [0x670D, 0x52A1, 0x5668, 0x672A, 0x914D, 0x7F6E, 0x51ED, 0x636E, 0x52A0, 0x5BC6, 0x5BC6, 0x94A5, 0x3002])),
    (js ''asset changed since it was loaded; reload and try again'', (js ''Someone changed this asset after you opened it. Close the editor and open it again to edit the latest version.'', [0x6253, 0x5F00, 0x540E, 0x8BE5, 0x8D44, 0x4EA7, 0x5DF2, 0x88AB, 0x5176, 0x4ED6, 0x4EBA, 0x4FEE, 0x6539, 0x3002, 0x8BF7, 0x5173, 0x95ED, 0x7F16, 0x8F91, 0x6846, 0x540E, 0x91CD, 0x65B0, 0x6253, 0x5F00, 0xFF0C, 0x5728, 0x6700, 0x65B0, 0x5185, 0x5BB9, 0x4E0A, 0x4FEE, 0x6539, 0x3002])),
    (js ''change conflicts with existing assets'', (js ''Another asset already uses this name or address, or a selected item no longer exists.'', [0x540D, 0x79F0, 0x6216, 0x5730, 0x5740, 0x5DF2, 0x88AB, 0x5176, 0x4ED6, 0x8D44, 0x4EA7, 0x4F7F, 0x7528, 0xFF0C, 0x6216, 0x6240, 0x9009, 0x5BF9, 0x8C61, 0x5DF2, 0x4E0D, 0x5B58, 0x5728, 0x3002])),
    (js ''credential could not be saved'', (js ''The credential could not be saved; its name may already be in use.'', [0x51ED, 0x636E, 0x65E0, 0x6CD5, 0x4FDD, 0x5B58, 0xFF0C, 0x540D, 0x79F0, 0x53EF, 0x80FD, 0x5DF2, 0x88AB, 0x4F7F, 0x7528, 0x3002])),
    (js ''profile could not be saved'', (js ''The command profile could not be saved; its name may already be in use.'', [0x547D, 0x4EE4, 0x6A21, 0x677F, 0x65E0, 0x6CD5, 0x4FDD, 0x5B58, 0xFF0C, 0x540D, 0x79F0, 0x53EF, 0x80FD, 0x5DF2, 0x88AB, 0x4F7F, 0x7528, 0x3002])),
    (js ''group could not be saved'', (js ''The group could not be saved; its name may already be in use.'', [0x5206, 0x7EC4, 0x65E0, 0x6CD5, 0x4FDD, 0x5B58, 0xFF0C, 0x540D, 0x79F0, 0x53EF, 0x80FD, 0x5DF2, 0x88AB, 0x4F7F, 0x7528, 0x3002])),
    (js ''network could not be saved'', (js ''The network could not be saved: it may already exist, or its switch is gone.'', [0x7F51, 0x6BB5, 0x65E0, 0x6CD5, 0x4FDD, 0x5B58, 0xFF1A, 0x5B83, 0x53EF, 0x80FD, 0x5DF2, 0x7ECF, 0x5B58, 0x5728, 0xFF0C, 0x6216, 0x6240, 0x5C5E, 0x4EA4, 0x6362, 0x673A, 0x5DF2, 0x4E0D, 0x5B58, 0x5728, 0x3002])),
    (js ''switch could not be saved'', (js ''The switch could not be saved; its name or management IP may already be in use.'', [0x4EA4, 0x6362, 0x673A, 0x65E0, 0x6CD5, 0x4FDD, 0x5B58, 0xFF0C, 0x540D, 0x79F0, 0x6216, 0x7BA1, 0x7406] @ js '' IP '' @ [0x53EF, 0x80FD, 0x5DF2, 0x88AB, 0x4F7F, 0x7528, 0x3002])),
    (js ''rule could not be saved (duplicate name or missing group)'', (js ''The rule could not be saved: its name is taken, or its group no longer exists.'', [0x89C4, 0x5219, 0x65E0, 0x6CD5, 0x4FDD, 0x5B58, 0xFF1A, 0x540D, 0x79F0, 0x5DF2, 0x88AB, 0x4F7F, 0x7528, 0xFF0C, 0x6216, 0x6240, 0x9009, 0x5206, 0x7EC4, 0x5DF2, 0x4E0D, 0x5B58, 0x5728, 0x3002])),
    (js ''schedule could not be saved (duplicate name or missing group)'', (js ''The schedule could not be saved: its name is taken, or its group no longer exists.'', [0x8BA1, 0x5212, 0x4EFB, 0x52A1, 0x65E0, 0x6CD5, 0x4FDD, 0x5B58, 0xFF1A, 0x540D, 0x79F0, 0x5DF2, 0x88AB, 0x4F7F, 0x7528, 0xFF0C, 0x6216, 0x6240, 0x9009, 0x5206, 0x7EC4, 0x5DF2, 0x4E0D, 0x5B58, 0x5728, 0x3002])),
    (js ''group not found'', (js ''That group no longer exists.'', [0x8BE5, 0x5206, 0x7EC4, 0x5DF2, 0x4E0D, 0x5B58, 0x5728, 0x3002])),
    (js ''alert is not open'', (js ''This alert has already been handled.'', [0x8BE5, 0x544A, 0x8B66, 0x5DF2, 0x88AB, 0x5904, 0x7406, 0x3002])),
    (js ''both versions must exist and belong to one switch'', (js ''Both configuration versions must exist and belong to the same switch.'', [0x4E24, 0x4E2A, 0x914D, 0x7F6E, 0x7248, 0x672C, 0x90FD, 0x5FC5, 0x987B, 0x5B58, 0x5728, 0xFF0C, 0x5E76, 0x4E14, 0x5C5E, 0x4E8E, 0x540C, 0x4E00, 0x53F0, 0x4EA4, 0x6362, 0x673A, 0x3002])),
    (js ''canonical IPv4 CIDR required'', (js ''Enter an IPv4 network such as 10.0.0.0/24, with the host bits set to zero.'', [0x8BF7, 0x8F93, 0x5165] @ js '' IPv4 '' @ [0x7F51, 0x6BB5, 0xFF0C, 0x4F8B, 0x5982] @ js '' 10.0.0.0/24'' @ [0xFF08, 0x4E3B, 0x673A, 0x4F4D, 0x5FC5, 0x987B, 0x4E3A] @ js '' 0'' @ [0xFF09, 0x3002])),
    (js ''credential name, username and password required'', (js ''Name, device username and device password are required.'', [0x540D, 0x79F0, 0x3001, 0x8BBE, 0x5907, 0x7528, 0x6237, 0x540D, 0x548C, 0x8BBE, 0x5907, 0x5BC6, 0x7801, 0x90FD, 0x5FC5, 0x987B, 0x586B, 0x5199, 0x3002])),
    (js ''current version required'', (js ''The version being edited is unknown. Reload and try again.'', [0x65E0, 0x6CD5, 0x786E, 0x5B9A, 0x6B63, 0x5728, 0x7F16, 0x8F91, 0x7684, 0x7248, 0x672C, 0xFF0C, 0x8BF7, 0x5237, 0x65B0, 0x540E, 0x91CD, 0x8BD5, 0x3002])),
    (js ''group name required'', (js ''Enter a group name.'', [0x8BF7, 0x8F93, 0x5165, 0x5206, 0x7EC4, 0x540D, 0x79F0, 0x3002])),
    (js ''invalid credential'', (js ''The credential is not valid.'', [0x51ED, 0x636E, 0x5185, 0x5BB9, 0x65E0, 0x6548, 0x3002])),
    (js ''invalid group'', (js ''The group is not valid.'', [0x5206, 0x7EC4, 0x5185, 0x5BB9, 0x65E0, 0x6548, 0x3002])),
    (js ''invalid network'', (js ''The network is not valid.'', [0x7F51, 0x6BB5, 0x5185, 0x5BB9, 0x65E0, 0x6548, 0x3002])),
    (js ''invalid profile'', (js ''The command profile is not valid.'', [0x547D, 0x4EE4, 0x6A21, 0x677F, 0x5185, 0x5BB9, 0x65E0, 0x6548, 0x3002])),
    (js ''invalid rule'', (js ''The rule is not valid.'', [0x89C4, 0x5219, 0x5185, 0x5BB9, 0x65E0, 0x6548, 0x3002])),
    (js ''invalid schedule'', (js ''The schedule is not valid.'', [0x8BA1, 0x5212, 0x4EFB, 0x52A1, 0x5185, 0x5BB9, 0x65E0, 0x6548, 0x3002])),
    (js ''invalid switch asset'', (js ''The switch is not valid. Check the management IP, port and selections.'', [0x4EA4, 0x6362, 0x673A, 0x4FE1, 0x606F, 0x65E0, 0x6548, 0xFF0C, 0x8BF7, 0x68C0, 0x67E5, 0x7BA1, 0x7406] @ js '' IP'' @ [0x3001, 0x7AEF, 0x53E3, 0x548C, 0x5404, 0x9879, 0x9009, 0x62E9, 0x3002])),
    (js ''kind (switches or networks) and CSV text required'', (js ''Choose what to import and paste the CSV text.'', [0x8BF7, 0x9009, 0x62E9, 0x5BFC, 0x5165, 0x7C7B, 0x578B, 0xFF0C, 0x5E76, 0x7C98, 0x8D34] @ js '' CSV '' @ [0x5185, 0x5BB9, 0x3002])),
    (js ''kind and a scope (all, group or switches) required'', (js ''Choose a task type and the switches to run it on.'', [0x8BF7, 0x9009, 0x62E9, 0x4EFB, 0x52A1, 0x7C7B, 0x578B, 0x548C, 0x6267, 0x884C, 0x8303, 0x56F4, 0x3002])),
    (js ''name, kind and scope (all, or group with a group) required'', (js ''Name, task type and scope are required; a group scope needs a group.'', [0x540D, 0x79F0, 0x3001, 0x4EFB, 0x52A1, 0x7C7B, 0x578B, 0x548C, 0x8303, 0x56F4, 0x90FD, 0x5FC5, 0x987B, 0x586B, 0x5199, 0xFF1B, 0x6309, 0x5206, 0x7EC4, 0x6267, 0x884C, 0x65F6, 0x9700, 0x8981, 0x9009, 0x62E9, 0x5206, 0x7EC4, 0x3002])),
    (js ''name, mode, severity and optional vendor or group required'', (js ''Name, check mode and severity are required.'', [0x540D, 0x79F0, 0x3001, 0x5224, 0x5B9A, 0x65B9, 0x5F0F, 0x548C, 0x4E25, 0x91CD, 0x7EA7, 0x522B, 0x90FD, 0x5FC5, 0x987B, 0x586B, 0x5199, 0x3002])),
    (js ''patterns must be arrays'', (js ''Pattern lists must be JSON arrays, such as ['' @ [0x22] @ js ''Error:'' @ [0x22] @ js ''].'', [0x89C4, 0x5219, 0x5217, 0x8868, 0x5FC5, 0x987B, 0x662F] @ js '' JSON '' @ [0x6570, 0x7EC4, 0xFF0C, 0x4F8B, 0x5982] @ js '' ['' @ [0x22] @ js ''Error:'' @ [0x22] @ js '']'' @ [0x3002])),
    (js ''profile rules must be objects'', (js ''Commands and parsing rules must be JSON objects.'', [0x547D, 0x4EE4, 0x548C, 0x89E3, 0x6790, 0x89C4, 0x5219, 0x5FC5, 0x987B, 0x662F] @ js '' JSON '' @ [0x5BF9, 0x8C61, 0x3002])),
    (js ''profile rules must be objects and patterns must be arrays'', (js ''Rules must be JSON objects, and pattern lists JSON arrays.'', [0x89C4, 0x5219, 0x5FC5, 0x987B, 0x662F] @ js '' JSON '' @ [0x5BF9, 0x8C61, 0xFF0C, 0x89C4, 0x5219, 0x5217, 0x8868, 0x5FC5, 0x987B, 0x662F] @ js '' JSON '' @ [0x6570, 0x7EC4, 0x3002])),
    (js ''cron expression needs five fields: minute hour day month weekday'', (js ''A cron expression has five fields: minute hour day month weekday.'', js ''cron '' @ [0x8868, 0x8FBE, 0x5F0F, 0x9700, 0x8981] @ js '' 5 '' @ [0x4E2A, 0x5B57, 0x6BB5, 0xFF1A, 0x5206] @ js '' '' @ [0x65F6] @ js '' '' @ [0x65E5] @ js '' '' @ [0x6708] @ js '' '' @ [0x5468, 0x3002])),
    (js ''cron expression never matches'', (js ''This cron expression never runs.'', [0x8FD9, 0x4E2A] @ js '' cron '' @ [0x8868, 0x8FBE, 0x5F0F, 0x6C38, 0x8FDC, 0x4E0D, 0x4F1A, 0x89E6, 0x53D1, 0x3002])),
    (js ''pattern must be 1-2000 characters'', (js ''The pattern must be 1 to 2000 characters long.'', [0x5339, 0x914D, 0x89C4, 0x5219, 0x957F, 0x5EA6, 0x5FC5, 0x987B, 0x5728] @ js '' 1 '' @ [0x5230] @ js '' 2000 '' @ [0x4E2A, 0x5B57, 0x7B26, 0x4E4B, 0x95F4, 0x3002])),
    (js ''CSV header row required'', (js ''The CSV needs a header row.'', js ''CSV '' @ [0x9700, 0x8981, 0x8868, 0x5934, 0x884C, 0x3002])),
    (js ''CSV has no data rows'', (js ''The CSV has no data rows.'', js ''CSV '' @ [0x6CA1, 0x6709, 0x6570, 0x636E, 0x884C, 0x3002])),
    (js ''name is required'', (js ''Name is missing.'', [0x7F3A, 0x5C11, 0x540D, 0x79F0, 0x3002])),
    (js ''port must be 1-65535'', (js ''Port must be between 1 and 65535.'', [0x7AEF, 0x53E3, 0x5FC5, 0x987B, 0x5728] @ js '' 1'' @ [0x2013] @ js ''65535 '' @ [0x4E4B, 0x95F4, 0x3002])),
    (js ''management_ip must be one canonical IPv4 address'', (js ''Management IP must be one IPv4 address, such as 10.0.0.1.'', [0x7BA1, 0x7406] @ js '' IP '' @ [0x5FC5, 0x987B, 0x662F, 0x4E00, 0x4E2A] @ js '' IPv4 '' @ [0x5730, 0x5740, 0xFF0C, 0x4F8B, 0x5982] @ js '' 10.0.0.1'' @ [0x3002])),
    (js ''vendor must be huawei, h3c, ruijie, cisco or other'', (js ''Vendor must be huawei, h3c, ruijie, cisco or other.'', [0x5382, 0x5546, 0x5FC5, 0x987B, 0x662F] @ js '' huawei'' @ [0x3001] @ js ''h3c'' @ [0x3001] @ js ''ruijie'' @ [0x3001] @ js ''cisco '' @ [0x6216] @ js '' other'' @ [0x3002])),
    (js ''protocol must be telnet or ssh'', (js ''Protocol must be telnet or ssh.'', [0x767B, 0x5F55, 0x534F, 0x8BAE, 0x5FC5, 0x987B, 0x662F] @ js '' telnet '' @ [0x6216] @ js '' ssh'' @ [0x3002])),
    (js ''credential not found (give its exact name, or choose a default)'', (js ''Credential not found. Give its exact name, or choose a default.'', [0x627E, 0x4E0D, 0x5230, 0x51ED, 0x636E, 0x3002, 0x8BF7, 0x586B, 0x5199, 0x51C6, 0x786E, 0x540D, 0x79F0, 0xFF0C, 0x6216, 0x9009, 0x62E9, 0x9ED8, 0x8BA4, 0x51ED, 0x636E, 0x3002])),
    (js ''command profile not found (give its exact name, or choose a default)'', (js ''Command profile not found. Give its exact name, or choose a default.'', [0x627E, 0x4E0D, 0x5230, 0x547D, 0x4EE4, 0x6A21, 0x677F, 0x3002, 0x8BF7, 0x586B, 0x5199, 0x51C6, 0x786E, 0x540D, 0x79F0, 0xFF0C, 0x6216, 0x9009, 0x62E9, 0x9ED8, 0x8BA4, 0x6A21, 0x677F, 0x3002])),
    (js ''a switch with this management IP already exists'', (js ''A switch with this management IP already exists.'', [0x5DF2, 0x5B58, 0x5728, 0x76F8, 0x540C, 0x7BA1, 0x7406] @ js '' IP '' @ [0x7684, 0x4EA4, 0x6362, 0x673A, 0x3002])),
    (js ''the database rejected this row'', rejectedRow),
    (js ''row rejected by the database'', rejectedRow),
    (js ''validated must be true or false'', ([0x22] @ js ''validated'' @ [0x22] @ js '' must be true or false.'', [0x201C, 0x5DF2, 0x9A8C, 0x8BC1, 0x201D, 0x5FC5, 0x987B, 0x662F] @ js '' true '' @ [0x6216] @ js '' false'' @ [0x3002])),
    (js ''cidr must be an IPv4 network such as 10.0.0.0/24'', (js ''The network must be an IPv4 network, such as 10.0.0.0/24.'', [0x7F51, 0x6BB5, 0x5FC5, 0x987B, 0x662F] @ js '' IPv4 '' @ [0x7F51, 0x6BB5, 0xFF0C, 0x4F8B, 0x5982] @ js '' 10.0.0.0/24'' @ [0x3002])),
    (js ''several switches share this name; use the management IP'', (js ''Several switches share this name; use the management IP instead.'', [0x6709, 0x591A, 0x53F0, 0x4EA4, 0x6362, 0x673A, 0x540C, 0x540D, 0xFF0C, 0x8BF7, 0x6539, 0x7528, 0x7BA1, 0x7406] @ js '' IP'' @ [0x3002])),
    (js ''switch not found (give its management IP or exact name)'', (js ''Switch not found. Give its management IP or exact name.'', [0x627E, 0x4E0D, 0x5230, 0x4EA4, 0x6362, 0x673A, 0x3002, 0x8BF7, 0x586B, 0x5199, 0x7BA1, 0x7406] @ js '' IP '' @ [0x6216, 0x51C6, 0x786E, 0x540D, 0x79F0, 0x3002])),
    (js ''this switch already owns this network'', (js ''This switch already owns this network.'', [0x8BE5, 0x4EA4, 0x6362, 0x673A, 0x5DF2, 0x62E5, 0x6709, 0x8FD9, 0x4E2A, 0x7F51, 0x6BB5, 0x3002])),
    (js ''another switch also owns this network; resolution stays ambiguous until corrected'', (js ''Another switch also owns this network; releases in it stop until that is corrected.'', [0x53E6, 0x4E00, 0x53F0, 0x4EA4, 0x6362, 0x673A, 0x4E5F, 0x62E5, 0x6709, 0x8FD9, 0x4E2A, 0x7F51, 0x6BB5, 0xFF1B, 0x4FEE, 0x6B63, 0x4E4B, 0x524D, 0xFF0C, 0x8BE5, 0x7F51, 0x6BB5, 0x5185, 0x7684, 0x89E3, 0x7ED1, 0x4F1A, 0x56E0, 0x65E0, 0x6CD5, 0x786E, 0x5B9A, 0x4EA4, 0x6362, 0x673A, 0x800C, 0x505C, 0x6B62, 0x3002])),
    (js ''New configuration version'', (js ''New configuration version stored'', [0x5DF2, 0x4FDD, 0x5B58, 0x65B0, 0x7684, 0x914D, 0x7F6E, 0x7248, 0x672C])),
    (js ''Configuration unchanged'', (js ''Configuration unchanged'', [0x914D, 0x7F6E, 0x65E0, 0x53D8, 0x5316])),
    (js ''Already queued or running'', (js ''Already queued or running; skipped'', [0x5DF2, 0x5728, 0x961F, 0x5217, 0x4E2D, 0xFF0C, 0x672C, 0x6B21, 0x8DF3, 0x8FC7])),
    (js ''Switch is disabled'', (js ''Switch is disabled'', [0x8BBE, 0x5907, 0x5DF2, 0x505C, 0x7528])),
    (js ''Worker stopped before finishing'', (js ''The worker stopped before finishing'', [0x5DE5, 0x4F5C, 0x8FDB, 0x7A0B, 0x4E2D, 0x65AD, 0xFF0C, 0x672A, 0x5B8C, 0x6210])),
    (js ''Unexpected worker error'', (js ''Unexpected worker error'', [0x5DE5, 0x4F5C, 0x8FDB, 0x7A0B, 0x5F02, 0x5E38])),
    (js ''Credential or command profile is disabled'', (js ''Credential or command profile is disabled'', [0x51ED, 0x636E, 0x6216, 0x547D, 0x4EE4, 0x6A21, 0x677F, 0x5DF2, 0x505C, 0x7528])),
    (js ''Command profile has no config_backup command'', (js ''The command profile has no config_backup command'', [0x547D, 0x4EE4, 0x6A21, 0x677F, 0x672A, 0x914D, 0x7F6E] @ js '' config_backup '' @ [0x547D, 0x4EE4])),
    (js ''Backup output is too short to be a configuration'', tooShort),
    (js ''Backup output is too short'', tooShort),
    (js ''Backup output matches an error pattern of the command profile'', (js ''The backup output matches an error pattern of the command profile'', [0x5907, 0x4EFD, 0x8F93, 0x51FA, 0x5339, 0x914D, 0x5230, 0x547D, 0x4EE4, 0x6A21, 0x677F, 0x7684, 0x9519, 0x8BEF, 0x89C4, 0x5219])),
    (js ''Configuration is larger than 20 MB'', (js ''The configuration is larger than 20 MB'', [0x914D, 0x7F6E, 0x8D85, 0x8FC7] @ js '' 20 MB'')),
    (js ''Configuration read failed'', (js ''Reading the configuration failed'', [0x8BFB, 0x53D6, 0x914D, 0x7F6E, 0x5931, 0x8D25])),
    (js ''Configuration could not be decrypted'', (js ''The configuration could not be decrypted'', [0x914D, 0x7F6E, 0x65E0, 0x6CD5, 0x89E3, 0x5BC6])),
    (js ''Connection refused'', (js ''Connection refused'', [0x8FDE, 0x63A5, 0x88AB, 0x62D2, 0x7EDD])),
    (js ''Timed out'', (js ''Timed out'', [0x8D85, 0x65F6])),
    (js ''Switch authentication failed'', (js ''Switch authentication failed'', [0x8BBE, 0x5907, 0x8BA4, 0x8BC1, 0x5931, 0x8D25])),
    (js ''Switch connection timed out'', (js ''Switch connection timed out'', [0x8FDE, 0x63A5, 0x8BBE, 0x5907, 0x8D85, 0x65F6])),
    (js ''Switch connection failed'', (js ''Switch connection failed'', [0x8FDE, 0x63A5, 0x8BBE, 0x5907, 0x5931, 0x8D25])),
    (js ''Switch command failed'', (js ''A switch command failed'', [0x8BBE, 0x5907, 0x547D, 0x4EE4, 0x6267, 0x884C, 0x5931, 0x8D25])),
    (js ''Switch command timed out'', (js ''A switch command timed out'', [0x8BBE, 0x5907, 0x547D, 0x4EE4, 0x6267, 0x884C, 0x8D85, 0x65F6])),
    (js ''Switch paging command failed'', (js ''The paging command failed'', [0x5173, 0x95ED, 0x5206, 0x9875, 0x7684, 0x547D, 0x4EE4, 0x6267, 0x884C, 0x5931, 0x8D25])),
    (js ''Switch paging command timed out'', (js ''The paging command timed out'', [0x5173, 0x95ED, 0x5206, 0x9875, 0x7684, 0x547D, 0x4EE4, 0x6267, 0x884C, 0x8D85, 0x65F6])),
    (js ''Configuration read timed out'', (js ''Reading the configuration timed out'', [0x8BFB, 0x53D6, 0x914D, 0x7F6E, 0x8D85, 0x65F6])),
    (js ''Release job timed out'', (js ''The release job timed out'', [0x89E3, 0x7ED1, 0x4EFB, 0x52A1, 0x8D85, 0x65F6])),
    (js ''Pattern not found'', (js ''Pattern not found in the configuration'', [0x914D, 0x7F6E, 0x4E2D, 0x672A, 0x627E, 0x5230, 0x5339, 0x914D, 0x5185, 0x5BB9])),
    (js ''Pre-release query queued'', (js ''Pre-release query queued'', [0x5DF2, 0x63D0, 0x4EA4, 0x89E3, 0x7ED1, 0x524D, 0x67E5, 0x8BE2])),
    (js ''Release confirmed and queued'', (js ''Release confirmed and queued'', [0x5DF2, 0x786E, 0x8BA4, 0x89E3, 0x7ED1, 0xFF0C, 0x7B49, 0x5F85, 0x6267, 0x884C])),
    (js ''Retry begins with a fresh pre-query'', (js ''Retry begins with a fresh pre-query'', [0x91CD, 0x8BD5, 0xFF1A, 0x91CD, 0x65B0, 0x67E5, 0x8BE2, 0x89E3, 0x7ED1, 0x524D, 0x72B6, 0x6001])),
    (js ''Pre-query ready for confirmation'', (js ''Pre-query ready for confirmation'', [0x67E5, 0x8BE2, 0x5B8C, 0x6210, 0xFF0C, 0x7B49, 0x5F85, 0x786E, 0x8BA4])),
    (js ''Dynamic entry is not a static binding'', (js ''Dynamic entry, not a static binding'', [0x8FD9, 0x662F, 0x52A8, 0x6001, 0x8BB0, 0x5F55, 0xFF0C, 0x4E0D, 0x662F, 0x9759, 0x6001, 0x7ED1, 0x5B9A, 0xFF0C, 0x65E0, 0x9700, 0x89E3, 0x7ED1])),
    (js ''No record; operator must stop'', (js ''No record; an operator stops here, an admin may force the release'', [0x4EA4, 0x6362, 0x673A, 0x4E0A, 0x6CA1, 0x6709, 0x8BE5, 0x5730, 0x5740, 0x7684, 0x8BB0, 0x5F55, 0xFF1B, 0x64CD, 0x4F5C, 0x5458, 0x5230, 0x6B64, 0x4E3A, 0x6B62, 0xFF0C, 0x7BA1, 0x7406, 0x5458, 0x53EF, 0x4EE5, 0x5F3A, 0x5236, 0x89E3, 0x7ED1])),
    (js ''No record; release stopped'', (js ''No record; release stopped'', [0x4EA4, 0x6362, 0x673A, 0x4E0A, 0x6CA1, 0x6709, 0x8BE5, 0x5730, 0x5740, 0x7684, 0x8BB0, 0x5F55, 0xFF0C, 0x89E3, 0x7ED1, 0x5DF2, 0x505C, 0x6B62])),
    (js ''Pre-query could not be parsed'', (js ''The pre-query output could not be parsed'', [0x65E0, 0x6CD5, 0x89E3, 0x6790, 0x67E5, 0x8BE2, 0x8F93, 0x51FA, 0xFF0C, 0x9700, 0x8981, 0x4EBA, 0x5DE5, 0x786E, 0x8BA4])),
    (js ''Switch configuration could not be used'', (js ''The switch configuration could not be used'', [0x65E0, 0x6CD5, 0x4F7F, 0x7528, 0x8BE5, 0x4EA4, 0x6362, 0x673A, 0x7684, 0x914D, 0x7F6E])),
    (js ''Worker lease expired'', (js ''Worker lease expired'', [0x6267, 0x884C, 0x5668, 0x79DF, 0x7EA6, 0x5DF2, 0x8FC7, 0x671F])),
    (js ''Worker lease expired; switch state is uncertain'', (js ''Worker lease expired; the switch state is uncertain'', [0x6267, 0x884C, 0x5668, 0x79DF, 0x7EA6, 0x5DF2, 0x8FC7, 0x671F, 0xFF0C, 0x4EA4, 0x6362, 0x673A, 0x72B6, 0x6001, 0x4E0D, 0x786E, 0x5B9A])),
    (js ''Release command returned an error pattern'', (js ''The release command returned an error pattern'', [0x89E3, 0x7ED1, 0x547D, 0x4EE4, 0x7684, 0x8F93, 0x51FA, 0x5339, 0x914D, 0x5230, 0x9519, 0x8BEF, 0x89C4, 0x5219])),
    (js ''Static binding is not present after release'', (js ''The static binding is gone after release'', [0x89E3, 0x7ED1, 0x540E, 0x9759, 0x6001, 0x7ED1, 0x5B9A, 0x5DF2, 0x4E0D, 0x5B58, 0x5728])),
    (js ''Static binding is still present after release'', (js ''The static binding is still present after release'', [0x89E3, 0x7ED1, 0x540E, 0x9759, 0x6001, 0x7ED1, 0x5B9A, 0x4ECD, 0x7136, 0x5B58, 0x5728])),
    (js ''Post-release state could not be parsed confidently'', (js ''The post-release state could not be parsed confidently'', [0x65E0, 0x6CD5, 0x53EF, 0x9760, 0x89E3, 0x6790, 0x89E3, 0x7ED1, 0x540E, 0x7684, 0x72B6, 0x6001, 0xFF0C, 0x9700, 0x8981, 0x4EBA, 0x5DE5, 0x786E, 0x8BA4]))]"

definition cronFields :: "(jstr \<times> words) list" where
  "cronFields = [
    (js ''minute'', (js ''minute'', [0x5206])),
    (js ''hour'', (js ''hour'', [0x65F6])),
    (js ''day'', (js ''day'', [0x65E5])),
    (js ''month'', (js ''month'', [0x6708])),
    (js ''weekday'', (js ''weekday'', [0x5468]))]"

datatype piece = Lit jstr | Cap nat | Server nat | CronField nat | PartName nat | WhatEnglish nat | WhatChinese nat

definition partNames :: "(jstr \<times> jstr) list" where
  "partNames = [(js ''range'', [0x8303, 0x56F4]), (js ''step'', [0x6B65, 0x957F]), (js ''value'', [0x53D6, 0x503C])]"

definition shaped :: "(rx \<times> piece list \<times> piece list) list" where
  "shaped = [
    (rcat [rlit (js ''cron ''), Group 1 (ralt (map rlit [js ''minute'', js ''hour'', js ''day'', js ''month'', js ''weekday''])), rlit (js '' field: ''), Group 2 (rplus rdot)],
      [Lit (js ''Cron ''), Cap 1, Lit (js '' field: ''), Server 2],
      [Lit (js ''cron '' @ [0x7684, 0x300C]), CronField 1, Lit ([0x300D, 0x5B57, 0x6BB5, 0xFF1A]), Server 2]),
    (rcat [rlit ([0x22]), Group 1 (Many rdot), rlit ([0x22] @ js '' is outside ''), Group 2 (rplus rdigit), rlit (js ''-''), Group 3 (rplus rdigit)],
      [Lit ([0x22]), Cap 1, Lit ([0x22] @ js '' is outside ''), Cap 2, Lit ([0x2013]), Cap 3],
      [Lit ([0x300C]), Cap 1, Lit ([0x300D, 0x8D85, 0x51FA, 0x8303, 0x56F4] @ js '' ''), Cap 2, Lit ([0x2013]), Cap 3]),
    (rcat [rlit (js ''invalid ''), Group 1 (ralt (map rlit [js ''range'', js ''step'', js ''value''])), rlit (js '' '' @ [0x22]), Group 2 (Many rdot), rlit ([0x22])],
      [Lit (js ''Invalid ''), Cap 1, Lit (js '' '' @ [0x22]), Cap 2, Lit ([0x22])],
      [PartName 1, Lit ([0x300C]), Cap 2, Lit ([0x300D, 0x65E0, 0x6548])]),
    (rcat [rlit (js ''invalid pattern: ''), Group 1 (rplus rany)],
      [Lit (js ''Invalid pattern: ''), Cap 1],
      [Lit ([0x6B63, 0x5219, 0x8868, 0x8FBE, 0x5F0F, 0x65E0, 0x6548, 0xFF1A]), Cap 1]),
    (rcat [rlit (js ''CSV is malformed: ''), Group 1 (rplus rany)],
      [Lit (js ''The CSV is malformed: ''), Cap 1],
      [Lit (js ''CSV '' @ [0x683C, 0x5F0F, 0x6709, 0x8BEF, 0xFF1A]), Cap 1]),
    (rcat [rlit (js ''at most ''), Group 1 (rplus rdigit), rlit (js '' rows per import'')],
      [Lit (js ''At most ''), Cap 1, Lit (js '' rows per import.'')],
      [Lit ([0x6BCF, 0x6B21, 0x6700, 0x591A, 0x5BFC, 0x5165] @ js '' ''), Cap 1, Lit (js '' '' @ [0x884C, 0x3002])]),
    (rcat [Group 1 (ralt (map rlit [js ''management_ip'', js ''network''])), rlit (js '' repeats line ''), Group 2 (rplus rdigit)],
      [WhatEnglish 1, Lit (js '' repeats line ''), Cap 2, Lit (js ''.'')],
      [WhatChinese 1, Lit ([0x4E0E, 0x7B2C] @ js '' ''), Cap 2, Lit (js '' '' @ [0x884C, 0x91CD, 0x590D, 0x3002])]),
    (rcat [rlit (js ''cidr has host bits set; did you mean ''), Group 1 (rplus rdot), rlit (js ''?'')],
      [Lit (js ''The network has host bits set; did you mean ''), Cap 1, Lit (js ''?'')],
      [Lit ([0x7F51, 0x6BB5, 0x7684, 0x4E3B, 0x673A, 0x4F4D, 0x4E0D, 0x4E3A] @ js '' 0'' @ [0xFF0C, 0x662F, 0x5426, 0x5E94, 0x4E3A] @ js '' ''), Cap 1, Lit ([0xFF1F])]),
    (rcat [rlit (js ''Port ''), Group 1 (rplus rdigit), rlit (js '' unreachable: ''), Group 2 (rplus rany)],
      [Lit (js ''Port ''), Cap 1, Lit (js '' unreachable: ''), Server 2],
      [Lit ([0x7AEF, 0x53E3] @ js '' ''), Cap 1, Lit (js '' '' @ [0x4E0D, 0x53EF, 0x8FBE, 0xFF1A]), Server 2]),
    (rcat [rlit (js ''Backup failed: ''), Group 1 (rplus rany)],
      [Lit (js ''Backup failed: ''), Server 1],
      [Lit ([0x914D, 0x7F6E, 0x5907, 0x4EFD, 0x5931, 0x8D25, 0xFF1A]), Server 1]),
    (rcat [rlit (js ''Rule '' @ [0x22]), Group 1 (Many rany), rlit ([0x22] @ js '' failed: ''), Group 2 (rplus rany)],
      [Lit (js ''Rule '' @ [0x22]), Cap 1, Lit ([0x22] @ js '' failed: ''), Server 2],
      [Lit ([0x89C4, 0x5219, 0x300C]), Cap 1, Lit ([0x300D, 0x672A, 0x901A, 0x8FC7, 0xFF1A]), Server 2]),
    (rcat [rlit (js ''Line ''), Group 1 (rplus rdigit), rlit (js '': ''), Group 2 (Many rany)],
      [Lit (js ''Line ''), Cap 1, Lit (js '': ''), Cap 2],
      [Lit ([0x7B2C] @ js '' ''), Cap 1, Lit (js '' '' @ [0x884C, 0xFF1A]), Cap 2]),
    (rcat [rlit (js ''Switch session close failed: ''), Group 1 (rplus rword)],
      [Lit (js ''Closing the switch session failed (''), Cap 1, Lit (js '')'')],
      [Lit ([0x5173, 0x95ED, 0x8BBE, 0x5907, 0x4F1A, 0x8BDD, 0x5931, 0x8D25, 0xFF08]), Cap 1, Lit ([0xFF09])]),
    (rcat [rlit (js ''Network error (''), Group 1 (rplus rword), rlit (js '')'')],
      [Lit (js ''Network error (''), Cap 1, Lit (js '')'')],
      [Lit ([0x7F51, 0x7EDC, 0x9519, 0x8BEF, 0xFF08]), Cap 1, Lit ([0xFF09])]),
    (rcat [rlit (js ''Unexpected error (''), Group 1 (rplus rword), rlit (js '')'')],
      [Lit (js ''Unexpected error (''), Cap 1, Lit (js '')'')],
      [Lit ([0x610F, 0x5916, 0x9519, 0x8BEF, 0xFF08]), Cap 1, Lit ([0xFF09])])]"

text \<open>The first pattern that matches, with its two templates and the captured parts.\<close>

fun firstShape :: "(rx \<times> piece list \<times> piece list) list \<Rightarrow> jstr \<Rightarrow> ((piece list \<times> piece list) \<times> caps) option" where
  "firstShape [] s = None"
| "firstShape ((r, ps) # rest) s =
     (case rx_exec r s of Some g \<Rightarrow> Some (ps, g) | None \<Rightarrow> firstShape rest s)"

definition plainPiece :: "piece \<Rightarrow> caps \<Rightarrow> jstr" where
  "plainPiece p g = (case p of
     Lit s \<Rightarrow> s
   | Cap n \<Rightarrow> tmpl (g n)
   | CronField n \<Rightarrow> tmpl (map_option snd (map_of cronFields (tmpl (g n))))
   | PartName n \<Rightarrow> tmpl (map_of partNames (tmpl (g n)))
   | WhatEnglish n \<Rightarrow> if g n = Some (js ''network'') then js ''Network'' else js ''Management IP''
   | WhatChinese n \<Rightarrow> if g n = Some (js ''network'') then [0x7F51, 0x6BB5] else [0x7BA1, 0x7406] @ js '' IP ''
   | Server n \<Rightarrow> [])"

text \<open>
  A captured part of a pattern that opens with literal text is shorter than the whole text, so the
  translation of nested texts ends.
\<close>

lemma capture_length:
  "\<lbrakk>(t, h) \<in> set (matches r s g); h n = Some u\<rbrakk> \<Longrightarrow> g n = Some u \<or> length u \<le> length s"
proof (induction r s g arbitrary: t h rule: matches.induct)
  case (3 a b s g)
  from "3.prems"(1) obtain t1 h1 where 1: "(t1, h1) \<in> set (matches a s g)" "(t, h) \<in> set (matches b t1 h1)"
    by auto
  show ?case
    using "3.IH"(2) [OF 1(1) refl 1(2) "3.prems"(2)] "3.IH"(1) [OF 1(1)] matches_suffix [OF 1(1)] by fastforce
next
  case (5 a s g)
  from "5.prems"(1) consider "h = g"
    | t1 h1 where "(t1, h1) \<in> set (matches a s g)" "length t1 < length s" "(t, h) \<in> set (matches (Many a) t1 h1)"
    by (subst (asm) matches.simps(5)) (auto split: if_splits)
  then show ?case
  proof cases
    case 1 then show ?thesis using "5.prems"(2) by simp
  next
    case 2
    then show ?thesis
      using "5.IH"(1) [OF 2(1)] "5.IH"(2) [OF 2(1) refl 2(2,3) "5.prems"(2)] by fastforce
  qed
qed (auto split: list.splits if_splits)

definition leads :: "rx \<Rightarrow> bool" where
  "leads r = (case r of Cat a b \<Rightarrow> groups a = {} \<and> [] \<notin> rx_lang a | _ \<Rightarrow> False)"

lemma groups_rlit [simp]: "groups (rlit w) = {}"
  by (induction w) auto

lemma leads_rcat: "w \<noteq> [] \<Longrightarrow> leads (rcat (rlit w # r # rs))"
  by (simp add: leads_def)

lemma capture_shorter:
  assumes "leads r" "rx_exec r s = Some g" "g n = Some u"
  shows "length u < length s"
proof -
  from assms(1) obtain a b where r: "r = Cat a b" "groups a = {}" "[] \<notin> rx_lang a"
    by (cases r) (auto simp: leads_def)
  from rx_exec_Some [OF assms(2)] r(1) obtain t h where
    1: "(t, h) \<in> set (matches a s no_caps)" and 2: "([], g) \<in> set (matches b t h)" by auto
  have "h n = None" using matches_frame [OF 1] r(2) by (simp add: no_caps_def)
  then have "length u \<le> length t" using capture_length [OF 2 assms(3)] by auto
  moreover obtain v where "v \<in> rx_lang a" "s = v @ t" using matches_sound [OF 1] by blast
  then have "length t < length s" using r(3) by (cases v) auto
  ultimately show ?thesis by simp
qed

lemma firstShape_Some:
  "firstShape xs s = Some (ps, g) \<Longrightarrow> \<exists>r. (r, ps) \<in> set xs \<and> rx_exec r s = Some g"
  by (induction xs s rule: firstShape.induct) (auto split: option.splits)

lemma firstShape_None: "firstShape xs s = None \<longleftrightarrow> (\<forall>(r, ps)\<in>set xs. rx_exec r s = None)"
  by (induction xs s rule: firstShape.induct) (auto split: option.splits)

definition translatable :: "rx \<times> piece list \<times> piece list \<Rightarrow> bool" where
  "translatable x = (case x of (r, en, zh) \<Rightarrow>
     (\<exists>n. Server n \<in> set en \<union> set zh) \<longrightarrow> leads r)"

lemma translatable_rcat: "w \<noteq> [] \<Longrightarrow> translatable (rcat (rlit w # r # rs), ps)"
  using leads_rcat [of w r rs] by (simp add: translatable_def del: rcat.simps split: prod.split)

lemma shaped_translatable: "list_all translatable shaped"
proof -
  have "translatable (rcat [Group 1 r1, rlit w, Group 2 r2],
      [WhatEnglish 1, Lit v, Cap 2, Lit v2], [WhatChinese 1, Lit v3, Cap 2, Lit v4])" for r1 w r2 v v2 v3 v4
    by (simp add: translatable_def)
  then show ?thesis
    unfolding shaped_def list.pred_inject
    by (intro conjI TrueI translatable_rcat) (assumption | simp)+
qed

lemma shaped_shorter:
  assumes "firstShape shaped s = Some ((en, zh), g)" "Server n \<in> set (if b then zh else en)" "g n = Some u"
  shows "length u < length s"
proof -
  obtain r where "(r, en, zh) \<in> set shaped" and m: "rx_exec r s = Some g"
    using firstShape_Some [OF assms(1)] by blast
  then have "translatable (r, en, zh)" using shaped_translatable by (auto simp: list_all_iff)
  then have "leads r" using assms(2) by (auto simp: translatable_def split: if_splits)
  then show ?thesis by (rule capture_shorter [OF _ m assms(3)])
qed

text \<open>\<open>serverText\<close>: the fixed texts first, then the patterns in order, else the text itself.\<close>

function serverText :: "jstr option \<Rightarrow> bool \<Rightarrow> jstr option" where
  "serverText message zh =
     (if \<not> truthy message then Some []
      else case get_prop fixed (the message) of
        Own v \<Rightarrow> Some (chooseWord v zh)
      | Inherited \<Rightarrow> None
      | Absent \<Rightarrow>
          (case firstShape shaped (the message) of
             None \<Rightarrow> message
           | Some (ps, g) \<Rightarrow> Some (concat (map (\<lambda>p. case p of
                 Server n \<Rightarrow> tmpl (serverText (g n) zh)
               | _ \<Rightarrow> plainPiece p g) (if zh then snd ps else fst ps)))))"
  by pat_completeness auto
termination
proof (relation "measure (\<lambda>(m, zh). case m of None \<Rightarrow> 0 | Some s \<Rightarrow> Suc (length s))", goal_cases)
  case 1
  show ?case by simp
next
  case (2 message zh x x1 x2 p n)
  then show ?case
    using shaped_shorter [of "the message" "fst x1" "snd x1" x2 n zh]
    by (cases message; cases "x2 n"; cases zh) auto
qed

declare serverText.simps [simp del]

definition isConfigExcerpt :: "jstr option \<Rightarrow> bool" where
  "isConfigExcerpt detail \<longleftrightarrow>
     rx_prefix (rcat [rlit (js ''Line ''), rplus rdigit, rlit (js '': '')]) (nullish detail []) \<noteq> None"

definition SCOPE_PATTERN :: rx where
  "SCOPE_PATTERN = ralt [Cat (rlit (js ''Group '')) (Group 1 (rplus rany)),
     Cat (Group 2 (rplus rdigit)) (rlit (js '' selected switches'')),
     Cat (rlit (js ''Switch '')) (Group 3 (rplus rany))]"

definition taskScopeText :: "jstr \<Rightarrow> bool \<Rightarrow> jstr" where
  "taskScopeText label zh =
     (if \<not> zh then label
      else if label = js ''All enabled switches'' then [0x6240, 0x6709, 0x542F, 0x7528, 0x7684, 0x4EA4, 0x6362, 0x673A]
      else case rx_exec SCOPE_PATTERN label of
        None \<Rightarrow> label
      | Some g \<Rightarrow>
          (case (g 1, g 2) of
             (Some name, _) \<Rightarrow> [0x5206, 0x7EC4, 0x300C] @ name @ [0x300D]
           | (None, Some count) \<Rightarrow> ([0x9009, 0x4E2D, 0x7684] @ js '' '') @ count @ (js '' '' @ [0x53F0, 0x4EA4, 0x6362, 0x673A])
           | (None, None) \<Rightarrow> ([0x4EA4, 0x6362, 0x673A] @ js '' '') @ tmpl (g 3)))"

text \<open>What a request fails with: an \<open>Error\<close> with its message, or any other value.\<close>

datatype caught = ErrorOf jstr | OtherCaught

definition fallbackText :: "bool \<Rightarrow> jstr" where
  "fallbackText zh = (if zh then [0x64CD, 0x4F5C, 0x5931, 0x8D25, 0xFF0C, 0x8BF7, 0x91CD, 0x8BD5, 0x3002] else js ''Something went wrong. Try again.'')"

definition errorText :: "caught \<Rightarrow> bool \<Rightarrow> jstr option" where
  "errorText e zh = (case e of
     ErrorOf message \<Rightarrow> if message \<noteq> [] then serverText (Some message) zh else Some (fallbackText zh)
   | OtherCaught \<Rightarrow> Some (fallbackText zh))"

subsection \<open>Evaluation on texts with a known opening\<close>

lemma exec_miss: "\<not> prefix w s \<Longrightarrow> rx_exec (rcat (rlit w # r # rs)) s = None"
  unfolding rx_exec_None by (auto simp del: rcat.simps(3)) (simp add: prefix_def; blast)

lemma matches_CatE:
  assumes "(t, h) \<in> set (matches (Cat a b) s g)"
  obtains t1 h1 where "(t1, h1) \<in> set (matches a s g)" "(t, h) \<in> set (matches b t1 h1)"
  using assms by auto

lemma matches_rlitE:
  assumes "(t, h) \<in> set (matches (rlit w) s g)"
  obtains "s = w @ drop (length w) s" "t = drop (length w) s" "h = g"
  using assms by (auto simp: matches_rlit prefix_def split: if_splits)

lemma exec_two:
  assumes "rx_exec (rcat [rlit a, Group 1 x, rlit b, Group 2 y]) s = Some g" "groups x = {}" "groups y = {}"
  shows "\<exists>u v. s = a @ u @ b @ v \<and> g 1 = Some u \<and> g 2 = Some v \<and> u \<in> rx_lang x \<and> v \<in> rx_lang y"
proof -
  have "([], g) \<in> set (matches (Cat (rlit a) (Cat (Group 1 x) (Cat (rlit b) (Group 2 y)))) s no_caps)"
    using rx_exec_Some [OF assms(1)] by (simp only: rcat.simps)
  then obtain t h where s: "s = a @ drop (length a) s"
    and 1: "(t, h) \<in> set (matches (Group 1 x) (drop (length a) s) no_caps)"
    and t: "t = b @ drop (length b) t" and 3: "([], g) \<in> set (matches (Group 2 y) (drop (length b) t) h)"
    by (elim matches_CatE matches_rlitE) blast
  obtain u where u: "u \<in> rx_lang x" "drop (length a) s = u @ t" "h 1 = Some u" using matches_Group [OF 1] by blast
  obtain v where v: "v \<in> rx_lang y" "drop (length b) t = v @ []" "g 2 = Some v" using matches_Group [OF 3] by blast
  have "g 1 = h 1" using matches_frame [OF 3] assms(3) by simp
  then have "g 1 = Some u" using u(3) by simp
  moreover have "s = a @ u @ b @ v" using s u(2) t v(2) by (metis append_Nil2)
  ultimately show ?thesis using u(1) v(1,3) by blast
qed

lemma prefix_js_text: "prefix (js a) (js b) \<longleftrightarrow> prefix a b"
proof (induction a arbitrary: b)
  case (Cons c a)
  then show ?case by (cases b) (auto simp: js_Cons)
qed simp

definition known_texts :: "jstr list" where
  "known_texts = map fst fixed @ proto_names"

lemma get_prop_fresh: "s \<notin> set known_texts \<Longrightarrow> get_prop fixed s = Absent"
  using map_of_SomeD by (force simp: get_prop_def known_texts_def split: option.split)

lemma fresh_openings:
  "list_all (\<lambda>k. \<not> prefix (js ''Line '') k \<and> \<not> prefix (js ''Backup failed: '') k \<and> \<not> prefix (js ''Port '') k)
     known_texts"
  unfolding known_texts_def fixed_def proto_names_def by (simp add: prefix_js_text)

lemma serverText_fresh:
  assumes "w \<noteq> []" "list_all (\<lambda>k. \<not> prefix w k) known_texts" "prefix w s"
    and "firstShape shaped s = Some (ps, g)"
  shows "serverText (Some s) zh = Some (concat (map (\<lambda>p. case p of
                 Server n \<Rightarrow> tmpl (serverText (g n) zh)
               | _ \<Rightarrow> plainPiece p g) (if zh then snd ps else fst ps)))"
proof -
  have "s \<notin> set known_texts" using assms(2,3) by (auto simp: list_all_iff)
  moreover have "s \<noteq> []" using assms(1,3) by auto
  ultimately show ?thesis using assms(4) by (subst serverText.simps) (simp add: get_prop_fresh cong: if_cong)
qed

lemma prefix_js_append:
  "prefix (js (a # as)) (js (b # bs) @ s) \<longleftrightarrow> a = b \<and> prefix (js as) (js bs @ s)"
  "prefix (js (a # as) @ t) (js (b # bs) @ s) \<longleftrightarrow> a = b \<and> prefix (js as @ t) (js bs @ s)"
  "prefix (js []) s" "prefix (0x22 # u) (js (b # bs) @ s) \<longleftrightarrow> b = CHR 0x22 \<and> prefix u (js bs @ s)"
proof -
  have "(0x22 :: nat) = of_char (CHR 0x22)" by simp
  then have "(0x22 :: nat) = of_char b \<longleftrightarrow> b = CHR 0x22" by (metis of_char_eq_iff)
  then show "prefix (0x22 # u) (js (b # bs) @ s) \<longleftrightarrow> b = CHR 0x22 \<and> prefix u (js bs @ s)"
    by (simp add: js_Cons)
qed (simp_all add: js_Cons)

lemma exec_group_miss:
  "\<lbrakk>\<not> prefix a s; \<not> prefix b s\<rbrakk> \<Longrightarrow> rx_exec (rcat [Group 1 (ralt (map rlit [a, b])), rlit w, r]) s = None"
  unfolding rx_exec_None by (auto simp: prefix_def)

lemma firstShape_step:
  "rx_exec r s = None \<Longrightarrow> firstShape ((r, ps) # xs) s = firstShape xs s"
  "rx_exec r s = Some g \<Longrightarrow> firstShape ((r, ps) # xs) s = Some (ps, g)"
  by simp_all

lemmas skip_shape = firstShape_step(1) [OF exec_miss, THEN trans]
lemmas skip_group = firstShape_step(1) [OF exec_group_miss, THEN trans]

lemma backup_shape:
  assumes "why \<noteq> []"
  obtains g where "g 1 = Some why" "firstShape shaped (js ''Backup failed: '' @ why) =
    Some (([Lit (js ''Backup failed: ''), Server 1], [Lit ([0x914D, 0x7F6E, 0x5907, 0x4EFD, 0x5931, 0x8D25, 0xFF1A]), Server 1]), g)"
proof -
  let ?r = "rcat [rlit (js ''Backup failed: ''), Group 1 (rplus rany)]"
  have "js ''Backup failed: '' @ why \<in> rx_lang ?r" using assms by (auto simp: rany_def)
  then obtain g where g: "rx_exec ?r (js ''Backup failed: '' @ why) = Some g"
    using rx_exec_None by (metis option.exhaust)
  from rx_exec_Some [OF this] have "([], g) \<in> set (matches (Group 1 (rplus rany)) why no_caps)"
    by (simp add: matches_rlit del: matches.simps(6))
  then have "g 1 = Some why" using matches_Group by fastforce
  moreover have "firstShape shaped (js ''Backup failed: '' @ why) =
    Some (([Lit (js ''Backup failed: ''), Server 1], [Lit ([0x914D, 0x7F6E, 0x5907, 0x4EFD, 0x5931, 0x8D25, 0xFF1A]), Server 1]), g)"
    unfolding shaped_def
    by ((rule skip_shape, (simp add: prefix_js_append; fail)
       | rule skip_group, (simp add: prefix_js_append; fail), (simp add: prefix_js_append; fail))+,
      rule firstShape_step(2) [OF g])
  ultimately show thesis by (rule that)
qed

lemma shape_port:
  "rx_exec (rcat [rlit (js ''Port ''), Group 1 (rplus rdigit), rlit (js '' unreachable: ''), Group 2 (rplus rany)])
     (js ''Port '' @ s) = Some g \<Longrightarrow>
   firstShape shaped (js ''Port '' @ s) = Some (([Lit (js ''Port ''), Cap 1, Lit (js '' unreachable: ''), Server 2],
     [Lit ([0x7AEF, 0x53E3] @ js '' ''), Cap 1, Lit (js '' '' @ [0x4E0D, 0x53EF, 0x8FBE, 0xFF1A]), Server 2]), g)"
  unfolding shaped_def
  by ((rule skip_shape, (simp add: prefix_js_append; fail)
     | rule skip_group, (simp add: prefix_js_append; fail), (simp add: prefix_js_append; fail))+,
    rule firstShape_step(2))

lemma shape_line:
  "rx_exec (rcat [rlit (js ''Line ''), Group 1 (rplus rdigit), rlit (js '': ''), Group 2 (Many rany)])
     (js ''Line '' @ s) = Some g \<Longrightarrow>
   firstShape shaped (js ''Line '' @ s) = Some (([Lit (js ''Line ''), Cap 1, Lit (js '': ''), Cap 2],
     [Lit ([0x7B2C] @ js '' ''), Cap 1, Lit (js '' '' @ [0x884C, 0xFF1A]), Cap 2]), g)"
  unfolding shaped_def
  by ((rule skip_shape, (simp add: prefix_js_append; fail)
     | rule skip_group, (simp add: prefix_js_append; fail), (simp add: prefix_js_append; fail))+,
    rule firstShape_step(2))

text \<open>Digits up to a unit that is no digit are determined by the text.\<close>

lemma digits_split:
  "\<lbrakk>u @ c # x = u' @ c # x'; \<forall>d\<in>set u. digit d; \<forall>d\<in>set u'. digit d; \<not> digit c\<rbrakk> \<Longrightarrow> u = u' \<and> x = x'"
proof (induction u arbitrary: u')
  case Nil
  then show ?case by (cases u') auto
next
  case (Cons a u)
  then show ?case by (cases u') auto
qed

lemma groups_unit [simp]: "groups (rplus (Unit k)) = {}" "groups (Many (Unit k)) = {}"
  by (simp_all add: rplus_def)

lemma rx_lang_any: "v \<in> rx_lang (Many rany)" "v \<in> rx_lang (rplus rany) \<longleftrightarrow> v \<noteq> []"
  unfolding rany_def rx_lang_Many_Unit rx_lang_rplus_Unit by simp_all

lemma rx_lang_digits: "v \<in> rx_lang (rplus rdigit) \<longleftrightarrow> v \<noteq> [] \<and> (\<forall>d\<in>set v. digit d)"
  unfolding rdigit_def rx_lang_rplus_Unit by (auto simp: digit_def)

lemma capture_two:
  assumes "n \<noteq> []" "\<forall>d\<in>set n. digit d" "c # b = js w" "\<not> digit c"
    and "v \<in> rx_lang y" "groups y = {}"
  obtains g where "rx_exec (rcat [rlit a, Group 1 (rplus rdigit), rlit (js w), Group 2 y]) (a @ n @ js w @ v) = Some g"
    "g 1 = Some n" "g 2 = Some v"
proof -
  let ?r = "rcat [rlit a, Group 1 (rplus rdigit), rlit (js w), Group 2 y]"
  have "n \<in> rx_lang (rplus rdigit)" using assms(1,2) by (simp add: rx_lang_digits)
  then have "a @ n @ js w @ v \<in> rx_lang ?r" using assms(5) by auto
  then obtain g where g: "rx_exec ?r (a @ n @ js w @ v) = Some g"
    using rx_exec_None by (metis option.exhaust)
  from exec_two [OF this] obtain n' v' where e: "a @ n @ js w @ v = a @ n' @ js w @ v'" "g 1 = Some n'" "g 2 = Some v'"
    "n' \<in> rx_lang (rplus rdigit)" using assms(6) by (auto simp: rdigit_def)
  from e(4) have d: "\<forall>d\<in>set n'. digit d" by (simp add: rx_lang_digits)
  from e(1) have "n @ c # b @ v = n' @ c # b @ v'" using assms(3) [symmetric] by simp
  then have "n = n' \<and> b @ v = b @ v'" by (rule digits_split [OF _ assms(2) d assms(4)])
  then show thesis using that [OF g] e by simp
qed

text \<open>
  A cause quoted inside a message is itself translated: after a failed backup and after an
  unreachable port, whatever the cause says, the text shown is the surrounding sentence in the
  interface language around the translation of the cause.
\<close>

theorem nested_causes:
  assumes "why \<noteq> []" "port \<noteq> []" "\<forall>d\<in>set port. digit d"
  shows "serverText (Some (js ''Backup failed: '' @ why)) zh =
      Some ((if zh then ([0x914D, 0x7F6E, 0x5907, 0x4EFD, 0x5931, 0x8D25, 0xFF1A]) else js ''Backup failed: '') @ tmpl (serverText (Some why) zh))
    \<and> serverText (Some (js ''Port '' @ port @ js '' unreachable: '' @ why)) zh =
      Some ((if zh then ([0x7AEF, 0x53E3] @ js '' '') @ port @ (js '' '' @ [0x4E0D, 0x53EF, 0x8FBE, 0xFF1A]) else js ''Port '' @ port @ js '' unreachable: '')
        @ tmpl (serverText (Some why) zh))"
proof -
  obtain g where g: "g 1 = Some why" "firstShape shaped (js ''Backup failed: '' @ why) =
    Some (([Lit (js ''Backup failed: ''), Server 1], [Lit ([0x914D, 0x7F6E, 0x5907, 0x4EFD, 0x5931, 0x8D25, 0xFF1A]), Server 1]), g)"
    by (rule backup_shape [OF assms(1)])
  have "list_all (\<lambda>k. \<not> prefix (js ''Backup failed: '') k) known_texts"
    "list_all (\<lambda>k. \<not> prefix (js ''Port '') k) known_texts"
    using fresh_openings by (auto simp: list_all_iff)
  note fresh = this
  have 1: "serverText (Some (js ''Backup failed: '' @ why)) zh =
      Some ((if zh then ([0x914D, 0x7F6E, 0x5907, 0x4EFD, 0x5931, 0x8D25, 0xFF1A]) else js ''Backup failed: '') @ tmpl (serverText (Some why) zh))"
    using serverText_fresh [OF _ fresh(1) _ g(2), of zh] g(1) by (simp add: plainPiece_def)
  have "\<not> digit 32" by (simp add: digit_def)
  then obtain h where h: "rx_exec (rcat [rlit (js ''Port ''), Group 1 (rplus rdigit), rlit (js '' unreachable: ''), Group 2 (rplus rany)])
     (js ''Port '' @ port @ js '' unreachable: '' @ why) = Some h" "h 1 = Some port" "h 2 = Some why"
    using capture_two [OF assms(2,3), of 32 "js ''unreachable: ''" "'' unreachable: ''" why "rplus rany" "js ''Port ''"] assms(1)
    by (auto simp: rx_lang_any js_Cons rany_def)
  have "serverText (Some (js ''Port '' @ port @ js '' unreachable: '' @ why)) zh =
      Some ((if zh then ([0x7AEF, 0x53E3] @ js '' '') @ port @ (js '' '' @ [0x4E0D, 0x53EF, 0x8FBE, 0xFF1A]) else js ''Port '' @ port @ js '' unreachable: '')
        @ tmpl (serverText (Some why) zh))"
    using serverText_fresh [OF _ fresh(2) _ shape_port [OF h(1)], of zh] h(2,3) by (simp add: plainPiece_def)
  with 1 show ?thesis by blast
qed

theorem nested_causes_witness:
  "serverText (Some (js ''Port '' @ js ''22'' @ js '' unreachable: '' @ js ''Timed out'')) False =
     Some (js ''Port '' @ js ''22'' @ js '' unreachable: '' @ tmpl (serverText (Some (js ''Timed out'')) False))"
  using nested_causes [of "js ''Timed out''" "js ''22''" False] by (simp add: js_Cons digit_def)

lemma matches_Nil: "matches r s g = [] \<longleftrightarrow> (\<forall>t u. s = u @ t \<longrightarrow> u \<notin> rx_lang r)"
proof
  assume "matches r s g = []"
  then show "\<forall>t u. s = u @ t \<longrightarrow> u \<notin> rx_lang r"
    by (metis empty_iff list.set(1) matches_complete)
next
  assume a: "\<forall>t u. s = u @ t \<longrightarrow> u \<notin> rx_lang r"
  show "matches r s g = []"
  proof (rule ccontr)
    assume "matches r s g \<noteq> []"
    then obtain t h where "(t, h) \<in> set (matches r s g)" by (metis list.set_intros(1) neq_Nil_conv surj_pair)
    from matches_sound [OF this] a show False by blast
  qed
qed

lemma excerpt_iff:
  "isConfigExcerpt (Some d) \<longleftrightarrow>
     (\<exists>n v. d = js ''Line '' @ n @ js '': '' @ v \<and> n \<noteq> [] \<and> (\<forall>c\<in>set n. digit c))"
proof -
  let ?r = "rcat [rlit (js ''Line ''), rplus rdigit, rlit (js '': '')]"
  have "isConfigExcerpt (Some d) \<longleftrightarrow> (\<exists>t u. d = u @ t \<and> u \<in> rx_lang ?r)"
    using matches_Nil [of ?r d no_caps]
    by (cases "matches ?r d no_caps") (simp_all add: isConfigExcerpt_def rx_prefix_def del: rcat.simps)
  also have "\<dots> \<longleftrightarrow> (\<exists>n v. d = js ''Line '' @ n @ js '': '' @ v \<and> n \<in> rx_lang (rplus rdigit))"
  proof -
    have "u \<in> rx_lang ?r \<longleftrightarrow> (\<exists>n. u = js ''Line '' @ n @ js '': '' \<and> n \<in> rx_lang (rplus rdigit))" for u
      by auto
    then show ?thesis by simp (metis append.assoc)
  qed
  finally show ?thesis by (simp add: rx_lang_digits)
qed

text \<open>
  The excerpts of a configuration, which the pages show as code, are exactly the texts of a line
  number and its content; English shows such a text as it is, and Chinese translates the words around
  the number and keeps the content.
\<close>

theorem config_excerpts:
  "(\<exists>n v. d = js ''Line '' @ n @ js '': '' @ v \<and> n \<noteq> [] \<and> list_all digit n
      \<and> serverText (Some d) False = Some d
      \<and> serverText (Some d) True = Some (([0x7B2C] @ js '' '') @ n @ (js '' '' @ [0x884C, 0xFF1A]) @ v)) = isConfigExcerpt (Some d)"
proof -
  have "serverText (Some (js ''Line '' @ n @ js '': '' @ v)) zh =
      Some (if zh then ([0x7B2C] @ js '' '') @ n @ (js '' '' @ [0x884C, 0xFF1A]) @ v else js ''Line '' @ n @ js '': '' @ v)"
    if n: "n \<noteq> []" "\<forall>c\<in>set n. digit c" for n v zh
  proof -
    have c: "58 # js '' '' = js '': ''" "\<not> digit 58" and g: "groups (Many rany) = {}"
      by (simp_all add: js_Cons digit_def rany_def)
    obtain h where h: "rx_exec (rcat [rlit (js ''Line ''), Group 1 (rplus rdigit), rlit (js '': ''), Group 2 (Many rany)])
       (js ''Line '' @ n @ js '': '' @ v) = Some h" "h 1 = Some n" "h 2 = Some v"
      by (rule capture_two [OF n c rx_lang_any(1) g])
    have "list_all (\<lambda>k. \<not> prefix (js ''Line '') k) known_texts" using fresh_openings by (auto simp: list_all_iff)
    from serverText_fresh [OF _ this _ shape_line [OF h(1)], of zh] show ?thesis
      using h(2,3) by (simp add: plainPiece_def)
  qed
  note shown = this
  show ?thesis unfolding excerpt_iff list_all_iff
  proof (intro iffI; elim exE conjE)
    fix n v assume d: "d = js ''Line '' @ n @ js '': '' @ v" and n: "n \<noteq> []" "\<forall>c\<in>set n. digit c"
    show "\<exists>n v. d = js ''Line '' @ n @ js '': '' @ v \<and> n \<noteq> [] \<and> (\<forall>c\<in>set n. digit c)
      \<and> serverText (Some d) False = Some d
      \<and> serverText (Some d) True = Some (([0x7B2C] @ js '' '') @ n @ (js '' '' @ [0x884C, 0xFF1A]) @ v)"
      using d n shown [OF n, of v False] shown [OF n, of v True] by (intro exI [of _ n] exI [of _ v]) simp
  qed blast
qed

subsection \<open>No text is lost\<close>

lemma fixed_texts: "list_all (\<lambda>(k, v). fst v \<noteq> [] \<and> snd v \<noteq> []) fixed"
  by (simp add: fixed_def unavailable_def unreadable_def rejectedRow_def tooShort_def)

lemma fixed_ordinary: "list_all (\<lambda>k. k \<notin> set proto_names) (map fst fixed)"
  by (simp add: fixed_def proto_names_def)

definition spoken :: "piece list \<Rightarrow> bool" where
  "spoken ps \<longleftrightarrow> list_ex (\<lambda>p. case p of Lit s \<Rightarrow> s \<noteq> [] | WhatEnglish n \<Rightarrow> True | WhatChinese n \<Rightarrow> True | _ \<Rightarrow> False) ps"

lemma shaped_spoken: "list_all (\<lambda>(r, en, zh). spoken en \<and> spoken zh) shaped"
  by (simp add: shaped_def spoken_def)

lemma spoken_text:
  "spoken ps \<Longrightarrow> concat (map (\<lambda>p. case p of Server n \<Rightarrow> f n | _ \<Rightarrow> plainPiece p g) ps) \<noteq> []"
  unfolding spoken_def
proof (induction ps)
  case (Cons p ps)
  then show ?case by (cases p) (auto simp: plainPiece_def)
qed simp

lemma serverText_shape_spoken:
  assumes "s \<noteq> []" "get_prop fixed s = Absent"
  shows "\<exists>t. serverText (Some s) zh = Some t \<and> t \<noteq> []"
proof (cases "firstShape shaped s")
  case None
  then show ?thesis using assms by (subst serverText.simps) simp
next
  case (Some x)
  obtain en cn g where x: "x = ((en, cn), g)" by (metis surj_pair)
  from firstShape_Some Some x obtain r where "(r, en, cn) \<in> set shaped" by blast
  then have "spoken (if zh then cn else en)" using shaped_spoken by (auto simp: list_all_iff)
  from spoken_text [OF this, where f = "\<lambda>n. tmpl (serverText (g n) zh)" and g = g] show ?thesis
    using assms Some x by (subst serverText.simps) (simp cong: if_cong)
qed

text \<open>
  Every text of the server reaches the page: the translation of a text that is not empty is a
  text that is not empty, with the only exception of the names of properties of
  \<open>Object.prototype\<close>, for which the table lookup finds the inherited property and the function
  returns no text at all.
\<close>

theorem server_text_shown:
  "(serverText m zh = None) = (m \<in> Some ` set proto_names) \<and> (serverText m zh = Some []) = (\<not> truthy m)"
proof (cases m)
  case None
  then show ?thesis by (simp add: serverText.simps)
next
  case (Some s)
  show ?thesis
  proof (cases "s = []")
    case True
    then show ?thesis using Some by (simp add: serverText.simps proto_names_def)
  next
    case False
    show ?thesis
    proof (cases "get_prop fixed s")
      case (Own v)
      then have "(s, v) \<in> set fixed" by (rule get_prop_Own_in)
      then have "s \<notin> set proto_names" "chooseWord v zh \<noteq> []"
        using fixed_ordinary fixed_texts by (auto simp: list_all_iff chooseWord_def)
      then show ?thesis using Own Some False by (auto simp: serverText.simps)
    next
      case Inherited
      then have "s \<in> set proto_names" by (auto simp: get_prop_def split: option.splits if_splits)
      then show ?thesis using Inherited Some False by (auto simp: serverText.simps)
    next
      case Absent
      then have "s \<notin> set proto_names" by (auto simp: get_prop_def split: option.splits if_splits)
      then show ?thesis using serverText_shape_spoken [OF False Absent, of zh] Some False by auto
    qed
  qed
qed

lemma inherited_text: "serverText (Some (js ''constructor'')) zh = None"
  using server_text_shown [of "Some (js ''constructor'')" zh] by (simp add: proto_names_def)

subsection \<open>The scope of a device task\<close>

lemma scope_match:
  "rx_exec SCOPE_PATTERN s = Some g \<Longrightarrow>
     (\<exists>u. s = js ''Group '' @ u \<and> u \<noteq> [] \<and> g 1 = Some u)
   \<or> (\<exists>u. s = u @ js '' selected switches'' \<and> u \<noteq> [] \<and> list_all digit u \<and> g 1 = None \<and> g 2 = Some u)
   \<or> (\<exists>u. s = js ''Switch '' @ u \<and> u \<noteq> [] \<and> g 1 = None \<and> g 2 = None \<and> g 3 = Some u)"
proof -
  assume "rx_exec SCOPE_PATTERN s = Some g"
  from rx_exec_Some [OF this] consider
      "([], g) \<in> set (matches (Cat (rlit (js ''Group '')) (Group 1 (rplus rany))) s no_caps)"
    | "([], g) \<in> set (matches (Cat (Group 2 (rplus rdigit)) (rlit (js '' selected switches''))) s no_caps)"
    | "([], g) \<in> set (matches (Cat (rlit (js ''Switch '')) (Group 3 (rplus rany))) s no_caps)"
    by (auto simp: SCOPE_PATTERN_def simp del: matches.simps(3))
  then show ?thesis
  proof cases
    case 1
    then show ?thesis
      by (elim matches_CatE matches_rlitE) (auto dest!: matches_Group simp: rx_lang_any simp del: matches.simps)
  next
    case 2
    then obtain t where t: "(t, g) \<in> set (matches (Group 2 (rplus rdigit)) s no_caps)" "t = js '' selected switches''"
      by (elim matches_CatE matches_rlitE) (auto simp del: matches.simps)
    then have "g 1 = None" using matches_frame [OF t(1), of 1] by (simp add: rdigit_def no_caps_def)
    then show ?thesis using matches_Group [OF t(1)] t(2) by (auto simp: rx_lang_digits list_all_iff simp del: rx_lang_rplus_Unit)
  next
    case 3
    then obtain t where t: "([], g) \<in> set (matches (Group 3 (rplus rany)) t no_caps)" "s = js ''Switch '' @ t"
      by (elim matches_CatE matches_rlitE) (auto simp del: matches.simps)
    then have "g 1 = None" "g 2 = None"
      using matches_frame [OF t(1), of 1] matches_frame [OF t(1), of 2] by (simp_all add: rany_def no_caps_def)
    then show ?thesis using matches_Group [OF t(1)] t(2) by (auto simp: rx_lang_any)
  qed
qed


lemma scope_miss:
  "rx_exec SCOPE_PATTERN s = None \<longleftrightarrow>
     \<not> (\<exists>u. s = js ''Group '' @ u \<and> u \<noteq> []) \<and> \<not> (\<exists>u. s = js ''Switch '' @ u \<and> u \<noteq> [])
     \<and> \<not> (\<exists>u. s = u @ js '' selected switches'' \<and> u \<noteq> [] \<and> list_all digit u)"
proof -
  have "s \<in> rx_lang SCOPE_PATTERN \<longleftrightarrow>
     (\<exists>u. s = js ''Group '' @ u \<and> u \<in> rx_lang (rplus rany)) \<or> (\<exists>u. s = js ''Switch '' @ u \<and> u \<in> rx_lang (rplus rany))
     \<or> (\<exists>u. s = u @ js '' selected switches'' \<and> u \<in> rx_lang (rplus rdigit))"
    unfolding SCOPE_PATTERN_def by auto
  then show ?thesis unfolding rx_exec_None by (simp add: rx_lang_any rx_lang_digits list_all_iff)
qed

text \<open>
  The scope of a task is shown faithfully: a group keeps its whole name, a selection its count and
  a single switch its whole name, whatever characters they hold; a label of another form, and every
  label in English, is shown as the API sent it.
\<close>

theorem scope_shown:
  "taskScopeText label False = label
   \<and> taskScopeText (js ''Group '' @ n # ns) True = ([0x5206, 0x7EC4, 0x300C]) @ (n # ns) @ ([0x300D])
   \<and> taskScopeText (js ''Switch '' @ n # ns) True = ([0x4EA4, 0x6362, 0x673A] @ js '' '') @ (n # ns)
   \<and> taskScopeText (nat_str k @ js '' selected switches'') True = ([0x9009, 0x4E2D, 0x7684] @ js '' '') @ nat_str k @ (js '' '' @ [0x53F0, 0x4EA4, 0x6362, 0x673A])
   \<and> (\<exists>u. u \<noteq> [] \<and> (label = js ''Group '' @ u \<or> label = js ''Switch '' @ u
        \<or> label = u @ js '' selected switches'' \<and> list_all digit u)
      \<or> label = js ''All enabled switches'' \<or> taskScopeText label True = label)"
proof -
  have first: "taskScopeText (js ''Group '' @ n # ns) True = ([0x5206, 0x7EC4, 0x300C]) @ (n # ns) @ ([0x300D])"
  proof -
    obtain g where "rx_exec SCOPE_PATTERN (js ''Group '' @ n # ns) = Some g"
      using scope_miss [of "js ''Group '' @ n # ns"] by (cases "rx_exec SCOPE_PATTERN (js ''Group '' @ n # ns)") auto
    with scope_match [OF this] show ?thesis
      by (auto simp: taskScopeText_def js_Cons Cons_eq_append_conv digit_def split: option.split)
  qed
  have second: "taskScopeText (js ''Switch '' @ n # ns) True = ([0x4EA4, 0x6362, 0x673A] @ js '' '') @ (n # ns)"
  proof -
    obtain g where "rx_exec SCOPE_PATTERN (js ''Switch '' @ n # ns) = Some g"
      using scope_miss [of "js ''Switch '' @ n # ns"] by (cases "rx_exec SCOPE_PATTERN (js ''Switch '' @ n # ns)") auto
    with scope_match [OF this] show ?thesis
      by (auto simp: taskScopeText_def js_Cons Cons_eq_append_conv digit_def split: option.split)
  qed
  have third: "taskScopeText (nat_str k @ js '' selected switches'') True = ([0x9009, 0x4E2D, 0x7684] @ js '' '') @ nat_str k @ (js '' '' @ [0x53F0, 0x4EA4, 0x6362, 0x673A])"
  proof -
    obtain c cs where k: "nat_str k = c # cs" by (cases "nat_str k") auto
    have d: "list_all digit (nat_str k)" using digit_nat_str by (auto simp: list_all_iff)
    then have "c \<noteq> of_char (CHR ''G'')" "c \<noteq> of_char (CHR ''S'')" "c \<noteq> of_char (CHR ''A'')"
      using k by (auto simp: digit_def)
    moreover obtain g where "rx_exec SCOPE_PATTERN (nat_str k @ js '' selected switches'') = Some g"
      using scope_miss [of "nat_str k @ js '' selected switches''"] d
      by (cases "rx_exec SCOPE_PATTERN (nat_str k @ js '' selected switches'')") auto
    ultimately show ?thesis using scope_match [of "nat_str k @ js '' selected switches''" g] k
      by (auto simp: taskScopeText_def js_Cons split: option.split)
  qed
  show ?thesis
    using first second third scope_miss [of label] by (auto simp: taskScopeText_def)
qed

end
