(* ===== verification/ConsoleRequests.thy ===== *)
theory ConsoleRequests
  imports ApiClient Messages
begin

text \<open>
  The three request helpers of the device pages: \<open>request\<close> of \<open>features/release/jobs.ts\<close>,
  \<open>opsRequest\<close> of \<open>features/ops/api.ts\<close> and \<open>callAssets\<close> of
  \<open>features/release/asset-editors.tsx\<close>. Each sends one request and gives the parsed body or
  throws. The texts that the browser itself makes up (of a failed fetch, of a body that is no JSON, of
  a member of \<open>null\<close>, and of a value turned into a string) are the record \<open>browser\<close>.
\<close>

record browser =
  fetchText :: jstr
  syntaxText :: jstr
  nullText :: jstr
  stringOf :: "json \<Rightarrow> jstr"

text \<open>A thrown error: its message, and the status of \<open>OpsRequestError\<close> and \<open>AssetRequestError\<close>.\<close>

datatype requestError = Plain jstr | WithStatus jstr nat

fun errorMessage :: "requestError \<Rightarrow> jstr" where
  "errorMessage (Plain m) = m"
| "errorMessage (WithStatus m s) = m"

fun falsy :: "json \<Rightarrow> bool" where
  "falsy JNull = True"
| "falsy (JBool b) = (\<not> b)"
| "falsy (JNum n) = (n = 0)"
| "falsy (JStr s) = (s = [])"
| "falsy _ = False"

text \<open>\<open>data.detail || `HTTP $\{response.status\}`\<close> as the message of an \<open>Error\<close>.\<close>

definition detailText :: "browser \<Rightarrow> json \<Rightarrow> nat \<Rightarrow> jstr" where
  "detailText br data st =
     (case field (js ''detail'') data of
        Some d \<Rightarrow> if falsy d then js ''HTTP '' @ nat_str st
                  else (case d of JStr s \<Rightarrow> s | _ \<Rightarrow> stringOf br d)
      | None \<Rightarrow> js ''HTTP '' @ nat_str st)"

definition consoleInit :: "jstr \<Rightarrow> httpMethod \<Rightarrow> json option \<Rightarrow> httpRequest" where
  "consoleInit path m b = \<lparr>url = path, reqMethod = m,
     headers = (js ''Accept'', js ''application/json'') #
       (case b of None \<Rightarrow> [] | Some _ \<Rightarrow> [(js ''Content-Type'', js ''application/json'')]),
     reqBody = map_option Json b\<rparr>"

definition defaultMethod :: "json option \<Rightarrow> httpMethod" where
  "defaultMethod b = (if b = None then GET else POST)"

subsection \<open>The release workflow\<close>

definition jobRequest :: "jstr \<Rightarrow> json option \<Rightarrow> httpRequest" where
  "jobRequest path b = consoleInit path (defaultMethod b) b"

definition jobResult :: "browser \<Rightarrow> outcome \<Rightarrow> requestError + json" where
  "jobResult br out =
     (case out of
        FetchRejected aborted \<Rightarrow> Inl (Plain (fetchText br))
      | Response r \<Rightarrow>
          (case jsonBody r of
             None \<Rightarrow> Inl (Plain (syntaxText br))
           | Some data \<Rightarrow>
               if \<not> ok r then
                 if data = JNull then Inl (Plain (nullText br))
                 else Inl (Plain (detailText br data (rstatus r)))
               else Inr data))"

subsection \<open>Device operations and assets\<close>

definition statusResult :: "browser \<Rightarrow> outcome \<Rightarrow> requestError + json" where
  "statusResult br out =
     (case out of
        FetchRejected aborted \<Rightarrow> Inl (Plain (fetchText br))
      | Response r \<Rightarrow>
          (let data = nullish (jsonBody r) (JObj []) in
           if \<not> ok r then
             if data = JNull then Inl (Plain (nullText br))
             else Inl (WithStatus (detailText br data (rstatus r)) (rstatus r))
           else Inr data))"

definition opsRequest :: "jstr \<Rightarrow> json option \<Rightarrow> httpMethod option \<Rightarrow> httpRequest" where
  "opsRequest path b m = consoleInit (js ''/api/ops/'' @ path) (nullish m (defaultMethod b)) b"

definition opsResult :: "browser \<Rightarrow> outcome \<Rightarrow> requestError + json" where
  "opsResult = statusResult"

definition callAssets :: "jstr \<Rightarrow> json option \<Rightarrow> httpMethod option \<Rightarrow> httpRequest" where
  "callAssets path b m = consoleInit (js ''/api/releases/admin/'' @ path) (nullish m (defaultMethod b)) b"

definition assetsResult :: "browser \<Rightarrow> outcome \<Rightarrow> requestError + json" where
  "assetsResult = statusResult"

subsection \<open>What the pages rely on\<close>

lemma nullish_missing [simp]: "x \<noteq> Some (nullish x d) \<longleftrightarrow> x = None"
  by (cases x) auto

text \<open>The contract of such a helper: it sends what it is given, and returns only what an accepted
  response carried.\<close>

locale console_client =
  fixes send :: "jstr \<Rightarrow> json option \<Rightarrow> httpRequest"
    and finish :: "browser \<Rightarrow> outcome \<Rightarrow> requestError + json"
    and base :: jstr
  assumes send_url: "url (send p b) = base @ p"
    and send_body: "reqBody (send p b) = map_option Json b"
    and send_method: "reqMethod (send p b) = (if b = None then GET else POST)"
    and accepted: "finish br out = Inr v \<Longrightarrow>
      \<exists>r. out = Response r \<and> ok r \<and> (jsonBody r = Some v \<or> jsonBody r = None \<and> v = JObj [])"
    and refused: "\<lbrakk>\<not> ok r; jsonBody r = Some (JObj fs)\<rbrakk> \<Longrightarrow>
      \<exists>e. finish br (Response r) = Inl e \<and> errorMessage e = detailText br (JObj fs) (rstatus r)"
begin

lemma reads_send_nothing: "reqMethod (send p b) = GET \<longleftrightarrow> reqBody (send p b) = None"
  by (simp add: send_method send_body)

lemma failure_is_no_result: "\<not> ok r \<Longrightarrow> \<not> (\<exists>v. finish br (Response r) = Inr v)"
  using accepted by blast

lemma refusal_is_explained:
  assumes "\<not> ok r" "jsonBody r = Some (JObj fs)" "map_of fs (js ''detail'') = Some (JStr d)" "d \<noteq> []"
  shows "\<exists>e. finish br (Response r) = Inl e \<and> errorMessage e = d"
  using refused [OF assms(1,2), of br] assms(3,4) by (simp add: detailText_def)

end

lemmas console_defs = jobRequest_def jobResult_def opsRequest_def opsResult_def callAssets_def assetsResult_def
  statusResult_def consoleInit_def defaultMethod_def

interpretation release_client: console_client jobRequest jobResult "[]"
  by unfold_locales (auto simp: console_defs split: outcome.splits option.splits if_splits)

interpretation ops_client: console_client "\<lambda>p b. opsRequest p b None" opsResult "js ''/api/ops/''"
  by unfold_locales (auto simp: console_defs Let_def split: outcome.splits option.splits if_splits)

interpretation assets_client: console_client "\<lambda>p b. callAssets p b None" assetsResult "js ''/api/releases/admin/''"
  by unfold_locales (auto simp: console_defs Let_def split: outcome.splits option.splits if_splits)

text \<open>
  The device pages show no result of a failed request: a helper returns a value only for a
  response with a success status, and the value is the body of that response (an empty object when the
  two helpers for operations and assets could not read it).
\<close>

theorem console_results_accepted:
  "(\<exists>r. out = Response r \<and> ok r \<and> jsonBody r = Some v) = (jobResult br out = Inr v)
   \<and> (\<exists>r. out = Response r \<and> ok r \<and> nullish (jsonBody r) (JObj []) = v) = (opsResult br out = Inr v)
   \<and> (\<exists>r. out = Response r \<and> ok r \<and> nullish (jsonBody r) (JObj []) = v) = (assetsResult br out = Inr v)"
  by (auto simp: console_defs Let_def split: outcome.splits option.splits)

text \<open>
  A refusal keeps its explanation: whatever helper sent the request, the error of a failed response
  whose body has a non-empty \<open>detail\<close> text carries exactly that text.
\<close>

theorem refusals_explained:
  assumes "\<not> ok r" "jsonBody r = Some (JObj fs)" "map_of fs (js ''detail'') = Some (JStr d)" "d \<noteq> []"
  shows "map_sum errorMessage (\<lambda>v. v) (jobResult br (Response r)) = Inl d
    \<and> map_sum errorMessage (\<lambda>v. v) (opsResult br (Response r)) = Inl d
    \<and> map_sum errorMessage (\<lambda>v. v) (assetsResult br (Response r)) = Inl d"
  using release_client.refusal_is_explained [OF assms] ops_client.refusal_is_explained [OF assms]
    assets_client.refusal_is_explained [OF assms]
  by (metis map_sum.simps(1))

definition exampleRefusal :: response where
  "exampleRefusal = \<lparr>rstatus = 409, contentType = Some (js ''application/json''),
     jsonBody = Some (JObj [(js ''detail'', JStr (js ''conflict''))])\<rparr>"

definition exampleBrowser :: browser where
  "exampleBrowser = \<lparr>fetchText = js ''Failed to fetch'', syntaxText = js ''Unexpected end of JSON input'',
     nullText = js ''Cannot read properties of null'', stringOf = (\<lambda>v. js ''[object Object]'')\<rparr>"

theorem refusals_explained_witness:
  "jobResult exampleBrowser (Response exampleRefusal) = Inl (Plain (js ''conflict''))
   \<and> map_sum errorMessage (\<lambda>v. v) (opsResult exampleBrowser (Response exampleRefusal)) = Inl (js ''conflict'')"
  using refusals_explained [of exampleRefusal "[(js ''detail'', JStr (js ''conflict''))]" "js ''conflict''" exampleBrowser]
  by (simp add: exampleRefusal_def ok_def jobResult_def detailText_def)

end
