(* ===== verification/Permissions.thy ===== *)
theory Permissions
  imports Prelude "HOL-Library.List_Lexorder" "HOL-Library.Multiset"
begin

text \<open>
  The permission rules of the access pages: which permissions a tick in the role editor adds, which
  ones it locks, which roles an administrator may assign (\<open>features/access/roles-page.tsx\<close>,
  \<open>access-components.tsx\<close>, \<open>users-page.tsx\<close>). A combination is a feature of the server's catalogue: when
  its trigger is selected, all its permissions are needed. A \<open>Set\<close> is the list of its members in
  insertion order. Sorting of identifiers is by code units, the order of \<open>Array.prototype.sort\<close>.
\<close>

record PermissionCombination =
  cKey :: jstr
  cLabelKey :: jstr
  cDescription :: jstr
  cPermissions :: "jstr list"
  cTrigger :: "jstr list option"

record Role =
  roleID :: jstr
  roleName :: jstr
  roleDescription :: jstr
  system :: "jstr option"
  permissions :: "jstr list"
  roleRevision :: int
  assignmentCount :: "int option"
  roleCreatedAt :: "jstr option"
  roleUpdatedAt :: "jstr option"

text \<open>\<open>Set\<close>: \<open>add\<close>, and the constructor on an array.\<close>

definition setAdd :: "'a list \<Rightarrow> 'a \<Rightarrow> 'a list" where
  "setAdd xs x = (if x \<in> set xs then xs else xs @ [x])"

definition newSet :: "'a list \<Rightarrow> 'a list" where
  "newSet xs = foldl setAdd [] xs"

lemma set_setAdd [simp]: "set (setAdd xs x) = insert x (set xs)"
  by (auto simp: setAdd_def)

lemma distinct_setAdd [simp]: "distinct xs \<Longrightarrow> distinct (setAdd xs x)"
  by (simp add: setAdd_def)

lemma set_foldl_setAdd [simp]: "set (foldl setAdd xs ys) = set xs \<union> set ys"
  by (induction ys arbitrary: xs) auto

lemma distinct_foldl_setAdd [simp]: "distinct xs \<Longrightarrow> distinct (foldl setAdd xs ys)"
  by (induction ys arbitrary: xs) auto

lemma set_newSet [simp]: "set (newSet xs) = set xs"
  by (simp add: newSet_def)

lemma distinct_newSet [simp]: "distinct (newSet xs)"
  by (simp add: newSet_def)

definition isWritePermission :: "jstr \<Rightarrow> bool" where
  "isWritePermission key = endsWith key (js ''.write'')"

definition combinationTrigger :: "PermissionCombination \<Rightarrow> jstr list" where
  "combinationTrigger c = (case cTrigger c of
     Some ts \<Rightarrow> if ts \<noteq> [] then ts else filter isWritePermission (cPermissions c)
   | None \<Rightarrow> filter isWritePermission (cPermissions c))"

definition combinationActive :: "PermissionCombination \<Rightarrow> jstr list \<Rightarrow> bool" where
  "combinationActive c selected = list_all (\<lambda>p. p \<in> set selected) (combinationTrigger c)"

definition addFeaturePermissions :: "jstr list \<Rightarrow> jstr \<Rightarrow> PermissionCombination list \<Rightarrow> jstr list" where
  "addFeaturePermissions selected key combinations =
     foldl (\<lambda>result c. if combinationActive c result then foldl setAdd result (cPermissions c) else result)
       (setAdd (newSet selected) key) combinations"

fun combinationSearch :: "jstr \<Rightarrow> jstr list \<Rightarrow> bool \<Rightarrow> PermissionCombination list \<Rightarrow> bool" where
  "combinationSearch key actor found [] = (\<not> found)"
| "combinationSearch key actor found (c # cs) =
     (if key \<notin> set (combinationTrigger c) then combinationSearch key actor found cs
      else if list_all (\<lambda>p. p \<in> set actor) (cPermissions c) then True
      else combinationSearch key actor True cs)"

definition combinationGrantable :: "jstr \<Rightarrow> jstr list \<Rightarrow> PermissionCombination list \<Rightarrow> bool" where
  "combinationGrantable key actor combinations =
     (if \<not> isWritePermission key then True else combinationSearch key actor False combinations)"

definition isRequiredBySelectedWrite :: "jstr \<Rightarrow> jstr list \<Rightarrow> PermissionCombination list \<Rightarrow> bool" where
  "isRequiredBySelectedWrite key selected combinations =
     (if isWritePermission key then False
      else list_ex (\<lambda>c. combinationActive c selected \<and> key \<in> set (cPermissions c)
             \<and> key \<notin> set (combinationTrigger c)) combinations)"

text \<open>The checkbox of a permission: whether it is enabled, and what a change does to the draft.\<close>

definition permissionEnabled ::
    "jstr \<Rightarrow> jstr list \<Rightarrow> jstr list option \<Rightarrow> bool \<Rightarrow> PermissionCombination list \<Rightarrow> bool" where
  "permissionEnabled key selected actorPermissions superAdmin combinations =
     (let actorGrantable = newSet (nullish actorPermissions []);
          lockedByActor = (\<not> superAdmin \<and> key \<notin> set actorGrantable);
          lockedByFeature = isRequiredBySelectedWrite key selected combinations;
          unavailable = (\<not> superAdmin \<and> isWritePermission key \<and> \<not> combinationGrantable key actorGrantable combinations)
      in \<not> (lockedByActor \<or> lockedByFeature \<or> unavailable))"

definition permissionChange ::
    "bool \<Rightarrow> jstr \<Rightarrow> jstr list \<Rightarrow> jstr list option \<Rightarrow> PermissionCombination list \<Rightarrow> jstr list \<times> jstr list" where
  "permissionChange ticked key selected explicitPermissions combinations =
     (let explicit = nullish explicitPermissions selected in
      if ticked then (addFeaturePermissions selected key combinations, newSet (explicit @ [key]))
      else (filter (\<lambda>p. p \<noteq> key) selected, filter (\<lambda>p. p \<noteq> key) explicit))"

definition canAssignRole :: "Role \<Rightarrow> jstr list option \<Rightarrow> bool \<Rightarrow> bool" where
  "canAssignRole role actorPermissions superAdmin =
     (if superAdmin then True
      else if truthy (system role) then False
      else list_all (\<lambda>p. p \<in> set (newSet (nullish actorPermissions []))) (permissions role))"

definition sameRoleIDs :: "jstr list \<Rightarrow> jstr list \<Rightarrow> bool" where
  "sameRoleIDs left right =
     (if length left \<noteq> length right then False
      else list_all (\<lambda>i. sort left ! i = sort right ! i) [0..<length left])"

subsection \<open>What a tick adds\<close>

definition needs :: "PermissionCombination \<Rightarrow> jstr set \<Rightarrow> bool" where
  "needs c S \<longleftrightarrow> set (combinationTrigger c) \<subseteq> S"

lemma combinationActive_iff: "combinationActive c xs \<longleftrightarrow> needs c (set xs)"
  by (auto simp: combinationActive_def needs_def list_all_iff)

text \<open>A selection is complete when every feature whose trigger is selected has all its permissions.\<close>

definition complete :: "PermissionCombination list \<Rightarrow> jstr set \<Rightarrow> bool" where
  "complete cs S \<longleftrightarrow> (\<forall>c\<in>set cs. needs c S \<longrightarrow> set (cPermissions c) \<subseteq> S)"

text \<open>
  The catalogues of the server: a permission that one feature adds is no trigger of another, and the
  write permissions of a feature are part of its trigger.
\<close>

definition layered :: "PermissionCombination list \<Rightarrow> bool" where
  "layered cs \<longleftrightarrow> list_all (\<lambda>c. list_all (\<lambda>p. p \<in> set (combinationTrigger c) \<or>
       \<not> isWritePermission p \<and> list_all (\<lambda>d. p \<notin> set (combinationTrigger d)) cs) (cPermissions c)) cs"

lemma layeredD:
  "\<lbrakk>layered cs; c \<in> set cs; p \<in> set (cPermissions c); p \<notin> set (combinationTrigger c)\<rbrakk> \<Longrightarrow>
     \<not> isWritePermission p \<and> (\<forall>d\<in>set cs. p \<notin> set (combinationTrigger d))"
  by (auto simp: layered_def list_all_iff)

abbreviation tickStep :: "jstr list \<Rightarrow> PermissionCombination \<Rightarrow> jstr list" where
  "tickStep result c \<equiv> if combinationActive c result then foldl setAdd result (cPermissions c) else result"

lemma distinct_ticks: "distinct xs \<Longrightarrow> distinct (foldl tickStep xs cs)"
  by (induction cs arbitrary: xs) auto

lemma ticks_grow: "set xs \<subseteq> set (foldl tickStep xs cs)"
  by (induction cs arbitrary: xs) fastforce+

lemma needs_unchanged:
  assumes "layered cs" "c \<in> set cs" "d \<in> set cs" "needs c S"
  shows "needs d (S \<union> set (cPermissions c)) \<longleftrightarrow> needs d S"
  using assms layeredD [OF assms(1,2)] unfolding needs_def by blast

lemma ticks_layered:
  assumes "layered ds" "set cs \<subseteq> set ds"
  shows "set (foldl tickStep xs cs) = set xs \<union> (\<Union>c\<in>{c\<in>set cs. needs c (set xs)}. set (cPermissions c))"
  using assms(2)
proof (induction cs arbitrary: xs)
  case (Cons c cs)
  show ?case
  proof (cases "needs c (set xs)")
    case True
    then have "needs d (set xs \<union> set (cPermissions c)) = needs d (set xs)" if "d \<in> set cs" for d
      using needs_unchanged [OF assms(1)] Cons.prems that by auto
    then have e: "{d \<in> set cs. needs d (set xs \<union> set (cPermissions c))} = {d \<in> set cs. needs d (set xs)}" by blast
    have "foldl tickStep xs (c # cs) = foldl tickStep (foldl setAdd xs (cPermissions c)) cs"
      using True by (simp add: combinationActive_iff)
    then have "set (foldl tickStep xs (c # cs)) = set xs \<union> set (cPermissions c)
        \<union> (\<Union>c\<in>{d \<in> set cs. needs d (set xs)}. set (cPermissions c))"
      using Cons.IH [of "foldl setAdd xs (cPermissions c)"] Cons.prems e by simp
    then show ?thesis using True by auto
  next
    case False
    then have "foldl tickStep xs (c # cs) = foldl tickStep xs cs" by (simp add: combinationActive_iff)
    moreover have "{d \<in> set (c # cs). needs d (set xs)} = {d \<in> set cs. needs d (set xs)}" using False by auto
    ultimately show ?thesis using Cons by simp
  qed
qed simp

lemma needs_union:
  assumes "layered cs" "d \<in> set cs" "T \<subseteq> set cs" "\<forall>c\<in>T. needs c S"
  shows "needs d (S \<union> (\<Union>c\<in>T. set (cPermissions c))) \<longleftrightarrow> needs d S"
  using assms layeredD [OF assms(1)] unfolding needs_def by blast

lemma addFeature_set:
  assumes "layered cs"
  shows "set (addFeaturePermissions selected key cs) =
    insert key (set selected) \<union> (\<Union>c\<in>{c\<in>set cs. needs c (insert key (set selected))}. set (cPermissions c))"
  using ticks_layered [OF assms subset_refl, of "setAdd (newSet selected) key"]
  by (simp add: addFeaturePermissions_def)

lemma addFeature_complete:
  assumes "layered cs"
  shows "complete cs (set (addFeaturePermissions selected key cs))"
proof -
  let ?S = "insert key (set selected)"
  let ?T = "{c\<in>set cs. needs c ?S}"
  have "needs d (?S \<union> (\<Union>c\<in>?T. set (cPermissions c))) = needs d ?S" if "d \<in> set cs" for d
    by (rule needs_union [OF assms that]) simp_all
  then show ?thesis
    unfolding complete_def addFeature_set [OF assms] by blast
qed

text \<open>
  For a catalogue whose features do not trigger one another, a single pass over the features is
  enough: ticking a permission selects it, keeps what was selected, adds exactly the permissions of
  the features that are now triggered, each once, and leaves no triggered feature incomplete.
\<close>

theorem tick_completes_features:
  assumes "layered cs"
  shows "distinct (addFeaturePermissions selected key cs)
    \<and> set (addFeaturePermissions selected key cs) = insert key (set selected)
        \<union> (\<Union>c\<in>{c\<in>set cs. needs c (insert key (set selected))}. set (cPermissions c))
    \<and> complete cs (set (addFeaturePermissions selected key cs))"
  using addFeature_set [OF assms] addFeature_complete [OF assms] distinct_ticks
  by (simp add: addFeaturePermissions_def)

text \<open>
  The editor cannot be used to take a feature apart. From a complete selection, every change of a
  checkbox that is enabled gives a complete selection again, whether it ticks or unticks; the read
  permissions a selected feature needs are exactly the ones that are locked.
\<close>

theorem enabled_changes_keep_complete:
  assumes "layered cs" "complete cs (set selected)" "permissionEnabled key selected actor superAdmin cs"
  shows "complete cs (set (fst (permissionChange ticked key selected explicit cs)))"
proof (cases ticked)
  case True
  then show ?thesis using addFeature_complete [OF assms(1)] by (simp add: permissionChange_def)
next
  case False
  have r: "\<not> isRequiredBySelectedWrite key selected cs"
    using assms(3) by (simp add: permissionEnabled_def Let_def)
  have "set (cPermissions c) \<subseteq> set selected - {key}" if c: "c \<in> set cs" "needs c (set selected - {key})" for c
  proof -
    from c(2) have n: "needs c (set selected)" "key \<notin> set (combinationTrigger c)" by (auto simp: needs_def)
    then have "key \<notin> set (cPermissions c)"
      using r c(1) layeredD [OF assms(1) c(1)]
      by (auto simp: isRequiredBySelectedWrite_def combinationActive_iff list_ex_iff split: if_splits)
    then show ?thesis using assms(2) c(1) n(1) by (auto simp: complete_def)
  qed
  then show ?thesis using False by (auto simp: complete_def permissionChange_def set_diff_eq)
qed

text \<open>The catalogue of the server, in the order of its response.\<close>

definition feature :: "string list \<Rightarrow> string list \<Rightarrow> PermissionCombination" where
  "feature ps ts = \<lparr>cKey = [], cLabelKey = [], cDescription = [], cPermissions = map js ps, cTrigger = Some (map js ts)\<rparr>"

definition serverCatalogue :: "PermissionCombination list" where
  "serverCatalogue =
     [feature [''invitations.write'', ''roles.read''] [''invitations.write''],
      feature [''invitations.read'', ''invitations.write'', ''roles.read''] [''invitations.read'', ''invitations.write''],
      feature [''mail-tasks.read'', ''mail-tasks.write''] [''mail-tasks.write''],
      feature [''roles.read'', ''roles.write''] [''roles.write''],
      feature [''settings.read'', ''settings.write''] [''settings.write''],
      feature [''users.read'', ''users.write'', ''roles.read''] [''users.write'']]"


lemma server_layered: "layered serverCatalogue"
  by (simp add: layered_def serverCatalogue_def feature_def combinationTrigger_def isWritePermission_def
      js_eval suffix_def)


definition exampleSelection :: "jstr list" where
  "exampleSelection = [js ''operation-logs.read'']"

lemma example_complete: "complete serverCatalogue (set exampleSelection)"
  by (simp add: complete_def needs_def serverCatalogue_def feature_def combinationTrigger_def exampleSelection_def)

lemma example_tick:
  "addFeaturePermissions exampleSelection (js ''users.write'') serverCatalogue =
     map js [''operation-logs.read'', ''users.write'', ''users.read'', ''roles.read'']"
  by (simp add: addFeaturePermissions_def combinationActive_def serverCatalogue_def feature_def
      combinationTrigger_def exampleSelection_def setAdd_def newSet_def)

theorem tick_completes_features_witness:
  "complete serverCatalogue (set (map js [''operation-logs.read'', ''users.write'', ''users.read'', ''roles.read'']))"
  using tick_completes_features [OF server_layered, of exampleSelection "js ''users.write''"]
  unfolding example_tick by blast

lemma example_enabled:
  "permissionEnabled (js ''users.write'') exampleSelection
     (Some [js ''users.read'', js ''users.write'', js ''roles.read'']) False serverCatalogue"
  by (simp add: permissionEnabled_def isRequiredBySelectedWrite_def isWritePermission_def combinationGrantable_def
      serverCatalogue_def feature_def combinationTrigger_def suffix_def js_eval)

theorem enabled_changes_keep_complete_witness:
  "complete serverCatalogue (set (fst (permissionChange True (js ''users.write'') exampleSelection None serverCatalogue)))"
  by (rule enabled_changes_keep_complete [OF server_layered example_complete example_enabled])

subsection \<open>No escalation\<close>

lemma combinationSearch_iff:
  "combinationSearch key actor found cs \<longleftrightarrow>
     (\<exists>d\<in>set cs. key \<in> set (combinationTrigger d) \<and> set (cPermissions d) \<subseteq> set actor)
     \<or> \<not> found \<and> (\<forall>d\<in>set cs. key \<notin> set (combinationTrigger d))"
  by (induction key actor found cs rule: combinationSearch.induct) (auto simp: list_all_iff)

text \<open>What a feature adds beyond its trigger.\<close>

definition extras :: "PermissionCombination \<Rightarrow> jstr list" where
  "extras c = filter (\<lambda>p. p \<notin> set (combinationTrigger c)) (cPermissions c)"

text \<open>
  Features that share a write trigger add the same permissions, and what a feature with a read trigger
  adds is already added by a feature without it.
\<close>

definition coherent :: "PermissionCombination list \<Rightarrow> bool" where
  "coherent cs \<longleftrightarrow> list_all (\<lambda>c. list_all (\<lambda>k.
      if isWritePermission k
      then list_all (\<lambda>d. k \<in> set (combinationTrigger d) \<longrightarrow> set (extras c) \<subseteq> set (cPermissions d)) cs
      else list_ex (\<lambda>d. set (combinationTrigger d) \<subseteq> set (combinationTrigger c) - {k}
             \<and> set (extras c) \<subseteq> set (cPermissions d)) cs) (combinationTrigger c)) cs"

lemma coherent_write:
  "\<lbrakk>coherent cs; c \<in> set cs; d \<in> set cs; k \<in> set (combinationTrigger c); k \<in> set (combinationTrigger d);
    isWritePermission k\<rbrakk> \<Longrightarrow> set (extras c) \<subseteq> set (cPermissions d)"
  unfolding coherent_def list_all_iff by (metis (no_types, lifting))

lemma coherent_read:
  "\<lbrakk>coherent cs; c \<in> set cs; k \<in> set (combinationTrigger c); \<not> isWritePermission k\<rbrakk> \<Longrightarrow>
     \<exists>d\<in>set cs. set (combinationTrigger d) \<subseteq> set (combinationTrigger c) - {k} \<and> set (extras c) \<subseteq> set (cPermissions d)"
  unfolding coherent_def list_all_iff list_ex_iff by (metis (no_types, lifting))

text \<open>
  C33. An administrator who is not a super administrator cannot hand out through the editor what he does
  not hold: from a complete selection, ticking an enabled permission adds nothing outside his own
  permissions, the permissions added for its features included.
\<close>

theorem tick_no_escalation:
  assumes "layered cs" "coherent cs" "complete cs (set selected)"
    and "permissionEnabled key selected (Some actor) False cs"
  shows "set (addFeaturePermissions selected key cs) \<subseteq> set selected \<union> set actor"
proof
  fix p assume p: "p \<in> set (addFeaturePermissions selected key cs)"
  have key: "key \<in> set actor" "isWritePermission key \<Longrightarrow> combinationGrantable key (newSet actor) cs"
    using assms(4) by (auto simp: permissionEnabled_def Let_def)
  show "p \<in> set selected \<union> set actor"
  proof (rule ccontr)
    assume no: "p \<notin> set selected \<union> set actor"
    then obtain c where c: "c \<in> set cs" "needs c (insert key (set selected))" "p \<in> set (cPermissions c)"
      using p key(1) unfolding addFeature_set [OF assms(1)] by auto
    have trig: "key \<in> set (combinationTrigger c)"
      using c assms(3) no unfolding complete_def needs_def by blast
    have ex: "p \<in> set (extras c)"
      using c no key(1) by (auto simp: extras_def needs_def)
    show False
    proof (cases "isWritePermission key")
      case True
      then obtain d where "d \<in> set cs" "key \<in> set (combinationTrigger d)" "set (cPermissions d) \<subseteq> set actor"
        using key(2) c(1) trig by (auto simp: combinationGrantable_def combinationSearch_iff)
      then show False using coherent_write [OF assms(2) c(1) _ trig _ True] ex no by blast
    next
      case False
      from coherent_read [OF assms(2) c(1) trig False] obtain d
        where d: "d \<in> set cs" "set (combinationTrigger d) \<subseteq> set (combinationTrigger c) - {key}"
          "set (extras c) \<subseteq> set (cPermissions d)" by blast
      then have "needs d (set selected)" using c(2) unfolding needs_def by blast
      then show False using assms(3) d ex no unfolding complete_def by blast
    qed
  qed
qed

lemma server_coherent: "coherent serverCatalogue"
  by (simp add: coherent_def serverCatalogue_def feature_def combinationTrigger_def isWritePermission_def extras_def
      js_eval suffix_def)

theorem tick_no_escalation_witness:
  "set (addFeaturePermissions exampleSelection (js ''users.write'') serverCatalogue) \<subseteq>
     set exampleSelection \<union> set [js ''users.read'', js ''users.write'', js ''roles.read'']"
  by (rule tick_no_escalation [OF server_layered server_coherent example_complete example_enabled])

text \<open>A catalogue that is not layered: the single pass misses a feature triggered by a later one.\<close>

lemma single_pass_incomplete:
  "\<not> complete [feature [''b.write'', ''b.read''] [''b.write''], feature [''a.write'', ''b.write''] [''a.write'']]
     (set (addFeaturePermissions [] (js ''a.write'')
        [feature [''b.write'', ''b.read''] [''b.write''], feature [''a.write'', ''b.write''] [''a.write'']]))"
  by (simp add: complete_def needs_def addFeaturePermissions_def combinationActive_def feature_def
      combinationTrigger_def setAdd_def newSet_def)

subsection \<open>Role assignments\<close>

lemma list_eq_nth: "length xs = length ys \<Longrightarrow> xs = ys \<longleftrightarrow> list_all (\<lambda>i. xs ! i = ys ! i) [0..<length xs]"
  by (subst list_eq_iff_nth_eq) (auto simp: list_all_iff)

lemma sort_eq_iff_mset: "sort xs = sort ys \<longleftrightarrow> mset xs = mset ys"
proof
  assume "sort xs = sort ys"
  then have "mset (sort xs) = mset (sort ys)" by (rule arg_cong)
  then show "mset xs = mset ys" by simp
next
  assume "mset xs = mset ys"
  then have "mset (sort ys) = mset xs" by simp
  then show "sort xs = sort ys" by (intro properties_for_sort) simp_all
qed

text \<open>
  The save button of an assignment is offered exactly when it changes something: the comparison by
  sorting both lists decides whether they hold the same role identifiers, each equally often.
\<close>

theorem sameRoleIDs_iff: "sameRoleIDs left right = (mset left = mset right)"
proof (cases "length left = length right")
  case True
  then have "sameRoleIDs left right \<longleftrightarrow> sort left = sort right"
    using list_eq_nth [of "sort left" "sort right"] by (simp add: sameRoleIDs_def)
  then show ?thesis by (simp add: sort_eq_iff_mset)
next
  case False
  moreover have "mset left \<noteq> mset right"
    using False mset_eq_length by blast
  ultimately show ?thesis by (simp add: sameRoleIDs_def)
qed

end
