(* ===== verification/ReleaseJobs.thy ===== *)
theory ReleaseJobs
  imports ConsoleRequests Permissions ApiContract
begin

text \<open>
  Release jobs (\<open>features/release/jobs.ts\<close>): the job record of the API, the address of the history,
  who may release and retry, the check of a typed address, and the labels of every code in the
  interface language. An optional member that is absent, or \<open>null\<close>, is \<open>None\<close>.
\<close>

record BindingState =
  entryType :: "jstr option"
  mac :: "jstr option"

record JobResult =
  resultMessage :: "jstr option"
  preparationStatus :: "jstr option"

record JobEvent =
  eventPhase :: jstr
  eventStatus :: jstr
  eventMessage :: "jstr option"
  eventCreatedAt :: jstr

record Job =
  jobId :: jstr
  jobJobId :: "jstr option"
  targetIP :: jstr
  switchId :: jstr
  switchName :: "jstr option"
  switchManagementIP :: "jstr option"
  commandProfileId :: "jstr option"
  jobStatus :: jstr
  jobPhase :: jstr
  jobKind :: jstr
  jobReason :: jstr
  jobForce :: bool
  beforeState :: "BindingState option"
  afterState :: "BindingState option"
  jobOutcome :: "JobResult option"
  jobErrorMessage :: "jstr option"
  rawBeforeOutput :: "jstr option"
  rawReleaseOutput :: "jstr option"
  rawAfterOutput :: "jstr option"
  actorEmail :: "jstr option"
  retryOfId :: "jstr option"
  preparationJobId :: "jstr option"
  releaseJobId :: "jstr option"
  jobCreatedAt :: "jstr option"
  jobStartedAt :: "jstr option"
  jobFinishedAt :: "jstr option"
  jobEvents :: "JobEvent list option"

record JobFilter =
  filterQ :: "jstr option"
  filterKind :: "jstr option"
  filterStatus :: "jstr option"
  filterPage :: "int option"
  filterPageSize :: "int option"

text \<open>The signed-in user, as far as the device pages look at it.\<close>

record ConsoleUser =
  userSuperAdmin :: "bool option"
  userRoles :: "Role list option"

definition jobsPath :: "JobFilter \<Rightarrow> jstr" where
  "jobsPath f =
     (let p1 = paramIf (js ''q'') (map_option trim (filterQ f)) [];
          p2 = paramIf (js ''kind'') (filterKind f) p1;
          p3 = paramIf (js ''status'') (filterStatus f) p2;
          p4 = (case filterPage f of Some n \<Rightarrow> if n \<noteq> 0 \<and> n > 1 then params_set (js ''page'') (int_str n) p3 else p3
                | None \<Rightarrow> p3);
          p5 = (case filterPageSize f of Some n \<Rightarrow> if n \<noteq> 0 then params_set (js ''page_size'') (int_str n) p4 else p4
                | None \<Rightarrow> p4);
          query = params_str p5
      in js ''/api/releases/jobs'' @ (if query \<noteq> [] then 0x3F # query else []))"

definition hasRole :: "ConsoleUser \<Rightarrow> jstr list \<Rightarrow> bool" where
  "hasRole u names = list_ex (\<lambda>r. roleName r \<in> set names) (nullish (userRoles u) [])"

definition canRelease :: "ConsoleUser \<Rightarrow> bool" where
  "canRelease u = (userSuperAdmin u = Some True \<or> hasRole u [js ''Admin'', js ''Operator''])"

definition isAdmin :: "ConsoleUser \<Rightarrow> bool" where
  "isAdmin u = (userSuperAdmin u = Some True \<or> hasRole u [js ''Admin''])"

definition isRunning :: "Job option \<Rightarrow> bool" where
  "isRunning job = (case job of None \<Rightarrow> False
     | Some j \<Rightarrow> jobStatus j = js ''queued'' \<or> jobStatus j = js ''running'')"

definition shownStatus :: "Job \<Rightarrow> jstr" where
  "shownStatus job =
     (if jobKind job = js ''pre_release_query'' \<and> jobStatus job = js ''waiting_confirmation'' \<and> truthy (releaseJobId job)
      then js ''confirmed'' else jobStatus job)"

definition canRetry :: "Job \<Rightarrow> bool \<Rightarrow> bool" where
  "canRetry job admin =
     (jobStatus job \<in> set [js ''failed'', js ''timeout'', js ''needs_manual_confirmation''] \<and> (\<not> jobForce job \<or> admin))"

text \<open>
  \<open>say\<close> picks the word of a table entry; the lookup of a code that is the name of an inherited
  property finds that property, which has no words (\<open>None\<close>, \<open>undefined\<close>).
\<close>

definition say :: "words looked \<Rightarrow> bool \<Rightarrow> jstr option \<Rightarrow> jstr option" where
  "say v zh fallback = (case v of Own w \<Rightarrow> Some (chooseWord w zh) | Inherited \<Rightarrow> None | Absent \<Rightarrow> fallback)"

definition noSwitch :: words where
  "noSwitch = (js ''No enabled switch owns a validated network containing this address. An admin can check the networks under Asset settings.'', [0x6CA1, 0x6709, 0x54EA, 0x53F0, 0x5DF2, 0x542F, 0x7528, 0x7684, 0x4EA4, 0x6362, 0x673A, 0x62E5, 0x6709, 0x5305, 0x542B, 0x8BE5, 0x5730, 0x5740, 0x3001, 0x4E14, 0x5DF2, 0x9A8C, 0x8BC1, 0x7684, 0x7F51, 0x6BB5, 0x3002, 0x7BA1, 0x7406, 0x5458, 0x53EF, 0x4EE5, 0x5728, 0x201C, 0x8D44, 0x4EA7, 0x914D, 0x7F6E, 0x201D, 0x4E2D, 0x68C0, 0x67E5, 0x7F51, 0x6BB5, 0x3002])"

definition ambiguousSwitch :: words where
  "ambiguousSwitch = (js ''Several switches own equally specific networks containing this address. An admin must correct the network data first.'', [0x6709, 0x591A, 0x53F0, 0x4EA4, 0x6362, 0x673A, 0x7684, 0x7F51, 0x6BB5, 0x540C, 0x6837, 0x7CBE, 0x786E, 0x5730, 0x5305, 0x542B, 0x8BE5, 0x5730, 0x5740, 0xFF0C, 0x9700, 0x8981, 0x7BA1, 0x7406, 0x5458, 0x5148, 0x4FEE, 0x6B63, 0x7F51, 0x6BB5, 0x6570, 0x636E, 0x3002])"

definition assetChanged :: jstr where
  "assetChanged = js ''switch configuration changed since the pre-query; query again''"

definition releaseErrors :: "(jstr \<times> words) list" where
  "releaseErrors = [
    (assetChanged, (js ''The switch configuration changed after this query. Query the binding again before releasing.'', [0x67E5, 0x8BE2, 0x4E4B, 0x540E, 0x4EA4, 0x6362, 0x673A, 0x914D, 0x7F6E, 0x5DF2, 0x53D8, 0x66F4, 0x3002, 0x8BF7, 0x91CD, 0x65B0, 0x67E5, 0x8BE2, 0x7ED1, 0x5B9A, 0x72B6, 0x6001, 0x540E, 0x518D, 0x89E3, 0x7ED1, 0x3002])),
    (js ''one IPv4 address is required'', (js ''Enter one IPv4 address, for example 10.0.0.42.'', [0x8BF7, 0x8F93, 0x5165, 0x4E00, 0x4E2A] @ js '' IPv4 '' @ [0x5730, 0x5740, 0xFF0C, 0x4F8B, 0x5982] @ js '' 10.0.0.42'' @ [0x3002])),
    (js ''no enabled validated switch owns this IP'', noSwitch),
    (js ''multiple equally specific switches own this IP'', ambiguousSwitch),
    (js ''conflict'', (js ''This release cannot go ahead: the query is out of date, or another release of this address is still running or awaiting manual confirmation. Query again.'', [0x8FD9, 0x6B21, 0x89E3, 0x7ED1, 0x65E0, 0x6CD5, 0x7EE7, 0x7EED, 0xFF1A, 0x67E5, 0x8BE2, 0x7ED3, 0x679C, 0x5DF2, 0x8FC7, 0x671F, 0xFF0C, 0x6216, 0x540C, 0x4E00, 0x5730, 0x5740, 0x7684, 0x53E6, 0x4E00, 0x6B21, 0x89E3, 0x7ED1, 0x4ECD, 0x5728, 0x6267, 0x884C, 0x6216, 0x7B49, 0x5F85, 0x4EBA, 0x5DE5, 0x786E, 0x8BA4, 0x3002, 0x8BF7, 0x91CD, 0x65B0, 0x67E5, 0x8BE2, 0x3002])),
    (js ''not found'', (js ''This job no longer exists, or it belongs to someone else.'', [0x4EFB, 0x52A1, 0x4E0D, 0x5B58, 0x5728, 0xFF0C, 0x6216, 0x4E0D, 0x5C5E, 0x4E8E, 0x4F60, 0x3002]))]"

definition statuses :: "(jstr \<times> words) list" where
  "statuses = [
    (js ''queued'', (js ''Queued'', [0x6392, 0x961F, 0x4E2D])),
    (js ''query_queued'', (js ''Query queued'', [0x67E5, 0x8BE2, 0x6392, 0x961F, 0x4E2D])),
    (js ''running'', (js ''Running'', [0x6267, 0x884C, 0x4E2D])),
    (js ''waiting_confirmation'', (js ''Waiting for confirmation'', [0x7B49, 0x5F85, 0x786E, 0x8BA4])),
    (js ''confirmed'', (js ''Confirmed'', [0x5DF2, 0x786E, 0x8BA4])),
    (js ''succeeded'', (js ''Succeeded'', [0x6210, 0x529F])),
    (js ''failed'', (js ''Failed'', [0x5931, 0x8D25])),
    (js ''timeout'', (js ''Timed out'', [0x8D85, 0x65F6])),
    (js ''cancelled'', (js ''Stopped'', [0x5DF2, 0x505C, 0x6B62])),
    (js ''needs_manual_confirmation'', (js ''Needs manual confirmation'', [0x9700, 0x4EBA, 0x5DE5, 0x786E, 0x8BA4])),
    (js ''stopped_no_switch'', (js ''No switch matched'', [0x672A, 0x5339, 0x914D, 0x5230, 0x4EA4, 0x6362, 0x673A])),
    (js ''stopped_ambiguous_switch'', (js ''Several switches matched'', [0x5339, 0x914D, 0x5230, 0x591A, 0x53F0, 0x4EA4, 0x6362, 0x673A]))]"

definition phases :: "(jstr \<times> words) list" where
  "phases = [
    (js ''queued'', (js ''Queued'', [0x6392, 0x961F, 0x4E2D])),
    (js ''connecting'', (js ''Connecting to the switch'', [0x6B63, 0x5728, 0x8FDE, 0x63A5, 0x4EA4, 0x6362, 0x673A])),
    (js ''querying_before'', (js ''Querying before release'', [0x6B63, 0x5728, 0x67E5, 0x8BE2, 0x89E3, 0x7ED1, 0x524D, 0x72B6, 0x6001])),
    (js ''waiting_confirmation'', (js ''Waiting for confirmation'', [0x7B49, 0x5F85, 0x786E, 0x8BA4])),
    (js ''releasing'', (js ''Releasing'', [0x6B63, 0x5728, 0x89E3, 0x7ED1])),
    (js ''querying_after'', (js ''Querying after release'', [0x6B63, 0x5728, 0x67E5, 0x8BE2, 0x89E3, 0x7ED1, 0x540E, 0x72B6, 0x6001])),
    (js ''classifying'', (js ''Judging the result'', [0x6B63, 0x5728, 0x5224, 0x5B9A, 0x7ED3, 0x679C])),
    (js ''finished'', (js ''Finished'', [0x5DF2, 0x7ED3, 0x675F]))]"

definition entryTypes :: "(jstr \<times> words) list" where
  "entryTypes = [
    (js ''static'', (js ''Static binding'', [0x9759, 0x6001, 0x7ED1, 0x5B9A])),
    (js ''dynamic'', (js ''Dynamic entry'', [0x52A8, 0x6001, 0x8BB0, 0x5F55])),
    (js ''missing'', (js ''No record'', [0x65E0, 0x8BB0, 0x5F55])),
    (js ''unknown'', (js ''Unclear'', [0x65E0, 0x6CD5, 0x5224, 0x65AD]))]"

definition reasonWords :: "(jstr \<times> words) list" where
  "reasonWords = [
    (js ''temporary_test'', (js ''Temporary test'', [0x4E34, 0x65F6, 0x6D4B, 0x8BD5])),
    (js ''user_report'', (js ''User report'', [0x7528, 0x6237, 0x53CD, 0x9988])),
    (js ''ip_mac_change'', (js ''IP / MAC change'', js ''IP / MAC '' @ [0x53D8, 0x66F4])),
    (js ''wrong_binding_fix'', (js ''Wrong binding fix'', [0x7EA0, 0x6B63, 0x9519, 0x8BEF, 0x7ED1, 0x5B9A])),
    (js ''security_response'', (js ''Security response'', [0x5B89, 0x5168, 0x5904, 0x7F6E])),
    (js ''other'', (js ''Other'', [0x5176, 0x4ED6]))]"

definition rawOutputWords :: "(jstr \<times> words) list" where
  "rawOutputWords = [
    (js ''raw_before_output'', (js ''Raw output before release'', [0x89E3, 0x7ED1, 0x524D, 0x539F, 0x59CB, 0x8F93, 0x51FA])),
    (js ''raw_release_output'', (js ''Raw release command output'', [0x89E3, 0x7ED1, 0x547D, 0x4EE4, 0x539F, 0x59CB, 0x8F93, 0x51FA])),
    (js ''raw_after_output'', (js ''Raw output after release'', [0x89E3, 0x7ED1, 0x540E, 0x539F, 0x59CB, 0x8F93, 0x51FA]))]"

definition stops :: "(jstr \<times> words) list" where
  "stops = [
    (js ''stopped_no_switch'', noSwitch),
    (js ''stopped_ambiguous_switch'', ambiguousSwitch)]"

definition releaseErrorText :: "caught \<Rightarrow> bool \<Rightarrow> jstr option" where
  "releaseErrorText cause zh = (case cause of
     OtherCaught \<Rightarrow> Some (if zh then [0x64CD, 0x4F5C, 0x5931, 0x8D25, 0xFF0C, 0x8BF7, 0x91CD, 0x8BD5, 0x3002] else js ''Something went wrong. Try again.'')
   | ErrorOf message \<Rightarrow> say (get_prop releaseErrors message) zh (serverText (Some message) zh))"

definition octet :: rx where
  "octet = ralt [rcat [rlit (js ''25''), Unit (In [(0x30, 0x35)])],
     rcat [rlit (js ''2''), Unit (In [(0x30, 0x34)]), rdigit],
     rcat [rlit (js ''1''), rdigit, rdigit],
     rcat [ropt (Unit (In [(0x31, 0x39)])), rdigit]]"

definition ipv4 :: rx where
  "ipv4 = Cat (rtimes 3 (rcat [octet, rlit (js ''.'')])) octet"

definition targetIPProblem :: "jstr \<Rightarrow> bool \<Rightarrow> jstr" where
  "targetIPProblem typed zh =
     (let ip = trim typed in
      if ip = [] then (if zh then ([0x8BF7, 0x8F93, 0x5165, 0x8981, 0x67E5, 0x8BE2, 0x7684] @ js '' IPv4 '' @ [0x5730, 0x5740, 0x3002]) else js ''Enter the IPv4 address to query.'')
      else if rx_test ipv4 ip then []
      else if zh then ([0x8FD9, 0x4E0D, 0x662F, 0x6709, 0x6548, 0x7684] @ js '' IPv4 '' @ [0x5730, 0x5740, 0xFF0C, 0x8BF7, 0x6309] @ js '' 10.0.0.42 '' @ [0x8FD9, 0x6837, 0x7684, 0x683C, 0x5F0F, 0x8F93, 0x5165, 0x3002])
      else js ''That is not an IPv4 address. Enter one like 10.0.0.42.'')"

definition reasons :: "jstr list" where
  "reasons = [js ''temporary_test'', js ''user_report'', js ''ip_mac_change'', js ''wrong_binding_fix'',
     js ''security_response'', js ''other'']"

definition rawOutputs :: "jstr list" where
  "rawOutputs = [js ''raw_before_output'', js ''raw_release_output'', js ''raw_after_output'']"

definition spaced :: "jstr \<Rightarrow> jstr" where
  "spaced = replaceUnit 0x5F 0x20"

definition statusLabel :: "jstr \<Rightarrow> bool \<Rightarrow> jstr option" where
  "statusLabel st zh = say (get_prop statuses st) zh (Some (spaced st))"

definition phaseLabel :: "jstr \<Rightarrow> bool \<Rightarrow> jstr option" where
  "phaseLabel phase zh = say (get_prop phases phase) zh (Some (spaced phase))"

definition entryLabel :: "jstr option \<Rightarrow> bool \<Rightarrow> jstr option" where
  "entryLabel entry zh = (if truthy entry then say (get_prop entryTypes (the entry)) zh entry else Some [0x2014])"

definition reasonLabel :: "jstr \<Rightarrow> bool \<Rightarrow> jstr option" where
  "reasonLabel reason zh = say (get_prop reasonWords reason) zh (Some (spaced reason))"

definition rawOutputLabel :: "jstr \<Rightarrow> bool \<Rightarrow> jstr option" where
  "rawOutputLabel key zh = say (get_prop rawOutputWords key) zh (Some key)"

definition jobKindLabel :: "jstr \<Rightarrow> bool \<Rightarrow> jstr" where
  "jobKindLabel kd zh =
     (if kd = js ''release'' then (if zh then [0x89E3, 0x7ED1] else js ''Release'') else if zh then [0x67E5, 0x8BE2] else js ''Query'')"

definition stopText :: "jstr \<Rightarrow> bool \<Rightarrow> jstr option" where
  "stopText st zh = say (get_prop stops st) zh (Some [])"

definition statusTone :: "jstr \<Rightarrow> jstr" where
  "statusTone st =
     (if st = js ''succeeded'' then js ''good''
      else if st = js ''failed'' \<or> st = js ''timeout'' then js ''bad''
      else if st = js ''needs_manual_confirmation'' then js ''warn'' else js ''muted'')"

subsection \<open>The check of a typed address\<close>

lemma nat_str_small: "n < 10 \<Longrightarrow> nat_str n = [0x30 + n]"
  by (subst nat_str_rec) simp

lemma nat_str_big: "10 \<le> n \<Longrightarrow> nat_str n = nat_str (n div 10) @ [0x30 + n mod 10]"
  by (subst nat_str_rec) simp

lemma nat_str_digits:
  "n < 10 \<Longrightarrow> nat_str n = [0x30 + n]"
  "10 \<le> n \<Longrightarrow> n < 100 \<Longrightarrow> nat_str n = [0x30 + n div 10, 0x30 + n mod 10]"
  "100 \<le> n \<Longrightarrow> n < 1000 \<Longrightarrow> nat_str n = [0x30 + n div 100, 0x30 + n div 10 mod 10, 0x30 + n mod 10]"
proof -
  show two: "nat_str n = [0x30 + n div 10, 0x30 + n mod 10]" if "10 \<le> n" "n < 100" for n
    using that by (simp add: nat_str_big nat_str_small)
  assume n: "100 \<le> n" "n < 1000"
  then have "10 \<le> n div 10" "n div 10 < 100" by linarith+
  from two [OF this] show "nat_str n = [0x30 + n div 100, 0x30 + n div 10 mod 10, 0x30 + n mod 10]"
    using n nat_str_big [of n] by (simp add: div_mult2_eq [symmetric])
qed (rule nat_str_small)

lemma nat_str_snoc: "\<lbrakk>1 \<le> m; y < 10\<rbrakk> \<Longrightarrow> nat_str (10 * m + y) = nat_str m @ [0x30 + y]"
  using nat_str_big [of "10 * m + y"] by simp

lemma rx_lang_assoc: "rx_lang (Cat (Cat a b) c) = rx_lang (Cat a (Cat b c))"
  by (auto; metis append.assoc)

lemma rx_lang_steps:
  "s \<in> rx_lang (Cat (Cat a b) r) \<longleftrightarrow> s \<in> rx_lang (Cat a (Cat b r))"
  "s \<in> rx_lang (Cat Eps r) \<longleftrightarrow> s \<in> rx_lang r"
  "s \<in> rx_lang (Cat (Or a b) r) \<longleftrightarrow> s \<in> rx_lang (Cat a r) \<or> s \<in> rx_lang (Cat b r)"
  "s \<in> rx_lang (Or a b) \<longleftrightarrow> s \<in> rx_lang a \<or> s \<in> rx_lang b"
  "s \<in> rx_lang (Unit k) \<longleftrightarrow> (\<exists>c. s = [c] \<and> in_cls k c)"
  by (simp only: rx_lang_assoc, auto)

lemma between_same: "(a :: nat) \<le> c \<and> c \<le> a \<and> P \<longleftrightarrow> c = a \<and> P"
  by auto

lemma octet_shapes:
  "u \<in> rx_lang octet \<longleftrightarrow>
     (\<exists>c. u = [0x32, 0x35, c] \<and> 0x30 \<le> c \<and> c \<le> 0x35)
   \<or> (\<exists>c d. u = [0x32, c, d] \<and> 0x30 \<le> c \<and> c \<le> 0x34 \<and> digit d)
   \<or> (\<exists>c d. u = [0x31, c, d] \<and> digit c \<and> digit d)
   \<or> (\<exists>c d. u = [c, d] \<and> 0x31 \<le> c \<and> c \<le> 0x39 \<and> digit d)
   \<or> (\<exists>d. u = [d] \<and> digit d)"
  unfolding octet_def ropt_def rdigit_def digit_def
  by (simp add: js_Cons rx_lang_steps rx_lang_Cat_Unit between_same del: rx_lang.simps)
    (intro arg_cong2 [where f = "(\<or>)"]; auto)

lemma octet_lang: "rx_lang octet = nat_str ` {n. n < 256}"
proof (rule set_eqI, rule iffI)
  fix u assume "u \<in> rx_lang octet"
  then consider c where "u = [0x32, 0x35, c]" "0x30 \<le> c" "c \<le> 0x35"
    | c d where "u = [0x32, c, d]" "0x30 \<le> c" "c \<le> 0x34" "digit d"
    | c d where "u = [0x31, c, d]" "digit c" "digit d"
    | c d where "u = [c, d]" "0x31 \<le> c" "c \<le> 0x39" "digit d"
    | d where "u = [d]" "digit d"
    unfolding octet_shapes by blast
  then show "u \<in> nat_str ` {n. n < 256}"
  proof cases
    case (1 c)
    then have "u = nat_str (10 * 25 + (c - 0x30))" by (subst nat_str_snoc) (auto simp: nat_str_digits)
    then show ?thesis using 1 by auto
  next
    case (2 c d)
    then have "u = nat_str (10 * (10 * 2 + (c - 0x30)) + (d - 0x30))"
      by (subst nat_str_snoc, (auto simp: digit_def) [2], subst nat_str_snoc) (auto simp: nat_str_digits digit_def)
    then show ?thesis using 2 by (auto simp: digit_def)
  next
    case (3 c d)
    then have "u = nat_str (10 * (10 * 1 + (c - 0x30)) + (d - 0x30))"
      by (subst nat_str_snoc, (auto simp: digit_def) [2], subst nat_str_snoc) (auto simp: nat_str_digits digit_def)
    then show ?thesis using 3 by (auto simp: digit_def)
  next
    case (4 c d)
    then have "u = nat_str (10 * (c - 0x30) + (d - 0x30))"
      by (subst nat_str_snoc) (auto simp: nat_str_digits digit_def)
    then show ?thesis using 4 by (auto simp: digit_def)
  next
    case (5 d)
    then have "u = nat_str (d - 0x30)" by (auto simp: nat_str_digits digit_def)
    then show ?thesis using 5 by (auto simp: digit_def)
  qed
next
  fix u assume "u \<in> nat_str ` {n. n < 256}"
  then obtain n where n: "n < 256" "u = nat_str n" by blast
  then consider "n < 10" | "10 \<le> n" "n < 100" | "100 \<le> n" "n < 200" | "200 \<le> n" "n < 250" | "250 \<le> n" by linarith
  then show "u \<in> rx_lang octet"
  proof cases
    case 1
    then show ?thesis using n by (simp add: octet_shapes nat_str_digits digit_def)
  next
    case 2
    then have "1 \<le> n div 10" "n div 10 \<le> 9" by auto
    then show ?thesis using n 2 by (auto simp: octet_shapes nat_str_digits digit_def)
  next
    case 3
    then have "n div 100 = 1" by auto
    then show ?thesis using n 3 by (auto simp: octet_shapes nat_str_digits digit_def)
  next
    case 4
    then have "20 \<le> n div 10" "n div 10 < 25" by auto
    moreover have "m mod 10 \<le> 4" if "20 \<le> m" "m < 25" for m :: nat using that by presburger
    ultimately have "n div 100 = 2" "n div 10 mod 10 \<le> 4" using 4 by auto
    then show ?thesis using n 4 by (auto simp: octet_shapes nat_str_digits digit_def)
  next
    case 5
    then have ten: "n div 10 = 25" using n(1) by auto
    then have "n div 100 = 2" "n div 10 mod 10 = 5" "n mod 10 \<le> 5" using n(1) 5 by (auto simp: modulo_nat_def)
    then show ?thesis using n 5 by (auto simp: octet_shapes nat_str_digits digit_def)
  qed
qed

definition dotted :: "nat \<Rightarrow> nat \<Rightarrow> nat \<Rightarrow> nat \<Rightarrow> jstr" where
  "dotted a b c d = nat_str a @ 0x2E # nat_str b @ 0x2E # nat_str c @ 0x2E # nat_str d"

lemma dotted_nonempty [simp]: "dotted a b c d \<noteq> []" "[] \<noteq> dotted a b c d"
  by (simp_all add: dotted_def)

lemma rtimes_three: "rtimes 3 r = Cat r (Cat r (Cat r Eps))"
  by (simp add: eval_nat_numeral)

lemma catI: "\<lbrakk>u \<in> rx_lang a; v \<in> rx_lang b\<rbrakk> \<Longrightarrow> u @ v \<in> rx_lang (Cat a b)"
  by auto

lemma ipv4_lang: "rx_test ipv4 s \<longleftrightarrow> (\<exists>a b c d. a < 256 \<and> b < 256 \<and> c < 256 \<and> d < 256 \<and> s = dotted a b c d)"
  unfolding rx_test_lang
proof -
  have "s \<in> rx_lang ipv4 \<longleftrightarrow> (\<exists>a\<in>rx_lang octet. \<exists>b\<in>rx_lang octet. \<exists>c\<in>rx_lang octet. \<exists>d\<in>rx_lang octet.
      s = a @ 0x2E # b @ 0x2E # c @ 0x2E # d)"
  proof (rule iffI)
    assume "s \<in> rx_lang ipv4"
    then show "\<exists>a\<in>rx_lang octet. \<exists>b\<in>rx_lang octet. \<exists>c\<in>rx_lang octet. \<exists>d\<in>rx_lang octet.
      s = a @ 0x2E # b @ 0x2E # c @ 0x2E # d"
      unfolding ipv4_def rtimes_three by (auto simp: js_Cons) blast
  next
    assume "\<exists>a\<in>rx_lang octet. \<exists>b\<in>rx_lang octet. \<exists>c\<in>rx_lang octet. \<exists>d\<in>rx_lang octet.
      s = a @ 0x2E # b @ 0x2E # c @ 0x2E # d"
    then obtain a b c d where o: "a \<in> rx_lang octet" "b \<in> rx_lang octet" "c \<in> rx_lang octet" "d \<in> rx_lang octet"
      and s: "s = ((a @ js ''.'') @ (b @ js ''.'') @ (c @ js ''.'') @ []) @ d" by (auto simp: js_Cons)
    show "s \<in> rx_lang ipv4"
      unfolding s ipv4_def rtimes_three rcat.simps by (intro catI o) simp_all
  qed
  then show "s \<in> rx_lang ipv4 \<longleftrightarrow> (\<exists>a b c d. a < 256 \<and> b < 256 \<and> c < 256 \<and> d < 256 \<and> s = dotted a b c d)"
    unfolding octet_lang dotted_def by auto
qed

lemma target_ip_characterised:
  "targetIPProblem typed zh = [] \<longleftrightarrow>
     (\<exists>a b c d. a < 256 \<and> b < 256 \<and> c < 256 \<and> d < 256 \<and> trim typed = dotted a b c d)"
  by (auto simp: targetIPProblem_def Let_def ipv4_lang split: if_splits)

text \<open>
  The query form accepts exactly the IPv4 addresses in dotted form: the typed text, without the
  blanks around it, is four numbers below 256 in plain decimal separated by dots; every other text
  gets a message.
\<close>

theorem target_ip_accepts:
  "(targetIPProblem typed zh = []) =
     (\<exists>a b c d. a < 256 \<and> b < 256 \<and> c < 256 \<and> d < 256 \<and> trim typed = dotted a b c d)"
  by (rule target_ip_characterised)

subsection \<open>The address of the history\<close>

text \<open>The filters of a job list, in the order of the query; the first page needs no number.\<close>

definition jobFilters :: "JobFilter \<Rightarrow> params" where
  "jobFilters f = optional ''q'' (map_option trim (filterQ f)) @ optional ''kind'' (filterKind f)
     @ optional ''status'' (filterStatus f)
     @ optional ''page'' (case filterPage f of Some n \<Rightarrow> if n > 1 then Some (int_str n) else None | None \<Rightarrow> None)
     @ optional ''page_size'' (case filterPageSize f of Some n \<Rightarrow> if n \<noteq> 0 then Some (int_str n) else None | None \<Rightarrow> None)"

lemma int_str_nonempty [simp]: "int_str n \<noteq> []"
  by (simp add: int_str_def)

lemma params_str_empty: "params_str ps = [] \<longleftrightarrow> ps = []"
proof (cases ps)
  case (Cons p qs)
  then show ?thesis by (cases qs) (auto simp: params_str_def split: prod.splits)
qed (simp add: params_str_def)

lemma set_fresh_option:
  "js k \<notin> fst ` set ps \<Longrightarrow>
     (case f of Some n \<Rightarrow> if c n then params_set (js k) (int_str n) ps else ps | None \<Rightarrow> ps)
   = ps @ optional k (case f of Some n \<Rightarrow> if c n then Some (int_str n) else None | None \<Rightarrow> None)"
  by (simp add: optional_def params_set_fresh split: option.split)

lemma jobsPath_filters: "jobsPath f = withQuery (js ''/api/releases/jobs'') (jobFilters f)"
proof -
  have page: "n \<noteq> 0 \<and> n > 1 \<longleftrightarrow> n > 1" for n :: int by auto
  show ?thesis
    unfolding jobsPath_def withQuery_def jobFilters_def page
    by (simp add: Let_def params_str_empty query_append set_fresh_option)
qed

text \<open>
  The history shows what was asked for: the server reads back from the address exactly the trimmed
  search text, the kind, the status, a page after the first and a page size that are set, each once;
  filters that are empty leave no trace.
\<close>

theorem history_query_exact:
  assumes "unicode_params (jobFilters f)"
  shows "queryOf (jobsPath f) = jobFilters f"
  using assms by (simp add: jobsPath_filters queryOf_withQuery)

definition exampleFilter :: JobFilter where
  "exampleFilter = \<lparr>filterQ = Some (js '' 10.0. ''), filterKind = Some (js ''release''), filterStatus = Some [],
     filterPage = Some 1, filterPageSize = Some 8\<rparr>"

theorem history_query_exact_witness:
  "queryOf (jobsPath exampleFilter) =
     [(js ''q'', js ''10.0.''), (js ''kind'', js ''release''), (js ''page_size'', js ''8'')]"
proof -
  have e: "jobFilters exampleFilter = [(js ''q'', js ''10.0.''), (js ''kind'', js ''release''), (js ''page_size'', js ''8'')]"
    by (simp add: jobFilters_def exampleFilter_def optional_def trim_def ws_char_def js_eval int_str_def nat_str_small)
  have "unicode_params (jobFilters exampleFilter)" unfolding e by (simp add: unicode_params_def)
  from history_query_exact [OF this] e show ?thesis by simp
qed

end
