(* ===== verification/ReleaseViews.thy ===== *)
theory ReleaseViews
  imports ReleaseJobs
begin

text \<open>
  The two interactive parts of the release console: the query form (\<open>features/release/query-form.tsx\<close>)
  and the view of one job with its confirmation and retry (\<open>features/release/job-view.tsx\<close>). A
  component's state is a record; a handler is a function to the next state and the request it sends, if
  any. The view of a job is also a step relation over what can happen to it, with the requests it has
  sent as a ghost list.
\<close>

subsection \<open>The query form\<close>

record Preparation =
  prepJobId :: "jstr option"
  prepStatus :: jstr
  prepTargetIP :: jstr
  prepReason :: jstr
  prepForce :: bool
  prepSwitch :: "(jstr \<times> jstr \<times> jstr) option"

definition AUTO :: jstr where
  "AUTO = js ''auto''"

record QueryForm =
  formIP :: jstr
  formIPProblem :: jstr
  formReason :: jstr
  formForce :: bool
  formSwitch :: jstr
  formBusy :: bool
  formError :: "jstr option"
  formStopped :: "jstr option"

definition newQueryForm :: QueryForm where
  "newQueryForm = \<lparr>formIP = [], formIPProblem = [], formReason = js ''temporary_test'', formForce = False,
     formSwitch = [], formBusy = False, formError = Some [], formStopped = Some []\<rparr>"

definition forcing :: "bool \<Rightarrow> bool \<Rightarrow> QueryForm \<Rightarrow> bool" where
  "forcing allowForce admin f = (allowForce \<and> admin \<and> formForce f)"

definition typeIP :: "jstr \<Rightarrow> QueryForm \<Rightarrow> QueryForm" where
  "typeIP v f = f\<lparr>formIP := v, formIPProblem := []\<rparr>"

definition chooseReason :: "jstr \<Rightarrow> QueryForm \<Rightarrow> QueryForm" where
  "chooseReason v f = f\<lparr>formReason := v\<rparr>"

definition tickForce :: "bool \<Rightarrow> QueryForm \<Rightarrow> QueryForm" where
  "tickForce b f = f\<lparr>formForce := b\<rparr>"

definition shownSwitch :: "QueryForm \<Rightarrow> jstr" where
  "shownSwitch f = (if formSwitch f \<noteq> [] then formSwitch f else AUTO)"

definition chooseSwitch :: "jstr \<Rightarrow> QueryForm \<Rightarrow> QueryForm" where
  "chooseSwitch v f = f\<lparr>formSwitch := (if v = AUTO then [] else v)\<rparr>"

definition prepareBody :: "bool \<Rightarrow> QueryForm \<Rightarrow> json" where
  "prepareBody force f = JObj ([(js ''target_ip'', JStr (trim (formIP f))), (js ''reason'', JStr (formReason f)),
       (js ''force'', JBool force)] @
     (if force \<and> formSwitch f \<noteq> [] then [(js ''selected_switch_id'', JStr (formSwitch f))] else []))"

definition submitQuery :: "bool \<Rightarrow> bool \<Rightarrow> bool \<Rightarrow> QueryForm \<Rightarrow> QueryForm \<times> httpRequest option" where
  "submitQuery allowForce admin zh f =
     (let problem = targetIPProblem (formIP f) zh; g = f\<lparr>formIPProblem := problem\<rparr> in
      if problem \<noteq> [] then (g, None)
      else (g\<lparr>formBusy := True, formError := Some [], formStopped := Some []\<rparr>,
            Some (jobRequest (js ''/api/releases/prepare'')
              (Some (prepareBody (forcing allowForce admin f) f)))))"

definition finishQuery :: "bool \<Rightarrow> requestError + Preparation \<Rightarrow> QueryForm \<Rightarrow> QueryForm \<times> jstr option" where
  "finishQuery zh out f =
     (let (g, prepared) = (case out of
          Inr data \<Rightarrow>
            if truthy (prepJobId data) then (f, prepJobId data)
            else (f\<lparr>formStopped := (if truthy (stopText (prepStatus data) zh) then stopText (prepStatus data) zh
                                    else statusLabel (prepStatus data) zh)\<rparr>, None)
        | Inl e \<Rightarrow> (f\<lparr>formError := releaseErrorText (ErrorOf (errorMessage e)) zh\<rparr>, None))
      in (g\<lparr>formBusy := False\<rparr>, prepared))"

text \<open>
  C13. A release begins with a sound query: the form sends something only for a valid address, the
  address it sends is that address in its dotted form, a forced query comes only from an admin where
  the page allows forcing, and only a forced query names a switch.
\<close>

theorem query_sent_sound:
  "case snd (submitQuery allowForce admin zh f) of
     None \<Rightarrow> formIPProblem (fst (submitQuery allowForce admin zh f)) \<noteq> []
   | Some rq \<Rightarrow> url rq = js ''/api/releases/prepare'' \<and> reqMethod rq = POST
       \<and> (\<exists>a b c d force. a < 256 \<and> b < 256 \<and> c < 256 \<and> d < 256
           \<and> force = (allowForce \<and> admin \<and> formForce f)
           \<and> reqBody rq = Some (Json (JObj ([(js ''target_ip'', JStr (dotted a b c d)),
               (js ''reason'', JStr (formReason f)), (js ''force'', JBool force)]
               @ (if force \<and> formSwitch f \<noteq> [] then [(js ''selected_switch_id'', JStr (formSwitch f))] else [])))))"
proof (cases "targetIPProblem (formIP f) zh = []")
  case True
  then obtain a b c d where ip: "a < 256" "b < 256" "c < 256" "d < 256" "trim (formIP f) = dotted a b c d"
    unfolding target_ip_characterised by blast
  have "snd (submitQuery allowForce admin zh f) =
    Some (jobRequest (js ''/api/releases/prepare'') (Some (prepareBody (forcing allowForce admin f) f)))"
    using True by (simp add: submitQuery_def Let_def)
  then show ?thesis
    unfolding prepareBody_def ip(5) forcing_def jobRequest_def consoleInit_def defaultMethod_def
    using ip(1-4) by (simp only: option.case httpRequest.select_convs option.map simp_thms option.distinct if_False) blast
next
  case False
  then show ?thesis by (simp add: submitQuery_def Let_def)
qed

subsection \<open>The view of one job\<close>

record JobView =
  viewData :: "Job option"
  viewBusy :: bool
  viewError :: "jstr option"
  viewForce :: bool

definition newJobView :: JobView where
  "newJobView = \<lparr>viewData = None, viewBusy = False, viewError = Some [], viewForce = False\<rparr>"

definition entryOf :: "Job option \<Rightarrow> jstr option" where
  "entryOf data = Option.bind (Option.bind data beforeState) entryType"

definition settled :: "Job option \<Rightarrow> bool" where
  "settled data = (case data of None \<Rightarrow> False
     | Some j \<Rightarrow> jobStatus j = js ''waiting_confirmation'' \<or> jobStatus j = js ''cancelled'')"

definition forcedQuery :: "Job option \<Rightarrow> bool" where
  "forcedQuery data = (case data of None \<Rightarrow> False | Some j \<Rightarrow> jobForce j)"

text \<open>New data arrive; the effect runs when one of the three values it depends on has changed.\<close>

definition dependencies :: "Job option \<Rightarrow> bool \<times> jstr option \<times> bool option" where
  "dependencies data = (settled data, entryOf data, map_option jobForce data)"

definition receiveJob :: "Job \<Rightarrow> JobView \<Rightarrow> JobView" where
  "receiveJob j v =
     (let data = Some j; w = v\<lparr>viewData := data\<rparr> in
      if dependencies data \<noteq> dependencies (viewData v) \<and> settled data
      then w\<lparr>viewForce := (entryOf data = Some (js ''missing'') \<and> forcedQuery data)\<rparr>
      else w)"

definition refetchInterval :: "Job option \<Rightarrow> nat option" where
  "refetchInterval data = (if isRunning data then Some 1800 else None)"

definition stoppedNoRecord :: "Job \<Rightarrow> bool" where
  "stoppedNoRecord j = (jobStatus j = js ''cancelled'' \<and> entryOf (Some j) = Some (js ''missing''))"

definition forceable :: "bool \<Rightarrow> Job \<Rightarrow> bool" where
  "forceable admin j =
     (admin \<and> \<not> truthy (releaseJobId j) \<and> entryOf (Some j) = Some (js ''missing'')
      \<and> (jobStatus j = js ''waiting_confirmation'' \<or> stoppedNoRecord j))"

definition ready :: "bool \<Rightarrow> Job \<Rightarrow> bool \<Rightarrow> bool" where
  "ready admin j force =
     (\<not> truthy (releaseJobId j)
      \<and> (jobStatus j = js ''waiting_confirmation'' \<and> entryOf (Some j) = Some (js ''static'') \<and> \<not> force
         \<or> forceable admin j \<and> force))"

text \<open>The sentence under the title of a query, and which notices stand below its details.\<close>

definition jobMessage :: "Job \<Rightarrow> bool \<Rightarrow> jstr option" where
  "jobMessage j zh = serverText (orElse (Option.bind (jobOutcome j) resultMessage) (jobErrorMessage j)) zh"

definition queryDescription :: "bool \<Rightarrow> Job \<Rightarrow> bool \<Rightarrow> jstr \<Rightarrow> bool \<Rightarrow> jstr option" where
  "queryDescription admin j force check zh =
     (if isRunning (Some j) then phaseLabel (jobPhase j) zh
      else orElse (jobMessage j zh) (Some (if ready admin j force then check else [])))"

definition noRecordNotice :: "bool \<Rightarrow> Job \<Rightarrow> bool" where
  "noRecordNotice admin j = (stoppedNoRecord j \<and> \<not> admin)"

definition confirmBody :: "Job \<Rightarrow> bool \<Rightarrow> json" where
  "confirmBody j force = JObj [(js ''preparation_job_id'', JStr (jobId j)), (js ''force'', JBool force)]"

definition startAct :: "JobView \<Rightarrow> JobView" where
  "startAct v = v\<lparr>viewBusy := True, viewError := Some []\<rparr>"

definition clickConfirm :: "bool \<Rightarrow> JobView \<Rightarrow> JobView \<times> httpRequest option" where
  "clickConfirm admin v = (case viewData v of
     None \<Rightarrow> (v, None)
   | Some j \<Rightarrow>
       if jobKind j \<noteq> js ''release'' \<and> ready admin j (viewForce v) \<and> \<not> viewBusy v
       then (startAct v, Some (jobRequest (js ''/api/releases'') (Some (confirmBody j (viewForce v)))))
       else (v, None))"

definition clickRetry :: "bool \<Rightarrow> JobView \<Rightarrow> JobView \<times> httpRequest option" where
  "clickRetry admin v = (case viewData v of
     None \<Rightarrow> (v, None)
   | Some j \<Rightarrow>
       if canRetry j admin \<and> \<not> viewBusy v
       then (startAct v, Some (jobRequest (js ''/api/releases/jobs/'' @ jobId j @ js ''/retry'') (Some (JObj []))))
       else (v, None))"

definition toggleForce :: "bool \<Rightarrow> bool \<Rightarrow> JobView \<Rightarrow> JobView" where
  "toggleForce admin b v = (case viewData v of
     None \<Rightarrow> v
   | Some j \<Rightarrow> if jobKind j \<noteq> js ''release'' \<and> forceable admin j then v\<lparr>viewForce := b\<rparr> else v)"

text \<open>The end of \<open>act\<close>: the job to show next, with the lists of jobs invalidated; or the error.\<close>

definition finishAct :: "bool \<Rightarrow> requestError + Job \<Rightarrow> JobView \<Rightarrow> JobView \<times> jstr option" where
  "finishAct zh out v = (case out of
     Inr next \<Rightarrow> (v\<lparr>viewBusy := False\<rparr>, Some (if truthy (jobJobId next) then the (jobJobId next) else jobId next))
   | Inl e \<Rightarrow> (v\<lparr>viewError := releaseErrorText (ErrorOf (errorMessage e)) zh, viewBusy := False\<rparr>, None))"

subsection \<open>What can happen to a view\<close>

text \<open>
  A run of the view: its state, the requests it has sent with the job and the force switch they were
  sent for, and how many of them have ended. The job may arrive at any time and in any condition.
\<close>

datatype sentAs = Confirmed bool | Retried

record ViewRun =
  run :: JobView
  sentLog :: "(Job \<times> sentAs \<times> httpRequest) list"
  ended :: nat

definition startRun :: ViewRun where
  "startRun = \<lparr>run = newJobView, sentLog = [], ended = 0\<rparr>"

inductive view_step :: "bool \<Rightarrow> bool \<Rightarrow> ViewRun \<Rightarrow> ViewRun \<Rightarrow> bool" for admin zh where
  arrives: "view_step admin zh r (r\<lparr>run := receiveJob j (run r)\<rparr>)"
| toggles: "view_step admin zh r (r\<lparr>run := toggleForce admin b (run r)\<rparr>)"
| confirms: "\<lbrakk>viewData (run r) = Some j; clickConfirm admin (run r) = (v, Some rq)\<rbrakk> \<Longrightarrow>
    view_step admin zh r (r\<lparr>run := v, sentLog := sentLog r @ [(j, Confirmed (viewForce (run r)), rq)]\<rparr>)"
| retries: "\<lbrakk>viewData (run r) = Some j; clickRetry admin (run r) = (v, Some rq)\<rbrakk> \<Longrightarrow>
    view_step admin zh r (r\<lparr>run := v, sentLog := sentLog r @ [(j, Retried, rq)]\<rparr>)"
| ends: "viewBusy (run r) \<Longrightarrow>
    view_step admin zh r (r\<lparr>run := fst (finishAct zh out (run r)), ended := Suc (ended r)\<rparr>)"

inductive_cases view_stepE: "view_step admin zh r r'"

abbreviation reaches :: "bool \<Rightarrow> bool \<Rightarrow> ViewRun \<Rightarrow> bool" where
  "reaches admin zh \<equiv> (view_step admin zh)\<^sup>*\<^sup>* startRun"

definition allowedSend :: "bool \<Rightarrow> Job \<times> sentAs \<times> httpRequest \<Rightarrow> bool" where
  "allowedSend admin x = (case x of
     (j, Confirmed force, rq) \<Rightarrow>
       jobKind j \<noteq> js ''release'' \<and> \<not> truthy (releaseJobId j)
       \<and> rq = jobRequest (js ''/api/releases'') (Some (confirmBody j force))
       \<and> (if force then admin \<and> entryOf (Some j) = Some (js ''missing'')
              \<and> jobStatus j \<in> {js ''waiting_confirmation'', js ''cancelled''}
          else jobStatus j = js ''waiting_confirmation'' \<and> entryOf (Some j) = Some (js ''static''))
   | (j, Retried, rq) \<Rightarrow>
       jobStatus j \<in> {js ''failed'', js ''timeout'', js ''needs_manual_confirmation''} \<and> (\<not> jobForce j \<or> admin)
       \<and> rq = jobRequest (js ''/api/releases/jobs/'' @ jobId j @ js ''/retry'') (Some (JObj [])))"

lemmas click_defs = clickConfirm_def clickRetry_def startAct_def ready_def forceable_def stoppedNoRecord_def canRetry_def

lemma confirm_sends:
  "\<lbrakk>viewData v = Some j; clickConfirm admin v = (w, Some rq)\<rbrakk> \<Longrightarrow>
     allowedSend admin (j, Confirmed (viewForce v), rq) \<and> \<not> viewBusy v \<and> w = startAct v"
  by (auto simp: click_defs allowedSend_def split: if_splits)

lemma retry_sends:
  "\<lbrakk>viewData v = Some j; clickRetry admin v = (w, Some rq)\<rbrakk> \<Longrightarrow>
     allowedSend admin (j, Retried, rq) \<and> \<not> viewBusy v \<and> w = startAct v"
  by (auto simp: click_defs allowedSend_def split: if_splits)

text \<open>The switch stays off for a settled query that found a record.\<close>

definition switchOff :: "JobView \<Rightarrow> bool" where
  "switchOff v \<longleftrightarrow> (settled (viewData v) \<and> entryOf (viewData v) \<noteq> Some (js ''missing'') \<longrightarrow> \<not> viewForce v)"

lemma switchOff_receive: "switchOff v \<Longrightarrow> switchOff (receiveJob j v)"
  by (auto simp: switchOff_def receiveJob_def Let_def dependencies_def)

lemma switchOff_toggle: "switchOff v \<Longrightarrow> switchOff (toggleForce admin b v)"
  by (auto simp: switchOff_def toggleForce_def forceable_def split: option.splits)

lemma switchOff_act [simp]: "switchOff (startAct v) = switchOff v" "switchOff (fst (finishAct zh out v)) = switchOff v"
  by (auto simp: switchOff_def startAct_def finishAct_def split: sum.splits)

lemma busy_views [simp]:
  "viewBusy (receiveJob j v) = viewBusy v" "viewBusy (toggleForce admin b v) = viewBusy v"
  "viewBusy (startAct v)" "\<not> viewBusy (fst (finishAct zh out v))"
  by (auto simp: receiveJob_def Let_def toggleForce_def startAct_def finishAct_def split: option.splits sum.splits)

definition goodRun :: "bool \<Rightarrow> ViewRun \<Rightarrow> bool" where
  "goodRun admin r \<longleftrightarrow> list_all (allowedSend admin) (sentLog r) \<and> switchOff (run r)
     \<and> length (sentLog r) = ended r + (if viewBusy (run r) then 1 else 0)"

lemma goodRun_step: "\<lbrakk>view_step admin zh r r'; goodRun admin r\<rbrakk> \<Longrightarrow> goodRun admin r'"
proof (induction rule: view_step.induct)
  case (confirms r j v rq)
  from confirm_sends [OF confirms(1,2)] confirms(3) show ?case by (auto simp: goodRun_def)
next
  case (retries r j v rq)
  from retry_sends [OF retries(1,2)] retries(3) show ?case by (auto simp: goodRun_def)
qed (auto simp: goodRun_def switchOff_receive switchOff_toggle)

lemma goodRun_start: "goodRun admin startRun"
  by (simp add: goodRun_def startRun_def newJobView_def switchOff_def settled_def)

lemma goodRun_reaches: "reaches admin zh r \<Longrightarrow> goodRun admin r"
  by (induction rule: rtranclp_induct) (auto simp: goodRun_start goodRun_step)

text \<open>
  C4. Whatever job data arrive and whatever is clicked, in whatever order, every request a job's view
  sends is allowed: a release is confirmed for a query that has no release yet, unforced only with a
  static record and forced only by an admin where no record was found; a retry only of a failed, timed
  out or uncertain job, a forced one only by an admin.
\<close>

theorem sent_releases_allowed:
  assumes "reaches admin zh r"
  shows "list_all (allowedSend admin) (sentLog r)"
  using goodRun_reaches [OF assms] by (simp add: goodRun_def)

text \<open>
  A view waits for one request at a time: of the requests it has sent, all but the one it is busy with
  have ended.
\<close>

theorem one_request_at_a_time:
  assumes "reaches admin zh r"
  shows "length (sentLog r) = ended r + (if viewBusy (run r) then 1 else 0)"
  using goodRun_reaches [OF assms] by (simp add: goodRun_def)

text \<open>
  The switch for a forced release never hides an ordinary one: in every reachable state, a query
  that waits for confirmation with a static record and no release can be confirmed as soon as the view
  is not busy, and the request sent is not forced.
\<close>

theorem confirmation_offered:
  assumes "reaches admin zh r" "viewData (run r) = Some j" "\<not> viewBusy (run r)"
    and "jobKind j = js ''pre_release_query''" "jobStatus j = js ''waiting_confirmation''"
    and "entryOf (Some j) = Some (js ''static'')" "releaseJobId j = None"
  shows "snd (clickConfirm admin (run r)) = Some (jobRequest (js ''/api/releases'') (Some (confirmBody j False)))"
proof -
  have "switchOff (run r)" using goodRun_reaches [OF assms(1)] by (simp add: goodRun_def)
  then have "\<not> viewForce (run r)" using assms by (simp add: switchOff_def settled_def)
  then show ?thesis using assms by (simp add: clickConfirm_def ready_def)
qed

definition exampleJob :: Job where
  "exampleJob = \<lparr>jobId = js ''j1'', jobJobId = None, targetIP = js ''10.0.0.42'', switchId = js ''s1'', switchName = None,
     switchManagementIP = None, commandProfileId = None, jobStatus = js ''waiting_confirmation'',
     jobPhase = js ''waiting_confirmation'', jobKind = js ''pre_release_query'', jobReason = js ''other'', jobForce = False,
     beforeState = Some \<lparr>entryType = Some (js ''static''), mac = None\<rparr>, afterState = None, jobOutcome = None,
     jobErrorMessage = None, rawBeforeOutput = None, rawReleaseOutput = None, rawAfterOutput = None, actorEmail = None,
     retryOfId = None, preparationJobId = None, releaseJobId = None, jobCreatedAt = None, jobStartedAt = None,
     jobFinishedAt = None, jobEvents = None\<rparr>"

definition exampleView :: JobView where
  "exampleView = receiveJob exampleJob newJobView"

lemma exampleView_waits:
  "viewData exampleView = Some exampleJob" "\<not> viewBusy exampleView" "entryOf (Some exampleJob) = Some (js ''static'')"
  "jobKind exampleJob = js ''pre_release_query''" "jobStatus exampleJob = js ''waiting_confirmation''"
  "releaseJobId exampleJob = None"
  by (simp_all add: exampleView_def receiveJob_def Let_def newJobView_def exampleJob_def entryOf_def)

lemma example_reached: "reaches admin zh (startRun\<lparr>run := exampleView\<rparr>)"
  using view_step.arrives [of admin zh startRun exampleJob] by (simp add: startRun_def exampleView_def)

theorem confirmation_offered_witness:
  "snd (clickConfirm False exampleView) = Some (jobRequest (js ''/api/releases'') (Some (confirmBody exampleJob False)))"
  using confirmation_offered [OF example_reached, of exampleJob False] exampleView_waits by simp

lemma example_sent:
  "reaches False False \<lparr>run = startAct exampleView, sentLog = [(exampleJob, Confirmed False,
     jobRequest (js ''/api/releases'') (Some (confirmBody exampleJob False)))], ended = 0\<rparr>"
proof -
  have off: "\<not> viewForce exampleView"
    by (simp add: exampleView_def receiveJob_def Let_def newJobView_def entryOf_def exampleJob_def)
  then have "clickConfirm False exampleView =
      (startAct exampleView, Some (jobRequest (js ''/api/releases'') (Some (confirmBody exampleJob False))))"
    using exampleView_waits by (simp add: clickConfirm_def ready_def)
  then have "view_step False False (startRun\<lparr>run := exampleView\<rparr>) \<lparr>run = startAct exampleView, sentLog = [(exampleJob, Confirmed False,
     jobRequest (js ''/api/releases'') (Some (confirmBody exampleJob False)))], ended = 0\<rparr>"
    using view_step.confirms [of "startRun\<lparr>run := exampleView\<rparr>" exampleJob False] off exampleView_waits(1)
    by (simp add: startRun_def)
  then show ?thesis using example_reached [of False False] by (rule rtranclp.rtrancl_into_rtrancl [rotated])
qed

theorem sent_releases_allowed_witness:
  "list_all (allowedSend False) [(exampleJob, Confirmed False,
     jobRequest (js ''/api/releases'') (Some (confirmBody exampleJob False)))]"
  using sent_releases_allowed [OF example_sent] by simp

theorem one_request_at_a_time_witness:
  "length [(exampleJob, Confirmed False, jobRequest (js ''/api/releases'') (Some (confirmBody exampleJob False)))]
     = 0 + (if viewBusy (startAct exampleView) then 1 else 0)"
  using one_request_at_a_time [OF example_sent] by simp

end
