(* ===== verification/RequiredFields.thy ===== *)
theory RequiredFields
  imports JsRegex
begin

text \<open>
  Required fields of the device forms (\<open>features/release/required-fields.tsx\<close>): the message that names an
  empty field by its label, and the state of the hook \<open>useRequiredFields\<close>, which flags empty fields once
  the form was first submitted. Focusing an element is the identifier it is asked for.
\<close>

record RequiredField =
  fieldId :: jstr
  fieldLabel :: jstr
  fieldValue :: jstr
  fieldChoose :: bool

text \<open>\<open>replace\<close> with a global pattern that matches no empty text, and no replacement.\<close>

function removeAll :: "rx \<Rightarrow> jstr \<Rightarrow> jstr" where
  "removeAll r [] = []"
| "removeAll r (c # s) =
     (case rx_prefix r (c # s) of
        None \<Rightarrow> c # removeAll r s
      | Some (t, g) \<Rightarrow> if length t < length (c # s) then removeAll r t else c # removeAll r s)"
  by pat_completeness auto
termination
  by (relation "measure (\<lambda>(r, s). length s)") auto

definition HINT :: rx where
  "HINT = Or (rcat [Unit (In [(0xFF08, 0xFF08)]), Many (Unit (NotIn [(0xFF09, 0xFF09)])), Unit (In [(0xFF09, 0xFF09)])])
     (rcat [rlit (js ''(''), Many (Unit (NotIn [(0x29, 0x29)])), rlit (js '')'')])"

definition startsAlnum :: rx where
  "startsAlnum = Unit (In [(0x41, 0x5A), (0x61, 0x7A), (0x30, 0x39)])"

definition requiredMessage :: "jstr \<Rightarrow> bool \<Rightarrow> bool \<Rightarrow> jstr" where
  "requiredMessage rawLabel chosen zh =
     (let label = trim (removeAll HINT rawLabel) in
      if \<not> zh then label @ js '' is required.''
      else (if chosen then [0x8BF7, 0x9009, 0x62E9] else [0x8BF7, 0x8F93, 0x5165]) @ (if rx_prefix startsAlnum label \<noteq> None then js '' '' else []) @ label @ [0x3002])"

definition blank :: "RequiredField \<Rightarrow> bool" where
  "blank f = (trim (fieldValue f) = [])"

text \<open>\<open>missing\<close>: a map keyed by identifier, the last field of an identifier winning.\<close>

definition missing :: "bool \<Rightarrow> RequiredField list \<Rightarrow> (jstr \<times> RequiredField) list" where
  "missing checked fs = (if checked then map (\<lambda>f. (fieldId f, f)) (filter blank fs) else [])"

definition missingField :: "bool \<Rightarrow> RequiredField list \<Rightarrow> jstr \<Rightarrow> RequiredField option" where
  "missingField checked fs i = map_of (rev (missing checked fs)) i"

text \<open>\<open>check\<close>: the next \<open>checked\<close>, the field to focus, and whether the form may be saved.\<close>

definition check :: "RequiredField list \<Rightarrow> bool \<times> jstr option \<times> bool" where
  "check fs = (case find blank fs of
     None \<Rightarrow> (True, None, True) | Some f \<Rightarrow> (True, Some (fieldId f), False))"

definition reset :: bool where
  "reset = False"

definition invalid :: "bool \<Rightarrow> RequiredField list \<Rightarrow> jstr \<Rightarrow> bool" where
  "invalid checked fs i = (missingField checked fs i \<noteq> None)"

text \<open>\<open>control\<close>: whether \<open>aria-invalid\<close> is set, and \<open>aria-describedby\<close>.\<close>

definition control :: "bool \<Rightarrow> RequiredField list \<Rightarrow> jstr \<Rightarrow> jstr option \<Rightarrow> bool \<times> jstr option" where
  "control checked fs i describedBy =
     (if invalid checked fs i
      then (True, Some (joinWith (js '' '') ((if truthy describedBy then [the describedBy] else []) @ [i @ js ''-required''])))
      else (False, describedBy))"

definition fieldMessage :: "bool \<Rightarrow> RequiredField list \<Rightarrow> bool \<Rightarrow> jstr \<Rightarrow> (jstr \<times> jstr) option" where
  "fieldMessage checked fs zh i =
     map_option (\<lambda>f. (i @ js ''-required'', requiredMessage (fieldLabel f) (fieldChoose f) zh))
       (missingField checked fs i)"

subsection \<open>What a form relies on\<close>

lemma invalid_iff: "invalid checked fs i \<longleftrightarrow> checked \<and> (\<exists>f\<in>set fs. fieldId f = i \<and> blank f)"
proof -
  have "invalid checked fs i \<longleftrightarrow> i \<in> fst ` set (missing checked fs)"
    by (simp add: invalid_def missingField_def map_of_eq_None_iff)
  then show ?thesis by (force simp: missing_def)
qed

lemma check_iff: "snd (snd (check fs)) \<longleftrightarrow> (\<forall>f\<in>set fs. \<not> blank f)"
proof (cases "find blank fs")
  case None
  then have "\<forall>f\<in>set fs. \<not> blank f" by (auto simp: find_None_iff)
  then show ?thesis using None by (simp add: check_def)
next
  case (Some f)
  then have "f \<in> set fs" "blank f" by (auto simp: find_Some_iff)
  then show ?thesis using Some by (auto simp: check_def)
qed

text \<open>
  An attempt to save goes through exactly when no required field is blank, and a refused attempt is
  explained: the field that gets the focus is a blank one, it is flagged, and it has a message under the
  element its control refers to. A field that is filled in is not flagged.
\<close>

theorem refused_saves_explained:
  "case check fs of (checked, focus, go) \<Rightarrow>
     go = list_all (\<lambda>f. trim (fieldValue f) \<noteq> []) fs
   \<and> (case focus of
        None \<Rightarrow> go
      | Some i \<Rightarrow> \<not> go \<and> invalid checked fs i \<and> fst (control checked fs i None)
          \<and> map_option fst (fieldMessage checked fs zh i) = snd (control checked fs i None))
   \<and> {i. invalid checked fs i} = fieldId ` {f \<in> set fs. trim (fieldValue f) = []}"
proof (cases "find blank fs")
  case None
  then have "\<forall>f\<in>set fs. \<not> blank f" by (auto simp: find_None_iff)
  then show ?thesis using None by (auto simp: check_def invalid_iff list_all_iff blank_def)
next
  case (Some f)
  then have f: "f \<in> set fs" "blank f" by (auto simp: find_Some_iff)
  then have i: "invalid True fs (fieldId f)" by (auto simp: invalid_iff)
  then have "map_option fst (fieldMessage True fs zh (fieldId f)) = Some (fieldId f @ js ''-required'')"
    by (auto simp: fieldMessage_def invalid_def)
  then show ?thesis
    using Some f i by (auto simp: check_def control_def invalid_iff list_all_iff blank_def)
qed

end
