(* ===== verification/AssetEditors.thy ===== *)
theory AssetEditors
  imports ReleaseJobs RequiredFields "HOL-Library.AList"
begin

text \<open>
  The asset editors (\<open>features/release/asset-editors.tsx\<close>): the five kinds of asset, the form an editor
  opens with, the request a form becomes, the switch between enabled and disabled, the labels and the
  summary of an audit record. \<open>JSON.parse\<close> and \<open>JSON.stringify\<close> with two blanks of indentation are the
  record \<open>jsonText\<close>: they are the browser's, and what a property needs of them is a hypothesis.
\<close>

record jsonText =
  parseText :: "jstr \<Rightarrow> json option"
  printText :: "json \<Rightarrow> jstr"

definition profileRuleKeys :: "jstr list" where
  "profileRuleKeys = [js ''command_templates'', js ''parser_rules'', js ''login_prompt_patterns'', js ''prompt_patterns'', js ''pagination_rules'', js ''success_patterns'', js ''error_patterns'']"

definition arrayRules :: "jstr list" where
  "arrayRules = [js ''success_patterns'', js ''error_patterns'']"

definition ruleLabels :: "(jstr \<times> words) list" where
  "ruleLabels = [
    (js ''command_templates'', (js ''Commands'', [0x547D, 0x4EE4])),
    (js ''parser_rules'', (js ''Parsing rules'', [0x89E3, 0x6790, 0x89C4, 0x5219])),
    (js ''login_prompt_patterns'', (js ''Login prompts'', [0x767B, 0x5F55, 0x63D0, 0x793A, 0x7B26])),
    (js ''prompt_patterns'', (js ''Command prompts'', [0x547D, 0x4EE4, 0x63D0, 0x793A, 0x7B26])),
    (js ''pagination_rules'', (js ''Paging'', [0x5206, 0x9875, 0x5904, 0x7406])),
    (js ''success_patterns'', (js ''Success patterns'', [0x6210, 0x529F, 0x5339, 0x914D])),
    (js ''error_patterns'', (js ''Error patterns'', [0x9519, 0x8BEF, 0x5339, 0x914D]))]"

definition ruleHints :: "(jstr \<times> words) list" where
  "ruleHints = [
    (js ''command_templates'', (js ''JSON object: single_arp_query and arp_release for releases ($ip is the address), optional config and exit_config, and config_backup for backups.'', js ''JSON '' @ [0x5BF9, 0x8C61, 0xFF1A] @ js ''single_arp_query '' @ [0x548C] @ js '' arp_release '' @ [0x7528, 0x4E8E, 0x89E3, 0x7ED1, 0xFF08] @ js ''$ip '' @ [0x4EE3, 0x8868, 0x76EE, 0x6807, 0x5730, 0x5740, 0xFF09, 0xFF0C] @ js ''config'' @ [0x3001] @ js ''exit_config '' @ [0x53EF, 0x9009, 0xFF0C] @ js ''config_backup '' @ [0x7528, 0x4E8E, 0x914D, 0x7F6E, 0x5907, 0x4EFD, 0x3002])),
    (js ''parser_rules'', (js ''JSON object: arp_entry_regex with ip, mac and type groups, plus static_type_values, dynamic_type_values and missing_patterns.'', js ''JSON '' @ [0x5BF9, 0x8C61, 0xFF1A] @ js ''arp_entry_regex'' @ [0xFF08, 0x542B] @ js '' ip'' @ [0x3001] @ js ''mac'' @ [0x3001] @ js ''type '' @ [0x5206, 0x7EC4, 0xFF09, 0xFF0C, 0x4EE5, 0x53CA] @ js '' static_type_values'' @ [0x3001] @ js ''dynamic_type_values'' @ [0x3001] @ js ''missing_patterns'' @ [0x3002])),
    (js ''login_prompt_patterns'', (js ''JSON object of login prompt patterns; {} keeps the driver defaults.'', js ''JSON '' @ [0x5BF9, 0x8C61, 0xFF0C, 0x767B, 0x5F55, 0x63D0, 0x793A, 0x7B26, 0x7684, 0x5339, 0x914D, 0x89C4, 0x5219, 0xFF1B] @ js ''{} '' @ [0x8868, 0x793A, 0x6CBF, 0x7528, 0x9A71, 0x52A8, 0x9ED8, 0x8BA4, 0x503C, 0x3002])),
    (js ''prompt_patterns'', (js ''JSON object of command prompt patterns; {} keeps the driver defaults.'', js ''JSON '' @ [0x5BF9, 0x8C61, 0xFF0C, 0x547D, 0x4EE4, 0x63D0, 0x793A, 0x7B26, 0x7684, 0x5339, 0x914D, 0x89C4, 0x5219, 0xFF1B] @ js ''{} '' @ [0x8868, 0x793A, 0x6CBF, 0x7528, 0x9A71, 0x52A8, 0x9ED8, 0x8BA4, 0x503C, 0x3002])),
    (js ''pagination_rules'', (js ''JSON object; disable_paging_command turns paging off, such as '' @ [0x22] @ js ''screen-length 0 temporary'' @ [0x22] @ js ''. {} for none.'', js ''JSON '' @ [0x5BF9, 0x8C61, 0xFF1B] @ js ''disable_paging_command '' @ [0x7528, 0x4E8E, 0x5173, 0x95ED, 0x5206, 0x9875, 0xFF0C, 0x4F8B, 0x5982] @ js '' '' @ [0x22] @ js ''screen-length 0 temporary'' @ [0x22, 0x3002] @ js ''{} '' @ [0x8868, 0x793A, 0x4E0D, 0x5904, 0x7406, 0x3002])),
    (js ''success_patterns'', (js ''JSON array of regular expressions; release output matching one counts as success.'', js ''JSON '' @ [0x6570, 0x7EC4, 0xFF0C, 0x89E3, 0x7ED1, 0x8F93, 0x51FA, 0x547D, 0x4E2D, 0x5176, 0x4E2D, 0x4EFB, 0x4E00, 0x6B63, 0x5219, 0x5373, 0x89C6, 0x4E3A, 0x6210, 0x529F, 0x3002])),
    (js ''error_patterns'', (js ''JSON array of regular expressions; command output matching one counts as an error.'', js ''JSON '' @ [0x6570, 0x7EC4, 0xFF0C, 0x547D, 0x4EE4, 0x8F93, 0x51FA, 0x547D, 0x4E2D, 0x5176, 0x4E2D, 0x4EFB, 0x4E00, 0x6B63, 0x5219, 0x5373, 0x89C6, 0x4E3A, 0x51FA, 0x9519, 0x3002]))]"

definition editorWords :: "(jstr \<times> words) list" where
  "editorWords = [
    (js ''edit'', (js ''Edit'', [0x7F16, 0x8F91])),
    (js ''enable'', (js ''Enable'', [0x542F, 0x7528])),
    (js ''disable'', (js ''Disable'', [0x505C, 0x7528])),
    (js ''disabled'', (js ''Disabled'', [0x5DF2, 0x505C, 0x7528])),
    (js ''unvalidated'', (js ''Unvalidated'', [0x672A, 0x9A8C, 0x8BC1])),
    (js ''cancel'', (js ''Cancel'', [0x53D6, 0x6D88])),
    (js ''close'', (js ''Close'', [0x5173, 0x95ED])),
    (js ''save'', (js ''Save changes'', [0x4FDD, 0x5B58, 0x4FEE, 0x6539])),
    (js ''saving'', (js ''Saving'' @ [0x2026], [0x6B63, 0x5728, 0x4FDD, 0x5B58, 0x2026])),
    (js ''saved'', (js ''Saved.'', [0x5DF2, 0x4FDD, 0x5B58, 0x3002])),
    (js ''choose'', (js ''Choose'' @ [0x2026], [0x8BF7, 0x9009, 0x62E9])),
    (js ''name'', (js ''Name'', [0x540D, 0x79F0])),
    (js ''username'', (js ''Device username'', [0x8BBE, 0x5907, 0x7528, 0x6237, 0x540D])),
    (js ''description'', (js ''Description (optional)'', [0x63CF, 0x8FF0, 0xFF08, 0x53EF, 0x9009, 0xFF09])),
    (js ''newPassword'', (js ''New device password'', [0x65B0, 0x8BBE, 0x5907, 0x5BC6, 0x7801])),
    (js ''newSecret'', (js ''New privilege secret'', [0x65B0, 0x7279, 0x6743, 0x5BC6, 0x7801])),
    (js ''keep'', (js ''Leave empty to keep the stored value'', [0x7559, 0x7A7A, 0x5219, 0x4FDD, 0x7559, 0x73B0, 0x6709, 0x503C])),
    (js ''clearSecret'', (js ''Remove the stored privilege secret'', [0x5220, 0x9664, 0x5DF2, 0x4FDD, 0x5B58, 0x7684, 0x7279, 0x6743, 0x5BC6, 0x7801])),
    (js ''managementIP'', (js ''Management IPv4'', [0x7BA1, 0x7406] @ js '' IPv4'')),
    (js ''credential'', (js ''Credential'', [0x51ED, 0x636E])),
    (js ''profile'', (js ''Command profile'', [0x547D, 0x4EE4, 0x6A21, 0x677F])),
    (js ''switch'', (js ''Switch'', [0x6240, 0x5C5E, 0x4EA4, 0x6362, 0x673A])),
    (js ''cidr'', (js ''IPv4 CIDR'', js ''IPv4 CIDR'')),
    (js ''vlan'', (js ''VLAN (optional)'', js ''VLAN'' @ [0xFF08, 0x53EF, 0x9009, 0xFF09])),
    (js ''validated'', (js ''Network ownership manually validated'', [0x5DF2, 0x4EBA, 0x5DE5, 0x9A8C, 0x8BC1, 0x7F51, 0x6BB5, 0x5F52, 0x5C5E])),
    (js ''inactive'', (js '' (disabled)'', [0xFF08, 0x5DF2, 0x505C, 0x7528, 0xFF09])),
    (js ''vendor'', (js ''Vendor'', [0x5382, 0x5546])),
    (js ''model'', (js ''Model (optional)'', [0x578B, 0x53F7, 0xFF08, 0x53EF, 0x9009, 0xFF09])),
    (js ''site'', (js ''Site or campus (optional)'', [0x7AD9, 0x70B9, 0x6216, 0x6821, 0x533A, 0xFF08, 0x53EF, 0x9009, 0xFF09])),
    (js ''group'', (js ''Group'', [0x5206, 0x7EC4])),
    (js ''noGroup'', (js ''No group'', [0x4E0D, 0x5206, 0x7EC4])),
    (js ''protocol'', (js ''Login protocol'', [0x767B, 0x5F55, 0x534F, 0x8BAE])),
    (js ''port'', (js ''Port (optional)'', [0x7AEF, 0x53E3, 0xFF08, 0x53EF, 0x9009, 0xFF09])),
    (js ''portHint'', (js ''Leave empty for the protocol default (SSH 22, Telnet 23).'', [0x7559, 0x7A7A, 0x5219, 0x4F7F, 0x7528, 0x534F, 0x8BAE, 0x9ED8, 0x8BA4, 0x7AEF, 0x53E3, 0xFF08] @ js ''SSH 22'' @ [0xFF0C] @ js ''Telnet 23'' @ [0xFF09])),
    (js ''invalidPort'', (js ''Port must be a number from 1 to 65535.'', [0x7AEF, 0x53E3, 0x5FC5, 0x987B, 0x662F] @ js '' 1'' @ [0x2013] @ js ''65535 '' @ [0x4E4B, 0x95F4, 0x7684, 0x6570, 0x5B57, 0x3002]))]"

definition hintWords :: "(jstr \<times> words) list" where
  "hintWords = [
    (js ''credentials'', (js ''Stored passwords are never shown. Leave both password fields empty to keep them.'', [0x5BC6, 0x7801, 0x4E0D, 0x4F1A, 0x56DE, 0x663E, 0x3002, 0x4E24, 0x4E2A, 0x5BC6, 0x7801, 0x6846, 0x7559, 0x7A7A, 0x5373, 0x4FDD, 0x7559, 0x73B0, 0x6709, 0x503C, 0x3002])),
    (js ''profiles'', (js ''Saving changes the commands this profile sends. Pre-queries waiting for confirmation on its switches must be run again.'', [0x4FDD, 0x5B58, 0x4F1A, 0x6539, 0x53D8, 0x6B64, 0x6A21, 0x677F, 0x53D1, 0x9001, 0x7684, 0x547D, 0x4EE4, 0x3002, 0x4F7F, 0x7528, 0x5B83, 0x7684, 0x4EA4, 0x6362, 0x673A, 0x4E0A, 0x7B49, 0x5F85, 0x786E, 0x8BA4, 0x7684, 0x67E5, 0x8BE2, 0x9700, 0x8981, 0x91CD, 0x65B0, 0x6267, 0x884C, 0x3002])),
    (js ''switches'', (js ''Saving invalidates pre-queries waiting for confirmation on this switch. Operators query again before releasing.'', [0x4FDD, 0x5B58, 0x540E, 0xFF0C, 0x6B64, 0x4EA4, 0x6362, 0x673A, 0x4E0A, 0x7B49, 0x5F85, 0x786E, 0x8BA4, 0x7684, 0x67E5, 0x8BE2, 0x4F1A, 0x5931, 0x6548, 0xFF0C, 0x64CD, 0x4F5C, 0x5458, 0x9700, 0x91CD, 0x65B0, 0x67E5, 0x8BE2, 0x540E, 0x624D, 0x80FD, 0x89E3, 0x7ED1, 0x3002])),
    (js ''networks'', (js ''Only enabled, validated networks take part in switch resolution. If this moves an address to another switch, its waiting pre-query must be run again.'', [0x53EA, 0x6709, 0x5DF2, 0x542F, 0x7528, 0x4E14, 0x5DF2, 0x9A8C, 0x8BC1, 0x7684, 0x7F51, 0x6BB5, 0x53C2, 0x4E0E, 0x4EA4, 0x6362, 0x673A, 0x89E3, 0x6790, 0x3002, 0x82E5, 0x4FEE, 0x6539, 0x4F7F, 0x67D0, 0x4E2A, 0x5730, 0x5740, 0x6539, 0x7531, 0x5176, 0x4ED6, 0x4EA4, 0x6362, 0x673A, 0x8D1F, 0x8D23, 0xFF0C, 0x5176, 0x7B49, 0x5F85, 0x786E, 0x8BA4, 0x7684, 0x67E5, 0x8BE2, 0x9700, 0x8981, 0x91CD, 0x65B0, 0x6267, 0x884C, 0x3002])),
    (js ''groups'', (js ''Groups filter devices and scope schedules and compliance rules.'', [0x5206, 0x7EC4, 0x7528, 0x4E8E, 0x7B5B, 0x9009, 0x8BBE, 0x5907, 0x3001, 0x9650, 0x5B9A, 0x8BA1, 0x5212, 0x4EFB, 0x52A1, 0x548C, 0x5408, 0x89C4, 0x89C4, 0x5219, 0x7684, 0x8303, 0x56F4, 0x3002]))]"

definition emptyWords :: "(jstr \<times> words) list" where
  "emptyWords = [
    (js ''credentials'', (js ''No credentials yet. Switches need one before they can be added.'', [0x8FD8, 0x6CA1, 0x6709, 0x51ED, 0x636E, 0x3002, 0x6DFB, 0x52A0, 0x4EA4, 0x6362, 0x673A, 0x4E4B, 0x524D, 0x9700, 0x8981, 0x5148, 0x4FDD, 0x5B58, 0x51ED, 0x636E, 0x3002])),
    (js ''profiles'', (js ''No command profiles yet. Switches need one before they can be added.'', [0x8FD8, 0x6CA1, 0x6709, 0x547D, 0x4EE4, 0x6A21, 0x677F, 0x3002, 0x6DFB, 0x52A0, 0x4EA4, 0x6362, 0x673A, 0x4E4B, 0x524D, 0x9700, 0x8981, 0x5148, 0x4FDD, 0x5B58, 0x6A21, 0x677F, 0x3002])),
    (js ''switches'', (js ''No switches yet.'', [0x8FD8, 0x6CA1, 0x6709, 0x4EA4, 0x6362, 0x673A, 0x3002])),
    (js ''networks'', (js ''No networks yet. Only validated networks take part in resolution.'', [0x8FD8, 0x6CA1, 0x6709, 0x7F51, 0x6BB5, 0x3002, 0x53EA, 0x6709, 0x5DF2, 0x9A8C, 0x8BC1, 0x7684, 0x7F51, 0x6BB5, 0x624D, 0x4F1A, 0x53C2, 0x4E0E, 0x89E3, 0x6790, 0x3002])),
    (js ''groups'', (js ''No groups yet. Importing switches creates their groups too.'', [0x8FD8, 0x6CA1, 0x6709, 0x5206, 0x7EC4, 0x3002, 0x5BFC, 0x5165, 0x4EA4, 0x6362, 0x673A, 0x65F6, 0x4E5F, 0x4F1A, 0x81EA, 0x52A8, 0x521B, 0x5EFA, 0x5206, 0x7EC4, 0x3002]))]"

definition nounWords :: "(jstr \<times> words) list" where
  "nounWords = [
    (js ''credentials'', (js ''credential'', [0x51ED, 0x636E])),
    (js ''profiles'', (js ''command profile'', [0x547D, 0x4EE4, 0x6A21, 0x677F])),
    (js ''switches'', (js ''switch'', [0x4EA4, 0x6362, 0x673A])),
    (js ''networks'', (js ''network'', [0x7F51, 0x6BB5])),
    (js ''groups'', (js ''group'', [0x5206, 0x7EC4]))]"

definition fieldNames :: "(jstr \<times> words) list" where
  "fieldNames = [
    (js ''name'', (js ''name'', [0x540D, 0x79F0])),
    (js ''username'', (js ''username'', [0x7528, 0x6237, 0x540D])),
    (js ''description'', (js ''description'', [0x63CF, 0x8FF0])),
    (js ''encrypted_password'', (js ''password'', [0x5BC6, 0x7801])),
    (js ''encrypted_secret'', (js ''privilege secret'', [0x7279, 0x6743, 0x5BC6, 0x7801])),
    (js ''management_ip'', (js ''management IP'', [0x7BA1, 0x7406] @ js '' IP'')),
    (js ''credential_id'', (js ''credential'', [0x51ED, 0x636E])),
    (js ''command_profile_id'', (js ''command profile'', [0x547D, 0x4EE4, 0x6A21, 0x677F])),
    (js ''switch_id'', (js ''switch'', [0x6240, 0x5C5E, 0x4EA4, 0x6362, 0x673A])),
    (js ''cidr'', (js ''CIDR'', [0x7F51, 0x6BB5])),
    (js ''vlan'', (js ''VLAN'', js ''VLAN'')),
    (js ''is_validated'', (js ''validation'', [0x9A8C, 0x8BC1, 0x72B6, 0x6001])),
    (js ''vendor'', (js ''vendor'', [0x5382, 0x5546])),
    (js ''model'', (js ''model'', [0x578B, 0x53F7])),
    (js ''site'', (js ''site'', [0x7AD9, 0x70B9])),
    (js ''protocol'', (js ''protocol'', [0x534F, 0x8BAE])),
    (js ''port'', (js ''port'', [0x7AEF, 0x53E3])),
    (js ''group_id'', (js ''group'', [0x5206, 0x7EC4])),
    (js ''kind'', (js ''task type'', [0x4EFB, 0x52A1, 0x7C7B, 0x578B])),
    (js ''cron'', (js ''schedule'', [0x6267, 0x884C, 0x65F6, 0x95F4])),
    (js ''scope'', (js ''scope'', [0x8303, 0x56F4])),
    (js ''pattern'', (js ''pattern'', [0x5339, 0x914D, 0x89C4, 0x5219])),
    (js ''mode'', (js ''mode'', [0x5224, 0x5B9A, 0x65B9, 0x5F0F])),
    (js ''severity'', (js ''severity'', [0x4E25, 0x91CD, 0x7EA7, 0x522B])),
    (js ''command_templates'', (js ''commands'', [0x547D, 0x4EE4])),
    (js ''parser_rules'', (js ''parsing rules'', [0x89E3, 0x6790, 0x89C4, 0x5219])),
    (js ''login_prompt_patterns'', (js ''login prompts'', [0x767B, 0x5F55, 0x63D0, 0x793A, 0x7B26])),
    (js ''prompt_patterns'', (js ''command prompts'', [0x547D, 0x4EE4, 0x63D0, 0x793A, 0x7B26])),
    (js ''pagination_rules'', (js ''paging'', [0x5206, 0x9875, 0x5904, 0x7406])),
    (js ''success_patterns'', (js ''success patterns'', [0x6210, 0x529F, 0x5339, 0x914D])),
    (js ''error_patterns'', (js ''error patterns'', [0x9519, 0x8BEF, 0x5339, 0x914D]))]"

definition actionNames :: "(jstr \<times> words) list" where
  "actionNames = [
    (js ''credential.create'', (js ''Credential created'', [0x65B0, 0x5EFA, 0x51ED, 0x636E])),
    (js ''credential.update'', (js ''Credential changed'', [0x4FEE, 0x6539, 0x51ED, 0x636E])),
    (js ''profile.create'', (js ''Profile created'', [0x65B0, 0x5EFA, 0x547D, 0x4EE4, 0x6A21, 0x677F])),
    (js ''profile.update'', (js ''Profile changed'', [0x4FEE, 0x6539, 0x547D, 0x4EE4, 0x6A21, 0x677F])),
    (js ''switch.create'', (js ''Switch created'', [0x65B0, 0x5EFA, 0x4EA4, 0x6362, 0x673A])),
    (js ''switch.update'', (js ''Switch changed'', [0x4FEE, 0x6539, 0x4EA4, 0x6362, 0x673A])),
    (js ''network.create'', (js ''Network created'', [0x65B0, 0x5EFA, 0x7F51, 0x6BB5])),
    (js ''network.update'', (js ''Network changed'', [0x4FEE, 0x6539, 0x7F51, 0x6BB5])),
    (js ''switch.import'', (js ''Switch imported'', [0x5BFC, 0x5165, 0x4EA4, 0x6362, 0x673A])),
    (js ''network.import'', (js ''Network imported'', [0x5BFC, 0x5165, 0x7F51, 0x6BB5])),
    (js ''group.create'', (js ''Group created'', [0x65B0, 0x5EFA, 0x5206, 0x7EC4])),
    (js ''group.update'', (js ''Group changed'', [0x4FEE, 0x6539, 0x5206, 0x7EC4])),
    (js ''schedule.create'', (js ''Schedule created'', [0x65B0, 0x5EFA, 0x8BA1, 0x5212, 0x4EFB, 0x52A1])),
    (js ''schedule.update'', (js ''Schedule changed'', [0x4FEE, 0x6539, 0x8BA1, 0x5212, 0x4EFB, 0x52A1])),
    (js ''schedule.run'', (js ''Schedule run manually'', [0x624B, 0x52A8, 0x6267, 0x884C, 0x8BA1, 0x5212])),
    (js ''rule.create'', (js ''Compliance rule created'', [0x65B0, 0x5EFA, 0x5408, 0x89C4, 0x89C4, 0x5219])),
    (js ''rule.update'', (js ''Compliance rule changed'', [0x4FEE, 0x6539, 0x5408, 0x89C4, 0x89C4, 0x5219])),
    (js ''task.run'', (js ''Task started'', [0x53D1, 0x8D77, 0x4EFB, 0x52A1])),
    (js ''config.view'', (js ''Configuration viewed'', [0x67E5, 0x770B, 0x914D, 0x7F6E])),
    (js ''config.diff'', (js ''Configurations compared'', [0x5BF9, 0x6BD4, 0x914D, 0x7F6E])),
    (js ''alert.acknowledge'', (js ''Alert acknowledged'', [0x786E, 0x8BA4, 0x544A, 0x8B66]))]"

definition ruleLabel :: "jstr \<Rightarrow> bool \<Rightarrow> jstr option" where
  "ruleLabel key zh = say (get_prop ruleLabels key) zh (Some key)"

definition ruleHint :: "jstr \<Rightarrow> bool \<Rightarrow> jstr option" where
  "ruleHint key zh = say (get_prop ruleHints key) zh (Some [])"

definition NO_GROUP :: jstr where
  "NO_GROUP = js ''none''"

record Credential =
  credId :: jstr
  credName :: jstr
  credUsername :: jstr
  credDescription :: "jstr option"
  credActive :: bool
  credHasSecret :: bool
  credVersion :: int

record CommandProfile =
  profId :: jstr
  profName :: jstr
  profActive :: bool
  profVersion :: int
  profRules :: "(jstr \<times> json) list"

record SwitchAsset =
  swId :: jstr
  swName :: jstr
  swManagementIP :: jstr
  swCredential :: jstr
  swProfile :: jstr
  swEnabled :: bool
  swVersion :: int
  swVendor :: "jstr option"
  swModel :: "jstr option"
  swSite :: "jstr option"
  swDescription :: "jstr option"
  swGroup :: "jstr option"
  swProtocol :: "jstr option"
  swPort :: "nat option"

record NetworkAsset =
  netId :: jstr
  netSwitch :: jstr
  netCidr :: jstr
  netEnabled :: bool
  netValidated :: bool
  netVlan :: "jstr option"
  netDescription :: "jstr option"
  netVersion :: int

record GroupAsset =
  grpId :: jstr
  grpName :: jstr
  grpDescription :: "jstr option"
  grpVersion :: int

record Inventory =
  invCredentials :: "Credential list"
  invProfiles :: "CommandProfile list"
  invSwitches :: "SwitchAsset list"
  invNetworks :: "NetworkAsset list"
  invGroups :: "GroupAsset list"

datatype EditTarget = ACredential Credential | AProfile CommandProfile | ASwitch SwitchAsset
  | ANetwork NetworkAsset | AGroup GroupAsset

fun targetKind :: "EditTarget \<Rightarrow> jstr" where
  "targetKind (ACredential c) = js ''credentials''"
| "targetKind (AProfile p) = js ''profiles''"
| "targetKind (ASwitch s) = js ''switches''"
| "targetKind (ANetwork n) = js ''networks''"
| "targetKind (AGroup g) = js ''groups''"

fun targetId :: "EditTarget \<Rightarrow> jstr" where
  "targetId (ACredential c) = credId c"
| "targetId (AProfile p) = profId p"
| "targetId (ASwitch s) = swId s"
| "targetId (ANetwork n) = netId n"
| "targetId (AGroup g) = grpId g"

fun targetVersion :: "EditTarget \<Rightarrow> int" where
  "targetVersion (ACredential c) = credVersion c"
| "targetVersion (AProfile p) = profVersion p"
| "targetVersion (ASwitch s) = swVersion s"
| "targetVersion (ANetwork n) = netVersion n"
| "targetVersion (AGroup g) = grpVersion g"

fun isOn :: "EditTarget \<Rightarrow> bool" where
  "isOn (AGroup g) = True"
| "isOn (ACredential c) = credActive c"
| "isOn (AProfile p) = profActive p"
| "isOn (ASwitch s) = swEnabled s"
| "isOn (ANetwork n) = netEnabled n"

definition statusKey :: "EditTarget \<Rightarrow> jstr" where
  "statusKey t = (if targetKind t = js ''credentials'' \<or> targetKind t = js ''profiles'' then js ''is_active'' else js ''is_enabled'')"

definition statusBody :: "EditTarget \<Rightarrow> bool \<Rightarrow> json" where
  "statusBody t on = JObj [(js ''version'', JNum (of_int (targetVersion t))), (statusKey t, JBool on)]"

fun assetName :: "EditTarget \<Rightarrow> jstr" where
  "assetName (ANetwork n) = netCidr n"
| "assetName (ACredential c) = credName c"
| "assetName (AProfile p) = profName p"
| "assetName (ASwitch s) = swName s"
| "assetName (AGroup g) = grpName g"

definition vendorNames :: "(jstr \<times> words) list" where
  "vendorNames = [(js ''huawei'', (js ''Huawei'', [0x534E, 0x4E3A])), (js ''h3c'', (js ''H3C'', js ''H3C'')),
     (js ''ruijie'', (js ''Ruijie'', [0x9510, 0x6377])), (js ''cisco'', (js ''Cisco'', js ''Cisco'')),
     (js ''other'', (js ''Other'', [0x5176, 0x4ED6]))]"

definition vendorName :: "jstr \<Rightarrow> bool \<Rightarrow> jstr option" where
  "vendorName vendor zh = say (get_prop vendorNames vendor) zh (Some vendor)"

fun switchesUsing :: "EditTarget \<Rightarrow> Inventory option \<Rightarrow> nat" where
  "switchesUsing (ACredential c) inventory =
     (case inventory of None \<Rightarrow> 0 | Some i \<Rightarrow> length (filter (\<lambda>s. swCredential s = credId c) (invSwitches i)))"
| "switchesUsing (AProfile p) inventory =
     (case inventory of None \<Rightarrow> 0 | Some i \<Rightarrow> length (filter (\<lambda>s. swProfile s = profId p) (invSwitches i)))"
| "switchesUsing t inventory = 0"

subsection \<open>Forms and requests\<close>

datatype formValue = FText jstr | FFlag bool

type_synonym form = "(jstr \<times> formValue) list"

text \<open>\<open>String(form[key] ?? '')\<close>, and the truth of \<open>form[key]\<close>.\<close>

definition formText :: "form \<Rightarrow> jstr \<Rightarrow> jstr" where
  "formText fm key = (case map_of fm key of
     None \<Rightarrow> [] | Some (FText s) \<Rightarrow> s | Some (FFlag b) \<Rightarrow> if b then js ''true'' else js ''false'')"

definition formFlag :: "form \<Rightarrow> jstr \<Rightarrow> bool" where
  "formFlag fm key = (case map_of fm key of
     None \<Rightarrow> False | Some (FText s) \<Rightarrow> s \<noteq> [] | Some (FFlag b) \<Rightarrow> b)"

definition setForm :: "jstr \<Rightarrow> formValue \<Rightarrow> form \<Rightarrow> form" where
  "setForm key v fm = AList.update key v fm"

definition ruleDefault :: "jstr \<Rightarrow> json" where
  "ruleDefault key = (if key \<in> set arrayRules then JArr [] else JObj [])"

text \<open>A rule that is absent or \<open>null\<close> is shown as an empty list or object.\<close>

definition ruleValue :: "CommandProfile \<Rightarrow> jstr \<Rightarrow> json" where
  "ruleValue p key = (case map_of (profRules p) key of
     None \<Rightarrow> ruleDefault key | Some JNull \<Rightarrow> ruleDefault key | Some v \<Rightarrow> v)"

fun initialForm :: "jsonText \<Rightarrow> EditTarget \<Rightarrow> form" where
  "initialForm jt (ACredential c) =
     [(js ''name'', FText (credName c)), (js ''username'', FText (credUsername c)),
      (js ''description'', FText (nullish (credDescription c) [])), (js ''password'', FText []), (js ''secret'', FText []),
      (js ''clear_secret'', FFlag False)]"
| "initialForm jt (AProfile p) =
     (js ''name'', FText (profName p)) # map (\<lambda>key. (key, FText (printText jt (ruleValue p key)))) profileRuleKeys"
| "initialForm jt (ASwitch s) =
     [(js ''name'', FText (swName s)), (js ''management_ip'', FText (swManagementIP s)),
      (js ''credential_id'', FText (swCredential s)), (js ''command_profile_id'', FText (swProfile s)),
      (js ''vendor'', FText (nullish (swVendor s) (js ''other''))), (js ''model'', FText (nullish (swModel s) [])),
      (js ''site'', FText (nullish (swSite s) [])), (js ''description'', FText (nullish (swDescription s) [])),
      (js ''group_id'', FText (nullish (swGroup s) [])), (js ''protocol'', FText (nullish (swProtocol s) (js ''telnet''))),
      (js ''port'', FText (case swPort s of None \<Rightarrow> [] | Some n \<Rightarrow> if n = 0 then [] else nat_str n))]"
| "initialForm jt (AGroup g) =
     [(js ''name'', FText (grpName g)), (js ''description'', FText (nullish (grpDescription g) []))]"
| "initialForm jt (ANetwork n) =
     [(js ''switch_id'', FText (netSwitch n)), (js ''cidr'', FText (netCidr n)), (js ''vlan'', FText (nullish (netVlan n) [])),
      (js ''description'', FText (nullish (netDescription n) [])), (js ''is_validated'', FFlag (netValidated n))]"

datatype editRequest = Edit jstr json | InvalidRule jstr

text \<open>What a rule's text must be: an array for the two pattern lists, an object for the others.\<close>

fun ruleShape :: "jstr \<Rightarrow> json \<Rightarrow> bool" where
  "ruleShape key (JArr vs) = (key \<in> set arrayRules)"
| "ruleShape key (JObj fs) = (key \<notin> set arrayRules)"
| "ruleShape key v = False"

fun ruleBodies :: "jsonText \<Rightarrow> form \<Rightarrow> jstr list \<Rightarrow> jstr + (jstr \<times> json) list" where
  "ruleBodies jt fm [] = Inr []"
| "ruleBodies jt fm (key # keys) =
     (case parseText jt (formText fm key) of
        None \<Rightarrow> Inl key
      | Some v \<Rightarrow>
          if \<not> ruleShape key v then Inl key
          else (case ruleBodies jt fm keys of Inl k \<Rightarrow> Inl k | Inr bs \<Rightarrow> Inr ((key, v) # bs)))"

definition textFields :: "form \<Rightarrow> string list \<Rightarrow> (jstr \<times> json) list" where
  "textFields fm keys = map (\<lambda>k. (js k, JStr (formText fm (js k)))) keys"

definition versionField :: "EditTarget \<Rightarrow> jstr \<times> json" where
  "versionField t = (js ''version'', JNum (of_int (targetVersion t)))"

definition credentialBody :: "EditTarget \<Rightarrow> form \<Rightarrow> json" where
  "credentialBody t fm = JObj (versionField t # textFields fm [''name'', ''username'', ''description'']
     @ (if formText fm (js ''password'') \<noteq> [] then textFields fm [''password''] else [])
     @ (if formFlag fm (js ''clear_secret'') then [(js ''clear_secret'', JBool True)]
        else if formText fm (js ''secret'') \<noteq> [] then textFields fm [''secret''] else []))"

definition switchBody :: "EditTarget \<Rightarrow> form \<Rightarrow> nat \<Rightarrow> json" where
  "switchBody t fm port = JObj (versionField t # textFields fm [''name'']
     @ [(js ''management_ip'', JStr (trim (formText fm (js ''management_ip''))))]
     @ textFields fm [''credential_id'', ''command_profile_id'', ''vendor'', ''model'', ''site'', ''description'', ''group_id'', ''protocol'']
     @ [(js ''port'', JNum (of_nat port))])"

definition networkBody :: "EditTarget \<Rightarrow> form \<Rightarrow> json" where
  "networkBody t fm = JObj (versionField t # textFields fm [''switch_id'']
     @ [(js ''cidr'', JStr (trim (formText fm (js ''cidr''))))] @ textFields fm [''vlan'', ''description'']
     @ [(js ''is_validated'', JBool (formFlag fm (js ''is_validated'')))])"

definition targetPath :: "EditTarget \<Rightarrow> jstr" where
  "targetPath t = targetKind t @ js ''/'' @ targetId t"

text \<open>A port of digits is read as a number; a double holds it exactly up to fifteen digits.\<close>

definition editRequest :: "jsonText \<Rightarrow> EditTarget \<Rightarrow> form \<Rightarrow> editRequest" where
  "editRequest jt t fm = (case t of
     ACredential c \<Rightarrow> Edit (targetPath t) (credentialBody t fm)
   | AProfile p \<Rightarrow>
       (case ruleBodies jt fm profileRuleKeys of
          Inl key \<Rightarrow> InvalidRule key
        | Inr bs \<Rightarrow> Edit (targetPath t) (JObj (versionField t # textFields fm [''name''] @ bs)))
   | ASwitch s \<Rightarrow>
       (let port = trim (formText fm (js ''port'')) in
        if port \<noteq> [] \<and> \<not> rx_test (rplus rdigit) port then InvalidRule (js ''port'')
        else Edit (targetPath t) (switchBody t fm (if port \<noteq> [] then digits_val port else 0)))
   | AGroup g \<Rightarrow> Edit (targetPath t) (JObj (versionField t # textFields fm [''name'', ''description'']))
   | ANetwork n \<Rightarrow> Edit (targetPath t) (networkBody t fm))"

subsection \<open>Labels\<close>

definition label :: "string \<Rightarrow> bool \<Rightarrow> jstr" where
  "label key zh = (case map_of editorWords (js key) of Some w \<Rightarrow> chooseWord w zh | None \<Rightarrow> [])"

definition kindWord :: "(jstr \<times> words) list \<Rightarrow> EditTarget \<Rightarrow> bool \<Rightarrow> jstr" where
  "kindWord table t zh = (case map_of table (targetKind t) of Some w \<Rightarrow> chooseWord w zh | None \<Rightarrow> [])"

definition noun :: "EditTarget \<Rightarrow> bool \<Rightarrow> jstr" where
  "noun = kindWord nounWords"

definition switchCount :: "nat \<Rightarrow> bool \<Rightarrow> jstr" where
  "switchCount n zh = (if zh then nat_str n @ (js '' '' @ [0x53F0, 0x4EA4, 0x6362, 0x673A])
     else nat_str n @ js '' switch'' @ (if n = 1 then [] else js ''es''))"

definition editTitle :: "EditTarget \<Rightarrow> bool \<Rightarrow> jstr" where
  "editTitle t zh = (if zh then [0x7F16, 0x8F91] @ noun t zh else js ''Edit '' @ noun t zh)"

definition invalidRuleText :: "jstr \<Rightarrow> bool \<Rightarrow> jstr" where
  "invalidRuleText key zh =
     (if key = js ''port'' then label ''invalidPort'' zh
      else if zh then [0x300C] @ tmpl (ruleLabel key True) @ ([0x300D, 0x5FC5, 0x987B, 0x662F, 0x5408, 0x6CD5, 0x7684] @ js '' JSON '') @
        (if key \<in> set arrayRules then [0x6570, 0x7EC4] else [0x5BF9, 0x8C61]) @ [0x3002]
      else tmpl (ruleLabel key False) @ js '' must be a valid JSON '' @
        (if key \<in> set arrayRules then js ''array'' else js ''object'') @ js ''.'')"

definition usedBy :: "nat \<Rightarrow> bool \<Rightarrow> jstr" where
  "usedBy n zh =
     (if zh then (if n \<noteq> 0 then switchCount n zh @ [0x5728, 0x7528] else [0x6682, 0x65E0, 0x4EA4, 0x6362, 0x673A, 0x4F7F, 0x7528])
      else if n \<noteq> 0 then js ''Used by '' @ switchCount n zh else js ''Not used by any switch'')"

definition ownedBy :: "jstr \<Rightarrow> bool \<Rightarrow> jstr" where
  "ownedBy name zh = (if zh then ([0x4EA4, 0x6362, 0x673A] @ js '' '') @ name else js ''Switch '' @ name)"

definition disableTitle :: "EditTarget \<Rightarrow> bool \<Rightarrow> jstr" where
  "disableTitle t zh = (if zh then [0x505C, 0x7528] @ noun t zh @ [0x300C] @ assetName t @ [0x300D, 0xFF1F]
     else js ''Disable '' @ noun t zh @ (js '' '' @ [0x201C]) @ assetName t @ ([0x201D] @ js ''?''))"

definition disableImpact :: "EditTarget \<Rightarrow> Inventory option \<Rightarrow> jstr option \<Rightarrow> bool \<Rightarrow> jstr" where
  "disableImpact t inventory owner zh =
     (let n = switchesUsing t inventory in case t of
        ASwitch s \<Rightarrow>
          if zh then [0x5176, 0x7F51, 0x6BB5, 0x5185, 0x7684, 0x5730, 0x5740, 0x5C06, 0x4E0D, 0x518D, 0x89E3, 0x6790, 0x5230, 0x6B64, 0x4EA4, 0x6362, 0x673A, 0xFF0C, 0x7B49, 0x5F85, 0x786E, 0x8BA4, 0x7684, 0x67E5, 0x8BE2, 0x9700, 0x8981, 0x91CD, 0x65B0, 0x6267, 0x884C, 0x3002, 0x6392, 0x961F, 0x4E2D, 0x7684, 0x4EFB, 0x52A1, 0x4F1A, 0x76F4, 0x63A5, 0x5931, 0x8D25, 0xFF0C, 0x4E0D, 0x4F1A, 0x8FDE, 0x63A5, 0x4EA4, 0x6362, 0x673A, 0x3002]
          else js ''Addresses in its networks stop resolving to it, and pre-queries waiting for confirmation must be run again. Its queued jobs fail without contacting the switch.''
      | ANetwork w \<Rightarrow>
          if zh then netCidr w @ (js '' '' @ [0x5185, 0x7684, 0x5730, 0x5740, 0x5C06, 0x4E0D, 0x518D, 0x89E3, 0x6790, 0x5230]) @ (if truthy owner then ([0x4EA4, 0x6362, 0x673A] @ js '' '') @ the owner else [0x8BE5, 0x4EA4, 0x6362, 0x673A])
            @ [0x3002, 0x4F9D, 0x8D56, 0x6B64, 0x7F51, 0x6BB5, 0x4E14, 0x7B49, 0x5F85, 0x786E, 0x8BA4, 0x7684, 0x67E5, 0x8BE2, 0x9700, 0x8981, 0x91CD, 0x65B0, 0x6267, 0x884C, 0x3002]
          else js ''Addresses in '' @ netCidr w @ js '' stop resolving to '' @ (if truthy owner then js ''switch '' @ the owner else js ''its switch'')
            @ js ''. Waiting pre-queries that relied on it must be run again.''
      | AGroup g \<Rightarrow> []
      | _ \<Rightarrow>
          if zh then (if n \<noteq> 0 then switchCount n zh @ [0x4F7F, 0x7528, 0x6B64] @ noun t zh @ [0x3002, 0x91CD, 0x65B0, 0x542F, 0x7528, 0x4E4B, 0x524D, 0xFF0C, 0x5B83, 0x4EEC, 0x4E0D, 0x53C2, 0x4E0E, 0x89E3, 0x6790, 0xFF0C, 0x6392, 0x961F, 0x4E2D, 0x7684, 0x4EFB, 0x52A1, 0x4F1A, 0x76F4, 0x63A5, 0x5931, 0x8D25, 0xFF0C, 0x4E0D, 0x4F1A, 0x8FDE, 0x63A5, 0x4EA4, 0x6362, 0x673A, 0x3002]
            else [0x76EE, 0x524D, 0x6CA1, 0x6709, 0x4EA4, 0x6362, 0x673A, 0x4F7F, 0x7528, 0x6B64] @ noun t zh @ [0x3002])
          else if n \<noteq> 0 then switchCount n zh @ js '' use'' @ (if n = 1 then js ''s'' else []) @ js '' this '' @ noun t zh
            @ js ''. Until it is enabled again they stop resolving, and their queued jobs fail without contacting the switch.''
          else js ''No switch uses this '' @ noun t zh @ js ''.'')"

text \<open>\<open>toUpperCase\<close> of the first letter of an English noun.\<close>

definition capitalised :: "jstr \<Rightarrow> jstr" where
  "capitalised s = (case s of [] \<Rightarrow> [] | c # t \<Rightarrow> (if 0x61 \<le> c \<and> c \<le> 0x7A then c - 0x20 else c) # t)"

definition statusChanged :: "EditTarget \<Rightarrow> bool \<Rightarrow> bool \<Rightarrow> jstr" where
  "statusChanged t on zh =
     (if zh then noun t zh @ [0x300C] @ assetName t @ [0x300D, 0x5DF2] @ (if on then [0x542F, 0x7528] else [0x505C, 0x7528]) @ [0x3002]
      else capitalised (noun t zh) @ (js '' '' @ [0x201C]) @ assetName t @ ([0x201D] @ js '' '') @ (if on then js ''enabled'' else js ''disabled'') @ js ''.'')"

subsection \<open>The editor\<close>

record EditorState =
  edForm :: form
  edError :: "jstr option"
  edInvalidRule :: jstr
  edBusy :: bool
  edChecked :: bool

definition openEditor :: "jsonText \<Rightarrow> EditTarget \<Rightarrow> EditorState" where
  "openEditor jt t = \<lparr>edForm = initialForm jt t, edError = Some [], edInvalidRule = [], edBusy = False, edChecked = False\<rparr>"

definition need :: "form \<Rightarrow> string \<Rightarrow> string \<Rightarrow> jstr \<Rightarrow> bool \<Rightarrow> RequiredField" where
  "need fm i key text chosen = \<lparr>fieldId = js i, fieldLabel = text, fieldValue = formText fm (js key), fieldChoose = chosen\<rparr>"

fun requiredFor :: "EditTarget \<Rightarrow> bool \<Rightarrow> form \<Rightarrow> RequiredField list" where
  "requiredFor (ACredential c) zh fm =
     [need fm ''edit-name'' ''name'' (label ''name'' zh) False,
      need fm ''edit-username'' ''username'' (label ''username'' zh) False]"
| "requiredFor (AProfile p) zh fm = [need fm ''edit-name'' ''name'' (label ''name'' zh) False]"
| "requiredFor (ASwitch s) zh fm =
     [need fm ''edit-name'' ''name'' (label ''name'' zh) False,
      need fm ''edit-management-ip'' ''management_ip'' (label ''managementIP'' zh) False,
      need fm ''edit-credential'' ''credential_id'' (label ''credential'' zh) True,
      need fm ''edit-profile'' ''command_profile_id'' (label ''profile'' zh) True]"
| "requiredFor (AGroup g) zh fm = [need fm ''edit-name'' ''name'' (label ''name'' zh) False]"
| "requiredFor (ANetwork n) zh fm =
     [need fm ''edit-switch'' ''switch_id'' (label ''switch'' zh) True,
      need fm ''edit-cidr'' ''cidr'' (label ''cidr'' zh) False]"

definition changeField :: "jstr \<Rightarrow> formValue \<Rightarrow> EditorState \<Rightarrow> EditorState" where
  "changeField key v st = st\<lparr>edForm := setForm key v (edForm st)\<rparr>"

definition submitEditor :: "jsonText \<Rightarrow> EditTarget \<Rightarrow> bool \<Rightarrow> EditorState \<Rightarrow> EditorState \<times> (jstr \<times> json) option" where
  "submitEditor jt t zh st =
     (case check (requiredFor t zh (edForm st)) of (checked, focus, go) \<Rightarrow>
        let st1 = st\<lparr>edChecked := checked\<rparr> in
        if \<not> go then (st1, None)
        else (case editRequest jt t (edForm st) of
            InvalidRule key \<Rightarrow> (st1\<lparr>edInvalidRule := key, edError := Some (invalidRuleText key zh)\<rparr>, None)
          | Edit p b \<Rightarrow> (st1\<lparr>edBusy := True, edError := Some [], edInvalidRule := []\<rparr>, Some (p, b))))"

definition finishEditor :: "bool \<Rightarrow> requestError option \<Rightarrow> EditorState \<Rightarrow> EditorState" where
  "finishEditor zh failure st =
     (let st1 = (case failure of None \<Rightarrow> st | Some e \<Rightarrow> st\<lparr>edError := errorText (ErrorOf (errorMessage e)) zh\<rparr>)
      in st1\<lparr>edBusy := False\<rparr>)"

subsection \<open>Audit records\<close>

text \<open>One change of a record; \<open>None\<close> is the \<open>TypeError\<close> of reading a member of \<open>null\<close>.\<close>

definition describeChange :: "bool \<Rightarrow> jstr \<times> json \<Rightarrow> jstr option" where
  "describeChange zh change = (case change of (key, v) \<Rightarrow>
     if key = js ''is_active'' \<or> key = js ''is_enabled'' then
       (if v = JNull then None
        else let to = nullish (field (js ''to'') v) JNull in
          Some (if zh then (if \<not> falsy to then [0x542F, 0x7528] else [0x505C, 0x7528])
                else if \<not> falsy to then js ''enabled'' else js ''disabled''))
     else
       let name = (case get_prop fieldNames key of Own w \<Rightarrow> chooseWord w zh | _ \<Rightarrow> key) in
       if v = JStr (js ''replaced'') then Some (if zh then name @ [0x5DF2, 0x66F4, 0x6362] else name @ js '' replaced'')
       else if v = JStr (js ''cleared'') then Some (if zh then name @ [0x5DF2, 0x5220, 0x9664] else name @ js '' removed'')
       else Some name)"

fun allSome :: "'a option list \<Rightarrow> 'a list option" where
  "allSome [] = Some []"
| "allSome (x # xs) = (case x of None \<Rightarrow> None | Some v \<Rightarrow> map_option ((#) v) (allSome xs))"

definition describeChanges :: "(jstr \<times> json) list option \<Rightarrow> bool \<Rightarrow> jstr option" where
  "describeChanges changes zh =
     (case allSome (map (describeChange zh) (nullish changes [])) of
        None \<Rightarrow> None
      | Some parts \<Rightarrow> Some (if parts \<noteq> [] then joinWith (if zh then [0x3001] else js '', '') parts else [0x2014]))"

definition actionName :: "jstr \<Rightarrow> bool \<Rightarrow> jstr" where
  "actionName act zh = (case get_prop actionNames act of Own w \<Rightarrow> chooseWord w zh | _ \<Rightarrow> act)"

end
