(* ===== verification/AssetContract.thy ===== *)
theory AssetContract
  imports AssetEditors
begin

text \<open>
  What the asset editors promise (\<open>features/release/asset-editors.tsx\<close>): an untouched form sends the
  asset as it is and no secret; secrets travel only when they are typed, and a rule only in its shape;
  nothing is sent with a required field blank; an audit summary depends on no stored value.
\<close>

subsection \<open>An untouched form\<close>

text \<open>The editable state of an asset, with the version it was loaded at.\<close>

fun storedState :: "EditTarget \<Rightarrow> (jstr \<times> json) list" where
  "storedState (ACredential c) =
     [(js ''version'', JNum (of_int (credVersion c))), (js ''name'', JStr (credName c)), (js ''username'', JStr (credUsername c)),
      (js ''description'', JStr (nullish (credDescription c) []))]"
| "storedState (AProfile p) =
     (js ''version'', JNum (of_int (profVersion p))) # (js ''name'', JStr (profName p))
       # map (\<lambda>key. (key, ruleValue p key)) profileRuleKeys"
| "storedState (ASwitch s) =
     [(js ''version'', JNum (of_int (swVersion s))), (js ''name'', JStr (swName s)), (js ''management_ip'', JStr (swManagementIP s)),
      (js ''credential_id'', JStr (swCredential s)), (js ''command_profile_id'', JStr (swProfile s)),
      (js ''vendor'', JStr (nullish (swVendor s) (js ''other''))), (js ''model'', JStr (nullish (swModel s) [])),
      (js ''site'', JStr (nullish (swSite s) [])), (js ''description'', JStr (nullish (swDescription s) [])),
      (js ''group_id'', JStr (nullish (swGroup s) [])), (js ''protocol'', JStr (nullish (swProtocol s) (js ''telnet''))),
      (js ''port'', JNum (of_nat (nullish (swPort s) 0)))]"
| "storedState (AGroup g) =
     [(js ''version'', JNum (of_int (grpVersion g))), (js ''name'', JStr (grpName g)),
      (js ''description'', JStr (nullish (grpDescription g) []))]"
| "storedState (ANetwork n) =
     [(js ''version'', JNum (of_int (netVersion n))), (js ''switch_id'', JStr (netSwitch n)), (js ''cidr'', JStr (netCidr n)),
      (js ''vlan'', JStr (nullish (netVlan n) [])), (js ''description'', JStr (nullish (netDescription n) [])),
      (js ''is_validated'', JBool (netValidated n))]"

text \<open>What an asset of the API satisfies: addresses without blanks around them, rules of the right shape.\<close>

fun storable :: "EditTarget \<Rightarrow> bool" where
  "storable (ASwitch s) = trimmed (swManagementIP s)"
| "storable (ANetwork n) = trimmed (netCidr n)"
| "storable (AProfile p) = list_all (\<lambda>key. ruleShape key (ruleValue p key)) profileRuleKeys"
| "storable t = True"

text \<open>The rules of a profile survive being printed and parsed.\<close>

fun reprints :: "jsonText \<Rightarrow> EditTarget \<Rightarrow> bool" where
  "reprints jt (AProfile p) =
     list_all (\<lambda>key. parseText jt (printText jt (ruleValue p key)) = Some (ruleValue p key)) profileRuleKeys"
| "reprints jt t = True"

lemma digits_trimmed:
  assumes "list_all digit s"
  shows "trimmed s"
proof (cases "s = []")
  case False
  have "\<not> ws_char c" if "digit c" for c using that by (auto simp: digit_def ws_char_def)
  then show ?thesis using assms False by (simp add: trimmed_def list_all_iff)
qed (simp add: trimmed_def)

lemma nat_str_all_digits: "list_all digit (nat_str n)"
  using digit_nat_str by (auto simp: list_all_iff)

lemma rx_digits: "rx_test (rplus rdigit) s \<longleftrightarrow> s \<noteq> [] \<and> list_all digit s"
  by (simp add: rx_test_lang rx_lang_digits list_all_iff)

lemma distinct_rules: "distinct profileRuleKeys" "js ''name'' \<notin> set profileRuleKeys"
  by (simp_all add: profileRuleKeys_def)

lemma ruleBodies_map:
  "\<lbrakk>list_all (\<lambda>key. parseText jt (formText fm key) = Some (v key)) keys; list_all (\<lambda>key. ruleShape key (v key)) keys\<rbrakk> \<Longrightarrow>
     ruleBodies jt fm keys = Inr (map (\<lambda>key. (key, v key)) keys)"
  by (induction keys) auto

lemma profile_texts:
  "key \<in> set profileRuleKeys \<Longrightarrow> formText (initialForm jt (AProfile p)) key = printText jt (ruleValue p key)"
  using distinct_rules by (auto simp: formText_def map_of_map_restrict map_of_mapk_SomeI split: option.split)

text \<open>
  Opening an editor and saving without a change keeps the asset: the request is for that asset, at
  the version it was loaded at, with every editable value as it was, and for a credential without any
  password, secret, or order to delete one.
\<close>

theorem untouched_edit_keeps:
  assumes "storable t" "reprints jt t"
  shows "editRequest jt t (initialForm jt t) = Edit (targetPath t) (JObj (storedState t))"
proof (cases t)
  case (AProfile p)
  have "ruleBodies jt (initialForm jt t) profileRuleKeys = Inr (map (\<lambda>key. (key, ruleValue p key)) profileRuleKeys)"
    using assms AProfile by (intro ruleBodies_map) (simp_all add: profile_texts list_all_iff del: initialForm.simps)
  moreover have "formText (initialForm jt t) (js ''name'') = profName p" using AProfile by (simp add: formText_def)
  ultimately show ?thesis using AProfile by (simp add: editRequest_def versionField_def textFields_def del: initialForm.simps)
next
  case (ASwitch s)
  have port: "trim (nat_str n) = nat_str n" "rx_test (rplus rdigit) (nat_str n)" for n
    using trim_id [OF digits_trimmed [OF nat_str_all_digits]] nat_str_all_digits by (simp_all add: rx_digits)
  have "trim [] = []" by (simp add: trim_id trimmed_def)
  then show ?thesis using assms ASwitch port
    by (auto simp: editRequest_def switchBody_def versionField_def textFields_def formText_def trim_id
        split: option.split)
next
  case (ANetwork n)
  then show ?thesis using assms
    by (simp add: editRequest_def networkBody_def versionField_def textFields_def formText_def formFlag_def trim_id)
qed (simp_all add: editRequest_def credentialBody_def versionField_def textFields_def formText_def formFlag_def)

definition exampleProfile :: CommandProfile where
  "exampleProfile = \<lparr>profId = js ''p1'', profName = js ''huawei'', profActive = True, profVersion = 3,
     profRules = [(js ''error_patterns'', JArr [JStr (js ''Error'')]), (js ''parser_rules'', JNull)]\<rparr>"

text \<open>A printer and a parser that know the three values of the example.\<close>

definition exampleJson :: jsonText where
  "exampleJson = \<lparr>parseText = (\<lambda>s. if s = js ''{}'' then Some (JObj []) else if s = js ''[]'' then Some (JArr [])
       else if s = js ''[Error]'' then Some (JArr [JStr (js ''Error'')]) else None),
     printText = (\<lambda>v. if v = JObj [] then js ''{}'' else if v = JArr [] then js ''[]'' else js ''[Error]'')\<rparr>"

lemma example_rules:
  "ruleValue exampleProfile key =
     (if key = js ''error_patterns'' then JArr [JStr (js ''Error'')] else ruleDefault key)"
  by (auto simp: ruleValue_def exampleProfile_def)

lemma example_storable: "storable (AProfile exampleProfile)" "reprints exampleJson (AProfile exampleProfile)"
  by (simp_all add: example_rules profileRuleKeys_def ruleDefault_def arrayRules_def exampleJson_def)

theorem untouched_edit_keeps_witness:
  "editRequest exampleJson (AProfile exampleProfile) (initialForm exampleJson (AProfile exampleProfile)) =
     Edit (js ''profiles/p1'') (JObj (storedState (AProfile exampleProfile)))"
  using untouched_edit_keeps [OF example_storable]
  by (simp add: targetPath_def exampleProfile_def js_append [symmetric] del: initialForm.simps storedState.simps)

subsection \<open>Secrets\<close>

fun bodyKeys :: "editRequest \<Rightarrow> jstr set" where
  "bodyKeys (Edit p (JObj fs)) = fst ` set fs"
| "bodyKeys r = {}"

fun isCredential :: "EditTarget \<Rightarrow> bool" where
  "isCredential (ACredential c) = True"
| "isCredential t = False"

lemma ruleBodies_keys: "ruleBodies jt fm keys = Inr bs \<Longrightarrow> map fst bs = keys"
  by (induction keys arbitrary: bs) (auto split: option.splits if_splits sum.splits)

lemma textFields_keys [simp]: "fst ` set (textFields fm keys) = js ` set keys"
  by (force simp: textFields_def)

lemma keys_simps [simp]: "fst (versionField t) = js ''version''"
  by (simp add: versionField_def)

lemmas body_defs = credentialBody_def switchBody_def networkBody_def image_Un

lemma credential_keys:
  "bodyKeys (editRequest jt (ACredential c) fm) =
     {js ''version'', js ''name'', js ''username'', js ''description''}
     \<union> (if formText fm (js ''password'') \<noteq> [] then {js ''password''} else {})
     \<union> (if formFlag fm (js ''clear_secret'') then {js ''clear_secret''}
        else if formText fm (js ''secret'') \<noteq> [] then {js ''secret''} else {})"
  by (auto simp: editRequest_def body_defs)

lemma other_keys:
  "\<not> isCredential t \<Longrightarrow> bodyKeys (editRequest jt t fm) \<subseteq>
     js ` {''version'', ''name'', ''management_ip'', ''credential_id'', ''command_profile_id'', ''vendor'', ''model'', ''site'',
       ''description'', ''group_id'', ''protocol'', ''port'', ''switch_id'', ''cidr'', ''vlan'', ''is_validated''}
     \<union> set profileRuleKeys"
proof (cases t)
  case (AProfile p)
  show ?thesis
  proof (cases "ruleBodies jt fm profileRuleKeys")
    case (Inr bs)
    then have "fst ` set bs = set profileRuleKeys" using ruleBodies_keys by (metis list.set_map)
    then show ?thesis using AProfile Inr by (simp add: editRequest_def image_Un) blast
  qed (simp add: AProfile editRequest_def)
qed (auto simp: editRequest_def body_defs Let_def)

lemma secret_keys_elsewhere:
  "js ''password'' \<notin> set profileRuleKeys" "js ''secret'' \<notin> set profileRuleKeys" "js ''clear_secret'' \<notin> set profileRuleKeys"
  by (simp_all add: profileRuleKeys_def)

text \<open>
  C21. Secrets travel only when the administrator says so: a request carries a password exactly for a
  credential whose new password was typed, a privilege secret exactly when one was typed and deletion was not
  asked for, and the order to delete it exactly when that was asked for.
\<close>

theorem secrets_sent_on_purpose:
  "(js ''password'' \<in> bodyKeys (editRequest jt t fm)) = (isCredential t \<and> formText fm (js ''password'') \<noteq> [])
   \<and> (js ''secret'' \<in> bodyKeys (editRequest jt t fm)) =
       (isCredential t \<and> \<not> formFlag fm (js ''clear_secret'') \<and> formText fm (js ''secret'') \<noteq> [])
   \<and> (js ''clear_secret'' \<in> bodyKeys (editRequest jt t fm)) = (isCredential t \<and> formFlag fm (js ''clear_secret''))"
proof (cases "isCredential t")
  case True
  then obtain c where "t = ACredential c" by (cases t) auto
  then show ?thesis by (simp add: credential_keys)
next
  case False
  then show ?thesis using other_keys [OF False, of jt fm] secret_keys_elsewhere by auto
qed

subsection \<open>What a save sends\<close>

lemma ruleBodies_shape: "ruleBodies jt fm keys = Inr bs \<Longrightarrow> list_all (\<lambda>(k, v). ruleShape k v) bs"
  by (induction keys arbitrary: bs) (auto split: option.splits if_splits sum.splits)

definition ruleFields :: "json \<Rightarrow> (jstr \<times> json) list" where
  "ruleFields b = (case b of JObj fs \<Rightarrow> filter (\<lambda>p. fst p \<in> set profileRuleKeys) fs | _ \<Rightarrow> [])"

lemma filter_rules [simp]:
  "filter (\<lambda>p. fst p \<in> set profileRuleKeys) (textFields fm keys) = textFields fm (filter (\<lambda>k. js k \<in> set profileRuleKeys) keys)"
  by (induction keys) (simp_all add: textFields_def)

lemma filter_all_rules: "map fst bs = profileRuleKeys \<Longrightarrow> filter (\<lambda>p. fst p \<in> set profileRuleKeys) bs = bs"
  by (rule filter_True) (metis in_set_conv_nth length_map nth_map nth_mem)

lemma edit_complete:
  assumes "editRequest jt t fm = Edit p b"
  shows "p = targetPath t \<and> field (js ''version'') b = Some (JNum (of_int (targetVersion t)))
    \<and> list_all (\<lambda>(k, v). ruleShape k v) (ruleFields b)
    \<and> map fst (ruleFields b) = (case t of AProfile pr \<Rightarrow> profileRuleKeys | _ \<Rightarrow> [])"
proof (cases t)
  case (AProfile pr)
  then obtain bs where bs: "ruleBodies jt fm profileRuleKeys = Inr bs"
    using assms by (cases "ruleBodies jt fm profileRuleKeys") (auto simp: editRequest_def)
  then have b: "b = JObj (versionField t # textFields fm [''name''] @ bs)" and p: "p = targetPath t"
    using assms AProfile by (auto simp: editRequest_def)
  have "js ''version'' \<notin> set profileRuleKeys" "js ''name'' \<notin> set profileRuleKeys" by (simp_all add: profileRuleKeys_def)
  then have "ruleFields b = bs"
    using filter_all_rules [OF ruleBodies_keys [OF bs]] by (simp add: b ruleFields_def versionField_def textFields_def)
  then show ?thesis using AProfile p b ruleBodies_shape [OF bs] ruleBodies_keys [OF bs] by (simp add: versionField_def)
qed (use assms in \<open>auto simp: editRequest_def body_defs Let_def versionField_def ruleFields_def profileRuleKeys_def
       textFields_def split: if_splits\<close>)

lemma invalidRuleText_nonempty [simp]: "invalidRuleText key zh \<noteq> []"
proof -
  have "label ''invalidPort'' zh \<noteq> []" by (simp add: label_def editorWords_def chooseWord_def)
  then show ?thesis by (simp add: invalidRuleText_def)
qed

text \<open>
  An editor sends only complete requests: when a save sends something, every required field of the
  asset is filled in, the request goes to that asset and carries the version it was loaded at, and a
  profile's request has every rule, each the list or object it must be; when it sends nothing, a field is
  flagged or a message stands in the form.
\<close>

theorem saves_are_complete:
  "case submitEditor jt t zh st of
     (st', Some (p, b)) \<Rightarrow>
       list_all (\<lambda>f. trim (fieldValue f) \<noteq> []) (requiredFor t zh (edForm st))
       \<and> p = targetPath t \<and> field (js ''version'') b = Some (JNum (of_int (targetVersion t)))
       \<and> list_all (\<lambda>(k, v). ruleShape k v) (ruleFields b)
       \<and> map fst (ruleFields b) = (case t of AProfile pr \<Rightarrow> profileRuleKeys | _ \<Rightarrow> [])
   | (st', None) \<Rightarrow>
       (\<exists>i. invalid (edChecked st') (requiredFor t zh (edForm st')) i) \<or> truthy (edError st')"
proof -
  obtain focus go where c: "check (requiredFor t zh (edForm st)) = (True, focus, go)"
    by (cases "find blank (requiredFor t zh (edForm st))") (auto simp: check_def)
  have go: "go = list_all (\<lambda>f. trim (fieldValue f) \<noteq> []) (requiredFor t zh (edForm st))"
    using check_iff [of "requiredFor t zh (edForm st)"] c by (simp add: list_all_iff blank_def)
  have flagged: "\<exists>i. invalid True (requiredFor t zh (edForm st)) i" if "\<not> go"
    using that go by (auto simp: list_all_iff invalid_iff blank_def)
  show ?thesis
  proof (cases "editRequest jt t (edForm st)")
    case (Edit p b)
    then show ?thesis using c go flagged edit_complete [OF Edit] by (auto simp: submitEditor_def Let_def)
  next
    case (InvalidRule key)
    then show ?thesis using c flagged by (auto simp: submitEditor_def Let_def)
  qed
qed

subsection \<open>Audit summaries\<close>

text \<open>What a summary may depend on: the name of the member, and the kind of its change.\<close>

definition changeKind :: "jstr \<times> json \<Rightarrow> jstr \<times> nat" where
  "changeKind change = (case change of (key, v) \<Rightarrow>
     (key, if key = js ''is_active'' \<or> key = js ''is_enabled''
             then (if v = JNull then 0 else if falsy (nullish (field (js ''to'') v) JNull) then 1 else 2)
           else if v = JStr (js ''replaced'') then 3 else if v = JStr (js ''cleared'') then 4 else 5))"

lemma kinds_apart:
  "(if a then 3 else if b then 4 else 5 :: nat) = (if a' then 3 else if b' then 4 else 5) \<Longrightarrow>
     \<not> (a \<and> b) \<Longrightarrow> \<not> (a' \<and> b') \<Longrightarrow> a = a' \<and> b = b'"
  by (cases a; cases b; cases a'; cases b') simp_all

lemma describeChange_kind: "changeKind c = changeKind c' \<Longrightarrow> describeChange zh c = describeChange zh c'"
proof -
  assume same: "changeKind c = changeKind c'"
  obtain k v where c: "c = (k, v)" by (cases c)
  with same obtain v' where c': "c' = (k, v')" by (cases c') (simp add: changeKind_def)
  show ?thesis
  proof (cases "k = js ''is_active'' \<or> k = js ''is_enabled''")
    case True
    then show ?thesis using same unfolding c c' changeKind_def describeChange_def
      by (simp add: Let_def split: if_splits)
  next
    case False
    have "(if v = JStr (js ''replaced'') then 3 else if v = JStr (js ''cleared'') then 4 else 5 :: nat) =
        (if v' = JStr (js ''replaced'') then 3 else if v' = JStr (js ''cleared'') then 4 else 5)"
      using same unfolding c c' changeKind_def prod.case if_not_P [OF False] by (rule conjunct2 [OF iffD1 [OF prod.inject]])
    note same = this
    have "\<not> (w = JStr (js ''replaced'') \<and> w = JStr (js ''cleared''))" for w by simp
    from kinds_apart [OF same this this]
    have "(v = JStr (js ''replaced'')) = (v' = JStr (js ''replaced''))"
      "(v = JStr (js ''cleared'')) = (v' = JStr (js ''cleared''))" by blast+
    then show ?thesis unfolding c c' describeChange_def prod.case if_not_P [OF False] by (simp only: )
  qed
qed

text \<open>
  An audit summary repeats no stored value: two records that change the same members in the same ways
  (switched on or off, replaced, cleared, or changed otherwise) have the same summary, whatever the old and
  new values are.
\<close>

theorem summary_hides_values:
  assumes "map changeKind changes = map changeKind changes'"
  shows "describeChanges (Some changes) zh = describeChanges (Some changes') zh"
proof -
  have "map (describeChange zh) changes = map (describeChange zh) changes'"
    using assms
  proof (induction changes arbitrary: changes')
    case (Cons c changes)
    then obtain c' cs' where e: "changes' = c' # cs'" "changeKind c = changeKind c'"
      "map changeKind changes = map changeKind cs'" by auto
    show ?case unfolding e(1) list.map describeChange_kind [OF e(2)] Cons.IH [OF e(3)] by (rule refl)
  qed simp
  then show ?thesis by (simp add: describeChanges_def)
qed

theorem summary_hides_values_witness:
  "describeChanges (Some [(js ''name'', JObj [(js ''from'', JStr (js ''a'')), (js ''to'', JStr (js ''b''))]),
       (js ''encrypted_password'', JStr (js ''replaced''))]) True
   = describeChanges (Some [(js ''name'', JObj [(js ''from'', JStr (js ''c'')), (js ''to'', JStr (js ''d''))]),
       (js ''encrypted_password'', JStr (js ''replaced''))]) True"
  by (rule summary_hides_values) (simp add: changeKind_def)

end
