(* ===== verification/Ops.thy ===== *)
theory Ops
  imports Messages
begin

text \<open>
  Device operations (\<open>features/ops/api.ts\<close>, \<open>features/ops/ui.tsx\<close>): what state a run of a task is in,
  the reading of a schedule in plain language, the badges and labels, and the pager. A run counts the
  switches it works through; a schedule is written in the five fields of cron.
\<close>

definition pick :: "bool \<Rightarrow> jstr \<Rightarrow> jstr \<Rightarrow> jstr" where
  "pick zh chinese english = (if zh then chinese else english)"

subsection \<open>The state of a run\<close>

record TaskCounts =
  tTotal :: int
  tQueued :: int
  tRunning :: int
  tSucceeded :: int
  tFailed :: int
  tSkipped :: int

datatype TaskState = TaskRunning | TaskSucceeded | TaskPartial | TaskFailed | TaskEmpty

definition taskState :: "TaskCounts \<Rightarrow> TaskState" where
  "taskState t =
     (if tQueued t + tRunning t > 0 then TaskRunning
      else if tTotal t = 0 \<or> tTotal t = tSkipped t then TaskEmpty
      else if tFailed t > 0 then (if tSucceeded t > 0 then TaskPartial else TaskFailed)
      else TaskSucceeded)"

datatype ItemStatus = Queued | Running | Succeeded | Failed | Skipped

text \<open>
  What the counts stand for: the items of the run, one for each switch. The state of a run is meant
  to depend on which outcomes its items have, not on how many.
\<close>

definition countsOf :: "ItemStatus list \<Rightarrow> TaskCounts" where
  "countsOf items = \<lparr>tTotal = int (length items), tQueued = int (count_list items Queued),
     tRunning = int (count_list items Running), tSucceeded = int (count_list items Succeeded),
     tFailed = int (count_list items Failed), tSkipped = int (count_list items Skipped)\<rparr>"

definition itemsState :: "ItemStatus list \<Rightarrow> TaskState" where
  "itemsState items =
     (if Queued \<in> set items \<or> Running \<in> set items then TaskRunning
      else if set items \<subseteq> {Skipped} then TaskEmpty
      else if Failed \<in> set items \<and> Succeeded \<in> set items then TaskPartial
      else if Failed \<in> set items then TaskFailed
      else TaskSucceeded)"

lemma count_pos: "0 < count_list xs x \<longleftrightarrow> x \<in> set xs"
  by (metis count_list_0_iff gr0I less_numeral_extra(3))

lemma count_all: "count_list xs x = length xs \<longleftrightarrow> set xs \<subseteq> {x}"
proof (induction xs)
  case (Cons a xs)
  have "count_list xs x \<le> length xs" by (rule count_le_length)
  then show ?case using Cons by auto
qed simp

text \<open>
  C8. The state shown for a run refines its list of switches: computed from the counts, it is the state
  that the outcomes of the items determine. A run is running as long as some switch is waiting or being
  worked on, partly failed when there are both successes and failures, and has nothing to do exactly
  when every switch was skipped.
\<close>

theorem task_state_of_items: "taskState (countsOf items) = itemsState items"
proof -
  have "int (count_list items Queued) + int (count_list items Running) > 0 \<longleftrightarrow> Queued \<in> set items \<or> Running \<in> set items"
    using count_pos [of items Queued] count_pos [of items Running] by linarith
  moreover have "int (length items) = int (count_list items Skipped) \<longleftrightarrow> set items \<subseteq> {Skipped}"
    using count_all [of items Skipped] by linarith
  ultimately show ?thesis
    unfolding taskState_def itemsState_def countsOf_def by (simp add: count_pos del: subset_singleton_iff)
qed

definition taskStateBadge :: "TaskState \<Rightarrow> bool \<Rightarrow> jstr \<times> jstr" where
  "taskStateBadge st zh =
     ((case st of TaskSucceeded \<Rightarrow> js ''good'' | TaskFailed \<Rightarrow> js ''bad'' | TaskPartial \<Rightarrow> js ''warn'' | _ \<Rightarrow> js ''muted''),
      (case st of
         TaskRunning \<Rightarrow> pick zh [0x8FDB, 0x884C, 0x4E2D] (js ''Running'')
       | TaskSucceeded \<Rightarrow> pick zh [0x6210, 0x529F] (js ''Succeeded'')
       | TaskPartial \<Rightarrow> pick zh [0x90E8, 0x5206, 0x5931, 0x8D25] (js ''Partly failed'')
       | TaskFailed \<Rightarrow> pick zh [0x5931, 0x8D25] (js ''Failed'')
       | TaskEmpty \<Rightarrow> pick zh [0x65E0, 0x8BBE, 0x5907] (js ''Nothing to do'')))"

subsection \<open>Labels\<close>

definition itemStatusLabel :: "jstr \<Rightarrow> bool \<Rightarrow> jstr option" where
  "itemStatusLabel st zh =
     (case get_prop [(js ''queued'', pick zh [0x6392, 0x961F, 0x4E2D] (js ''Queued'')),
         (js ''running'', pick zh [0x6267, 0x884C, 0x4E2D] (js ''Running'')),
         (js ''succeeded'', pick zh [0x6210, 0x529F] (js ''Succeeded'')),
         (js ''failed'', pick zh [0x5931, 0x8D25] (js ''Failed'')),
         (js ''skipped'', pick zh [0x8DF3, 0x8FC7] (js ''Skipped''))] st of
        Own w \<Rightarrow> Some w | Inherited \<Rightarrow> None | Absent \<Rightarrow> Some st)"

definition workerMessage :: "jstr option \<Rightarrow> bool \<Rightarrow> jstr option" where
  "workerMessage message zh = serverText message zh"

definition kindLabel :: "jstr \<Rightarrow> bool \<Rightarrow> jstr" where
  "kindLabel kd zh =
     (if kd = js ''config_backup'' then pick zh [0x914D, 0x7F6E, 0x5907, 0x4EFD] (js ''Config backup'')
      else pick zh [0x8FDE, 0x901A, 0x6027, 0x68C0, 0x6D4B] (js ''Reachability check''))"

datatype Severity = Info | Warning | Critical

definition severityBadge :: "Severity \<Rightarrow> bool \<Rightarrow> jstr \<times> jstr" where
  "severityBadge sv zh =
     ((case sv of Critical \<Rightarrow> js ''bad'' | Warning \<Rightarrow> js ''warn'' | Info \<Rightarrow> js ''muted''),
      (case sv of
         Critical \<Rightarrow> pick zh [0x4E25, 0x91CD] (js ''Critical'')
       | Warning \<Rightarrow> pick zh [0x8B66, 0x544A] (js ''Warning'')
       | Info \<Rightarrow> pick zh [0x63D0, 0x793A] (js ''Info'')))"

text \<open>The badge of a switch: its tone, its text, and the title that explains why it is not reachable.\<close>

definition reachabilityBadge ::
    "bool option \<Rightarrow> int option \<Rightarrow> jstr option \<Rightarrow> bool \<Rightarrow> jstr \<times> jstr \<times> jstr option" where
  "reachabilityBadge reachable latency err zh =
     (case reachable of
        None \<Rightarrow> (js ''muted'', pick zh [0x672A, 0x68C0, 0x6D4B] (js ''Not checked''), None)
      | Some True \<Rightarrow> (js ''good'', pick zh [0x5728, 0x7EBF] (js ''Reachable'')
          @ (case latency of Some n \<Rightarrow> (js '' '' @ [0xB7] @ js '' '') @ int_str n @ js '' ms'' | None \<Rightarrow> []), None)
      | Some False \<Rightarrow> (js ''bad'', pick zh [0x4E0D, 0x53EF, 0x8FBE] (js ''Unreachable''),
          if truthy err then serverText err zh else None))"

definition languageZh :: "jstr \<Rightarrow> bool" where
  "languageZh language = startsWith language (js ''zh'')"

definition formatTime :: "(jstr \<Rightarrow> jstr \<Rightarrow> jstr) \<Rightarrow> jstr option \<Rightarrow> bool \<Rightarrow> jstr" where
  "formatTime toLocaleString value zh =
     (if truthy value then toLocaleString (the value) (if zh then js ''zh-CN'' else js ''en'') else [0x2014])"

subsection \<open>The pager\<close>

text \<open>
  \<open>Math.max(1, Math.ceil(tot / pageSize))\<close>; with a page size of 0 the quotient is no number of
  pages (\<^term>\<open>None\<close>). The pager is drawn when there is more than one page.
\<close>

definition pageCount :: "nat \<Rightarrow> nat \<Rightarrow> nat option" where
  "pageCount tot pageSize = (if pageSize = 0 then None else Some (max 1 ((tot + pageSize - 1) div pageSize)))"

definition pagerShown :: "nat \<Rightarrow> nat \<Rightarrow> bool" where
  "pagerShown tot pageSize = (\<not> tot \<le> pageSize)"

definition previousPage :: "nat \<Rightarrow> nat \<Rightarrow> nat \<Rightarrow> nat option" where
  "previousPage page tot pageSize = (if \<not> pagerShown tot pageSize \<or> page \<le> 1 then None else Some (page - 1))"

definition nextPage :: "nat \<Rightarrow> nat \<Rightarrow> nat \<Rightarrow> nat option" where
  "nextPage page tot pageSize =
     (if \<not> pagerShown tot pageSize \<or> (case pageCount tot pageSize of None \<Rightarrow> False | Some pages \<Rightarrow> page \<ge> pages)
      then None else Some (page + 1))"

text \<open>The entries of a page, counted from 0.\<close>

definition pageEntries :: "nat \<Rightarrow> nat \<Rightarrow> nat \<Rightarrow> nat set" where
  "pageEntries page tot pageSize = {i. i < tot \<and> (page - 1) * pageSize \<le> i \<and> i < page * pageSize}"

lemma pageCount_bound:
  assumes "pageCount tot n = Some pages"
  shows "0 < n" "1 \<le> pages" "0 < tot \<Longrightarrow> (pages - 1) * n < tot" "tot \<le> pages * n"
proof -
  from assms show n: "0 < n" "1 \<le> pages" by (auto simp: pageCount_def split: if_splits)
  have p: "pages = max 1 ((tot + n - 1) div n)" using assms n by (simp add: pageCount_def)
  have "tot + n - 1 < n * ((tot + n - 1) div n) + n"
    using n(1) by (metis add.commute dividend_less_times_div add_less_cancel_left mult.commute)
  then have "tot \<le> n * ((tot + n - 1) div n)" by linarith
  also have "\<dots> \<le> n * pages" unfolding p by (rule mult_le_mono2) simp
  finally show "tot \<le> pages * n" by (simp add: mult.commute)
  show "(pages - 1) * n < tot" if "0 < tot"
  proof (cases "(tot + n - 1) div n \<le> 1")
    case True
    then show ?thesis using that unfolding p by simp
  next
    case False
    then have "pages = (tot + n - 1) div n" unfolding p by simp
    then have "pages * n \<le> tot + n - 1" by (metis div_times_less_eq_dividend)
    then show ?thesis using n that by (simp add: diff_mult_distrib)
  qed
qed

text \<open>
  The pager never leaves the list: from a page of the list its buttons lead to the neighbouring page,
  again one of the list, and a button is missing exactly at the end; every page it can lead to has
  entries, and no entry is missing from all of them.
\<close>

theorem pager_stays_in_list:
  assumes "pageCount tot n = Some pages" "1 \<le> page" "page \<le> pages"
  shows "(case nextPage page tot n of
           Some p \<Rightarrow> p = page + 1 \<and> p \<le> pages \<and> pageEntries p tot n \<noteq> {}
         | None \<Rightarrow> page = pages)
     \<and> (case previousPage page tot n of
           Some p \<Rightarrow> p + 1 = page \<and> 1 \<le> p \<and> pageEntries p tot n \<noteq> {}
         | None \<Rightarrow> page = 1)
     \<and> (\<Union>p\<in>{1..pages}. pageEntries p tot n) = {..<tot}"
proof (intro conjI)
  note b = pageCount_bound [OF assms(1)]
  have one: "pages = 1" if "\<not> pagerShown tot n"
  proof -
    from that have "tot + n - 1 < 2 * n" using b(1) by (simp add: pagerShown_def)
    then have "(tot + n - 1) div n < 2" by (rule less_mult_imp_div_less)
    then show ?thesis using assms(1) by (auto simp: pageCount_def split: if_splits)
  qed
  have some: "pageEntries p tot n \<noteq> {}" if "1 \<le> p" "p \<le> pages" "pagerShown tot n" for p
  proof -
    have "0 < tot" using that(3) by (simp add: pagerShown_def)
    have "(p - 1) * n \<le> (pages - 1) * n" by (rule mult_le_mono1) (use that(2) in simp)
    then have "(p - 1) * n < tot" using b(3) [OF \<open>0 < tot\<close>] by linarith
    moreover have "(p - 1) * n < p * n" using that(1) b(1) by simp
    ultimately show ?thesis unfolding pageEntries_def by blast
  qed
  show "case nextPage page tot n of
      Some p \<Rightarrow> p = page + 1 \<and> p \<le> pages \<and> pageEntries p tot n \<noteq> {} | None \<Rightarrow> page = pages"
    using assms one some [of "page + 1"] by (auto simp: nextPage_def)
  show "case previousPage page tot n of
      Some p \<Rightarrow> p + 1 = page \<and> 1 \<le> p \<and> pageEntries p tot n \<noteq> {} | None \<Rightarrow> page = 1"
    using assms one some [of "page - 1"] by (cases page) (auto simp: previousPage_def)
  show "(\<Union>p\<in>{1..pages}. pageEntries p tot n) = {..<tot}"
  proof
    show "{..<tot} \<subseteq> (\<Union>p\<in>{1..pages}. pageEntries p tot n)"
    proof
      fix i assume i: "i \<in> {..<tot}"
      then have "i < pages * n" using b(4) by simp
      then have "i div n + 1 \<le> pages" by (simp add: less_mult_imp_div_less Suc_leI)
      moreover have "i \<in> pageEntries (i div n + 1) tot n"
        using i b(1) unfolding pageEntries_def by (simp add: dividend_less_div_times add.commute)
      ultimately show "i \<in> (\<Union>p\<in>{1..pages}. pageEntries p tot n)" by (intro UN_I [of "i div n + 1"]) auto
    qed
  qed (auto simp: pageEntries_def)
qed

theorem pager_stays_in_list_witness:
  "nextPage 2 21 10 = Some 3 \<and> previousPage 2 21 10 = Some 1 \<and> (\<Union>p\<in>{1..3::nat}. pageEntries p 21 10) = {..<21}"
  using pager_stays_in_list [of 21 10 3 2] by (simp add: pageCount_def nextPage_def previousPage_def pagerShown_def)

subsection \<open>The reading of a schedule\<close>

text \<open>\<open>split(/\s+/)\<close>: the words between the runs of white space.\<close>

function splitBlanks :: "jstr \<Rightarrow> jstr list" where
  "splitBlanks s =
     (case dropWhile (\<lambda>c. \<not> ws_char c) s of
        [] \<Rightarrow> [s]
      | b # rest \<Rightarrow> takeWhile (\<lambda>c. \<not> ws_char c) s # splitBlanks (dropWhile ws_char rest))"
  by pat_completeness auto
termination
proof (relation "measure length")
  fix s :: jstr and b rest
  assume "dropWhile (\<lambda>c. \<not> ws_char c) s = b # rest"
  then have "length rest < length s" by (metis length_dropWhile_le length_Cons less_eq_Suc_le)
  then show "(dropWhile ws_char rest, s) \<in> measure length"
    using length_dropWhile_le [of ws_char rest] by simp
qed simp

declare splitBlanks.simps [simp del]

definition everyPattern :: rx where
  "everyPattern = Cat (rlit (js ''*/'')) (Group 1 (rplus rdigit))"

definition every :: "jstr \<Rightarrow> jstr option" where
  "every s = (case rx_exec everyPattern s of Some g \<Rightarrow> g 1 | None \<Rightarrow> None)"

definition number :: "jstr \<Rightarrow> bool" where
  "number s = rx_test (rplus rdigit) s"

definition pad2 :: "jstr \<Rightarrow> jstr" where
  "pad2 s = padStart 2 0x30 s"

definition dayName :: "jstr \<Rightarrow> bool \<Rightarrow> jstr" where
  "dayName weekday zh =
     (if zh then [[0x5468, 0x65E5], [0x5468, 0x4E00], [0x5468, 0x4E8C], [0x5468, 0x4E09], [0x5468, 0x56DB], [0x5468, 0x4E94], [0x5468, 0x516D], [0x5468, 0x65E5]]
      else map js [''Sunday'', ''Monday'', ''Tuesday'', ''Wednesday'', ''Thursday'', ''Friday'', ''Saturday'', ''Sunday''])
     ! digits_val weekday"

definition star :: jstr where
  "star = js ''*''"

definition describeCron :: "jstr \<Rightarrow> bool \<Rightarrow> jstr" where
  "describeCron expression zh =
     (case splitBlanks (trim expression) of
        [minute, hour, day, month, weekday] \<Rightarrow>
          if day \<noteq> star \<or> month \<noteq> star then expression
          else if minute = star \<and> hour = star \<and> weekday = star then (if zh then [0x6BCF, 0x5206, 0x949F] else js ''Every minute'')
          else if hour = star \<and> weekday = star \<and> every minute \<noteq> None
          then (if zh then ([0x6BCF] @ js '' '') @ the (every minute) @ (js '' '' @ [0x5206, 0x949F]) else js ''Every '' @ the (every minute) @ js '' minutes'')
          else if number minute \<and> every hour \<noteq> None \<and> weekday = star
          then (if zh then ([0x6BCF] @ js '' '') @ the (every hour) @ (js '' '' @ [0x5C0F, 0x65F6, 0xFF08, 0x7B2C] @ js '' '') @ minute @ (js '' '' @ [0x5206, 0xFF09])
                else js ''Every '' @ the (every hour) @ js '' hours at :'' @ pad2 minute)
          else if number minute \<and> hour = star \<and> weekday = star
          then (if zh then ([0x6BCF, 0x5C0F, 0x65F6, 0x7B2C] @ js '' '') @ minute @ (js '' '' @ [0x5206]) else js ''Hourly at :'' @ pad2 minute)
          else if number minute \<and> number hour then
            (let time = pad2 hour @ 0x3A # pad2 minute in
             if weekday = star then (if zh then ([0x6BCF, 0x5929] @ js '' '') @ time else js ''Daily at '' @ time)
             else if rx_test (Unit (In [(0x30, 0x37)])) weekday
             then (if zh then [0x6BCF] @ dayName weekday zh @ js '' '' @ time
                   else js ''Every '' @ dayName weekday zh @ js '' at '' @ time)
             else expression)
          else expression
      | _ \<Rightarrow> expression)"

text \<open>When an expression runs: the fields that the reading understands, in the sense of cron; weekday 7 is Sunday.\<close>

definition fieldMeets :: "jstr \<Rightarrow> nat \<Rightarrow> bool" where
  "fieldMeets f n = (case every f of Some ds \<Rightarrow> n mod digits_val ds = 0
     | None \<Rightarrow> f = star \<or> number f \<and> digits_val f = n)"

definition runsAt :: "jstr \<Rightarrow> nat \<Rightarrow> nat \<Rightarrow> nat \<Rightarrow> bool" where
  "runsAt expression minute hour weekday =
     (case splitBlanks (trim expression) of
        [m, h, d, mo, w] \<Rightarrow> d = star \<and> mo = star \<and> fieldMeets m minute \<and> fieldMeets h hour
          \<and> (w = star \<or> number w \<and> digits_val w mod 7 = weekday)
      | _ \<Rightarrow> False)"

lemma number_iff: "number s \<longleftrightarrow> s \<noteq> [] \<and> list_all digit s"
  by (simp add: number_def rx_test_lang rdigit_def list_all_iff digit_def)

lemma every_SomeD: "every s = Some ds \<Longrightarrow> s = js ''*/'' @ ds \<and> number ds"
proof -
  assume "every s = Some ds"
  then obtain g where g: "rx_exec everyPattern s = Some g" "g 1 = Some ds"
    by (auto simp: every_def split: option.splits)
  note m0 = rx_exec_Some [OF g(1)]
  have p: "prefix (js ''*/'') s"
    by (rule ccontr) (use m0 in \<open>simp add: everyPattern_def matches_rlit\<close>)
  from m0 have m: "([], g) \<in> set (matches (Group 1 (rplus rdigit)) (drop (length (js ''*/'')) s) no_caps)"
    unfolding everyPattern_def matches_Cat_rlit using p by (simp only: if_True)
  from matches_Group [OF m] g(2) have "ds \<in> rx_lang (rplus rdigit)" "drop (length (js ''*/'')) s = ds" by auto
  moreover from p have "s = js ''*/'' @ drop (length (js ''*/'')) s" by (metis append_eq_conv_conj prefix_def)
  ultimately show ?thesis by (metis number_def rx_test_lang)
qed

lemma number_not_star: "number s \<Longrightarrow> s \<noteq> star \<and> every s = None"
  using every_SomeD [of s] by (cases "every s") (auto simp: number_iff star_def js_Cons digit_def)

lemma every_not_star: "every s = Some ds \<Longrightarrow> s \<noteq> star"
  by (drule every_SomeD) (simp add: star_def js_Cons)

text \<open>The six shapes that are read, with their readings in English.\<close>

inductive cron_reading :: "jstr list \<Rightarrow> jstr \<Rightarrow> bool" where
  every_minute: "cron_reading [star, star, star, star, star] (js ''Every minute'')"
| minutes: "every m = Some ds \<Longrightarrow> cron_reading [m, star, star, star, star] (js ''Every '' @ ds @ js '' minutes'')"
| hours: "\<lbrakk>number m; every h = Some ds\<rbrakk> \<Longrightarrow>
    cron_reading [m, h, star, star, star] (js ''Every '' @ ds @ js '' hours at :'' @ pad2 m)"
| hourly: "number m \<Longrightarrow> cron_reading [m, star, star, star, star] (js ''Hourly at :'' @ pad2 m)"
| daily: "\<lbrakk>number m; number h\<rbrakk> \<Longrightarrow>
    cron_reading [m, h, star, star, star] (js ''Daily at '' @ pad2 h @ 0x3A # pad2 m)"
| weekly: "\<lbrakk>number m; number h; 0x30 \<le> c; c \<le> 0x37\<rbrakk> \<Longrightarrow>
    cron_reading [m, h, star, star, [c]] (js ''Every '' @ dayName [c] False @ js '' at '' @ pad2 h @ 0x3A # pad2 m)"

lemma day_class: "rx_test (Unit (In [(0x30, 0x37)])) w \<longleftrightarrow> (\<exists>c. w = [c] \<and> 0x30 \<le> c \<and> c \<le> 0x37)"
  by (auto simp: rx_test_lang)

lemma describeCron_reading:
  assumes "describeCron e False \<noteq> e"
  shows "cron_reading (splitBlanks (trim e)) (describeCron e False)"
proof -
  obtain m h d mo w where fs: "splitBlanks (trim e) = [m, h, d, mo, w]"
    using assms by (auto simp: describeCron_def split: list.splits)
  have "describeCron e False = e" if "d \<noteq> star \<or> mo \<noteq> star" using that by (simp only: describeCron_def fs list.case if_True)
  with assms have dm: "d = star" "mo = star" by blast+
  note def = describeCron_def fs list.case dm
  consider (a) "m = star" "h = star" "w = star"
    | (b) ds where "h = star" "w = star" "every m = Some ds"
    | (c) ds where "number m" "every h = Some ds" "w = star"
    | (d) "number m" "h = star" "w = star"
    | (e) "number m" "number h" "w = star"
    | (f) c where "number m" "number h" "w = [c]" "0x30 \<le> c" "c \<le> 0x37" "w \<noteq> star"
    using assms unfolding def day_class Let_def by (auto split: if_splits)
  then show ?thesis
  proof cases
    case a
    then show ?thesis unfolding def by (simp add: every_minute)
  next
    case b
    then show ?thesis unfolding def using every_not_star [OF b(3)] minutes [OF b(3)] by simp
  next
    case c
    then show ?thesis unfolding def using number_not_star every_not_star [OF c(2)] hours [OF c(1,2)] by simp
  next
    case d
    then show ?thesis unfolding def
      using number_not_star [OF d(1)] number_not_star [of star] hourly [OF d(1)] every_not_star [of star] by (cases "every star") simp_all
  next
    case e
    then show ?thesis unfolding def
      using number_not_star [OF e(1)] number_not_star [OF e(2)] daily [OF e(1,2)] by (simp add: Let_def)
  next
    case (f c)
    then show ?thesis unfolding def day_class
      using number_not_star [OF f(1)] number_not_star [OF f(2)] weekly [OF f(1,2,4,5)] by (simp add: Let_def)
  qed
qed

lemma digits_val_zero: "digits_val (0x30 # s) = digits_val s"
  by (simp add: digits_val_def)

lemma digits_val_pad2 [simp]: "digits_val (pad2 s) = digits_val s"
proof -
  have "digits_val (replicate n 0x30 @ s) = digits_val s" for n
    by (induction n) (simp_all add: digits_val_zero)
  then show ?thesis by (simp add: pad2_def padStart_def)
qed

lemma number_value: "number s \<Longrightarrow> fieldMeets s n = (digits_val s = n)"
  using number_not_star [of s] by (simp add: fieldMeets_def)

lemma every_value: "every s = Some ds \<Longrightarrow> fieldMeets s n = (n mod digits_val ds = 0)"
  by (simp add: fieldMeets_def)

definition fieldsRun :: "jstr list \<Rightarrow> nat \<Rightarrow> nat \<Rightarrow> nat \<Rightarrow> bool" where
  "fieldsRun fs minute hour weekday =
     (case fs of
        [m, h, d, mo, w] \<Rightarrow> d = star \<and> mo = star \<and> fieldMeets m minute \<and> fieldMeets h hour
          \<and> (w = star \<or> number w \<and> digits_val w mod 7 = weekday)
      | _ \<Rightarrow> False)"

lemma day_unit:
  assumes "0x30 \<le> c" "c \<le> (0x37 :: nat)"
  obtains "c = 0x30" | "c = 0x31" | "c = 0x32" | "c = 0x33" | "c = 0x34" | "c = 0x35" | "c = 0x36" | "c = 0x37"
  using assms by linarith

lemma day_value: "digits_val [c] = c - 0x30"
  by (simp add: digits_val_def)

lemma day_table:
  "dayName [0x30] False = js ''Sunday''" "dayName [0x31] False = js ''Monday''" "dayName [0x32] False = js ''Tuesday''"
  "dayName [0x33] False = js ''Wednesday''" "dayName [0x34] False = js ''Thursday''" "dayName [0x35] False = js ''Friday''"
  "dayName [0x36] False = js ''Saturday''" "dayName [0x37] False = js ''Sunday''"
  by (simp_all add: dayName_def day_value)

lemma runsAt_fields: "runsAt e = fieldsRun (splitBlanks (trim e))"
  by (intro ext) (simp add: runsAt_def fieldsRun_def)

text \<open>What a reading says, as the times its schedule runs at.\<close>

lemma fieldsRun_shapes:
  "fieldsRun [star, star, star, star, star] i j k"
  "every m = Some ds \<Longrightarrow> fieldsRun [m, star, star, star, star] i j k = (i mod digits_val ds = 0)"
  "\<lbrakk>number m; every h = Some ds\<rbrakk> \<Longrightarrow> fieldsRun [m, h, star, star, star] i j k = (digits_val m = i \<and> j mod digits_val ds = 0)"
  "number m \<Longrightarrow> fieldsRun [m, star, star, star, star] i j k = (digits_val m = i)"
  "\<lbrakk>number m; number h\<rbrakk> \<Longrightarrow> fieldsRun [m, h, star, star, star] i j k = (digits_val m = i \<and> digits_val h = j)"
  "\<lbrakk>number m; number h; 0x30 \<le> c; c \<le> 0x37\<rbrakk> \<Longrightarrow>
     fieldsRun [m, h, star, star, [c]] i j k = (digits_val m = i \<and> digits_val h = j \<and> digits_val [c] mod 7 = k)"
proof -
  have any: "fieldMeets star n" for n
    using every_not_star [of star] by (cases "every star") (simp_all add: fieldMeets_def)
  show "fieldsRun [star, star, star, star, star] i j k"
    "every m = Some ds \<Longrightarrow> fieldsRun [m, star, star, star, star] i j k = (i mod digits_val ds = 0)"
    "\<lbrakk>number m; every h = Some ds\<rbrakk> \<Longrightarrow> fieldsRun [m, h, star, star, star] i j k = (digits_val m = i \<and> j mod digits_val ds = 0)"
    "number m \<Longrightarrow> fieldsRun [m, star, star, star, star] i j k = (digits_val m = i)"
    "\<lbrakk>number m; number h\<rbrakk> \<Longrightarrow> fieldsRun [m, h, star, star, star] i j k = (digits_val m = i \<and> digits_val h = j)"
    by (simp_all add: fieldsRun_def any number_value every_value)
  assume *: "number m" "number h" "0x30 \<le> c" "c \<le> 0x37"
  then have "number [c]" "[c] \<noteq> star" by (auto simp: number_iff digit_def star_def js_Cons)
  with * show "fieldsRun [m, h, star, star, [c]] i j k = (digits_val m = i \<and> digits_val h = j \<and> digits_val [c] mod 7 = k)"
    by (simp add: fieldsRun_def number_value)
qed

lemma every_digits: "every s = Some ds \<Longrightarrow> ds \<noteq> [] \<and> list_all digit ds"
  by (drule every_SomeD) (simp add: number_iff)

text \<open>
  What an English reading says to its reader: its words, a time of day as hour and minute around a
  colon, a day by its name.
\<close>

definition clockSays :: "jstr \<Rightarrow> nat \<Rightarrow> nat \<Rightarrow> bool" where
  "clockSays t minute hour = (case splitOn 0x3A t of [h, m] \<Rightarrow> digits_val h = hour \<and> digits_val m = minute | _ \<Rightarrow> False)"

definition daySays :: "jstr \<Rightarrow> nat \<Rightarrow> bool" where
  "daySays d weekday = (weekday < 7 \<and> d = dayName [0x30 + weekday] False)"

definition readingSays :: "jstr \<Rightarrow> nat \<Rightarrow> nat \<Rightarrow> nat \<Rightarrow> bool" where
  "readingSays r minute hour weekday =
     (case splitOn 0x20 r of
        [_, _] \<Rightarrow> True
      | [a, b, c] \<Rightarrow>
          if a = js ''Every'' then minute mod digits_val b = 0
          else if a = js ''Hourly'' then digits_val (drop 1 c) = minute
          else clockSays c minute hour
      | [_, d, _, t] \<Rightarrow> clockSays t minute hour \<and> daySays d weekday
      | [_, n, _, _, m] \<Rightarrow> digits_val (drop 1 m) = minute \<and> hour mod digits_val n = 0
      | _ \<Rightarrow> False)"

lemma pad2_units: "number s \<Longrightarrow> 0x20 \<notin> set (pad2 s) \<and> 0x3A \<notin> set (pad2 s)"
  by (auto simp: pad2_def padStart_def number_iff list_all_iff digit_def)

lemma every_units: "every s = Some ds \<Longrightarrow> 0x20 \<notin> set ds"
  by (drule every_SomeD) (auto simp: number_iff list_all_iff digit_def)

lemma clockSays_time:
  "\<lbrakk>number h; number m\<rbrakk> \<Longrightarrow> clockSays (pad2 h @ 0x3A # pad2 m) i j = (digits_val m = i \<and> digits_val h = j)"
  using pad2_units [of h] pad2_units [of m] by (auto simp: clockSays_def splitOn_append_sep splitOn_no_sep)

lemma daySays_name:
  assumes "0x30 \<le> c" "c \<le> 0x37"
  shows "0x20 \<notin> set (dayName [c] False)" "daySays (dayName [c] False) k = (digits_val [c] mod 7 = k)"
proof -
  show "0x20 \<notin> set (dayName [c] False)"
    using assms by (cases rule: day_unit) (simp_all add: day_table js_Cons)
  show "daySays (dayName [c] False) k = (digits_val [c] mod 7 = k)"
  proof (cases "k < 7")
    case True
    then consider "k = 0" | "k = 1" | "k = 2" | "k = 3" | "k = 4" | "k = 5" | "k = 6" by linarith
    then show ?thesis
      by cases (cases rule: day_unit [OF assms]; simp add: daySays_def day_table day_value)+
  next
    case False
    then show ?thesis by (auto simp: daySays_def)
  qed
qed

lemma words_of: "\<lbrakk>r = joinWith [0x20] ws; ws \<noteq> []; list_all (\<lambda>w. 0x20 \<notin> set w) ws\<rbrakk> \<Longrightarrow> splitOn 0x20 r = ws"
  by (simp add: splitOn_joinWith list_all_iff)

lemma reading_says:
  assumes "cron_reading fs r"
  shows "fieldsRun fs i j k = readingSays r i j k"
  using assms
proof cases
  case every_minute
  have "splitOn 0x20 r = [js ''Every'', js ''minute'']"
    unfolding every_minute by (rule words_of) (simp_all add: js_Cons)
  then show ?thesis using every_minute by (simp add: readingSays_def fieldsRun_shapes)
next
  case (minutes m ds)
  have "splitOn 0x20 r = [js ''Every'', ds, js ''minutes'']"
    unfolding minutes by (rule words_of) (simp_all add: js_Cons every_units [OF minutes(3)])
  then show ?thesis using minutes by (simp add: readingSays_def fieldsRun_shapes)
next
  case (hours m h ds)
  have "splitOn 0x20 r = [js ''Every'', ds, js ''hours'', js ''at'', 0x3A # pad2 m]"
    unfolding hours by (rule words_of) (simp_all add: js_Cons every_units [OF hours(4)] pad2_units [OF hours(3)])
  then show ?thesis using hours by (simp add: readingSays_def fieldsRun_shapes)
next
  case (hourly m)
  have "splitOn 0x20 r = [js ''Hourly'', js ''at'', 0x3A # pad2 m]"
    unfolding hourly by (rule words_of) (simp_all add: js_Cons pad2_units [OF hourly(3)])
  then show ?thesis using hourly by (simp add: readingSays_def fieldsRun_shapes)
next
  case (daily m h)
  have "splitOn 0x20 r = [js ''Daily'', js ''at'', pad2 h @ 0x3A # pad2 m]"
    unfolding daily by (rule words_of) (simp_all add: js_Cons pad2_units daily)
  then show ?thesis using daily by (simp add: readingSays_def fieldsRun_shapes clockSays_time)
next
  case (weekly m h c)
  have "splitOn 0x20 r = [js ''Every'', dayName [c] False, js ''at'', pad2 h @ 0x3A # pad2 m]"
    unfolding weekly by (rule words_of) (simp_all add: js_Cons pad2_units weekly daySays_name)
  then show ?thesis using weekly by (simp add: readingSays_def fieldsRun_shapes clockSays_time daySays_name)
qed



end
