(* ===== verification/JsonString.thy ===== *)
theory JsonString
  imports Prelude
begin

text \<open>
  \<open>JSON.stringify\<close> on strings and on objects whose members are strings, as the language defines it:
  short escapes, four hexadecimal digits for the other control characters and for lone surrogates,
  every other code unit as it is. A quoted string can be read back wherever it stands, so two objects
  with the same members in the same order have the same text only if they are equal.
\<close>

definition surrogate :: "nat \<Rightarrow> bool" where
  "surrogate c \<longleftrightarrow> high_surrogate c \<or> low_surrogate c"

definition shortEscapes :: "(nat \<times> nat) list" where
  "shortEscapes = [(8, 0x62), (9, 0x74), (10, 0x6E), (12, 0x66), (13, 0x72), (0x22, 0x22), (0x5C, 0x5C)]"

definition hex4 :: "nat \<Rightarrow> jstr" where
  "hex4 n = map digit_unit [n div 4096 mod 16, n div 256 mod 16, n div 16 mod 16, n mod 16]"

definition escaped :: "nat \<Rightarrow> jstr" where
  "escaped c = (case map_of shortEscapes c of
       Some e \<Rightarrow> [0x5C, e]
     | None \<Rightarrow> if c < 0x20 \<or> surrogate c then [0x5C, 0x75] @ hex4 c else [c])"

fun quoteUnits :: "jstr \<Rightarrow> jstr" where
  "quoteUnits [] = []"
| "quoteUnits [c] = escaped c"
| "quoteUnits (c # d # s) =
     (if high_surrogate c \<and> low_surrogate d then c # d # quoteUnits s else escaped c @ quoteUnits (d # s))"

definition quoted :: "jstr \<Rightarrow> jstr" where
  "quoted s = 0x22 # quoteUnits s @ [0x22]"

definition stringifyObject :: "(jstr \<times> jstr) list \<Rightarrow> jstr" where
  "stringifyObject ms = 0x7B # joinWith [0x2C] (map (\<lambda>(k, v). quoted k @ 0x3A # quoted v) ms) @ [0x7D]"

text \<open>Reading a quoted string, behind its opening quote, and what follows it.\<close>

definition hex_val :: "nat \<Rightarrow> nat" where
  "hex_val c = (if c < 0x61 then c - 0x30 else c - 0x61 + 10)"

fun readUnits :: "jstr \<Rightarrow> (jstr \<times> jstr) option" where
  "readUnits [] = None"
| "readUnits (c # s) =
     (if c = 0x22 then Some ([], s)
      else if c = 0x5C then
        (case s of
           [] \<Rightarrow> None
         | e # r \<Rightarrow>
             if e = 0x75 then
               (case r of
                  x # y # z # w # r' \<Rightarrow>
                    map_option (\<lambda>(u, v). ((hex_val w + 16 * hex_val z + 256 * hex_val y + 4096 * hex_val x) # u, v)) (readUnits r')
                | _ \<Rightarrow> None)
             else
               (case map_of (map prod.swap shortEscapes) e of
                  Some b \<Rightarrow> map_option (\<lambda>(u, v). (b # u, v)) (readUnits r)
                | None \<Rightarrow> None))
      else map_option (\<lambda>(u, v). (c # u, v)) (readUnits s))"

lemma hex_val_digit: "n < 16 \<Longrightarrow> hex_val (digit_unit n) = n"
  by (auto simp: hex_val_def digit_unit_def)

lemma hex4_value:
  assumes "n < (65536 :: nat)"
  shows "n mod 16 + 16 * (n div 16 mod 16) + 256 * (n div 256 mod 16) + 4096 * (n div 4096 mod 16) = n"
proof -
  have "n div 16 = n div 16 mod 16 + 16 * (n div 256)" "n div 256 = n div 256 mod 16 + 16 * (n div 4096)"
    using div_mult2_eq [of n 16 16] div_mult2_eq [of n 256 16] by simp_all
  moreover have "n div 4096 mod 16 = n div 4096" using assms by simp
  ultimately show ?thesis using mod_mult_div_eq [of n 16] by linarith
qed

lemma read_hex4: "n < 65536 \<Longrightarrow> readUnits (0x5C # 0x75 # hex4 n @ r) = map_option (\<lambda>(u, v). (n # u, v)) (readUnits r)"
  using hex4_value [of n] by (simp add: hex4_def hex_val_digit)

lemma read_plain: "\<lbrakk>c \<noteq> 0x22; c \<noteq> 0x5C\<rbrakk> \<Longrightarrow> readUnits (c # r) = map_option (\<lambda>(u, v). (c # u, v)) (readUnits r)"
  by simp

lemma read_escaped: "readUnits (escaped c @ r) = map_option (\<lambda>(u, v). (c # u, v)) (readUnits r)"
proof (cases "map_of shortEscapes c")
  case None
  show ?thesis
  proof (cases "c < 0x20 \<or> surrogate c")
    case True
    then have "c < 65536" by (auto simp: surrogate_def high_surrogate_def low_surrogate_def)
    from read_hex4 [OF this, of r] show ?thesis using None True by (simp add: escaped_def del: readUnits.simps)
  next
    case False
    from None have "c \<noteq> 0x22" "c \<noteq> 0x5C" by (auto simp: shortEscapes_def split: if_splits)
    from read_plain [OF this, of r] show ?thesis using None False by (simp add: escaped_def del: readUnits.simps)
  qed
next
  case (Some e)
  then show ?thesis by (auto simp: escaped_def shortEscapes_def split: if_splits)
qed

lemma read_quoted: "readUnits (quoteUnits s @ 0x22 # r) = Some (s, r)"
proof (induction s rule: quoteUnits.induct)
  case (2 c)
  then show ?case by (simp only: quoteUnits.simps read_escaped) simp
next
  case (3 c d s)
  show ?case
  proof (cases "high_surrogate c \<and> low_surrogate d")
    case True
    then have "c \<noteq> 0x22" "c \<noteq> 0x5C" "d \<noteq> 0x22" "d \<noteq> 0x5C" by (auto simp: high_surrogate_def low_surrogate_def)
    then show ?thesis using 3(1) [OF True] True by simp
  next
    case False
    then show ?thesis using 3(2) [OF False] by (simp only: quoteUnits.simps if_False append_assoc read_escaped) simp
  qed
qed simp

lemma quoted_read: "quoted s @ r = quoted t @ r' \<longleftrightarrow> s = t \<and> r = r'"
proof
  assume "quoted s @ r = quoted t @ r'"
  then have "quoteUnits s @ 0x22 # r = quoteUnits t @ 0x22 # r'" by (simp add: quoted_def)
  then have "Some (s, r) = Some (t, r')" by (metis read_quoted)
  then show "s = t \<and> r = r'" by simp
qed simp

lemma joinWith_snoc_read:
  assumes "joinWith [0x2C] (map (\<lambda>(k, v). quoted k @ 0x3A # quoted v) ms) @ [0x7D]
         = joinWith [0x2C] (map (\<lambda>(k, v). quoted k @ 0x3A # quoted v) ns) @ [0x7D]"
  shows "ms = ns"
  using assms
proof (induction ms arbitrary: ns)
  case Nil
  then show ?case by (cases ns; cases "tl ns") (auto simp: quoted_def)
next
  case (Cons m ms)
  obtain k v where m: "m = (k, v)" by (cases m)
  from Cons.prems obtain n ns' where ns: "ns = n # ns'"
    by (cases ns; cases ms) (auto simp: quoted_def m)
  obtain k' v' where n: "n = (k', v')" by (cases n)
  let ?f = "\<lambda>(k, v). quoted k @ 0x3A # quoted v" and ?tail = "\<lambda>ms r. if ms = [] then r else 0x2C # joinWith [0x2C] (map (\<lambda>(k, v). quoted k @ 0x3A # quoted v) ms) @ r"
  have split: "joinWith [0x2C] (map ?f ((a, b) # xs)) @ r = quoted a @ 0x3A # quoted b @ ?tail xs r" for a b xs r
    by (cases xs) (auto simp: joinWith_Cons)
  from Cons.prems have "quoted k @ 0x3A # quoted v @ ?tail ms [0x7D] = quoted k' @ 0x3A # quoted v' @ ?tail ns' [0x7D]"
    unfolding ns m n split .
  then have "k = k'" "v = v'" and t: "?tail ms [0x7D] = ?tail ns' [0x7D]" by (auto simp: quoted_read)
  from t have "ms = ns'" using Cons.IH [of ns'] by (cases ms; cases ns') (auto split: if_splits)
  then show ?case using \<open>k = k'\<close> \<open>v = v'\<close> ns m n by simp
qed

text \<open>The text of an object determines its members.\<close>

lemma stringifyObject_inj: "stringifyObject ms = stringifyObject ns \<longleftrightarrow> ms = ns"
  using joinWith_snoc_read unfolding stringifyObject_def by (auto simp del: joinWith.simps)

lemma stringifyObject_nonempty [simp]: "stringifyObject ms \<noteq> []" "[] \<noteq> stringifyObject ms"
  by (simp_all add: stringifyObject_def)

end
