(* ===== verification/BulkImport.thy ===== *)
theory BulkImport
  imports ConsoleRequests Messages JsonString
begin

text \<open>
  The bulk import of switches and networks (\<open>features/ops/import-dialog.tsx\<close>): the dialog's state, what
  the administrator can do in it, the two requests, and what a reply changes. The dialog is also a step
  relation, with the requests sent and the replies received as a log; the server's replies are arbitrary.
\<close>

record ImportRow =
  rowLine :: int
  rowStatus :: jstr
  rowLabel :: jstr
  rowMessage :: "jstr option"

record ImportReport =
  repDryRun :: bool
  repCommitted :: bool
  repCreated :: int
  repSkipped :: int
  repErrors :: int
  repNewGroups :: "jstr list"
  repRows :: "ImportRow list"

datatype ImportKind = Switches | Networks

definition kindText :: "ImportKind \<Rightarrow> jstr" where
  "kindText kd = (case kd of Switches \<Rightarrow> js ''switches'' | Networks \<Rightarrow> js ''networks'')"

record ImportForm =
  impKind :: ImportKind
  impCsv :: jstr
  impFileName :: jstr
  impCredential :: jstr
  impProfile :: jstr
  impReport :: "ImportReport option"
  impPreviewed :: jstr
  impBusy :: bool
  impError :: "jstr option"

definition newImport :: ImportForm where
  "newImport = \<lparr>impKind = Switches, impCsv = [], impFileName = [], impCredential = [], impProfile = [],
     impReport = None, impPreviewed = [], impBusy = False, impError = Some []\<rparr>"

definition importTemplate :: "ImportKind \<Rightarrow> jstr" where
  "importTemplate kd = (case kd of
       Switches \<Rightarrow> js ''name,management_ip,vendor,model,group,site,protocol,port,credential,profile,description'' @ [10]
         @ js ''SZ-CORE-01,10.18.127.10,huawei,S12700E-4,Core,SZ,ssh,,,,'' @ [10]
     | Networks \<Rightarrow> js ''cidr,switch,vlan,description,validated'' @ [10]
         @ js ''10.88.117.0/24,10.18.127.10,117,Building 1,true'' @ [10])"

definition NONE :: jstr where
  "NONE = js ''none''"

text \<open>What the form would import; the text of a request is that of this object.\<close>

type_synonym content = "ImportKind \<times> jstr \<times> jstr \<times> jstr"

definition contentOf :: "ImportForm \<Rightarrow> content" where
  "contentOf f = (impKind f, impCsv f, impCredential f, impProfile f)"

definition contentText :: "content \<Rightarrow> jstr" where
  "contentText c = (case c of (kd, csv, cred, prof) \<Rightarrow>
     stringifyObject [(js ''kind'', kindText kd), (js ''csv'', csv), (js ''default_credential_id'', cred), (js ''default_profile_id'', prof)])"

definition requestText :: "ImportForm \<Rightarrow> jstr" where
  "requestText f = contentText (contentOf f)"

definition cleanPreview :: "ImportReport \<Rightarrow> bool" where
  "cleanPreview rep = (repDryRun rep \<and> repErrors rep = 0 \<and> repCreated rep > 0)"

definition canCommit :: "ImportForm \<Rightarrow> bool" where
  "canCommit f = (case impReport f of None \<Rightarrow> False
     | Some rep \<Rightarrow> cleanPreview rep \<and> impPreviewed f = requestText f)"

definition importBody :: "bool \<Rightarrow> content \<Rightarrow> json" where
  "importBody dryRun c = (case c of (kd, csv, cred, prof) \<Rightarrow>
     JObj [(js ''kind'', JStr (kindText kd)), (js ''csv'', JStr csv), (js ''dry_run'', JBool dryRun),
       (js ''default_credential_id'', JStr cred), (js ''default_profile_id'', JStr prof)])"

text \<open>The two buttons; each is disabled while a request runs.\<close>

definition sendImport :: "bool \<Rightarrow> ImportForm \<Rightarrow> ImportForm \<times> httpRequest option" where
  "sendImport dryRun f =
     (f\<lparr>impBusy := True, impError := Some []\<rparr>, Some (callAssets (js ''import'') (Some (importBody dryRun (contentOf f))) None))"

definition clickPreview :: "ImportForm \<Rightarrow> ImportForm \<times> httpRequest option" where
  "clickPreview f = (if impBusy f \<or> trim (impCsv f) = [] then (f, None) else sendImport True f)"

definition clickImport :: "ImportForm \<Rightarrow> ImportForm \<times> httpRequest option" where
  "clickImport f = (if impBusy f \<or> \<not> canCommit f then (f, None) else sendImport False f)"

text \<open>
  The reply to a request sent with \<open>dryRun\<close> when the request's text was \<open>text\<close>: the new state, and
  whether the page is told that something was imported.
\<close>

definition finishImport :: "bool \<Rightarrow> bool \<Rightarrow> jstr \<Rightarrow> requestError + ImportReport \<Rightarrow> ImportForm \<Rightarrow> ImportForm \<times> bool" where
  "finishImport zh dryRun text out f =
     (case out of
        Inr rep \<Rightarrow> (f\<lparr>impReport := Some rep, impPreviewed := (if dryRun then text else []), impBusy := False\<rparr>, repCommitted rep)
      | Inl e \<Rightarrow> (f\<lparr>impError := errorText (ErrorOf (errorMessage e)) zh, impBusy := False\<rparr>, False))"

text \<open>The other inputs: a kind and a file clear the report, the rest only make it stale.\<close>

datatype importInput =
    ChooseKind ImportKind
  | TypeCsv jstr
  | ReadFile jstr jstr
  | InsertTemplate
  | ChooseCredential jstr
  | ChooseProfile jstr

fun editImport :: "importInput \<Rightarrow> ImportForm \<Rightarrow> ImportForm" where
  "editImport (ChooseKind kd) f = f\<lparr>impKind := kd, impReport := None\<rparr>"
| "editImport (TypeCsv v) f = f\<lparr>impCsv := v\<rparr>"
| "editImport (ReadFile text name) f = f\<lparr>impCsv := text, impFileName := name, impReport := None\<rparr>"
| "editImport InsertTemplate f =
     f\<lparr>impCsv := importTemplate (impKind f), impReport := None\<rparr>"
| "editImport (ChooseCredential v) f = f\<lparr>impCredential := (if v = NONE then [] else v)\<rparr>"
| "editImport (ChooseProfile v) f = f\<lparr>impProfile := (if v = NONE then [] else v)\<rparr>"

definition reportText :: "ImportReport \<Rightarrow> bool \<Rightarrow> jstr" where
  "reportText rep zh =
     (if repCommitted rep then if zh then [0x5DF2, 0x5BFC, 0x5165, 0x3002] else js ''Imported.''
      else if repErrors rep \<noteq> 0
      then if zh then [0x6709, 0x9519, 0x8BEF, 0xFF0C, 0x672A, 0x5199, 0x5165, 0x4EFB, 0x4F55, 0x6570, 0x636E, 0x3002] else js ''Nothing was written because some rows have errors.''
      else if zh then [0x68C0, 0x67E5, 0x901A, 0x8FC7, 0xFF0C, 0x5C1A, 0x672A, 0x5199, 0x5165, 0x3002] else js ''Preview passed. Nothing has been written yet.'')"

subsection \<open>What can happen to the dialog\<close>

datatype importEvent = Sent bool content httpRequest | Got bool content ImportReport

record ImportRun =
  dialog :: ImportForm
  pending :: "(bool \<times> content) option"
  events :: "importEvent list"

definition startImport :: ImportRun where
  "startImport = \<lparr>dialog = newImport, pending = None, events = []\<rparr>"

inductive import_step :: "bool \<Rightarrow> ImportRun \<Rightarrow> ImportRun \<Rightarrow> bool" for zh where
  edits: "import_step zh r (r\<lparr>dialog := editImport i (dialog r)\<rparr>)"
| previews: "clickPreview (dialog r) = (f, Some rq) \<Longrightarrow>
    import_step zh r \<lparr>dialog = f, pending = Some (True, contentOf (dialog r)),
      events = events r @ [Sent True (contentOf (dialog r)) rq]\<rparr>"
| commits: "clickImport (dialog r) = (f, Some rq) \<Longrightarrow>
    import_step zh r \<lparr>dialog = f, pending = Some (False, contentOf (dialog r)),
      events = events r @ [Sent False (contentOf (dialog r)) rq]\<rparr>"
| replies: "pending r = Some (dry, c) \<Longrightarrow>
    import_step zh r \<lparr>dialog = fst (finishImport zh dry (contentText c) (Inr rep) (dialog r)), pending = None,
      events = events r @ [Got dry c rep]\<rparr>"
| fails: "pending r = Some (dry, c) \<Longrightarrow>
    import_step zh r (r\<lparr>dialog := fst (finishImport zh dry (contentText c) (Inl e) (dialog r)), pending := None\<rparr>)"

abbreviation imports_to :: "bool \<Rightarrow> ImportRun \<Rightarrow> bool" where
  "imports_to zh \<equiv> (import_step zh)\<^sup>*\<^sup>* startImport"

text \<open>The last reply of a log, and the imports it contains, each with the log before it.\<close>

fun lastReply :: "importEvent list \<Rightarrow> (bool \<times> content \<times> ImportReport) option" where
  "lastReply [] = None"
| "lastReply (e # es) = (case lastReply es of Some x \<Rightarrow> Some x
     | None \<Rightarrow> (case e of Got dry c rep \<Rightarrow> Some (dry, c, rep) | _ \<Rightarrow> None))"

lemma lastReply_snoc:
  "lastReply (es @ [Got dry c rep]) = Some (dry, c, rep)"
  "lastReply (es @ [Sent dry c rq]) = lastReply es"
  by (induction es) (auto split: option.splits)

definition previewedBefore :: "importEvent list \<Rightarrow> content \<Rightarrow> bool" where
  "previewedBefore es c = (case lastReply es of Some (dry, c', rep) \<Rightarrow> dry \<and> c' = c \<and> cleanPreview rep | None \<Rightarrow> False)"

lemma contentText_inj [simp]: "contentText c = contentText d \<longleftrightarrow> c = d"
  by (cases c; cases d) (auto simp: contentText_def stringifyObject_inj kindText_def split: ImportKind.splits)

lemma contentText_nonempty [simp]: "contentText c \<noteq> []" "[] \<noteq> contentText c"
  by (auto simp: contentText_def split: prod.splits)

definition soundImports :: "importEvent list \<Rightarrow> bool" where
  "soundImports es \<longleftrightarrow> (\<forall>before c rq after. es = before @ Sent False c rq # after \<longrightarrow>
     previewedBefore before c \<and> rq = callAssets (js ''import'') (Some (importBody False c)) None)"

lemma soundImports_snoc:
  "soundImports (es @ [e]) \<longleftrightarrow> soundImports es \<and> (\<forall>c rq. e = Sent False c rq \<longrightarrow>
      previewedBefore es c \<and> rq = callAssets (js ''import'') (Some (importBody False c)) None)"
proof -
  have snoc: "es @ [e] = before @ x # after \<longleftrightarrow> (after = [] \<and> es = before \<and> e = x) \<or> (\<exists>a. after = a @ [e] \<and> es = before @ x # a)"
    for before x after
    by (cases after rule: rev_cases) auto
  show ?thesis unfolding soundImports_def snoc by blast
qed

text \<open>The report shown is the last reply, and what it was a preview of is kept with it.\<close>

definition shownReport :: "ImportForm \<Rightarrow> importEvent list \<Rightarrow> bool" where
  "shownReport f es \<longleftrightarrow> (case impReport f of None \<Rightarrow> True
     | Some rep \<Rightarrow> \<exists>dry c. lastReply es = Some (dry, c, rep)
         \<and> impPreviewed f = (if dry then contentText c else []))"

definition goodImport :: "ImportRun \<Rightarrow> bool" where
  "goodImport r \<longleftrightarrow> soundImports (events r) \<and> shownReport (dialog r) (events r) \<and> (impBusy (dialog r) \<longleftrightarrow> pending r \<noteq> None)"

lemma edit_busy [simp]: "impBusy (editImport i f) = impBusy f"
  by (cases i) simp_all

lemma edit_shown: "shownReport f es \<Longrightarrow> shownReport (editImport i f) es"
  by (cases i) (auto simp: shownReport_def split: option.splits)

lemma commit_previewed:
  assumes "clickImport (dialog r) = (f, Some rq)" "shownReport (dialog r) (events r)"
  shows "previewedBefore (events r) (contentOf (dialog r)) \<and> rq = callAssets (js ''import'') (Some (importBody False (contentOf (dialog r)))) None"
  using assms
  by (auto simp: clickImport_def canCommit_def sendImport_def shownReport_def previewedBefore_def requestText_def cleanPreview_def
      split: if_splits option.splits)

lemma goodImport_step: "\<lbrakk>import_step zh r r'; goodImport r\<rbrakk> \<Longrightarrow> goodImport r'"
proof (induction rule: import_step.induct)
  case (edits r i)
  then show ?case by (simp add: goodImport_def edit_shown)
next
  case (previews r f rq)
  then show ?case
    by (auto simp: goodImport_def shownReport_def soundImports_snoc lastReply_snoc clickPreview_def sendImport_def
        split: if_splits option.splits)
next
  case (commits r f rq)
  then have "previewedBefore (events r) (contentOf (dialog r)) \<and> rq = callAssets (js ''import'') (Some (importBody False (contentOf (dialog r)))) None"
    by (intro commit_previewed) (auto simp: goodImport_def)
  with commits show ?case
    by (auto simp: goodImport_def shownReport_def soundImports_snoc lastReply_snoc clickImport_def sendImport_def
        split: if_splits option.splits)
qed (auto simp: goodImport_def shownReport_def soundImports_snoc lastReply_snoc finishImport_def split: option.splits)

lemma goodImport_start: "goodImport startImport"
  by (simp add: goodImport_def startImport_def newImport_def shownReport_def soundImports_def)

lemma goodImport_reached: "imports_to zh r \<Longrightarrow> goodImport r"
  by (induction rule: rtranclp_induct) (rule goodImport_start, rule goodImport_step)


text \<open>
  The dialog waits for at most one reply: while a request runs neither button sends, and when none
  runs the dialog is not busy.
\<close>

theorem import_waits_once:
  assumes "imports_to zh r"
  shows "if pending r = None then \<not> impBusy (dialog r)
    else impBusy (dialog r) \<and> snd (clickPreview (dialog r)) = None \<and> snd (clickImport (dialog r)) = None"
  using goodImport_reached [OF assms] by (simp add: goodImport_def clickPreview_def clickImport_def)

subsection \<open>An example run\<close>

definition exampleContent :: content where
  "exampleContent = (Networks, js ''cidr,switch'', [], [])"

definition exampleReport :: ImportReport where
  "exampleReport = \<lparr>repDryRun = True, repCommitted = False, repCreated = 1, repSkipped = 0, repErrors = 0, repNewGroups = [],
     repRows = []\<rparr>"

definition exampleForm :: ImportForm where
  "exampleForm = editImport (TypeCsv (js ''cidr,switch'')) (editImport (ChooseKind Networks) newImport)"

definition exampleSent :: "bool \<Rightarrow> importEvent" where
  "exampleSent dry = Sent dry exampleContent (callAssets (js ''import'') (Some (importBody dry exampleContent)) None)"

definition exampleRun :: ImportRun where
  "exampleRun = \<lparr>dialog = exampleForm\<lparr>impReport := Some exampleReport, impPreviewed := contentText exampleContent, impBusy := True\<rparr>,
     pending = Some (False, exampleContent), events = [exampleSent True, Got True exampleContent exampleReport, exampleSent False]\<rparr>"

lemmas example_import = exampleForm_def exampleContent_def exampleReport_def exampleSent_def newImport_def

lemma example_imported: "imports_to zh exampleRun"
proof -
  let ?r0 = "\<lparr>dialog = exampleForm, pending = None, events = []\<rparr>"
  let ?r1 = "\<lparr>dialog = exampleForm\<lparr>impBusy := True\<rparr>, pending = Some (True, exampleContent), events = [exampleSent True]\<rparr>"
  let ?r2 = "\<lparr>dialog = exampleForm\<lparr>impReport := Some exampleReport, impPreviewed := contentText exampleContent, impBusy := False\<rparr>, pending = None,
    events = [exampleSent True, Got True exampleContent exampleReport]\<rparr>"
  have form: "contentOf exampleForm = exampleContent" "\<not> impBusy exampleForm" "trim (impCsv exampleForm) \<noteq> []" "impError exampleForm = Some []"
    by (simp_all add: example_import contentOf_def trim_def ws_char_def js_Cons)
  have "import_step zh startImport (startImport\<lparr>dialog := editImport (ChooseKind Networks) newImport\<rparr>)"
    using import_step.edits [of zh startImport "ChooseKind Networks"] by (simp add: startImport_def)
  moreover have "import_step zh (startImport\<lparr>dialog := editImport (ChooseKind Networks) newImport\<rparr>) ?r0"
    using import_step.edits [of zh "startImport\<lparr>dialog := editImport (ChooseKind Networks) newImport\<rparr>" "TypeCsv (js ''cidr,switch'')"]
    by (simp add: startImport_def exampleForm_def)
  moreover have "import_step zh ?r0 ?r1"
    using import_step.previews [of ?r0 "exampleForm\<lparr>impBusy := True\<rparr>"] form
    by (simp add: clickPreview_def sendImport_def exampleSent_def)
  moreover have "import_step zh ?r1 ?r2"
    using import_step.replies [of ?r1 True exampleContent zh exampleReport] form by (simp add: finishImport_def)
  moreover have "import_step zh ?r2 exampleRun"
    using import_step.commits [of ?r2 "exampleForm\<lparr>impReport := Some exampleReport, impPreviewed := contentText exampleContent, impBusy := True\<rparr>"] form
    by (simp add: clickImport_def canCommit_def sendImport_def exampleRun_def exampleSent_def requestText_def contentOf_def cleanPreview_def exampleReport_def)
  ultimately show ?thesis by (meson rtranclp.rtrancl_into_rtrancl rtranclp.rtrancl_refl)
qed


theorem import_waits_once_witness:
  "impBusy (dialog exampleRun) \<and> snd (clickImport (dialog exampleRun)) = None"
  using import_waits_once [OF example_imported] by (simp add: exampleRun_def)

end
