(* ===== verification/Paging.thy ===== *)
theory Paging
  imports Prelude
begin

text \<open>
  The pages of a long list: the server gives a cursor for the next page, and a page keeps the cursors of
  the pages before it. The users and invitations pages (\<open>features/access/users-page.tsx\<close>,
  \<open>invitations-page.tsx\<close>) keep the cursor as a string, empty for the first page; the operation log and
  the mail tasks (\<open>operation-logs-page.tsx\<close>, \<open>email-tasks-page.tsx\<close>) keep it as an optional string.
  Both implement the same contract, the locale \<open>cursor_paging\<close>: a stack of visited pages.
\<close>

subsection \<open>The two ways of keeping the place\<close>

record TextPaging =
  textCursor :: jstr
  textHistory :: "jstr list"

definition textFirst :: TextPaging where
  "textFirst = \<lparr>textCursor = [], textHistory = []\<rparr>"

definition textNext :: "jstr option \<Rightarrow> TextPaging \<Rightarrow> TextPaging" where
  "textNext nextCursor p =
     (if \<not> truthy nextCursor then p
      else \<lparr>textCursor = the nextCursor, textHistory = textHistory p @ [textCursor p]\<rparr>)"

definition textPrevious :: "TextPaging \<Rightarrow> TextPaging" where
  "textPrevious p =
     \<lparr>textCursor = (if textHistory p = [] then [] else last (textHistory p)), textHistory = butlast (textHistory p)\<rparr>"

record OptPaging =
  optCursor :: "jstr option"
  optHistory :: "jstr list"

definition optFirst :: OptPaging where
  "optFirst = \<lparr>optCursor = None, optHistory = []\<rparr>"

definition optNext :: "jstr option \<Rightarrow> OptPaging \<Rightarrow> OptPaging" where
  "optNext nextCursor p =
     (if \<not> truthy nextCursor then p
      else \<lparr>optCursor = nextCursor, optHistory = optHistory p @ [nullish (optCursor p) []]\<rparr>)"

definition optPrevious :: "OptPaging \<Rightarrow> OptPaging" where
  "optPrevious p =
     (let previous = (if optHistory p = [] then None else Some (last (optHistory p)))
      in \<lparr>optCursor = orElse previous None, optHistory = butlast (optHistory p)\<rparr>)"

text \<open>Which buttons can be pressed, on the pages that share \<open>PageNavigation\<close> and on those that do not.\<close>

definition previousEnabled :: "'a list \<Rightarrow> bool \<Rightarrow> bool" where
  "previousEnabled history loading = (\<not> (history = [] \<or> loading))"

definition nextEnabled :: "jstr option \<Rightarrow> bool \<Rightarrow> bool" where
  "nextEnabled nextCursor loading = (\<not> (\<not> truthy nextCursor \<or> loading))"

subsection \<open>The contract\<close>

text \<open>
  \<open>place s\<close> is the cursor sent for the page shown, empty for the first page; \<open>trail s\<close> are the cursors
  of the pages before it.
\<close>

locale cursor_paging =
  fixes start :: 's
    and forward :: "jstr option \<Rightarrow> 's \<Rightarrow> 's"
    and backward :: "'s \<Rightarrow> 's"
    and place :: "'s \<Rightarrow> jstr"
    and trail :: "'s \<Rightarrow> jstr list"
  assumes place_start: "place start = []" "trail start = []"
    and place_forward: "truthy c \<Longrightarrow> place (forward c s) = the c \<and> trail (forward c s) = trail s @ [place s]"
    and stays: "\<not> truthy c \<Longrightarrow> forward c s = s"
    and place_back: "trail s \<noteq> [] \<Longrightarrow> place (backward s) = last (trail s) \<and> trail (backward s) = butlast (trail s)"
begin

definition visited :: "'s \<Rightarrow> jstr list" where
  "visited s = trail s @ [place s]"

lemma visited_start: "visited start = [[]]"
  by (simp add: visited_def place_start)

lemma visited_forward: "visited (forward c s) = (if truthy c then visited s @ [the c] else visited s)"
  using place_forward [of c s] stays [of c s] by (simp add: visited_def)

lemma visited_back: "trail s \<noteq> [] \<Longrightarrow> visited (backward s) = butlast (visited s)"
  using place_back [of s] by (simp add: visited_def)

lemma backward_forward: "truthy c \<Longrightarrow> visited (backward (forward c s)) = visited s"
  using visited_back [of "forward c s"] place_forward [of c s] visited_forward [of c s] by simp

end

text \<open>A list that can also be shown anew, when a filter, the search or the order changes.\<close>

locale cursor_list = cursor_paging start forward backward place trail
  for start :: 's and forward backward place trail +
  fixes reset :: "'s \<Rightarrow> 's"
  assumes place_reset: "place (reset s) = []" "trail (reset s) = []"
begin

lemma visited_reset: "visited (reset s) = [[]]"
  by (simp add: visited_def place_reset)

end

definition textReset :: "TextPaging \<Rightarrow> TextPaging" where
  "textReset p = p\<lparr>textCursor := [], textHistory := []\<rparr>"

definition optReset :: "OptPaging \<Rightarrow> OptPaging" where
  "optReset p = p\<lparr>optCursor := None, optHistory := []\<rparr>"

definition optAt :: "OptPaging \<Rightarrow> jstr" where
  "optAt p = nullish (optCursor p) []"

lemma nullish_truthy: "truthy c \<Longrightarrow> nullish c d = the c"
  by (cases c) simp_all

lemmas paging_defs = textFirst_def textNext_def textPrevious_def textReset_def
  optFirst_def optNext_def optPrevious_def optReset_def optAt_def

interpretation text_list: cursor_list textFirst textNext textPrevious textCursor textHistory textReset
  by unfold_locales (simp_all add: paging_defs)

interpretation opt_list: cursor_list optFirst optNext optPrevious optAt optHistory optReset
  by unfold_locales (auto simp: paging_defs orElse_def nullish_truthy)

subsection \<open>Clicking through a list\<close>

text \<open>
  What a user can do: press a button, with the cursor that came with the page shown, or change what is
  listed. A disabled button does nothing. The specification is a stack of pages, the first at its bottom.
\<close>

datatype pagingClick = NextPage "jstr option" bool | PreviousPage bool | NewListing

definition textClick :: "pagingClick \<Rightarrow> TextPaging \<Rightarrow> TextPaging" where
  "textClick c p = (case c of
     NextPage n loading \<Rightarrow> if nextEnabled n loading then textNext n p else p
   | PreviousPage loading \<Rightarrow> if previousEnabled (textHistory p) loading then textPrevious p else p
   | NewListing \<Rightarrow> textReset p)"

definition optClick :: "pagingClick \<Rightarrow> OptPaging \<Rightarrow> OptPaging" where
  "optClick c p = (case c of
     NextPage n loading \<Rightarrow> if nextEnabled n loading then optNext n p else p
   | PreviousPage loading \<Rightarrow> if previousEnabled (optHistory p) loading then optPrevious p else p
   | NewListing \<Rightarrow> optReset p)"

fun stackClick :: "pagingClick \<Rightarrow> jstr list \<Rightarrow> jstr list" where
  "stackClick (NextPage n loading) st = (if truthy n \<and> \<not> loading then st @ [the n] else st)"
| "stackClick (PreviousPage loading) st = (if length st > 1 \<and> \<not> loading then butlast st else st)"
| "stackClick NewListing st = [[]]"

lemma text_simulates: "text_list.visited (textClick c p) = stackClick c (text_list.visited p)"
proof (cases c)
  case (NextPage n loading)
  then show ?thesis using text_list.visited_forward [of n p] by (simp add: textClick_def nextEnabled_def)
next
  case (PreviousPage loading)
  then show ?thesis using text_list.visited_back [of p]
    by (auto simp: textClick_def previousEnabled_def text_list.visited_def)
qed (simp add: textClick_def text_list.visited_reset)

lemma opt_simulates: "opt_list.visited (optClick c p) = stackClick c (opt_list.visited p)"
proof (cases c)
  case (NextPage n loading)
  then show ?thesis using opt_list.visited_forward [of n p] by (simp add: optClick_def nextEnabled_def)
next
  case (PreviousPage loading)
  then show ?thesis using opt_list.visited_back [of p]
    by (auto simp: optClick_def previousEnabled_def opt_list.visited_def)
qed (simp add: optClick_def opt_list.visited_reset)

lemma visited_runs:
  "text_list.visited (fold textClick cs p) = fold stackClick cs (text_list.visited p)"
  "opt_list.visited (fold optClick cs r) = fold stackClick cs (opt_list.visited r)"
  by (induction cs arbitrary: p r) (simp_all add: text_simulates opt_simulates)

text \<open>
  Both ways of keeping the place implement a stack of pages: after any clicks, the pages behind
  the one shown and that page itself are what pushing and popping cursors gives, starting with the first
  page. So going back shows the page one came from, and a new listing starts at its first page.
\<close>

theorem paging_is_a_stack:
  "textHistory (fold textClick cs textFirst) @ [textCursor (fold textClick cs textFirst)] = fold stackClick cs [[]]
   \<and> optHistory (fold optClick cs optFirst) @ [optAt (fold optClick cs optFirst)] = fold stackClick cs [[]]"
  using visited_runs(1) [of cs textFirst] visited_runs(2) [of cs optFirst] text_list.visited_start opt_list.visited_start
  by (simp add: text_list.visited_def opt_list.visited_def)

end
