(* ===== verification/OperationLogs.thy ===== *)
theory OperationLogs
  imports ApiClient JsRegex Permissions ProblemMessages Paging
begin

text \<open>
  The operation log (\<open>features/operation-log/operation-logs-page.tsx\<close>): the filters and the request they
  make, the labels of actors, actions and objects, and the details of one entry. The recorded details are
  JSON: an object is the list of its members in the order in which the language enumerates them.

  What depends on the browser is a parameter: the value of a local date and time, its ISO form (\<open>None\<close>
  where \<open>toISOString\<close> throws), its display (\<open>None\<close> for an invalid date), \<open>String\<close> of a value that is not
  a string, and \<open>toUpperCase\<close>. The translation function \<open>t\<close> of the i18n package is one, too.
\<close>

record runtime =
  dateValue :: "jstr \<Rightarrow> int option"
  isoString :: "jstr \<Rightarrow> jstr option"
  localeDate :: "jstr \<Rightarrow> jstr option"
  asString :: "json \<Rightarrow> jstr"
  upperCase :: "jstr \<Rightarrow> jstr"

subsection \<open>Filters and the request\<close>

record LogFilters =
  fAction :: jstr
  fObjectType :: jstr
  fObjectId :: jstr
  fActorId :: jstr
  fFrom :: jstr
  fTo :: jstr
  fResult :: jstr

definition initialFilters :: LogFilters where
  "initialFilters = \<lparr>fAction = [], fObjectType = [], fObjectId = [], fActorId = [], fFrom = [], fTo = [], fResult = []\<rparr>"

definition hexDigit :: rx where
  "hexDigit = Unit (In [(0x30, 0x39), (0x61, 0x66)])"

definition uuidPattern :: rx where
  "uuidPattern = rcat [rtimes 8 hexDigit, rlit (js ''-''), rtimes 4 hexDigit, rlit (js ''-''), rtimes 4 hexDigit, rlit (js ''-''),
     rtimes 4 hexDigit, rlit (js ''-''), rtimes 12 hexDigit]"

definition isUUID :: "jstr \<Rightarrow> bool" where
  "isUUID value = rx_test uuidPattern value"

text \<open>A comparison with the value of an invalid date is false.\<close>

definition reversedRange :: "runtime \<Rightarrow> jstr \<Rightarrow> jstr \<Rightarrow> bool" where
  "reversedRange rt from to =
     (from \<noteq> [] \<and> to \<noteq> [] \<and>
      (case (dateValue rt from, dateValue rt to) of (Some a, Some b) \<Rightarrow> a \<ge> b | _ \<Rightarrow> False))"

definition rangeError :: "runtime \<Rightarrow> LogFilters \<Rightarrow> bool" where
  "rangeError rt f = reversedRange rt (fFrom f) (fTo f)"

definition actorError :: "LogFilters \<Rightarrow> bool" where
  "actorError f = (fActorId f \<noteq> [] \<and> \<not> isUUID (fActorId f))"

definition orUndefined :: "jstr \<Rightarrow> jstr option" where
  "orUndefined s = (if s = [] then None else Some s)"

lemma orUndefined_nullish [simp]: "nullish (orUndefined s) [] = s"
  by (simp add: orUndefined_def)

text \<open>A bound of the range: not sent when empty or when the range is reversed; an invalid date throws.\<close>

definition timeBound :: "runtime \<Rightarrow> bool \<Rightarrow> jstr \<Rightarrow> jstr option option" where
  "timeBound rt reversed s =
     (if s \<noteq> [] \<and> \<not> reversed then map_option Some (isoString rt s) else Some None)"

definition logOptionsOf :: "runtime \<Rightarrow> LogFilters \<Rightarrow> OptPaging \<Rightarrow> logOptions option" where
  "logOptionsOf rt f p =
     (case timeBound rt (rangeError rt f) (fFrom f) of
        None \<Rightarrow> None
      | Some from \<Rightarrow> (case timeBound rt (rangeError rt f) (fTo f) of
          None \<Rightarrow> None
        | Some to \<Rightarrow> Some \<lparr>lCursor = optCursor p, lLimit = None, lFrom = from, lTo = to, actorId = orUndefined (fActorId f),
            action = orUndefined (fAction f), objectType = orUndefined (fObjectType f), objectId = orUndefined (fObjectId f),
            result = orUndefined (fResult f)\<rparr>))"

definition logQueryEnabled :: "runtime \<Rightarrow> LogFilters \<Rightarrow> bool" where
  "logQueryEnabled rt f = (\<not> rangeError rt f \<and> \<not> actorError f)"

text \<open>The page's state; changing a filter, or resetting them all, starts at the first page again.\<close>

record LogPage =
  pgFilters :: LogFilters
  pgPaging :: OptPaging

definition setLogFilter :: "(LogFilters \<Rightarrow> LogFilters) \<Rightarrow> LogPage \<Rightarrow> LogPage" where
  "setLogFilter change p = \<lparr>pgFilters = change (pgFilters p), pgPaging = optReset (pgPaging p)\<rparr>"

definition resetLogFilters :: "LogPage \<Rightarrow> LogPage" where
  "resetLogFilters p = \<lparr>pgFilters = initialFilters, pgPaging = optReset (pgPaging p)\<rparr>"

definition hexUnits :: "jstr \<Rightarrow> nat \<Rightarrow> bool" where
  "hexUnits s n = (length s = n \<and> list_all (\<lambda>c. digit c \<or> 0x61 \<le> c \<and> c \<le> 0x66) s)"

lemma hex_times: "s \<in> rx_lang (rtimes n hexDigit) \<longleftrightarrow> hexUnits s n"
  by (simp add: hexDigit_def hexUnits_def list_all_iff digit_def)

lemma parts_of:
  "(\<exists>v\<in>rx_lang (Cat a b). P v) \<longleftrightarrow> (\<exists>u\<in>rx_lang a. \<exists>w\<in>rx_lang b. P (u @ w))"
  "(\<exists>v\<in>rx_lang (rlit x). P v) \<longleftrightarrow> P x"
  by auto

lemma uuid_shape:
  "isUUID s \<longleftrightarrow> (\<exists>a b c d e. s = joinWith (js ''-'') [a, b, c, d, e]
     \<and> hexUnits a 8 \<and> hexUnits b 4 \<and> hexUnits c 4 \<and> hexUnits d 4 \<and> hexUnits e 12)"
proof -
  have "isUUID s \<longleftrightarrow> (\<exists>v\<in>rx_lang uuidPattern. s = v)"
    unfolding isUUID_def rx_test_lang by blast
  also have "\<dots> \<longleftrightarrow> (\<exists>a\<in>rx_lang (rtimes 8 hexDigit). \<exists>b\<in>rx_lang (rtimes 4 hexDigit). \<exists>c\<in>rx_lang (rtimes 4 hexDigit).
      \<exists>d\<in>rx_lang (rtimes 4 hexDigit). \<exists>e\<in>rx_lang (rtimes 12 hexDigit). s = joinWith (js ''-'') [a, b, c, d, e])"
    by (simp only: uuidPattern_def rcat.simps parts_of joinWith.simps)
  finally show ?thesis unfolding Bex_def hex_times by blast
qed

text \<open>
  The operation log is queried only with filters that make sense, and with all of them: the actor is
  absent or a canonical UUID, two bounds of the time are in order, every filter that is set is sent as it
  stands (the bounds in their ISO form), and the cursor is that of the page shown. Only a bound that is
  no date fails instead.
\<close>

theorem log_query_sound:
  assumes "logQueryEnabled rt f"
  shows "(fActorId f = [] \<or> (\<exists>a b c d e. fActorId f = joinWith (js ''-'') [a, b, c, d, e]
        \<and> hexUnits a 8 \<and> hexUnits b 4 \<and> hexUnits c 4 \<and> hexUnits d 4 \<and> hexUnits e 12))
    \<and> (case logOptionsOf rt f p of
         None \<Rightarrow> fFrom f \<noteq> [] \<and> isoString rt (fFrom f) = None \<or> fTo f \<noteq> [] \<and> isoString rt (fTo f) = None
       | Some opts \<Rightarrow> nullish (actorId opts) [] = fActorId f \<and> nullish (action opts) [] = fAction f
           \<and> nullish (objectType opts) [] = fObjectType f \<and> nullish (objectId opts) [] = fObjectId f
           \<and> nullish (result opts) [] = fResult f \<and> lCursor opts = optCursor p
           \<and> lFrom opts = (if fFrom f = [] then None else isoString rt (fFrom f))
           \<and> lTo opts = (if fTo f = [] then None else isoString rt (fTo f))
           \<and> (case (lFrom opts, lTo opts, dateValue rt (fFrom f), dateValue rt (fTo f)) of
                (Some _, Some _, Some a, Some b) \<Rightarrow> a < b | _ \<Rightarrow> True))"
proof
  have r: "\<not> reversedRange rt (fFrom f) (fTo f)" and a: "fActorId f = [] \<or> isUUID (fActorId f)"
    using assms by (auto simp: logQueryEnabled_def rangeError_def actorError_def)
  from a show "fActorId f = [] \<or> (\<exists>a b c d e. fActorId f = joinWith (js ''-'') [a, b, c, d, e]
        \<and> hexUnits a 8 \<and> hexUnits b 4 \<and> hexUnits c 4 \<and> hexUnits d 4 \<and> hexUnits e 12)"
    unfolding uuid_shape .
  show "case logOptionsOf rt f p of
         None \<Rightarrow> fFrom f \<noteq> [] \<and> isoString rt (fFrom f) = None \<or> fTo f \<noteq> [] \<and> isoString rt (fTo f) = None
       | Some opts \<Rightarrow> nullish (actorId opts) [] = fActorId f \<and> nullish (action opts) [] = fAction f
           \<and> nullish (objectType opts) [] = fObjectType f \<and> nullish (objectId opts) [] = fObjectId f
           \<and> nullish (result opts) [] = fResult f \<and> lCursor opts = optCursor p
           \<and> lFrom opts = (if fFrom f = [] then None else isoString rt (fFrom f))
           \<and> lTo opts = (if fTo f = [] then None else isoString rt (fTo f))
           \<and> (case (lFrom opts, lTo opts, dateValue rt (fFrom f), dateValue rt (fTo f)) of
                (Some _, Some _, Some a, Some b) \<Rightarrow> a < b | _ \<Rightarrow> True)"
  proof (cases "logOptionsOf rt f p")
    case None
    with r show ?thesis
      by (auto simp: logOptionsOf_def timeBound_def rangeError_def split: option.splits if_splits)
  next
    case (Some opts)
    then obtain lo hi where b: "timeBound rt False (fFrom f) = Some lo" "timeBound rt False (fTo f) = Some hi"
      and o: "opts = \<lparr>lCursor = optCursor p, lLimit = None, lFrom = lo, lTo = hi, actorId = orUndefined (fActorId f),
        action = orUndefined (fAction f), objectType = orUndefined (fObjectType f), objectId = orUndefined (fObjectId f),
        result = orUndefined (fResult f)\<rparr>"
      using r by (auto simp: logOptionsOf_def rangeError_def split: option.splits)
    from b have ft: "lo = (if fFrom f = [] then None else isoString rt (fFrom f))"
      "hi = (if fTo f = [] then None else isoString rt (fTo f))"
      by (auto simp: timeBound_def split: if_splits)
    have "case (lo, hi, dateValue rt (fFrom f), dateValue rt (fTo f)) of (Some _, Some _, Some a, Some b) \<Rightarrow> a < b | _ \<Rightarrow> True"
      using r ft by (auto simp: reversedRange_def split: option.splits if_splits)
    with Some o ft show ?thesis by simp
  qed
qed

definition exampleRuntime :: runtime where
  "exampleRuntime = \<lparr>dateValue = (\<lambda>s. Some (int (length s))), isoString = Some, localeDate = Some, asString = (\<lambda>_. []), upperCase = id\<rparr>"

definition exampleFilters :: LogFilters where
  "exampleFilters = initialFilters\<lparr>fAction := js ''auth.login'', fFrom := js ''2025'', fTo := js ''2025-6''\<rparr>"

theorem log_query_sound_witness:
  "case logOptionsOf exampleRuntime exampleFilters optFirst of
     None \<Rightarrow> False | Some opts \<Rightarrow> nullish (action opts) [] = js ''auth.login'' \<and> lFrom opts = Some (js ''2025'')"
proof -
  have "logQueryEnabled exampleRuntime exampleFilters"
    by (simp add: logQueryEnabled_def rangeError_def actorError_def reversedRange_def exampleFilters_def initialFilters_def exampleRuntime_def)
  from log_query_sound [OF this, of optFirst] show ?thesis
    by (auto simp: exampleFilters_def initialFilters_def exampleRuntime_def split: option.splits)
qed

subsection \<open>Labels\<close>

definition knownActions :: "jstr list" where
  "knownActions = map js
     [''auth.login'', ''auth.logout'', ''auth.password_reset.request'', ''auth.password_reset.complete'', ''auth.invitation.accept'',
      ''auth.setup.complete'', ''roles.create'', ''roles.update'', ''roles.delete'', ''users.roles.update'', ''users.sessions.revoke'',
      ''users.deactivate'', ''users.reactivate'', ''users.delete'', ''invitations.create'', ''invitations.resend'', ''invitations.revoke'',
      ''settings.email.update'', ''settings.email.test'', ''settings.operation_log_retention.update'',
      ''mail_tasks.retry'', ''mail_tasks.delete'', ''mail_tasks.bulk_retry'', ''mail_tasks.bulk_delete'',
      ''auth.profile.name.update'', ''auth.profile.avatar.update'', ''auth.profile.avatar.delete'', ''auth.profile.password.update'',
      ''auth.profile.email.request'', ''auth.profile.email.resend'', ''auth.profile.email.update'']"

definition knownObjectTypes :: "jstr list" where
  "knownObjectTypes = map js [''session'', ''account'', ''password_reset'', ''password'', ''invitation'', ''email_change'', ''role'',
     ''user'', ''email_settings'', ''operation_log_settings'', ''mail_task'']"

text \<open>The text behind the first colon; without one, \<open>indexOf\<close> gives -1 and the whole key stays.\<close>

definition withoutNamespace :: "jstr \<Rightarrow> jstr" where
  "withoutNamespace key = (if 0x3A \<in> set key then tl (dropWhile (\<lambda>c. c \<noteq> 0x3A) key) else key)"

definition translated :: "jstr \<Rightarrow> jstr \<Rightarrow> (jstr \<Rightarrow> jstr) \<Rightarrow> jstr" where
  "translated key fallback t = (let value = t key in if value = key \<or> value = withoutNamespace key then fallback else value)"

definition dotsToUnderscores :: "jstr \<Rightarrow> jstr" where
  "dotsToUnderscores = replaceUnit 0x2E 0x5F"

definition actionKey :: "jstr \<Rightarrow> jstr" where
  "actionKey name = js ''operationLog:actionLabels.'' @ dotsToUnderscores name"

definition actionLabel :: "jstr \<Rightarrow> (jstr \<Rightarrow> jstr) \<Rightarrow> jstr" where
  "actionLabel name t = translated (actionKey name) name t"

definition objectKey :: "jstr \<Rightarrow> jstr" where
  "objectKey name = js ''operationLog:objectLabels.'' @ name"

definition objectLabel :: "jstr \<Rightarrow> (jstr \<Rightarrow> jstr) \<Rightarrow> jstr" where
  "objectLabel name t = translated (objectKey name) name t"

definition detailLabel :: "jstr \<Rightarrow> (jstr \<Rightarrow> jstr) \<Rightarrow> jstr" where
  "detailLabel key t = translated (js ''operationLog:detailLabels.'' @ dotsToUnderscores key) key t"

record LogActor =
  actorDeleted :: bool
  actorId' :: "jstr option"
  actorName :: "jstr option"
  actorMail :: "jstr option"
  actorKind :: "jstr option"
  actorText :: "jstr option"

record LogEntry =
  logId :: jstr
  logActor :: LogActor
  logAction :: jstr
  logObjectType :: jstr
  logObjectId :: "jstr option"
  logObjectDeleted :: bool
  logResult :: jstr
  logOccurredAt :: jstr
  logSourceIp :: "jstr option"
  logAttempted :: "jstr option"
  logDetails :: "(jstr \<times> json) list"

definition actorLabel :: "LogEntry \<Rightarrow> (jstr \<Rightarrow> jstr) \<Rightarrow> jstr" where
  "actorLabel entry t =
     (let a = logActor entry in
      if actorDeleted a
      then nullish (orElse (actorName a) (orElse (actorId' a) (Some [0x2014]))) [] @ (js '' '' @ [0xB7] @ js '' '') @ t (js ''operationLog:deletedUser'')
      else if actorKind a = Some (js ''unverified'') then t (js ''operationLog:unverifiedActor'')
      else if truthy (actorName a) then the (actorName a)
      else if actorKind a = Some (js ''system'') then t (js ''operationLog:systemActor'')
      else nullish (orElse (actorText a) (Some (t (js ''operationLog:unknownActor'')))) [])"

subsection \<open>The details of an entry\<close>

definition technicalKeys :: "jstr list" where
  "technicalKeys = map js [''id'', ''roleIds'', ''revision'', ''authVersion'', ''requestedRevision'', ''requestedAuthVersion'']"

fun snapshot :: "json option \<Rightarrow> (jstr \<times> json) list option" where
  "snapshot (Some (JObj ms)) = Some ms"
| "snapshot _ = None"

definition nonEmptyText :: "json option \<Rightarrow> jstr option" where
  "nonEmptyText v = (case v of Some (JStr s) \<Rightarrow> if s \<noteq> [] then Some s else None | _ \<Rightarrow> None)"

definition ownName :: "json option \<Rightarrow> jstr option" where
  "ownName v = (case snapshot v of None \<Rightarrow> None
     | Some ms \<Rightarrow> (case nonEmptyText (map_of ms (js ''name'')) of Some s \<Rightarrow> Some s
         | None \<Rightarrow> nonEmptyText (map_of ms (js ''email''))))"

definition targetLabel :: "LogEntry \<Rightarrow> jstr" where
  "targetLabel entry =
     (case List.map_filter (\<lambda>k. ownName (map_of (logDetails entry) (js k))) [''after'', ''before'', ''target''] of
        [] \<Rightarrow> [] | s # _ \<Rightarrow> s)"

definition formatDate :: "runtime \<Rightarrow> jstr \<Rightarrow> jstr" where
  "formatDate rt value = nullish (localeDate rt value) value"

definition capitalized :: "runtime \<Rightarrow> jstr \<Rightarrow> jstr" where
  "capitalized rt part = upperCase rt (take 1 part) @ drop 1 part"

definition permissionKey :: "runtime \<Rightarrow> jstr \<Rightarrow> jstr" where
  "permissionKey rt value = js ''access:permission'' @ concat (map (capitalized rt) (splitOn 0x2E (replaceUnit 0x2D 0x2E value)))"

text \<open>What is shown of a recorded value: a text, a list, or members with their labels.\<close>

datatype shown = Line jstr | Items "shown list" | Members "(jstr \<times> shown) list"

definition plainText :: "runtime \<Rightarrow> (jstr \<Rightarrow> jstr) \<Rightarrow> json option \<Rightarrow> jstr" where
  "plainText rt t value = (case value of
       None \<Rightarrow> t (js ''operationLog:emptyValue'')
     | Some JNull \<Rightarrow> t (js ''operationLog:emptyValue'')
     | Some (JStr s) \<Rightarrow> if s = [] then t (js ''operationLog:emptyValue'') else s
     | Some (JBool b) \<Rightarrow> t (if b then js ''operationLog:yes'' else js ''operationLog:no'')
     | Some v \<Rightarrow> asString rt v)"

definition fieldText :: "runtime \<Rightarrow> (jstr \<Rightarrow> jstr) \<Rightarrow> jstr \<Rightarrow> json option \<Rightarrow> jstr" where
  "fieldText rt t fld value = (case value of
       Some (JStr s) \<Rightarrow>
         if fld = js ''permissions'' then translated (permissionKey rt s) s t
         else if fld = js ''passwordAction'' then translated (js ''operationLog:passwordActions.'' @ s) s t
         else if fld = js ''expiresAt'' then formatDate rt s
         else plainText rt t value
     | _ \<Rightarrow> if fld = js ''mailQueued'' \<and> value = Some (JBool True) then t (js ''operationLog:mailQueuedExplanation'')
         else plainText rt t value)"

fun detailValue :: "runtime \<Rightarrow> (jstr \<Rightarrow> jstr) \<Rightarrow> jstr \<Rightarrow> json \<Rightarrow> shown" where
  "detailValue rt t fld (JArr xs) =
     (if xs = [] then Line (t (js ''operationLog:emptyValue'')) else Items (map (detailValue rt t fld) xs))"
| "detailValue rt t fld (JObj ms) =
     Members (map (\<lambda>(k, v). (detailLabel k t, detailValue rt t k v)) (filter (\<lambda>(k, v). k \<notin> set technicalKeys) ms))"
| "detailValue rt t fld v = Line (fieldText rt t fld (Some v))"

definition detailMember :: "runtime \<Rightarrow> (jstr \<Rightarrow> jstr) \<Rightarrow> jstr \<Rightarrow> json option \<Rightarrow> shown" where
  "detailMember rt t fld value = (case value of Some v \<Rightarrow> detailValue rt t fld v | None \<Rightarrow> Line (fieldText rt t fld None))"

text \<open>
  The comparison of the states before and after: the keys of both, each once, whose values have
  different JSON texts. A missing member has none, except that \<open>__proto__\<close> is found on every object and
  reads as an empty one.
\<close>

definition memberValue :: "(jstr \<times> json) list \<Rightarrow> jstr \<Rightarrow> json option" where
  "memberValue ms k = (case map_of ms k of Some v \<Rightarrow> Some v
     | None \<Rightarrow> if k = js ''__proto__'' then Some (JObj []) else None)"

definition changedKeys :: "(jstr \<times> json) list \<Rightarrow> (jstr \<times> json) list \<Rightarrow> jstr list" where
  "changedKeys before after =
     filter (\<lambda>k. k \<notin> set technicalKeys \<and> memberValue before k \<noteq> memberValue after k)
       (newSet (map fst before @ map fst after))"

definition changedRows :: "runtime \<Rightarrow> (jstr \<Rightarrow> jstr) \<Rightarrow> (jstr \<times> json) list \<Rightarrow> (jstr \<times> json) list \<Rightarrow> (jstr \<times> shown \<times> shown) list" where
  "changedRows rt t before after =
     map (\<lambda>k. (detailLabel k t, detailMember rt t k (memberValue before k), detailMember rt t k (memberValue after k)))
       (changedKeys before after)"

definition extraMembers :: "LogEntry \<Rightarrow> (jstr \<times> json) list" where
  "extraMembers entry = filter (\<lambda>(k, v). k \<notin> set (map js [''before'', ''after'', ''target'', ''failure'', ''sessionCreated'', ''fieldsModified''])
     \<and> k \<notin> set technicalKeys) (logDetails entry)"

definition extraRows :: "runtime \<Rightarrow> (jstr \<Rightarrow> jstr) \<Rightarrow> LogEntry \<Rightarrow> (jstr \<times> shown) list" where
  "extraRows rt t entry = map (\<lambda>(k, v). (detailLabel k t, detailValue rt t k v)) (extraMembers entry)"

datatype detailBody = Changes "(jstr \<times> shown \<times> shown) list" | ObjectDetails shown | NoDetails

definition detailBody :: "runtime \<Rightarrow> (jstr \<Rightarrow> jstr) \<Rightarrow> LogEntry \<Rightarrow> detailBody" where
  "detailBody rt t entry =
     (let ms = logDetails entry;
          before = snapshot (map_of ms (js ''before'')); after = snapshot (map_of ms (js ''after''));
          target = map_of ms (js ''target'') in
      case (before, after) of
        (Some b, Some a) \<Rightarrow> Changes (changedRows rt t b a)
      | (_, Some a) \<Rightarrow> ObjectDetails (detailValue rt t (js ''target'') (JObj a))
      | (Some b, _) \<Rightarrow> ObjectDetails (detailValue rt t (js ''target'') (JObj b))
      | _ \<Rightarrow> (case target of Some (JObj m) \<Rightarrow> ObjectDetails (detailValue rt t (js ''target'') (JObj m)) | _ \<Rightarrow> NoDetails))"

text \<open>The sentence under the title: why an operation failed, or that somebody signed in.\<close>

definition detailBanner :: "runtime \<Rightarrow> (jstr \<Rightarrow> jstr) \<Rightarrow> LogEntry \<Rightarrow> jstr option" where
  "detailBanner rt t entry =
     (let recorded = (case map_of (logDetails entry) (js ''failure'') of None \<Rightarrow> None | Some JNull \<Rightarrow> None | Some v \<Rightarrow> Some v);
          text = (\<lambda>d. case recorded of None \<Rightarrow> d | Some (JStr s) \<Rightarrow> s | Some v \<Rightarrow> asString rt v)
      in if logResult entry = js ''failure''
         then Some (translated (js ''operationLog:failureReasons.'' @ text (js ''operation_failed''))
                (text (t (js ''operationLog:failure''))) t)
         else if logAction entry = js ''auth.login'' then Some (t (js ''operationLog:loginSummary''))
         else None)"

text \<open>A recorded value without the technical members, at every depth.\<close>

fun withoutTechnical :: "json \<Rightarrow> json" where
  "withoutTechnical (JArr xs) = JArr (map withoutTechnical xs)"
| "withoutTechnical (JObj ms) = JObj (map (\<lambda>(k, v). (k, withoutTechnical v)) (filter (\<lambda>(k, v). k \<notin> set technicalKeys) ms))"
| "withoutTechnical v = v"

lemma detailValue_withoutTechnical: "detailValue rt t fld (withoutTechnical v) = detailValue rt t fld v"
proof (induction v arbitrary: fld rule: withoutTechnical.induct)
  case (1 xs)
  then show ?case by (simp cong: map_cong)
next
  case (2 ms)
  have keys: "filter (\<lambda>(k, v). k \<notin> set technicalKeys) (map (\<lambda>(k, v). (k, withoutTechnical v)) ns)
      = map (\<lambda>(k, v). (k, withoutTechnical v)) (filter (\<lambda>(k, v). k \<notin> set technicalKeys) ns)" for ns
    by (induction ns) auto
  have "detailValue rt t k (withoutTechnical v) = detailValue rt t k v"
    if "(k, v) \<in> set (filter (\<lambda>(k, v). k \<notin> set technicalKeys) ms)" for k v
    using 2 [of "(k, v)" k v] that by simp
  then show ?case by (auto simp: keys intro!: map_cong)
qed (simp_all)

lemma set_changedKeys:
  "k \<in> set (changedKeys b a) \<longleftrightarrow> k \<notin> set technicalKeys \<and> memberValue b k \<noteq> memberValue a k \<and> k \<in> fst ` set b \<union> fst ` set a"
  by (auto simp: changedKeys_def)

text \<open>
  The readable part of an entry never shows a technical identifier: a recorded value is shown as if
  its technical members had not been recorded, at whatever depth they stand; the comparison has a row for
  exactly the other members whose values differ, each once; and the remaining details leave them out, too.
\<close>

theorem details_hide_identifiers:
  "detailValue rt t fld v = detailValue rt t fld (withoutTechnical v)
   \<and> distinct (changedKeys b a)
   \<and> set (changedKeys b a) = {k. memberValue b k \<noteq> memberValue a k} \<inter> (fst ` set b \<union> fst ` set a) - set technicalKeys
   \<and> list_all (\<lambda>(k, v). k \<notin> set technicalKeys) (extraMembers entry)"
  by (auto simp: detailValue_withoutTechnical set_changedKeys extraMembers_def list_all_iff changedKeys_def)

end
