(* ===== verification/EmailTasks.thy ===== *)
theory EmailTasks
  imports OperationLogs
begin

text \<open>
  The mail tasks (\<open>features/email-tasks/email-tasks-page.tsx\<close>): filters and the listing request, the
  selection, the operations on one task and on the selected ones with the confirmation of deletions, and
  the texts of the results. The page is also a step relation, with the requests it has sent.
\<close>

subsection \<open>Filters and the listing\<close>

record MailFilters =
  mRecipient :: jstr
  mKind :: jstr
  mStatus :: jstr
  mFrom :: jstr
  mTo :: jstr
  mFailedOnly :: bool

definition initialMailFilters :: MailFilters where
  "initialMailFilters = \<lparr>mRecipient = [], mKind = [], mStatus = [], mFrom = [], mTo = [], mFailedOnly = False\<rparr>"

definition mailRangeError :: "runtime \<Rightarrow> MailFilters \<Rightarrow> bool" where
  "mailRangeError rt f = reversedRange rt (mFrom f) (mTo f)"

definition mailOptionsOf :: "runtime \<Rightarrow> MailFilters \<Rightarrow> OptPaging \<Rightarrow> taskOptions option" where
  "mailOptionsOf rt f p =
     (case timeBound rt (mailRangeError rt f) (mFrom f) of
        None \<Rightarrow> None
      | Some lo \<Rightarrow> (case timeBound rt (mailRangeError rt f) (mTo f) of
          None \<Rightarrow> None
        | Some hi \<Rightarrow> Some \<lparr>tCursor = optCursor p, tLimit = None, recipient = orUndefined (mRecipient f),
            kind = orUndefined (mKind f), purpose = None, tStatus = orUndefined (mStatus f), tFrom = lo, tTo = hi,
            failedOnly = mFailedOnly f\<rparr>))"

text \<open>The interval between two readings of the list; a failed reading is not repeated.\<close>

definition mailRefetch :: "bool \<Rightarrow> nat option" where
  "mailRefetch failed = (if failed then None else Some 3000)"

subsection \<open>The selection and the operations\<close>

record MailTask =
  mailId :: jstr
  mailStatus :: jstr

datatype confirmation = DeleteOne jstr | DeleteSelected

datatype mailRequest = RetryTask jstr | DeleteTask jstr | RetryTasks "jstr list" | DeleteTasks "jstr list"

record MailPage =
  mpFilters :: MailFilters
  mpPaging :: OptPaging
  mpSelected :: "jstr list"
  mpConfirm :: "confirmation option"
  mpPending :: bool

definition newMailPage :: MailPage where
  "newMailPage = \<lparr>mpFilters = initialMailFilters, mpPaging = optFirst, mpSelected = [], mpConfirm = None, mpPending = False\<rparr>"

definition setMailFilter :: "(MailFilters \<Rightarrow> MailFilters) \<Rightarrow> MailPage \<Rightarrow> MailPage" where
  "setMailFilter change p = p\<lparr>mpFilters := change (mpFilters p), mpPaging := optReset (mpPaging p)\<rparr>"

definition resetMailFilters :: "MailPage \<Rightarrow> MailPage" where
  "resetMailFilters p = p\<lparr>mpFilters := initialMailFilters, mpPaging := optReset (mpPaging p)\<rparr>"

definition allSelected :: "MailTask list \<Rightarrow> MailPage \<Rightarrow> bool" where
  "allSelected tasks p = (tasks \<noteq> [] \<and> list_all (\<lambda>task. mailId task \<in> set (mpSelected p)) tasks)"

definition selectAll :: "MailTask list \<Rightarrow> bool \<Rightarrow> MailPage \<Rightarrow> MailPage" where
  "selectAll tasks checked p = p\<lparr>mpSelected := (if checked then map mailId tasks else [])\<rparr>"

definition selectTask :: "jstr \<Rightarrow> bool \<Rightarrow> MailPage \<Rightarrow> MailPage" where
  "selectTask i checked p =
     p\<lparr>mpSelected := (if checked then mpSelected p @ [i] else filter (\<lambda>item. item \<noteq> i) (mpSelected p))\<rparr>"

definition sendMail :: "mailRequest \<Rightarrow> MailPage \<Rightarrow> MailPage \<times> mailRequest option" where
  "sendMail rq p = (p\<lparr>mpPending := True\<rparr>, Some rq)"

definition clickRetryTask :: "bool \<Rightarrow> MailTask \<Rightarrow> MailPage \<Rightarrow> MailPage \<times> mailRequest option" where
  "clickRetryTask canWrite task p =
     (if canWrite \<and> mailStatus task = js ''failed'' \<and> \<not> mpPending p then sendMail (RetryTask (mailId task)) p else (p, None))"

definition clickDeleteTask :: "bool \<Rightarrow> MailTask \<Rightarrow> MailPage \<Rightarrow> MailPage" where
  "clickDeleteTask canWrite task p =
     (if canWrite \<and> \<not> (mpPending p \<or> mailStatus task = js ''sending'') then p\<lparr>mpConfirm := Some (DeleteOne (mailId task))\<rparr> else p)"

definition clickRetrySelected :: "bool \<Rightarrow> MailPage \<Rightarrow> MailPage \<times> mailRequest option" where
  "clickRetrySelected canWrite p =
     (if canWrite \<and> \<not> (mpPending p \<or> mpSelected p = []) then sendMail (RetryTasks (mpSelected p)) p else (p, None))"

definition clickDeleteSelected :: "bool \<Rightarrow> MailPage \<Rightarrow> MailPage" where
  "clickDeleteSelected canWrite p =
     (if canWrite \<and> \<not> (mpPending p \<or> mpSelected p = []) then p\<lparr>mpConfirm := Some DeleteSelected\<rparr> else p)"

definition clickConfirmDelete :: "MailPage \<Rightarrow> MailPage \<times> mailRequest option" where
  "clickConfirmDelete p =
     (if mpPending p then (p, None)
      else (case mpConfirm p of
          Some DeleteSelected \<Rightarrow> sendMail (DeleteTasks (mpSelected p)) p
        | Some (DeleteOne i) \<Rightarrow> if i \<noteq> [] then sendMail (DeleteTask i) p else (p, None)
        | None \<Rightarrow> (p, None)))"

definition closeConfirm :: "MailPage \<Rightarrow> MailPage" where
  "closeConfirm p = (if mpPending p then p else p\<lparr>mpConfirm := None\<rparr>)"

fun mailSucceeded :: "mailRequest \<Rightarrow> MailPage \<Rightarrow> MailPage" where
  "mailSucceeded (RetryTask i) p = p\<lparr>mpPending := False\<rparr>"
| "mailSucceeded (DeleteTask i) p =
     p\<lparr>mpPending := False, mpConfirm := None, mpSelected := filter (\<lambda>item. item \<noteq> i) (mpSelected p)\<rparr>"
| "mailSucceeded (RetryTasks is) p = p\<lparr>mpPending := False, mpSelected := []\<rparr>"
| "mailSucceeded (DeleteTasks is) p = p\<lparr>mpPending := False, mpConfirm := None, mpSelected := []\<rparr>"

definition mailFailed :: "MailPage \<Rightarrow> MailPage" where
  "mailFailed p = p\<lparr>mpPending := False\<rparr>"

subsection \<open>What can happen to the page\<close>

text \<open>
  The page lists tasks, each once. While the confirmation is open, which covers the page, only its own
  buttons can be pressed. A checkbox is checked exactly when its task is selected, so a click on it
  asks for the opposite.
\<close>

record MailRun =
  mailPage :: MailPage
  inFlight :: "mailRequest option"
  mailSent :: "mailRequest list"

definition startMail :: MailRun where
  "startMail = \<lparr>mailPage = newMailPage, inFlight = None, mailSent = []\<rparr>"

definition mailSends :: "MailPage \<times> mailRequest option \<Rightarrow> MailRun \<Rightarrow> MailRun" where
  "mailSends x r = (case snd x of
     None \<Rightarrow> r\<lparr>mailPage := fst x\<rparr>
   | Some rq \<Rightarrow> \<lparr>mailPage = fst x, inFlight = Some rq, mailSent = mailSent r @ [rq]\<rparr>)"

inductive mail_step :: "bool \<Rightarrow> MailRun \<Rightarrow> MailRun \<Rightarrow> bool" for canWrite where
  lists: "mpConfirm (mailPage r) = None \<Longrightarrow>
    mail_step canWrite r (r\<lparr>mailPage := (mailPage r)\<lparr>mpFilters := f, mpPaging := pg\<rparr>\<rparr>)"
| selects_all: "\<lbrakk>mpConfirm (mailPage r) = None; distinct (map mailId tasks)\<rbrakk> \<Longrightarrow>
    mail_step canWrite r (r\<lparr>mailPage := selectAll tasks (\<not> allSelected tasks (mailPage r)) (mailPage r)\<rparr>)"
| selects: "mpConfirm (mailPage r) = None \<Longrightarrow>
    mail_step canWrite r (r\<lparr>mailPage := selectTask i (i \<notin> set (mpSelected (mailPage r))) (mailPage r)\<rparr>)"
| retries: "mpConfirm (mailPage r) = None \<Longrightarrow>
    mail_step canWrite r (mailSends (clickRetryTask canWrite task (mailPage r)) r)"
| retries_selected: "mpConfirm (mailPage r) = None \<Longrightarrow>
    mail_step canWrite r (mailSends (clickRetrySelected canWrite (mailPage r)) r)"
| asks: "mpConfirm (mailPage r) = None \<Longrightarrow>
    mail_step canWrite r (r\<lparr>mailPage := clickDeleteTask canWrite task (mailPage r)\<rparr>)"
| asks_selected: "mpConfirm (mailPage r) = None \<Longrightarrow>
    mail_step canWrite r (r\<lparr>mailPage := clickDeleteSelected canWrite (mailPage r)\<rparr>)"
| confirms: "mail_step canWrite r (mailSends (clickConfirmDelete (mailPage r)) r)"
| closes: "mail_step canWrite r (r\<lparr>mailPage := closeConfirm (mailPage r)\<rparr>)"
| succeeds: "inFlight r = Some rq \<Longrightarrow>
    mail_step canWrite r (r\<lparr>mailPage := mailSucceeded rq (mailPage r), inFlight := None\<rparr>)"
| fails: "inFlight r = Some rq \<Longrightarrow>
    mail_step canWrite r (r\<lparr>mailPage := mailFailed (mailPage r), inFlight := None\<rparr>)"

abbreviation mail_reaches :: "bool \<Rightarrow> MailRun \<Rightarrow> bool" where
  "mail_reaches canWrite \<equiv> (mail_step canWrite)\<^sup>*\<^sup>* startMail"

fun soundMail :: "bool \<Rightarrow> mailRequest \<Rightarrow> bool" where
  "soundMail canWrite (RetryTask i) = canWrite"
| "soundMail canWrite (DeleteTask i) = (canWrite \<and> i \<noteq> [])"
| "soundMail canWrite (RetryTasks is) = (canWrite \<and> is \<noteq> [] \<and> distinct is)"
| "soundMail canWrite (DeleteTasks is) = (canWrite \<and> is \<noteq> [] \<and> distinct is)"

definition goodMail :: "bool \<Rightarrow> MailRun \<Rightarrow> bool" where
  "goodMail canWrite r \<longleftrightarrow> list_all (soundMail canWrite) (mailSent r) \<and> distinct (mpSelected (mailPage r))
     \<and> (mpPending (mailPage r) \<longleftrightarrow> inFlight r \<noteq> None)
     \<and> (mpConfirm (mailPage r) \<noteq> None \<longrightarrow> canWrite)
     \<and> (mpConfirm (mailPage r) = Some DeleteSelected \<longrightarrow> mpSelected (mailPage r) \<noteq> [])
     \<and> (mpConfirm (mailPage r) \<noteq> None \<longrightarrow> (case inFlight r of Some (RetryTask _) \<Rightarrow> False | Some (RetryTasks _) \<Rightarrow> False
          | Some (DeleteTask i) \<Rightarrow> mpConfirm (mailPage r) = Some (DeleteOne i) | _ \<Rightarrow> True))"

lemmas mail_defs = selectAll_def selectTask_def clickRetryTask_def clickRetrySelected_def clickDeleteTask_def
  clickDeleteSelected_def clickConfirmDelete_def closeConfirm_def sendMail_def mailFailed_def mailSends_def

lemma goodMail_start: "goodMail canWrite startMail"
  by (simp add: goodMail_def startMail_def newMailPage_def)

lemma goodMail_step: "\<lbrakk>mail_step canWrite r r'; goodMail canWrite r\<rbrakk> \<Longrightarrow> goodMail canWrite r'"
proof (induction rule: mail_step.induct)
  case (succeeds r rq)
  then show ?case by (cases rq) (auto simp: goodMail_def)
qed (auto simp: goodMail_def mail_defs split: if_splits option.splits confirmation.splits mailRequest.splits)

lemma goodMail_reached: "mail_reaches canWrite r \<Longrightarrow> goodMail canWrite r"
  by (induction rule: rtranclp_induct) (rule goodMail_start, rule goodMail_step)

text \<open>
  C25. Whatever is clicked, and whichever requests succeed or fail, the page sends an operation on mail tasks
  only for a user who may write, and one on several tasks names at least one and each of them once, as the
  server demands; a selection survives paging and filtering but never keeps a deleted task.
\<close>

theorem mail_requests_sound:
  assumes "mail_reaches canWrite r"
  shows "list_all (soundMail canWrite) (mailSent r) \<and> distinct (mpSelected (mailPage r))"
  using goodMail_reached [OF assms] by (simp add: goodMail_def)

definition failedTask :: MailTask where
  "failedTask = \<lparr>mailId = js ''m1'', mailStatus = js ''failed''\<rparr>"

lemma example_mail:
  "mail_reaches True \<lparr>mailPage = newMailPage\<lparr>mpSelected := [js ''m1''], mpPending := True\<rparr>,
     inFlight = Some (RetryTasks [js ''m1'']), mailSent = [RetryTasks [js ''m1'']]\<rparr>" (is "mail_reaches True ?r2")
proof -
  let ?r1 = "startMail\<lparr>mailPage := newMailPage\<lparr>mpSelected := [js ''m1'']\<rparr>\<rparr>"
  have "mail_step True startMail ?r1"
    using mail_step.selects_all [of startMail "[failedTask]" True]
    by (simp add: startMail_def newMailPage_def selectAll_def allSelected_def failedTask_def)
  moreover have "mail_step True ?r1 ?r2"
    using mail_step.retries_selected [of ?r1 True]
    by (simp add: startMail_def newMailPage_def clickRetrySelected_def sendMail_def mailSends_def)
  ultimately show ?thesis by (meson rtranclp.rtrancl_into_rtrancl rtranclp.rtrancl_refl)
qed

theorem mail_requests_sound_witness:
  "list_all (soundMail True) [RetryTasks [js ''m1'']]"
  using mail_requests_sound [OF example_mail] by simp

subsection \<open>Texts\<close>

text \<open>
  The key of a label: the table's entry, or what stands for a code that has none. A code that is the
  name of an inherited property finds that property, which gives no key (\<^term>\<open>None\<close>).
\<close>

definition mailKey :: "(jstr \<times> jstr) list \<Rightarrow> jstr \<Rightarrow> jstr \<Rightarrow> jstr option" where
  "mailKey keys cd other = (case get_prop keys cd of
       Own k \<Rightarrow> Some (js ''emailTasks:'' @ k) | Absent \<Rightarrow> Some (js ''emailTasks:'' @ other) | Inherited \<Rightarrow> None)"

definition kinds :: "jstr list" where
  "kinds = map js [''password_reset'', ''password_changed'', ''user_invitation'', ''email_change_code'', ''email_changed'', ''test_email'']"

definition mailStatuses :: "jstr list" where
  "mailStatuses = map js [''queued'', ''sending'', ''waiting_retry'', ''sent'', ''failed'']"

definition purposeLabel :: "jstr \<Rightarrow> jstr option" where
  "purposeLabel kd = mailKey [(js ''password_reset'', js ''purposePasswordReset''), (js ''password_changed'', js ''purposePasswordChanged''),
     (js ''user_invitation'', js ''purposeInvitation''), (js ''email_change_code'', js ''purposeEmailChangeCode''),
     (js ''email_changed'', js ''purposeEmailChanged''), (js ''test_email'', js ''purposeTestEmail'')] kd kd"

definition mailStatusLabel :: "jstr \<Rightarrow> jstr option" where
  "mailStatusLabel st = mailKey [(js ''queued'', js ''queued''), (js ''sending'', js ''sending''), (js ''waiting_retry'', js ''waitingRetry''),
     (js ''sent'', js ''sent''), (js ''failed'', js ''failed'')] st st"

definition failureLabel :: "jstr \<Rightarrow> jstr option" where
  "failureLabel cd = mailKey [(js ''temporary'', js ''failureTemporary''), (js ''permanent'', js ''failurePermanent''),
     (js ''dependency'', js ''failureDependency''), (js ''expired'', js ''failureExpired''), (js ''superseded'', js ''failureSuperseded''),
     (js ''invalid_reset'', js ''failureInvalid''), (js ''invalid_invitation'', js ''failureInvalid''),
     (js ''invalid_email_change'', js ''failureInvalid'')] cd (js ''failurePermanent'')"

definition batchSkipReason :: "jstr \<Rightarrow> jstr option" where
  "batchSkipReason cd = mailKey [(js ''sending'', js ''sending''), (js ''not_failed'', js ''notFailed''), (js ''not_found'', js ''notFound''),
     (js ''dependency_unavailable'', js ''failureDependency''), (js ''operation_failed'', js ''operationFailed'')] cd (js ''operationFailed'')"

record BatchItem =
  itemResult :: jstr
  itemCode :: "jstr option"

record BatchResult =
  batchSucceeded :: int
  batchSkipped :: int
  batchFailed :: int
  batchItems :: "BatchItem list"

text \<open>
  The message after an operation on several tasks: \<open>t\<close> translates a key, \<open>summary\<close> and \<open>because\<close> are
  the texts with the counts and with the joined reasons filled in.
\<close>

definition batchReasons :: "(jstr option \<Rightarrow> jstr) \<Rightarrow> BatchResult \<Rightarrow> jstr list" where
  "batchReasons t res = newSet (map (\<lambda>i. t (batchSkipReason (the (itemCode i))))
     (filter (\<lambda>i. itemResult i \<noteq> js ''succeeded'' \<and> truthy (itemCode i)) (batchItems res)))"

definition batchResultMessage :: "(jstr option \<Rightarrow> jstr) \<Rightarrow> (BatchResult \<Rightarrow> jstr) \<Rightarrow> (jstr \<Rightarrow> jstr) \<Rightarrow> BatchResult \<Rightarrow> jstr" where
  "batchResultMessage t summary because res =
     (let reasons = batchReasons t res in
      if length reasons > 0 then summary res @ 0x20 # because (joinWith (js '', '') reasons) else summary res)"

text \<open>A label has a text in both languages.\<close>

definition labelled :: "jstr option \<Rightarrow> bool" where
  "labelled k = (case k of Some key \<Rightarrow> hasMessage key english \<and> hasMessage key chinese | None \<Rightarrow> False)"

lemma messageAt_groups:
  "messageAt (js ''emailTasks'' # ks) english = messageAt ks english_emailTasks"
  "messageAt (js ''operationLog'' # ks) english = messageAt ks english_operationLog"
  "messageAt (js ''actionLabels'' # ks) english_operationLog = messageAt ks english_operationLog_actionLabels"
  "messageAt (js ''objectLabels'' # ks) english_operationLog = messageAt ks english_operationLog_objectLabels"
  by (simp_all add: english_def english_operationLog_def)

definition mailNames :: "string list" where
  "mailNames =
   [''title'', ''description'', ''filtersTitle'', ''detailDescription'', ''detailUnavailable'',
    ''attemptHistory'', ''noAttempts'', ''finishedAt'', ''timeRangeError'', ''selectAll'', ''select'',
    ''recipient'', ''recipientPlaceholder'', ''purpose'', ''allPurposes'', ''status'', ''allStatuses'',
    ''createdFrom'', ''createdTo'', ''failedOnly'', ''applyFilters'', ''resetFilters'', ''createdAt'',
    ''language'', ''attempts'', ''actions'', ''details'', ''viewDetails'', ''retry'', ''delete'',
    ''retrySelected'', ''deleteSelected'', ''confirmDeleteTitle'', ''confirmDeleteDescription'',
    ''confirmBulkDeleteDescription'', ''cancel'', ''queued'', ''sending'', ''waitingRetry'', ''sent'',
    ''failed'', ''purposePasswordReset'', ''purposePasswordChanged'', ''purposeInvitation'',
    ''purposeEmailChangeCode'', ''purposeEmailChanged'', ''purposeTestEmail'', ''outcomeSent'',
    ''outcomeFailed'', ''failureTemporary'', ''failurePermanent'', ''failureDependency'', ''failureExpired'',
    ''failureSuperseded'', ''failureInvalid'', ''empty'', ''loading'', ''readUnavailableTitle'',
    ''readUnavailableDescription'', ''operationFailed'', ''partialResult'', ''skippedReasons'',
    ''notFailed'', ''notFound'', ''deleted'', ''retried'', ''noRead'', ''noWrite'']"

definition actionNames :: "string list" where
  "actionNames =
   [''auth_login'', ''auth_logout'', ''auth_password_reset_request'', ''auth_password_reset_complete'',
    ''auth_invitation_accept'', ''auth_setup_complete'', ''roles_create'', ''roles_update'',
    ''roles_delete'', ''users_sessions_revoke'', ''users_roles_update'', ''users_deactivate'',
    ''users_reactivate'', ''users_delete'', ''invitations_create'', ''invitations_resend'',
    ''invitations_revoke'', ''settings_email_update'', ''settings_email_test'', ''mail_tasks_retry'',
    ''mail_tasks_delete'', ''mail_tasks_bulk_retry'', ''mail_tasks_bulk_delete'',
    ''settings_system_identity_update'', ''settings_operation_log_retention_update'',
    ''auth_profile_name_update'', ''auth_profile_avatar_update'', ''auth_profile_avatar_delete'',
    ''auth_profile_password_update'', ''auth_profile_email_request'', ''auth_profile_email_resend'',
    ''auth_profile_email_update'']"

definition objectNames :: "string list" where
  "objectNames =
   [''session'', ''account'', ''password_reset'', ''password'', ''invitation'', ''email_change'',
    ''mail_task'', ''role'', ''user'', ''email_settings'', ''system_identity'', ''operation_log_settings'']"

lemma group_texts:
  "english_emailTasks = Group (members english_emailTasks)"
  "textsOf (members english_emailTasks) = map js mailNames" "map fst (members english_emailTasks) = map js mailNames"
  "english_operationLog_actionLabels = Group (members english_operationLog_actionLabels)"
  "textsOf (members english_operationLog_actionLabels) = map js actionNames"
  "map fst (members english_operationLog_actionLabels) = map js actionNames"
  "english_operationLog_objectLabels = Group (members english_operationLog_objectLabels)"
  "textsOf (members english_operationLog_objectLabels) = map js objectNames"
  "map fst (members english_operationLog_objectLabels) = map js objectNames"
  unfolding english_emailTasks_def english_operationLog_actionLabels_def english_operationLog_objectLabels_def members.simps
  by (rule refl, simp_all only: mailNames_def actionNames_def objectNames_def textsOf.simps list.map fst_conv)

lemma group_names: "distinct mailNames" "distinct actionNames" "distinct objectNames"
  by (simp_all add: mailNames_def actionNames_def objectNames_def)

lemma names_plain: "list_all nameOk mailNames" "list_all nameOk actionNames" "list_all nameOk objectNames"
  by (simp_all add: mailNames_def actionNames_def objectNames_def nameOk_def)

lemma has_grouped:
  assumes "nameOk k"
  shows "hasMessage (js ''emailTasks:'' @ js k) english \<longleftrightarrow> messageAt [js k] english_emailTasks \<noteq> None"
    "hasMessage (js ''operationLog:actionLabels.'' @ js k) english \<longleftrightarrow> messageAt [js k] english_operationLog_actionLabels \<noteq> None"
    "hasMessage (js ''operationLog:objectLabels.'' @ js k) english \<longleftrightarrow> messageAt [js k] english_operationLog_objectLabels \<noteq> None"
  using assms unfolding hasMessage_def keyPath_def js_append [symmetric] splitOn_js_colon nameOk_def
  by (simp_all add: splitOn_js_dot messageAt_groups)

lemma labelled_mail: "k \<in> set mailNames \<Longrightarrow> labelled (Some (js ''emailTasks:'' @ js k))"
  using found_in_group [OF group_texts(1-3) group_names(1)] names_plain(1)
  by (auto simp: labelled_def hasMessage_both has_grouped list_all_iff)

lemma labelled_log:
  "k \<in> set actionNames \<Longrightarrow> labelled (Some (js ''operationLog:actionLabels.'' @ js k))"
  "k \<in> set objectNames \<Longrightarrow> labelled (Some (js ''operationLog:objectLabels.'' @ js k))"
  using found_in_group [OF group_texts(4-6) group_names(2)] found_in_group [OF group_texts(7-9) group_names(3)] names_plain(2,3)
  by (auto simp: labelled_def hasMessage_both has_grouped list_all_iff)

lemma mail_labels:
  "list_all (\<lambda>k. labelled (purposeLabel k)) kinds" "list_all (\<lambda>k. labelled (mailStatusLabel k)) mailStatuses"
  by (simp_all add: kinds_def mailStatuses_def purposeLabel_def mailStatusLabel_def mailKey_def get_prop_def labelled_mail mailNames_def
      split del: if_split)

lemma failure_labels:
  "c \<in> set proto_names \<or> labelled (failureLabel c)" "c \<in> set proto_names \<or> labelled (batchSkipReason c)"
  by (auto simp: failureLabel_def batchSkipReason_def mailKey_def get_prop_def labelled_mail mailNames_def)

lemma dots_js: "dotsToUnderscores (js s) = js (map (\<lambda>c. if c = CHR ''.'' then CHR ''_'' else c) s)"
proof (induction s)
  case (Cons c s)
  then show ?case
    using of_char_eq_iff [where 'a = nat, of c "CHR ''.''"]
    by (auto simp: dotsToUnderscores_def replaceUnit_def js_def)
qed (simp add: dotsToUnderscores_def replaceUnit_def)

lemma log_labels:
  "list_all (\<lambda>a. labelled (Some (actionKey a))) knownActions" "list_all (\<lambda>a. labelled (Some (objectKey a))) knownObjectTypes"
  by (simp_all add: knownActions_def knownObjectTypes_def actionKey_def objectKey_def dots_js labelled_log actionNames_def
      objectNames_def)

text \<open>
  The codes the pages know have a text in both languages: every purpose and status of the mail tasks' filters,
  every action and object type of the operation log's filters; and so has every reason of a failed
  delivery or of a skipped task, known or not, names of inherited properties aside.
\<close>

theorem codes_have_labels:
  "list_all (\<lambda>k. labelled (purposeLabel k)) kinds \<and> list_all (\<lambda>k. labelled (mailStatusLabel k)) mailStatuses
   \<and> list_all (\<lambda>a. labelled (Some (actionKey a))) knownActions \<and> list_all (\<lambda>a. labelled (Some (objectKey a))) knownObjectTypes
   \<and> (labelled (failureLabel c) \<and> labelled (batchSkipReason c) \<or> c \<in> set proto_names)"
  using mail_labels log_labels failure_labels [of c] by blast

end
