(* ===== verification/QueryCache.thy ===== *)
theory QueryCache
  imports ConsoleRequests ReleaseJobs EmailTasks
begin

text \<open>
  The cached reads of the interface: the key under which each page caches what it reads, and the request it
  reads it with (\<open>features/auth/queries.ts\<close>, \<open>features/access/queries.ts\<close> and the pages). A key is a list of
  texts, numbers and flags, and two keys are the same entry of the cache exactly if they are equal.
\<close>

datatype keyPart = KText jstr | KNumber int | KFlag bool

type_synonym qkey = "keyPart list"

definition name_key :: "string list \<Rightarrow> qkey" where
  "name_key = map (\<lambda>s. KText (js s))"

subsection \<open>Session and setup\<close>

definition setupStatusQueryKey :: qkey where
  "setupStatusQueryKey = name_key [''setup'', ''status'']"

definition currentUserQueryKey :: qkey where
  "currentUserQueryKey = name_key [''auth'', ''current-user'']"

definition sessionMonitorKey :: "jstr \<Rightarrow> qkey" where
  "sessionMonitorKey user = [KText (js ''session-monitor''), KText user]"

subsection \<open>Users, roles and invitations\<close>

record AccessListOptions =
  aCursor :: "jstr option"
  aQ :: "jstr option"
  aRoleId :: "jstr option"
  aStatus :: "jstr option"
  aSort :: "jstr option"
  aDirection :: "jstr option"

definition rolesQueryKey :: qkey where
  "rolesQueryKey = name_key [''access'', ''roles'']"

definition roleQueryKey :: "jstr \<Rightarrow> qkey" where
  "roleQueryKey i = rolesQueryKey @ [KText i]"

definition listOptionKey :: "AccessListOptions \<Rightarrow> qkey" where
  "listOptionKey opt = map KText [nullish (aCursor opt) [], nullish (aQ opt) [], nullish (aRoleId opt) [],
     nullish (aStatus opt) [], nullish (aSort opt) [], nullish (aDirection opt) []]"

definition usersQueryKey :: "AccessListOptions \<Rightarrow> qkey" where
  "usersQueryKey opt = name_key [''access'', ''users''] @ listOptionKey opt"

definition invitationsQueryKey :: "AccessListOptions \<Rightarrow> qkey" where
  "invitationsQueryKey opt = name_key [''access'', ''invitations''] @ listOptionKey opt"

definition roleOptionsQueryKey :: qkey where
  "roleOptionsQueryKey = name_key [''access'', ''role-options'']"

definition onlineUsersKey :: "jstr \<Rightarrow> qkey" where
  "onlineUsersKey actor = name_key [''access'', ''online-users''] @ [KText actor]"

text \<open>\<open>x || undefined\<close>: an empty text is as good as none.\<close>

definition dropEmpty :: "jstr option \<Rightarrow> jstr option" where
  "dropEmpty x = (if truthy x then x else None)"

definition usersOptions :: "AccessListOptions \<Rightarrow> listOptions" where
  "usersOptions opt = \<lparr>cursor = dropEmpty (aCursor opt), limit = None, q = dropEmpty (aQ opt), roleId = dropEmpty (aRoleId opt),
     optStatus = aStatus opt, sort = aSort opt, direction = aDirection opt\<rparr>"

definition invitationsOptions :: "AccessListOptions \<Rightarrow> listOptions" where
  "invitationsOptions opt = \<lparr>cursor = dropEmpty (aCursor opt), limit = None, q = dropEmpty (aQ opt), roleId = dropEmpty (aRoleId opt),
     optStatus = (if aStatus opt = Some (js ''pending'') \<or> aStatus opt = Some (js ''expired'') then aStatus opt else None),
     sort = aSort opt, direction = aDirection opt\<rparr>"

subsection \<open>Settings, the account and the system\<close>

definition emailSettingsKey :: qkey where
  "emailSettingsKey = name_key [''settings'', ''email'']"

definition retentionKey :: "jstr \<Rightarrow> qkey" where
  "retentionKey user = name_key [''settings'', ''operation-log-retention''] @ [KText user]"

definition systemIdentityKey :: qkey where
  "systemIdentityKey = name_key [''settings'', ''system-identity'']"

definition publicSystemIdentityQueryKey :: qkey where
  "publicSystemIdentityQueryKey = name_key [''public'', ''system-identity'']"

definition personalProfileKey :: "jstr option \<Rightarrow> qkey" where
  "personalProfileKey user = [KText (js ''personal-profile''), KText (nullish user (js ''current''))]"

subsection \<open>The operation log and the mail tasks\<close>

definition operationLogsKey :: "jstr \<Rightarrow> LogFilters \<Rightarrow> jstr option \<Rightarrow> qkey" where
  "operationLogsKey user f c = map KText [js ''operation-logs'', user, fAction f, fObjectType f, fObjectId f, fActorId f, fFrom f, fTo f,
     fResult f, nullish c []]"

definition operationLogKey :: "jstr \<Rightarrow> jstr option \<Rightarrow> qkey" where
  "operationLogKey user selected = map KText [js ''operation-log'', user, nullish selected []]"

definition emailTasksKey :: "jstr \<Rightarrow> MailFilters \<Rightarrow> jstr option \<Rightarrow> qkey" where
  "emailTasksKey user f c = map KText [js ''email-tasks'', user, mRecipient f, mKind f, mStatus f, mFrom f, mTo f]
     @ [KFlag (mFailedOnly f), KText (nullish c [])]"

definition emailTaskKey :: "jstr \<Rightarrow> jstr option \<Rightarrow> qkey" where
  "emailTaskKey user detailID = map KText [js ''email-task'', user, nullish detailID []]"

subsection \<open>Device operations and releases\<close>

text \<open>The reads of the device pages: the key, and the path the request helpers are called with.\<close>

datatype opsQuery =
    OpsOverview | OpsBackup int | OpsDiff int int | OpsSwitch jstr | OpsTask jstr | OpsSchedules | OpsTasks
  | OpsSwitches jstr | OpsAlerts jstr | OpsRules | OpsResults jstr | OpsAudit jstr

fun opsKey :: "opsQuery \<Rightarrow> qkey" where
  "opsKey OpsOverview = name_key [''ops-overview'']"
| "opsKey (OpsBackup i) = [KText (js ''ops-backup''), KNumber i]"
| "opsKey (OpsDiff target base) = [KText (js ''ops-diff''), KNumber target, KNumber base]"
| "opsKey (OpsSwitch i) = map KText [js ''ops-switch'', i]"
| "opsKey (OpsTask i) = map KText [js ''ops-task'', i]"
| "opsKey OpsSchedules = name_key [''ops-schedules'']"
| "opsKey OpsTasks = name_key [''ops-tasks'']"
| "opsKey (OpsSwitches ps) = map KText [js ''ops-switches'', ps]"
| "opsKey (OpsAlerts st) = map KText [js ''ops-alerts'', st]"
| "opsKey OpsRules = name_key [''ops-rules'']"
| "opsKey (OpsResults ps) = map KText [js ''ops-results'', ps]"
| "opsKey (OpsAudit ps) = map KText [js ''ops-audit'', ps]"

text \<open>The audit log is read page by page; every page belongs to the one entry of its filters.\<close>

definition auditPath :: "jstr \<Rightarrow> int \<Rightarrow> jstr" where
  "auditPath ps before = js ''audit?'' @ ps @ js ''&before='' @ int_str before"

fun opsPath :: "opsQuery \<Rightarrow> jstr" where
  "opsPath OpsOverview = js ''overview''"
| "opsPath (OpsBackup i) = js ''backups/'' @ int_str i"
| "opsPath (OpsDiff target base) = js ''backups/'' @ int_str target @ js ''/diff?base='' @ int_str base"
| "opsPath (OpsSwitch i) = js ''switches/'' @ i"
| "opsPath (OpsTask i) = js ''tasks/'' @ i"
| "opsPath OpsSchedules = js ''schedules''"
| "opsPath OpsTasks = js ''tasks''"
| "opsPath (OpsSwitches ps) = js ''switches?'' @ ps"
| "opsPath (OpsAlerts st) = js ''alerts?status='' @ st"
| "opsPath OpsRules = js ''compliance/rules''"
| "opsPath (OpsResults ps) = js ''compliance/results?'' @ ps"
| "opsPath (OpsAudit ps) = auditPath ps 0"

definition jobListKey :: jstr where
  "jobListKey = js ''release-jobs''"

definition assetOptionsKey :: jstr where
  "assetOptionsKey = js ''release-asset-options''"

definition uncertainReleases :: JobFilter where
  "uncertainReleases = \<lparr>filterQ = None, filterKind = Some (js ''release''), filterStatus = Some (js ''needs_manual_confirmation''),
     filterPage = None, filterPageSize = None\<rparr>"

datatype releaseQuery = ReleaseJob jstr | AssetOptions | RecentJobs | UncertainJobs | JobHistory JobFilter | AssetInventory jstr

fun releaseKey :: "releaseQuery \<Rightarrow> qkey" where
  "releaseKey (ReleaseJob i) = map KText [js ''release-job'', i]"
| "releaseKey AssetOptions = [KText assetOptionsKey]"
| "releaseKey RecentJobs = map KText [jobListKey, js ''recent'']"
| "releaseKey UncertainJobs = map KText [jobListKey, js ''uncertain'']"
| "releaseKey (JobHistory f) = map KText [jobListKey, jobsPath f]"
| "releaseKey (AssetInventory user) = map KText [js ''release-assets'', user]"

definition noFilter :: JobFilter where
  "noFilter = \<lparr>filterQ = None, filterKind = None, filterStatus = None, filterPage = None, filterPageSize = None\<rparr>"

fun releaseFetch :: "releaseQuery \<Rightarrow> httpRequest" where
  "releaseFetch (ReleaseJob i) = jobRequest (js ''/api/releases/jobs/'' @ i) None"
| "releaseFetch AssetOptions = jobRequest (js ''/api/releases/admin/assets'') None"
| "releaseFetch RecentJobs = jobRequest (jobsPath (noFilter\<lparr>filterPageSize := Some 8\<rparr>)) None"
| "releaseFetch UncertainJobs = jobRequest (jobsPath (uncertainReleases\<lparr>filterPageSize := Some 5\<rparr>)) None"
| "releaseFetch (JobHistory f) = jobRequest (jobsPath f) None"
| "releaseFetch (AssetInventory user) = callAssets (js ''assets'') None None"

subsection \<open>All reads\<close>

datatype apiQuery =
    SetupStatus | CurrentUser | SessionMonitor jstr
  | RoleList | OneRole jstr | RoleChoices | UserList AccessListOptions | InvitationList AccessListOptions | OnlineUsers jstr
  | MailSettings | Retention jstr | Identity | PublicIdentity | PersonalProfile "jstr option"

datatype logQuery' =
    OperationLogs jstr LogFilters "jstr option" | OneLog jstr "jstr option"
  | EmailTaskList jstr MailFilters "jstr option" | OneTask jstr "jstr option"

datatype query = ApiQuery apiQuery | LogQuery logQuery' | OpsQuery opsQuery | ReleaseQuery releaseQuery

fun apiKey :: "apiQuery \<Rightarrow> qkey" where
  "apiKey SetupStatus = setupStatusQueryKey"
| "apiKey CurrentUser = currentUserQueryKey"
| "apiKey (SessionMonitor user) = sessionMonitorKey user"
| "apiKey RoleList = rolesQueryKey"
| "apiKey (OneRole i) = roleQueryKey i"
| "apiKey RoleChoices = roleOptionsQueryKey"
| "apiKey (UserList opt) = usersQueryKey opt"
| "apiKey (InvitationList opt) = invitationsQueryKey opt"
| "apiKey (OnlineUsers actor) = onlineUsersKey actor"
| "apiKey MailSettings = emailSettingsKey"
| "apiKey (Retention user) = retentionKey user"
| "apiKey Identity = systemIdentityKey"
| "apiKey PublicIdentity = publicSystemIdentityQueryKey"
| "apiKey (PersonalProfile user) = personalProfileKey user"

fun apiFetch :: "apiQuery \<Rightarrow> apiMethod" where
  "apiFetch SetupStatus = Session GetSetupStatus"
| "apiFetch CurrentUser = Session Me"
| "apiFetch (SessionMonitor user) = Session CheckSession"
| "apiFetch RoleList = Roles GetRoles"
| "apiFetch (OneRole i) = Roles (GetRole i)"
| "apiFetch RoleChoices = Roles GetRoleOptions"
| "apiFetch (UserList opt) = Users (GetUsers (usersOptions opt))"
| "apiFetch (InvitationList opt) = Users (GetInvitations (invitationsOptions opt))"
| "apiFetch (OnlineUsers actor) = Session GetOnlineUsers"
| "apiFetch MailSettings = Mail GetEmailSettings"
| "apiFetch (Retention user) = System GetOperationLogRetention"
| "apiFetch Identity = System GetSystemIdentity"
| "apiFetch PublicIdentity = System GetPublicSystemIdentity"
| "apiFetch (PersonalProfile user) = Profile GetPersonalProfile"

fun logKey :: "logQuery' \<Rightarrow> qkey" where
  "logKey (OperationLogs user f c) = operationLogsKey user f c"
| "logKey (OneLog user i) = operationLogKey user i"
| "logKey (EmailTaskList user f c) = emailTasksKey user f c"
| "logKey (OneTask user i) = emailTaskKey user i"

text \<open>A read that rejects without a request, for an invalid date or without an entry to show, is \<^term>\<open>None\<close>.\<close>

fun logFetch :: "runtime \<Rightarrow> logQuery' \<Rightarrow> apiMethod option" where
  "logFetch rt (OperationLogs user f c) =
     map_option (\<lambda>opt. System (GetOperationLogs opt)) (logOptionsOf rt f \<lparr>optCursor = c, optHistory = []\<rparr>)"
| "logFetch rt (OneLog user i) = (if truthy i then Some (System (GetOperationLog (the i))) else None)"
| "logFetch rt (EmailTaskList user f c) =
     map_option (\<lambda>opt. Mail (GetEmailTasks opt)) (mailOptionsOf rt f \<lparr>optCursor = c, optHistory = []\<rparr>)"
| "logFetch rt (OneTask user i) = (if truthy i then Some (Mail (GetEmailTask (the i))) else None)"

datatype fetch = ByClient call | ByConsole httpRequest

fun queryKey :: "query \<Rightarrow> qkey" where
  "queryKey (ApiQuery a) = apiKey a"
| "queryKey (LogQuery l) = logKey l"
| "queryKey (OpsQuery o') = opsKey o'"
| "queryKey (ReleaseQuery r) = releaseKey r"

fun queryFetch :: "zod \<Rightarrow> runtime \<Rightarrow> query \<Rightarrow> fetch option" where
  "queryFetch z rt (ApiQuery a) = Some (ByClient (createApiClient z (apiFetch a)))"
| "queryFetch z rt (LogQuery l) = map_option (\<lambda>m. ByClient (createApiClient z m)) (logFetch rt l)"
| "queryFetch z rt (OpsQuery o') = Some (ByConsole (opsRequest (opsPath o') None None))"
| "queryFetch z rt (ReleaseQuery r) = Some (ByConsole (releaseFetch r))"

subsection \<open>A key determines the read\<close>

text \<open>A parameter is set exactly from the text that the key shows, so absent and empty options make the same query.\<close>

definition paramText :: "jstr \<Rightarrow> jstr \<Rightarrow> params \<Rightarrow> params" where
  "paramText k s ps = (if s = [] then ps else params_set k s ps)"

lemma paramIf_text: "paramIf k x ps = paramText k (nullish x []) ps"
  by (cases x) (auto simp: paramIf_def paramText_def)

lemma dropEmpty_nullish [simp]: "nullish (dropEmpty x) [] = nullish x []"
  by (cases x) (auto simp: dropEmpty_def)

lemma pending_status:
  "nullish (if x = Some (js ''pending'') \<or> x = Some (js ''expired'') then x else None) [] =
     (if nullish x [] = js ''pending'' \<or> nullish x [] = js ''expired'' then nullish x [] else [])"
  by (cases x) auto

lemma list_requests_same:
  assumes "listOptionKey a = listOptionKey b"
  shows "listQuery (usersOptions a) = listQuery (usersOptions b)"
    and "listQuery (invitationsOptions a) = listQuery (invitationsOptions b)"
  using assms
  by (simp_all add: listOptionKey_def listQuery_def usersOptions_def invitationsOptions_def paramIf_text pending_status)

lemma log_options_cursor:
  "logOptionsOf rt f \<lparr>optCursor = c, optHistory = []\<rparr> =
     map_option (lCursor_update (\<lambda>_. c)) (logOptionsOf rt f \<lparr>optCursor = None, optHistory = []\<rparr>)"
  "mailOptionsOf rt g \<lparr>optCursor = c, optHistory = []\<rparr> =
     map_option (tCursor_update (\<lambda>_. c)) (mailOptionsOf rt g \<lparr>optCursor = None, optHistory = []\<rparr>)"
  by (simp_all add: logOptionsOf_def mailOptionsOf_def split: option.splits)

lemma cursor_text:
  assumes "nullish c [] = nullish d []"
  shows "logQuery (opt\<lparr>lCursor := c\<rparr>) = logQuery (opt\<lparr>lCursor := d\<rparr>)"
    and "taskQuery (topt\<lparr>tCursor := c\<rparr>) = taskQuery (topt\<lparr>tCursor := d\<rparr>)"
  using assms by (simp_all add: logQuery_def taskQuery_def paramIf_text Let_def)

lemma log_requests_same:
  assumes "nullish c [] = nullish d []"
  shows "map_option (\<lambda>m. ByClient (createApiClient z m)) (logFetch rt (OperationLogs u f c)) =
      map_option (\<lambda>m. ByClient (createApiClient z m)) (logFetch rt (OperationLogs v f d))"
    and "map_option (\<lambda>m. ByClient (createApiClient z m)) (logFetch rt (EmailTaskList u g c)) =
      map_option (\<lambda>m. ByClient (createApiClient z m)) (logFetch rt (EmailTaskList v g d))"
  using cursor_text [OF assms]
  by (simp_all add: log_options_cursor(1) [of rt f c] log_options_cursor(1) [of rt f d] log_options_cursor(2) [of rt g c]
      log_options_cursor(2) [of rt g d] option.map_comp comp_def)

lemma entry_same:
  assumes "nullish i [] = nullish j []"
  shows "logFetch rt (OneLog u i) = logFetch rt (OneLog v j)" "logFetch rt (OneTask u i) = logFetch rt (OneTask v j)"
  using assms by (cases i; cases j; auto)+

lemma opsKey_inj: "opsKey a = opsKey b \<Longrightarrow> a = b"
  by (cases a; cases b) (simp_all add: name_key_def)

lemma jobsPath_start: "hd (jobsPath f) = 0x2F"
  by (simp add: jobsPath_def Let_def js_eval)

lemma list_names: "js ''recent'' \<noteq> jobsPath f" "js ''uncertain'' \<noteq> jobsPath f"
  using jobsPath_start [of f] by (auto simp: js_eval dest: arg_cong [where f = hd])

lemma releaseKey_fetch: "releaseKey a = releaseKey b \<Longrightarrow> releaseFetch a = releaseFetch b"
  using list_names list_names [symmetric]
  by (cases a; cases b) (auto simp: jobListKey_def assetOptionsKey_def)

lemmas api_keys = setupStatusQueryKey_def currentUserQueryKey_def sessionMonitorKey_def rolesQueryKey_def roleQueryKey_def
  usersQueryKey_def invitationsQueryKey_def roleOptionsQueryKey_def onlineUsersKey_def emailSettingsKey_def retentionKey_def
  systemIdentityKey_def publicSystemIdentityQueryKey_def personalProfileKey_def name_key_def

lemma apiKey_fetch: "apiKey a = apiKey b \<Longrightarrow> createApiClient z (apiFetch a) = createApiClient z (apiFetch b)"
  by (cases a; cases b) (auto simp: api_keys dest: list_requests_same)

lemmas log_keys = operationLogsKey_def operationLogKey_def emailTasksKey_def emailTaskKey_def

lemma LogFilters_eqI:
  "\<lbrakk>fAction f = fAction g; fObjectType f = fObjectType g; fObjectId f = fObjectId g; fActorId f = fActorId g;
    fFrom f = fFrom g; fTo f = fTo g; fResult f = fResult g\<rbrakk> \<Longrightarrow> f = (g :: LogFilters)"
  by simp

lemma MailFilters_eqI:
  "\<lbrakk>mRecipient f = mRecipient g; mKind f = mKind g; mStatus f = mStatus g; mFrom f = mFrom g; mTo f = mTo g;
    mFailedOnly f = mFailedOnly g\<rbrakk> \<Longrightarrow> f = (g :: MailFilters)"
  by simp

lemma logKey_fetch:
  assumes "logKey a = logKey b"
  shows "queryFetch z rt (LogQuery a) = queryFetch z rt (LogQuery b)"
proof (cases a)
  case (OperationLogs u f c)
  with assms obtain g d where b: "b = OperationLogs u g d" and e: "operationLogsKey u f c = operationLogsKey u g d"
    by (cases b) (auto simp: log_keys)
  from e have "f = g" and n: "nullish c [] = nullish d []"
    by (simp_all add: operationLogsKey_def LogFilters_eqI)
  with b have b: "b = OperationLogs u f d" "nullish c [] = nullish d []" by simp_all
  show ?thesis unfolding OperationLogs b(1) queryFetch.simps by (rule log_requests_same(1) [OF b(2)])
next
  case (EmailTaskList u f c)
  with assms obtain g d where b: "b = EmailTaskList u g d" and e: "emailTasksKey u f c = emailTasksKey u g d"
    by (cases b) (auto simp: log_keys)
  from e have "f = g" and n: "nullish c [] = nullish d []"
    by (simp_all add: emailTasksKey_def MailFilters_eqI)
  with b have b: "b = EmailTaskList u f d" "nullish c [] = nullish d []" by simp_all
  show ?thesis unfolding EmailTaskList b(1) queryFetch.simps by (rule log_requests_same(2) [OF b(2)])
next
  case (OneLog u i)
  with assms obtain v j where b: "b = OneLog v j" "nullish i [] = nullish j []"
    by (cases b) (auto simp: log_keys)
  show ?thesis unfolding OneLog b(1) queryFetch.simps by (rule arg_cong [OF entry_same(1) [OF b(2)]])
next
  case (OneTask u i)
  with assms obtain v j where b: "b = OneTask v j" "nullish i [] = nullish j []"
    by (cases b) (auto simp: log_keys)
  show ?thesis unfolding OneTask b(1) queryFetch.simps by (rule arg_cong [OF entry_same(2) [OF b(2)]])
qed

text \<open>The first parts of the keys, for each family of reads.\<close>

fun family :: "query \<Rightarrow> string set" where
  "family (ApiQuery a) = {''setup'', ''auth'', ''session-monitor'', ''access'', ''settings'', ''public'', ''personal-profile''}"
| "family (LogQuery l) = {''operation-logs'', ''operation-log'', ''email-tasks'', ''email-task''}"
| "family (OpsQuery o') = {''ops-overview'', ''ops-backup'', ''ops-diff'', ''ops-switch'', ''ops-task'', ''ops-schedules'',
     ''ops-tasks'', ''ops-switches'', ''ops-alerts'', ''ops-rules'', ''ops-results'', ''ops-audit''}"
| "family (ReleaseQuery r) = {''release-job'', ''release-jobs'', ''release-asset-options'', ''release-assets''}"

lemma in_family: "hd (queryKey a) \<in> KText ` js ` family a"
proof (cases a)
  case (ApiQuery x)
  then show ?thesis by (cases x) (simp_all add: api_keys)
next
  case (LogQuery x)
  then show ?thesis by (cases x) (simp_all add: log_keys)
next
  case (OpsQuery x)
  then show ?thesis by (cases x) (simp_all add: name_key_def)
next
  case (ReleaseQuery x)
  then show ?thesis by (cases x) (simp_all add: jobListKey_def assetOptionsKey_def)
qed

lemma same_family:
  assumes "queryKey a = queryKey b"
  shows "family a \<inter> family b \<noteq> {}"
proof -
  have "hd (queryKey a) \<in> KText ` js ` family a" "hd (queryKey a) \<in> KText ` js ` family b"
    using in_family [of a] in_family [of b] assms by simp_all
  then show ?thesis by auto
qed

text \<open>
  C24. Two reads that share an entry of the cache are the same request: whatever the filters, the cursor, the user
  and the page, equal keys send the same request (or none at all), so no page ever shows what another
  request returned.
\<close>

theorem cache_key_determines_request:
  assumes "queryKey a = queryKey b"
  shows "queryFetch z rt a = queryFetch z rt b"
proof -
  have "(\<exists>x y. a = ApiQuery x \<and> b = ApiQuery y) \<or> (\<exists>x y. a = LogQuery x \<and> b = LogQuery y)
    \<or> (\<exists>x y. a = OpsQuery x \<and> b = OpsQuery y) \<or> (\<exists>x y. a = ReleaseQuery x \<and> b = ReleaseQuery y)"
    using same_family [OF assms] by (cases a; cases b) simp_all
  then consider (api) x y where "a = ApiQuery x" "b = ApiQuery y" | (log) x y where "a = LogQuery x" "b = LogQuery y"
    | (ops) x y where "a = OpsQuery x" "b = OpsQuery y" | (release) x y where "a = ReleaseQuery x" "b = ReleaseQuery y"
    by blast
  then show ?thesis
  proof cases
    case api
    from assms have "apiKey x = apiKey y" unfolding api queryKey.simps .
    then have "createApiClient z (apiFetch x) = createApiClient z (apiFetch y)" by (rule apiKey_fetch)
    then show ?thesis unfolding api queryFetch.simps by (simp only:)
  next
    case log
    from assms have "logKey x = logKey y" unfolding log queryKey.simps .
    then show ?thesis unfolding log by (rule logKey_fetch)
  next
    case ops
    from assms have "opsKey x = opsKey y" unfolding ops queryKey.simps .
    then have "x = y" by (rule opsKey_inj)
    then show ?thesis unfolding ops by (simp only:)
  next
    case release
    from assms have "releaseKey x = releaseKey y" unfolding release queryKey.simps .
    then have "releaseFetch x = releaseFetch y" by (rule releaseKey_fetch)
    then show ?thesis unfolding release queryFetch.simps by (simp only:)
  qed
qed

definition anyUsers :: AccessListOptions where
  "anyUsers = \<lparr>aCursor = None, aQ = None, aRoleId = None, aStatus = None, aSort = None, aDirection = None\<rparr>"

theorem cache_key_determines_request_witness:
  "queryFetch (\<lambda>_ _. None) exampleRuntime (ApiQuery (UserList (anyUsers\<lparr>aCursor := Some []\<rparr>))) =
   queryFetch (\<lambda>_ _. None) exampleRuntime (ApiQuery (UserList anyUsers))"
  by (rule cache_key_determines_request) (simp add: api_keys listOptionKey_def anyUsers_def)

end
