(* ===== verification/SessionCache.thy ===== *)
theory SessionCache
  imports QueryCache Drafts
begin

text \<open>
  The life of a session in one tab: signing in (\<open>features/auth/login-form.tsx\<close>), the loader and the shell of the
  authenticated pages (\<open>routes/_authenticated.tsx\<close>, \<open>features/auth/authenticated-shell.tsx\<close>), the heartbeat
  (\<open>features/auth/session-monitor.tsx\<close>), the reaction to a 401 of any request (\<open>app/query-client.ts\<close>) and signing
  out. Each of them clears drafts and cached reads in its own way.

  The cache itself is the query library's; here it maps a key to the user in whose session the entry was read
  (\<^term>\<open>None\<close> for what is public). \<open>removeQueries\<close> removes what matches a key, and how the library matches is a
  parameter of the model; it documents that a key matches the keys it is a prefix of.
\<close>

type_synonym cache = "qkey \<rightharpoonup> jstr option"

type_synonym matching = "qkey \<Rightarrow> qkey \<Rightarrow> bool"

definition documented :: "matching \<Rightarrow> bool" where
  "documented m \<longleftrightarrow> (\<forall>p k. m p k \<longleftrightarrow> prefix p k)"

definition removeQueries :: "matching \<Rightarrow> qkey \<Rightarrow> cache \<Rightarrow> cache" where
  "removeQueries m p c = (\<lambda>k. if m p k then None else c k)"

definition removeAll :: "matching \<Rightarrow> qkey list \<Rightarrow> cache \<Rightarrow> cache" where
  "removeAll m ps c = fold (removeQueries m) ps c"

lemma removeAll_apply: "removeAll m ps c k = (if list_ex (\<lambda>p. m p k) ps then None else c k)"
  unfolding removeAll_def by (induction ps arbitrary: c) (auto simp: removeQueries_def)

record Tab =
  cookie :: "jstr option"
  page :: "jstr option"
  drafts :: DraftState
  cached :: cache

definition newTab :: Tab where
  "newTab = \<lparr>cookie = None, page = None, drafts = emptyDrafts, cached = Map.empty\<rparr>"

subsection \<open>Failures\<close>

definition clearExpiredSession :: "matching \<Rightarrow> thrown \<Rightarrow> Tab \<Rightarrow> Tab" where
  "clearExpiredSession m e t =
     (if \<not> isUnauthenticated e then t
      else t\<lparr>drafts := clearAccessDrafts (drafts t),
             cached := removeAll m [name_key [''auth'', ''current-user''], name_key [''access''], name_key [''settings'']] (cached t)\<rparr>)"

definition onQueryError :: "matching \<Rightarrow> thrown \<Rightarrow> Tab \<Rightarrow> Tab" where
  "onQueryError m e t = clearExpiredSession m e t"

definition onMutationError :: "matching \<Rightarrow> bool \<Rightarrow> thrown \<Rightarrow> Tab \<Rightarrow> Tab" where
  "onMutationError m preserveAccessDraftsOnError e t =
     (if preserveAccessDraftsOnError then t else clearExpiredSession m e t)"

text \<open>The heartbeat found the session gone: everything goes, and the sign-in page is shown.\<close>

definition sessionLost :: "thrown \<Rightarrow> Tab \<Rightarrow> Tab" where
  "sessionLost e t = (if \<not> isUnauthenticated e then t
     else t\<lparr>drafts := clearAccessDrafts (drafts t), cached := Map.empty, page := None\<rparr>)"

subsection \<open>The loader and the shell\<close>

text \<open>The loader reads the user of the session; without one it cleans up and redirects to the sign-in page.\<close>

definition loaderSucceeds :: "jstr \<Rightarrow> Tab \<Rightarrow> Tab" where
  "loaderSucceeds user t = t\<lparr>page := Some user, cached := (cached t)(currentUserQueryKey \<mapsto> Some user)\<rparr>"

definition loaderKeys :: "qkey list" where
  "loaderKeys = map name_key [[''auth'', ''current-user''], [''access''], [''personal-profile''], [''operational-warnings''],
     [''operation-log-status''], [''operation-logs''], [''operation-log''], [''settings'']]"

definition loaderFails :: "matching \<Rightarrow> thrown \<Rightarrow> Tab \<Rightarrow> Tab" where
  "loaderFails m e t = (if \<not> isUnauthenticated e then t
     else t\<lparr>drafts := clearAccessDrafts (drafts t), cached := removeAll m loaderKeys (cached t), page := None\<rparr>)"

text \<open>The keys of one user's own reads that the shell knows of.\<close>

definition ownKeys :: "jstr \<Rightarrow> qkey list" where
  "ownKeys user = map (\<lambda>n. [KText (js n), KText user]) [''personal-profile'', ''operational-warnings'', ''operation-log-status'',
     ''operation-logs'', ''operation-log'', ''email-tasks'']"

definition shellEffect :: "matching \<Rightarrow> jstr \<Rightarrow> Tab \<Rightarrow> Tab" where
  "shellEffect m user t =
     (let c = (case ownerID (drafts t) of
                 Some previous \<Rightarrow>
                   if previous \<noteq> [] \<and> previous \<noteq> user
                   then removeAll m (name_key [''access''] # ownKeys previous @ [name_key [''settings'']]) (cached t)
                   else cached t
               | None \<Rightarrow> cached t)
      in t\<lparr>drafts := setOwner user (drafts t), cached := c\<rparr>)"

definition logoutSucceeds :: "matching \<Rightarrow> Tab \<Rightarrow> Tab" where
  "logoutSucceeds m t =
     (let owner = ownerID (drafts t);
          c = removeAll m [currentUserQueryKey, name_key [''access''], name_key [''settings'']] (cached t);
          c' = (if truthy owner then removeAll m (ownKeys (the owner)) c else c)
      in t\<lparr>drafts := clearAccessDrafts (drafts t), cached := c', page := None\<rparr>)"

text \<open>Signing in stores the user that the server returned.\<close>

definition loginSucceeds :: "jstr \<Rightarrow> Tab \<Rightarrow> Tab" where
  "loginSucceeds user t = t\<lparr>cached := (cached t)(currentUserQueryKey \<mapsto> Some user)\<rparr>"

subsection \<open>Who may see an entry\<close>

text \<open>
  A read is public, or of the console pages (devices and releases), which cache one entry for all users, or
  belongs to the signed-in user: it is under a key that is cleared with the session, or under one with the user's
  identifier in it.
\<close>

fun publicQuery :: "query \<Rightarrow> bool" where
  "publicQuery (ApiQuery a) = (a = SetupStatus \<or> a = PublicIdentity)"
| "publicQuery _ = False"

fun consoleQuery :: "query \<Rightarrow> bool" where
  "consoleQuery (OpsQuery _) = True"
| "consoleQuery (ReleaseQuery (AssetInventory _)) = False"
| "consoleQuery (ReleaseQuery _) = True"
| "consoleQuery _ = False"

text \<open>The reads that the pages of a user make: with an identifier of a user it is their own.\<close>

fun ownQuery :: "jstr \<Rightarrow> query \<Rightarrow> bool" where
  "ownQuery u (ApiQuery (SessionMonitor v)) = (v = u)"
| "ownQuery u (ApiQuery (OnlineUsers v)) = (v = u)"
| "ownQuery u (ApiQuery (Retention v)) = (v = u)"
| "ownQuery u (ApiQuery (PersonalProfile v)) = (v = Some u)"
| "ownQuery u (LogQuery (OperationLogs v f c)) = (v = u)"
| "ownQuery u (LogQuery (OneLog v i)) = (v = u)"
| "ownQuery u (LogQuery (EmailTaskList v g c)) = (v = u)"
| "ownQuery u (LogQuery (OneTask v i)) = (v = u)"
| "ownQuery u (ReleaseQuery (AssetInventory v)) = (v = u)"
| "ownQuery u _ = True"

definition sessionKey :: "qkey \<Rightarrow> bool" where
  "sessionKey k \<longleftrightarrow> k = currentUserQueryKey \<or> prefix (name_key [''access'']) k \<or> prefix (name_key [''settings'']) k"

definition personalKey :: "jstr \<Rightarrow> qkey \<Rightarrow> bool" where
  "personalKey u k \<longleftrightarrow> list_ex (\<lambda>n. prefix [KText (js n), KText u] k)
     [''session-monitor'', ''personal-profile'', ''operation-logs'', ''operation-log'', ''email-tasks'', ''email-task'', ''release-assets'']"

lemmas session_keys = sessionKey_def personalKey_def api_keys log_keys jobListKey_def assetOptionsKey_def listOptionKey_def

lemma key_class:
  "ownQuery u rd \<Longrightarrow> publicQuery rd \<or> consoleQuery rd \<or> sessionKey (queryKey rd) \<or> personalKey u (queryKey rd)"
  by (cases "(u, rd)" rule: ownQuery.cases) (auto simp: session_keys split: apiQuery.splits)

lemma ops_not_personal: "\<not> personalKey v (opsKey x)"
  by (cases x) (simp_all add: session_keys)

lemma personal_key: "\<lbrakk>ownQuery u rd; personalKey v (queryKey rd)\<rbrakk> \<Longrightarrow> v = u"
  using ops_not_personal by (cases "(u, rd)" rule: ownQuery.cases) (auto simp: session_keys)

subsection \<open>What can happen\<close>

text \<open>
  The session of the tab is ended only by the server and by signing out here; other tabs leave it alone. A
  user's identifier is not empty. A request may fail with any error at any time.
\<close>

inductive tab_step :: "matching \<Rightarrow> Tab \<Rightarrow> Tab \<Rightarrow> bool" for m where
  signs_in: "\<lbrakk>page t = None; u \<noteq> []\<rbrakk> \<Longrightarrow> tab_step m t (loginSucceeds u (t\<lparr>cookie := Some u\<rparr>))"
| checks_session: "\<lbrakk>page t = None; cookie t = Some u\<rbrakk> \<Longrightarrow>
    tab_step m t (t\<lparr>cached := (cached t)(currentUserQueryKey \<mapsto> Some u)\<rparr>)"
| loads: "cookie t = Some u \<Longrightarrow> tab_step m t (loaderSucceeds u t)"
| load_fails: "tab_step m t (loaderFails m e t)"
| mounts: "page t = Some u \<Longrightarrow> tab_step m t (shellEffect m u t)"
| reads: "\<lbrakk>page t = Some u; cookie t = Some u; ownQuery u rd\<rbrakk> \<Longrightarrow>
    tab_step m t (t\<lparr>cached := (cached t)(queryKey rd \<mapsto> (if publicQuery rd then None else Some u))\<rparr>)"
| reads_public: "publicQuery rd \<Longrightarrow> tab_step m t (t\<lparr>cached := (cached t)(queryKey rd \<mapsto> None)\<rparr>)"
| query_fails: "tab_step m t (onQueryError m e t)"
| mutation_fails: "tab_step m t (onMutationError m preserve e t)"
| heartbeat_fails: "tab_step m t (sessionLost e t)"
| signs_out: "page t = Some u \<Longrightarrow> tab_step m t (logoutSucceeds m (t\<lparr>cookie := None\<rparr>))"
| expires: "tab_step m t (t\<lparr>cookie := None\<rparr>)"
| collects: "tab_step m t (t\<lparr>cached := (cached t)(k := None)\<rparr>)"

abbreviation tab_reaches :: "matching \<Rightarrow> Tab \<Rightarrow> bool" where
  "tab_reaches m \<equiv> (tab_step m)\<^sup>*\<^sup>* newTab"

definition ownEntries :: "Tab \<Rightarrow> bool" where
  "ownEntries t \<longleftrightarrow> (\<forall>u w. page t = Some w \<longrightarrow> cookie t = Some u \<longrightarrow> u = w)
     \<and> (\<forall>k w. cached t k = Some (Some w) \<longrightarrow>
          (sessionKey k \<longrightarrow> page t = Some w \<or> k = currentUserQueryKey \<and> page t = None)
          \<and> (\<forall>v. personalKey v k \<longrightarrow> w = v))"

lemma current_user_key: "sessionKey currentUserQueryKey" "\<not> personalKey v currentUserQueryKey"
  by (simp_all add: session_keys)

lemma removed_subset: "removeAll m ps c k = Some x \<Longrightarrow> c k = Some x"
  by (simp add: removeAll_apply split: if_splits)

text \<open>All but the shell's own clean-up remove what belongs to the session.\<close>

lemma session_removed:
  assumes "documented m" "sessionKey k" "{currentUserQueryKey, name_key [''access''], name_key [''settings'']} \<subseteq> set ps"
  shows "removeAll m ps c k = None"
  using assms by (auto simp: removeAll_apply documented_def sessionKey_def list_ex_iff)

lemma clean_ups:
  "{currentUserQueryKey, name_key [''access''], name_key [''settings'']}
     \<subseteq> set [name_key [''auth'', ''current-user''], name_key [''access''], name_key [''settings'']]"
  "{currentUserQueryKey, name_key [''access''], name_key [''settings'']} \<subseteq> set loaderKeys"
  by (simp_all add: loaderKeys_def currentUserQueryKey_def)

lemma logout_session:
  "\<lbrakk>documented m; sessionKey k\<rbrakk> \<Longrightarrow> cached (logoutSucceeds m t) k = None"
  using session_removed [of m k "[currentUserQueryKey, name_key [''access''], name_key [''settings'']]" "cached t"]
  by (auto simp: logoutSucceeds_def Let_def removeAll_apply split: if_splits)

lemma logout_subset: "cached (logoutSucceeds m t) k = Some x \<Longrightarrow> cached t k = Some x"
  by (auto simp: logoutSucceeds_def Let_def removeAll_apply split: if_splits)

lemma logout_page: "page (logoutSucceeds m t) = None" "cookie (logoutSucceeds m t) = cookie t"
  by (simp_all add: logoutSucceeds_def Let_def)

lemma own_clean_up:
  assumes "ownEntries t" "cached t' = removeAll m ps (cached t)" "page t' = None \<or> page t' = page t \<and> cookie t' = cookie t"
    "\<And>k. sessionKey k \<Longrightarrow> removeAll m ps (cached t) k = None"
  shows "ownEntries t'"
  using assms unfolding ownEntries_def by (metis option.distinct(1) removed_subset)

lemma expired_clean_up:
  assumes "documented m" "ownEntries t"
  shows "ownEntries (clearExpiredSession m e t)"
proof (cases "isUnauthenticated e")
  case True
  then show ?thesis
    using own_clean_up [OF assms(2), of "clearExpiredSession m e t" m] session_removed [OF assms(1) _ clean_ups(1)]
    by (simp add: clearExpiredSession_def)
qed (simp add: clearExpiredSession_def assms)

lemma own_step:
  assumes "tab_step m t t'" "documented m" "ownEntries t"
  shows "ownEntries t'"
  using assms
proof (induction rule: tab_step.induct)
  case (signs_in t u)
  then show ?case using current_user_key by (auto simp: ownEntries_def loginSucceeds_def)
next
  case (checks_session t u)
  then show ?case using current_user_key by (auto simp: ownEntries_def)
next
  case (loads t u)
  then show ?case using current_user_key by (auto simp: ownEntries_def loaderSucceeds_def)
next
  case (load_fails t e)
  then show ?case
    using own_clean_up [of t "loaderFails m e t" m loaderKeys] session_removed [OF _ _ clean_ups(2)]
    by (cases "isUnauthenticated e") (simp_all add: loaderFails_def)
next
  case (mounts t u)
  then show ?case
    by (auto simp: ownEntries_def shellEffect_def Let_def split: option.splits if_splits dest: removed_subset)
next
  case (reads t u rd)
  then show ?case
    using personal_key [of u rd] by (auto simp: ownEntries_def)
next
  case (query_fails t e)
  then show ?case by (simp add: onQueryError_def expired_clean_up)
next
  case (mutation_fails t preserve e)
  then show ?case by (simp add: onMutationError_def expired_clean_up)
next
  case (heartbeat_fails t e)
  then show ?case by (simp add: sessionLost_def ownEntries_def)
next
  case (signs_out t u)
  have kept: "cached t k = Some (Some w) \<and> \<not> sessionKey k" if "cached (logoutSucceeds m (t\<lparr>cookie := None\<rparr>)) k = Some (Some w)" for k w
    using that logout_session [OF signs_out.prems(1), of k "t\<lparr>cookie := None\<rparr>"] logout_subset [of m "t\<lparr>cookie := None\<rparr>" k "Some w"]
    by auto
  show ?case using signs_out.prems(2) by (auto simp: ownEntries_def logout_page dest: kept)
qed (auto simp: ownEntries_def)

lemma own_reached:
  assumes "tab_reaches m t" "documented m"
  shows "ownEntries t"
  using assms(1)
proof (induction rule: rtranclp_induct)
  case base
  show ?case by (simp add: ownEntries_def newTab_def)
next
  case (step t t')
  then show ?case using own_step assms(2) by blast
qed


subsection \<open>An example: two users in one tab\<close>

definition alice :: jstr where "alice = js ''alice''"
definition bob :: jstr where "bob = js ''bob''"

text \<open>
  A tab where Alice's recent releases and mail settings were read, and then Bob signed in: her settings are
  gone, her releases are not.
\<close>

definition aliceTab :: Tab where
  "aliceTab = \<lparr>cookie = Some alice, page = Some alice, drafts = emptyDrafts\<lparr>ownerID := Some alice\<rparr>,
     cached = [currentUserQueryKey \<mapsto> Some alice, queryKey (ReleaseQuery RecentJobs) \<mapsto> Some alice,
       queryKey (ApiQuery MailSettings) \<mapsto> Some alice]\<rparr>"

definition bobTab :: Tab where
  "bobTab = loaderSucceeds bob (loginSucceeds bob ((logoutSucceeds prefix (aliceTab\<lparr>cookie := None\<rparr>))\<lparr>cookie := Some bob\<rparr>))"

lemma alice_reached: "tab_reaches prefix aliceTab"
proof -
  let ?t1 = "loginSucceeds alice (newTab\<lparr>cookie := Some alice\<rparr>)"
  let ?t2 = "loaderSucceeds alice ?t1"
  let ?t3 = "shellEffect prefix alice ?t2"
  let ?t4 = "?t3\<lparr>cached := (cached ?t3)(queryKey (ReleaseQuery RecentJobs) \<mapsto> Some alice)\<rparr>"
  let ?t5 = "?t4\<lparr>cached := (cached ?t4)(queryKey (ApiQuery MailSettings) \<mapsto> Some alice)\<rparr>"
  have p: "page ?t3 = Some alice" "cookie ?t3 = Some alice"
    by (simp_all add: shellEffect_def loaderSucceeds_def loginSucceeds_def)
  have "tab_step prefix newTab ?t1" by (rule signs_in) (simp_all add: newTab_def alice_def)
  moreover have "tab_step prefix ?t1 ?t2" by (rule loads) (simp add: loginSucceeds_def)
  moreover have "tab_step prefix ?t2 ?t3" by (rule mounts) (simp add: loaderSucceeds_def)
  moreover have "tab_step prefix ?t3 ?t4"
    using reads [of ?t3 alice "ReleaseQuery RecentJobs" prefix] p by simp
  moreover have "tab_step prefix ?t4 ?t5"
    using reads [of ?t4 alice "ApiQuery MailSettings" prefix] p by simp
  moreover have "?t5 = aliceTab"
    by (simp add: aliceTab_def shellEffect_def loaderSucceeds_def loginSucceeds_def newTab_def emptyDrafts_def setOwner_def)
  ultimately show ?thesis by (metis (no_types, lifting) rtranclp.rtrancl_into_rtrancl rtranclp.rtrancl_refl)
qed

lemma bob_reached: "tab_reaches prefix bobTab"
proof -
  let ?t1 = "logoutSucceeds prefix (aliceTab\<lparr>cookie := None\<rparr>)"
  let ?t2 = "loginSucceeds bob (?t1\<lparr>cookie := Some bob\<rparr>)"
  have "tab_step prefix aliceTab ?t1" by (rule signs_out) (simp add: aliceTab_def)
  moreover have "tab_step prefix ?t1 ?t2" by (rule signs_in) (simp_all add: logout_page bob_def)
  moreover have "tab_step prefix ?t2 bobTab" unfolding bobTab_def
    by (rule loads [of "loginSucceeds bob (?t1\<lparr>cookie := Some bob\<rparr>)" bob, simplified]) (simp add: loginSucceeds_def)
  ultimately show ?thesis using alice_reached by (meson rtranclp.rtrancl_into_rtrancl)
qed

lemma bob_finds:
  "page bobTab = Some bob" "cached bobTab (queryKey (ReleaseQuery RecentJobs)) = Some (Some alice)"
  "cached bobTab (queryKey (ApiQuery MailSettings)) = None"
  "cached bobTab (queryKey (ApiQuery CurrentUser)) = Some (Some bob)"
  by (simp_all add: bobTab_def aliceTab_def loaderSucceeds_def loginSucceeds_def logoutSucceeds_def Let_def removeAll_apply ownKeys_def
      session_keys alice_def bob_def)


text \<open>
  The device and release reads do outlive the session: after Alice has signed out and Bob has signed in, in the
  same tab, the list of recent releases that Bob's home page shows until its own read returns is still Alice's.
\<close>

theorem console_reads_outlive_session:
  "\<exists>t u w. tab_reaches prefix t \<and> page t = Some u \<and> w \<noteq> u \<and>
     cached t (queryKey (ReleaseQuery RecentJobs)) = Some (Some w)"
proof -
  have "alice \<noteq> bob" by (simp add: alice_def bob_def)
  then show ?thesis using bob_reached bob_finds(1,2) by blast
qed

end
