(* ===== verification/Preferences.thy ===== *)
theory Preferences
  imports Drafts
begin

text \<open>
  Language and appearance: \<open>shared/i18n/index.ts\<close>, whose operations overlap because changing the language is
  asynchronous, and the provider of \<open>shared/theme/index.tsx\<close>. Both are step relations whose steps are the calls
  of the interface and the events of the browser.
\<close>

section \<open>The language\<close>

definition LOCALE_STORAGE_KEY :: jstr where
  "LOCALE_STORAGE_KEY = js ''temvia.locale''"

fun localeName :: "uiLocale \<Rightarrow> jstr" where
  "localeName En = js ''en''"
| "localeName ZhCN = js ''zh-CN''"

text \<open>
  The lower-case form of a language tag. Of the units outside ASCII none becomes one of the letters compared
  with here, so they are kept.
\<close>

definition lowerTag :: "jstr \<Rightarrow> jstr" where
  "lowerTag = map (\<lambda>c. if 0x41 \<le> c \<and> c \<le> 0x5A then c + 0x20 else c)"

definition asLocale :: "jstr option \<Rightarrow> uiLocale option" where
  "asLocale v =
     (if \<not> truthy v then None
      else (let normalized = lowerTag (the v) in
        if normalized = js ''zh'' \<or> startsWith normalized (js ''zh-'') then Some ZhCN
        else if normalized = js ''en'' \<or> startsWith normalized (js ''en-'') then Some En
        else None))"

definition selectInitialLocale :: "jstr option \<Rightarrow> jstr list \<Rightarrow> uiLocale" where
  "selectInitialLocale stored languages =
     (case asLocale stored of Some l \<Rightarrow> l
      | None \<Rightarrow> (case List.map_filter (\<lambda>l. asLocale (Some l)) languages of l # _ \<Rightarrow> l | [] \<Rightarrow> En))"

datatype changeKind = GuestChange | AccountChange | GuestRestored

text \<open>
  The module's state with the document and the storage: \<open>localeOperation\<close>, \<open>accountLocaleActive\<close>, the language
  of the document, the stored value, and the operations that wait for the i18n library, each with its
  number. Reading or writing a blocked storage throws, which the code ignores.
\<close>

record Localization =
  localeOperation :: nat
  accountLocaleActive :: bool
  documentLang :: uiLocale
  storedLocale :: "jstr option"
  storageBlocked :: bool
  waiting :: "(nat \<times> uiLocale \<times> changeKind) list"

definition readStored :: "Localization \<Rightarrow> jstr option" where
  "readStored s = (if storageBlocked s then None else storedLocale s)"

definition initializeI18n :: "jstr list \<Rightarrow> jstr option \<Rightarrow> bool \<Rightarrow> Localization" where
  "initializeI18n languages stored blocked =
     \<lparr>localeOperation = 0, accountLocaleActive = False,
      documentLang = selectInitialLocale (if blocked then None else stored) languages,
      storedLocale = stored, storageBlocked = blocked, waiting = []\<rparr>"

definition beginChange :: "uiLocale \<Rightarrow> changeKind \<Rightarrow> Localization \<Rightarrow> Localization" where
  "beginChange l knd s =
     s\<lparr>localeOperation := localeOperation s + 1, accountLocaleActive := (knd = AccountChange),
       waiting := waiting s @ [(localeOperation s + 1, l, knd)]\<rparr>"

definition changeGuestLocale :: "uiLocale \<Rightarrow> Localization \<Rightarrow> Localization" where
  "changeGuestLocale l s = beginChange l GuestChange s"

definition changeLocale :: "uiLocale \<Rightarrow> Localization \<Rightarrow> Localization" where
  "changeLocale l s = changeGuestLocale l s"

definition changeAccountLocale :: "uiLocale \<Rightarrow> Localization \<Rightarrow> Localization" where
  "changeAccountLocale l s = beginChange l AccountChange s"

definition restoreGuestLocale :: "jstr list \<Rightarrow> Localization \<Rightarrow> Localization" where
  "restoreGuestLocale languages s = beginChange (selectInitialLocale (readStored s) languages) GuestRestored s"

text \<open>The rest of an operation, once the library has changed the language.\<close>

definition syncDocumentLanguage :: "uiLocale \<Rightarrow> Localization \<Rightarrow> Localization" where
  "syncDocumentLanguage l s = s\<lparr>documentLang := l\<rparr>"

definition finishChange :: "nat \<times> uiLocale \<times> changeKind \<Rightarrow> Localization \<Rightarrow> Localization" where
  "finishChange w s =
     (case w of (n, l, knd) \<Rightarrow>
       let s = s\<lparr>waiting := remove1 w (waiting s)\<rparr> in
       if n \<noteq> localeOperation s then s
       else (let s = syncDocumentLanguage l s in
         if knd = GuestChange \<and> \<not> storageBlocked s then s\<lparr>storedLocale := Some (localeName l)\<rparr> else s))"

definition onStorage :: "jstr option \<Rightarrow> jstr option \<Rightarrow> Localization \<Rightarrow> Localization" where
  "onStorage key newValue s =
     (if key \<noteq> Some LOCALE_STORAGE_KEY \<or> newValue \<noteq> Some (js ''en'') \<and> newValue \<noteq> Some (js ''zh-CN'') then s
      else if \<not> accountLocaleActive s then changeGuestLocale (if newValue = Some (js ''en'') then En else ZhCN) s
      else s)"

subsection \<open>What can happen\<close>

text \<open>The run remembers the last language that was asked for, and the values a guest or another tab has chosen.\<close>

record LocaleRun =
  now :: Localization
  lastAsked :: uiLocale
  lastAccount :: "uiLocale option"
  chosen :: "jstr set"

definition startLocale :: "jstr list \<Rightarrow> jstr option \<Rightarrow> bool \<Rightarrow> LocaleRun" where
  "startLocale languages stored blocked =
     (let s = initializeI18n languages stored blocked in
      \<lparr>now = s, lastAsked = documentLang s, lastAccount = None, chosen = set_option stored\<rparr>)"

inductive locale_step :: "jstr list \<Rightarrow> LocaleRun \<Rightarrow> LocaleRun \<Rightarrow> bool" for languages where
  guest: "locale_step languages r (r\<lparr>now := changeLocale l (now r), lastAsked := l, chosen := insert (localeName l) (chosen r)\<rparr>)"
| account: "locale_step languages r (r\<lparr>now := changeAccountLocale l (now r), lastAsked := l, lastAccount := Some l\<rparr>)"
| restore: "locale_step languages r (r\<lparr>now := restoreGuestLocale languages (now r),
    lastAsked := selectInitialLocale (readStored (now r)) languages\<rparr>)"
| finish: "w \<in> set (waiting (now r)) \<Longrightarrow> locale_step languages r (r\<lparr>now := finishChange w (now r)\<rparr>)"
| other_tab: "locale_step languages r (r\<lparr>now := (now r)\<lparr>storedLocale := v\<rparr>, chosen := chosen r \<union> set_option v\<rparr>)"
| storage_event: "locale_step languages r
    (r\<lparr>now := onStorage key (Some (localeName l)) (now r), chosen := insert (localeName l) (chosen r),
       lastAsked := (if onStorage key (Some (localeName l)) (now r) = now r then lastAsked r else l)\<rparr>)"
| other_event: "newValue \<notin> Some ` localeName ` UNIV \<Longrightarrow> locale_step languages r (r\<lparr>now := onStorage key newValue (now r)\<rparr>)"
| blocks: "locale_step languages r (r\<lparr>now := (now r)\<lparr>storageBlocked := b\<rparr>\<rparr>)"

abbreviation locale_reaches :: "jstr list \<Rightarrow> jstr option \<Rightarrow> bool \<Rightarrow> LocaleRun \<Rightarrow> bool" where
  "locale_reaches languages stored blocked \<equiv> (locale_step languages)\<^sup>*\<^sup>* (startLocale languages stored blocked)"

text \<open>
  The invariant: operations are numbered once each and none is from the future; the last one asks for the last
  language; once it has finished the document shows that language; an active account language is the
  account's; and what is stored, or is about to be, was chosen by a guest.
\<close>

definition soundChange :: "nat \<Rightarrow> uiLocale \<Rightarrow> jstr set \<Rightarrow> nat \<times> uiLocale \<times> changeKind \<Rightarrow> bool" where
  "soundChange n ask ch w \<longleftrightarrow> fst w \<le> n \<and> (fst w = n \<longrightarrow> fst (snd w) = ask)
     \<and> (snd (snd w) = GuestChange \<longrightarrow> localeName (fst (snd w)) \<in> ch)"

definition soundLocale :: "uiLocale \<Rightarrow> uiLocale option \<Rightarrow> jstr set \<Rightarrow> Localization \<Rightarrow> bool" where
  "soundLocale ask acc ch s \<longleftrightarrow>
     distinct (map fst (waiting s)) \<and> list_all (soundChange (localeOperation s) ask ch) (waiting s)
     \<and> (localeOperation s \<notin> fst ` set (waiting s) \<longrightarrow> documentLang s = ask)
     \<and> (accountLocaleActive s \<longrightarrow> acc = Some ask) \<and> set_option (storedLocale s) \<subseteq> ch"

lemma begin_sound:
  assumes s: "soundLocale ask acc ch s" and c: "knd = GuestChange \<longrightarrow> localeName l \<in> ch'" "ch \<subseteq> ch'"
    and a: "knd = AccountChange \<longrightarrow> acc' = Some l"
  shows "soundLocale l acc' ch' (beginChange l knd s)"
proof -
  have le: "fst w \<le> localeOperation s" if "w \<in> set (waiting s)" for w
    using s that by (auto simp: soundLocale_def soundChange_def list_all_iff)
  then have "localeOperation s + 1 \<notin> fst ` set (waiting s)" by force
  moreover have "list_all (soundChange (localeOperation s + 1) l ch') (waiting s)"
    using s c le by (fastforce simp: soundLocale_def soundChange_def list_all_iff)
  ultimately show ?thesis
    using s c a by (auto simp: soundLocale_def beginChange_def soundChange_def)
qed

lemma finish_sound:
  assumes s: "soundLocale ask acc ch s" and w: "w \<in> set (waiting s)"
  shows "soundLocale ask acc ch (finishChange w s)"
proof -
  obtain n l knd where wd: "w = (n, l, knd)" by (cases w)
  have d: "distinct (map fst (remove1 w (waiting s)))"
    using s by (auto simp: soundLocale_def distinct_map distinct_remove1 intro: inj_on_subset)
  have l: "list_all (soundChange (localeOperation s) ask ch) (remove1 w (waiting s))"
    using s set_remove1_subset [of w "waiting s"] by (auto simp: soundLocale_def list_all_iff)
  have sw: "soundChange (localeOperation s) ask ch w"
    using s w by (auto simp: soundLocale_def list_all_iff)
  have other: "fst ` set (waiting s) \<subseteq> insert n (fst ` set (remove1 w (waiting s)))"
    using w by (auto simp: wd in_set_remove1 image_iff)
  show ?thesis
    using s d l sw other by (auto simp: soundLocale_def finishChange_def syncDocumentLanguage_def wd Let_def soundChange_def)
qed

lemma storage_sound:
  assumes "soundLocale ask acc ch s"
  shows "soundLocale (if onStorage key (Some (localeName l)) s = s then ask else l) acc (insert (localeName l) ch)
    (onStorage key (Some (localeName l)) s)"
proof -
  have grow: "soundLocale ask acc (insert (localeName l) ch) s"
    using assms by (auto simp: soundLocale_def soundChange_def list_all_iff)
  show ?thesis
  proof (cases "onStorage key (Some (localeName l)) s = s")
    case False
    then have "onStorage key (Some (localeName l)) s = beginChange l GuestChange s"
      by (cases l) (auto simp: onStorage_def changeGuestLocale_def split: if_splits)
    moreover have "soundLocale l acc (insert (localeName l) ch) (beginChange l GuestChange s)"
      by (rule begin_sound [OF grow]) auto
    ultimately show ?thesis using False by simp
  qed (use grow in simp)
qed

abbreviation soundRun :: "LocaleRun \<Rightarrow> bool" where
  "soundRun r \<equiv> soundLocale (lastAsked r) (lastAccount r) (chosen r) (now r)"

lemma locale_step_sound: "\<lbrakk>locale_step languages r r'; soundRun r\<rbrakk> \<Longrightarrow> soundRun r'"
proof (induction rule: locale_step.induct)
  case (guest r l)
  then have "soundLocale l (lastAccount r) (insert (localeName l) (chosen r)) (beginChange l GuestChange (now r))"
    by (rule begin_sound) auto
  then show ?case by (simp add: changeLocale_def changeGuestLocale_def)
next
  case (account r l)
  then have "soundLocale l (Some l) (chosen r) (beginChange l AccountChange (now r))"
    by (rule begin_sound) auto
  then show ?case by (simp add: changeAccountLocale_def)
next
  case (restore r)
  let ?l = "selectInitialLocale (readStored (now r)) languages"
  from restore have "soundLocale ?l (lastAccount r) (chosen r) (beginChange ?l GuestRestored (now r))"
    by (rule begin_sound) auto
  then show ?case by (simp add: restoreGuestLocale_def)
next
  case (finish w r)
  then show ?case using finish_sound by simp
next
  case (other_tab r v)
  then show ?case by (auto simp: soundLocale_def soundChange_def list_all_iff)
next
  case (storage_event r key l)
  then show ?case using storage_sound by simp
next
  case (other_event newValue r key)
  then have "onStorage key newValue (now r) = now r"
    using rangeI [of localeName En] rangeI [of localeName ZhCN] by (auto simp: onStorage_def)
  with other_event show ?case by simp
qed (auto simp: soundLocale_def)

lemma locale_reached_sound: "locale_reaches languages stored blocked r \<Longrightarrow> soundRun r"
proof (induction rule: rtranclp_induct)
  case base
  show ?case by (simp add: startLocale_def initializeI18n_def soundLocale_def Let_def)
qed (rule locale_step_sound)

text \<open>
  C35. The last choice of a language wins, in whatever order the overlapping changes finish: once none is waiting, the
  document has the language asked for last; and while an account's language is active, that is the account's,
  so neither an older change of a guest nor another tab's preference replaces it. What this code stores as the
  guest's preference is always a guest's (or another tab's) choice, never an account's language.
\<close>

theorem last_language_wins:
  assumes "locale_reaches languages stored blocked r" "waiting (now r) = []"
  shows "documentLang (now r) = lastAsked r \<and> (accountLocaleActive (now r) \<longrightarrow> lastAccount r = Some (documentLang (now r)))
    \<and> set_option (storedLocale (now r)) \<subseteq> chosen r"
  using locale_reached_sound [OF assms(1)] assms(2) by (simp add: soundLocale_def)

definition overlapped :: LocaleRun where
  "overlapped = (let r = startLocale [] None False;
       r1 = r\<lparr>now := changeLocale ZhCN (now r), lastAsked := ZhCN, chosen := insert (localeName ZhCN) (chosen r)\<rparr>;
       r2 = r1\<lparr>now := changeAccountLocale En (now r1), lastAsked := En, lastAccount := Some En\<rparr>;
       r3 = r2\<lparr>now := finishChange (2, En, AccountChange) (now r2)\<rparr>
     in r3\<lparr>now := finishChange (1, ZhCN, GuestChange) (now r3)\<rparr>)"

lemma overlapped_reached: "locale_reaches [] None False overlapped"
proof -
  let ?r = "startLocale [] None False"
  let ?r1 = "?r\<lparr>now := changeLocale ZhCN (now ?r), lastAsked := ZhCN, chosen := insert (localeName ZhCN) (chosen ?r)\<rparr>"
  let ?r2 = "?r1\<lparr>now := changeAccountLocale En (now ?r1), lastAsked := En, lastAccount := Some En\<rparr>"
  let ?r3 = "?r2\<lparr>now := finishChange (2, En, AccountChange) (now ?r2)\<rparr>"
  have "locale_step [] ?r ?r1" by (rule guest)
  moreover have "locale_step [] ?r1 ?r2" by (rule account)
  moreover have "locale_step [] ?r2 ?r3"
    by (rule finish) (simp add: changeAccountLocale_def changeLocale_def changeGuestLocale_def beginChange_def startLocale_def
      initializeI18n_def Let_def)
  moreover have "locale_step [] ?r3 overlapped" unfolding overlapped_def Let_def
    by (rule finish) (simp add: changeAccountLocale_def changeLocale_def changeGuestLocale_def beginChange_def startLocale_def
      initializeI18n_def Let_def finishChange_def syncDocumentLanguage_def)
  ultimately show ?thesis by (meson rtranclp.rtrancl_into_rtrancl rtranclp.rtrancl_refl)
qed

theorem last_language_wins_witness: "documentLang (now overlapped) = En"
proof -
  have "waiting (now overlapped) = []" "lastAsked overlapped = En"
    by (simp_all add: overlapped_def changeAccountLocale_def changeLocale_def changeGuestLocale_def beginChange_def startLocale_def
      initializeI18n_def Let_def finishChange_def syncDocumentLanguage_def)
  with last_language_wins [OF overlapped_reached] show ?thesis by simp
qed

section \<open>The appearance\<close>

datatype Theme = LightTheme | DarkTheme | SystemTheme

datatype ResolvedTheme = LightShown | DarkShown

fun themeName :: "Theme \<Rightarrow> jstr" where
  "themeName LightTheme = js ''light''"
| "themeName DarkTheme = js ''dark''"
| "themeName SystemTheme = js ''system''"

definition THEME_STORAGE_KEY :: jstr where
  "THEME_STORAGE_KEY = js ''temvia.theme''"

definition isTheme :: "jstr option \<Rightarrow> bool" where
  "isTheme v = (v = Some (js ''light'') \<or> v = Some (js ''dark'') \<or> v = Some (js ''system''))"

definition themeOf :: "jstr option \<Rightarrow> Theme" where
  "themeOf v = (if v = Some (js ''light'') then LightTheme else if v = Some (js ''dark'') then DarkTheme else SystemTheme)"

text \<open>What the browser has: its storage, and the preference of the system, if it can be asked (\<open>matchMedia\<close>).\<close>

record Platform =
  themeStored :: "jstr option"
  themeBlocked :: bool
  prefersDark :: "bool option"

definition readStoredTheme :: "Platform \<Rightarrow> Theme" where
  "readStoredTheme b = (if themeBlocked b then SystemTheme else if isTheme (themeStored b) then themeOf (themeStored b) else SystemTheme)"

definition systemTheme :: "Platform \<Rightarrow> ResolvedTheme" where
  "systemTheme b = (if prefersDark b = Some True then DarkShown else LightShown)"

definition resolveTheme :: "Platform \<Rightarrow> Theme \<Rightarrow> ResolvedTheme" where
  "resolveTheme b th = (case th of LightTheme \<Rightarrow> LightShown | DarkTheme \<Rightarrow> DarkShown | SystemTheme \<Rightarrow> systemTheme b)"

text \<open>
  The provider's state with the document: the theme, the system's theme as last seen, and what the document
  shows (its class, its data attribute and its colour scheme).
\<close>

record ThemeState =
  platform :: Platform
  themeChosen :: Theme
  systemResolvedTheme :: ResolvedTheme
  lightClass :: bool
  darkClass :: bool
  dataTheme :: Theme
  colorScheme :: ResolvedTheme

definition applyTheme :: "Theme \<Rightarrow> ThemeState \<Rightarrow> ThemeState" where
  "applyTheme th s = (let resolved = resolveTheme (platform s) th in
     s\<lparr>lightClass := (resolved = LightShown), darkClass := (resolved = DarkShown), dataTheme := th, colorScheme := resolved\<rparr>)"

text \<open>The effect of a changed theme applies it and stores it, if the storage can be written.\<close>

definition themeEffect :: "ThemeState \<Rightarrow> ThemeState" where
  "themeEffect s = (let s = applyTheme (themeChosen s) s in
     if themeBlocked (platform s) then s
     else s\<lparr>platform := (platform s)\<lparr>themeStored := Some (themeName (themeChosen s))\<rparr>\<rparr>)"

definition setThemeState :: "Theme \<Rightarrow> ThemeState \<Rightarrow> ThemeState" where
  "setThemeState th s = (if th = themeChosen s then s else themeEffect (s\<lparr>themeChosen := th\<rparr>))"

definition startTheme :: "Platform \<Rightarrow> ThemeState" where
  "startTheme b = themeEffect \<lparr>platform = b, themeChosen = readStoredTheme b, systemResolvedTheme = systemTheme b,
     lightClass = False, darkClass = False, dataTheme = readStoredTheme b, colorScheme = LightShown\<rparr>"

definition setTheme :: "Theme \<Rightarrow> ThemeState \<Rightarrow> ThemeState" where
  "setTheme th s =
     (let s = (if th = SystemTheme then s\<lparr>systemResolvedTheme := systemTheme (platform s)\<rparr> else s)
      in setThemeState th (applyTheme th s))"

definition onSystemThemeChange :: "ThemeState \<Rightarrow> ThemeState" where
  "onSystemThemeChange s =
     (let s = s\<lparr>systemResolvedTheme := systemTheme (platform s)\<rparr>
      in if themeChosen s = SystemTheme then applyTheme SystemTheme s else s)"

definition onThemeStorage :: "jstr option \<Rightarrow> jstr option \<Rightarrow> ThemeState \<Rightarrow> ThemeState" where
  "onThemeStorage key newValue s =
     (if key \<noteq> Some THEME_STORAGE_KEY then s
      else (let th = (if isTheme newValue then themeOf newValue else SystemTheme) in setThemeState th (applyTheme th s)))"

text \<open>What the provider tells the components that use it.\<close>

definition resolvedTheme :: "ThemeState \<Rightarrow> ResolvedTheme" where
  "resolvedTheme s = (case themeChosen s of SystemTheme \<Rightarrow> systemResolvedTheme s | LightTheme \<Rightarrow> LightShown | DarkTheme \<Rightarrow> DarkShown)"

inductive theme_step :: "ThemeState \<Rightarrow> ThemeState \<Rightarrow> bool" where
  sets: "theme_step s (setTheme th s)"
| system: "prefersDark (platform s) \<noteq> None \<Longrightarrow>
    theme_step s (onSystemThemeChange (s\<lparr>platform := (platform s)\<lparr>prefersDark := Some d\<rparr>\<rparr>))"
| storage: "theme_step s (onThemeStorage key newValue (s\<lparr>platform := (platform s)\<lparr>themeStored := v\<rparr>\<rparr>))"
| blocks_theme: "theme_step s (s\<lparr>platform := (platform s)\<lparr>themeBlocked := b\<rparr>\<rparr>)"

definition themeShown :: "ThemeState \<Rightarrow> bool" where
  "themeShown s \<longleftrightarrow> dataTheme s = themeChosen s \<and> colorScheme s = resolveTheme (platform s) (themeChosen s)
     \<and> (lightClass s \<longleftrightarrow> colorScheme s = LightShown) \<and> (darkClass s \<longleftrightarrow> colorScheme s = DarkShown)
     \<and> systemResolvedTheme s = systemTheme (platform s)"

lemmas theme_defs = setTheme_def setThemeState_def themeEffect_def applyTheme_def onSystemThemeChange_def onThemeStorage_def
  resolveTheme_def systemTheme_def Let_def

lemma themeShown_step: "\<lbrakk>theme_step s s'; themeShown s\<rbrakk> \<Longrightarrow> themeShown s'"
  by (induction rule: theme_step.induct) (auto simp: themeShown_def theme_defs split: Theme.splits)

text \<open>
  Whatever the user, the system and other tabs do, the document shows exactly the chosen theme, resolved with the
  system's present preference: one of the two classes, the same colour scheme, and what the components are told.
\<close>

theorem document_shows_theme:
  assumes "theme_step\<^sup>*\<^sup>* (startTheme b) s"
  shows "dataTheme s = themeChosen s \<and> colorScheme s = resolveTheme (platform s) (themeChosen s)
    \<and> lightClass s = (colorScheme s = LightShown) \<and> darkClass s = (\<not> lightClass s) \<and> resolvedTheme s = colorScheme s"
proof -
  from assms have "themeShown s"
  proof (induction rule: rtranclp_induct)
    case base
    show ?case by (auto simp: startTheme_def themeShown_def theme_defs split: Theme.splits)
  qed (rule themeShown_step)
  then show ?thesis
    by (cases "colorScheme s") (auto simp: themeShown_def resolvedTheme_def resolveTheme_def split: Theme.splits)
qed

theorem document_shows_theme_witness:
  "colorScheme (setTheme SystemTheme (startTheme \<lparr>themeStored = Some (js ''light''), themeBlocked = False, prefersDark = Some True\<rparr>)) =
     DarkShown" (is "colorScheme (setTheme SystemTheme ?s) = DarkShown")
proof -
  have "theme_step\<^sup>*\<^sup>* ?s (setTheme SystemTheme ?s)" by (rule r_into_rtranclp) (rule sets)
  from document_shows_theme [OF this] show ?thesis
    by (simp add: theme_defs startTheme_def readStoredTheme_def isTheme_def themeOf_def)
qed

end
