(* ===== verification/Feedback.thy ===== *)
theory Feedback
  imports Problems
begin

text \<open>
  Announcing failures (\<open>shared/feedback.ts\<close>). Several components observe the same failed read and render more
  than once; an error object is announced once. An error is what was thrown, with its identity: a number
  for an object, \<^term>\<open>None\<close> for a value that is none.
\<close>

record caughtError =
  identity :: "nat option"
  thrownValue :: thrown

record RequestFeedbackOptions =
  fbTitle :: "jstr option"
  fbDescription :: "jstr option"

definition readFailureFeedback :: "thrown \<Rightarrow> jstr \<Rightarrow> jstr \<Rightarrow> jstr \<Rightarrow> jstr \<Rightarrow> RequestFeedbackOptions" where
  "readFailureFeedback e unavailableTitle unavailableDescription forbiddenTitle forbiddenDescription =
     (if isForbidden e then \<lparr>fbTitle = Some forbiddenTitle, fbDescription = Some forbiddenDescription\<rparr>
      else \<lparr>fbTitle = Some unavailableTitle, fbDescription = Some unavailableDescription\<rparr>)"

text \<open>A message on the screen: its text and, below it, a description. \<open>describe\<close> is \<open>translateProblemWithFields\<close>.\<close>

datatype toast = ErrorToast jstr "jstr option" | SuccessToast jstr

definition notifyRequestError :: "(thrown \<Rightarrow> jstr) \<Rightarrow> thrown \<Rightarrow> RequestFeedbackOptions \<Rightarrow> toast list" where
  "notifyRequestError describe e opt =
     (if isRequestCancelled e then []
      else (let description = nullish (fbDescription opt) (describe e) in
        if truthy (fbTitle opt) then [ErrorToast (the (fbTitle opt)) (Some description)]
        else [ErrorToast description None]))"

definition notifySuccess :: "jstr \<Rightarrow> toast list" where
  "notifySuccess message = [SuccessToast message]"

text \<open>The objects announced so far; then the announcements, and the error each is about.\<close>

definition notifyRequestErrorOnce :: "(thrown \<Rightarrow> jstr) \<Rightarrow> caughtError \<Rightarrow> RequestFeedbackOptions \<Rightarrow> nat set \<Rightarrow> nat set \<times> toast list" where
  "notifyRequestErrorOnce describe e opt announced =
     (case identity e of
        Some i \<Rightarrow> if i \<in> announced then (announced, [])
                  else (insert i announced, notifyRequestError describe (thrownValue e) opt)
      | None \<Rightarrow> (announced, notifyRequestError describe (thrownValue e) opt))"

text \<open>
  The effect of one observer: it skips what it has announced last. Observers are numbered; the screen is the
  list of the announcements with the error they are about.
\<close>

record Screen =
  announcedRequestErrors :: "nat set"
  observers :: "nat \<Rightarrow> caughtError option"
  shownToasts :: "(caughtError \<times> toast) list"

definition newScreen :: Screen where
  "newScreen = \<lparr>announcedRequestErrors = {}, observers = (\<lambda>_. None), shownToasts = []\<rparr>"

definition useRequestErrorToast :: "(thrown \<Rightarrow> jstr) \<Rightarrow> nat \<Rightarrow> caughtError option \<Rightarrow> bool \<Rightarrow> RequestFeedbackOptions \<Rightarrow> Screen \<Rightarrow> Screen" where
  "useRequestErrorToast describe obs err enabled opt s =
     (case err of
        None \<Rightarrow> s
      | Some e \<Rightarrow>
          if \<not> enabled \<or> observers s obs = Some e then s
          else (let (announced, ts) = notifyRequestErrorOnce describe e opt (announcedRequestErrors s) in
            s\<lparr>observers := (observers s)(obs := Some e), announcedRequestErrors := announced,
              shownToasts := shownToasts s @ map (Pair e) ts\<rparr>))"

type_synonym rendering = "nat \<times> caughtError option \<times> bool \<times> RequestFeedbackOptions"

definition render :: "(thrown \<Rightarrow> jstr) \<Rightarrow> rendering \<Rightarrow> Screen \<Rightarrow> Screen" where
  "render describe r s = (case r of (obs, err, enabled, opt) \<Rightarrow> useRequestErrorToast describe obs err enabled opt s)"

definition announcedTimes :: "nat \<Rightarrow> Screen \<Rightarrow> nat" where
  "announcedTimes i s = length (filter (\<lambda>(e, _). identity e = Some i) (shownToasts s))"

subsection \<open>Once each\<close>

text \<open>An error object is one value: \<open>val\<close> is what the object of an identity is.\<close>

definition ofObject :: "(nat \<Rightarrow> thrown) \<Rightarrow> rendering \<Rightarrow> bool" where
  "ofObject val r = (case r of (obs, err, enabled, opt) \<Rightarrow>
     (case err of Some e \<Rightarrow> (case identity e of Some i \<Rightarrow> thrownValue e = val i | None \<Rightarrow> True) | None \<Rightarrow> True))"

definition reports :: "nat \<Rightarrow> rendering \<Rightarrow> bool" where
  "reports i r = (case r of (obs, err, enabled, opt) \<Rightarrow> enabled \<and> (case err of Some e \<Rightarrow> identity e = Some i | None \<Rightarrow> False))"

definition onceEach :: "(nat \<Rightarrow> thrown) \<Rightarrow> nat set \<Rightarrow> Screen \<Rightarrow> bool" where
  "onceEach val D s \<longleftrightarrow> announcedRequestErrors s = D
     \<and> (\<forall>i. announcedTimes i s = (if i \<in> D \<and> \<not> isRequestCancelled (val i) then 1 else 0))
     \<and> (\<forall>obs e i. observers s obs = Some e \<longrightarrow> identity e = Some i \<longrightarrow> i \<in> D)"

lemma notify_once: "notifyRequestError describe e opt = [] \<longleftrightarrow> isRequestCancelled e"
  "length (notifyRequestError describe e opt) = (if isRequestCancelled e then 0 else 1)"
  by (simp_all add: notifyRequestError_def Let_def)

lemma filter_pair [simp]: "filter (\<lambda>(e', t). Q e') (map (Pair e) ts) = (if Q e then map (Pair e) ts else [])"
  by (induction ts) auto

lemma onceEach_render:
  assumes s: "onceEach val D s" and r: "ofObject val r"
  shows "onceEach val (D \<union> {i. reports i r}) (render describe r s)"
proof (cases r)
  case (fields obs err enabled opt)
  show ?thesis
  proof (cases "err = None \<or> \<not> enabled \<or> observers s obs = err")
    case True
    then have "{i. reports i r} \<subseteq> D" using s by (auto simp: reports_def fields onceEach_def split: option.splits)
    with True s show ?thesis
      by (auto simp: fields render_def useRequestErrorToast_def Un_absorb2 split: option.splits)
  next
    case False
    then obtain e where e: "err = Some e" by auto
    show ?thesis
    proof (cases "identity e")
      case None
      with s e False show ?thesis
        by (auto simp: fields render_def useRequestErrorToast_def notifyRequestErrorOnce_def onceEach_def announcedTimes_def reports_def)
    next
      case (Some i)
      then have v: "thrownValue e = val i" using r by (simp add: ofObject_def fields e)
      have d: "{j. reports j r} = {i}" using False Some by (auto simp: reports_def fields e)
      show ?thesis
      proof (cases "i \<in> D")
        case True
        with s d Some False show ?thesis
          by (auto simp: fields e render_def useRequestErrorToast_def notifyRequestErrorOnce_def onceEach_def announcedTimes_def
              insert_absorb)
      next
        case new: False
        with s d Some False v show ?thesis
          by (auto simp: fields e render_def useRequestErrorToast_def notifyRequestErrorOnce_def onceEach_def announcedTimes_def
              notify_once)
      qed
    qed
  qed
qed

lemma onceEach_fold:
  "\<lbrakk>onceEach val D s; list_all (ofObject val) rs\<rbrakk> \<Longrightarrow>
     onceEach val (D \<union> {i. list_ex (reports i) rs}) (fold (render describe) rs s)"
proof (induction rs arbitrary: D s)
  case (Cons r rs)
  have "onceEach val (D \<union> {i. reports i r} \<union> {i. list_ex (reports i) rs}) (fold (render describe) rs (render describe r s))"
    using Cons.prems by (intro Cons.IH onceEach_render) auto
  moreover have "D \<union> {i. reports i r} \<union> {i. list_ex (reports i) rs} = D \<union> {i. list_ex (reports i) (r # rs)}" by auto
  ultimately show ?case by simp
qed simp

text \<open>
  C36. Whichever components observe a failure, however often and in whatever order they render, an error object
  that is reported at all is announced exactly once, and a cancelled request never.
\<close>

theorem failure_announced_once:
  assumes "list_all (ofObject val) rs"
  shows "announcedTimes i (fold (render describe) rs newScreen) =
    (if list_ex (reports i) rs \<and> \<not> isRequestCancelled (val i) then 1 else 0)"
proof -
  have "onceEach val {} newScreen" by (simp add: onceEach_def newScreen_def announcedTimes_def)
  from onceEach_fold [OF this assms] show ?thesis by (simp add: onceEach_def)
qed

theorem failure_announced_once_witness:
  "announcedTimes 7 (fold (render (\<lambda>_. []))
     [(0, Some \<lparr>identity = Some 7, thrownValue = OtherError\<rparr>, True, \<lparr>fbTitle = None, fbDescription = None\<rparr>),
      (1, Some \<lparr>identity = Some 7, thrownValue = OtherError\<rparr>, True, \<lparr>fbTitle = None, fbDescription = None\<rparr>)] newScreen) = 1"
  using failure_announced_once [of "\<lambda>_. OtherError"
      "[(0, Some \<lparr>identity = Some 7, thrownValue = OtherError\<rparr>, True, \<lparr>fbTitle = None, fbDescription = None\<rparr>),
        (1, Some \<lparr>identity = Some 7, thrownValue = OtherError\<rparr>, True, \<lparr>fbTitle = None, fbDescription = None\<rparr>)]" 7 "\<lambda>_. []"]
  by (simp add: ofObject_def reports_def)

end
