(* ===== verification/Avatar.thy ===== *)
theory Avatar
  imports Drafts JsUrl Problems "HOL-Library.Sublist"
begin

text \<open>
  The avatar editor of \<open>features/settings/personal-account-settings-page.tsx\<close>: the transform that the preview and the
  exported picture share, the inspection of a chosen file's bytes, and the editor's state with its overlapping
  inspections.

  The transform is computed in exact rational arithmetic; the rounding of the language's floating-point numbers
  is not part of the model. A coordinate that is not finite is \<^term>\<open>NotFinite\<close>.
\<close>

section \<open>The crop transform\<close>

definition avatarPreviewSide :: rat where
  "avatarPreviewSide = 96"

record AvatarCropTransform =
  cropWidth :: rat
  cropHeight :: rat
  cropScale :: rat
  renderedWidth :: rat
  renderedHeight :: rat
  maxPanX :: rat
  maxPanY :: rat
  panX :: rat
  panY :: rat
  sourceLeft :: rat
  sourceTop :: rat
  sourceSide :: rat

fun finiteOr :: "rat \<Rightarrow> jsnum \<Rightarrow> rat" where
  "finiteOr d (Finite x) = x"
| "finiteOr d NotFinite = d"

text \<open>One axis of the picture: the pan that is used, and where the crop starts.\<close>

definition boundedPan :: "rat \<Rightarrow> jsnum \<Rightarrow> rat" where
  "boundedPan m p = max (- m) (min m (finiteOr 0 p))"

definition cropStart :: "rat \<Rightarrow> rat \<Rightarrow> rat \<Rightarrow> rat \<Rightarrow> rat" where
  "cropStart extent side p scale = max 0 (min (extent - side) ((extent - side) / 2 - p / scale))"

definition avatarCropTransform :: "rat \<times> rat \<Rightarrow> jsnum \<Rightarrow> jsnum \<times> jsnum \<Rightarrow> rat \<Rightarrow> AvatarCropTransform" where
  "avatarCropTransform source zoom pan viewportSide =
     (let width = max 1 (fst source);
          height = max 1 (snd source);
          side = max 1 viewportSide;
          boundedZoom = max 1 (min 3 (finiteOr 1 zoom));
          scale = side / min width height * boundedZoom;
          rw = width * scale;
          rh = height * scale;
          mx = max 0 ((rw - side) / 2);
          my = max 0 ((rh - side) / 2);
          px = boundedPan mx (fst pan);
          py = boundedPan my (snd pan);
          s = side / scale
      in \<lparr>cropWidth = width, cropHeight = height, cropScale = scale, renderedWidth = rw, renderedHeight = rh,
          maxPanX = mx, maxPanY = my, panX = px, panY = py,
          sourceLeft = cropStart width s px scale, sourceTop = cropStart height s py scale, sourceSide = s\<rparr>)"

datatype axis = XAxis | YAxis

definition clampAvatarPan :: "jsnum \<Rightarrow> axis \<Rightarrow> (rat \<times> rat) option \<Rightarrow> jsnum \<Rightarrow> rat \<Rightarrow> rat" where
  "clampAvatarPan v ax source zoom viewportSide =
     (case source of
        None \<Rightarrow> 0
      | Some src \<Rightarrow>
          (case ax of
             XAxis \<Rightarrow> panX (avatarCropTransform src zoom (v, Finite 0) viewportSide)
           | YAxis \<Rightarrow> panY (avatarCropTransform src zoom (Finite 0, v) viewportSide)))"

text \<open>One axis: what the crop shows is inside the picture, and starts exactly where the preview's left edge lies.\<close>

lemma axis_inside:
  fixes extent side scale m p :: rat
  assumes "0 < scale" "side \<le> extent * scale" "m = max 0 ((extent * scale - side) / 2)" "\<bar>p\<bar> \<le> m"
  shows "0 \<le> cropStart extent (side / scale) p scale"
    and "cropStart extent (side / scale) p scale + side / scale \<le> extent"
    and "cropStart extent (side / scale) p scale = ((extent * scale - side) / 2 - p) / scale"
proof -
  have m: "m = (extent * scale - side) / 2" using assms(2,3) by simp
  have e: "(extent - side / scale) / 2 - p / scale = ((extent * scale - side) / 2 - p) / scale"
    using assms(1) by (simp add: field_simps)
  have lo: "0 \<le> ((extent * scale - side) / 2 - p) / scale"
    using assms(1,4) m by (simp add: abs_le_iff)
  have hi: "((extent * scale - side) / 2 - p) / scale \<le> extent - side / scale"
  proof -
    have "(extent * scale - side) / 2 - p \<le> extent * scale - side" using assms(4) m by (simp add: abs_le_iff field_simps)
    then have "((extent * scale - side) / 2 - p) / scale \<le> (extent * scale - side) / scale"
      using assms(1) by (intro divide_right_mono) simp_all
    also have "\<dots> = extent - side / scale" using assms(1) by (simp add: diff_divide_distrib)
    finally show ?thesis .
  qed
  show eq: "cropStart extent (side / scale) p scale = ((extent * scale - side) / 2 - p) / scale"
    unfolding cropStart_def e using lo hi by simp
  show "0 \<le> cropStart extent (side / scale) p scale" unfolding eq by (rule lo)
  show "cropStart extent (side / scale) p scale + side / scale \<le> extent" unfolding eq using hi by simp
qed

lemma boundedPan_bound: "0 \<le> m \<Longrightarrow> \<bar>boundedPan m p\<bar> \<le> m"
  by (simp add: boundedPan_def abs_le_iff)

lemma boundedPan_again: "0 \<le> m \<Longrightarrow> boundedPan m (Finite (boundedPan m p)) = boundedPan m p"
  by (simp add: boundedPan_def)

lemma scale_covers:
  fixes w h side z :: rat
  assumes "1 \<le> w" "1 \<le> h" "1 \<le> side" "1 \<le> z"
  shows "0 < side / min w h * z" "side \<le> w * (side / min w h * z)" "side \<le> h * (side / min w h * z)"
proof -
  have m: "0 < min w h" using assms by simp
  then show "0 < side / min w h * z" using assms by simp
  have "side \<le> x * (side / min w h * z)" if "min w h \<le> x" for x
  proof -
    have "1 \<le> x / min w h" using m that by (simp add: le_divide_eq_1_pos)
    then have "1 \<le> x / min w h * z" using mult_mono [of 1 "x / min w h" 1 z] assms(4) by simp
    then have "side * 1 \<le> side * (x / min w h * z)" using assms(3) by (intro mult_left_mono) simp_all
    then show ?thesis by (simp add: ac_simps)
  qed
  then show "side \<le> w * (side / min w h * z)" "side \<le> h * (side / min w h * z)" by simp_all
qed

lemma zoom_bounds: "1 \<le> max 1 (min 3 (x :: rat))" "max 1 (min 3 (x :: rat)) \<le> 3"
  by simp_all

lemma crop_facts:
  fixes source :: "rat \<times> rat" and zoom :: jsnum and pan :: "jsnum \<times> jsnum" and side :: rat
  defines "t \<equiv> avatarCropTransform source zoom pan side" and "v \<equiv> max 1 side"
  shows "v \<le> renderedWidth t \<and> v \<le> renderedHeight t \<and> 0 < sourceSide t" (is ?covers)
    and "0 \<le> sourceLeft t \<and> sourceLeft t + sourceSide t \<le> cropWidth t" (is ?left)
    and "0 \<le> sourceTop t \<and> sourceTop t + sourceSide t \<le> cropHeight t" (is ?top)
    and "sourceLeft t = ((renderedWidth t - v) / 2 - panX t) / cropScale t" (is ?startX)
    and "sourceTop t = ((renderedHeight t - v) / 2 - panY t) / cropScale t" (is ?startY)
    and "\<bar>panX t\<bar> \<le> maxPanX t \<and> \<bar>panY t\<bar> \<le> maxPanY t" (is ?pan)
    and "avatarCropTransform source zoom (Finite (panX t), Finite (panY t)) side = t" (is ?again)
proof -
  define w where "w = max 1 (fst source)"
  define h where "h = max 1 (snd source)"
  define z where "z = max 1 (min 3 (finiteOr 1 zoom))"
  define sc where "sc = v / min w h * z"
  have ge: "1 \<le> w" "1 \<le> h" "1 \<le> v" "1 \<le> z" by (simp_all add: w_def h_def v_def z_def)
  note c = scale_covers [OF ge, folded sc_def]
  define mx where "mx = max 0 ((w * sc - v) / 2)"
  define my where "my = max 0 ((h * sc - v) / 2)"
  have nn: "0 \<le> mx" "0 \<le> my" by (simp_all add: mx_def my_def)
  note b = boundedPan_bound [OF nn(1)] boundedPan_bound [OF nn(2)]
  have tr: "avatarCropTransform source zoom p side =
     \<lparr>cropWidth = w, cropHeight = h, cropScale = sc, renderedWidth = w * sc, renderedHeight = h * sc, maxPanX = mx, maxPanY = my,
      panX = boundedPan mx (fst p), panY = boundedPan my (snd p), sourceLeft = cropStart w (v / sc) (boundedPan mx (fst p)) sc,
      sourceTop = cropStart h (v / sc) (boundedPan my (snd p)) sc, sourceSide = v / sc\<rparr>" for p
    by (simp add: avatarCropTransform_def Let_def w_def h_def v_def z_def sc_def mx_def my_def)
  note x = axis_inside [OF c(1) c(2) mx_def b(1)] and y = axis_inside [OF c(1) c(3) my_def b(2)]
  show ?covers using c ge(3) by (simp add: t_def tr)
  show ?left using x by (simp add: t_def tr)
  show ?top using y by (simp add: t_def tr)
  show ?startX using x by (simp add: t_def tr)
  show ?startY using y by (simp add: t_def tr)
  show ?pan using b by (simp add: t_def tr)
  show ?again by (simp add: t_def tr boundedPan_again nn)
qed


section \<open>The inspection of a file\<close>

datatype avatarFormat = Jpeg | Png | Webp

text \<open>\<open>containsBytes\<close>, position by position.\<close>

function findBytes :: "nat list \<Rightarrow> nat list \<Rightarrow> nat \<Rightarrow> bool" where
  "findBytes haystack needle index =
     (if index + length needle \<le> length haystack
      then (if list_all (\<lambda>offset. haystack ! (index + offset) = needle ! offset) [0..<length needle] then True
            else findBytes haystack needle (index + 1))
      else False)"
  by pat_completeness auto
termination by (relation "measure (\<lambda>(h, n, i). length h + 1 - i)") auto

declare findBytes.simps [simp del]

definition containsBytes :: "nat list \<Rightarrow> nat list \<Rightarrow> bool" where
  "containsBytes haystack needle = findBytes haystack needle 0"

text \<open>
  The text of the first 4096 bytes, in lower case; no character outside ASCII becomes one of those compared with
  here. The pattern is \<open>/<svg(?:\\s|>)/\<close>: in a regular-expression literal, \<open>\\s\<close> is a backslash and an \<open>s\<close>.
\<close>

definition lowerAscii :: "jstr \<Rightarrow> jstr" where
  "lowerAscii = map (\<lambda>c. if 0x41 \<le> c \<and> c \<le> 0x5A then c + 0x20 else c)"

definition lowerText :: "nat list \<Rightarrow> jstr" where
  "lowerText bytes = lowerAscii (to_units (utf8_decode (take 4096 bytes)))"

definition svgPattern :: "jstr \<Rightarrow> bool" where
  "svgPattern text = (includesStr text (js ''<svg'' @ [0x5C] @ js ''s'') \<or> includesStr text (js ''<svg>''))"

text \<open>The format, \<^term>\<open>None\<close> for \<open>'unsupported'\<close>; no value at all (\<open>null\<close>) for anything else.\<close>

definition inspectAvatarFile :: "nat list \<Rightarrow> avatarFormat option option" where
  "inspectAvatarFile bytes =
     (if svgPattern (lowerText bytes) then Some None
      else if prefix [0x89, 0x50, 0x4E, 0x47, 0x0D, 0x0A, 0x1A, 0x0A] bytes then
        (if containsBytes bytes [0x61, 0x63, 0x54, 0x4C] then Some None else Some (Some Png))
      else if prefix [0xFF, 0xD8, 0xFF] bytes then Some (Some Jpeg)
      else if length bytes \<ge> 12 \<and> take 4 bytes = [0x52, 0x49, 0x46, 0x46] \<and> take 4 (drop 8 bytes) = [0x57, 0x45, 0x42, 0x50] then
        (if containsBytes bytes [0x41, 0x4E, 0x49, 0x4D] \<or> containsBytes bytes [0x41, 0x4E, 0x4D, 0x46] then Some None
         else Some (Some Webp))
      else None)"

lemma matches_at:
  "i + length n \<le> length h \<Longrightarrow>
    list_all (\<lambda>offset. h ! (i + offset) = n ! offset) [0..<length n] \<longleftrightarrow> take (length n) (drop i h) = n"
  by (subst list_eq_iff_nth_eq) (auto simp: list_all_iff)

lemma findBytes_step:
  "findBytes h n i \<longleftrightarrow> i + length n \<le> length h \<and> (take (length n) (drop i h) = n \<or> findBytes h n (i + 1))"
  by (subst findBytes.simps) (simp add: matches_at)

lemma findBytes_iff:
  "findBytes h n i \<longleftrightarrow> (\<exists>k\<ge>i. k + length n \<le> length h \<and> take (length n) (drop k h) = n)"
proof (induction "length h + 1 - i" arbitrary: i)
  case 0
  then have "\<not> i + length n \<le> length h" by simp
  then show ?case by (subst findBytes_step) auto
next
  case (Suc x)
  then have IH: "findBytes h n (i + 1) \<longleftrightarrow> (\<exists>k\<ge>i + 1. k + length n \<le> length h \<and> take (length n) (drop k h) = n)" by simp
  have split: "(\<exists>k\<ge>i. P k) \<longleftrightarrow> P i \<or> (\<exists>k\<ge>i + 1. P k)" for P :: "nat \<Rightarrow> bool"
    by (metis Suc_eq_plus1 Suc_leD dual_order.refl not_less_eq_eq order_antisym_conv)
  show ?case unfolding findBytes_step [of h n i] IH
    by (subst split) (auto intro: order_trans)
qed

text \<open>The search always ends, and finds exactly the files that contain the bytes.\<close>

lemma containsBytes_iff: "containsBytes haystack needle \<longleftrightarrow> sublist needle haystack"
proof -
  have "containsBytes haystack needle \<longleftrightarrow> (\<exists>k. k + length needle \<le> length haystack \<and> take (length needle) (drop k haystack) = needle)"
    by (simp add: containsBytes_def findBytes_iff)
  also have "\<dots> \<longleftrightarrow> sublist needle haystack"
  proof
    assume "\<exists>k. k + length needle \<le> length haystack \<and> take (length needle) (drop k haystack) = needle"
    then obtain k where "take (length needle) (drop k haystack) = needle" by blast
    then show "sublist needle haystack" by (metis sublist_drop sublist_order.order_trans sublist_take)
  next
    assume "sublist needle haystack"
    then obtain u v where "haystack = u @ needle @ v" by (auto simp: sublist_def)
    then show "\<exists>k. k + length needle \<le> length haystack \<and> take (length needle) (drop k haystack) = needle"
      by (intro exI [of _ "length u"]) simp
  qed
  finally show ?thesis .
qed

text \<open>A drawing with attributes is not recognised as one, for the pattern has no class of white space.\<close>

lemma ascii_decode: "list_all (\<lambda>b. b < 0x80) bs \<Longrightarrow> to_units (utf8_decode bs) = bs"
proof -
  assume "list_all (\<lambda>b. b < 0x80) bs"
  then have "utf8_decode bs = bs \<and> to_units bs = bs"
    by (induction bs) (simp_all add: utf8_decode_def utf8_dec_char1 to_units_def units_of_def)
  then show ?thesis by simp
qed

lemma svg_with_attributes: "inspectAvatarFile (js ''<svg a>'') = None" "inspectAvatarFile (js ''<svg>'') = Some None"
  by (simp_all add: inspectAvatarFile_def lowerText_def lowerAscii_def ascii_decode svgPattern_def js_eval sublist_Cons_right)

definition normalizeAvatarType :: "jstr \<Rightarrow> jstr" where
  "normalizeAvatarType v = (let type = trim (hd (splitOn 0x3B (lowerAscii v))) in
     if type = js ''image/jpg'' then js ''image/jpeg'' else type)"

fun mimeType :: "avatarFormat \<Rightarrow> jstr" where
  "mimeType Jpeg = js ''image/jpeg''"
| "mimeType Png = js ''image/png''"
| "mimeType Webp = js ''image/webp''"

text \<open>The text for a refused upload.\<close>

definition avatarProblemCode :: "thrown \<Rightarrow> jstr option" where
  "avatarProblemCode e = (case e of
     ApiProblemError p \<Rightarrow>
       if ptype p = js ''/problems/content-too-large'' then Some (js ''avatarTooLarge'')
       else if ptype p = js ''/problems/unsupported-media-type'' then Some (js ''avatarUnsupported'')
       else (case errors p of
           Some (f # _) \<Rightarrow>
             if fcode f = js ''unsupported_type'' then Some (js ''avatarUnsupported'')
             else if fcode f = js ''invalid_avatar'' then Some (js ''avatarInvalid'')
             else if fcode f = js ''content-too-large'' then Some (js ''avatarTooLarge'')
             else None
         | _ \<Rightarrow> None)
   | _ \<Rightarrow> None)"

section \<open>The editor\<close>

record AvatarFile =
  fileType :: jstr
  fileBytes :: "nat list"

record AvatarEditor =
  avatarFile :: "AvatarFile option"
  avatarSize :: "(rat \<times> rat) option"
  avatarZoom :: jsnum
  avatarPan :: "rat \<times> rat"
  dragOrigin :: "(rat \<times> rat) option"
  selectionSequence :: nat
  inspecting :: "(nat \<times> AvatarFile) list"
  avatarMessage :: jstr

definition newAvatarEditor :: AvatarEditor where
  "newAvatarEditor = \<lparr>avatarFile = None, avatarSize = None, avatarZoom = Finite 1, avatarPan = (0, 0), dragOrigin = None,
     selectionSequence = 0, inspecting = [], avatarMessage = []\<rparr>"

text \<open>Choosing a file, until its bytes are read; and what follows once they are, or could not be read.\<close>

definition chooseAvatar :: "AvatarFile option \<Rightarrow> AvatarEditor \<Rightarrow> AvatarEditor" where
  "chooseAvatar chosen e = (case chosen of
     None \<Rightarrow> e
   | Some f \<Rightarrow>
       (let e = e\<lparr>selectionSequence := selectionSequence e + 1\<rparr> in
        if length (fileBytes f) > 5 * 1024 * 1024 then e\<lparr>avatarMessage := js ''avatarTooLarge''\<rparr>
        else e\<lparr>inspecting := inspecting e @ [(selectionSequence e, f)]\<rparr>))"

definition inspected :: "nat \<times> AvatarFile \<Rightarrow> AvatarEditor \<Rightarrow> AvatarEditor" where
  "inspected w e = (case w of (selection, f) \<Rightarrow>
     let e = e\<lparr>inspecting := remove1 w (inspecting e)\<rparr> in
     if selection \<noteq> selectionSequence e then e
     else (case inspectAvatarFile (fileBytes f) of
         Some (Some fmt) \<Rightarrow>
           if fileType f \<noteq> [] \<and> normalizeAvatarType (fileType f) \<noteq> mimeType fmt then e\<lparr>avatarMessage := js ''avatarInvalid''\<rparr>
           else e\<lparr>avatarFile := Some f, avatarSize := None, avatarZoom := Finite 1, avatarPan := (0, 0), avatarMessage := []\<rparr>
       | Some None \<Rightarrow> e\<lparr>avatarMessage := js ''avatarUnsupported''\<rparr>
       | None \<Rightarrow> e\<lparr>avatarMessage := js ''avatarInvalid''\<rparr>))"

definition inspectionFailed :: "nat \<times> AvatarFile \<Rightarrow> AvatarEditor \<Rightarrow> AvatarEditor" where
  "inspectionFailed w e =
     (let e = e\<lparr>inspecting := remove1 w (inspecting e)\<rparr> in
      if fst w = selectionSequence e then e\<lparr>avatarMessage := js ''avatarInvalid''\<rparr> else e)"

definition cancelAvatar :: "AvatarEditor \<Rightarrow> AvatarEditor" where
  "cancelAvatar e = e\<lparr>avatarFile := None, avatarSize := None, avatarZoom := Finite 1, avatarPan := (0, 0), dragOrigin := None,
     avatarMessage := []\<rparr>"

definition imageLoaded :: "nat \<Rightarrow> nat \<Rightarrow> AvatarEditor \<Rightarrow> AvatarEditor" where
  "imageLoaded naturalWidth naturalHeight e =
     (if naturalWidth > 0 \<and> naturalHeight > 0 then e\<lparr>avatarSize := Some (of_nat naturalWidth, of_nat naturalHeight)\<rparr> else e)"

definition zoomAvatar :: "jsnum \<Rightarrow> AvatarEditor \<Rightarrow> AvatarEditor" where
  "zoomAvatar z e = e\<lparr>avatarZoom := z,
     avatarPan := (clampAvatarPan (Finite (fst (avatarPan e))) XAxis (avatarSize e) z avatarPreviewSide,
                   clampAvatarPan (Finite (snd (avatarPan e))) YAxis (avatarSize e) z avatarPreviewSide)\<rparr>"

definition avatarPreview :: "AvatarEditor \<Rightarrow> AvatarCropTransform option" where
  "avatarPreview e = map_option (\<lambda>sz. avatarCropTransform sz (avatarZoom e) (Finite (fst (avatarPan e)), Finite (snd (avatarPan e)))
     avatarPreviewSide) (avatarSize e)"

definition pointerDown :: "rat \<times> rat \<Rightarrow> AvatarEditor \<Rightarrow> AvatarEditor" where
  "pointerDown at' e = (case (avatarFile e, avatarPreview e) of
     (Some _, Some t) \<Rightarrow> e\<lparr>dragOrigin := Some (fst at' - panX t, snd at' - panY t)\<rparr> | _ \<Rightarrow> e)"

definition pointerMove :: "rat \<times> rat \<Rightarrow> AvatarEditor \<Rightarrow> AvatarEditor" where
  "pointerMove at' e = (case (dragOrigin e, avatarSize e) of
     (Some origin, Some sz) \<Rightarrow> e\<lparr>avatarPan :=
        (clampAvatarPan (Finite (fst at' - fst origin)) XAxis (Some sz) (avatarZoom e) avatarPreviewSide,
         clampAvatarPan (Finite (snd at' - snd origin)) YAxis (Some sz) (avatarZoom e) avatarPreviewSide)\<rparr>
   | _ \<Rightarrow> e)"

definition pointerUp :: "AvatarEditor \<Rightarrow> AvatarEditor" where
  "pointerUp e = e\<lparr>dragOrigin := None\<rparr>"

text \<open>
  Saving exports the square of the picture, of the size the browser reads from it, as a PNG of 256 pixels; \<^term>\<open>None\<close>
  without a picture that is ready. The editor is reset when the server has accepted it, and kept otherwise.
\<close>

definition saveAvatar :: "rat \<times> rat \<Rightarrow> AvatarEditor \<Rightarrow> (AvatarFile \<times> AvatarCropTransform) option" where
  "saveAvatar natural e = (case (avatarFile e, avatarSize e) of
     (Some f, Some _) \<Rightarrow> Some (f, avatarCropTransform natural (avatarZoom e) (Finite (fst (avatarPan e)), Finite (snd (avatarPan e)))
        avatarPreviewSide)
   | _ \<Rightarrow> None)"

inductive avatar_step :: "AvatarEditor \<Rightarrow> AvatarEditor \<Rightarrow> bool" where
  chooses: "avatar_step e (chooseAvatar chosen e)"
| inspects: "w \<in> set (inspecting e) \<Longrightarrow> avatar_step e (inspected w e)"
| inspection_fails: "w \<in> set (inspecting e) \<Longrightarrow> avatar_step e (inspectionFailed w e)"
| cancels: "avatar_step e (cancelAvatar e)"
| loads_image: "avatar_step e (imageLoaded nw nh e)"
| zooms: "avatar_step e (zoomAvatar z e)"
| presses: "avatar_step e (pointerDown p e)"
| moves: "avatar_step e (pointerMove p e)"
| releases: "avatar_step e (pointerUp e)"
| says: "avatar_step e (e\<lparr>avatarMessage := m\<rparr>)"

text \<open>What a file must be to become a draft.\<close>

definition acceptedAvatar :: "AvatarFile \<Rightarrow> bool" where
  "acceptedAvatar f \<longleftrightarrow> length (fileBytes f) \<le> 5242880 \<and>
     (\<exists>fmt. inspectAvatarFile (fileBytes f) = Some (Some fmt) \<and> (fileType f = [] \<or> normalizeAvatarType (fileType f) = mimeType fmt))"

definition soundAvatar :: "AvatarEditor \<Rightarrow> bool" where
  "soundAvatar e \<longleftrightarrow> pred_option acceptedAvatar (avatarFile e)
     \<and> list_all (\<lambda>(n, f). n \<le> selectionSequence e \<and> length (fileBytes f) \<le> 5242880) (inspecting e)"

lemma soundAvatar_step: "\<lbrakk>avatar_step e e'; soundAvatar e\<rbrakk> \<Longrightarrow> soundAvatar e'"
proof (induction rule: avatar_step.induct)
  case (chooses e chosen)
  then show ?case
    by (auto simp: soundAvatar_def chooseAvatar_def list_all_iff Let_def split: option.splits)
next
  case (inspects w e)
  then obtain n f where w: "w = (n, f)" "length (fileBytes f) \<le> 5242880" by (cases w) (auto simp: soundAvatar_def list_all_iff)
  with inspects show ?case
    by (auto simp: soundAvatar_def inspected_def acceptedAvatar_def list_all_iff Let_def dest: notin_set_remove1
        split: option.splits)
next
  case (inspection_fails w e)
  then show ?case by (auto simp: soundAvatar_def inspectionFailed_def list_all_iff Let_def dest: notin_set_remove1)
qed (auto simp: soundAvatar_def cancelAvatar_def imageLoaded_def zoomAvatar_def pointerDown_def pointerMove_def pointerUp_def
    split: option.splits)

lemma soundAvatar_reached: "avatar_step\<^sup>*\<^sup>* newAvatarEditor e \<Longrightarrow> soundAvatar e"
proof (induction rule: rtranclp_induct)
  case base
  show ?case by (simp add: soundAvatar_def newAvatarEditor_def)
qed (rule soundAvatar_step)

lemma accepted_still:
  assumes "inspectAvatarFile bytes = Some (Some fmt)"
  shows "case fmt of Jpeg \<Rightarrow> prefix [0xFF, 0xD8, 0xFF] bytes
    | Png \<Rightarrow> prefix [0x89, 0x50, 0x4E, 0x47, 0x0D, 0x0A, 0x1A, 0x0A] bytes \<and> \<not> containsBytes bytes (js ''acTL'')
    | Webp \<Rightarrow> take 4 bytes = js ''RIFF'' \<and> take 4 (drop 8 bytes) = js ''WEBP''
        \<and> \<not> containsBytes bytes (js ''ANIM'') \<and> \<not> containsBytes bytes (js ''ANMF'')"
  using assms by (auto simp: inspectAvatarFile_def js_eval split: if_splits)

text \<open>
  C38. Whatever files are chosen, in whatever order their inspections finish, and however the picture is dragged and
  zoomed: what is saved comes from a file of at most 5 MiB that starts as a JPEG, a PNG or a WebP file does,
  has none of the chunks of an animation, and was not declared as anything else; and the saved square lies
  within the picture.
\<close>

theorem saved_avatar_checked:
  assumes "avatar_step\<^sup>*\<^sup>* newAvatarEditor e" "saveAvatar natural e = Some (f, t)"
  shows "length (fileBytes f) \<le> 5242880
    \<and> (\<exists>fmt. (fileType f = [] \<or> normalizeAvatarType (fileType f) = mimeType fmt) \<and>
        (case fmt of Jpeg \<Rightarrow> prefix [0xFF, 0xD8, 0xFF] (fileBytes f)
         | Png \<Rightarrow> prefix [0x89, 0x50, 0x4E, 0x47, 0x0D, 0x0A, 0x1A, 0x0A] (fileBytes f) \<and> \<not> sublist (js ''acTL'') (fileBytes f)
         | Webp \<Rightarrow> take 4 (fileBytes f) = js ''RIFF'' \<and> take 4 (drop 8 (fileBytes f)) = js ''WEBP''
             \<and> \<not> sublist (js ''ANIM'') (fileBytes f) \<and> \<not> sublist (js ''ANMF'') (fileBytes f)))
    \<and> 0 \<le> sourceLeft t \<and> sourceLeft t + sourceSide t \<le> max 1 (fst natural)
    \<and> 0 \<le> sourceTop t \<and> sourceTop t + sourceSide t \<le> max 1 (snd natural)"
proof -
  have "acceptedAvatar f" using soundAvatar_reached [OF assms(1)] assms(2)
    by (auto simp: soundAvatar_def saveAvatar_def split: option.splits)
  then obtain fmt where fmt: "length (fileBytes f) \<le> 5242880" "inspectAvatarFile (fileBytes f) = Some (Some fmt)"
    "fileType f = [] \<or> normalizeAvatarType (fileType f) = mimeType fmt" by (auto simp: acceptedAvatar_def)
  obtain zoom pan where t: "t = avatarCropTransform natural zoom pan avatarPreviewSide"
    using assms(2) by (auto simp: saveAvatar_def split: option.splits)
  have "cropWidth t = max 1 (fst natural)" "cropHeight t = max 1 (snd natural)"
    by (simp_all add: t avatarCropTransform_def Let_def)
  with crop_facts(2,3) [where source = natural and zoom = zoom and pan = pan and side = avatarPreviewSide] fmt(1,3) accepted_still [OF fmt(2)] show ?thesis
    unfolding containsBytes_iff t by (intro conjI exI [of _ fmt]) simp_all
qed

definition samplePicture :: AvatarFile where
  "samplePicture = \<lparr>fileType = js ''image/jpg'', fileBytes = [0xFF, 0xD8, 0xFF]\<rparr>"

definition sampleEditor :: AvatarEditor where
  "sampleEditor = imageLoaded 640 480 (inspected (1, samplePicture) (chooseAvatar (Some samplePicture) newAvatarEditor))"

lemma sample_inspected: "inspectAvatarFile (fileBytes samplePicture) = Some (Some Jpeg)"
  by (simp add: samplePicture_def inspectAvatarFile_def lowerText_def lowerAscii_def utf8_decode_def utf8_dec.simps(2) to_units_def
      units_of_def svgPattern_def js_eval sublist_Cons_right)

lemma sample_reached: "avatar_step\<^sup>*\<^sup>* newAvatarEditor sampleEditor"
proof -
  let ?e1 = "chooseAvatar (Some samplePicture) newAvatarEditor"
  have "avatar_step newAvatarEditor ?e1" by (rule chooses)
  moreover have "avatar_step ?e1 (inspected (1, samplePicture) ?e1)"
    by (rule inspects) (simp add: chooseAvatar_def newAvatarEditor_def samplePicture_def)
  moreover have "avatar_step (inspected (1, samplePicture) ?e1) sampleEditor" unfolding sampleEditor_def by (rule loads_image)
  ultimately show ?thesis by (meson rtranclp.rtrancl_into_rtrancl rtranclp.rtrancl_refl)
qed

theorem saved_avatar_checked_witness:
  "\<exists>t. saveAvatar (640, 480) sampleEditor = Some (samplePicture, t) \<and> 0 \<le> sourceLeft t \<and> sourceLeft t + sourceSide t \<le> 640"
proof -
  have "normalizeAvatarType (js ''image/jpg'') = js ''image/jpeg''"
    by (simp add: normalizeAvatarType_def lowerAscii_def js_eval trim_def ws_char_def)
  then have "\<exists>t. saveAvatar (640, 480) sampleEditor = Some (samplePicture, t)"
    using sample_inspected
    by (simp add: sampleEditor_def inspected_def chooseAvatar_def newAvatarEditor_def saveAvatar_def imageLoaded_def Let_def)
      (simp add: samplePicture_def)
  with saved_avatar_checked [OF sample_reached] show ?thesis by fastforce
qed

end
