(* ===== verification/PersonalSettings.thy ===== *)
theory PersonalSettings
  imports AuthSchemas Drafts ApiClient
begin

text \<open>
  The personal settings (\<open>features/settings/personal-account-settings-page.tsx\<close>): the profile that is read and the saves
  that patch it, wherever it is kept; the language; the change of the password and of the e-mail address. The
  page is mounted for one user; the cached current user and the cached profile are shared with the shell.
\<close>

section \<open>The profile\<close>

record Avatar =
  avatarUrl :: "jstr option"
  hasAvatar :: "bool option"
  avatarVersion :: "int option"

record AccountUser =
  accId :: jstr
  accName :: jstr
  accEmail :: jstr
  accLocale :: "jstr option"
  accAvatar :: Avatar

record EmailChange =
  changeId :: jstr
  changeEmail :: jstr
  attemptsRemaining :: int
  resendAvailableAt :: "rat option"

text \<open>What a save changes: the members that its patch has.\<close>

record UserPatch =
  patchName :: "jstr option"
  patchLocale :: "jstr option"
  patchAvatar :: "Avatar option"

definition noPatch :: UserPatch where
  "noPatch = \<lparr>patchName = None, patchLocale = None, patchAvatar = None\<rparr>"

definition patched :: "UserPatch \<Rightarrow> AccountUser \<Rightarrow> AccountUser" where
  "patched p u = u\<lparr>accName := nullish (patchName p) (accName u), accLocale := (case patchLocale p of Some l \<Rightarrow> Some l | None \<Rightarrow> accLocale u),
     accAvatar := nullish (patchAvatar p) (accAvatar u)\<rparr>"

definition localeOf :: "jstr option \<Rightarrow> uiLocale option" where
  "localeOf l = (if l = Some (js ''en'') then Some En else if l = Some (js ''zh-CN'') then Some ZhCN else None)"

record PersonalPage =
  ownerRef :: "jstr option"
  shownUser :: "AccountUser option"
  shownChange :: "EmailChange option"
  nameText :: jstr
  localeShown :: uiLocale
  previousLocale :: uiLocale
  avatarError :: jstr
  nameError :: bool
  cachedUser :: "AccountUser option"
  cachedProfile :: "jstr \<rightharpoonup> AccountUser \<times> EmailChange option"

definition newPersonalPage :: "jstr option \<Rightarrow> AccountUser option \<Rightarrow> (jstr \<rightharpoonup> AccountUser \<times> EmailChange option) \<Rightarrow> PersonalPage" where
  "newPersonalPage userID cu profiles = \<lparr>ownerRef = userID, shownUser = None, shownChange = None, nameText = [], localeShown = En,
     previousLocale = En, avatarError = [], nameError = False, cachedUser = cu, cachedProfile = profiles\<rparr>"

text \<open>The effect of a profile that was read, or of another user for whom the page is shown.\<close>

definition profileEffect :: "jstr option \<Rightarrow> (AccountUser \<times> EmailChange option) option \<Rightarrow> PersonalPage \<Rightarrow> PersonalPage" where
  "profileEffect userID data s =
     (if data = None \<or> truthy userID \<and> Some (accId (fst (the data))) \<noteq> userID then
        (if truthy userID \<and> map_option (\<lambda>d. accId (fst d)) data \<noteq> userID
         then s\<lparr>shownUser := None, shownChange := None, nameText := [], localeShown := En, previousLocale := En, avatarError := [],
                nameError := False\<rparr>
         else s)
      else (let (u, ec) = the data;
                preserveNameDraft = (case shownUser s of Some v \<Rightarrow> accId v = accId u \<and> nameText s \<noteq> accName v | None \<Rightarrow> False);
                l = nullish (localeOf (accLocale u)) En
            in s\<lparr>shownUser := Some u, avatarError := [], nameError := False,
                 nameText := (if preserveNameDraft then nameText s else accName u),
                 localeShown := l, previousLocale := l, shownChange := ec\<rparr>))"

definition foreignUpdate :: "jstr option \<Rightarrow> AccountUser \<Rightarrow> PersonalPage \<Rightarrow> bool" where
  "foreignUpdate userID updated s =
     (truthy userID \<and> Some (accId updated) \<noteq> userID
      \<or> (case cachedUser s of Some c \<Rightarrow> truthy userID \<and> Some (accId c) \<noteq> userID | None \<Rightarrow> False))"

definition applyUser :: "jstr option \<Rightarrow> AccountUser \<Rightarrow> UserPatch \<Rightarrow> PersonalPage \<Rightarrow> PersonalPage" where
  "applyUser userID updated p s =
     (if ownerRef s \<noteq> userID \<or> foreignUpdate userID updated s then s
      else s\<lparr>shownUser := Some (case shownUser s of Some u \<Rightarrow> patched p u | None \<Rightarrow> updated),
             nameText := nullish (patchName p) (nameText s),
             localeShown := nullish (localeOf (patchLocale p)) (localeShown s),
             cachedUser := Some (case cachedUser s of Some c \<Rightarrow> patched p c | None \<Rightarrow> updated),
             cachedProfile := (if truthy userID
               then (cachedProfile s)(the userID := map_option (\<lambda>(u, ec). (patched p u, ec)) (cachedProfile s (the userID)))
               else cachedProfile s)\<rparr>)"

definition applyAvatar :: "jstr option \<Rightarrow> AccountUser \<Rightarrow> PersonalPage \<Rightarrow> PersonalPage" where
  "applyAvatar userID updated s =
     (if ownerRef s \<noteq> userID \<or> foreignUpdate userID updated s then s
      else applyUser userID updated (noPatch\<lparr>patchAvatar := Some (accAvatar updated)\<rparr>) s)"

text \<open>Saving the name: the form sends the trimmed text of a valid name, and its success takes the server's.\<close>

definition typeName :: "jstr \<Rightarrow> PersonalPage \<Rightarrow> PersonalPage" where
  "typeName v s = s\<lparr>nameText := v, nameError := False\<rparr>"

definition submitName :: "(jstr \<Rightarrow> jstr) \<Rightarrow> bool \<Rightarrow> PersonalPage \<Rightarrow> PersonalPage \<times> profileMethod option" where
  "submitName nfc isPending s =
     (if isPending then (s, None)
      else if personalNameFormSchema nfc (nameText s) \<noteq> [] then (s\<lparr>nameError := True\<rparr>, None)
      else (s\<lparr>nameError := False\<rparr>, Some (UpdatePersonalName (trim (nameText s)))))"

definition nameSaved :: "jstr option \<Rightarrow> AccountUser \<Rightarrow> PersonalPage \<Rightarrow> PersonalPage" where
  "nameSaved userID updated s = applyUser userID updated (noPatch\<lparr>patchName := Some (accName updated)\<rparr>) s"

text \<open>
  Choosing a language: it is shown, applied (\<open>changeAccountLocale\<close>, the second component) and saved; when the
  save fails the one before is shown and applied again.
\<close>

definition chooseLocale :: "uiLocale \<Rightarrow> PersonalPage \<Rightarrow> PersonalPage \<times> uiLocale list" where
  "chooseLocale l s = (s\<lparr>previousLocale := localeShown s, localeShown := l\<rparr>, [l])"

definition localeSaved :: "jstr option \<Rightarrow> AccountUser \<Rightarrow> uiLocale \<Rightarrow> PersonalPage \<Rightarrow> PersonalPage \<times> uiLocale list" where
  "localeSaved userID updated requestedLocale s =
     (if ownerRef s \<noteq> userID \<or> truthy userID \<and> Some (accId updated) \<noteq> userID then (s, [])
      else (let savedLocale = nullish (localeOf (accLocale updated)) requestedLocale;
                name' = (case savedLocale of En \<Rightarrow> js ''en'' | ZhCN \<Rightarrow> js ''zh-CN'')
            in ((applyUser userID updated (noPatch\<lparr>patchLocale := Some name'\<rparr>) s)\<lparr>previousLocale := savedLocale\<rparr>, [savedLocale])))"

definition localeSaveFailed :: "jstr option \<Rightarrow> PersonalPage \<Rightarrow> PersonalPage \<times> uiLocale list" where
  "localeSaveFailed userID s =
     (if ownerRef s \<noteq> userID then (s, []) else (s\<lparr>localeShown := previousLocale s\<rparr>, [previousLocale s]))"

definition avatarSaved :: "jstr option \<Rightarrow> AccountUser \<Rightarrow> PersonalPage \<Rightarrow> PersonalPage" where
  "avatarSaved userID updated s = (applyAvatar userID updated s)\<lparr>avatarError := []\<rparr>"

subsection \<open>What can happen to the page\<close>

text \<open>
  The page of one user: profiles are read (of whomever the server says), saves of this page and of one that was mounted
  for another user return, and the page is handed over to another user. The cached profile of a key is the
  reply of the profile request, so it may be anyone's.
\<close>

inductive personal_step :: "(jstr option \<times> PersonalPage) \<Rightarrow> (jstr option \<times> PersonalPage) \<Rightarrow> bool" where
  reads_profile: "personal_step (userID, s)
    (userID, profileEffect userID (Some d) (s\<lparr>cachedProfile := (cachedProfile s)(nullish userID (js ''current'') \<mapsto> d)\<rparr>))"
| loses_profile: "personal_step (userID, s) (userID, profileEffect userID None s)"
| hands_over: "truthy userID' \<Longrightarrow> personal_step (userID, s) (userID', profileEffect userID'
      (cachedProfile s (the userID')) (s\<lparr>ownerRef := userID', cachedUser := Some u\<rparr>))"
| types_name: "personal_step (userID, s) (userID, typeName v s)"
| submits_name: "personal_step (userID, s) (userID, fst (submitName nfc isPending s))"
| saved_name: "personal_step (userID, s) (userID, nameSaved starter updated s)"
| chooses_locale: "personal_step (userID, s) (userID, fst (chooseLocale l s))"
| saved_locale: "personal_step (userID, s) (userID, fst (localeSaved starter updated l s))"
| failed_locale: "personal_step (userID, s) (userID, fst (localeSaveFailed starter s))"
| saved_avatar: "personal_step (userID, s) (userID, avatarSaved starter updated s)"
| removed_avatar: "personal_step (userID, s) (userID, applyAvatar starter updated s)"

definition ownPage :: "jstr option \<times> PersonalPage \<Rightarrow> bool" where
  "ownPage x \<longleftrightarrow> (case x of (userID, s) \<Rightarrow> truthy userID \<and> ownerRef s = userID
     \<and> (case shownUser s of Some u \<Rightarrow> Some (accId u) = userID | None \<Rightarrow> True))"

lemma patched_id [simp]: "accId (patched p u) = accId u" "accEmail (patched p u) = accEmail u"
  by (simp_all add: patched_def)

lemma applyUser_own:
  assumes "ownPage (userID, s)"
  shows "ownPage (userID, applyUser starter updated p s)"
  using assms by (auto simp: ownPage_def applyUser_def foreignUpdate_def split: option.splits)

lemma profileEffect_own: "\<lbrakk>truthy userID; ownerRef s = userID\<rbrakk> \<Longrightarrow> ownPage (userID, profileEffect userID data s)"
  by (cases userID) (auto simp: ownPage_def profileEffect_def Let_def split: option.splits prod.splits)

lemma own_update:
  "\<lbrakk>ownPage (userID, s); shownUser s' = shownUser s; ownerRef s' = ownerRef s\<rbrakk> \<Longrightarrow> ownPage (userID, s')"
  by (simp add: ownPage_def)

lemma own_saves:
  assumes "ownPage (userID, s)"
  shows "ownPage (userID, nameSaved starter updated s)" "ownPage (userID, applyAvatar starter updated s)"
    "ownPage (userID, avatarSaved starter updated s)" "ownPage (userID, fst (localeSaved starter updated l s))"
  using applyUser_own [OF assms] assms own_update [of userID "applyUser starter updated p s" for p]
  by (simp_all add: nameSaved_def applyAvatar_def avatarSaved_def localeSaved_def Let_def ownPage_def)

lemma ownPage_step: "\<lbrakk>personal_step x y; ownPage x\<rbrakk> \<Longrightarrow> ownPage y"
proof (induction rule: personal_step.induct)
  case (reads_profile userID s d)
  then show ?case by (intro profileEffect_own) (simp_all add: ownPage_def)
next
  case (loses_profile userID s)
  then show ?case by (intro profileEffect_own) (simp_all add: ownPage_def)
next
  case (hands_over userID' userID s u)
  then show ?case by (intro profileEffect_own) simp_all
qed (simp_all add: own_saves, auto simp: typeName_def submitName_def chooseLocale_def localeSaveFailed_def intro: own_update)

text \<open>
  The page shows nobody but the user it is mounted for, whatever profiles are read, whoever takes the page over and
  whichever saves return late; and a save that another user's page has started, or that the server answers
  with another user, changes neither the page nor the cached users.
\<close>

theorem personal_page_own:
  assumes "personal_step\<^sup>*\<^sup>* (u, newPersonalPage u cu profiles) (userID, s)" "truthy u"
  shows "(case shownUser s of Some v \<Rightarrow> Some (accId v) = userID | None \<Rightarrow> True)
    \<and> (starter \<noteq> userID \<or> Some (accId updated) \<noteq> userID \<longrightarrow> applyUser starter updated p s = s)"
proof -
  have "ownPage (userID, s)"
    using assms(1)
  proof (induction rule: rtranclp_induct2)
    case refl
    show ?case using assms(2) by (simp add: ownPage_def newPersonalPage_def)
  qed (rule ownPage_step)
  then show ?thesis by (auto simp: ownPage_def applyUser_def foreignUpdate_def)
qed

definition ann :: AccountUser where
  "ann = \<lparr>accId = js ''1'', accName = js ''Ann'', accEmail = js ''a@x'', accLocale = None,
     accAvatar = \<lparr>avatarUrl = None, hasAvatar = None, avatarVersion = None\<rparr>\<rparr>"

definition ben :: AccountUser where
  "ben = ann\<lparr>accId := js ''2'', accName := js ''Ben''\<rparr>"

theorem personal_page_own_witness:
  "(let s = profileEffect (Some (js ''1'')) (Some (ann, None))
       ((newPersonalPage (Some (js ''1'')) None Map.empty)\<lparr>cachedProfile := [js ''1'' \<mapsto> (ann, None)]\<rparr>)
    in shownUser s = Some ann \<and> applyUser (Some (js ''1'')) ben (noPatch\<lparr>patchName := Some (accName ben)\<rparr>) s = s)"
proof -
  let ?n = "newPersonalPage (Some (js ''1'')) None Map.empty"
  let ?s = "profileEffect (Some (js ''1'')) (Some (ann, None)) (?n\<lparr>cachedProfile := [js ''1'' \<mapsto> (ann, None)]\<rparr>)"
  have "personal_step (Some (js ''1''), ?n) (Some (js ''1''), ?s)"
    using reads_profile [of "Some (js ''1'')" ?n "(ann, None)"] by (simp add: newPersonalPage_def)
  then have r: "personal_step\<^sup>*\<^sup>* (Some (js ''1''), ?n) (Some (js ''1''), ?s)" by blast
  have "shownUser ?s = Some ann"
    by (simp add: profileEffect_def newPersonalPage_def Let_def) (simp add: ann_def)
  with personal_page_own [OF r, of "Some (js ''1'')" ben "noPatch\<lparr>patchName := Some (accName ben)\<rparr>"] show ?thesis
    by (simp add: ben_def Let_def)
qed

section \<open>Password and e-mail address\<close>

datatype passwordIssue = InvalidPassword | PasswordMismatch

record PasswordForm =
  currentPassword :: jstr
  newPassword :: jstr
  confirmPassword :: jstr
  validation :: "passwordIssue option"
  passwordPending :: bool

definition emptyPasswordForm :: PasswordForm where
  "emptyPasswordForm = \<lparr>currentPassword = [], newPassword = [], confirmPassword = [], validation = None, passwordPending = False\<rparr>"

text \<open>
  The issue that is shown: the one of the confirmation, when there is one, else the first. The button is disabled while
  a change is being sent and until all three fields are filled in.
\<close>

definition shownIssue :: "issue list \<Rightarrow> passwordIssue" where
  "shownIssue issues =
     (let i = (case filter (\<lambda>(fld, m). fld = js ''passwordConfirmation'') issues of x # _ \<Rightarrow> x | [] \<Rightarrow> hd issues)
      in if snd i = js ''password_mismatch'' then PasswordMismatch else InvalidPassword)"

definition submitPassword :: "(jstr \<Rightarrow> jstr) \<Rightarrow> PasswordForm \<Rightarrow> PasswordForm \<times> profileMethod option" where
  "submitPassword nfc f =
     (if passwordPending f \<or> currentPassword f = [] \<or> newPassword f = [] \<or> confirmPassword f = [] then (f, None)
      else (let issues = passwordResetFormSchema nfc (newPassword f) (confirmPassword f) in
        if issues \<noteq> [] then (f\<lparr>validation := Some (shownIssue issues)\<rparr>, None)
        else (f\<lparr>validation := None, passwordPending := True\<rparr>,
          Some (ChangePersonalPassword (JObj [(js ''currentPassword'', JStr (currentPassword f)), (js ''newPassword'', JStr (newPassword f)),
            (js ''confirmPassword'', JStr (confirmPassword f))])))))"

definition passwordChanged :: "PasswordForm \<Rightarrow> PasswordForm" where
  "passwordChanged f = emptyPasswordForm"

record EmailForm =
  emailPassword :: jstr
  newEmail :: jstr
  verificationCode :: jstr
  emailError :: bool
  pendingChange :: "EmailChange option"
  requesting :: bool
  resending :: bool
  verifying :: bool

text \<open>The clock: \<open>new Date(resendAvailableAt)\<close> later than now; false for an invalid date.\<close>

definition resendDisabled :: "rat \<Rightarrow> EmailForm \<Rightarrow> bool" where
  "resendDisabled now f = (case pendingChange f of
       Some c \<Rightarrow> attemptsRemaining c \<le> 0 \<or> (case resendAvailableAt c of Some t \<Rightarrow> t > now | None \<Rightarrow> False)
     | None \<Rightarrow> True)"

definition submitEmailRequest :: "EmailForm \<Rightarrow> EmailForm \<times> profileMethod option" where
  "submitEmailRequest f =
     (if requesting f \<or> emailPassword f = [] \<or> newEmail f = [] then (f, None)
      else if personalEmailChangeFormSchema (newEmail f) \<noteq> [] then (f\<lparr>emailError := True\<rparr>, None)
      else (f\<lparr>emailError := False, requesting := True\<rparr>,
        Some (RequestPersonalEmailChange (JObj [(js ''currentPassword'', JStr (emailPassword f)), (js ''newEmail'', JStr (newEmail f))]))))"

definition emailRequested :: "EmailChange \<Rightarrow> EmailForm \<Rightarrow> EmailForm" where
  "emailRequested c f = f\<lparr>pendingChange := Some c, emailPassword := [], requesting := False\<rparr>"

definition typeCode :: "jstr \<Rightarrow> EmailForm \<Rightarrow> EmailForm" where
  "typeCode v f = f\<lparr>verificationCode := take 6 (filter (\<lambda>c. 0x30 \<le> c \<and> c \<le> 0x39) v)\<rparr>"

definition submitVerification :: "EmailForm \<Rightarrow> EmailForm \<times> profileMethod option" where
  "submitVerification f =
     (if \<not> verifying f \<and> length (verificationCode f) = 6
      then (f\<lparr>verifying := True\<rparr>,
        Some (VerifyPersonalEmailChange (JObj [(js ''requestId'', JStr (case pendingChange f of Some c \<Rightarrow> changeId c | None \<Rightarrow> [])),
          (js ''code'', JStr (verificationCode f))])))
      else (f, None))"

definition clickResend :: "rat \<Rightarrow> EmailForm \<Rightarrow> EmailForm \<times> profileMethod option" where
  "clickResend now f =
     (if resending f \<or> resendDisabled now f then (f, None) else (f\<lparr>resending := True\<rparr>, Some ResendPersonalEmailChange))"

definition resent :: "EmailChange \<Rightarrow> EmailForm \<Rightarrow> EmailForm" where
  "resent c f = f\<lparr>pendingChange := Some c, verificationCode := [], resending := False\<rparr>"

text \<open>A refused code: the change is read again, and kept as it was if that fails, too.\<close>

definition verifyFailed :: "EmailChange option option \<Rightarrow> EmailForm \<Rightarrow> EmailForm" where
  "verifyFailed reread f = f\<lparr>verifying := False, pendingChange := nullish reread (pendingChange f)\<rparr>"

definition cancelEmailChange :: "EmailForm \<Rightarrow> EmailForm" where
  "cancelEmailChange f = (if verifying f then f
     else f\<lparr>pendingChange := None, verificationCode := [], newEmail := [], emailPassword := []\<rparr>)"

definition newEmailForm :: "EmailChange option \<Rightarrow> EmailForm" where
  "newEmailForm c = \<lparr>emailPassword = [], newEmail = [], verificationCode = [], emailError = False, pendingChange = c,
     requesting = False, resending = False, verifying = False\<rparr>"

text \<open>The form of the change is shown without one, the form of the code with one.\<close>

record EmailRun =
  emailForm :: EmailForm
  emailClock :: rat
  emailSent :: "(EmailChange option \<times> rat \<times> profileMethod) list"

definition emailSends :: "EmailForm \<times> profileMethod option \<Rightarrow> EmailRun \<Rightarrow> EmailRun" where
  "emailSends x r = r\<lparr>emailForm := fst x,
     emailSent := emailSent r @ (case snd x of Some m \<Rightarrow> [(pendingChange (emailForm r), emailClock r, m)] | None \<Rightarrow> [])\<rparr>"

inductive email_step :: "EmailRun \<Rightarrow> EmailRun \<Rightarrow> bool" where
  ticks: "t \<ge> 0 \<Longrightarrow> email_step r (r\<lparr>emailClock := emailClock r + t\<rparr>)"
| types_email: "email_step r (r\<lparr>emailForm := (emailForm r)\<lparr>newEmail := v, emailError := False\<rparr>\<rparr>)"
| types_password: "email_step r (r\<lparr>emailForm := (emailForm r)\<lparr>emailPassword := v\<rparr>\<rparr>)"
| requests: "pendingChange (emailForm r) = None \<Longrightarrow> email_step r (emailSends (submitEmailRequest (emailForm r)) r)"
| requested: "email_step r (r\<lparr>emailForm := emailRequested c (emailForm r)\<rparr>)"
| request_fails: "email_step r (r\<lparr>emailForm := (emailForm r)\<lparr>requesting := False\<rparr>\<rparr>)"
| types_code: "email_step r (r\<lparr>emailForm := typeCode v (emailForm r)\<rparr>)"
| verifies: "pendingChange (emailForm r) \<noteq> None \<Longrightarrow> email_step r (emailSends (submitVerification (emailForm r)) r)"
| verify_fails: "email_step r (r\<lparr>emailForm := verifyFailed reread (emailForm r)\<rparr>)"
| resends: "email_step r (emailSends (clickResend (emailClock r) (emailForm r)) r)"
| has_resent: "email_step r (r\<lparr>emailForm := resent c (emailForm r)\<rparr>)"
| resend_fails: "email_step r (r\<lparr>emailForm := (emailForm r)\<lparr>resending := False\<rparr>\<rparr>)"
| cancels_change: "email_step r (r\<lparr>emailForm := cancelEmailChange (emailForm r)\<rparr>)"
| changes: "email_step r (r\<lparr>emailForm := (emailForm r)\<lparr>pendingChange := c\<rparr>\<rparr>)"

definition sixDigits :: "jstr \<Rightarrow> bool" where
  "sixDigits s \<longleftrightarrow> length s = 6 \<and> list_all (\<lambda>c. 0x30 \<le> c \<and> c \<le> 0x39) s"

text \<open>What may be sent, and when: the change that is shown and the time.\<close>

fun soundEmail :: "EmailChange option \<times> rat \<times> profileMethod \<Rightarrow> bool" where
  "soundEmail (c, now, VerifyPersonalEmailChange body) \<longleftrightarrow>
     (\<exists>ch cd. c = Some ch \<and> body = JObj [(js ''requestId'', JStr (changeId ch)), (js ''code'', JStr cd)] \<and> sixDigits cd)"
| "soundEmail (c, now, ResendPersonalEmailChange) \<longleftrightarrow>
     (\<exists>ch. c = Some ch \<and> attemptsRemaining ch > 0 \<and> (\<forall>t. resendAvailableAt ch = Some t \<longrightarrow> t \<le> now))"
| "soundEmail (c, now, RequestPersonalEmailChange body) \<longleftrightarrow>
     (\<exists>pw e. c = None \<and> body = JObj [(js ''currentPassword'', JStr pw), (js ''newEmail'', JStr e)] \<and> pw \<noteq> [] \<and> validateEmail e = [])"
| "soundEmail _ \<longleftrightarrow> False"

definition goodEmail :: "EmailRun \<Rightarrow> bool" where
  "goodEmail r \<longleftrightarrow> list_all soundEmail (emailSent r)
     \<and> length (verificationCode (emailForm r)) \<le> 6 \<and> list_all (\<lambda>c. 0x30 \<le> c \<and> c \<le> 0x39) (verificationCode (emailForm r))"

lemma goodEmail_step: "\<lbrakk>email_step r r'; goodEmail r\<rbrakk> \<Longrightarrow> goodEmail r'"
proof (induction rule: email_step.induct)
  case (requests r)
  then show ?case
    by (auto simp: goodEmail_def emailSends_def submitEmailRequest_def personalEmailChangeFormSchema_def)
next
  case (types_code r v)
  then show ?case by (auto simp: goodEmail_def typeCode_def list_all_iff dest: in_set_takeD)
next
  case (verifies r)
  then show ?case by (auto simp: goodEmail_def emailSends_def submitVerification_def sixDigits_def)
next
  case (resends r)
  then show ?case
    by (auto simp: goodEmail_def emailSends_def clickResend_def resendDisabled_def split: option.splits)
qed (auto simp: goodEmail_def emailRequested_def verifyFailed_def resent_def cancelEmailChange_def)

text \<open>
  A change of the e-mail address goes through its steps: it is requested only without one under way, with a password
  and a valid address; a verification names the change that is shown and carries exactly six digits; and a
  code is sent again only with attempts left and after the waiting time.
\<close>

theorem email_requests_sound:
  assumes "email_step\<^sup>*\<^sup>* \<lparr>emailForm = newEmailForm c, emailClock = t, emailSent = []\<rparr> r"
  shows "list_all soundEmail (emailSent r)"
proof -
  from assms have "goodEmail r"
  proof (induction rule: rtranclp_induct)
    case base
    show ?case by (simp add: goodEmail_def newEmailForm_def)
  qed (rule goodEmail_step)
  then show ?thesis by (simp add: goodEmail_def)
qed

definition sampleChange :: EmailChange where
  "sampleChange = \<lparr>changeId = js ''c1'', changeEmail = js ''n@x'', attemptsRemaining = 5, resendAvailableAt = Some 60\<rparr>"

theorem email_requests_sound_witness:
  "list_all soundEmail [(Some sampleChange, 60, ResendPersonalEmailChange)]"
proof -
  let ?r0 = "\<lparr>emailForm = newEmailForm (Some sampleChange), emailClock = 0, emailSent = []\<rparr>"
  let ?r1 = "?r0\<lparr>emailClock := emailClock ?r0 + 60\<rparr>"
  let ?r2 = "emailSends (clickResend (emailClock ?r1) (emailForm ?r1)) ?r1"
  have "email_step ?r0 ?r1" by (rule ticks) simp
  moreover have "email_step ?r1 ?r2" by (rule resends)
  ultimately have "email_step\<^sup>*\<^sup>* ?r0 ?r2" by (meson rtranclp.rtrancl_into_rtrancl rtranclp.rtrancl_refl)
  from email_requests_sound [OF this] show ?thesis
    by (simp add: emailSends_def clickResend_def resendDisabled_def newEmailForm_def) (simp add: sampleChange_def)
qed

end
