(* ===== verification/TableState.thy ===== *)
theory TableState
  imports JsUrl "HOL-Library.Log_Nat"
begin

text \<open>
  The tables of the operator frontend (\<open>src/frontend\<close>): \<open>features/shared/tableState.ts\<close> keeps page, size, search text, order
  and filters of a table in the query of the page's address; \<open>api/listParams.ts\<close> makes the query of the list request
  from them; \<open>features/shared/TableControls.tsx\<close> shows them. Two tables of one page share the address and are told
  apart by a prefix of their parameters. A table is refined to a record of what it shows.
\<close>

section \<open>Numbers in the address\<close>

text \<open>
  \<open>Number.parseInt(s, 10)\<close>: white space, a sign, digits; anything may follow. The value is the nearest double (ties
  to even), none when there is no digit or the value is beyond the doubles.
\<close>

definition roundDouble :: "nat \<Rightarrow> nat option" where
  "roundDouble n =
     (if n \<le> 2 ^ 53 then Some n
      else (let e = floorlog 2 n - 53; d = n div 2 ^ e; r = n mod 2 ^ e;
                d' = (if 2 * r > 2 ^ e \<or> 2 * r = 2 ^ e \<and> odd d then d + 1 else d)
            in if d' * 2 ^ e \<ge> 2 ^ 1024 then None else Some (d' * 2 ^ e)))"

definition parseInt10 :: "jstr \<Rightarrow> int option" where
  "parseInt10 s =
     (let t = dropWhile ws_char s;
          neg = (case t of c # _ \<Rightarrow> c = 0x2D | [] \<Rightarrow> False);
          u = (case t of c # w \<Rightarrow> if c = 0x2D \<or> c = 0x2B then w else t | [] \<Rightarrow> []);
          ds = takeWhile digit u
      in if ds = [] then None
         else map_option (\<lambda>n. if neg then - int n else int n) (roundDouble (digits_val ds)))"

definition parsePositiveInt :: "jstr option \<Rightarrow> nat \<Rightarrow> nat" where
  "parsePositiveInt v fallback =
     (case parseInt10 (nullish v []) of Some n \<Rightarrow> if n > 0 then nat n else fallback | None \<Rightarrow> fallback)"

lemma digit_not_ws: "digit c \<Longrightarrow> \<not> ws_char c \<and> c \<noteq> 0x2D \<and> c \<noteq> 0x2B"
  by (auto simp: digit_def ws_char_def)

lemma takeWhile_digits: "list_all digit ds \<Longrightarrow> takeWhile digit ds = ds"
  by (induction ds) auto

lemma digits_nat_str: "list_all digit (nat_str n)"
  by (auto simp: list_all_iff intro: digit_nat_str)

text \<open>A number that is written and read again is the same, up to the integers that doubles hold exactly.\<close>

lemma parseInt10_nat_str:
  assumes "n \<le> 2 ^ 53"
  shows "parseInt10 (nat_str n) = Some (int n)"
proof (cases "nat_str n")
  case Nil
  then show ?thesis by simp
next
  case (Cons c w)
  have "digit c" using digit_nat_str [of c n] Cons by simp
  then have d: "\<not> ws_char c" "c \<noteq> 0x2D" "c \<noteq> 0x2B" using digit_not_ws by blast+
  have "takeWhile digit (c # w) = nat_str n" "digits_val (c # w) = n"
    using takeWhile_digits [OF digits_nat_str] digits_val_nat_str Cons by metis+
  then show ?thesis
    unfolding parseInt10_def Cons using d assms by (simp add: Cons Let_def roundDouble_def)
qed

lemma parsePositiveInt_nat_str [simp]: "\<lbrakk>n \<le> 2 ^ 53; n > 0\<rbrakk> \<Longrightarrow> parsePositiveInt (Some (nat_str n)) d = n"
  by (simp add: parsePositiveInt_def parseInt10_nat_str)

lemma parsePositiveInt_None [simp]: "parsePositiveInt None d = d"
  by (simp add: parsePositiveInt_def parseInt10_def)

lemma parsePositiveInt_pos: "d > 0 \<Longrightarrow> parsePositiveInt v d > 0"
  by (auto simp: parsePositiveInt_def split: option.splits)

section \<open>The state of a table\<close>

datatype sortOrder = Asc | Desc

fun orderName :: "sortOrder \<Rightarrow> jstr" where
  "orderName Asc = (js ''asc'')"
| "orderName Desc = (js ''desc'')"

definition parseSortOrder :: "jstr option \<Rightarrow> sortOrder \<Rightarrow> sortOrder" where
  "parseSortOrder v fallback = (if v = Some (js ''asc'') then Asc else if v = Some (js ''desc'') then Desc else fallback)"

lemma parseSortOrder_name [simp]: "parseSortOrder (Some (orderName d)) e = d"
  by (cases d) (simp_all add: parseSortOrder_def)

lemma parseSortOrder_None [simp]: "parseSortOrder None e = e"
  by (simp add: parseSortOrder_def)

lemma orderName_nonempty [simp]: "orderName d \<noteq> []"
  by (cases d) simp_all

record TableOptions =
  defaultSortBy :: jstr
  defaultSortOrder :: sortOrder
  defaultPageSize :: nat
  filterKeys :: "jstr list"
  tablePrefix :: jstr

definition tableOptions :: "jstr \<Rightarrow> sortOrder \<Rightarrow> jstr list \<Rightarrow> jstr \<Rightarrow> TableOptions" where
  "tableOptions by dir keys pre = \<lparr>defaultSortBy = by, defaultSortOrder = dir, defaultPageSize = 25, filterKeys = keys, tablePrefix = pre\<rparr>"

definition paramKey :: "TableOptions \<Rightarrow> jstr \<Rightarrow> jstr" where
  "paramKey tb nm = tablePrefix tb @ nm"

text \<open>What a table shows, which is also what it asks the server for.\<close>

record TableView =
  shownPage :: nat
  shownSize :: nat
  shownSearch :: jstr
  shownSortBy :: jstr
  shownOrder :: sortOrder
  shownFilters :: "(jstr \<times> jstr) list"

definition useTableState :: "TableOptions \<Rightarrow> params \<Rightarrow> TableView" where
  "useTableState tb ps =
     \<lparr>shownPage = parsePositiveInt (params_get ps (paramKey tb (js ''page''))) 1,
      shownSize = parsePositiveInt (params_get ps (paramKey tb (js ''page_size''))) (defaultPageSize tb),
      shownSearch = nullish (params_get ps (paramKey tb (js ''search''))) [],
      shownSortBy = nullish (params_get ps (paramKey tb (js ''sort_by''))) (defaultSortBy tb),
      shownOrder = parseSortOrder (params_get ps (paramKey tb (js ''sort_order''))) (defaultSortOrder tb),
      shownFilters = map (\<lambda>k. (k, nullish (params_get ps (paramKey tb k)) [])) (filterKeys tb)\<rparr>"

datatype tableValue = TextValue jstr | NumberValue int | NoValue

fun valueText :: "tableValue \<Rightarrow> jstr" where
  "valueText (TextValue s) = s"
| "valueText (NumberValue n) = int_str n"
| "valueText NoValue = []"

fun updateParams :: "TableOptions \<Rightarrow> (jstr \<times> tableValue) list \<Rightarrow> params \<Rightarrow> params" where
  "updateParams tb [] ps = ps"
| "updateParams tb ((nm, v) # us) ps = updateParams tb us
     (if valueText v = [] then params_delete (paramKey tb nm) ps else params_set (paramKey tb nm) (valueText v) ps)"

definition updateSearch :: "TableOptions \<Rightarrow> (jstr \<times> tableValue) list \<Rightarrow> bool \<Rightarrow> params \<Rightarrow> params" where
  "updateSearch tb updates resetPage ps =
     (let n = updateParams tb updates ps in if resetPage then params_delete (paramKey tb (js ''page'')) n else n)"

datatype tableOp = SetPage int | SetPageSize int | SetSearch jstr | SetFilter jstr jstr | ToggleSort jstr

fun tableStep :: "TableOptions \<Rightarrow> tableOp \<Rightarrow> params \<Rightarrow> params" where
  "tableStep tb (SetPage n) ps = updateSearch tb [((js ''page''), NumberValue (max 1 n))] False ps"
| "tableStep tb (SetPageSize n) ps = updateSearch tb [((js ''page_size''), NumberValue n)] True ps"
| "tableStep tb (SetSearch s) ps = updateSearch tb [((js ''search''), TextValue s)] True ps"
| "tableStep tb (SetFilter nm v) ps = updateSearch tb [(nm, TextValue v)] True ps"
| "tableStep tb (ToggleSort by) ps =
     (let s = useTableState tb ps;
          dir = (if shownSortBy s = by \<and> shownOrder s = Asc then Desc else Asc)
      in updateSearch tb [((js ''sort_by''), TextValue by), ((js ''sort_order''), TextValue (orderName dir))] True ps)"

section \<open>What the operations promise\<close>

text \<open>The table without an address: every operation changes what it names, and all but turning the page go to the first page.\<close>

fun viewStep :: "tableOp \<Rightarrow> TableView \<Rightarrow> TableView" where
  "viewStep (SetPage n) v = v\<lparr>shownPage := nat (max 1 n)\<rparr>"
| "viewStep (SetPageSize n) v = v\<lparr>shownSize := nat n, shownPage := 1\<rparr>"
| "viewStep (SetSearch s) v = v\<lparr>shownSearch := s, shownPage := 1\<rparr>"
| "viewStep (SetFilter nm x) v = v\<lparr>shownFilters := map (\<lambda>(k, y). (k, if k = nm then x else y)) (shownFilters v), shownPage := 1\<rparr>"
| "viewStep (ToggleSort by) v = v\<lparr>shownSortBy := by,
     shownOrder := (if shownSortBy v = by \<and> shownOrder v = Asc then Desc else Asc), shownPage := 1\<rparr>"

definition reservedNames :: "jstr list" where
  "reservedNames = [(js ''page''), (js ''page_size''), (js ''search''), (js ''sort_by''), (js ''sort_order'')]"

text \<open>What the controls offer: numbers that doubles hold exactly, filters of the table, named columns.\<close>

fun offered :: "TableOptions \<Rightarrow> tableOp \<Rightarrow> bool" where
  "offered tb (SetPage n) \<longleftrightarrow> n \<le> 2 ^ 53"
| "offered tb (SetPageSize n) \<longleftrightarrow> 0 < n \<and> n \<le> 2 ^ 53"
| "offered tb (SetSearch s) \<longleftrightarrow> True"
| "offered tb (SetFilter nm v) \<longleftrightarrow> nm \<in> set (filterKeys tb)"
| "offered tb (ToggleSort by) \<longleftrightarrow> by \<noteq> []"

lemma paramKey_eq [simp]: "paramKey tb a = paramKey tb b \<longleftrightarrow> a = b"
  by (simp add: paramKey_def)

lemma int_str_nat: "0 \<le> n \<Longrightarrow> int_str n = nat_str (nat n)"
  by (simp add: int_str_def)

text \<open>What is found under a key of the table after an updateSearch.\<close>

lemma params_get_update1:
  "params_get (updateSearch tb [(nm, v)] r ps) (paramKey tb k) =
     (if r \<and> k = (js ''page'') then None
      else if k = nm then (if valueText v = [] then None else Some (valueText v))
      else params_get ps (paramKey tb k))"
  by (simp add: updateSearch_def Let_def)

lemma params_get_update2:
  "params_get (updateSearch tb [(a, x), (b, y)] r ps) (paramKey tb k) =
     (if r \<and> k = (js ''page'') then None
      else if k = b then (if valueText y = [] then None else Some (valueText y))
      else if k = a then (if valueText x = [] then None else Some (valueText x))
      else params_get ps (paramKey tb k))"
  by (simp add: updateSearch_def Let_def)

locale url_table =
  fixes tb :: TableOptions
  assumes filter_names: "set (filterKeys tb) \<inter> set reservedNames = {}"
    and sized: "defaultPageSize tb > 0"
begin

lemma filter_not_reserved: "k \<in> set (filterKeys tb) \<Longrightarrow>
    k \<noteq> (js ''page'') \<and> k \<noteq> (js ''page_size'') \<and> k \<noteq> (js ''search'') \<and> k \<noteq> (js ''sort_by'') \<and> k \<noteq> (js ''sort_order'')"
  using filter_names by (auto simp: reservedNames_def)

lemma filters_after:
  "\<lbrakk>\<And>k. k \<in> set (filterKeys tb) \<Longrightarrow> params_get ps' (paramKey tb k) = params_get ps (paramKey tb k)\<rbrakk>
     \<Longrightarrow> shownFilters (useTableState tb ps') = shownFilters (useTableState tb ps)"
  by (simp add: useTableState_def)

lemma step_refines:
  assumes "offered tb c"
  shows "useTableState tb (tableStep tb c ps) = viewStep c (useTableState tb ps)"
proof (cases c)
  case (SetPage n)
  then show ?thesis using assms filter_not_reserved
    by (auto simp: useTableState_def params_get_update1 int_str_nat)
next
  case (SetPageSize n)
  then show ?thesis using assms filter_not_reserved
    by (auto simp: useTableState_def params_get_update1 int_str_nat)
next
  case (SetSearch s)
  then show ?thesis using filter_not_reserved
    by (auto simp: useTableState_def params_get_update1)
next
  case (SetFilter nm x)
  then show ?thesis using assms filter_not_reserved [of nm] filter_not_reserved
    by (auto simp: useTableState_def params_get_update1)
next
  case (ToggleSort column)
  then show ?thesis using assms filter_not_reserved
    by (auto simp: useTableState_def params_get_update2 Let_def)
qed

lemma steps_refine:
  "list_all (offered tb) cs \<Longrightarrow> useTableState tb (fold (tableStep tb) cs ps) = fold viewStep cs (useTableState tb ps)"
  by (induction cs arbitrary: ps) (simp_all add: step_refines)

end

section \<open>Addresses\<close>

text \<open>
  The address bar: setting the parameters writes the query, and the next render reads it again. Text that is not
  well-formed UTF-16 would not survive that; text that is typed or read from an address is.
\<close>

definition addressStep :: "TableOptions \<Rightarrow> tableOp \<Rightarrow> jstr \<Rightarrow> jstr" where
  "addressStep tb c address = params_str (tableStep tb c (parse_params address))"

definition tableAt :: "TableOptions \<Rightarrow> jstr \<Rightarrow> TableView" where
  "tableAt tb address = useTableState tb (parse_params address)"

fun opTexts :: "tableOp \<Rightarrow> jstr list" where
  "opTexts (SetSearch s) = [s]"
| "opTexts (SetFilter nm v) = [v]"
| "opTexts (ToggleSort column) = [column]"
| "opTexts _ = []"

definition unicodeTable :: "TableOptions \<Rightarrow> bool" where
  "unicodeTable tb \<longleftrightarrow> unicode (tablePrefix tb) \<and> (\<forall>c\<in>set (tablePrefix tb). c < 0x100) \<and> (\<forall>k\<in>set (filterKeys tb). \<forall>c\<in>set k. c < 0x100)"

lemma unicode_nat_str [simp]: "unicode (nat_str n)"
  by (intro unicode_ascii ballI) (auto dest!: digit_nat_str simp: digit_def)

lemma unicode_int_str [simp]: "unicode (int_str n)"
  unfolding int_str_def by (intro unicode_ascii ballI) (auto dest!: digit_nat_str simp: digit_def split: if_splits)

lemma unicode_orderName [simp]: "unicode (orderName d)"
  by (cases d) simp_all

lemma unicode_params_delete: "unicode_params ps \<Longrightarrow> unicode_params (params_delete k ps)"
  by (auto simp: unicode_params_def params_delete_def)

lemma unicode_updateSearch:
  "\<lbrakk>unicode_params ps; \<forall>(nm, v)\<in>set us. unicode (paramKey tb nm) \<and> unicode (valueText v)\<rbrakk> \<Longrightarrow> unicode_params (updateSearch tb us r ps)"
proof -
  have "\<lbrakk>unicode_params ps; \<forall>(nm, v)\<in>set us. unicode (paramKey tb nm) \<and> unicode (valueText v)\<rbrakk> \<Longrightarrow> unicode_params (updateParams tb us ps)"
    by (induction tb us ps rule: updateParams.induct) (simp_all add: unicode_params_set unicode_params_delete)
  then show "\<lbrakk>unicode_params ps; \<forall>(nm, v)\<in>set us. unicode (paramKey tb nm) \<and> unicode (valueText v)\<rbrakk> \<Longrightarrow> ?thesis"
    by (simp add: updateSearch_def Let_def unicode_params_delete)
qed

lemma unicode_paramKey:
  "\<lbrakk>unicodeTable tb; \<forall>c\<in>set nm. c < 0x100\<rbrakk> \<Longrightarrow> unicode (paramKey tb nm)"
  unfolding paramKey_def unicodeTable_def by (intro unicode_ascii) auto

lemma unicode_tableStep:
  assumes "unicode_params ps" "unicodeTable tb" "offered tb c" "list_all unicode (opTexts c)"
  shows "unicode_params (tableStep tb c ps)"
  using assms unicode_paramKey [OF assms(2)]
  by (cases c) (auto simp: js_less_256 unicodeTable_def Let_def intro!: unicode_updateSearch)

context url_table
begin

lemma address_refines:
  assumes "offered tb c" "unicodeTable tb" "list_all unicode (opTexts c)"
  shows "tableAt tb (addressStep tb c a) = viewStep c (tableAt tb a)"
  unfolding tableAt_def addressStep_def
  by (subst params_roundtrip) (use assms in \<open>simp_all add: unicode_tableStep parse_params_unicode step_refines\<close>)

lemma addresses_refine:
  "\<lbrakk>unicodeTable tb; list_all (\<lambda>c. offered tb c \<and> list_all unicode (opTexts c)) cs\<rbrakk>
     \<Longrightarrow> tableAt tb (fold (addressStep tb) cs a) = fold viewStep cs (tableAt tb a)"
  by (induction cs arbitrary: a) (simp_all add: address_refines)

lemma shown_bounds: "shownPage (tableAt tb a) > 0" "shownSize (tableAt tb a) > 0"
  using sized by (simp_all add: tableAt_def useTableState_def parsePositiveInt_pos)

end

section \<open>Two tables of one page\<close>

locale two_tables = first: url_table ta + second: url_table tb for ta tb +
  assumes apart: "paramKey ta x \<noteq> paramKey tb y"
begin

lemma foreign_params: "params_get (updateSearch ta us r ps) (paramKey tb k) = params_get ps (paramKey tb k)"
proof -
  have "params_get (updateParams ta us ps) (paramKey tb k) = params_get ps (paramKey tb k)" for us ps
  proof (induction us arbitrary: ps)
    case (Cons u us)
    then show ?case using apart [of "fst u" k] by (cases u) (auto dest: sym)
  qed simp
  then show ?thesis using apart [of "(js ''page'')" k] by (auto simp: updateSearch_def Let_def dest: sym)
qed

lemma foreign_step: "useTableState tb (tableStep ta c ps) = useTableState tb ps"
  by (cases c) (simp_all add: useTableState_def foreign_params Let_def)

end

section \<open>The request for a list\<close>

datatype filterValue = FilterText jstr | FilterNumber int | FilterBool bool | FilterNone

record ListQueryParams =
  listPage :: "int option"
  listPageSize :: "int option"
  listSearch :: "jstr option"
  listSortBy :: "jstr option"
  listSortOrder :: "sortOrder option"
  listFilters :: "(jstr \<times> filterValue) list"

fun filterText :: "filterValue \<Rightarrow> jstr" where
  "filterText (FilterText s) = s"
| "filterText (FilterNumber n) = int_str n"
| "filterText (FilterBool b) = (if b then (js ''true'') else (js ''false''))"
| "filterText FilterNone = []"

fun setFilters :: "(jstr \<times> filterValue) list \<Rightarrow> params \<Rightarrow> params" where
  "setFilters [] ps = ps"
| "setFilters ((k, v) # fs) ps = setFilters fs (if filterText v = [] then ps else params_set k (filterText v) ps)"

definition setTruthy :: "jstr \<Rightarrow> jstr option \<Rightarrow> params \<Rightarrow> params" where
  "setTruthy k v ps = (if truthy v then params_set k (the v) ps else ps)"

definition buildListSearch :: "ListQueryParams \<Rightarrow> jstr" where
  "buildListSearch p = params_str
     (setFilters (listFilters p)
       (setTruthy (js ''sort_order'') (map_option orderName (listSortOrder p))
         (setTruthy (js ''sort_by'') (listSortBy p)
           (setTruthy (js ''search'') (listSearch p)
             (params_set (js ''page_size'') (int_str (nullish (listPageSize p) 25))
               (params_set (js ''page'') (int_str (nullish (listPage p) 1)) []))))))"

definition withListParams :: "jstr \<Rightarrow> ListQueryParams \<Rightarrow> jstr" where
  "withListParams path p = path @ 0x3F # buildListSearch p"

definition apiParams :: "TableView \<Rightarrow> ListQueryParams" where
  "apiParams v = \<lparr>listPage = Some (int (shownPage v)), listPageSize = Some (int (shownSize v)), listSearch = Some (shownSearch v),
     listSortBy = Some (shownSortBy v), listSortOrder = Some (shownOrder v), listFilters = map (\<lambda>(k, x). (k, FilterText x)) (shownFilters v)\<rparr>"

text \<open>What the server should find in the query: page, size and order always, the search text and the filters that are set.\<close>

definition expectedParams :: "TableView \<Rightarrow> params" where
  "expectedParams v =
     [((js ''page''), nat_str (shownPage v)), ((js ''page_size''), nat_str (shownSize v))]
     @ (if shownSearch v = [] then [] else [((js ''search''), shownSearch v)])
     @ (if shownSortBy v = [] then [] else [((js ''sort_by''), shownSortBy v)])
     @ [((js ''sort_order''), orderName (shownOrder v))]
     @ filter (\<lambda>(k, x). x \<noteq> []) (shownFilters v)"

lemma params_set_new: "k \<notin> fst ` set ps \<Longrightarrow> params_set k v ps = ps @ [(k, v)]"
  by (induction k v ps rule: params_set.induct) auto

lemma setFilters_new:
  "\<lbrakk>distinct (map fst fs); fst ` set fs \<inter> fst ` set ps = {}\<rbrakk>
     \<Longrightarrow> setFilters (map (\<lambda>(k, x). (k, FilterText x)) fs) ps = ps @ filter (\<lambda>(k, x). x \<noteq> []) fs"
proof (induction fs arbitrary: ps)
  case (Cons f fs)
  then show ?case by (cases f) (auto simp: params_set_new)
qed simp

lemma list_search_params:
  assumes "distinct (map fst (shownFilters v))" "fst ` set (shownFilters v) \<inter> set reservedNames = {}"
  shows "buildListSearch (apiParams v) = params_str (expectedParams v)"
proof -
  let ?base = "[((js ''page''), nat_str (shownPage v)), ((js ''page_size''), nat_str (shownSize v))]
     @ (if shownSearch v = [] then [] else [((js ''search''), shownSearch v)])
     @ (if shownSortBy v = [] then [] else [((js ''sort_by''), shownSortBy v)])
     @ [((js ''sort_order''), orderName (shownOrder v))]"
  have "fst ` set ?base \<subseteq> set reservedNames" by (auto simp: reservedNames_def)
  then have "fst ` set (shownFilters v) \<inter> fst ` set ?base = {}" using assms(2) by blast
  note f = setFilters_new [OF assms(1) this]
  have "buildListSearch (apiParams v) = params_str (setFilters (map (\<lambda>(k, x). (k, FilterText x)) (shownFilters v)) ?base)"
    by (simp add: buildListSearch_def apiParams_def setTruthy_def int_str_nat)
  then show ?thesis by (simp only: f expectedParams_def append_assoc)
qed

text \<open>The question mark before a query is dropped when it is read.\<close>

lemma params_str_hd: "\<lbrakk>\<forall>c\<in>set k. c < 0x10000; params_str ((k, v) # ps) = c # s\<rbrakk> \<Longrightarrow> c \<noteq> 0x3F"
  using form_encode_safe [of k c] form_safe_ascii [of c]
  by (cases ps; cases "form_encode k") (auto simp: params_str_def)

lemma parse_params_question:
  "parse_params (0x3F # params_str (expectedParams v)) = parse_params (params_str (expectedParams v))"
proof (cases "params_str (expectedParams v)")
  case Nil
  then show ?thesis by (simp add: parse_params_def)
next
  case (Cons c s)
  moreover have "\<forall>c\<in>set (js ''page''). c < 0x10000" using js_less_256 by fastforce
  ultimately have "c \<noteq> 0x3F"
    using params_str_hd [of "(js ''page'')" "nat_str (shownPage v)" "drop 1 (expectedParams v)" c s] by (simp add: expectedParams_def)
  then show ?thesis by (simp add: Cons parse_params_def)
qed

lemma unicode_get: "unicode_params ps \<Longrightarrow> unicode (nullish (params_get ps k) [])"
  by (cases "map_of ps k") (auto simp: params_get_def unicode_params_def dest: map_of_SomeD)

lemma tableAt_unicode:
  assumes "unicodeTable tb" "unicode (defaultSortBy tb)"
  shows "unicode_params (expectedParams (tableAt tb a))"
proof -
  have g: "unicode (nullish (params_get (parse_params a) k) [])" for k
    by (rule unicode_get) (rule parse_params_unicode)
  have "unicode (nullish (params_get (parse_params a) k) (defaultSortBy tb))" for k
    using g [of k] assms(2) by (cases "params_get (parse_params a) k") simp_all
  moreover have "unicode k" if "k \<in> set (filterKeys tb)" for k
    using assms(1) that by (auto simp: unicodeTable_def intro: unicode_ascii)
  ultimately show ?thesis using g by (auto simp: expectedParams_def tableAt_def useTableState_def unicode_params_def)
qed

context url_table
begin

lemma request_shows_table:
  assumes "unicodeTable tb \<and> unicode (defaultSortBy tb) \<and> distinct (filterKeys tb)"
  shows "parse_params (drop (length path) (withListParams path (apiParams (tableAt tb a)))) = expectedParams (tableAt tb a)"
proof -
  have "map fst (shownFilters (tableAt tb a)) = filterKeys tb" by (simp add: tableAt_def useTableState_def comp_def)
  then have "buildListSearch (apiParams (tableAt tb a)) = params_str (expectedParams (tableAt tb a))"
    using assms filter_names by (intro list_search_params) (metis, metis list.set_map)
  then show ?thesis
    using params_roundtrip tableAt_unicode assms by (simp add: withListParams_def parse_params_question)
qed

end

section \<open>The tables of the pages\<close>

definition usersTable :: TableOptions where
  "usersTable = tableOptions (js ''username'') Asc [(js ''role''), (js ''is_active'')] []"

definition credentialsTable :: TableOptions where
  "credentialsTable = tableOptions (js ''name'') Asc [(js ''is_active'')] []"

definition switchTable :: TableOptions where
  "switchTable = tableOptions (js ''name'') Asc [(js ''is_enabled''), (js ''is_validated'')] (js ''switch_'')"

definition importTable :: TableOptions where
  "importTable = tableOptions (js ''created_at'') Desc [(js ''status'')] (js ''import_'')"

definition profilesTable :: TableOptions where
  "profilesTable = tableOptions (js ''name'') Asc [(js ''is_active'')] []"

definition auditTable :: TableOptions where
  "auditTable = tableOptions (js ''created_at'') Desc [(js ''action''), (js ''target_type'')] []"

definition jobsTable :: TableOptions where
  "jobsTable = tableOptions (js ''created_at'') Desc [(js ''status''), (js ''kind''), (js ''force'')] []"

definition appTables :: "TableOptions list" where
  "appTables = [usersTable, credentialsTable, switchTable, importTable, profilesTable, auditTable, jobsTable]"

lemmas table_defs = usersTable_def credentialsTable_def switchTable_def importTable_def profilesTable_def auditTable_def jobsTable_def
  tableOptions_def

interpretation users: url_table usersTable
  by unfold_locales (simp_all add: table_defs reservedNames_def)

interpretation credentials: url_table credentialsTable
  by unfold_locales (simp_all add: table_defs reservedNames_def)

interpretation profiles: url_table profilesTable
  by unfold_locales (simp_all add: table_defs reservedNames_def)

interpretation audit: url_table auditTable
  by unfold_locales (simp_all add: table_defs reservedNames_def)

interpretation jobs: url_table jobsTable
  by unfold_locales (simp_all add: table_defs reservedNames_def)

interpretation switches: two_tables switchTable importTable
  by unfold_locales (simp_all add: table_defs reservedNames_def paramKey_def js_Cons)

interpretation batches: two_tables importTable switchTable
  by unfold_locales (simp_all add: table_defs paramKey_def js_Cons)

lemmas app_steps = users.addresses_refine credentials.addresses_refine profiles.addresses_refine audit.addresses_refine
  jobs.addresses_refine switches.first.addresses_refine switches.second.addresses_refine

lemmas app_requests = users.request_shows_table credentials.request_shows_table profiles.request_shows_table
  audit.request_shows_table jobs.request_shows_table switches.first.request_shows_table switches.second.request_shows_table

lemma appTables_text: "tb \<in> set appTables \<Longrightarrow> unicodeTable tb \<and> unicode (defaultSortBy tb) \<and> distinct (filterKeys tb)"
  by (auto simp: appTables_def table_defs unicodeTable_def js_less_256)

text \<open>
  C10. Every table of the frontend behaves as a table without an address would: whatever is done to it, one operation after the other, what
  the page reads back from the address is what the operations ask for; any change of size, search, filter or order goes to the first page.
\<close>

theorem tables_follow_operations:
  assumes "tb \<in> set appTables" "list_all (\<lambda>c. offered tb c \<and> list_all unicode (opTexts c)) cs"
  shows "tableAt tb (fold (addressStep tb) cs a) = fold viewStep cs (tableAt tb a)"
proof -
  have "tb = usersTable \<or> tb = credentialsTable \<or> tb = switchTable \<or> tb = importTable \<or> tb = profilesTable \<or> tb = auditTable \<or> tb = jobsTable"
    using assms(1) by (simp add: appTables_def)
  then show ?thesis using app_steps [of cs] assms(2) appTables_text [OF assms(1)] by blast
qed

theorem tables_follow_operations_witness:
  "shownOrder (tableAt usersTable (fold (addressStep usersTable) [SetFilter (js ''role'') (js ''admin''), ToggleSort (js ''username'')] [])) = Desc"
  using tables_follow_operations [of usersTable "[SetFilter (js ''role'') (js ''admin''), ToggleSort (js ''username'')]" "[]"]
  by (simp add: appTables_def table_defs) (simp add: tableAt_def parse_params_def usv_def utf8_encode_def useTableState_def parseSortOrder_def)



text \<open>
  The two tables of the import page do not disturb each other: an operation on one leaves what the other one shows.
\<close>

theorem import_tables_independent:
  "useTableState importTable (tableStep switchTable c ps) = useTableState importTable ps
   \<and> useTableState switchTable (tableStep importTable c ps) = useTableState switchTable ps"
  by (simp add: switches.foreign_step batches.foreign_step)

section \<open>The controls of a table\<close>

definition allValue :: jstr where
  "allValue = (js ''__all__'')"

definition selectValue :: "jstr \<Rightarrow> jstr" where
  "selectValue v = (if v = [] then allValue else v)"

definition filterChosen :: "jstr \<Rightarrow> jstr" where
  "filterChosen nextValue = (if nextValue = allValue then [] else nextValue)"

datatype sortIcon = ArrowUp | ArrowDown | ChevronsUpDown

definition sortableTableHead :: "jstr \<Rightarrow> jstr \<Rightarrow> sortOrder \<Rightarrow> sortIcon" where
  "sortableTableHead fld by dir = (if by = fld then if dir = Asc then ArrowUp else ArrowDown else ChevronsUpDown)"

definition pageSizeOptions :: "int list" where
  "pageSizeOptions = [10, 25, 50, 100]"

text \<open>The pager under a table, for the page that the server has sent.\<close>

record TablePage =
  pageAt :: int
  pageSizeOf :: int
  pageTotal :: int
  pageCount :: int

definition firstItem :: "TablePage \<Rightarrow> int" where
  "firstItem p = (if pageTotal p \<noteq> 0 then (pageAt p - 1) * pageSizeOf p + 1 else 0)"

definition lastItem :: "TablePage \<Rightarrow> int" where
  "lastItem p = min (pageAt p * pageSizeOf p) (pageTotal p)"

definition previousButton :: "TablePage \<Rightarrow> tableOp option" where
  "previousButton p = (if pageAt p \<le> 1 then None else Some (SetPage (pageAt p - 1)))"

definition nextButton :: "TablePage \<Rightarrow> tableOp option" where
  "nextButton p = (if pageCount p = 0 \<or> pageAt p \<ge> pageCount p then None else Some (SetPage (pageAt p + 1)))"

text \<open>The server counts the pages; it serves any page that is asked for, the ones after the last are empty.\<close>

definition servedPage :: "TablePage \<Rightarrow> bool" where
  "servedPage p \<longleftrightarrow> pageAt p \<ge> 1 \<and> pageSizeOf p \<ge> 1 \<and> pageTotal p \<ge> 0
     \<and> (pageCount p - 1) * pageSizeOf p < pageTotal p \<and> pageTotal p \<le> pageCount p * pageSizeOf p \<or>
     pageAt p \<ge> 1 \<and> pageSizeOf p \<ge> 1 \<and> pageTotal p = 0 \<and> pageCount p = 0"

lemma filter_shown: "v \<noteq> allValue \<Longrightarrow> filterChosen (selectValue v) = v"
  by (auto simp: filterChosen_def selectValue_def)

text \<open>A page after the last one is announced with a range that runs backwards.\<close>

lemma range_runs_backwards:
  "\<lbrakk>servedPage p; pageTotal p > 0; pageAt p > pageCount p\<rbrakk> \<Longrightarrow> firstItem p > lastItem p"
proof -
  assume a: "servedPage p" "pageTotal p > 0" "pageAt p > pageCount p"
  then have "pageTotal p \<le> pageCount p * pageSizeOf p" "pageSizeOf p \<ge> 1" by (auto simp: servedPage_def)
  moreover have "pageCount p * pageSizeOf p \<le> (pageAt p - 1) * pageSizeOf p"
    using a(3) calculation(2) by (intro mult_right_mono) auto
  ultimately have "pageTotal p \<le> (pageAt p - 1) * pageSizeOf p" by linarith
  then show ?thesis using a(2) by (simp add: firstItem_def lastItem_def min_def)
qed

text \<open>
  The pager of a page that exists shows a range within the rows, of at most one page; its buttons lead to pages
  that exist and are there whenever there is such a page.
\<close>

theorem pager_within_rows:
  assumes "servedPage p" "pageTotal p > 0" "pageAt p \<le> pageCount p"
  shows "1 \<le> firstItem p \<and> firstItem p \<le> lastItem p \<and> lastItem p \<le> pageTotal p \<and> lastItem p - firstItem p < pageSizeOf p
    \<and> (\<forall>n. previousButton p = Some (SetPage n) \<longleftrightarrow> n = pageAt p - 1 \<and> 1 \<le> n)
    \<and> (\<forall>n. nextButton p = Some (SetPage n) \<longleftrightarrow> n = pageAt p + 1 \<and> n \<le> pageCount p)"
proof -
  have p: "pageAt p \<ge> 1" "pageSizeOf p \<ge> 1" "(pageCount p - 1) * pageSizeOf p < pageTotal p" "pageCount p \<noteq> 0"
    using assms by (auto simp: servedPage_def)
  have "(pageAt p - 1) * pageSizeOf p \<le> (pageCount p - 1) * pageSizeOf p"
    using assms(3) p(2) by (intro mult_right_mono) auto
  then have "(pageAt p - 1) * pageSizeOf p < pageTotal p" using p(3) by linarith
  moreover have "pageAt p * pageSizeOf p = (pageAt p - 1) * pageSizeOf p + pageSizeOf p" by (simp add: algebra_simps)
  moreover have "0 \<le> (pageAt p - 1) * pageSizeOf p" using p by simp
  ultimately have "1 \<le> firstItem p \<and> firstItem p \<le> lastItem p \<and> lastItem p \<le> pageTotal p \<and> lastItem p - firstItem p < pageSizeOf p"
    using p assms(2) by (auto simp: firstItem_def lastItem_def min_def)
  then show ?thesis using p(4) by (auto simp: previousButton_def nextButton_def)
qed

definition samplePage :: TablePage where
  "samplePage = \<lparr>pageAt = 2, pageSizeOf = 25, pageTotal = 40, pageCount = 2\<rparr>"

theorem pager_within_rows_witness: "firstItem samplePage = 26 \<and> firstItem samplePage \<le> lastItem samplePage"
  using pager_within_rows [of samplePage] by (simp add: servedPage_def samplePage_def firstItem_def)

end
