(* ===== verification/FrontendTexts.thy ===== *)
theory FrontendTexts
  imports Resources
begin

text \<open>
  \<open>src/frontend/src/i18n\<close>: the Chinese and the English texts of the operator frontend, one definition per section with the texts in
  the order of the source (trees as in \<open>Resources\<close>), and the labels of \<open>labels.ts\<close>. i18next, which looks a key up in the
  chosen language and then in English, is given by what it finds: a text or none.
\<close>

definition zhCN_app :: msg where
  "zhCN_app = Group [
    (js ''name'', Text (js ''Bind Plane'')),
    (js ''tagline'', Text (js ''IPv4 '' @ [0x91CA, 0x653E, 0x8FD0, 0x7EF4]))]"

definition zhCN_common :: msg where
  "zhCN_common = Group [
    (js ''active'', Text ([0x542F, 0x7528])),
    (js ''inactive'', Text ([0x505C, 0x7528])),
    (js ''actions'', Text ([0x64CD, 0x4F5C])),
    (js ''all'', Text ([0x5168, 0x90E8] @ js '' {{label}}'')),
    (js ''auto'', Text ([0x81EA, 0x52A8])),
    (js ''cancelEdit'', Text ([0x53D6, 0x6D88, 0x7F16, 0x8F91])),
    (js ''close'', Text ([0x5173, 0x95ED])),
    (js ''create'', Text ([0x521B, 0x5EFA])),
    (js ''edit'', Text ([0x7F16, 0x8F91])),
    (js ''import'', Text ([0x5BFC, 0x5165])),
    (js ''loading'', Text ([0x52A0, 0x8F7D, 0x4E2D])),
    (js ''no'', Text ([0x5426])),
    (js ''none'', Text ([0x65E0])),
    (js ''notResolved'', Text ([0x672A, 0x89E3, 0x6790])),
    (js ''reset'', Text ([0x91CD, 0x7F6E])),
    (js ''retry'', Text ([0x91CD, 0x8BD5])),
    (js ''save'', Text ([0x4FDD, 0x5B58])),
    (js ''saveChanges'', Text ([0x4FDD, 0x5B58, 0x66F4, 0x6539])),
    (js ''searchTable'', Text ([0x641C, 0x7D22, 0x8868, 0x683C])),
    (js ''select'', Text ([0x9009, 0x62E9])),
    (js ''state'', Text ([0x72B6, 0x6001])),
    (js ''unknown'', Text ([0x672A, 0x77E5])),
    (js ''yes'', Text ([0x662F])),
    (js ''sidebar'', Text ([0x4FA7, 0x8FB9, 0x680F])),
    (js ''sidebarDescription'', Text ([0x663E, 0x793A, 0x79FB, 0x52A8, 0x7AEF, 0x4FA7, 0x8FB9, 0x680F, 0x3002])),
    (js ''toggleSidebar'', Text ([0x5207, 0x6362, 0x4FA7, 0x8FB9, 0x680F]))]"

definition zhCN_preferences :: msg where
  "zhCN_preferences = Group [
    (js ''language'', Text ([0x8BED, 0x8A00])),
    (js ''languageLabel'', Text ([0x8BED, 0x8A00])),
    (js ''zhCN'', Text ([0x4E2D, 0x6587])),
    (js ''enUS'', Text (js ''English'')),
    (js ''theme'', Text ([0x4E3B, 0x9898])),
    (js ''themeMode'', Text ([0x4E3B, 0x9898, 0x6A21, 0x5F0F])),
    (js ''light'', Text ([0x6D45, 0x8272])),
    (js ''dark'', Text ([0x6DF1, 0x8272])),
    (js ''system'', Text ([0x8DDF, 0x968F, 0x7CFB, 0x7EDF]))]"

definition zhCN_auth :: msg where
  "zhCN_auth = Group [
    (js ''signIn'', Text ([0x767B, 0x5F55])),
    (js ''signingIn'', Text ([0x6B63, 0x5728, 0x767B, 0x5F55])),
    (js ''username'', Text ([0x7528, 0x6237, 0x540D])),
    (js ''password'', Text ([0x5BC6, 0x7801])),
    (js ''accountHint'', Text ([0x4F7F, 0x7528, 0x4F60, 0x7684] @ js '' Bind Plane '' @ [0x8D26, 0x53F7, 0x3002])),
    (js ''loginFailed'', Text ([0x767B, 0x5F55, 0x5931, 0x8D25]))]"

definition zhCN_nav :: msg where
  "zhCN_nav = Group [
    (js ''operations'', Text ([0x64CD, 0x4F5C])),
    (js ''release'', Text ([0x91CA, 0x653E, 0x63A7, 0x5236, 0x53F0])),
    (js ''jobs'', Text ([0x4EFB, 0x52A1, 0x5386, 0x53F2])),
    (js ''users'', Text ([0x7528, 0x6237, 0x7BA1, 0x7406])),
    (js ''credentials'', Text ([0x51ED, 0x636E, 0x7BA1, 0x7406])),
    (js ''imports'', Text ([0x4EA4, 0x6362, 0x673A] @ js ''/'' @ [0x7F51, 0x6BB5, 0x5BFC, 0x5165])),
    (js ''profiles'', Text ([0x547D, 0x4EE4, 0x914D, 0x7F6E])),
    (js ''audit'', Text ([0x5BA1, 0x8BA1, 0x65E5, 0x5FD7])),
    (js ''jobDetail'', Text ([0x4EFB, 0x52A1, 0x8BE6, 0x60C5])),
    (js ''currentUser'', Text ([0x5F53, 0x524D, 0x7528, 0x6237])),
    (js ''signedIn'', Text ([0x5DF2, 0x767B, 0x5F55])),
    (js ''signOut'', Text ([0x9000, 0x51FA, 0x767B, 0x5F55]))]"

definition zhCN_guards :: msg where
  "zhCN_guards = Group [
    (js ''loadingSession'', Text ([0x6B63, 0x5728, 0x52A0, 0x8F7D, 0x4F1A, 0x8BDD])),
    (js ''accessDenied'', Text ([0x65E0, 0x6743, 0x8BBF, 0x95EE])),
    (js ''adminRequired'', Text ([0x6B64, 0x9875, 0x9762, 0x9700, 0x8981, 0x7BA1, 0x7406, 0x5458, 0x89D2, 0x8272, 0x3002]))]"

definition zhCN_validation :: msg where
  "zhCN_validation = Group [
    (js ''usernameRequired'', Text ([0x8BF7, 0x8F93, 0x5165, 0x7528, 0x6237, 0x540D])),
    (js ''passwordRequired'', Text ([0x8BF7, 0x8F93, 0x5165, 0x5BC6, 0x7801])),
    (js ''nameRequired'', Text ([0x8BF7, 0x8F93, 0x5165, 0x540D, 0x79F0])),
    (js ''importJsonRequired'', Text ([0x8BF7, 0x8F93, 0x5165, 0x5BFC, 0x5165] @ js '' JSON'')),
    (js ''ipv4Required'', Text ([0x8BF7, 0x8F93, 0x5165] @ js '' IPv4 '' @ [0x5730, 0x5740])),
    (js ''passwordMin8'', Text ([0x5BC6, 0x7801, 0x81F3, 0x5C11, 0x9700, 0x8981] @ js '' 8 '' @ [0x4E2A, 0x5B57, 0x7B26])),
    (js ''invalidPassword'', Text ([0x5BC6, 0x7801, 0x65E0, 0x6548])),
    (js ''invalidCommandProfile'', Text ([0x547D, 0x4EE4, 0x914D, 0x7F6E, 0x65E0, 0x6548])),
    (js ''profileNameRequired'', Text ([0x8BF7, 0x8F93, 0x5165, 0x914D, 0x7F6E, 0x540D, 0x79F0])),
    (js ''jsonObject'', Text (js ''{{label}} '' @ [0x5FC5, 0x987B, 0x662F] @ js '' JSON '' @ [0x5BF9, 0x8C61])),
    (js ''jsonStringArray'', Text (js ''{{label}} '' @ [0x5FC5, 0x987B, 0x662F, 0x5B57, 0x7B26, 0x4E32, 0x6570, 0x7EC4] @ js '' JSON''))]"

definition zhCN_table :: msg where
  "zhCN_table = Group [
    (js ''rows'', Text ([0x884C, 0x6570])),
    (js ''rowsPerPage'', Text ([0x6BCF, 0x9875, 0x884C, 0x6570])),
    (js ''previous'', Text ([0x4E0A, 0x4E00, 0x9875])),
    (js ''next'', Text ([0x4E0B, 0x4E00, 0x9875])),
    (js ''pageOf'', Text ([0x7B2C] @ js '' {{page}} / {{pageCount}} '' @ [0x9875])),
    (js ''resultRange'', Text (js ''{{first}}-{{last}} / {{total}}'')),
    (js ''noResults'', Text (js ''0 '' @ [0x6761, 0x7ED3, 0x679C]))]"

definition zhCN_role :: msg where
  "zhCN_role = Group [
    (js ''operator'', Text ([0x64CD, 0x4F5C, 0x5458])),
    (js ''admin'', Text ([0x7BA1, 0x7406, 0x5458]))]"

definition zhCN_bool :: msg where
  "zhCN_bool = Group [
    (js ''true'', Text ([0x662F])),
    (js ''false'', Text ([0x5426]))]"

definition zhCN_reason :: msg where
  "zhCN_reason = Group [
    (js ''temporary_test'', Text ([0x4E34, 0x65F6, 0x6D4B, 0x8BD5])),
    (js ''user_report'', Text ([0x7528, 0x6237, 0x62A5, 0x969C])),
    (js ''ip_mac_change'', Text (js ''IP '' @ [0x6216] @ js '' MAC '' @ [0x53D8, 0x66F4])),
    (js ''wrong_binding_fix'', Text ([0x9519, 0x8BEF, 0x7ED1, 0x5B9A, 0x4FEE, 0x590D])),
    (js ''security_response'', Text ([0x5B89, 0x5168, 0x54CD, 0x5E94])),
    (js ''other'', Text ([0x5176, 0x4ED6]))]"

definition zhCN_status :: msg where
  "zhCN_status = Group [
    (js ''queued'', Text ([0x6392, 0x961F, 0x4E2D])),
    (js ''running'', Text ([0x8FD0, 0x884C, 0x4E2D])),
    (js ''waiting_confirmation'', Text ([0x7B49, 0x5F85, 0x786E, 0x8BA4])),
    (js ''succeeded'', Text ([0x6210, 0x529F])),
    (js ''failed'', Text ([0x5931, 0x8D25])),
    (js ''timeout'', Text ([0x8D85, 0x65F6])),
    (js ''needs_manual_confirmation'', Text ([0x9700, 0x8981, 0x4EBA, 0x5DE5, 0x786E, 0x8BA4])),
    (js ''cancelled'', Text ([0x5DF2, 0x53D6, 0x6D88])),
    (js ''ready'', Text ([0x5C31, 0x7EEA])),
    (js ''query_queued'', Text ([0x67E5, 0x8BE2, 0x5DF2, 0x6392, 0x961F])),
    (js ''stopped_no_record'', Text ([0x65E0, 0x8BB0, 0x5F55, 0x5DF2, 0x505C, 0x6B62])),
    (js ''stopped_no_switch'', Text ([0x65E0, 0x4EA4, 0x6362, 0x673A, 0x5DF2, 0x505C, 0x6B62])),
    (js ''stopped_ambiguous_switch'', Text ([0x4EA4, 0x6362, 0x673A, 0x4E0D, 0x660E, 0x786E, 0x5DF2, 0x505C, 0x6B62])),
    (js ''force'', Text ([0x5F3A, 0x5236])),
    (js ''pre_release_query'', Text ([0x9884, 0x67E5, 0x8BE2])),
    (js ''release'', Text ([0x91CA, 0x653E])),
    (js ''static'', Text ([0x9759, 0x6001])),
    (js ''dynamic'', Text ([0x52A8, 0x6001])),
    (js ''missing'', Text ([0x7F3A, 0x5931])),
    (js ''unknown'', Text ([0x672A, 0x77E5])),
    (js ''failed_phase'', Text ([0x5931, 0x8D25])),
    (js ''finished'', Text ([0x5DF2, 0x5B8C, 0x6210])),
    (js ''querying_before'', Text ([0x91CA, 0x653E, 0x524D, 0x67E5, 0x8BE2])),
    (js ''releasing'', Text ([0x91CA, 0x653E, 0x4E2D])),
    (js ''querying_after'', Text ([0x91CA, 0x653E, 0x540E, 0x67E5, 0x8BE2])),
    (js ''classifying'', Text ([0x5206, 0x7C7B, 0x4E2D])),
    (js ''applied'', Text ([0x5DF2, 0x5E94, 0x7528])),
    (js ''draft'', Text ([0x8349, 0x7A3F])),
    (js ''validated'', Text ([0x5DF2, 0x9A8C, 0x8BC1])),
    (js ''release_pre_query_queued'', Text ([0x9884, 0x67E5, 0x8BE2, 0x5DF2, 0x6392, 0x961F])),
    (js ''release_pre_query_completed'', Text ([0x9884, 0x67E5, 0x8BE2, 0x5DF2, 0x5B8C, 0x6210])),
    (js ''release_pre_query_confirmed'', Text ([0x9884, 0x67E5, 0x8BE2, 0x5DF2, 0x786E, 0x8BA4])),
    (js ''release_job_created'', Text ([0x91CA, 0x653E, 0x4EFB, 0x52A1, 0x5DF2, 0x521B, 0x5EFA])),
    (js ''release_job_retried'', Text ([0x91CA, 0x653E, 0x4EFB, 0x52A1, 0x5DF2, 0x91CD, 0x8BD5])),
    (js ''release_job_finished'', Text ([0x91CA, 0x653E, 0x4EFB, 0x52A1, 0x5DF2, 0x7ED3, 0x675F])),
    (js ''release_job_enqueue_failed'', Text ([0x91CA, 0x653E, 0x4EFB, 0x52A1, 0x5165, 0x961F, 0x5931, 0x8D25])),
    (js ''release_retry_enqueue_failed'', Text ([0x91CD, 0x8BD5, 0x4EFB, 0x52A1, 0x5165, 0x961F, 0x5931, 0x8D25])),
    (js ''release_job'', Text ([0x91CA, 0x653E, 0x4EFB, 0x52A1])),
    (js ''user'', Text ([0x7528, 0x6237])),
    (js ''credential'', Text ([0x51ED, 0x636E])),
    (js ''command_profile'', Text ([0x547D, 0x4EE4, 0x914D, 0x7F6E])),
    (js ''switch'', Text ([0x4EA4, 0x6362, 0x673A])),
    (js ''import_batch'', Text ([0x5BFC, 0x5165, 0x6279, 0x6B21]))]"

definition zhCN_release :: msg where
  "zhCN_release = Group [
    (js ''title'', Text ([0x91CA, 0x653E, 0x63A7, 0x5236, 0x53F0])),
    (js ''ipv4Address'', Text (js ''IPv4 '' @ [0x5730, 0x5740])),
    (js ''reason'', Text ([0x539F, 0x56E0])),
    (js ''ticketId'', Text ([0x5DE5, 0x5355] @ js '' ID'')),
    (js ''forceRelease'', Text ([0x5F3A, 0x5236, 0x91CA, 0x653E])),
    (js ''forcedSwitch'', Text ([0x5F3A, 0x5236, 0x4EA4, 0x6362, 0x673A])),
    (js ''automaticResolution'', Text ([0x81EA, 0x52A8, 0x89E3, 0x6790])),
    (js ''prepare'', Text ([0x51C6, 0x5907])),
    (js ''preparing'', Text ([0x6B63, 0x5728, 0x51C6, 0x5907])),
    (js ''preparationFailed'', Text ([0x51C6, 0x5907, 0x5931, 0x8D25])),
    (js ''preQueryFailed'', Text ([0x9884, 0x67E5, 0x8BE2, 0x5931, 0x8D25])),
    (js ''jobCreationFailed'', Text ([0x4EFB, 0x52A1, 0x521B, 0x5EFA, 0x5931, 0x8D25])),
    (js ''preparationRequired'', Text ([0x786E, 0x8BA4, 0x524D, 0x9700, 0x8981, 0x51C6, 0x5907, 0x4EFB, 0x52A1])),
    (js ''confirmation'', Text ([0x786E, 0x8BA4])),
    (js ''target'', Text ([0x76EE, 0x6807])),
    (js ''switch'', Text ([0x4EA4, 0x6362, 0x673A])),
    (js ''network'', Text ([0x7F51, 0x6BB5])),
    (js ''currentState'', Text ([0x5F53, 0x524D, 0x72B6, 0x6001])),
    (js ''force'', Text ([0x5F3A, 0x5236])),
    (js ''rawPreQueryOutput'', Text ([0x539F, 0x59CB, 0x9884, 0x67E5, 0x8BE2, 0x8F93, 0x51FA])),
    (js ''createJob'', Text ([0x521B, 0x5EFA, 0x4EFB, 0x52A1])),
    (js ''forceReleaseJob'', Text ([0x521B, 0x5EFA, 0x5F3A, 0x5236, 0x91CA, 0x653E, 0x4EFB, 0x52A1])),
    (js ''noPreparation'', Text ([0x6682, 0x65E0, 0x51C6, 0x5907, 0x7ED3, 0x679C]))]"

definition zhCN_jobs :: msg where
  "zhCN_jobs = Group [
    (js ''historyTitle'', Text ([0x4EFB, 0x52A1, 0x5386, 0x53F2])),
    (js ''detailTitle'', Text ([0x4EFB, 0x52A1, 0x8BE6, 0x60C5])),
    (js ''noJobSelected'', Text ([0x672A, 0x9009, 0x62E9, 0x4EFB, 0x52A1])),
    (js ''search'', Text ([0x641C, 0x7D22] @ js '' IP'' @ [0x3001, 0x4EA4, 0x6362, 0x673A, 0x3001, 0x539F, 0x56E0])),
    (js ''status'', Text ([0x72B6, 0x6001])),
    (js ''kind'', Text ([0x7C7B, 0x578B])),
    (js ''force'', Text ([0x5F3A, 0x5236])),
    (js ''target'', Text ([0x76EE, 0x6807])),
    (js ''switch'', Text ([0x4EA4, 0x6362, 0x673A])),
    (js ''created'', Text ([0x521B, 0x5EFA, 0x65F6, 0x95F4])),
    (js ''operator'', Text ([0x64CD, 0x4F5C, 0x5458])),
    (js ''reason'', Text ([0x539F, 0x56E0])),
    (js ''finished'', Text ([0x5B8C, 0x6210, 0x65F6, 0x95F4])),
    (js ''before'', Text ([0x91CA, 0x653E, 0x524D])),
    (js ''after'', Text ([0x91CA, 0x653E, 0x540E])),
    (js ''result'', Text ([0x7ED3, 0x679C])),
    (js ''rawOutput'', Text ([0x539F, 0x59CB, 0x8F93, 0x51FA])),
    (js ''loadingJobs'', Text ([0x6B63, 0x5728, 0x52A0, 0x8F7D, 0x4EFB, 0x52A1])),
    (js ''noJobs'', Text ([0x6682, 0x65E0, 0x4EFB, 0x52A1])),
    (js ''loadingJob'', Text ([0x6B63, 0x5728, 0x52A0, 0x8F7D, 0x4EFB, 0x52A1])),
    (js ''forced'', Text ([0x5F3A, 0x5236])),
    (js ''normal'', Text ([0x666E, 0x901A]))]"

definition zhCN_admin_users :: msg where
  "zhCN_admin_users = Group [
    (js ''title'', Text ([0x7528, 0x6237, 0x7BA1, 0x7406])),
    (js ''displayName'', Text ([0x663E, 0x793A, 0x540D, 0x79F0])),
    (js ''initialPassword'', Text ([0x521D, 0x59CB, 0x5BC6, 0x7801])),
    (js ''role'', Text ([0x89D2, 0x8272])),
    (js ''search'', Text ([0x641C, 0x7D22, 0x7528, 0x6237])),
    (js ''roles'', Text ([0x89D2, 0x8272])),
    (js ''resetPassword'', Text ([0x91CD, 0x7F6E, 0x5BC6, 0x7801])),
    (js ''newPassword'', Text ([0x65B0, 0x5BC6, 0x7801])),
    (js ''newPasswordFor'', Text (js ''{{username}} '' @ [0x7684, 0x65B0, 0x5BC6, 0x7801])),
    (js ''loading'', Text ([0x6B63, 0x5728, 0x52A0, 0x8F7D, 0x7528, 0x6237])),
    (js ''empty'', Text ([0x6682, 0x65E0, 0x7528, 0x6237]))]"

definition zhCN_admin_credentials :: msg where
  "zhCN_admin_credentials = Group [
    (js ''title'', Text ([0x51ED, 0x636E, 0x7BA1, 0x7406])),
    (js ''name'', Text ([0x540D, 0x79F0])),
    (js ''username'', Text ([0x7528, 0x6237, 0x540D])),
    (js ''password'', Text ([0x5BC6, 0x7801])),
    (js ''secret'', Text (js ''Enable secret'')),
    (js ''search'', Text ([0x641C, 0x7D22, 0x51ED, 0x636E])),
    (js ''loading'', Text ([0x6B63, 0x5728, 0x52A0, 0x8F7D, 0x51ED, 0x636E])),
    (js ''empty'', Text ([0x6682, 0x65E0, 0x51ED, 0x636E]))]"

definition zhCN_admin_imports :: msg where
  "zhCN_admin_imports = Group [
    (js ''title'', Text ([0x4EA4, 0x6362, 0x673A] @ js ''/'' @ [0x7F51, 0x6BB5, 0x5BFC, 0x5165])),
    (js ''importRecordsJson'', Text ([0x5BFC, 0x5165, 0x8BB0, 0x5F55] @ js '' JSON'')),
    (js ''switches'', Text ([0x4EA4, 0x6362, 0x673A])),
    (js ''searchSwitches'', Text ([0x641C, 0x7D22, 0x4EA4, 0x6362, 0x673A])),
    (js ''enabled'', Text ([0x542F, 0x7528])),
    (js ''validated'', Text ([0x5DF2, 0x9A8C, 0x8BC1])),
    (js ''managementIp'', Text ([0x7BA1, 0x7406] @ js '' IP'')),
    (js ''networks'', Text ([0x7F51, 0x6BB5])),
    (js ''noSwitches'', Text ([0x6682, 0x65E0, 0x4EA4, 0x6362, 0x673A])),
    (js ''batches'', Text ([0x5BFC, 0x5165, 0x6279, 0x6B21])),
    (js ''searchImports'', Text ([0x641C, 0x7D22, 0x5BFC, 0x5165])),
    (js ''summary'', Text ([0x6458, 0x8981])),
    (js ''noImports'', Text ([0x6682, 0x65E0, 0x5BFC, 0x5165]))]"

definition zhCN_admin_profiles :: msg where
  "zhCN_admin_profiles = Group [
    (js ''title'', Text ([0x547D, 0x4EE4, 0x914D, 0x7F6E])),
    (js ''profileName'', Text ([0x914D, 0x7F6E, 0x540D, 0x79F0])),
    (js ''description'', Text ([0x63CF, 0x8FF0])),
    (js ''loginPromptPatterns'', Text ([0x767B, 0x5F55, 0x63D0, 0x793A, 0x6A21, 0x5F0F])),
    (js ''commandTemplates'', Text ([0x547D, 0x4EE4, 0x6A21, 0x677F])),
    (js ''promptPatterns'', Text ([0x63D0, 0x793A, 0x7B26, 0x6A21, 0x5F0F])),
    (js ''paginationRules'', Text ([0x5206, 0x9875, 0x89C4, 0x5219])),
    (js ''parserRules'', Text ([0x89E3, 0x6790, 0x89C4, 0x5219])),
    (js ''errorPatterns'', Text ([0x9519, 0x8BEF, 0x6A21, 0x5F0F])),
    (js ''successPatterns'', Text ([0x6210, 0x529F, 0x6A21, 0x5F0F])),
    (js ''search'', Text ([0x641C, 0x7D22, 0x914D, 0x7F6E])),
    (js ''templates'', Text ([0x6A21, 0x677F])),
    (js ''loading'', Text ([0x6B63, 0x5728, 0x52A0, 0x8F7D, 0x914D, 0x7F6E])),
    (js ''empty'', Text ([0x6682, 0x65E0, 0x914D, 0x7F6E])),
    (js ''saveFailed'', Text ([0x4FDD, 0x5B58, 0x914D, 0x7F6E, 0x5931, 0x8D25]))]"

definition zhCN_admin_audit :: msg where
  "zhCN_admin_audit = Group [
    (js ''title'', Text ([0x5BA1, 0x8BA1, 0x65E5, 0x5FD7])),
    (js ''search'', Text ([0x641C, 0x7D22, 0x5BA1, 0x8BA1, 0x65E5, 0x5FD7])),
    (js ''action'', Text ([0x52A8, 0x4F5C])),
    (js ''target'', Text ([0x76EE, 0x6807])),
    (js ''time'', Text ([0x65F6, 0x95F4])),
    (js ''payload'', Text ([0x8F7D, 0x8377])),
    (js ''loading'', Text ([0x6B63, 0x5728, 0x52A0, 0x8F7D, 0x5BA1, 0x8BA1, 0x65E5, 0x5FD7])),
    (js ''empty'', Text ([0x6682, 0x65E0, 0x5BA1, 0x8BA1, 0x65E5, 0x5FD7]))]"

definition zhCN_admin :: msg where
  "zhCN_admin = Group [
    (js ''users'', zhCN_admin_users),
    (js ''credentials'', zhCN_admin_credentials),
    (js ''imports'', zhCN_admin_imports),
    (js ''profiles'', zhCN_admin_profiles),
    (js ''audit'', zhCN_admin_audit)]"

definition zhCN :: msg where
  "zhCN = Group [
    (js ''app'', zhCN_app),
    (js ''common'', zhCN_common),
    (js ''preferences'', zhCN_preferences),
    (js ''auth'', zhCN_auth),
    (js ''nav'', zhCN_nav),
    (js ''guards'', zhCN_guards),
    (js ''validation'', zhCN_validation),
    (js ''table'', zhCN_table),
    (js ''role'', zhCN_role),
    (js ''bool'', zhCN_bool),
    (js ''reason'', zhCN_reason),
    (js ''status'', zhCN_status),
    (js ''release'', zhCN_release),
    (js ''jobs'', zhCN_jobs),
    (js ''admin'', zhCN_admin)]"

definition enUS_app :: msg where
  "enUS_app = Group [
    (js ''name'', Text (js ''Bind Plane'')),
    (js ''tagline'', Text (js ''IPv4 release ops''))]"

definition enUS_common :: msg where
  "enUS_common = Group [
    (js ''active'', Text (js ''active'')),
    (js ''inactive'', Text (js ''inactive'')),
    (js ''actions'', Text (js ''Actions'')),
    (js ''all'', Text (js ''All {{label}}'')),
    (js ''auto'', Text (js ''Automatic'')),
    (js ''cancelEdit'', Text (js ''Cancel edit'')),
    (js ''close'', Text (js ''Close'')),
    (js ''create'', Text (js ''Create'')),
    (js ''edit'', Text (js ''Edit'')),
    (js ''import'', Text (js ''Import'')),
    (js ''loading'', Text (js ''Loading'')),
    (js ''no'', Text (js ''No'')),
    (js ''none'', Text (js ''None'')),
    (js ''notResolved'', Text (js ''Not resolved'')),
    (js ''reset'', Text (js ''Reset'')),
    (js ''retry'', Text (js ''Retry'')),
    (js ''save'', Text (js ''Save'')),
    (js ''saveChanges'', Text (js ''Save changes'')),
    (js ''searchTable'', Text (js ''Search table'')),
    (js ''select'', Text (js ''Select'')),
    (js ''state'', Text (js ''State'')),
    (js ''unknown'', Text (js ''Unknown'')),
    (js ''yes'', Text (js ''Yes'')),
    (js ''sidebar'', Text (js ''Sidebar'')),
    (js ''sidebarDescription'', Text (js ''Displays the mobile sidebar.'')),
    (js ''toggleSidebar'', Text (js ''Toggle Sidebar''))]"

definition enUS_preferences :: msg where
  "enUS_preferences = Group [
    (js ''language'', Text (js ''Language'')),
    (js ''languageLabel'', Text (js ''Language'')),
    (js ''zhCN'', Text ([0x4E2D, 0x6587])),
    (js ''enUS'', Text (js ''English'')),
    (js ''theme'', Text (js ''Theme'')),
    (js ''themeMode'', Text (js ''Theme mode'')),
    (js ''light'', Text (js ''Light'')),
    (js ''dark'', Text (js ''Dark'')),
    (js ''system'', Text (js ''System''))]"

definition enUS_auth :: msg where
  "enUS_auth = Group [
    (js ''signIn'', Text (js ''Sign in'')),
    (js ''signingIn'', Text (js ''Signing in'')),
    (js ''username'', Text (js ''Username'')),
    (js ''password'', Text (js ''Password'')),
    (js ''accountHint'', Text (js ''Use your Bind Plane account.'')),
    (js ''loginFailed'', Text (js ''Login failed''))]"

definition enUS_nav :: msg where
  "enUS_nav = Group [
    (js ''operations'', Text (js ''Operations'')),
    (js ''release'', Text (js ''Release console'')),
    (js ''jobs'', Text (js ''Job history'')),
    (js ''users'', Text (js ''User management'')),
    (js ''credentials'', Text (js ''Credential management'')),
    (js ''imports'', Text (js ''Switch/network imports'')),
    (js ''profiles'', Text (js ''Command profiles'')),
    (js ''audit'', Text (js ''Audit logs'')),
    (js ''jobDetail'', Text (js ''Job detail'')),
    (js ''currentUser'', Text (js ''Current user'')),
    (js ''signedIn'', Text (js ''Signed in'')),
    (js ''signOut'', Text (js ''Sign out''))]"

definition enUS_guards :: msg where
  "enUS_guards = Group [
    (js ''loadingSession'', Text (js ''Loading session'')),
    (js ''accessDenied'', Text (js ''Access denied'')),
    (js ''adminRequired'', Text (js ''Admin role is required for this page.''))]"

definition enUS_validation :: msg where
  "enUS_validation = Group [
    (js ''usernameRequired'', Text (js ''Username is required'')),
    (js ''passwordRequired'', Text (js ''Password is required'')),
    (js ''nameRequired'', Text (js ''Name is required'')),
    (js ''importJsonRequired'', Text (js ''Import JSON is required'')),
    (js ''ipv4Required'', Text (js ''IPv4 address is required'')),
    (js ''passwordMin8'', Text (js ''Password must be at least 8 characters'')),
    (js ''invalidPassword'', Text (js ''Invalid password'')),
    (js ''invalidCommandProfile'', Text (js ''Invalid command profile'')),
    (js ''profileNameRequired'', Text (js ''Profile name is required'')),
    (js ''jsonObject'', Text (js ''{{label}} must be a JSON object'')),
    (js ''jsonStringArray'', Text (js ''{{label}} must be a JSON array of strings''))]"

definition enUS_table :: msg where
  "enUS_table = Group [
    (js ''rows'', Text (js ''Rows'')),
    (js ''rowsPerPage'', Text (js ''Rows per page'')),
    (js ''previous'', Text (js ''Previous'')),
    (js ''next'', Text (js ''Next'')),
    (js ''pageOf'', Text (js ''Page {{page}} / {{pageCount}}'')),
    (js ''resultRange'', Text (js ''{{first}}-{{last}} of {{total}}'')),
    (js ''noResults'', Text (js ''0 results''))]"

definition enUS_role :: msg where
  "enUS_role = Group [
    (js ''operator'', Text (js ''operator'')),
    (js ''admin'', Text (js ''admin''))]"

definition enUS_bool :: msg where
  "enUS_bool = Group [
    (js ''true'', Text (js ''yes'')),
    (js ''false'', Text (js ''no''))]"

definition enUS_reason :: msg where
  "enUS_reason = Group [
    (js ''temporary_test'', Text (js ''Temporary test'')),
    (js ''user_report'', Text (js ''User report'')),
    (js ''ip_mac_change'', Text (js ''IP or MAC change'')),
    (js ''wrong_binding_fix'', Text (js ''Wrong binding fix'')),
    (js ''security_response'', Text (js ''Security response'')),
    (js ''other'', Text (js ''Other''))]"

definition enUS_status :: msg where
  "enUS_status = Group [
    (js ''queued'', Text (js ''queued'')),
    (js ''running'', Text (js ''running'')),
    (js ''waiting_confirmation'', Text (js ''waiting confirmation'')),
    (js ''succeeded'', Text (js ''succeeded'')),
    (js ''failed'', Text (js ''failed'')),
    (js ''timeout'', Text (js ''timeout'')),
    (js ''needs_manual_confirmation'', Text (js ''needs manual confirmation'')),
    (js ''cancelled'', Text (js ''cancelled'')),
    (js ''ready'', Text (js ''ready'')),
    (js ''query_queued'', Text (js ''query queued'')),
    (js ''stopped_no_record'', Text (js ''stopped no record'')),
    (js ''stopped_no_switch'', Text (js ''stopped no switch'')),
    (js ''stopped_ambiguous_switch'', Text (js ''stopped ambiguous switch'')),
    (js ''force'', Text (js ''force'')),
    (js ''pre_release_query'', Text (js ''pre-release query'')),
    (js ''release'', Text (js ''release'')),
    (js ''static'', Text (js ''static'')),
    (js ''dynamic'', Text (js ''dynamic'')),
    (js ''missing'', Text (js ''missing'')),
    (js ''unknown'', Text (js ''unknown'')),
    (js ''failed_phase'', Text (js ''failed'')),
    (js ''finished'', Text (js ''finished'')),
    (js ''querying_before'', Text (js ''querying before'')),
    (js ''releasing'', Text (js ''releasing'')),
    (js ''querying_after'', Text (js ''querying after'')),
    (js ''classifying'', Text (js ''classifying'')),
    (js ''applied'', Text (js ''applied'')),
    (js ''draft'', Text (js ''draft'')),
    (js ''validated'', Text (js ''validated'')),
    (js ''release_pre_query_queued'', Text (js ''pre-query queued'')),
    (js ''release_pre_query_completed'', Text (js ''pre-query completed'')),
    (js ''release_pre_query_confirmed'', Text (js ''pre-query confirmed'')),
    (js ''release_job_created'', Text (js ''job created'')),
    (js ''release_job_retried'', Text (js ''job retried'')),
    (js ''release_job_finished'', Text (js ''job finished'')),
    (js ''release_job_enqueue_failed'', Text (js ''enqueue failed'')),
    (js ''release_retry_enqueue_failed'', Text (js ''retry enqueue failed'')),
    (js ''release_job'', Text (js ''release job'')),
    (js ''user'', Text (js ''user'')),
    (js ''credential'', Text (js ''credential'')),
    (js ''command_profile'', Text (js ''command profile'')),
    (js ''switch'', Text (js ''switch'')),
    (js ''import_batch'', Text (js ''import batch''))]"

definition enUS_release :: msg where
  "enUS_release = Group [
    (js ''title'', Text (js ''Release console'')),
    (js ''ipv4Address'', Text (js ''IPv4 address'')),
    (js ''reason'', Text (js ''Reason'')),
    (js ''ticketId'', Text (js ''Ticket ID'')),
    (js ''forceRelease'', Text (js ''Force release'')),
    (js ''forcedSwitch'', Text (js ''Forced switch'')),
    (js ''automaticResolution'', Text (js ''Automatic resolution'')),
    (js ''prepare'', Text (js ''Prepare'')),
    (js ''preparing'', Text (js ''Preparing'')),
    (js ''preparationFailed'', Text (js ''Preparation failed'')),
    (js ''preQueryFailed'', Text (js ''Pre-release query failed'')),
    (js ''jobCreationFailed'', Text (js ''Job creation failed'')),
    (js ''preparationRequired'', Text (js ''Preparation job is required before confirmation'')),
    (js ''confirmation'', Text (js ''Confirmation'')),
    (js ''target'', Text (js ''Target'')),
    (js ''switch'', Text (js ''Switch'')),
    (js ''network'', Text (js ''Network'')),
    (js ''currentState'', Text (js ''Current state'')),
    (js ''force'', Text (js ''Force'')),
    (js ''rawPreQueryOutput'', Text (js ''Raw pre-query output'')),
    (js ''createJob'', Text (js ''Create job'')),
    (js ''forceReleaseJob'', Text (js ''Force release job'')),
    (js ''noPreparation'', Text (js ''No preparation result''))]"

definition enUS_jobs :: msg where
  "enUS_jobs = Group [
    (js ''historyTitle'', Text (js ''Job history'')),
    (js ''detailTitle'', Text (js ''Job detail'')),
    (js ''noJobSelected'', Text (js ''No job selected'')),
    (js ''search'', Text (js ''Search IP, switch, reason'')),
    (js ''status'', Text (js ''Status'')),
    (js ''kind'', Text (js ''Kind'')),
    (js ''force'', Text (js ''Force'')),
    (js ''target'', Text (js ''Target'')),
    (js ''switch'', Text (js ''Switch'')),
    (js ''created'', Text (js ''Created'')),
    (js ''operator'', Text (js ''Operator'')),
    (js ''reason'', Text (js ''Reason'')),
    (js ''finished'', Text (js ''Finished'')),
    (js ''before'', Text (js ''Before'')),
    (js ''after'', Text (js ''After'')),
    (js ''result'', Text (js ''Result'')),
    (js ''rawOutput'', Text (js ''Raw output'')),
    (js ''loadingJobs'', Text (js ''Loading jobs'')),
    (js ''noJobs'', Text (js ''No jobs'')),
    (js ''loadingJob'', Text (js ''Loading job'')),
    (js ''forced'', Text (js ''forced'')),
    (js ''normal'', Text (js ''normal''))]"

definition enUS_admin_users :: msg where
  "enUS_admin_users = Group [
    (js ''title'', Text (js ''User management'')),
    (js ''displayName'', Text (js ''Display name'')),
    (js ''initialPassword'', Text (js ''Initial password'')),
    (js ''role'', Text (js ''Role'')),
    (js ''search'', Text (js ''Search users'')),
    (js ''roles'', Text (js ''Roles'')),
    (js ''resetPassword'', Text (js ''Reset password'')),
    (js ''newPassword'', Text (js ''New password'')),
    (js ''newPasswordFor'', Text (js ''New password for {{username}}'')),
    (js ''loading'', Text (js ''Loading users'')),
    (js ''empty'', Text (js ''No users''))]"

definition enUS_admin_credentials :: msg where
  "enUS_admin_credentials = Group [
    (js ''title'', Text (js ''Credential management'')),
    (js ''name'', Text (js ''Name'')),
    (js ''username'', Text (js ''Username'')),
    (js ''password'', Text (js ''Password'')),
    (js ''secret'', Text (js ''Enable secret'')),
    (js ''search'', Text (js ''Search credentials'')),
    (js ''loading'', Text (js ''Loading credentials'')),
    (js ''empty'', Text (js ''No credentials''))]"

definition enUS_admin_imports :: msg where
  "enUS_admin_imports = Group [
    (js ''title'', Text (js ''Switch and network imports'')),
    (js ''importRecordsJson'', Text (js ''Import records JSON'')),
    (js ''switches'', Text (js ''Switches'')),
    (js ''searchSwitches'', Text (js ''Search switches'')),
    (js ''enabled'', Text (js ''Enabled'')),
    (js ''validated'', Text (js ''Validated'')),
    (js ''managementIp'', Text (js ''Management IP'')),
    (js ''networks'', Text (js ''Networks'')),
    (js ''noSwitches'', Text (js ''No switches'')),
    (js ''batches'', Text (js ''Import batches'')),
    (js ''searchImports'', Text (js ''Search imports'')),
    (js ''summary'', Text (js ''Summary'')),
    (js ''noImports'', Text (js ''No imports''))]"

definition enUS_admin_profiles :: msg where
  "enUS_admin_profiles = Group [
    (js ''title'', Text (js ''Command profiles'')),
    (js ''profileName'', Text (js ''Profile name'')),
    (js ''description'', Text (js ''Description'')),
    (js ''loginPromptPatterns'', Text (js ''Login prompt patterns'')),
    (js ''commandTemplates'', Text (js ''Command templates'')),
    (js ''promptPatterns'', Text (js ''Prompt patterns'')),
    (js ''paginationRules'', Text (js ''Pagination rules'')),
    (js ''parserRules'', Text (js ''Parser rules'')),
    (js ''errorPatterns'', Text (js ''Error patterns'')),
    (js ''successPatterns'', Text (js ''Success patterns'')),
    (js ''search'', Text (js ''Search profiles'')),
    (js ''templates'', Text (js ''Templates'')),
    (js ''loading'', Text (js ''Loading profiles'')),
    (js ''empty'', Text (js ''No profiles'')),
    (js ''saveFailed'', Text (js ''Save profile failed''))]"

definition enUS_admin_audit :: msg where
  "enUS_admin_audit = Group [
    (js ''title'', Text (js ''Audit logs'')),
    (js ''search'', Text (js ''Search audit logs'')),
    (js ''action'', Text (js ''Action'')),
    (js ''target'', Text (js ''Target'')),
    (js ''time'', Text (js ''Time'')),
    (js ''payload'', Text (js ''Payload'')),
    (js ''loading'', Text (js ''Loading audit logs'')),
    (js ''empty'', Text (js ''No audit logs''))]"

definition enUS_admin :: msg where
  "enUS_admin = Group [
    (js ''users'', enUS_admin_users),
    (js ''credentials'', enUS_admin_credentials),
    (js ''imports'', enUS_admin_imports),
    (js ''profiles'', enUS_admin_profiles),
    (js ''audit'', enUS_admin_audit)]"

definition enUS :: msg where
  "enUS = Group [
    (js ''app'', enUS_app),
    (js ''common'', enUS_common),
    (js ''preferences'', enUS_preferences),
    (js ''auth'', enUS_auth),
    (js ''nav'', enUS_nav),
    (js ''guards'', enUS_guards),
    (js ''validation'', enUS_validation),
    (js ''table'', enUS_table),
    (js ''role'', enUS_role),
    (js ''bool'', enUS_bool),
    (js ''reason'', enUS_reason),
    (js ''status'', enUS_status),
    (js ''release'', enUS_release),
    (js ''jobs'', enUS_jobs),
    (js ''admin'', enUS_admin)]"

section \<open>Both languages\<close>

lemma fe_app_agree: "sameMessages zhCN_app enUS_app"
  unfolding zhCN_app_def enUS_app_def
  by (simp add: scan_messages del: messageVars.simps(1))

lemma fe_common_agree: "sameMessages zhCN_common enUS_common"
  unfolding zhCN_common_def enUS_common_def
  by (simp add: scan_messages del: messageVars.simps(1))

lemma fe_preferences_agree: "sameMessages zhCN_preferences enUS_preferences"
  unfolding zhCN_preferences_def enUS_preferences_def
  by (simp add: scan_messages del: messageVars.simps(1))

lemma fe_auth_agree: "sameMessages zhCN_auth enUS_auth"
  unfolding zhCN_auth_def enUS_auth_def
  by (simp add: scan_messages del: messageVars.simps(1))

lemma fe_nav_agree: "sameMessages zhCN_nav enUS_nav"
  unfolding zhCN_nav_def enUS_nav_def
  by (simp add: scan_messages del: messageVars.simps(1))

lemma fe_guards_agree: "sameMessages zhCN_guards enUS_guards"
  unfolding zhCN_guards_def enUS_guards_def
  by (simp add: scan_messages del: messageVars.simps(1))

lemma fe_validation_agree: "sameMessages zhCN_validation enUS_validation"
  unfolding zhCN_validation_def enUS_validation_def
  by (simp add: scan_messages del: messageVars.simps(1))

lemma fe_table_agree: "sameMessages zhCN_table enUS_table"
  unfolding zhCN_table_def enUS_table_def
  by (simp add: scan_messages del: messageVars.simps(1))

lemma fe_role_agree: "sameMessages zhCN_role enUS_role"
  unfolding zhCN_role_def enUS_role_def
  by (simp add: scan_messages del: messageVars.simps(1))

lemma fe_bool_agree: "sameMessages zhCN_bool enUS_bool"
  unfolding zhCN_bool_def enUS_bool_def
  by (simp add: scan_messages del: messageVars.simps(1))

lemma fe_reason_agree: "sameMessages zhCN_reason enUS_reason"
  unfolding zhCN_reason_def enUS_reason_def
  by (simp add: scan_messages del: messageVars.simps(1))

lemma fe_status_agree: "sameMessages zhCN_status enUS_status"
  unfolding zhCN_status_def enUS_status_def
  by (simp add: scan_messages del: messageVars.simps(1))

lemma fe_release_agree: "sameMessages zhCN_release enUS_release"
  unfolding zhCN_release_def enUS_release_def
  by (simp add: scan_messages del: messageVars.simps(1))

lemma fe_jobs_agree: "sameMessages zhCN_jobs enUS_jobs"
  unfolding zhCN_jobs_def enUS_jobs_def
  by (simp add: scan_messages del: messageVars.simps(1))

lemma fe_admin_users_agree: "sameMessages zhCN_admin_users enUS_admin_users"
  unfolding zhCN_admin_users_def enUS_admin_users_def
  by (simp add: scan_messages del: messageVars.simps(1))

lemma fe_admin_credentials_agree: "sameMessages zhCN_admin_credentials enUS_admin_credentials"
  unfolding zhCN_admin_credentials_def enUS_admin_credentials_def
  by (simp add: scan_messages del: messageVars.simps(1))

lemma fe_admin_imports_agree: "sameMessages zhCN_admin_imports enUS_admin_imports"
  unfolding zhCN_admin_imports_def enUS_admin_imports_def
  by (simp add: scan_messages del: messageVars.simps(1))

lemma fe_admin_profiles_agree: "sameMessages zhCN_admin_profiles enUS_admin_profiles"
  unfolding zhCN_admin_profiles_def enUS_admin_profiles_def
  by (simp add: scan_messages del: messageVars.simps(1))

lemma fe_admin_audit_agree: "sameMessages zhCN_admin_audit enUS_admin_audit"
  unfolding zhCN_admin_audit_def enUS_admin_audit_def
  by (simp add: scan_messages del: messageVars.simps(1))

lemma fe_admin_agree: "sameMessages zhCN_admin enUS_admin"
  unfolding zhCN_admin_def enUS_admin_def
  by (simp add: scan_messages fe_admin_users_agree fe_admin_credentials_agree fe_admin_imports_agree fe_admin_profiles_agree fe_admin_audit_agree del: messageVars.simps(1))

lemma frontend_texts_same: "sameMessages zhCN enUS"
  unfolding zhCN_def enUS_def
  by (simp add: scan_messages fe_app_agree fe_common_agree fe_preferences_agree fe_auth_agree fe_nav_agree fe_guards_agree fe_validation_agree fe_table_agree fe_role_agree fe_bool_agree fe_reason_agree fe_status_agree fe_release_agree fe_jobs_agree fe_admin_agree del: messageVars.simps(1))

datatype feLocale = ZhCNLocale | EnUSLocale

fun catalogue :: "feLocale \<Rightarrow> msg" where
  "catalogue ZhCNLocale = zhCN"
| "catalogue EnUSLocale = enUS"

text \<open>What i18next finds: the text of the chosen language, else the English one (\<open>fallbackLng\<close>).\<close>

definition textOf :: "feLocale \<Rightarrow> jstr \<Rightarrow> jstr option" where
  "textOf l k = (case messageAt (splitOn 0x2E k) (catalogue l) of Some m \<Rightarrow> Some m | None \<Rightarrow> messageAt (splitOn 0x2E k) enUS)"

section \<open>Labels\<close>

definition operatorReasonLabel :: "(jstr \<Rightarrow> jstr option) \<Rightarrow> jstr \<Rightarrow> jstr" where
  "operatorReasonLabel t reason = (let k = (js ''reason.'') @ reason in nullish (t k) k)"

definition operatorStatusLabel :: "(jstr \<Rightarrow> jstr option) \<Rightarrow> jstr \<Rightarrow> jstr" where
  "operatorStatusLabel t v = nullish (t ((js ''status.'') @ v)) (replaceUnit 0x5F 0x20 v)"

definition roleLabel :: "(jstr \<Rightarrow> jstr option) \<Rightarrow> jstr \<Rightarrow> jstr" where
  "roleLabel t v = nullish (t ((js ''role.'') @ v)) v"

definition activeLabel :: "(jstr \<Rightarrow> jstr option) \<Rightarrow> bool \<Rightarrow> jstr" where
  "activeLabel t active = (let k = if active then (js ''common.active'') else (js ''common.inactive'') in nullish (t k) k)"

definition booleanLabel :: "(jstr \<Rightarrow> jstr option) \<Rightarrow> bool \<Rightarrow> jstr" where
  "booleanLabel t v = (let k = if v then (js ''common.yes'') else (js ''common.no'') in nullish (t k) k)"

lemma frontend_texts_rel: "rel_option (\<lambda>a b. set (messageVars a) = set (messageVars b)) (messageAt p zhCN) (messageAt p enUS)"
  by (rule sameMessages_messageAt) (rule frontend_texts_same)

lemma textOf_found: "textOf l k \<noteq> None \<longleftrightarrow> messageAt (splitOn 0x2E k) enUS \<noteq> None"
  using frontend_texts_rel [of "splitOn 0x2E k"]
  by (cases l; cases "messageAt (splitOn 0x2E k) enUS") (auto simp: textOf_def split: option.splits)

text \<open>
  The two languages of the operator frontend agree: every key finds a text in both or in none, and the two texts
  have the same placeholders, so that the English fallback is never needed.
\<close>

theorem frontend_texts_agree:
  "rel_option (\<lambda>a b. set (messageVars a) = set (messageVars b)) (messageAt p zhCN) (messageAt p enUS)
   \<and> textOf l k = messageAt (splitOn 0x2E k) (catalogue l)"
  using frontend_texts_rel [of p] frontend_texts_rel [of "splitOn 0x2E k"]
  by (cases l) (auto simp: textOf_def split: option.splits)

end
