(* ===== verification/OperatorConsole.thy ===== *)
theory OperatorConsole
  imports Contracts FrontendTexts ProblemMessages
begin

text \<open>
  The release console of the operator frontend (\<open>src/frontend/src/features/release/ReleaseConsole.tsx\<close>): a target is prepared
  (\<open>/releases/prepare\<close>), the pre-query's job is followed until it stops, and the confirmed release becomes a job. The page is
  a step relation; every request is kept with what was shown when it was sent. Also the list of switches for a forced release,
  read page by page, and the retry of a job (\<open>features/jobs/JobDetailPage.tsx\<close>).
\<close>

section \<open>All enabled switches\<close>

text \<open>
  The loop of \<open>fetchEnabledSwitchOptions\<close>. \<open>reply\<close> is what the server answers for a page, none if the request
  fails. The outer option is the loop's own: it may never end. The inner one is the rejected promise.
\<close>

partial_function (option) fetchPages :: "(nat \<Rightarrow> ('a list \<times> nat) option) \<Rightarrow> nat \<Rightarrow> 'a list \<Rightarrow> 'a list option option" where
  [code]: "fetchPages reply page items =
     (case reply page of None \<Rightarrow> Some None
      | Some (new, pageCount) \<Rightarrow>
          (if page + 1 \<le> pageCount then fetchPages reply (page + 1) (items @ new) else Some (Some (items @ new))))"

definition fetchEnabledSwitchOptions :: "(nat \<Rightarrow> ('a list \<times> nat) option) \<Rightarrow> 'a list option option" where
  "fetchEnabledSwitchOptions reply = fetchPages reply 1 []"

text \<open>A list served in pages: as many as it takes, none for an empty list.\<close>

definition servedPages :: "nat \<Rightarrow> 'a list \<Rightarrow> nat" where
  "servedPages sz xs = (length xs + sz - 1) div sz"

definition serve :: "nat \<Rightarrow> 'a list \<Rightarrow> nat \<Rightarrow> ('a list \<times> nat) option" where
  "serve sz xs page = Some (take sz (drop ((page - 1) * sz) xs), servedPages sz xs)"

lemma fetchPages_serve:
  assumes "sz > 0" "page \<ge> 1" "n = servedPages sz xs - page"
  shows "fetchPages (serve sz xs) page items = Some (Some (items @ drop ((page - 1) * sz) xs))"
  using assms(2,3)
proof (induction n arbitrary: page items)
  case 0
  then have "servedPages sz xs \<le> page" by simp
  then have "(length xs + sz - 1) div sz < page + 1" by (simp add: servedPages_def)
  then have "length xs + sz - 1 < (page + 1) * sz" using assms(1) by (simp add: div_less_iff_less_mult)
  moreover have "(page + 1) * sz = (page - 1) * sz + sz + sz"
    using \<open>page \<ge> 1\<close> by (cases page) (simp_all add: algebra_simps)
  ultimately have "length (drop ((page - 1) * sz) xs) \<le> sz" using assms(1) by simp
  then show ?case using 0 by (subst fetchPages.simps) (simp add: serve_def)
next
  case (Suc n)
  then have "page + 1 \<le> servedPages sz xs" "n = servedPages sz xs - (page + 1)" by simp_all
  moreover have "take sz (drop ((page - 1) * sz) xs) @ drop (page * sz) xs = drop ((page - 1) * sz) xs"
  proof -
    have "page * sz = (page - 1) * sz + sz" using \<open>page \<ge> 1\<close> by (cases page) (simp_all add: algebra_simps)
    then show ?thesis by (metis append_take_drop_id drop_drop add.commute)
  qed
  ultimately show ?case using Suc.IH [of "page + 1"] by (subst fetchPages.simps) (simp add: serve_def [of sz xs page])
qed

text \<open>
  C19. The list of switches for a forced release is complete: with the enabled switches served in pages of 200, the loop ends and has
  collected every one of them, once and in the server's order.
\<close>

theorem all_switches_fetched: "fetchEnabledSwitchOptions (serve 200 xs) = Some (Some xs)"
  unfolding fetchEnabledSwitchOptions_def by (subst fetchPages_serve [of 200 1 "servedPages 200 xs - 1"]) simp_all

section \<open>Preparation and job\<close>

record ResolvedSwitch =
  resolvedName :: jstr
  resolvedIP :: jstr
  resolvedCidr :: "jstr option"

record Observation =
  entryType :: jstr
  entryMac :: "jstr option"
  rawOutput :: jstr

record ReleasePreparation =
  rpJobID :: "jstr option"
  rpStatus :: jstr
  rpTarget :: jstr
  rpSwitch :: "ResolvedSwitch option"
  rpObservation :: "Observation option"
  rpForce :: bool
  rpReason :: "jstr option"

text \<open>Of a job: the members of \<open>before_state\<close> and \<open>result\<close> that the page reads, absent or of another type as none.\<close>

record PreQueryJob =
  pjID :: jstr
  pjStatus :: jstr
  pjTarget :: jstr
  pjForce :: bool
  pjReason :: jstr
  pjEntryType :: "jstr option"
  pjMac :: "jstr option"
  pjPreparationStatus :: "jstr option"
  pjRawBefore :: "jstr option"
  pjError :: "jstr option"

definition releaseReasonValues :: "jstr list" where
  "releaseReasonValues = [(js ''temporary_test''), (js ''user_report''), (js ''ip_mac_change''), (js ''wrong_binding_fix''), (js ''security_response''), (js ''other'')]"

definition terminalStatuses :: "jstr list" where
  "terminalStatuses = [(js ''succeeded''), (js ''failed''), (js ''timeout''), (js ''needs_manual_confirmation''), (js ''cancelled'')]"

definition preparationFromJob :: "PreQueryJob \<Rightarrow> ReleasePreparation \<Rightarrow> ReleasePreparation" where
  "preparationFromJob j seed =
     seed\<lparr>rpStatus :=
            (if pjStatus j = (js ''waiting_confirmation'') then (js ''ready'')
             else if pjStatus j = (js ''failed'') \<or> pjStatus j = (js ''timeout'') then pjStatus j
             else if pjStatus j = (js ''cancelled'') \<and> pjPreparationStatus j = Some (js ''stopped_no_record'') then (js ''stopped_no_record'')
             else if pjStatus j = (js ''needs_manual_confirmation'') \<and> pjPreparationStatus j = Some (js ''needs_manual_confirmation'')
               then (js ''needs_manual_confirmation'')
             else rpStatus seed),
          rpTarget := pjTarget j, rpForce := pjForce j, rpReason := Some (pjReason j),
          rpObservation := (if truthy (pjEntryType j)
            then Some \<lparr>entryType = the (pjEntryType j), entryMac = pjMac j, rawOutput = nullish (pjRawBefore j) []\<rparr> else None)\<rparr>"

text \<open>Whether a job that is being followed is read again after two seconds.\<close>

definition refetchPreparation :: "jstr option \<Rightarrow> bool" where
  "refetchPreparation st = (truthy st \<and> the st \<notin> set terminalStatuses \<and> st \<noteq> Some (js ''waiting_confirmation''))"

definition refetchJob :: "jstr option \<Rightarrow> bool" where
  "refetchJob st = (truthy st \<and> the st \<notin> set terminalStatuses)"

section \<open>The page\<close>

definition automaticSwitchValue :: jstr where
  "automaticSwitchValue = (js ''__automatic__'')"

record PrepareValues =
  targetIp :: jstr
  reasonValue :: jstr
  ticketId :: jstr
  forceValue :: bool
  selectedSwitchId :: jstr

record OperatorConsole =
  preparation :: "ReleasePreparation option"
  preparationSeed :: "ReleasePreparation option"
  preparationJobId :: "jstr option"
  consoleError :: "jstr option"
  consoleForm :: PrepareValues
  prepareRunning :: bool
  createRunning :: bool

definition newOperatorConsole :: OperatorConsole where
  "newOperatorConsole = \<lparr>preparation = None, preparationSeed = None, preparationJobId = None, consoleError = None,
     consoleForm = \<lparr>targetIp = [], reasonValue = (js ''temporary_test''), ticketId = [], forceValue = False,
       selectedSwitchId = automaticSwitchValue\<rparr>, prepareRunning = False, createRunning = False\<rparr>"

datatype prepareIssue = Ipv4Required | InvalidReason

definition releasePrepareSchema :: "PrepareValues \<Rightarrow> prepareIssue list" where
  "releasePrepareSchema v = (if targetIp v = [] then [Ipv4Required] else []) @ (if reasonValue v \<in> set releaseReasonValues then [] else [InvalidReason])"

datatype consoleRequest = PrepareRelease json | CreateReleaseJob json | RetryReleaseJob jstr

definition prepareRequest :: "PrepareValues \<Rightarrow> consoleRequest" where
  "prepareRequest v = PrepareRelease (JObj
     ([((js ''target_ip''), JStr (targetIp v)), ((js ''reason''), JStr (reasonValue v)), ((js ''force''), JBool (forceValue v))]
      @ (if forceValue v \<and> selectedSwitchId v \<noteq> automaticSwitchValue then [((js ''selected_switch_id''), JStr (selectedSwitchId v))] else [])))"

definition consoleLoading :: "OperatorConsole \<Rightarrow> bool" where
  "consoleLoading s = (prepareRunning s \<or> createRunning s)"

definition hasPreparedJob :: "OperatorConsole \<Rightarrow> bool" where
  "hasPreparedJob s = (case preparation s of Some p \<Rightarrow> truthy (rpJobID p) | None \<Rightarrow> False)"

definition canForceStoppedNoRecord :: "bool \<Rightarrow> OperatorConsole \<Rightarrow> bool" where
  "canForceStoppedNoRecord admin s = (admin \<and> (case preparation s of Some p \<Rightarrow>
       rpStatus p = (js ''stopped_no_record'') \<and> map_option entryType (rpObservation p) = Some (js ''missing'') \<and> truthy (rpJobID p)
     | None \<Rightarrow> False))"

definition displayedForce :: "bool \<Rightarrow> OperatorConsole \<Rightarrow> bool" where
  "displayedForce admin s = (map_option rpForce (preparation s) = Some True \<or> canForceStoppedNoRecord admin s)"

definition showForcedSwitchSelector :: "bool \<Rightarrow> OperatorConsole \<Rightarrow> bool" where
  "showForcedSwitchSelector admin s = (admin \<and> forceValue (consoleForm s) \<and> \<not> hasPreparedJob s \<and> map_option rpStatus (preparation s) \<noteq> Some (js ''ready''))"

definition submitConsole :: "OperatorConsole \<Rightarrow> OperatorConsole \<times> consoleRequest option" where
  "submitConsole s =
     (if consoleLoading s \<or> releasePrepareSchema (consoleForm s) \<noteq> [] then (s, None)
      else (s\<lparr>preparation := None, preparationSeed := None, preparationJobId := None, prepareRunning := True\<rparr>,
        Some (prepareRequest (consoleForm s))))"

definition setForce :: "bool \<Rightarrow> OperatorConsole \<Rightarrow> OperatorConsole" where
  "setForce b s = s\<lparr>consoleForm := (consoleForm s)\<lparr>forceValue := b\<rparr>\<rparr>"

definition prepareSucceeds :: "ReleasePreparation \<Rightarrow> OperatorConsole \<Rightarrow> OperatorConsole" where
  "prepareSucceeds r s = (setForce (rpForce r) s)\<lparr>preparation := Some r, preparationSeed := Some r, preparationJobId := rpJobID r,
     consoleError := None, prepareRunning := False\<rparr>"

definition prepareFails :: "jstr \<Rightarrow> OperatorConsole \<Rightarrow> OperatorConsole" where
  "prepareFails message s = s\<lparr>consoleError := Some message, prepareRunning := False\<rparr>"

definition createFails :: "jstr \<Rightarrow> OperatorConsole \<Rightarrow> OperatorConsole" where
  "createFails message s = s\<lparr>consoleError := Some message, createRunning := False\<rparr>"

text \<open>The job that was created is shown: the second component is the address the page leaves for.\<close>

definition jobCreated :: "jstr \<Rightarrow> OperatorConsole \<Rightarrow> OperatorConsole \<times> jstr" where
  "jobCreated jobID s = (s\<lparr>createRunning := False\<rparr>, (js ''/jobs/'') @ jobID)"

text \<open>The effect of the job that was read; \<open>preQueryFailed\<close> is the text for a failure without a message.\<close>

definition jobEffect :: "jstr \<Rightarrow> PreQueryJob option \<Rightarrow> OperatorConsole \<Rightarrow> OperatorConsole" where
  "jobEffect preQueryFailed data s =
     (case (data, preparationSeed s) of
        (Some j, Some seed) \<Rightarrow>
          (let n = preparationFromJob j seed; s1 = (setForce (rpForce n) s)\<lparr>preparation := Some n\<rparr>;
               s2 = (if pjStatus j = (js ''waiting_confirmation'') \<or> pjStatus j \<in> set terminalStatuses then s1\<lparr>preparationJobId := None\<rparr> else s1)
           in if pjStatus j = (js ''failed'') \<or> pjStatus j = (js ''timeout'')
              then s2\<lparr>consoleError := Some (if truthy (pjError j) then the (pjError j) else preQueryFailed)\<rparr> else s2)
      | _ \<Rightarrow> s)"

definition createBody :: "bool option \<Rightarrow> ReleasePreparation \<Rightarrow> PrepareValues \<Rightarrow> json" where
  "createBody forceOverride p v = JObj [((js ''preparation_job_id''), JStr (nullish (rpJobID p) [])), ((js ''target_ip''), JStr (rpTarget p)),
     ((js ''reason''), JStr (nullish (rpReason p) (reasonValue v))),
     ((js ''ticket_id''), if ticketId v = [] then JNull else JStr (ticketId v)),
     ((js ''force''), JBool (nullish forceOverride (rpForce p))), ((js ''confirmed''), JBool True)]"

text \<open>The mutation: without a prepared job it fails before any request.\<close>

definition createJob :: "bool option \<Rightarrow> OperatorConsole \<Rightarrow> OperatorConsole \<times> consoleRequest option" where
  "createJob forceOverride s =
     (case preparation s of
        Some p \<Rightarrow> if truthy (rpJobID p) then (s\<lparr>createRunning := True\<rparr>, Some (CreateReleaseJob (createBody forceOverride p (consoleForm s))))
          else (s, None)
      | None \<Rightarrow> (s, None))"

definition clickCreate :: "OperatorConsole \<Rightarrow> OperatorConsole \<times> consoleRequest option" where
  "clickCreate s =
     (case preparation s of
        Some p \<Rightarrow> if consoleLoading s \<or> rpStatus p \<noteq> (js ''ready'') \<or> \<not> truthy (rpJobID p) then (s, None) else createJob None s
      | None \<Rightarrow> (s, None))"

definition clickForceCreate :: "bool \<Rightarrow> OperatorConsole \<Rightarrow> OperatorConsole \<times> consoleRequest option" where
  "clickForceCreate admin s =
     (if canForceStoppedNoRecord admin s \<and> \<not> consoleLoading s then createJob (Some True) s else (s, None))"

definition tickConsoleForce :: "bool \<Rightarrow> bool \<Rightarrow> OperatorConsole \<Rightarrow> OperatorConsole" where
  "tickConsoleForce admin b s = (if admin \<and> \<not> hasPreparedJob s \<and> \<not> consoleLoading s then setForce b s else s)"

text \<open>The retry of a job, offered for a release that did not succeed.\<close>

definition retryOffered :: "jstr \<Rightarrow> jstr \<Rightarrow> bool" where
  "retryOffered jobKind jobStatus = (jobKind = (js ''release'') \<and> jobStatus \<in> {(js ''failed''), (js ''timeout''), (js ''needs_manual_confirmation'')})"

section \<open>What can happen\<close>

record ConsoleRun =
  consoleState :: OperatorConsole
  consoleSent :: "(OperatorConsole \<times> consoleRequest) list"

definition consoleSends :: "OperatorConsole \<times> consoleRequest option \<Rightarrow> ConsoleRun \<Rightarrow> ConsoleRun" where
  "consoleSends x r = r\<lparr>consoleState := fst x,
     consoleSent := consoleSent r @ (case snd x of Some q \<Rightarrow> [(consoleState r, q)] | None \<Rightarrow> [])\<rparr>"

text \<open>
  What the server does: it forces a preparation only if it was asked to, and a job is forced only if its preparation was.
\<close>

inductive operator_step :: "bool \<Rightarrow> ConsoleRun \<Rightarrow> ConsoleRun \<Rightarrow> bool" for admin where
  edits: "operator_step admin r (r\<lparr>consoleState := (consoleState r)\<lparr>consoleForm :=
      (consoleForm (consoleState r))\<lparr>targetIp := ip, reasonValue := why, ticketId := ticket\<rparr>\<rparr>\<rparr>)"
| selects: "showForcedSwitchSelector admin (consoleState r) \<Longrightarrow> operator_step admin r
      (r\<lparr>consoleState := (consoleState r)\<lparr>consoleForm := (consoleForm (consoleState r))\<lparr>selectedSwitchId := sw\<rparr>\<rparr>\<rparr>)"
| ticks_force: "operator_step admin r (r\<lparr>consoleState := tickConsoleForce admin b (consoleState r)\<rparr>)"
| submits: "operator_step admin r (consoleSends (submitConsole (consoleState r)) r)"
| prepared: "\<lbrakk>prepareRunning (consoleState r); rpForce p \<longrightarrow> forceValue (consoleForm (consoleState r))\<rbrakk>
      \<Longrightarrow> operator_step admin r (r\<lparr>consoleState := prepareSucceeds p (consoleState r)\<rparr>)"
| prepare_fails: "operator_step admin r (r\<lparr>consoleState := prepareFails message (consoleState r)\<rparr>)"
| create_fails: "operator_step admin r (r\<lparr>consoleState := createFails message (consoleState r)\<rparr>)"
| created: "operator_step admin r (r\<lparr>consoleState := fst (jobCreated jobID (consoleState r))\<rparr>)"
| reads_job: "pjForce j \<longrightarrow> (\<exists>p. preparationSeed (consoleState r) = Some p \<and> rpForce p)
      \<Longrightarrow> operator_step admin r (r\<lparr>consoleState := jobEffect failed (Some j) (consoleState r)\<rparr>)"
| creates: "operator_step admin r (consoleSends (clickCreate (consoleState r)) r)"
| force_creates: "operator_step admin r (consoleSends (clickForceCreate admin (consoleState r)) r)"

fun askedForce :: "consoleRequest \<Rightarrow> bool" where
  "askedForce (PrepareRelease (JObj ms)) = (map_of ms (js ''force'') = Some (JBool True))"
| "askedForce (CreateReleaseJob (JObj ms)) = (map_of ms (js ''force'') = Some (JBool True))"
| "askedForce _ = False"

text \<open>What a request may be, by what was shown when it was sent.\<close>

fun allowedRequest :: "bool \<Rightarrow> OperatorConsole \<times> consoleRequest \<Rightarrow> bool" where
  "allowedRequest admin (s, PrepareRelease body) \<longleftrightarrow>
     \<not> consoleLoading s \<and> targetIp (consoleForm s) \<noteq> [] \<and> (askedForce (PrepareRelease body) \<longrightarrow> admin)"
| "allowedRequest admin (s, CreateReleaseJob body) \<longleftrightarrow>
     \<not> consoleLoading s \<and> (askedForce (CreateReleaseJob body) \<longrightarrow> admin)
     \<and> (\<exists>p jobID. preparation s = Some p \<and> rpJobID p = Some jobID \<and> jobID \<noteq> []
          \<and> (\<exists>ov. body = createBody ov p (consoleForm s)
             \<and> (ov = None \<and> rpStatus p = (js ''ready'')
                \<or> ov = Some True \<and> admin \<and> rpStatus p = (js ''stopped_no_record'') \<and> map_option entryType (rpObservation p) = Some (js ''missing''))))"
| "allowedRequest admin (s, RetryReleaseJob jobID) \<longleftrightarrow> False"

definition goodConsole :: "bool \<Rightarrow> ConsoleRun \<Rightarrow> bool" where
  "goodConsole admin r \<longleftrightarrow> list_all (allowedRequest admin) (consoleSent r)
     \<and> (\<not> admin \<longrightarrow> \<not> forceValue (consoleForm (consoleState r))
         \<and> (\<forall>p. preparation (consoleState r) = Some p \<or> preparationSeed (consoleState r) = Some p \<longrightarrow> \<not> rpForce p))"

lemma truthy_Some: "truthy x \<longleftrightarrow> (\<exists>s. x = Some s \<and> s \<noteq> [])"
  by (cases x) simp_all

lemma good_creates:
  assumes "goodConsole admin r" "snd x = None \<or> (\<exists>p ov. preparation (consoleState r) = Some p \<and> truthy (rpJobID p) \<and> \<not> consoleLoading (consoleState r)
      \<and> snd x = Some (CreateReleaseJob (createBody ov p (consoleForm (consoleState r))))
      \<and> (ov = None \<and> rpStatus p = (js ''ready'')
         \<or> ov = Some True \<and> admin \<and> rpStatus p = (js ''stopped_no_record'') \<and> map_option entryType (rpObservation p) = Some (js ''missing'')))"
    "fst x = consoleState r \<or> fst x = (consoleState r)\<lparr>createRunning := True\<rparr>"
  shows "goodConsole admin (consoleSends x r)"
proof -
  have "forceValue (consoleForm (fst x)) = forceValue (consoleForm (consoleState r))" "preparation (fst x) = preparation (consoleState r)"
    "preparationSeed (fst x) = preparationSeed (consoleState r)"
    using assms(3) by auto
  then show ?thesis using assms(1,2)
    by (auto simp: goodConsole_def consoleSends_def truthy_Some createBody_def)
qed

lemma rpForce_preparationFromJob [simp]: "rpForce (preparationFromJob j seed) = pjForce j"
  by (simp add: preparationFromJob_def)

lemma jobEffect_result:
  "jobEffect preQueryFailed (Some j) s = s \<or>
     (let s' = jobEffect preQueryFailed (Some j) s in preparation s' = map_option (preparationFromJob j) (preparationSeed s)
        \<and> preparationSeed s' = preparationSeed s \<and> forceValue (consoleForm s') = pjForce j)"
  by (cases "preparationSeed s") (simp_all add: jobEffect_def setForce_def Let_def)

lemma submitConsole_result:
  "snd (submitConsole s) = None \<and> fst (submitConsole s) = s \<or>
     \<not> consoleLoading s \<and> targetIp (consoleForm s) \<noteq> [] \<and> snd (submitConsole s) = Some (prepareRequest (consoleForm s))
     \<and> preparation (fst (submitConsole s)) = None \<and> preparationSeed (fst (submitConsole s)) = None
     \<and> consoleForm (fst (submitConsole s)) = consoleForm s"
  by (simp add: submitConsole_def releasePrepareSchema_def)

lemma askedForce_prepare: "prepareRequest v = PrepareRelease b \<Longrightarrow> askedForce (PrepareRelease b) = forceValue v"
  by (auto simp: prepareRequest_def)

lemma prepareRequest_is: "\<exists>b. prepareRequest v = PrepareRelease b"
  by (simp add: prepareRequest_def)

lemma goodConsole_step: "\<lbrakk>operator_step admin r r'; goodConsole admin r\<rbrakk> \<Longrightarrow> goodConsole admin r'"
proof (induction rule: operator_step.induct)
  case (submits r)
  obtain b where "prepareRequest (consoleForm (consoleState r)) = PrepareRelease b" using prepareRequest_is by blast
  then show ?case
    using submits submitConsole_result [of "consoleState r"] askedForce_prepare [of "consoleForm (consoleState r)" b]
    by (auto simp: goodConsole_def consoleSends_def)
next
  case (creates r)
  then show ?case
    by (intro good_creates) (auto simp: clickCreate_def createJob_def split: option.splits)
next
  case (force_creates r)
  then show ?case
    by (intro good_creates) (auto simp: clickForceCreate_def canForceStoppedNoRecord_def createJob_def split: option.splits)
next
  case (ticks_force r b)
  then show ?case by (auto simp: goodConsole_def tickConsoleForce_def setForce_def)
next
  case (prepared r p)
  then show ?case by (auto simp: goodConsole_def prepareSucceeds_def setForce_def)
next
  case (reads_job j r failed)
  then show ?case
    using jobEffect_result [of failed j "consoleState r"] by (cases "preparationSeed (consoleState r)") (auto simp: goodConsole_def Let_def)
qed (auto simp: goodConsole_def prepareFails_def createFails_def jobCreated_def)

text \<open>
  C9. A release job is created only for what the page shows: the preparation of a pre-query that the server has accepted, for its target, either
  ready for confirmation or, by an administrator, forced after no record was found; nothing is sent while a request is
  under way, and only an administrator's page asks for force.
\<close>

theorem console_requests_allowed:
  assumes "(operator_step admin)\<^sup>*\<^sup>* \<lparr>consoleState = newOperatorConsole, consoleSent = []\<rparr> r"
  shows "list_all (allowedRequest admin) (consoleSent r)"
proof -
  from assms have "goodConsole admin r"
  proof (induction rule: rtranclp_induct)
    case base
    show ?case by (simp add: goodConsole_def newOperatorConsole_def)
  qed (rule goodConsole_step)
  then show ?thesis by (simp add: goodConsole_def)
qed

definition samplePreparation :: ReleasePreparation where
  "samplePreparation = \<lparr>rpJobID = Some (js ''j1''), rpStatus = (js ''ready''), rpTarget = (js ''10.0.0.5''), rpSwitch = None, rpObservation = None,
     rpForce = False, rpReason = Some (js ''other'')\<rparr>"

definition preparedConsole :: OperatorConsole where
  "preparedConsole = prepareSucceeds samplePreparation (newOperatorConsole\<lparr>consoleForm := (consoleForm newOperatorConsole)\<lparr>targetIp := (js ''10.0.0.5'')\<rparr>,
     prepareRunning := True\<rparr>)"

lemma prepared_console_reached:
  "\<exists>sent. (operator_step False)\<^sup>*\<^sup>* \<lparr>consoleState = newOperatorConsole, consoleSent = []\<rparr> \<lparr>consoleState = preparedConsole, consoleSent = sent\<rparr>"
proof -
  let ?r0 = "\<lparr>consoleState = newOperatorConsole, consoleSent = []\<rparr>"
  let ?r1 = "?r0\<lparr>consoleState := (consoleState ?r0)\<lparr>consoleForm :=
      (consoleForm (consoleState ?r0))\<lparr>targetIp := (js ''10.0.0.5''), reasonValue := (js ''temporary_test''), ticketId := []\<rparr>\<rparr>\<rparr>"
  let ?r2 = "consoleSends (submitConsole (consoleState ?r1)) ?r1"
  let ?r3 = "?r2\<lparr>consoleState := prepareSucceeds samplePreparation (consoleState ?r2)\<rparr>"
  have "operator_step False ?r0 ?r1" by (rule edits)
  moreover have "operator_step False ?r1 ?r2" by (rule submits)
  moreover have "operator_step False ?r2 ?r3"
    by (rule prepared) (simp_all add: consoleSends_def submitConsole_def consoleLoading_def releasePrepareSchema_def
        releaseReasonValues_def newOperatorConsole_def samplePreparation_def)
  ultimately have "(operator_step False)\<^sup>*\<^sup>* ?r0 ?r3" by (meson rtranclp.rtrancl_into_rtrancl rtranclp.rtrancl_refl)
  moreover have "?r3 = \<lparr>consoleState = preparedConsole, consoleSent = consoleSent ?r3\<rparr>"
    by (simp add: preparedConsole_def consoleSends_def submitConsole_def consoleLoading_def releasePrepareSchema_def
        releaseReasonValues_def newOperatorConsole_def prepareSucceeds_def setForce_def)
  ultimately show ?thesis by (intro exI [of _ "consoleSent ?r3"]) simp
qed

theorem console_requests_allowed_witness:
  "allowedRequest False (preparedConsole, CreateReleaseJob (createBody None samplePreparation (consoleForm preparedConsole)))"
proof -
  obtain sent where r: "(operator_step False)\<^sup>*\<^sup>* \<lparr>consoleState = newOperatorConsole, consoleSent = []\<rparr>
      \<lparr>consoleState = preparedConsole, consoleSent = sent\<rparr>"
    using prepared_console_reached by blast
  let ?r = "\<lparr>consoleState = preparedConsole, consoleSent = sent\<rparr>"
  have "operator_step False ?r (consoleSends (clickCreate (consoleState ?r)) ?r)" by (rule creates)
  with r have "(operator_step False)\<^sup>*\<^sup>* \<lparr>consoleState = newOperatorConsole, consoleSent = []\<rparr> (consoleSends (clickCreate (consoleState ?r)) ?r)"
    by (rule rtranclp.rtrancl_into_rtrancl)
  from console_requests_allowed [OF this] show ?thesis
    by (simp add: consoleSends_def clickCreate_def createJob_def preparedConsole_def prepareSucceeds_def samplePreparation_def consoleLoading_def
        newOperatorConsole_def setForce_def)
qed

section \<open>Every code has a text\<close>

text \<open>The codes that the pages show through \<open>statusLabel\<close> and \<open>reasonLabel\<close>: filters, badges and options.\<close>

definition jobStatusValues :: "jstr list" where
  "jobStatusValues = [(js ''queued''), (js ''running''), (js ''waiting_confirmation''), (js ''succeeded''), (js ''failed''), (js ''timeout''), (js ''needs_manual_confirmation''), (js ''cancelled'')]"

definition jobKindValues :: "jstr list" where
  "jobKindValues = [(js ''pre_release_query''), (js ''release'')]"

definition importStatusValues :: "jstr list" where
  "importStatusValues = [(js ''applied''), (js ''failed''), (js ''draft''), (js ''validated'')]"

definition auditActionOptions :: "jstr list" where
  "auditActionOptions = [(js ''release_pre_query_queued''), (js ''release_pre_query_completed''), (js ''release_pre_query_confirmed''), (js ''release_job_created''),
     (js ''release_job_retried''), (js ''release_job_finished''), (js ''release_job_enqueue_failed''), (js ''release_retry_enqueue_failed'')]"

definition auditTargetOptions :: "jstr list" where
  "auditTargetOptions = [(js ''release_job''), (js ''user''), (js ''credential''), (js ''command_profile''), (js ''switch''), (js ''import_batch'')]"

definition preparationStatuses :: "jstr list" where
  "preparationStatuses = [(js ''query_queued''), (js ''ready''), (js ''stopped_no_record''), (js ''stopped_no_switch''), (js ''stopped_ambiguous_switch''),
     (js ''needs_manual_confirmation''), (js ''failed''), (js ''timeout'')]"

definition shownEntryTypes :: "jstr list" where
  "shownEntryTypes = [(js ''static''), (js ''dynamic''), (js ''missing''), (js ''unknown'')]"

definition roleNames :: "jstr list" where
  "roleNames = [(js ''operator''), (js ''admin'')]"

datatype badge = Destructive | Success | Warning | Secondary

definition statusBadge :: "jstr \<Rightarrow> badge" where
  "statusBadge v =
     (if v = (js ''failed'') \<or> v = (js ''timeout'') \<or> v = (js ''cancelled'') then Destructive
      else if v = (js ''succeeded'') \<or> v = (js ''ready'') then Success
      else if v = (js ''needs_manual_confirmation'') \<or> v = (js ''waiting_confirmation'') then Warning else Secondary)"

definition statusNames :: "string list" where
  "statusNames = [''queued'', ''running'', ''waiting_confirmation'', ''succeeded'', ''failed'', ''timeout'', ''needs_manual_confirmation'',
     ''cancelled'', ''pre_release_query'', ''release'', ''applied'', ''draft'', ''validated'', ''release_pre_query_queued'',
     ''release_pre_query_completed'', ''release_pre_query_confirmed'', ''release_job_created'', ''release_job_retried'',
     ''release_job_finished'', ''release_job_enqueue_failed'', ''release_retry_enqueue_failed'', ''release_job'', ''user'', ''credential'',
     ''command_profile'', ''switch'', ''import_batch'', ''query_queued'', ''ready'', ''stopped_no_record'', ''stopped_no_switch'',
     ''stopped_ambiguous_switch'', ''static'', ''dynamic'', ''missing'', ''unknown'', ''force'']"

definition reasonNames :: "string list" where
  "reasonNames = [''temporary_test'', ''user_report'', ''ip_mac_change'', ''wrong_binding_fix'', ''security_response'', ''other'']"

definition statusTexts :: "string list" where
  "statusTexts = [''queued'', ''running'', ''waiting_confirmation'', ''succeeded'', ''failed'', ''timeout'',
     ''needs_manual_confirmation'', ''cancelled'', ''ready'', ''query_queued'', ''stopped_no_record'', ''stopped_no_switch'',
     ''stopped_ambiguous_switch'', ''force'', ''pre_release_query'', ''release'', ''static'', ''dynamic'', ''missing'',
     ''unknown'', ''failed_phase'', ''finished'', ''querying_before'', ''releasing'', ''querying_after'', ''classifying'',
     ''applied'', ''draft'', ''validated'', ''release_pre_query_queued'', ''release_pre_query_completed'',
     ''release_pre_query_confirmed'', ''release_job_created'', ''release_job_retried'', ''release_job_finished'',
     ''release_job_enqueue_failed'', ''release_retry_enqueue_failed'', ''release_job'', ''user'', ''credential'',
     ''command_profile'', ''switch'', ''import_batch'']"

lemma status_group:
  "enUS_status = Group (members enUS_status)" "textsOf (members enUS_status) = map js statusTexts"
  "map fst (members enUS_status) = map js statusTexts"
  unfolding enUS_status_def members.simps
  by (rule refl, simp_all only: statusTexts_def textsOf.simps list.map fst_conv)

lemma status_listed: "distinct statusTexts" "set statusNames \<subseteq> set statusTexts"
  by (simp_all add: statusTexts_def statusNames_def)

lemma names_found:
  "list_all (\<lambda>k. messageAt [js k] enUS_status \<noteq> None) statusNames" "list_all (\<lambda>k. messageAt [js k] enUS_reason \<noteq> None) reasonNames"
  "list_all (\<lambda>k. messageAt [js k] enUS_role \<noteq> None) [''operator'', ''admin'']"
proof -
  show "list_all (\<lambda>k. messageAt [js k] enUS_status \<noteq> None) statusNames"
    using found_in_group [OF status_group status_listed(1)] status_listed(2) by (auto simp: list_all_iff)
qed (simp_all add: enUS_reason_def enUS_role_def reasonNames_def)

lemma names_undotted:
  "list_all (\<lambda>k. splitChar (CHR 0x2E) k = [k]) statusNames" "list_all (\<lambda>k. splitChar (CHR 0x2E) k = [k]) reasonNames"
  "list_all (\<lambda>k. splitChar (CHR 0x2E) k = [k]) [''operator'', ''admin'']"
  by (simp_all add: statusNames_def reasonNames_def)

lemma section_texts:
  "messageAt (js ''status'' # ks) enUS = messageAt ks enUS_status" "messageAt (js ''reason'' # ks) enUS = messageAt ks enUS_reason"
  "messageAt (js ''role'' # ks) enUS = messageAt ks enUS_role"
  by (simp_all add: enUS_def)

lemma label_texts:
  "k \<in> set statusNames \<Longrightarrow> textOf l (js ''status.'' @ js k) \<noteq> None"
  "k \<in> set reasonNames \<Longrightarrow> textOf l (js ''reason.'' @ js k) \<noteq> None"
  "k \<in> set [''operator'', ''admin''] \<Longrightarrow> textOf l (js ''role.'' @ js k) \<noteq> None"
  using names_found names_undotted unfolding textOf_found js_append [symmetric] splitOn_js_dot list_all_iff
  by (simp_all add: section_texts, auto simp: section_texts)

text \<open>
  No code is shown as it is: every status, kind, action, target and entry type that the pages name, every reason
  and every role has a text of its own in both languages.
\<close>

theorem codes_have_texts:
  "(\<forall>v\<in>set (jobStatusValues @ jobKindValues @ importStatusValues @ auditActionOptions @ auditTargetOptions @ preparationStatuses @ shownEntryTypes @ [(js ''force'')]).
       textOf l ((js ''status.'') @ v) \<noteq> None)
   \<and> (\<forall>v\<in>set releaseReasonValues. textOf l ((js ''reason.'') @ v) \<noteq> None)
   \<and> (\<forall>v\<in>set roleNames. textOf l ((js ''role.'') @ v) \<noteq> None)"
proof (intro conjI)
  have "v \<in> js ` set statusNames" if "v \<in> set (jobStatusValues @ jobKindValues @ importStatusValues @ auditActionOptions @ auditTargetOptions
      @ preparationStatuses @ shownEntryTypes @ [(js ''force'')])" for v
    using that unfolding jobStatusValues_def jobKindValues_def importStatusValues_def auditActionOptions_def auditTargetOptions_def
      preparationStatuses_def shownEntryTypes_def statusNames_def by auto
  then show "\<forall>v\<in>set (jobStatusValues @ jobKindValues @ importStatusValues @ auditActionOptions @ auditTargetOptions @ preparationStatuses
      @ shownEntryTypes @ [(js ''force'')]). textOf l ((js ''status.'') @ v) \<noteq> None"
    using label_texts(1) [of _ l] by blast
  show "\<forall>v\<in>set releaseReasonValues. textOf l ((js ''reason.'') @ v) \<noteq> None"
    using label_texts(2) [of _ l] by (simp add: releaseReasonValues_def reasonNames_def)
  show "\<forall>v\<in>set roleNames. textOf l ((js ''role.'') @ v) \<noteq> None"
    using label_texts(3) [of _ l] by (simp add: roleNames_def)
qed

end
