(* ===== verification/JsonText.thy ===== *)
theory JsonText
  imports Contracts JsonString "HOL-Library.AList" "HOL-Library.Log_Nat"
begin

text \<open>
  \<open>JSON.stringify(value, null, gap)\<close> and \<open>JSON.parse(text)\<close> as the language defines them, on the values of
  \<open>Contracts\<close>: numbers are doubles, written with the shortest digits that are read back; an object lists its members in the order of
  JavaScript, array indices first. What is written is read back, for values whose numbers are integers that doubles hold exactly.
\<close>

section \<open>Doubles\<close>

definition pow2 :: "int \<Rightarrow> rat" where
  "pow2 e = (if e \<ge> 0 then 2 ^ nat e else 1 / 2 ^ nat (- e))"

definition pow10 :: "int \<Rightarrow> rat" where
  "pow10 e = (if e \<ge> 0 then 10 ^ nat e else 1 / 10 ^ nat (- e))"

definition log2floor :: "rat \<Rightarrow> int" where
  "log2floor x = (let (p, d) = quotient_of x; e = int (floorlog 2 (nat p)) - int (floorlog 2 (nat d)) in if pow2 e \<le> x then e else e - 1)"

definition log10floor :: "rat \<Rightarrow> int" where
  "log10floor x = (let (p, d) = quotient_of x; e = int (length (nat_str (nat p))) - int (length (nat_str (nat d))) in if pow10 e \<le> x then e else e - 1)"

definition roundHalfEven :: "rat \<Rightarrow> int" where
  "roundHalfEven x = (let f = \<lfloor>x\<rfloor>; d = x - of_int f in if d > 1 / 2 \<or> d = 1 / 2 \<and> odd f then f + 1 else f)"

definition exactInt :: "rat \<Rightarrow> bool" where
  "exactInt x \<longleftrightarrow> of_int \<lfloor>x\<rfloor> = x \<and> \<bar>x\<bar> \<le> 2 ^ 53"

text \<open>The double nearest to a number; none beyond the largest one.\<close>

definition doubleOf :: "rat \<Rightarrow> rat option" where
  "doubleOf x =
     (if exactInt x then Some x
      else (let a = \<bar>x\<bar>; e = max (log2floor a - 52) (- 1074); v = of_int (roundHalfEven (a / pow2 e)) * pow2 e
            in if v \<ge> 2 ^ 1024 then None else Some (if x < 0 then - v else v)))"

text \<open>\<open>Number::toString\<close>: the fewest digits that are read back as the number, then their layout.\<close>

definition shortestDigits :: "rat \<Rightarrow> jstr \<times> int" where
  "shortestDigits x =
     (let p = log10floor x + 1;
          good = filter (\<lambda>(k, n). doubleOf (of_int n * pow10 (p - k)) = Some x) (map (\<lambda>k. (k, roundHalfEven (x * pow10 (k - p)))) [1..17])
      in case good of
           (k, n) # _ \<Rightarrow> if n = 10 ^ nat k then ((js ''1''), p + 1) else (nat_str (nat n), p)
         | [] \<Rightarrow> ([], p))"

definition layoutNumber :: "jstr \<Rightarrow> int \<Rightarrow> jstr" where
  "layoutNumber ds p =
     (let k = int (length ds); e = p - 1; es = (if e < 0 then 0x2D # nat_str (nat (- e)) else 0x2B # nat_str (nat e))
      in if k \<le> p \<and> p \<le> 21 then ds @ replicate (nat (p - k)) 0x30
         else if 0 < p \<and> p \<le> 21 then take (nat p) ds @ 0x2E # drop (nat p) ds
         else if - 6 < p \<and> p \<le> 0 then 0x30 # 0x2E # replicate (nat (- p)) 0x30 @ ds
         else if k = 1 then ds @ 0x65 # es
         else take 1 ds @ 0x2E # drop 1 ds @ 0x65 # es)"

definition showNumber :: "rat \<Rightarrow> jstr" where
  "showNumber x =
     (if exactInt x then int_str \<lfloor>x\<rfloor>
      else (let (ds, p) = shortestDigits \<bar>x\<bar> in (if x < 0 then [0x2D] else []) @ layoutNumber ds p))"

section \<open>Objects\<close>

text \<open>The members of an object in the order of JavaScript: array indices in their order, then the others as they came; a name that comes again replaces the value.\<close>

definition arrayIndex :: "jstr \<Rightarrow> bool" where
  "arrayIndex k \<longleftrightarrow> k \<noteq> [] \<and> list_all digit k \<and> nat_str (digits_val k) = k \<and> digits_val k < 2 ^ 32 - 1"

definition jsObject :: "(jstr \<times> 'a) list \<Rightarrow> (jstr \<times> 'a) list" where
  "jsObject ms =
     (let u = fold (\<lambda>(k, v). AList.update k v) ms []
      in sort_key (digits_val \<circ> fst) (filter (arrayIndex \<circ> fst) u) @ filter (Not \<circ> arrayIndex \<circ> fst) u)"

section \<open>Writing\<close>

definition newline :: "nat \<Rightarrow> nat \<Rightarrow> jstr" where
  "newline gap ind = (if gap = 0 then [] else 0x0A # replicate ind 0x20)"

fun jsonWrite :: "nat \<Rightarrow> nat \<Rightarrow> json \<Rightarrow> jstr"
  and jsonItems :: "nat \<Rightarrow> nat \<Rightarrow> json list \<Rightarrow> jstr"
  and jsonMembers :: "nat \<Rightarrow> nat \<Rightarrow> (jstr \<times> json) list \<Rightarrow> jstr" where
  "jsonWrite gap ind JNull = (js ''null'')"
| "jsonWrite gap ind (JBool b) = (if b then (js ''true'') else (js ''false''))"
| "jsonWrite gap ind (JNum x) = showNumber x"
| "jsonWrite gap ind (JStr s) = quoted s"
| "jsonWrite gap ind (JArr xs) = (if xs = [] then [0x5B, 0x5D]
     else 0x5B # newline gap (ind + gap) @ jsonItems gap (ind + gap) xs @ newline gap ind @ [0x5D])"
| "jsonWrite gap ind (JObj ms) = (if ms = [] then [0x7B, 0x7D]
     else 0x7B # newline gap (ind + gap) @ jsonMembers gap (ind + gap) ms @ newline gap ind @ [0x7D])"
| "jsonItems gap ind [] = []"
| "jsonItems gap ind (x # xs) = jsonWrite gap ind x @ (if xs = [] then [] else 0x2C # newline gap ind @ jsonItems gap ind xs)"
| "jsonMembers gap ind [] = []"
| "jsonMembers gap ind ((k, v) # ms) = quoted k @ 0x3A # (if gap = 0 then [] else [0x20]) @ jsonWrite gap ind v
     @ (if ms = [] then [] else 0x2C # newline gap ind @ jsonMembers gap ind ms)"

definition stringify :: "json \<Rightarrow> jstr" where
  "stringify j = jsonWrite 0 0 j"

section \<open>Reading\<close>

definition jsonSpace :: "nat \<Rightarrow> bool" where
  "jsonSpace c \<longleftrightarrow> c \<in> {0x20, 0x09, 0x0A, 0x0D}"

definition skipSpace :: "jstr \<Rightarrow> jstr" where
  "skipSpace s = dropWhile jsonSpace s"

definition hexUnit :: "nat \<Rightarrow> nat option" where
  "hexUnit c = (if digit c then Some (c - 0x30) else if 0x61 \<le> c \<and> c \<le> 0x66 then Some (c - 0x61 + 10)
     else if 0x41 \<le> c \<and> c \<le> 0x46 then Some (c - 0x41 + 10) else None)"

text \<open>A string, behind its opening quote.\<close>

fun readString :: "jstr \<Rightarrow> (jstr \<times> jstr) option" where
  "readString [] = None"
| "readString (c # s) =
     (if c = 0x22 then Some ([], s)
      else if c < 0x20 then None
      else if c = 0x5C then
        (case s of
           [] \<Rightarrow> None
         | e # r \<Rightarrow>
             if e = 0x75 then
               (case r of
                  x # y # z # w # r' \<Rightarrow>
                    (case (hexUnit x, hexUnit y, hexUnit z, hexUnit w) of
                       (Some a, Some b, Some d, Some f) \<Rightarrow>
                         map_option (\<lambda>(u, v). ((f + 16 * d + 256 * b + 4096 * a) # u, v)) (readString r')
                     | _ \<Rightarrow> None)
                | _ \<Rightarrow> None)
             else
               (case map_of ((0x2F, 0x2F) # map prod.swap shortEscapes) e of
                  Some b \<Rightarrow> map_option (\<lambda>(u, v). (b # u, v)) (readString r)
                | None \<Rightarrow> None))
      else map_option (\<lambda>(u, v). (c # u, v)) (readString s))"

text \<open>
  A number. One beyond the doubles becomes \<open>Infinity\<close>, which \<open>JSON.stringify\<close> writes as \<open>null\<close>; it is
  \<open>JNull\<close> here.
\<close>

definition readFraction :: "jstr \<Rightarrow> (jstr \<times> jstr) option" where
  "readFraction s = (case s of
       c # t \<Rightarrow> if c \<noteq> 0x2E then Some ([], s)
         else if takeWhile digit t = [] then None else Some (takeWhile digit t, dropWhile digit t)
     | [] \<Rightarrow> Some ([], []))"

definition readExponent :: "jstr \<Rightarrow> (int \<times> jstr) option" where
  "readExponent s = (case s of
       c # t \<Rightarrow> if c \<noteq> 0x65 \<and> c \<noteq> 0x45 then Some (0, s)
         else (let neg = (case t of d # _ \<Rightarrow> d = 0x2D | [] \<Rightarrow> False);
                   u = (case t of d # w \<Rightarrow> if d = 0x2D \<or> d = 0x2B then w else t | [] \<Rightarrow> []);
                   ds = takeWhile digit u
               in if ds = [] then None else Some (if neg then - int (digits_val ds) else int (digits_val ds), dropWhile digit u))
     | [] \<Rightarrow> Some (0, []))"

definition intPart :: "jstr \<Rightarrow> jstr" where
  "intPart u = (case u of c # _ \<Rightarrow> if c = 0x30 then [c] else takeWhile digit u | [] \<Rightarrow> [])"

definition readNumber :: "jstr \<Rightarrow> (json \<times> jstr) option" where
  "readNumber s =
     (let neg = (case s of c # _ \<Rightarrow> c = 0x2D | [] \<Rightarrow> False);
          u = (if neg then tl s else s);
          ds = intPart u
      in if ds = [] then None
         else (case readFraction (drop (length ds) u) of None \<Rightarrow> None
           | Some (fd, r) \<Rightarrow> (case readExponent r of None \<Rightarrow> None
             | Some (e, r') \<Rightarrow>
                 let v = of_nat (digits_val (ds @ fd)) * pow10 (e - int (length fd))
                 in Some (case doubleOf (if neg then - v else v) of Some x \<Rightarrow> JNum x | None \<Rightarrow> JNull, r'))))"

definition readLiteral :: "jstr \<Rightarrow> (json \<times> jstr) option" where
  "readLiteral s =
     (if startsWith s (js ''null'') then Some (JNull, drop 4 s)
      else if startsWith s (js ''true'') then Some (JBool True, drop 4 s)
      else if startsWith s (js ''false'') then Some (JBool False, drop 5 s)
      else readNumber s)"

text \<open>
  Values, and what follows them. The comparisons of lengths hold whenever they are reached; they make plain that
  the reader stops.
\<close>

function parseValue :: "jstr \<Rightarrow> (json \<times> jstr) option"
  and parseItems :: "jstr \<Rightarrow> (json list \<times> jstr) option"
  and parseMembers :: "jstr \<Rightarrow> ((jstr \<times> json) list \<times> jstr) option" where
  "parseValue s = (case skipSpace s of
      [] \<Rightarrow> None
    | c # t \<Rightarrow>
        if c = 0x22 then map_option (\<lambda>(u, r). (JStr u, r)) (readString t)
        else if c = 0x5B then
          (if take 1 (skipSpace t) = [0x5D] then Some (JArr [], tl (skipSpace t))
           else if length t < length s then map_option (\<lambda>(xs, r). (JArr xs, r)) (parseItems t) else None)
        else if c = 0x7B then
          (if take 1 (skipSpace t) = [0x7D] then Some (JObj [], tl (skipSpace t))
           else if length t < length s then map_option (\<lambda>(ms, r). (JObj (jsObject ms), r)) (parseMembers t) else None)
        else readLiteral (c # t))"
| "parseItems s = (case parseValue s of None \<Rightarrow> None
    | Some (v, r) \<Rightarrow> (case skipSpace r of
        [] \<Rightarrow> None
      | c # r' \<Rightarrow> if c = 0x2C then if length r' < length s then map_option (\<lambda>(vs, q). (v # vs, q)) (parseItems r') else None
          else if c = 0x5D then Some ([v], r') else None))"
| "parseMembers s = (case skipSpace s of
      [] \<Rightarrow> None
    | c # t \<Rightarrow>
        if c \<noteq> 0x22 then None
        else (case readString t of None \<Rightarrow> None
          | Some (k, r) \<Rightarrow> (case skipSpace r of
              [] \<Rightarrow> None
            | d # r1 \<Rightarrow>
                if d \<noteq> 0x3A \<or> length r1 \<ge> length s then None
                else (case parseValue r1 of None \<Rightarrow> None
                  | Some (v, r2) \<Rightarrow> (case skipSpace r2 of
                      [] \<Rightarrow> None
                    | f # r3 \<Rightarrow> if f = 0x2C then if length r3 < length s then map_option (\<lambda>(ms, q). ((k, v) # ms, q)) (parseMembers r3) else None
                        else if f = 0x7D then Some ([(k, v)], r3) else None)))))"
  by pat_completeness auto
termination
  by (relation "measures [\<lambda>x. case x of Inl s \<Rightarrow> length s | Inr y \<Rightarrow> (case y of Inl s \<Rightarrow> length s | Inr s \<Rightarrow> length s),
       \<lambda>x. case x of Inl _ \<Rightarrow> 0 | Inr _ \<Rightarrow> 1]") auto

declare parseValue.simps [simp del] parseItems.simps [simp del] parseMembers.simps [simp del]

definition parseJson :: "jstr \<Rightarrow> json option" where
  "parseJson s = (case parseValue s of Some (j, r) \<Rightarrow> if skipSpace r = [] then Some j else None | None \<Rightarrow> None)"

lemma skip_shorter: "skipSpace s = c # t \<Longrightarrow> length t < length s"
  using length_dropWhile_le [of jsonSpace s] by (simp add: skipSpace_def)

lemma skip_le: "length (skipSpace s) \<le> length s"
  by (simp add: skipSpace_def length_dropWhile_le)

lemma readString_shorter: "readString s = Some (u, r) \<Longrightarrow> length r < length s"
  by (induction s arbitrary: u rule: readString.induct) (fastforce split: if_splits list.splits option.splits)+

lemma readNumber_shorter:
  assumes "readNumber s = Some (j, r)"
  shows "length r < length s"
proof -
  have f: "length q \<le> length w" if "readFraction w = Some (fd, q)" for w fd q
    using that length_dropWhile_le [of digit "tl w"] by (cases w) (auto simp: readFraction_def split: if_splits)
  have e: "length q \<le> length w" if "readExponent w = Some (x, q)" for w x q
    using that length_dropWhile_le [of digit "tl w"] length_dropWhile_le [of digit "tl (tl w)"]
    by (cases w; cases "tl w") (auto simp: readExponent_def Let_def split: if_splits)
  let ?u = "if (case s of c # _ \<Rightarrow> c = 0x2D | [] \<Rightarrow> False) then tl s else s"
  from assms obtain fd q x where "intPart ?u \<noteq> []" "readFraction (drop (length (intPart ?u)) ?u) = Some (fd, q)" "readExponent q = Some (x, r)"
    by (auto simp: readNumber_def Let_def split: if_splits option.splits)
  then have "length r \<le> length ?u - length (intPart ?u)" "intPart ?u \<noteq> []" using f e by fastforce+
  moreover have "?u \<noteq> []" using calculation(2) by (auto simp: intPart_def)
  ultimately show ?thesis by (cases s; cases "intPart ?u") (auto split: if_splits)
qed

lemma readLiteral_shorter: "readLiteral (c # t) = Some (j, r) \<Longrightarrow> length r \<le> length t"
  using readNumber_shorter [of "c # t" j r] by (auto simp: readLiteral_def split: if_splits)

lemma parse_shorter:
  "parseValue s = Some (j, r) \<Longrightarrow> length r < length s"
  "parseItems s = Some (xs, r) \<Longrightarrow> length r < length s"
  "parseMembers s = Some (ms, r) \<Longrightarrow> length r < length s"
proof (induction s and s and s arbitrary: j r and xs r and ms r rule: parseValue_parseItems_parseMembers.induct)
  case (1 s)
  show ?case
  proof (cases "skipSpace s")
    case Nil
    then show ?thesis using 1(3) by (simp add: parseValue.simps [of s])
  next
    case (Cons c t)
    then have t: "length t < length s" by (rule skip_shorter)
    have b: "length (tl (skipSpace t)) \<le> length t" using skip_le [of t] by simp
    from 1 Cons t b show ?thesis
      by (fastforce simp: parseValue.simps [of s] split: if_splits dest: readString_shorter readLiteral_shorter)
  qed
next
  case (2 s)
  then obtain v q c q' where v: "parseValue s = Some (v, q)" "skipSpace q = c # q'"
    by (auto simp: parseItems.simps [of s] split: option.splits list.splits)
  then have "length q < length s" "length q' < length q" using 2(1) skip_shorter by blast+
  then show ?case using 2(2) [OF v(1) _ v(2)] 2(3) v by (fastforce simp: parseItems.simps [of s] split: if_splits)
next
  case (3 s)
  then obtain t k q r1 v r2 f r3 where m: "skipSpace s = 0x22 # t" "readString t = Some (k, q)" "skipSpace q = 0x3A # r1" "length r1 < length s"
      "parseValue r1 = Some (v, r2)" "skipSpace r2 = f # r3"
    by (auto simp: parseMembers.simps [of s] split: option.splits list.splits if_splits)
  have "length r2 < length r1" using 3(1) m by (auto simp: parseMembers.simps [of s] split: if_splits)
  then have "length r3 < length s" using skip_shorter [OF m(6)] m(4) by simp
  then show ?case using 3 m by (fastforce simp: parseMembers.simps [of s] split: if_splits)
qed

section \<open>What is written is read back\<close>

lemma hexUnit_unit: "n < 16 \<Longrightarrow> hexUnit (digit_unit n) = Some n"
  by (auto simp: hexUnit_def digit_unit_def digit_def)

lemma readString_hex4: "n < 65536 \<Longrightarrow> readString (0x5C # 0x75 # hex4 n @ r) = map_option (\<lambda>(u, v). (n # u, v)) (readString r)"
  using hex4_value [of n] by (simp add: hex4_def hexUnit_unit)

lemma readString_escaped: "readString (escaped c @ r) = map_option (\<lambda>(u, v). (c # u, v)) (readString r)"
proof (cases "map_of shortEscapes c")
  case None
  show ?thesis
  proof (cases "c < 0x20 \<or> surrogate c")
    case True
    then have "c < 65536" by (auto simp: surrogate_def high_surrogate_def low_surrogate_def)
    from readString_hex4 [OF this, of r] show ?thesis using None True by (simp add: escaped_def del: readString.simps)
  next
    case False
    from None have "c \<noteq> 0x22" "c \<noteq> 0x5C" by (auto simp: shortEscapes_def split: if_splits)
    with None False show ?thesis by (simp add: escaped_def)
  qed
next
  case (Some e)
  then show ?thesis by (auto simp: escaped_def shortEscapes_def split: if_splits)
qed

lemma readString_quoted: "readString (quoteUnits s @ 0x22 # r) = Some (s, r)"
proof (induction s rule: quoteUnits.induct)
  case (2 c)
  then show ?case by (simp only: quoteUnits.simps readString_escaped) simp
next
  case (3 c d s)
  show ?case
  proof (cases "high_surrogate c \<and> low_surrogate d")
    case True
    then have "c \<noteq> 0x22" "c \<noteq> 0x5C" "d \<noteq> 0x22" "d \<noteq> 0x5C" "c \<ge> 0x20" "d \<ge> 0x20" by (auto simp: high_surrogate_def low_surrogate_def)
    then show ?thesis using 3(1) [OF True] True by simp
  next
    case False
    then show ?thesis using 3(2) [OF False] by (simp only: quoteUnits.simps if_False append_assoc readString_escaped) simp
  qed
qed simp

text \<open>What may follow a value in a text: nothing, or a unit that no number goes on with.\<close>

definition endsNumber :: "jstr \<Rightarrow> bool" where
  "endsNumber r \<longleftrightarrow> (case r of c # _ \<Rightarrow> \<not> digit c \<and> c \<noteq> 0x2E \<and> c \<noteq> 0x65 \<and> c \<noteq> 0x45 | [] \<Rightarrow> True)"

lemma ends_dropWhile: "endsNumber r \<Longrightarrow> takeWhile digit r = [] \<and> dropWhile digit r = r"
  by (cases r) (auto simp: endsNumber_def)

lemma read_rest: "endsNumber r \<Longrightarrow> readFraction r = Some ([], r) \<and> readExponent r = Some (0, r)"
  by (cases r) (auto simp: endsNumber_def readFraction_def readExponent_def)

lemma nat_str_only_digits: "list_all digit (nat_str n)"
  by (auto simp: list_all_iff intro: digit_nat_str)

lemma nat_str_hd: "nat_str n = c # w \<Longrightarrow> c = 0x30 \<longleftrightarrow> n = 0"
proof (induction n arbitrary: c w rule: nat_str_induct)
  case (small n)
  then show ?case by (auto simp: nat_str_rec)
next
  case (step n)
  then obtain d v where dv: "nat_str (n div 10) = d # v" by (cases "nat_str (n div 10)") auto
  have "nat_str n = nat_str (n div 10) @ [0x30 + n mod 10]" using step.hyps by (subst nat_str_rec) simp
  then have "c = d" using dv step.prems by simp
  then show ?case using step.IH [OF dv] step.hyps by simp
qed

lemma takeWhile_digits_append: "\<lbrakk>list_all digit ds; endsNumber r\<rbrakk> \<Longrightarrow> takeWhile digit (ds @ r) = ds"
  using ends_dropWhile [of r] by (induction ds) auto

lemma intPart_nat:
  assumes "endsNumber r"
  shows "intPart (nat_str n @ r) = nat_str n"
proof (cases "nat_str n")
  case Nil
  then show ?thesis by simp
next
  case (Cons c w)
  show ?thesis
  proof (cases "n = 0")
    case True
    then show ?thesis by (simp add: nat_str_rec intPart_def)
  next
    case False
    then have "c \<noteq> 0x30" using nat_str_hd [OF Cons] by simp
    then show ?thesis using takeWhile_digits_append [OF nat_str_only_digits assms, of n] Cons by (simp add: intPart_def)
  qed
qed

lemma nat_str_unsigned: "\<not> (case nat_str n @ r of c # _ \<Rightarrow> c = 0x2D | [] \<Rightarrow> False)"
  using nat_str_only_digits [of n] by (cases "nat_str n") (auto simp: digit_def)

lemma read_int:
  assumes "\<bar>i\<bar> \<le> 2 ^ 53" "endsNumber r"
  shows "readNumber (int_str i @ r) = Some (JNum (of_int i), r)"
proof -
  have "exactInt (of_int i)" using assms(1) unfolding exactInt_def by (metis floor_of_int of_int_abs of_int_le_iff of_int_numeral of_int_power)
  then have d: "doubleOf (of_int i) = Some (of_int i)" by (simp add: doubleOf_def)
  show ?thesis
  proof (cases "i < 0")
    case True
    then have "- rat_of_nat (nat (- i)) = of_int i" by (simp add: of_nat_nat)
    then show ?thesis
      using True d intPart_nat [OF assms(2)] read_rest [OF assms(2)] by (simp add: readNumber_def int_str_def Let_def pow10_def)
  next
    case False
    then have "rat_of_nat (nat i) = of_int i" by (simp add: of_nat_nat)
    then show ?thesis
      using False d intPart_nat [OF assms(2)] read_rest [OF assms(2)] nat_str_unsigned [of "nat i" r]
      by (simp add: readNumber_def int_str_def Let_def pow10_def)
  qed
qed

section \<open>Round trip\<close>

text \<open>Values that JavaScript can hold: objects in their order, numbers that are integers doubles hold exactly.\<close>

fun plainJson :: "json \<Rightarrow> bool"
  and plainItems :: "json list \<Rightarrow> bool"
  and plainMembers :: "(jstr \<times> json) list \<Rightarrow> bool" where
  "plainJson JNull = True"
| "plainJson (JBool b) = True"
| "plainJson (JNum x) = exactInt x"
| "plainJson (JStr s) = True"
| "plainJson (JArr xs) = plainItems xs"
| "plainJson (JObj ms) = (jsObject ms = ms \<and> plainMembers ms)"
| "plainItems [] = True"
| "plainItems (x # xs) = (plainJson x \<and> plainItems xs)"
| "plainMembers [] = True"
| "plainMembers ((k, v) # ms) = (plainJson v \<and> plainMembers ms)"

text \<open>How the text of a value begins, and that white space before it is skipped.\<close>

definition startsValue :: "nat \<Rightarrow> bool" where
  "startsValue c \<longleftrightarrow> \<not> jsonSpace c \<and> c \<noteq> 0x5D \<and> c \<noteq> 0x7D \<and> c \<noteq> 0x2C"

lemma int_str_start: "\<exists>c w. int_str i = c # w \<and> (digit c \<or> c = 0x2D)"
  using nat_str_only_digits [of "nat i"] by (cases "nat_str (nat i)") (auto simp: int_str_def)

lemma text_start: "plainJson j \<Longrightarrow> \<exists>c w. jsonWrite gap ind j = c # w \<and> startsValue c"
proof (cases j)
  case (JNum x)
  assume "plainJson j"
  then show ?thesis using int_str_start [of "\<lfloor>x\<rfloor>"] JNum
    by (auto simp: showNumber_def startsValue_def jsonSpace_def digit_def)
qed (auto simp: startsValue_def jsonSpace_def quoted_def js_Cons)

lemma skip_newline [simp]: "skipSpace (newline gap ind @ s) = skipSpace s"
proof -
  have "dropWhile jsonSpace (replicate n 0x20 @ s) = dropWhile jsonSpace s" for n
    by (induction n) (simp_all add: jsonSpace_def)
  then show ?thesis by (simp add: skipSpace_def newline_def jsonSpace_def)
qed

lemma skip_none [simp]: "\<not> jsonSpace c \<Longrightarrow> skipSpace (c # s) = c # s"
  by (simp add: skipSpace_def)

lemma skip_space [simp]: "skipSpace (0x20 # s) = skipSpace s"
  by (simp add: skipSpace_def jsonSpace_def)

lemma skip_text: "plainJson j \<Longrightarrow> skipSpace (jsonWrite gap ind j @ r) = jsonWrite gap ind j @ r"
  using text_start [of j gap ind] by (auto simp: startsValue_def)

lemma parseValue_cons:
  "skipSpace s = c # t \<Longrightarrow> parseValue s =
     (if c = 0x22 then map_option (\<lambda>(u, r). (JStr u, r)) (readString t)
      else if c = 0x5B then
        (if take 1 (skipSpace t) = [0x5D] then Some (JArr [], tl (skipSpace t)) else map_option (\<lambda>(xs, r). (JArr xs, r)) (parseItems t))
      else if c = 0x7B then
        (if take 1 (skipSpace t) = [0x7D] then Some (JObj [], tl (skipSpace t))
         else map_option (\<lambda>(ms, r). (JObj (jsObject ms), r)) (parseMembers t))
      else readLiteral (c # t))"
  using skip_shorter [of s c t] by (simp add: parseValue.simps [of s])

lemma parseItems_step:
  assumes "parseValue s = Some (v, r)" "skipSpace r = c # r'" "length r' < length s"
  shows "parseItems s = (if c = 0x2C then map_option (\<lambda>(vs, q). (v # vs, q)) (parseItems r') else if c = 0x5D then Some ([v], r') else None)"
  using assms by (simp add: parseItems.simps [of s])

lemma parseMembers_step:
  assumes "skipSpace s = 0x22 # t" "readString t = Some (k, r)" "skipSpace r = 0x3A # r1" "length r1 < length s"
    "parseValue r1 = Some (v, r2)" "skipSpace r2 = c # r3" "length r3 < length s"
  shows "parseMembers s = (if c = 0x2C then map_option (\<lambda>(ms, q). ((k, v) # ms, q)) (parseMembers r3)
     else if c = 0x7D then Some ([(k, v)], r3) else None)"
  using assms by (simp add: parseMembers.simps [of s])

lemma ends_newline: "c \<in> {0x2C, 0x5D, 0x7D} \<Longrightarrow> endsNumber (newline gap ind @ c # r)"
  by (cases ind) (auto simp: endsNumber_def newline_def digit_def)

lemma ends_close: "c \<in> {0x2C, 0x5D, 0x7D} \<Longrightarrow> endsNumber (c # r)"
  by (auto simp: endsNumber_def digit_def)

text \<open>A value that starts neither a string, nor an array, nor an object.\<close>

lemma parse_scalar:
  assumes "skipSpace s = jsonWrite gap ind j @ r" "jsonWrite gap ind j = c # w" "c \<noteq> 0x22" "c \<noteq> 0x5B" "c \<noteq> 0x7B"
  shows "parseValue s = readLiteral (jsonWrite gap ind j @ r)"
  using assms parseValue_cons [of s c "w @ r"] by simp

lemma read_number_literal: "\<lbrakk>\<bar>i\<bar> \<le> 2 ^ 53; endsNumber r\<rbrakk> \<Longrightarrow> readLiteral (int_str i @ r) = Some (JNum (of_int i), r)"
proof -
  assume a: "\<bar>i\<bar> \<le> 2 ^ 53" "endsNumber r"
  obtain c w where c: "int_str i = c # w" "digit c \<or> c = 0x2D" using int_str_start by blast
  then have "\<not> startsWith (int_str i @ r) (js ''null'')" "\<not> startsWith (int_str i @ r) (js ''true'')" "\<not> startsWith (int_str i @ r) (js ''false'')"
    by (auto simp: js_Cons digit_def)
  then show ?thesis using read_int [OF a] by (simp add: readLiteral_def)
qed

lemma items_start:
  "\<lbrakk>plainItems xs; xs \<noteq> []\<rbrakk> \<Longrightarrow> skipSpace (jsonItems gap ind xs @ q) = jsonItems gap ind xs @ q \<and> take 1 (jsonItems gap ind xs @ q) \<noteq> [0x5D]"
  using text_start [of "hd xs" gap ind] by (cases xs) (auto simp: startsValue_def)

lemma members_start:
  "ms \<noteq> [] \<Longrightarrow> skipSpace (jsonMembers gap ind ms @ q) = jsonMembers gap ind ms @ q \<and> take 1 (jsonMembers gap ind ms @ q) \<noteq> [0x7D]"
  by (cases ms) (auto simp: quoted_def jsonSpace_def)

lemma skip_gap: "skipSpace ((if gap = (0 :: nat) then [] else [0x20]) @ s) = skipSpace s"
  by simp

lemma parse_text:
  "\<lbrakk>plainJson j; endsNumber r; skipSpace s = jsonWrite gap ind j @ r\<rbrakk> \<Longrightarrow> parseValue s = Some (j, r)"
  "\<lbrakk>plainItems xs; xs \<noteq> []; skipSpace s = jsonItems gap ind xs @ newline gap i @ 0x5D # r\<rbrakk> \<Longrightarrow> parseItems s = Some (xs, r)"
  "\<lbrakk>plainMembers ms; ms \<noteq> []; skipSpace s = jsonMembers gap ind ms @ newline gap i @ 0x7D # r\<rbrakk> \<Longrightarrow> parseMembers s = Some (ms, r)"
proof (induction gap ind j and gap ind xs and gap ind ms arbitrary: s r and s r i and s r i rule: jsonWrite_jsonItems_jsonMembers.induct)
  case (1 gap ind)
  then show ?case using parse_scalar [of s gap ind JNull r] by (simp add: js_Cons readLiteral_def)
next
  case (2 gap ind b)
  then show ?case using parse_scalar [of s gap ind "JBool b" r] by (cases b) (simp_all add: js_Cons readLiteral_def)
next
  case (3 gap ind x)
  then have x: "exactInt x" by simp
  then have i: "\<bar>\<lfloor>x\<rfloor>\<bar> \<le> 2 ^ 53" "of_int \<lfloor>x\<rfloor> = x"
    unfolding exactInt_def by (metis of_int_abs of_int_le_iff of_int_numeral of_int_power, simp)
  obtain c w where c: "int_str \<lfloor>x\<rfloor> = c # w" "digit c \<or> c = 0x2D" using int_str_start by blast
  have t: "jsonWrite gap ind (JNum x) = int_str \<lfloor>x\<rfloor>" using x by (simp add: showNumber_def)
  have "parseValue s = readLiteral (jsonWrite gap ind (JNum x) @ r)"
    using 3(3) c t by (intro parse_scalar) (auto simp: digit_def)
  then show ?case using read_number_literal [OF i(1) 3(2)] i(2) t by simp
next
  case (4 gap ind u)
  then show ?case using parseValue_cons [of s "0x22" "quoteUnits u @ 0x22 # r"] readString_quoted [of u r] by (simp add: quoted_def)
next
  case (5 gap ind xs)
  let ?t = "newline gap (ind + gap) @ jsonItems gap (ind + gap) xs @ newline gap ind @ 0x5D # r"
  show ?case
  proof (cases "xs = []")
    case True
    then show ?thesis using 5 parseValue_cons [of s "0x5B" "0x5D # r"] by (simp add: jsonSpace_def)
  next
    case False
    then have "parseItems ?t = Some (xs, r)" using 5 items_start [of xs gap "ind + gap"] by simp
    moreover have "take 1 (skipSpace ?t) \<noteq> [0x5D]"
      using 5 False items_start [of xs gap "ind + gap" "newline gap ind @ 0x5D # r"] by (simp del: take_append)
    ultimately show ?thesis using 5(4) False parseValue_cons [of s "0x5B" ?t] by simp
  qed
next
  case (6 gap ind ms)
  let ?t = "newline gap (ind + gap) @ jsonMembers gap (ind + gap) ms @ newline gap ind @ 0x7D # r"
  show ?case
  proof (cases "ms = []")
    case True
    then show ?thesis using 6 parseValue_cons [of s "0x7B" "0x7D # r"] by (simp add: jsonSpace_def)
  next
    case False
    then have "parseMembers ?t = Some (ms, r)" using 6 members_start [of ms gap "ind + gap"] by simp
    moreover have "take 1 (skipSpace ?t) \<noteq> [0x7D]"
      using False members_start [of ms gap "ind + gap" "newline gap ind @ 0x7D # r"] by (simp del: take_append)
    ultimately show ?thesis using 6(2,4) False parseValue_cons [of s "0x7B" ?t] by simp
  qed
next
  case (7 gap ind)
  then show ?case by simp
next
  case (8 gap ind x xs)
  have l: "length (skipSpace s) \<le> length s" by (rule skip_le)
  show ?case
  proof (cases "xs = []")
    case True
    then have "parseValue s = Some (x, newline gap i @ 0x5D # r)" using 8 by (simp add: ends_newline)
    moreover have "length r < length s" using l 8(5) True by simp
    ultimately show ?thesis using parseItems_step [of s x "newline gap i @ 0x5D # r" "0x5D" r] True by (simp add: jsonSpace_def)
  next
    case False
    let ?q = "newline gap ind @ jsonItems gap ind xs @ newline gap i @ 0x5D # r"
    have "parseValue s = Some (x, 0x2C # ?q)" using 8 False by (simp add: ends_close)
    moreover have "length ?q < length s" using l 8(5) False by simp
    moreover have "parseItems ?q = Some (xs, r)" using 8 False items_start [of xs gap ind] by simp
    ultimately show ?thesis using parseItems_step [of s x "0x2C # ?q" "0x2C" ?q] by (simp add: jsonSpace_def)
  qed
next
  case (9 gap ind)
  then show ?case by simp
next
  case (10 gap ind k v ms)
  have l: "length (skipSpace s) \<le> length s" by (rule skip_le)
  let ?tail = "if ms = [] then newline gap i @ 0x7D # r else 0x2C # newline gap ind @ jsonMembers gap ind ms @ newline gap i @ 0x7D # r"
  let ?r1 = "(if gap = 0 then [] else [0x20]) @ jsonWrite gap ind v @ ?tail"
  have s: "skipSpace s = 0x22 # quoteUnits k @ 0x22 # 0x3A # ?r1" using 10(5) by (simp add: quoted_def)
  have "endsNumber ?tail" by (simp add: ends_newline ends_close)
  moreover have "skipSpace ?r1 = jsonWrite gap ind v @ ?tail"
    using 10(3) by (simp only: skip_gap skip_text plainMembers.simps)
  ultimately have v: "parseValue ?r1 = Some (v, ?tail)" using 10(1,3) by simp
  note step = parseMembers_step [OF s readString_quoted skip_none [of "0x3A" ?r1] _ v]
  show ?case
  proof (cases "ms = []")
    case True
    then show ?thesis using l s step [of "0x7D" r] by (simp add: jsonSpace_def)
  next
    case False
    let ?q = "newline gap ind @ jsonMembers gap ind ms @ newline gap i @ 0x7D # r"
    have "parseMembers ?q = Some (ms, r)" using 10 False members_start [of ms gap ind] by simp
    then show ?thesis using l s step [of "0x2C" ?q] False by (simp add: jsonSpace_def)
  qed
qed

lemma parse_jsonWrite: "plainJson j \<Longrightarrow> parseJson (jsonWrite gap 0 j) = Some j"
  using parse_text(1) [of j "[]" "jsonWrite gap 0 j" gap 0] skip_text [of j gap 0 "[]"]
  by (simp add: parseJson_def endsNumber_def skipSpace_def)

text \<open>
  What \<open>JSON.stringify\<close> writes, with any indentation, is read back by \<open>JSON.parse\<close> as the same value.
\<close>

theorem json_roundtrip: "plainJson j \<Longrightarrow> parseJson (jsonWrite gap 0 j) = Some j"
  by (rule parse_jsonWrite)

theorem json_roundtrip_witness:
  "parseJson (jsonWrite 2 0 (JObj [((js ''a''), JArr [JNum 1, JNull, JStr (js ''x'')])])) = Some (JObj [((js ''a''), JArr [JNum 1, JNull, JStr (js ''x'')])])"
  by (rule json_roundtrip) (simp add: jsObject_def arrayIndex_def exactInt_def js_Cons digit_def)

end
