(* ===== verification/CommandProfiles.thy ===== *)
theory CommandProfiles
  imports JsonText
begin

text \<open>
  The command profiles of the operator frontend: the form and its schema (\<open>features/admin/commandProfileForm.ts\<close>) and the
  page that creates and edits them (\<open>ProfilesAdminPage\<close> of \<open>features/admin/AdminPages.tsx\<close>). The structured members of a profile are
  edited as indented JSON text; editing and saving a profile without a change sends what it held.
\<close>

section \<open>Profiles and their form\<close>

type_synonym jsonMap = "(jstr \<times> json) list"

record OperatorCommandProfile =
  cpID :: jstr
  cpName :: jstr
  cpDescription :: "jstr option"
  cpLoginPromptPatterns :: jsonMap
  cpCommandTemplates :: jsonMap
  cpPromptPatterns :: jsonMap
  cpPaginationRules :: jsonMap
  cpSuccessPatterns :: "jstr list"
  cpErrorPatterns :: "jstr list"
  cpParserRules :: jsonMap
  cpActive :: bool

record CommandProfileFormValues =
  cfName :: jstr
  cfDescription :: jstr
  cfLoginPromptPatterns :: jstr
  cfCommandTemplates :: jstr
  cfPromptPatterns :: jstr
  cfPaginationRules :: jstr
  cfSuccessPatterns :: jstr
  cfErrorPatterns :: jstr
  cfParserRules :: jstr
  cfActive :: bool

text \<open>\<open>pretty\<close> of \<open>lib/utils.ts\<close>, for a value that is there; none is written as an empty object.\<close>

definition pretty :: "json option \<Rightarrow> jstr" where
  "pretty v = jsonWrite 2 0 (case v of Some JNull \<Rightarrow> JObj [] | Some j \<Rightarrow> j | None \<Rightarrow> JObj [])"

definition prettyMap :: "jsonMap \<Rightarrow> jstr" where
  "prettyMap ms = pretty (Some (JObj ms))"

definition prettyStrings :: "jstr list \<Rightarrow> jstr" where
  "prettyStrings xs = pretty (Some (JArr (map JStr xs)))"

definition commandProfileToForm :: "OperatorCommandProfile \<Rightarrow> CommandProfileFormValues" where
  "commandProfileToForm p =
     \<lparr>cfName = cpName p, cfDescription = nullish (cpDescription p) [],
      cfLoginPromptPatterns = prettyMap (cpLoginPromptPatterns p), cfCommandTemplates = prettyMap (cpCommandTemplates p),
      cfPromptPatterns = prettyMap (cpPromptPatterns p), cfPaginationRules = prettyMap (cpPaginationRules p),
      cfSuccessPatterns = prettyStrings (cpSuccessPatterns p), cfErrorPatterns = prettyStrings (cpErrorPatterns p),
      cfParserRules = prettyMap (cpParserRules p), cfActive = cpActive p\<rparr>"

definition defaultCommandProfileForm :: CommandProfileFormValues where
  "defaultCommandProfileForm =
     \<lparr>cfName = [], cfDescription = [],
      cfLoginPromptPatterns = prettyMap [((js ''username_pattern''), JStr (js ''Username:'')), ((js ''password_pattern''), JStr (js ''Password:''))],
      cfCommandTemplates = prettyMap [((js ''single_arp_query''), JStr (js ''display arp $ip'')), ((js ''config''), JStr (js ''system-view'')),
        ((js ''arp_release''), JStr (js ''undo arp static $ip'')), ((js ''exit_config''), JStr (js ''return''))],
      cfPromptPatterns = prettyMap [((js ''connection_options''), JObj [((js ''device_type''), JStr (js ''hp_comware_telnet''))]),
        ((js ''query_expect_string''), JStr (js ''[>#]'')), ((js ''release_expect_string''), JStr (js ''[>#]''))],
      cfPaginationRules = prettyMap [((js ''disable_paging_command''), JStr (js ''screen-length disable''))],
      cfSuccessPatterns = prettyStrings [],
      cfErrorPatterns = prettyStrings [(js ''Error''), (js ''Invalid'')],
      cfParserRules = prettyMap [((js ''arp_entry_regex''), JStr (js ''(?P<ip>'' @ [0x5C] @ js ''S+)'' @ [0x5C] @ js ''s+(?P<mac>[0-9a-f-]+).*(?P<type>S|D)'')),
        ((js ''static_type_values''), JArr [JStr (js ''S'')]), ((js ''dynamic_type_values''), JArr [JStr (js ''D'')]),
        ((js ''missing_patterns''), JArr [JStr (js ''not found''), JStr (js ''No matching'')])],
      cfActive = True\<rparr>"

section \<open>The schema\<close>

text \<open>An issue, with the key of the label that its message names.\<close>

datatype profileIssue = ProfileNameRequired | NotJsonObject jstr | NotStringArray jstr

definition textOr :: "jstr \<Rightarrow> jstr \<Rightarrow> jstr" where
  "textOr v d = (let s = trim v in if s = [] then d else s)"

definition jsonObject :: "jstr \<Rightarrow> jstr \<Rightarrow> profileIssue list \<times> jsonMap" where
  "jsonObject v label =
     (case parseJson (textOr v (js ''{}'')) of
        Some (JObj ms) \<Rightarrow> ([], ms)
      | _ \<Rightarrow> ([NotJsonObject label], []))"

fun stringItems :: "json list \<Rightarrow> jstr list option" where
  "stringItems [] = Some []"
| "stringItems (JStr s # xs) = map_option (\<lambda>ys. s # ys) (stringItems xs)"
| "stringItems (_ # xs) = None"

definition jsonStringArray :: "jstr \<Rightarrow> jstr \<Rightarrow> profileIssue list \<times> jstr list" where
  "jsonStringArray v label =
     (case parseJson (textOr v (js ''[]'')) of
        Some (JArr xs) \<Rightarrow> (case stringItems xs of Some ys \<Rightarrow> ([], ys) | None \<Rightarrow> ([NotStringArray label], []))
      | _ \<Rightarrow> ([NotStringArray label], []))"

record CommandProfilePayload =
  ppName :: jstr
  ppDescription :: "jstr option"
  ppLoginPromptPatterns :: jsonMap
  ppCommandTemplates :: jsonMap
  ppPromptPatterns :: jsonMap
  ppPaginationRules :: jsonMap
  ppSuccessPatterns :: "jstr list"
  ppErrorPatterns :: "jstr list"
  ppParserRules :: jsonMap
  ppActive :: bool

text \<open>The object's own issue comes first and alone: the members are read only when the name is given.\<close>

definition commandProfileSchema :: "CommandProfileFormValues \<Rightarrow> profileIssue list + CommandProfilePayload" where
  "commandProfileSchema f =
     (if cfName f = [] then Inl [ProfileNameRequired]
      else (let lp = jsonObject (cfLoginPromptPatterns f) (js ''admin.profiles.loginPromptPatterns'');
                ct = jsonObject (cfCommandTemplates f) (js ''admin.profiles.commandTemplates'');
                pp = jsonObject (cfPromptPatterns f) (js ''admin.profiles.promptPatterns'');
                pr = jsonObject (cfPaginationRules f) (js ''admin.profiles.paginationRules'');
                sp = jsonStringArray (cfSuccessPatterns f) (js ''admin.profiles.successPatterns'');
                ep = jsonStringArray (cfErrorPatterns f) (js ''admin.profiles.errorPatterns'');
                rr = jsonObject (cfParserRules f) (js ''admin.profiles.parserRules'');
                issues = fst lp @ fst ct @ fst pp @ fst pr @ fst sp @ fst ep @ fst rr
            in if issues \<noteq> [] then Inl issues
               else Inr \<lparr>ppName = cfName f, ppDescription = (if cfDescription f = [] then None else Some (cfDescription f)),
                 ppLoginPromptPatterns = snd lp, ppCommandTemplates = snd ct, ppPromptPatterns = snd pp, ppPaginationRules = snd pr,
                 ppSuccessPatterns = snd sp, ppErrorPatterns = snd ep, ppParserRules = snd rr, ppActive = cfActive f\<rparr>))"

definition profilePayload :: "CommandProfilePayload \<Rightarrow> json" where
  "profilePayload p = JObj
     [((js ''name''), JStr (ppName p)), ((js ''description''), case ppDescription p of Some d \<Rightarrow> JStr d | None \<Rightarrow> JNull),
      ((js ''login_prompt_patterns''), JObj (ppLoginPromptPatterns p)), ((js ''command_templates''), JObj (ppCommandTemplates p)),
      ((js ''prompt_patterns''), JObj (ppPromptPatterns p)), ((js ''pagination_rules''), JObj (ppPaginationRules p)),
      ((js ''success_patterns''), JArr (map JStr (ppSuccessPatterns p))), ((js ''error_patterns''), JArr (map JStr (ppErrorPatterns p))),
      ((js ''parser_rules''), JObj (ppParserRules p)), ((js ''is_active''), JBool (ppActive p))]"

section \<open>The page\<close>

record ProfilesPage =
  editingId :: "jstr option"
  profileForm :: CommandProfileFormValues
  profileError :: "profileIssue option"
  savingProfile :: bool

definition newProfilesPage :: ProfilesPage where
  "newProfilesPage = \<lparr>editingId = None, profileForm = defaultCommandProfileForm, profileError = None, savingProfile = False\<rparr>"

definition startEdit :: "OperatorCommandProfile \<Rightarrow> ProfilesPage \<Rightarrow> ProfilesPage" where
  "startEdit p s = s\<lparr>profileForm := commandProfileToForm p, editingId := Some (cpID p), profileError := None\<rparr>"

definition resetForm :: "ProfilesPage \<Rightarrow> ProfilesPage" where
  "resetForm s = s\<lparr>profileForm := defaultCommandProfileForm, editingId := None, profileError := None\<rparr>"

datatype saveMethod = PostNew | PatchOld

text \<open>Saving: the first issue is shown, or the payload is sent.\<close>

definition saveProfile :: "ProfilesPage \<Rightarrow> ProfilesPage \<times> (saveMethod \<times> jstr \<times> jstr) option" where
  "saveProfile s =
     (if savingProfile s then (s, None)
      else (case commandProfileSchema (profileForm s) of
          Inl issues \<Rightarrow> (s\<lparr>profileError := Some (hd issues)\<rparr>, None)
        | Inr p \<Rightarrow> (s\<lparr>savingProfile := True\<rparr>,
            Some (if truthy (editingId s) then (PatchOld, (js ''/admin/command-profiles/'') @ the (editingId s), stringify (profilePayload p))
              else (PostNew, (js ''/admin/command-profiles''), stringify (profilePayload p))))))"

definition profileSaved :: "ProfilesPage \<Rightarrow> ProfilesPage" where
  "profileSaved s = (resetForm s)\<lparr>savingProfile := False\<rparr>"

section \<open>Properties\<close>

lemma text_edges:
  "\<exists>w. jsonWrite gap ind (JObj ms) = 0x7B # w @ [0x7D]" "\<exists>w. jsonWrite gap ind (JArr xs) = 0x5B # w @ [0x5D]"
  by auto

lemma textOr_text:
  "textOr (jsonWrite gap ind (JObj ms)) d = jsonWrite gap ind (JObj ms)" "textOr (jsonWrite gap ind (JArr xs)) d = jsonWrite gap ind (JArr xs)"
proof -
  have "textOr (a # w @ [b]) d = a # w @ [b]" if "\<not> ws_char a" "\<not> ws_char b" for a b w
  proof -
    have "trimmed (a # w @ [b])" using that by (simp add: trimmed_def)
    then show ?thesis by (simp add: textOr_def trim_id)
  qed
  moreover have "\<not> ws_char 0x7B" "\<not> ws_char 0x7D" "\<not> ws_char 0x5B" "\<not> ws_char 0x5D" by (simp_all add: ws_char_def)
  ultimately show "textOr (jsonWrite gap ind (JObj ms)) d = jsonWrite gap ind (JObj ms)" "textOr (jsonWrite gap ind (JArr xs)) d = jsonWrite gap ind (JArr xs)"
    using text_edges(1) [of gap ind ms] text_edges(2) [of gap ind xs] by metis+
qed

lemma stringItems_map [simp]: "stringItems (map JStr xs) = Some xs"
  by (induction xs) simp_all

lemma plainItems_strings [simp]: "plainItems (map JStr xs)"
  by (induction xs) simp_all

lemma jsonObject_pretty [simp]: "plainJson (JObj ms) \<Longrightarrow> jsonObject (prettyMap ms) label = ([], ms)"
  by (simp add: jsonObject_def prettyMap_def pretty_def textOr_text parse_jsonWrite del: jsonWrite.simps)

lemma jsonStringArray_pretty [simp]: "jsonStringArray (prettyStrings xs) label = ([], xs)"
  by (simp add: jsonStringArray_def prettyStrings_def pretty_def textOr_text parse_jsonWrite del: jsonWrite.simps)

definition plainProfile :: "OperatorCommandProfile \<Rightarrow> bool" where
  "plainProfile p \<longleftrightarrow> plainJson (JObj (cpLoginPromptPatterns p)) \<and> plainJson (JObj (cpCommandTemplates p))
     \<and> plainJson (JObj (cpPromptPatterns p)) \<and> plainJson (JObj (cpPaginationRules p)) \<and> plainJson (JObj (cpParserRules p))"

text \<open>What a profile holds, as a payload; an empty description counts as none.\<close>

definition heldPayload :: "OperatorCommandProfile \<Rightarrow> CommandProfilePayload" where
  "heldPayload p = \<lparr>ppName = cpName p, ppDescription = (if cpDescription p = Some [] then None else cpDescription p),
     ppLoginPromptPatterns = cpLoginPromptPatterns p, ppCommandTemplates = cpCommandTemplates p, ppPromptPatterns = cpPromptPatterns p,
     ppPaginationRules = cpPaginationRules p, ppSuccessPatterns = cpSuccessPatterns p, ppErrorPatterns = cpErrorPatterns p,
     ppParserRules = cpParserRules p, ppActive = cpActive p\<rparr>"

lemma schema_of_profile:
  "\<lbrakk>plainProfile p; cpName p \<noteq> []\<rbrakk> \<Longrightarrow> commandProfileSchema (commandProfileToForm p) = Inr (heldPayload p)"
  by (cases "cpDescription p") (simp_all add: commandProfileSchema_def commandProfileToForm_def heldPayload_def plainProfile_def Let_def del: plainJson.simps)

text \<open>
  C15. Editing a profile and saving it without a change sends what it held: the indented JSON texts of the form are read back as
  the same values, and they go to the profile that was chosen.
\<close>

theorem untouched_profile_keeps:
  assumes "plainProfile p" "cpName p \<noteq> []" "cpID p \<noteq> []" "\<not> savingProfile s"
  shows "snd (saveProfile (startEdit p s)) =
    Some (PatchOld, (js ''/admin/command-profiles/'') @ cpID p, stringify (profilePayload (heldPayload p)))"
  using assms by (cases "cpID p") (simp_all add: saveProfile_def startEdit_def schema_of_profile)

definition sampleProfile :: OperatorCommandProfile where
  "sampleProfile = \<lparr>cpID = (js ''p1''), cpName = (js ''comware''), cpDescription = None, cpLoginPromptPatterns = [((js ''username_pattern''), JStr (js ''login:''))],
     cpCommandTemplates = [], cpPromptPatterns = [], cpPaginationRules = [((js ''lines''), JNum 24)], cpSuccessPatterns = [], cpErrorPatterns = [(js ''Error'')],
     cpParserRules = [], cpActive = True\<rparr>"

theorem untouched_profile_keeps_witness:
  "snd (saveProfile (startEdit sampleProfile newProfilesPage)) =
    Some (PatchOld, (js ''/admin/command-profiles/p1''), stringify (profilePayload (heldPayload sampleProfile)))"
proof -
  have "plainProfile sampleProfile"
    by (simp add: plainProfile_def sampleProfile_def jsObject_def arrayIndex_def exactInt_def js_Cons digit_def)
  from untouched_profile_keeps [OF this, of newProfilesPage] show ?thesis
    by (simp add: newProfilesPage_def) (simp add: sampleProfile_def js_append [symmetric])
qed

text \<open>
  The form that is shown first can be saved once it has a name: all its texts are valid.
\<close>

theorem default_profile_valid:
  "nm \<noteq> [] \<Longrightarrow> \<exists>p. commandProfileSchema (defaultCommandProfileForm\<lparr>cfName := nm\<rparr>) = Inr p \<and> ppName p = nm \<and> ppErrorPatterns p = [(js ''Error''), (js ''Invalid'')]"
  by (simp add: commandProfileSchema_def defaultCommandProfileForm_def Let_def jsObject_def arrayIndex_def js_Cons digit_def)

theorem default_profile_valid_witness:
  "\<exists>p. commandProfileSchema (defaultCommandProfileForm\<lparr>cfName := (js ''x'')\<rparr>) = Inr p \<and> ppName p = (js ''x'') \<and> ppErrorPatterns p = [(js ''Error''), (js ''Invalid'')]"
  by (rule default_profile_valid) simp

end
