(* ===== verification/OperatorSession.thy ===== *)
theory OperatorSession
  imports JsonText
begin

text \<open>
  Signing in and out of the operator frontend: the stores of the token and the preferences (\<open>src/frontend/src/stores\<close>), the requests
  (\<open>api/client.ts\<close>), the guards and operatorRoutes (\<open>operatorRoutes\<close>), the menu (\<open>features/layout/AppShell.tsx\<close>) and what is left in the query
  cache after a session (\<open>api/hooks.ts\<close>).
\<close>

section \<open>The browser's storage\<close>

text \<open>Storage that throws, or is not there, is none.\<close>

type_synonym storage = "(jstr \<rightharpoonup> jstr) option"

definition AUTH_STORAGE_KEY :: jstr where
  "AUTH_STORAGE_KEY = (js ''bind-plane-auth-token'')"

definition OPERATOR_THEME_KEY :: jstr where
  "OPERATOR_THEME_KEY = (js ''bind-plane-theme-mode'')"

definition OPERATOR_LOCALE_KEY :: jstr where
  "OPERATOR_LOCALE_KEY = (js ''bind-plane-locale'')"

definition readItem :: "jstr \<Rightarrow> storage \<Rightarrow> jstr option" where
  "readItem k st = (case st of Some m \<Rightarrow> m k | None \<Rightarrow> None)"

definition readStoredToken :: "storage \<Rightarrow> jstr option" where
  "readStoredToken st = readItem AUTH_STORAGE_KEY st"

definition writeStoredToken :: "jstr option \<Rightarrow> storage \<Rightarrow> storage" where
  "writeStoredToken tok st = map_option (\<lambda>m. m(AUTH_STORAGE_KEY := (if truthy tok then tok else None))) st"

datatype themeMode = LightMode | DarkMode | SystemMode

fun themeModeName :: "themeMode \<Rightarrow> jstr" where
  "themeModeName LightMode = (js ''light'')"
| "themeModeName DarkMode = (js ''dark'')"
| "themeModeName SystemMode = (js ''system'')"

datatype operatorLocale = Chinese | AmericanEnglish

fun operatorLocaleName :: "operatorLocale \<Rightarrow> jstr" where
  "operatorLocaleName Chinese = (js ''zh-CN'')"
| "operatorLocaleName AmericanEnglish = (js ''en-US'')"

definition defaultLocale :: operatorLocale where
  "defaultLocale = Chinese"

definition isThemeMode :: "jstr option \<Rightarrow> themeMode option" where
  "isThemeMode v = (if v = Some (js ''light'') then Some LightMode else if v = Some (js ''dark'') then Some DarkMode
     else if v = Some (js ''system'') then Some SystemMode else None)"

definition isLocale :: "jstr option \<Rightarrow> operatorLocale option" where
  "isLocale v = (if v = Some (js ''zh-CN'') then Some Chinese else if v = Some (js ''en-US'') then Some AmericanEnglish else None)"

definition readStoredThemeMode :: "storage \<Rightarrow> themeMode" where
  "readStoredThemeMode st = nullish (isThemeMode (readItem OPERATOR_THEME_KEY st)) SystemMode"

definition readStoredLocale :: "storage \<Rightarrow> operatorLocale" where
  "readStoredLocale st = nullish (isLocale (readItem OPERATOR_LOCALE_KEY st)) defaultLocale"

definition writeStoredThemeMode :: "themeMode \<Rightarrow> storage \<Rightarrow> storage" where
  "writeStoredThemeMode m st = map_option (\<lambda>s. s(OPERATOR_THEME_KEY \<mapsto> themeModeName m)) st"

definition writeStoredLocale :: "operatorLocale \<Rightarrow> storage \<Rightarrow> storage" where
  "writeStoredLocale l st = map_option (\<lambda>s. s(OPERATOR_LOCALE_KEY \<mapsto> operatorLocaleName l)) st"

record Stores =
  browserStorage :: storage
  tokenState :: "jstr option"
  themeState :: themeMode
  localeState :: operatorLocale

text \<open>Loading the page creates the stores from what is kept.\<close>

definition loadStores :: "storage \<Rightarrow> Stores" where
  "loadStores st = \<lparr>browserStorage = st, tokenState = readStoredToken st, themeState = readStoredThemeMode st, localeState = readStoredLocale st\<rparr>"

definition setToken :: "jstr \<Rightarrow> Stores \<Rightarrow> Stores" where
  "setToken tok s = s\<lparr>browserStorage := writeStoredToken (Some tok) (browserStorage s), tokenState := Some tok\<rparr>"

definition clearToken :: "Stores \<Rightarrow> Stores" where
  "clearToken s = s\<lparr>browserStorage := writeStoredToken None (browserStorage s), tokenState := None\<rparr>"

definition setThemeMode :: "themeMode \<Rightarrow> Stores \<Rightarrow> Stores" where
  "setThemeMode m s = s\<lparr>browserStorage := writeStoredThemeMode m (browserStorage s), themeState := m\<rparr>"

definition setLocale :: "operatorLocale \<Rightarrow> Stores \<Rightarrow> Stores" where
  "setLocale l s = s\<lparr>browserStorage := writeStoredLocale l (browserStorage s), localeState := l\<rparr>"

definition updateThemeMode :: "jstr \<Rightarrow> Stores \<Rightarrow> Stores" where
  "updateThemeMode v s = (case isThemeMode (Some v) of Some m \<Rightarrow> setThemeMode m s | None \<Rightarrow> s)"

definition updateLocale :: "jstr \<Rightarrow> Stores \<Rightarrow> Stores" where
  "updateLocale v s = (case isLocale (Some v) of Some l \<Rightarrow> setLocale l s | None \<Rightarrow> s)"

text \<open>Whether the document is dark.\<close>

definition applyThemeMode :: "themeMode \<Rightarrow> bool \<Rightarrow> bool" where
  "applyThemeMode m systemDark = (m = DarkMode \<or> m = SystemMode \<and> systemDark)"

datatype storeOp = SignIn jstr | SignOutStore | PickTheme jstr | PickLocale jstr

fun storeStep :: "storeOp \<Rightarrow> Stores \<Rightarrow> Stores" where
  "storeStep (SignIn tok) s = setToken tok s"
| "storeStep SignOutStore s = clearToken s"
| "storeStep (PickTheme v) s = updateThemeMode v s"
| "storeStep (PickLocale v) s = updateLocale v s"

text \<open>The stores agree with what a reload would find; an empty token, which the storage does not keep, counts as none.\<close>

definition storesKept :: "Stores \<Rightarrow> bool" where
  "storesKept s \<longleftrightarrow> browserStorage s \<noteq> None \<longrightarrow>
     (let r = loadStores (browserStorage s) in themeState r = themeState s \<and> localeState r = localeState s
        \<and> (truthy (tokenState r) \<or> truthy (tokenState s) \<longrightarrow> tokenState r = tokenState s))"

lemma storage_keys [simp]:
  "AUTH_STORAGE_KEY \<noteq> OPERATOR_THEME_KEY" "AUTH_STORAGE_KEY \<noteq> OPERATOR_LOCALE_KEY" "OPERATOR_THEME_KEY \<noteq> OPERATOR_LOCALE_KEY"
  "OPERATOR_THEME_KEY \<noteq> AUTH_STORAGE_KEY" "OPERATOR_LOCALE_KEY \<noteq> AUTH_STORAGE_KEY" "OPERATOR_LOCALE_KEY \<noteq> OPERATOR_THEME_KEY"
  by (simp_all add: AUTH_STORAGE_KEY_def OPERATOR_THEME_KEY_def OPERATOR_LOCALE_KEY_def)

lemma names_back [simp]: "isThemeMode (Some (themeModeName m)) = Some m" "isLocale (Some (operatorLocaleName l)) = Some l"
  by (cases m; simp add: isThemeMode_def) (cases l; simp add: isLocale_def)

lemma readItem_written:
  "st \<noteq> None \<Longrightarrow> readItem k (map_option (\<lambda>m. m(k' := v)) st) = (if k = k' then v else readItem k st)"
  by (cases st) (simp_all add: readItem_def)

lemma stored_after:
  assumes "st \<noteq> None"
  shows "loadStores (writeStoredToken tok st) = (loadStores st)\<lparr>browserStorage := writeStoredToken tok st, tokenState := if truthy tok then tok else None\<rparr>"
    "loadStores (writeStoredThemeMode m st) = (loadStores st)\<lparr>browserStorage := writeStoredThemeMode m st, themeState := m\<rparr>"
    "loadStores (writeStoredLocale l st) = (loadStores st)\<lparr>browserStorage := writeStoredLocale l st, localeState := l\<rparr>"
  using readItem_written [OF assms]
  by (simp_all add: loadStores_def readStoredToken_def readStoredThemeMode_def readStoredLocale_def writeStoredToken_def
      writeStoredThemeMode_def writeStoredLocale_def)

lemma written_there [simp]:
  "writeStoredToken tok st \<noteq> None \<longleftrightarrow> st \<noteq> None" "writeStoredThemeMode m st \<noteq> None \<longleftrightarrow> st \<noteq> None"
  "writeStoredLocale l st \<noteq> None \<longleftrightarrow> st \<noteq> None"
  by (simp_all add: writeStoredToken_def writeStoredThemeMode_def writeStoredLocale_def)

lemma store_ops_kept:
  assumes "storesKept s"
  shows "storesKept (setToken tok s)" "storesKept (clearToken s)" "storesKept (setThemeMode m s)" "storesKept (setLocale l s)"
proof -
  note defs = storesKept_def setToken_def clearToken_def setThemeMode_def setLocale_def
  have "storesKept (setToken tok s) \<and> storesKept (clearToken s) \<and> storesKept (setThemeMode m s) \<and> storesKept (setLocale l s)"
  proof (cases "browserStorage s = None")
    case True
    then show ?thesis by (simp add: defs writeStoredToken_def writeStoredThemeMode_def writeStoredLocale_def)
  next
    case False
    note a = stored_after [OF False]
    obtain x where x: "loadStores (browserStorage s) = x" by blast
    have k: "themeState x = themeState s" "localeState x = localeState s"
      "truthy (tokenState x) \<or> truthy (tokenState s) \<Longrightarrow> tokenState x = tokenState s"
      using assms False x unfolding storesKept_def Let_def by blast+
    show ?thesis unfolding defs Let_def by (simp add: a x k)
  qed
  then show "storesKept (setToken tok s)" "storesKept (clearToken s)" "storesKept (setThemeMode m s)" "storesKept (setLocale l s)" by simp_all
qed

lemma storeStep_kept: "storesKept s \<Longrightarrow> storesKept (storeStep c s)"
  by (cases c) (auto simp: updateThemeMode_def updateLocale_def store_ops_kept split: option.splits)

text \<open>
  A reload loses nothing: where the browser keeps data, whatever is signed in, signed out and chosen, the page that is
  loaded next has the same session, theme and language.
\<close>

theorem reload_keeps_stores: "storesKept (fold storeStep cs (loadStores st))"
proof -
  have "storesKept s \<Longrightarrow> storesKept (fold storeStep cs s)" for s
    by (induction cs arbitrary: s) (simp_all add: storeStep_kept)
  moreover have "storesKept (loadStores st)" by (simp add: storesKept_def loadStores_def Let_def)
  ultimately show ?thesis by blast
qed

section \<open>Requests\<close>

definition requestHeaders :: "jstr option \<Rightarrow> (jstr \<times> jstr) list" where
  "requestHeaders tok = ((js ''Content-Type''), (js ''application/json'')) # (if truthy tok then [((js ''Authorization''), (js ''Bearer '') @ the tok)] else [])"

text \<open>The message of a failed request: the server's \<open>detail\<close>, its JSON text if it is no string, or the body or the status as it came.\<close>

definition requestErrorMessage :: "jstr \<Rightarrow> jstr \<Rightarrow> jstr" where
  "requestErrorMessage body statusText =
     (case parseJson body of
        None \<Rightarrow> if body = [] then statusText else body
      | Some JNull \<Rightarrow> if body = [] then statusText else body
      | Some (JObj ms) \<Rightarrow> (case map_of ms (js ''detail'') of Some (JStr s) \<Rightarrow> s | Some j \<Rightarrow> stringify j | None \<Rightarrow> [])
      | Some _ \<Rightarrow> [])"

datatype apiOutcome = ApiData json | ApiFailure jstr

text \<open>\<open>badJson\<close>: the message of the error that the body of a successful answer raises when it is no JSON.\<close>

definition apiRequest :: "jstr \<Rightarrow> bool \<Rightarrow> jstr \<Rightarrow> jstr \<Rightarrow> apiOutcome" where
  "apiRequest badJson accepted body statusText =
     (if \<not> accepted then ApiFailure (requestErrorMessage body statusText)
      else (case parseJson body of Some j \<Rightarrow> ApiData j | None \<Rightarrow> ApiFailure badJson))"

lemma parse_empty [simp]: "parseJson [] = None"
  by (simp add: parseJson_def parseValue.simps skipSpace_def)

text \<open>
  A failure is explained by the server where it says something: the text of its detail reaches the user as it is, any other detail as its
  JSON text, and a body that is no JSON as it came.
\<close>

theorem failures_explained:
  "plainJson (JObj ms) \<Longrightarrow> map_of ms (js ''detail'') = Some d \<Longrightarrow>
     apiRequest bad False (jsonWrite gap 0 (JObj ms)) st = ApiFailure (case d of JStr s \<Rightarrow> s | _ \<Rightarrow> stringify d)"
  by (cases d) (simp_all add: apiRequest_def requestErrorMessage_def parse_jsonWrite del: jsonWrite.simps)

theorem failures_explained_witness:
  "apiRequest [] False (jsonWrite 0 0 (JObj [((js ''detail''), JStr (js ''no''))])) (js ''Conflict'') = ApiFailure (js ''no'')"
  using failures_explained [of "[((js ''detail''), JStr (js ''no''))]" "JStr (js ''no'')" "[]" 0 "(js ''Conflict'')"]
  by (simp add: jsObject_def arrayIndex_def js_Cons digit_def del: jsonWrite.simps)

text \<open>An error body without a detail leaves no message at all.\<close>

lemma missing_detail_no_message: "requestErrorMessage (jsonWrite 0 0 (JObj [])) statusText = []"
  using parse_jsonWrite [of "JObj []" 0] by (simp add: requestErrorMessage_def jsObject_def del: jsonWrite.simps)

section \<open>Signing in\<close>

datatype loginIssue = UsernameRequired | PasswordRequired

definition createLoginSchema :: "jstr \<Rightarrow> jstr \<Rightarrow> loginIssue list" where
  "createLoginSchema username password = (if username = [] then [UsernameRequired] else []) @ (if password = [] then [PasswordRequired] else [])"

definition loginBody :: "jstr \<Rightarrow> jstr \<Rightarrow> jstr" where
  "loginBody username password = stringify (JObj [((js ''username''), JStr username), ((js ''password''), JStr password)])"

text \<open>The outcome of the request: the token is kept and the console opened, or the message shown.\<close>

definition tokenReceived :: "jstr \<Rightarrow> Stores \<Rightarrow> Stores \<times> jstr" where
  "tokenReceived accessToken s = (setToken accessToken s, (js ''/release''))"

section \<open>Routes and guards\<close>

datatype element = LoginPage | ReleaseConsolePage | JobHistoryPage | JobDetailPage | UsersAdminPage | CredentialsAdminPage | ImportsAdminPage
  | ProfilesAdminPage | AuditLogsPage | NavigateTo jstr

datatype layout = RequireAuth | AppShell | RequireAdmin

datatype route = Leaf jstr element | Layout jstr layout "route list"

definition operatorRoutes :: "route list" where
  "operatorRoutes =
     [Leaf (js ''/login'') LoginPage,
      Layout [] RequireAuth
        [Layout [] AppShell
          [Leaf [] (NavigateTo (js ''/release'')), Leaf (js ''/release'') ReleaseConsolePage, Leaf (js ''/jobs'') JobHistoryPage, Leaf (js ''/jobs/:jobId'') JobDetailPage,
           Layout (js ''/admin'') RequireAdmin
             [Leaf [] (NavigateTo (js ''/admin/users'')), Leaf (js ''/users'') UsersAdminPage, Leaf (js ''/credentials'') CredentialsAdminPage,
              Leaf (js ''/imports'') ImportsAdminPage, Leaf (js ''/profiles'') ProfilesAdminPage, Leaf (js ''/audit'') AuditLogsPage]]],
      Leaf (js ''*'') (NavigateTo (js ''/release''))]"

text \<open>Every page with its path and the layouts around it, outermost first.\<close>

fun flatRoute :: "jstr \<Rightarrow> layout list \<Rightarrow> route \<Rightarrow> (jstr \<times> layout list \<times> element) list" where
  "flatRoute pre ls (Leaf p e) = [(pre @ p, ls, e)]"
| "flatRoute pre ls (Layout p l rs) = concat (map (flatRoute (pre @ p) (ls @ [l])) rs)"

definition flatRoutes :: "(jstr \<times> layout list \<times> element) list" where
  "flatRoutes = concat (map (flatRoute [] []) operatorRoutes)"

text \<open>The query of the signed-in user: on its way, failed, or answered with the user's roles.\<close>

datatype userQuery = UserLoading | UserFailed | UserLoaded "jstr list"

definition hasAdminRole :: "userQuery \<Rightarrow> bool" where
  "hasAdminRole me = (case me of UserLoaded roles \<Rightarrow> (js ''admin'') \<in> set roles | _ \<Rightarrow> False)"

datatype shownView = RedirectTo jstr | LoadingSession | AccessDenied | Shows element

fun guardView :: "layout \<Rightarrow> jstr option \<Rightarrow> userQuery \<Rightarrow> shownView option" where
  "guardView RequireAuth tok me =
     (if \<not> truthy tok then Some (RedirectTo (js ''/login''))
      else (case me of UserLoading \<Rightarrow> Some LoadingSession | UserFailed \<Rightarrow> Some (RedirectTo (js ''/login'')) | UserLoaded _ \<Rightarrow> None))"
| "guardView AppShell tok me = None"
| "guardView RequireAdmin tok me = (if hasAdminRole me then None else Some AccessDenied)"

fun renderRoute :: "layout list \<Rightarrow> element \<Rightarrow> jstr option \<Rightarrow> userQuery \<Rightarrow> shownView" where
  "renderRoute [] (NavigateTo p) tok me = RedirectTo p"
| "renderRoute [] e tok me = Shows e"
| "renderRoute (l # ls) e tok me = (case guardView l tok me of Some v \<Rightarrow> v | None \<Rightarrow> renderRoute ls e tok me)"

lemma flatRoutes_list: "flatRoutes =
   [((js ''/login''), [], LoginPage), ([], [RequireAuth, AppShell], NavigateTo (js ''/release'')),
    ((js ''/release''), [RequireAuth, AppShell], ReleaseConsolePage), ((js ''/jobs''), [RequireAuth, AppShell], JobHistoryPage),
    ((js ''/jobs/:jobId''), [RequireAuth, AppShell], JobDetailPage),
    ((js ''/admin''), [RequireAuth, AppShell, RequireAdmin], NavigateTo (js ''/admin/users'')),
    ((js ''/admin/users''), [RequireAuth, AppShell, RequireAdmin], UsersAdminPage),
    ((js ''/admin/credentials''), [RequireAuth, AppShell, RequireAdmin], CredentialsAdminPage),
    ((js ''/admin/imports''), [RequireAuth, AppShell, RequireAdmin], ImportsAdminPage),
    ((js ''/admin/profiles''), [RequireAuth, AppShell, RequireAdmin], ProfilesAdminPage),
    ((js ''/admin/audit''), [RequireAuth, AppShell, RequireAdmin], AuditLogsPage),
    ((js ''*''), [], NavigateTo (js ''/release''))]"
  by (simp add: flatRoutes_def operatorRoutes_def js_append [symmetric])

lemma guard_shows_none [simp]: "guardView l tok me \<noteq> Some (Shows e)"
  by (cases l) (auto split: userQuery.splits)

lemma render_passes: "renderRoute (ls @ [l]) e tok me = Shows e' \<Longrightarrow> guardView l tok me = None"
  by (induction ls) (auto split: option.splits)

lemma render_outer: "renderRoute (l # ls) e tok me = Shows e' \<Longrightarrow> guardView l tok me = None"
  by (auto split: option.splits)

text \<open>
  C27. No page but the one to sign in is shown without a token and an answer of the server for it, and the pages under \<open>/admin\<close> only
  to a user with the role admin.
\<close>

theorem pages_guarded:
  assumes "(path, ls, e) \<in> set flatRoutes" "renderRoute ls e tok me = Shows e'" "e' \<noteq> LoginPage"
  shows "truthy tok \<and> (\<exists>roles. me = UserLoaded roles \<and> (startsWith path (js ''/admin'') \<longrightarrow> (js ''admin'') \<in> set roles))"
proof -
  have "ls = [] \<and> (e = LoginPage \<or> (\<exists>p. e = NavigateTo p)) \<or> (\<exists>rest. ls = RequireAuth # rest \<and> (startsWith path (js ''/admin'') \<longrightarrow> rest = [AppShell] @ [RequireAdmin]))"
    using assms(1) unfolding flatRoutes_list by (auto simp: js_append [symmetric] js_Cons)
  then obtain rest where r: "ls = RequireAuth # rest" "startsWith path (js ''/admin'') \<Longrightarrow> rest = [AppShell] @ [RequireAdmin]"
    using assms(2,3) by auto
  have "guardView RequireAuth tok me = None" using assms(2) r(1) render_outer by blast
  then obtain roles where a: "truthy tok" "me = UserLoaded roles" by (auto split: if_splits userQuery.splits)
  moreover have "(js ''admin'') \<in> set roles" if "startsWith path (js ''/admin'')"
    using render_passes [of "[RequireAuth, AppShell]" RequireAdmin e tok me e'] assms(2) r(1) r(2) [OF that] a(2)
    by (auto simp: hasAdminRole_def split: if_splits)
  ultimately show ?thesis by blast
qed

theorem pages_guarded_witness:
  "\<exists>roles. UserLoaded [(js ''admin'')] = UserLoaded roles \<and> startsWith (js ''/admin/users'') (js ''/admin'') \<and> (js ''admin'') \<in> set roles
     \<and> renderRoute [RequireAuth, AppShell, RequireAdmin] UsersAdminPage (Some (js ''t'')) (UserLoaded roles) = Shows UsersAdminPage"
proof -
  have r: "renderRoute [RequireAuth, AppShell, RequireAdmin] UsersAdminPage (Some (js ''t'')) (UserLoaded [(js ''admin'')]) = Shows UsersAdminPage"
    by (simp add: hasAdminRole_def)
  have "startsWith (js ''/admin/users'') (js ''/admin'')" by (simp add: js_eval)
  then show ?thesis
    using pages_guarded [of "(js ''/admin/users'')" "[RequireAuth, AppShell, RequireAdmin]" UsersAdminPage, OF _ r] r
    by (auto simp: flatRoutes_list)
qed

section \<open>The menu\<close>

record NavItem =
  navHref :: jstr
  navLabel :: jstr
  navAdmin :: bool

definition navItems :: "NavItem list" where
  "navItems =
     [\<lparr>navHref = (js ''/release''), navLabel = (js ''nav.release''), navAdmin = False\<rparr>,
      \<lparr>navHref = (js ''/jobs''), navLabel = (js ''nav.jobs''), navAdmin = False\<rparr>,
      \<lparr>navHref = (js ''/admin/users''), navLabel = (js ''nav.users''), navAdmin = True\<rparr>,
      \<lparr>navHref = (js ''/admin/credentials''), navLabel = (js ''nav.credentials''), navAdmin = True\<rparr>,
      \<lparr>navHref = (js ''/admin/imports''), navLabel = (js ''nav.imports''), navAdmin = True\<rparr>,
      \<lparr>navHref = (js ''/admin/profiles''), navLabel = (js ''nav.profiles''), navAdmin = True\<rparr>,
      \<lparr>navHref = (js ''/admin/audit''), navLabel = (js ''nav.audit''), navAdmin = True\<rparr>]"

definition visibleNav :: "bool \<Rightarrow> NavItem list" where
  "visibleNav admin = filter (\<lambda>n. \<not> navAdmin n \<or> admin) navItems"

definition isActivePath :: "jstr \<Rightarrow> jstr \<Rightarrow> bool" where
  "isActivePath pathname href = (if href = (js ''/jobs'') then pathname = href \<or> startsWith pathname (js ''/jobs/'') else pathname = href)"

definition shellTitle :: "jstr \<Rightarrow> jstr" where
  "shellTitle pathname =
     (case find (\<lambda>n. isActivePath pathname (navHref n)) navItems of
        Some n \<Rightarrow> navLabel n
      | None \<Rightarrow> if startsWith pathname (js ''/jobs/'') then (js ''nav.jobDetail'') else (js ''app.name''))"

definition userLabel :: "jstr option \<Rightarrow> jstr \<Rightarrow> jstr" where
  "userLabel displayName username = (if truthy displayName then the displayName else username)"

text \<open>The title of a job's page is never reached: the entry of the list of jobs is active on it, too.\<close>

lemma job_detail_title_unreachable: "shellTitle pathname \<noteq> (js ''nav.jobDetail'')"
  by (simp add: shellTitle_def navItems_def isActivePath_def)

definition opens :: "jstr option \<Rightarrow> userQuery \<Rightarrow> NavItem \<Rightarrow> bool" where
  "opens tok me n \<longleftrightarrow> (\<exists>(path, ls, e)\<in>set flatRoutes. path = navHref n \<and> renderRoute ls e tok me = Shows e)"

lemma navItems_cases:
  "n \<in> set navItems \<Longrightarrow> \<exists>e. (navHref n, [RequireAuth, AppShell] @ (if navAdmin n then [RequireAdmin] else []), e) \<in> set flatRoutes
     \<and> (\<forall>p. e \<noteq> NavigateTo p) \<and> (\<forall>ls e'. (navHref n, ls, e') \<in> set flatRoutes \<longrightarrow> ls = [RequireAuth, AppShell] @ (if navAdmin n then [RequireAdmin] else []) \<and> e' = e)"
  unfolding navItems_def flatRoutes_list by auto

lemma active_cases:
  "isActivePath p h \<Longrightarrow> p = h \<or> h = (js ''/jobs'') \<and> startsWith p (js ''/jobs/'')"
  by (simp add: isActivePath_def split: if_splits)

lemma href_not_below_jobs: "n \<in> set navItems \<Longrightarrow> \<not> startsWith (navHref n) (js ''/jobs/'')"
  unfolding navItems_def by (auto simp: js_Cons)

lemma one_active:
  assumes "m \<in> set navItems" "n \<in> set navItems" "isActivePath p (navHref m)" "isActivePath p (navHref n)"
  shows "navHref m = navHref n"
  using active_cases [OF assms(3)] active_cases [OF assms(4)] href_not_below_jobs [OF assms(1)] href_not_below_jobs [OF assms(2)]
  by (elim disjE conjE) (simp_all only:)

lemma nav_distinct: "distinct (map navHref navItems)"
  by (simp add: navItems_def)

lemma filter_at_most_one:
  "\<lbrakk>distinct (map f xs); \<And>x y. x \<in> set xs \<Longrightarrow> y \<in> set xs \<Longrightarrow> P x \<Longrightarrow> P y \<Longrightarrow> f x = f y\<rbrakk> \<Longrightarrow> length (filter P xs) \<le> 1"
proof (induction xs)
  case (Cons x xs)
  show ?case
  proof (cases "P x")
    case True
    have "\<not> P y" if "y \<in> set xs" for y
      using Cons.prems(1) Cons.prems(2) [of x y] that True by auto
    then have "filter P xs = []" by (simp add: filter_empty_conv)
    then show ?thesis by simp
  next
    case False
    have "length (filter P xs) \<le> 1" by (rule Cons.IH) (use Cons.prems in auto)
    then show ?thesis using False by simp
  qed
qed simp

lemma opens_iff:
  "opens tok me n \<longleftrightarrow> (\<exists>ls e. (navHref n, ls, e) \<in> set flatRoutes \<and> renderRoute ls e tok me = Shows e)"
  by (auto simp: opens_def)

lemma shows_page: "(\<forall>p. e \<noteq> NavigateTo p) \<Longrightarrow> renderRoute [] e tok me = Shows e"
  by (cases e) simp_all

lemma menu_item_opens:
  assumes "truthy tok" "n \<in> set navItems"
  shows "n \<in> set (visibleNav (hasAdminRole (UserLoaded roles))) \<longleftrightarrow> opens tok (UserLoaded roles) n"
proof -
  obtain e where e: "(navHref n, [RequireAuth, AppShell] @ (if navAdmin n then [RequireAdmin] else []), e) \<in> set flatRoutes"
      "\<forall>p. e \<noteq> NavigateTo p"
      "\<forall>ls e'. (navHref n, ls, e') \<in> set flatRoutes \<longrightarrow> ls = [RequireAuth, AppShell] @ (if navAdmin n then [RequireAdmin] else []) \<and> e' = e"
    using navItems_cases [OF assms(2)] by blast
  then have "opens tok (UserLoaded roles) n \<longleftrightarrow>
      renderRoute ([RequireAuth, AppShell] @ (if navAdmin n then [RequireAdmin] else [])) e tok (UserLoaded roles) = Shows e"
    unfolding opens_iff by blast
  then show ?thesis
    using assms shows_page [OF e(2), of tok "UserLoaded roles"] by (simp add: visibleNav_def)
qed

text \<open>
  The menu offers what can be opened: for a user who is signed in, an entry is shown exactly when the page behind it is, and at
  most one entry is marked as the current one.
\<close>

theorem menu_offers_pages:
  assumes "truthy tok" "n \<in> set navItems"
  shows "(n \<in> set (visibleNav (hasAdminRole (UserLoaded roles))) \<longleftrightarrow> opens tok (UserLoaded roles) n)
    \<and> length (filter (\<lambda>m. isActivePath pathname (navHref m)) navItems) \<le> 1"
proof
  show "n \<in> set (visibleNav (hasAdminRole (UserLoaded roles))) \<longleftrightarrow> opens tok (UserLoaded roles) n"
    by (rule menu_item_opens [OF assms])
  show "length (filter (\<lambda>m. isActivePath pathname (navHref m)) navItems) \<le> 1"
    by (rule filter_at_most_one [OF nav_distinct]) (rule one_active)
qed

theorem menu_offers_pages_witness:
  "opens (Some (js ''t'')) (UserLoaded [(js ''operator'')]) (hd navItems)"
  using menu_offers_pages [of "Some (js ''t'')" "hd navItems" "[(js ''operator'')]" "[]"]
  by (simp add: navItems_def visibleNav_def)

section \<open>What is left of a session\<close>

text \<open>
  The query cache of the tab: the query of the user has the token in its key, every other one only its own parameters. An entry
  keeps the session that read it.
\<close>

datatype cacheKey = MeKey "jstr option" | DataKey jstr

record OperatorTab =
  tabStores :: Stores
  tabCache :: "cacheKey \<rightharpoonup> nat"
  tabSession :: nat

datatype tabEvent = SignsIn jstr | SignsOut | UserQueryFails | ReadsKey cacheKey

fun tabStep :: "tabEvent \<Rightarrow> OperatorTab \<Rightarrow> OperatorTab" where
  "tabStep (SignsIn tok) s = (if truthy (tokenState (tabStores s)) then s
     else s\<lparr>tabStores := fst (tokenReceived tok (tabStores s)), tabSession := tabSession s + 1\<rparr>)"
| "tabStep SignsOut s = s\<lparr>tabStores := clearToken (tabStores s), tabCache := Map.empty\<rparr>"
| "tabStep UserQueryFails s = s\<lparr>tabStores := clearToken (tabStores s)\<rparr>"
| "tabStep (ReadsKey k) s = (if truthy (tokenState (tabStores s)) then s\<lparr>tabCache := (tabCache s)(k \<mapsto> tabSession s)\<rparr> else s)"

definition ownReads :: "OperatorTab \<Rightarrow> bool" where
  "ownReads s \<longleftrightarrow> (\<forall>k v. tabCache s k = Some v \<longrightarrow> v = tabSession s) \<and> (\<not> truthy (tokenState (tabStores s)) \<longrightarrow> tabCache s = Map.empty)"

lemma ownReads_step: "\<lbrakk>ownReads s; c \<noteq> UserQueryFails; c \<noteq> SignsIn []\<rbrakk> \<Longrightarrow> ownReads (tabStep c s)"
  by (cases c) (auto simp: ownReads_def tokenReceived_def setToken_def clearToken_def truthy.simps split: if_splits)

definition freshTab :: OperatorTab where
  "freshTab = \<lparr>tabStores = loadStores (Some Map.empty), tabCache = Map.empty, tabSession = 0\<rparr>"

text \<open>
  A user sees only what the own session has read: as long as sessions end by signing out, every entry of the cache belongs to the session
  that is running.
\<close>

theorem sign_out_leaves_nothing:
  assumes "UserQueryFails \<notin> set es" "SignsIn [] \<notin> set es" "tabCache (fold tabStep es freshTab) k = Some v"
  shows "v = tabSession (fold tabStep es freshTab)"
proof -
  have "\<lbrakk>ownReads s; UserQueryFails \<notin> set es; SignsIn [] \<notin> set es\<rbrakk> \<Longrightarrow> ownReads (fold tabStep es s)" for s
  proof (induction es arbitrary: s)
    case (Cons c es)
    then show ?case using ownReads_step [of s c] by auto
  qed simp
  moreover have "ownReads freshTab" by (simp add: ownReads_def freshTab_def)
  ultimately show ?thesis using assms by (auto simp: ownReads_def)
qed

lemmas sample_session = freshTab_def loadStores_def readStoredToken_def readItem_def tokenReceived_def setToken_def clearToken_def

theorem sign_out_leaves_nothing_witness:
  "tabSession (fold tabStep [SignsIn (js ''t''), ReadsKey (DataKey (js ''jobs''))] freshTab) = 1"
  using sign_out_leaves_nothing [of "[SignsIn (js ''t''), ReadsKey (DataKey (js ''jobs''))]" "DataKey (js ''jobs'')" 1]
  by (simp add: sample_session)

text \<open>A session that ends because its token is refused leaves its reads to the next one.\<close>

lemma refused_session_leaves_reads:
  "let s = fold tabStep [SignsIn (js ''t''), ReadsKey (DataKey (js ''jobs'')), UserQueryFails, SignsIn (js ''u'')] freshTab
   in tabCache s (DataKey (js ''jobs'')) = Some 1 \<and> tabSession s = 2"
  by (simp add: sample_session)

end
