(* ===== verification/OperatorAdmin.thy ===== *)
theory OperatorAdmin
  imports JsonText
begin

text \<open>
  The administration forms of the operator frontend (\<open>src/frontend/src/features/admin/AdminPages.tsx\<close>): creating users and
  credentials, resetting a password and importing switches, with the requests they send.
\<close>

section \<open>Creating users and credentials\<close>

datatype adminIssue = UsernameRequired | PasswordRequired | InvalidRole | NameRequired | ImportJsonRequired | PasswordMin8 | InvalidText

record UserForm =
  ufUsername :: jstr
  ufDisplayName :: jstr
  ufPassword :: jstr
  ufRole :: jstr

definition emptyUserForm :: UserForm where
  "emptyUserForm = \<lparr>ufUsername = [], ufDisplayName = [], ufPassword = [], ufRole = (js ''operator'')\<rparr>"

definition createUserSchema :: "UserForm \<Rightarrow> adminIssue list" where
  "createUserSchema f = (if ufUsername f = [] then [UsernameRequired] else []) @ (if ufPassword f = [] then [PasswordRequired] else [])
     @ (if ufRole f = (js ''operator'') \<or> ufRole f = (js ''admin'') then [] else [InvalidRole])"

definition createUserBody :: "UserForm \<Rightarrow> json" where
  "createUserBody f = JObj [((js ''username''), JStr (ufUsername f)),
     ((js ''display_name''), if ufDisplayName f = [] then JNull else JStr (ufDisplayName f)),
     ((js ''password''), JStr (ufPassword f)), ((js ''roles''), JArr [JStr (ufRole f)])]"

record CredentialForm =
  kfName :: jstr
  kfUsername :: jstr
  kfPassword :: jstr
  kfSecret :: jstr

definition emptyCredentialForm :: CredentialForm where
  "emptyCredentialForm = \<lparr>kfName = [], kfUsername = [], kfPassword = [], kfSecret = []\<rparr>"

definition createCredentialSchema :: "CredentialForm \<Rightarrow> adminIssue list" where
  "createCredentialSchema f = (if kfName f = [] then [NameRequired] else []) @ (if kfUsername f = [] then [UsernameRequired] else [])
     @ (if kfPassword f = [] then [PasswordRequired] else [])"

definition createCredentialBody :: "CredentialForm \<Rightarrow> json" where
  "createCredentialBody f = JObj [((js ''name''), JStr (kfName f)), ((js ''username''), JStr (kfUsername f)), ((js ''password''), JStr (kfPassword f)),
     ((js ''secret''), if kfSecret f = [] then JNull else JStr (kfSecret f))]"

section \<open>Importing\<close>

definition createImportSchema :: "jstr \<Rightarrow> adminIssue list" where
  "createImportSchema recordsJson = (if recordsJson = [] then [ImportJsonRequired] else [])"

text \<open>The body of an import; none when the text is no JSON, which fails before any request.\<close>

definition importRequestBody :: "jstr \<Rightarrow> json option" where
  "importRequestBody recordsJson = map_option (\<lambda>r. JObj [((js ''source_filename''), JStr (js ''manual-json'')), ((js ''records''), r)]) (parseJson recordsJson)"

text \<open>The example in the empty field, with the first credential and profile there are.\<close>

definition importSample :: "jstr option \<Rightarrow> jstr option \<Rightarrow> jstr" where
  "importSample credentialID profileID = jsonWrite 2 0 (JArr [JObj
     [((js ''switch_name''), JStr (js ''edge-sw-01'')), ((js ''management_ip''), JStr (js ''10.0.0.10'')), ((js ''cidr''), JStr (js ''10.44.132.0/24'')),
      ((js ''credential_id''), JStr (nullish credentialID (js ''credential-uuid''))), ((js ''command_profile_id''), JStr (nullish profileID (js ''profile-uuid''))),
      ((js ''network_validated''), JBool True)]])"

section \<open>Resetting a password\<close>

text \<open>
  The passwords that are typed and the errors are kept in objects by user name; a name that an object inherits and that has not been set reads
  as a function, which is no text.
\<close>

record UsersPage =
  usersForm :: UserForm
  creatingUser :: bool
  resetPasswords :: "(jstr \<times> jstr) list"
  resetErrors :: "(jstr \<times> adminIssue list) list"
  resetRunning :: bool

definition newUsersPage :: UsersPage where
  "newUsersPage = \<lparr>usersForm = emptyUserForm, creatingUser = False, resetPasswords = [], resetErrors = [], resetRunning = False\<rparr>"

definition typeReset :: "jstr \<Rightarrow> jstr \<Rightarrow> UsersPage \<Rightarrow> UsersPage" where
  "typeReset username v s = s\<lparr>resetPasswords := AList.update username v (resetPasswords s)\<rparr>"

definition resetPasswordSchema :: "jstr \<Rightarrow> jstr looked \<Rightarrow> adminIssue list" where
  "resetPasswordSchema username password = (if username = [] then [InvalidText] else [])
     @ (case password of Own p \<Rightarrow> if length p < 8 then [PasswordMin8] else [] | Absent \<Rightarrow> [PasswordMin8] | Inherited \<Rightarrow> [InvalidText])"

datatype adminRequest = CreateUser json | CreateCredential json | ImportSwitches json | ResetPassword jstr json

definition resetPath :: "jstr \<Rightarrow> jstr" where
  "resetPath username = (js ''/admin/users/'') @ username @ (js ''/reset-password'')"

definition setError :: "jstr \<Rightarrow> adminIssue list \<Rightarrow> UsersPage \<Rightarrow> UsersPage" where
  "setError username e s = s\<lparr>resetErrors := AList.update username e (resetErrors s)\<rparr>"

definition resetPassword :: "jstr \<Rightarrow> UsersPage \<Rightarrow> UsersPage \<times> adminRequest option" where
  "resetPassword username s =
     (if resetRunning s then (s, None)
      else (let p = get_prop (resetPasswords s) username; issues = resetPasswordSchema username p
            in if issues \<noteq> [] then (setError username [hd issues] s, None)
               else ((setError username [] s)\<lparr>resetRunning := True\<rparr>,
                 Some (ResetPassword (resetPath username) (JObj [((js ''password''), JStr (case p of Own v \<Rightarrow> v | _ \<Rightarrow> []))])))))"

definition resetDone :: "jstr \<Rightarrow> UsersPage \<Rightarrow> UsersPage" where
  "resetDone username s = (setError username [] s)\<lparr>resetPasswords := AList.update username [] (resetPasswords s), resetRunning := False\<rparr>"

definition submitUser :: "UsersPage \<Rightarrow> UsersPage \<times> adminRequest option" where
  "submitUser s =
     (if creatingUser s \<or> createUserSchema (usersForm s) \<noteq> [] then (s, None)
      else (s\<lparr>creatingUser := True\<rparr>, Some (CreateUser (createUserBody (usersForm s)))))"

definition userCreated :: "UsersPage \<Rightarrow> UsersPage" where
  "userCreated s = s\<lparr>usersForm := emptyUserForm, creatingUser := False\<rparr>"

section \<open>What is sent\<close>

inductive users_step :: "UsersPage \<times> adminRequest list \<Rightarrow> UsersPage \<times> adminRequest list \<Rightarrow> bool" where
  types_user: "users_step (s, sent) (s\<lparr>usersForm := f\<rparr>, sent)"
| submits_user: "submitUser s = (s', r) \<Longrightarrow> users_step (s, sent) (s', sent @ (case r of Some q \<Rightarrow> [q] | None \<Rightarrow> []))"
| creates_user: "users_step (s, sent) (userCreated s, sent)"
| fails_user: "users_step (s, sent) (s\<lparr>creatingUser := False\<rparr>, sent)"
| types_reset: "users_step (s, sent) (typeReset username v s, sent)"
| resets: "resetPassword username s = (s', r) \<Longrightarrow> users_step (s, sent) (s', sent @ (case r of Some q \<Rightarrow> [q] | None \<Rightarrow> []))"
| reset_done: "users_step (s, sent) (resetDone username s, sent)"
| reset_fails: "users_step (s, sent) (s\<lparr>resetRunning := False\<rparr>, sent)"

text \<open>A request that the server can accept: a name, a password, a known role; for a reset, eight units at least.\<close>

fun completeRequest :: "adminRequest \<Rightarrow> bool" where
  "completeRequest (CreateUser b) \<longleftrightarrow> (\<exists>f. b = createUserBody f \<and> ufUsername f \<noteq> [] \<and> ufPassword f \<noteq> [] \<and> (ufRole f = (js ''operator'') \<or> ufRole f = (js ''admin'')))"
| "completeRequest (ResetPassword path b) \<longleftrightarrow>
     (\<exists>username p. path = resetPath username \<and> username \<noteq> [] \<and> b = JObj [((js ''password''), JStr p)] \<and> length p \<ge> 8)"
| "completeRequest _ \<longleftrightarrow> False"

lemma submitUser_complete: "submitUser s = (s', Some q) \<Longrightarrow> completeRequest q"
  by (auto simp: submitUser_def createUserSchema_def split: if_splits)

lemma resetPassword_complete: "resetPassword username s = (s', Some q) \<Longrightarrow> completeRequest q"
  by (cases "get_prop (resetPasswords s) username")
    (auto simp: resetPassword_def resetPasswordSchema_def Let_def not_less split: if_splits)

lemma users_step_complete: "\<lbrakk>users_step x y; list_all completeRequest (snd x)\<rbrakk> \<Longrightarrow> list_all completeRequest (snd y)"
  by (induction rule: users_step.induct) (auto dest: submitUser_complete resetPassword_complete split: option.splits)

text \<open>
  What the users page sends is complete, whatever is typed and in whichever order its buttons are used.
\<close>

theorem user_requests_complete:
  assumes "users_step\<^sup>*\<^sup>* (newUsersPage, []) (s, sent)"
  shows "list_all completeRequest sent"
proof -
  have "list_all completeRequest (snd (s, sent))"
    using assms by (induction rule: rtranclp_induct) (auto intro: users_step_complete)
  then show ?thesis by simp
qed

theorem user_requests_complete_witness:
  "completeRequest (ResetPassword (resetPath (js ''ann'')) (JObj [((js ''password''), JStr (js ''12345678''))]))"
proof -
  let ?s = "typeReset (js ''ann'') (js ''12345678'') newUsersPage"
  let ?q = "ResetPassword (resetPath (js ''ann'')) (JObj [((js ''password''), JStr (js ''12345678''))])"
  have "users_step (newUsersPage, []) (?s, [])" by (rule types_reset)
  moreover have "resetPassword (js ''ann'') ?s = ((setError (js ''ann'') [] ?s)\<lparr>resetRunning := True\<rparr>, Some ?q)"
    by (simp add: resetPassword_def typeReset_def newUsersPage_def get_prop_def resetPasswordSchema_def Let_def)
  then have "users_step (?s, []) ((setError (js ''ann'') [] ?s)\<lparr>resetRunning := True\<rparr>, [?q])"
    using resets [of "(js ''ann'')" ?s _ "Some ?q" "[]"] by simp
  ultimately have "users_step\<^sup>*\<^sup>* (newUsersPage, []) ((setError (js ''ann'') [] ?s)\<lparr>resetRunning := True\<rparr>, [?q])"
    by (meson rtranclp.rtrancl_into_rtrancl rtranclp.rtrancl_refl)
  from user_requests_complete [OF this] show ?thesis by simp
qed

text \<open>
  The name is put into the path as it is. A plain name is a segment of its own, but a question mark cuts the path: the
  request for a user of such a name reaches another one.
\<close>

definition requestedPath :: "jstr \<Rightarrow> jstr" where
  "requestedPath url = takeWhile (\<lambda>c. c \<noteq> 0x3F \<and> c \<noteq> 0x23) url"

lemma reset_reaches_other_user: "requestedPath (resetPath (js ''ann/reset-password?'')) = requestedPath (resetPath (js ''ann''))"
  by (simp add: requestedPath_def resetPath_def js_Cons)

lemma plain_reset_segment:
  assumes "0x2F \<notin> set username" "0x3F \<notin> set username" "0x23 \<notin> set username"
  shows "splitOn 0x2F (requestedPath (resetPath username)) = [[], (js ''admin''), (js ''users''), username, (js ''reset-password'')]"
proof -
  have l: "(js ''/admin/users/'') = 0x2F # (js ''admin'') @ 0x2F # (js ''users'') @ [0x2F]" "(js ''/reset-password'') = 0x2F # (js ''reset-password'')"
    by (simp_all add: js_Cons)
  have n: "0x2F \<notin> set (js ''admin'')" "0x2F \<notin> set (js ''users'')" "0x2F \<notin> set (js ''reset-password'')" by (simp_all add: js_Cons)
  have "\<forall>c\<in>set (resetPath username). c \<noteq> 0x3F \<and> c \<noteq> 0x23"
    using assms by (auto simp: resetPath_def js_Cons)
  then have "requestedPath (resetPath username) = [] @ 0x2F # (js ''admin'') @ 0x2F # (js ''users'') @ 0x2F # username @ 0x2F # (js ''reset-password'')"
    unfolding requestedPath_def takeWhile_eq_all_conv [THEN iffD2] by (simp add: resetPath_def l)
  then show ?thesis using n assms(1) by (simp only: splitOn_append_sep splitOn_no_sep list.set empty_iff not_False_eq_True)
qed

end
