(* ===== verification/AuthForms.thy ===== *)
theory AuthForms
  imports AuthSchemas SetupAuthority Problems ApiClient Preferences
begin

text \<open>
  The pages before a session: signing in (\<open>features/auth/login-form.tsx\<close>, \<open>routes/login.tsx\<close>), asking for and
  completing a password reset (\<open>features/auth/password-reset-request-form.tsx\<close>, \<open>features/auth/password-reset-form.tsx\<close>,
  \<open>routes/forgot-password.tsx\<close>, \<open>routes/reset-password.tsx\<close>), accepting an invitation
  (\<open>features/access/invitation-acceptance-form.tsx\<close>, \<open>routes/accept-invitation.tsx\<close>) and setting the system up
  (\<open>features/auth/setup-form.tsx\<close>, \<open>routes/setup.tsx\<close>). The last three carry the one-time token of a link.

  The forms are react-hook-form's: on submission it runs the schema on the values, keeps the first issue of
  each field as that field's error, and calls the submit function only when there is none; \<open>setError\<close> sets the
  error of one field. While a request is being sent the button is disabled, which also keeps the browser from
  submitting the form in another way.
\<close>

section \<open>Forms\<close>

record 'v AuthForm =
  formValues :: 'v
  fieldErrors :: "jstr \<rightharpoonup> jstr"
  formFailure :: "thrown option"
  sending :: "'v option"

definition emptyAuthForm :: "'v \<Rightarrow> 'v AuthForm" where
  "emptyAuthForm v = \<lparr>formValues = v, fieldErrors = Map.empty, formFailure = None, sending = None\<rparr>"

definition handleSubmit :: "('v \<Rightarrow> issue list) \<Rightarrow> ('v \<Rightarrow> apiMethod) \<Rightarrow> 'v AuthForm \<Rightarrow> 'v AuthForm \<times> apiMethod list" where
  "handleSubmit resolver send f =
     (if sending f \<noteq> None then (f, [])
      else let issues = resolver (formValues f) in
        if issues \<noteq> [] then (f\<lparr>fieldErrors := map_of issues\<rparr>, [])
        else (f\<lparr>fieldErrors := Map.empty, formFailure := None, sending := Some (formValues f)\<rparr>, [send (formValues f)]))"

text \<open>Typing changes the values; the form library may check them again at any time.\<close>

definition fill :: "'v \<Rightarrow> (jstr \<rightharpoonup> jstr) \<Rightarrow> 'v AuthForm \<Rightarrow> 'v AuthForm" where
  "fill v errs f = f\<lparr>formValues := v, fieldErrors := errs\<rparr>"

text \<open>The loop over the fields of a form: those that the server refuses, with its codes.\<close>

definition namedProblems :: "thrown \<Rightarrow> jstr list \<Rightarrow> (jstr \<times> jstr) list" where
  "namedProblems e names =
     List.map_filter (\<lambda>n. map_option (\<lambda>p. (n, fcode p)) (fieldProblemFor e (0x2F # n))) names"

definition setErrors :: "(jstr \<times> jstr) list \<Rightarrow> 'v AuthForm \<Rightarrow> 'v AuthForm" where
  "setErrors es f = fold (\<lambda>(n, m) g. g\<lparr>fieldErrors := (fieldErrors g)(n \<mapsto> m)\<rparr>) es f"

definition requestDone :: "'v AuthForm \<Rightarrow> 'v AuthForm" where
  "requestDone f = f\<lparr>sending := None\<rparr>"

text \<open>The language that a request asks for: \<open>i18n.language.toLowerCase().startsWith('zh')\<close>.\<close>

definition requestLocale :: "jstr \<Rightarrow> jstr" where
  "requestLocale language = (if startsWith (lowerTag language) (js ''zh'') then (js ''zh-CN'') else (js ''en''))"

section \<open>Signing in\<close>

definition newLoginForm :: "LoginFormValues AuthForm" where
  "newLoginForm = emptyAuthForm \<lparr>loginEmail = [], loginPassword = []\<rparr>"

definition loginMethod :: "(jstr \<Rightarrow> jstr) \<Rightarrow> jstr \<Rightarrow> LoginFormValues \<Rightarrow> apiMethod" where
  "loginMethod nfc language v =
     (let w = normalizeLoginValues nfc v
      in Session (Login (JObj [((js ''email''), JStr (loginEmail w)), ((js ''password''), JStr (loginPassword w)),
           ((js ''locale''), JStr (requestLocale language))])))"

definition submitLogin :: "(jstr \<Rightarrow> jstr) \<Rightarrow> jstr \<Rightarrow> LoginFormValues AuthForm \<Rightarrow> LoginFormValues AuthForm \<times> apiMethod list" where
  "submitLogin nfc language f =
     (if sending f \<noteq> None then (f, [])
      else handleSubmit (loginFormSchema nfc) (loginMethod nfc language) (f\<lparr>formFailure := None\<rparr>))"

text \<open>The language of the user who signed in, if it is one of the two, becomes the language shown.\<close>

definition loginDone :: "jstr option \<Rightarrow> LoginFormValues AuthForm \<Rightarrow> Localization \<Rightarrow> LoginFormValues AuthForm \<times> Localization" where
  "loginDone locale f l =
     (requestDone f, if locale = Some (js ''en'') then changeAccountLocale En l
                 else if locale = Some (js ''zh-CN'') then changeAccountLocale ZhCN l else l)"

text \<open>A refused password is explained by the length of the one that was sent.\<close>

definition loginMessage :: "(jstr \<Rightarrow> jstr) \<Rightarrow> LoginFormValues \<Rightarrow> jstr \<times> jstr \<Rightarrow> jstr \<times> jstr" where
  "loginMessage nfc v p =
     (fst p, if fst p = (js ''password'') \<and> snd p = (js ''invalid_login_password'')
             then if length (loginPassword (normalizeLoginValues nfc v)) = 0 then (js ''login_password_required'')
                  else (js ''login_password_too_long'')
             else snd p)"

definition loginFailed :: "(jstr \<Rightarrow> jstr) \<Rightarrow> thrown \<Rightarrow> LoginFormValues AuthForm \<Rightarrow> LoginFormValues AuthForm" where
  "loginFailed nfc e f =
     (let found = map (loginMessage nfc (the (sending f))) (namedProblems e [(js ''email''), (js ''password'')]);
          g = setErrors found (requestDone f)
      in if found = [] then g\<lparr>formFailure := Some e\<rparr> else g)"

text \<open>The sign-in page leaves for the home page as soon as a current user is cached.\<close>

definition loginRoute :: "'u option \<Rightarrow> jstr option" where
  "loginRoute currentUser = (if currentUser \<noteq> None then Some (js ''/'') else None)"

section \<open>Asking for a password reset\<close>

record ForgotPage =
  accepted :: bool
  requestForm :: "jstr AuthForm"

definition newForgotPage :: ForgotPage where
  "newForgotPage = \<lparr>accepted = False, requestForm = emptyAuthForm []\<rparr>"

definition resetRequestMethod :: "jstr \<Rightarrow> apiMethod" where
  "resetRequestMethod v = Links (RequestPasswordReset (JObj [((js ''email''), JStr (normalizePasswordResetRequestValues v))]))"

definition submitResetRequest :: "ForgotPage \<Rightarrow> ForgotPage \<times> apiMethod list" where
  "submitResetRequest s =
     (if accepted s then (s, [])
      else case handleSubmit passwordResetRequestFormSchema resetRequestMethod (requestForm s) of
        (f, ms) \<Rightarrow> (s\<lparr>requestForm := f\<rparr>, ms))"

definition resetRequestFailed :: "thrown \<Rightarrow> jstr AuthForm \<Rightarrow> jstr AuthForm" where
  "resetRequestFailed e f = (setErrors (namedProblems e [(js ''email'')]) (requestDone f))\<lparr>formFailure := Some e\<rparr>"

definition resetRequestAccepted :: "ForgotPage \<Rightarrow> ForgotPage" where
  "resetRequestAccepted s = s\<lparr>accepted := True, requestForm := requestDone (requestForm s)\<rparr>"

text \<open>\<open>resetAgain\<close> shows the form anew.\<close>

definition resetAgain :: "ForgotPage \<Rightarrow> ForgotPage" where
  "resetAgain s = (if accepted s then s\<lparr>accepted := False, requestForm := emptyAuthForm []\<rparr> else s)"

section \<open>The pages of a link\<close>

text \<open>
  The state of such a page with the tokens of the module: the token it was opened with, whether it is done, its form.
  \<^term>\<open>None\<close> is another page.
\<close>

record NewPassword =
  chosenPassword :: jstr
  chosenAgain :: jstr

definition noPassword :: NewPassword where
  "noPassword = \<lparr>chosenPassword = [], chosenAgain = []\<rparr>"

record LinkPage =
  linkToken :: "jstr option"
  linkDone :: bool
  linkForm :: "NewPassword AuthForm"

datatype linkView = LinkDone | LinkInvalid | LinkOpen jstr

definition newLinkPage :: "jstr option \<Rightarrow> LinkPage" where
  "newLinkPage token = \<lparr>linkToken = token, linkDone = False, linkForm = emptyAuthForm noPassword\<rparr>"

definition linkView :: "LinkPage \<Rightarrow> linkView" where
  "linkView s = (if linkDone s then LinkDone else if \<not> truthy (linkToken s) then LinkInvalid else LinkOpen (the (linkToken s)))"

datatype 'v linkEvent = Fill 'v "jstr \<rightharpoonup> jstr" | Submit | Accepted | Failed thrown | Leave

type_synonym linkVisit = "authorities \<times> LinkPage option"

text \<open>A page that is left while its request is under way no longer shows what comes of it, but still clears the token.\<close>

subsection \<open>Completing a password reset\<close>

definition openReset :: "authorities \<Rightarrow> linkVisit" where
  "openReset a = (a, Some (newLinkPage (getPasswordResetAuthority a)))"

definition resetMethod :: "(jstr \<Rightarrow> jstr) \<Rightarrow> jstr \<Rightarrow> NewPassword \<Rightarrow> apiMethod" where
  "resetMethod nfc token v = Links (CompletePasswordReset (JObj [((js ''token''), JStr token),
     ((js ''password''), JStr (normalizePasswordResetValues nfc (chosenPassword v)))]))"

definition newPasswordSchema :: "(jstr \<Rightarrow> jstr) \<Rightarrow> NewPassword \<Rightarrow> issue list" where
  "newPasswordSchema nfc v = passwordResetFormSchema nfc (chosenPassword v) (chosenAgain v)"

definition resetFailed :: "thrown \<Rightarrow> authorities \<times> LinkPage \<Rightarrow> authorities \<times> LinkPage" where
  "resetFailed e x =
     (case x of (a, s) \<Rightarrow>
       if isInvalidPasswordResetToken e
       then (clearPasswordResetAuthority a, s\<lparr>linkToken := None, linkForm := requestDone (linkForm s)\<rparr>)
       else (a, s\<lparr>linkForm := (setErrors (namedProblems e [(js ''password''), (js ''passwordConfirmation'')]) (requestDone (linkForm s)))
                  \<lparr>formFailure := Some e\<rparr>\<rparr>))"

fun resetStep :: "(jstr \<Rightarrow> jstr) \<Rightarrow> linkVisit \<Rightarrow> NewPassword linkEvent \<Rightarrow> linkVisit \<times> apiMethod list" where
  "resetStep nfc (a, None) ev = ((a, None), [])"
| "resetStep nfc (a, Some s) (Fill v errs) = ((a, Some (s\<lparr>linkForm := fill v errs (linkForm s)\<rparr>)), [])"
| "resetStep nfc (a, Some s) Submit =
     (case linkView s of
        LinkOpen token \<Rightarrow> (case handleSubmit (newPasswordSchema nfc) (resetMethod nfc token) (linkForm s) of
          (f, ms) \<Rightarrow> ((a, Some (s\<lparr>linkForm := f\<rparr>)), ms))
      | _ \<Rightarrow> ((a, Some s), []))"
| "resetStep nfc (a, Some s) Accepted =
     (if sending (linkForm s) = None then ((a, Some s), [])
      else ((clearPasswordResetAuthority a, Some (s\<lparr>linkDone := True, linkForm := requestDone (linkForm s)\<rparr>)), []))"
| "resetStep nfc (a, Some s) (Failed e) =
     (if sending (linkForm s) = None then ((a, Some s), [])
      else (case resetFailed e (a, s) of (b, s') \<Rightarrow> ((b, Some s'), [])))"
| "resetStep nfc (a, Some s) Leave = ((clearPasswordResetAuthority a, None), [])"

subsection \<open>Accepting an invitation\<close>

definition openInvitation :: "authorities \<Rightarrow> linkVisit" where
  "openInvitation a = (a, Some (newLinkPage (getInvitationAuthority a)))"

definition invitationMethod :: "(jstr \<Rightarrow> jstr) \<Rightarrow> jstr \<Rightarrow> NewPassword \<Rightarrow> apiMethod" where
  "invitationMethod nfc token v = Links (AcceptInvitation (JObj [((js ''token''), JStr token),
     ((js ''password''), JStr (normalizePasswordResetValues nfc (chosenPassword v)))]))"

fun isInvalidInvitation :: "thrown \<Rightarrow> bool" where
  "isInvalidInvitation (ApiProblemError p) = (ptype p = (js ''/problems/invalid-invitation''))"
| "isInvalidInvitation _ = False"

definition invitationFailed :: "thrown \<Rightarrow> authorities \<times> LinkPage \<Rightarrow> authorities \<times> LinkPage" where
  "invitationFailed e x =
     (case x of (a, s) \<Rightarrow>
       let f = requestDone (linkForm s);
           (b, s', g) = (if isInvalidInvitation e then (clearInvitationAuthority a, s\<lparr>linkToken := None\<rparr>, f)
                         else (a, s, f\<lparr>formFailure := Some e\<rparr>))
       in (b, s'\<lparr>linkForm := setErrors (namedProblems e [(js ''password'')]) g\<rparr>))"

fun invitationStep :: "(jstr \<Rightarrow> jstr) \<Rightarrow> linkVisit \<Rightarrow> NewPassword linkEvent \<Rightarrow> linkVisit \<times> apiMethod list" where
  "invitationStep nfc (a, None) ev = ((a, None), [])"
| "invitationStep nfc (a, Some s) (Fill v errs) = ((a, Some (s\<lparr>linkForm := fill v errs (linkForm s)\<rparr>)), [])"
| "invitationStep nfc (a, Some s) Submit =
     (case linkView s of
        LinkOpen token \<Rightarrow> (case handleSubmit (newPasswordSchema nfc) (invitationMethod nfc token) (linkForm s) of
          (f, ms) \<Rightarrow> ((a, Some (s\<lparr>linkForm := f\<rparr>)), ms))
      | _ \<Rightarrow> ((a, Some s), []))"
| "invitationStep nfc (a, Some s) Accepted =
     (if sending (linkForm s) = None then ((a, Some s), [])
      else ((clearInvitationAuthority a, Some (s\<lparr>linkDone := True, linkForm := requestDone (linkForm s)\<rparr>)), []))"
| "invitationStep nfc (a, Some s) (Failed e) =
     (if sending (linkForm s) = None then ((a, Some s), [])
      else (case invitationFailed e (a, s) of (b, s') \<Rightarrow> ((b, Some s'), [])))"
| "invitationStep nfc (a, Some s) Leave = ((clearInvitationAuthority a, None), [])"

subsection \<open>Setting the system up\<close>

text \<open>
  The loader: without a token, or when the system is set up already, it redirects to the sign-in page (\<^term>\<open>None\<close>);
  else it gives the status, or the failure to read it.
\<close>

definition loadSetupRoute :: "authorities \<Rightarrow> thrown + jstr \<Rightarrow> authorities \<times> (jstr option \<times> thrown option) option" where
  "loadSetupRoute a reply =
     (if \<not> truthy (getSetupAuthority a) then (a, None)
      else case reply of
        Inl e \<Rightarrow> (a, Some (None, Some e))
      | Inr st \<Rightarrow> if st = (js ''complete'') then (clearSetupAuthority a, None) else (a, Some (Some st, None)))"

record SetupPage =
  setupLoaded :: "jstr option \<times> thrown option"
  setupToken :: "jstr option"
  setupForm :: "SetupFormValues AuthForm"

type_synonym setupVisit = "authorities \<times> SetupPage option"

definition noSetupValues :: SetupFormValues where
  "noSetupValues = \<lparr>name = [], email = [], password = [], passwordConfirmation = []\<rparr>"

text \<open>A redirect leaves the page, and leaving it clears its token.\<close>

definition openSetup :: "authorities \<Rightarrow> thrown + jstr \<Rightarrow> setupVisit" where
  "openSetup a reply =
     (case loadSetupRoute a reply of
        (b, None) \<Rightarrow> (clearSetupAuthority b, None)
      | (b, Some loaded) \<Rightarrow> (b, Some \<lparr>setupLoaded = loaded, setupToken = getSetupAuthority b, setupForm = emptyAuthForm noSetupValues\<rparr>))"

datatype setupView = SetupUnavailable thrown | SetupBlank | SetupOpen jstr

definition setupView :: "SetupPage \<Rightarrow> setupView" where
  "setupView s =
     (case setupLoaded s of
        (_, Some e) \<Rightarrow> SetupUnavailable e
      | (reply, None) \<Rightarrow> if \<not> truthy reply \<or> \<not> truthy (setupToken s) then SetupBlank else SetupOpen (the (setupToken s)))"

definition setupMethod :: "(jstr \<Rightarrow> jstr) \<Rightarrow> jstr \<Rightarrow> jstr \<Rightarrow> SetupFormValues \<Rightarrow> apiMethod" where
  "setupMethod nfc language token v =
     (case normalizeSetupValues nfc v of (n, e, p) \<Rightarrow>
        Session (Setup (JObj [((js ''token''), JStr token), ((js ''name''), JStr n), ((js ''email''), JStr e), ((js ''password''), JStr p),
          ((js ''locale''), JStr (requestLocale language))])))"

text \<open>\<open>navigateToLogin\<close> forgets the page's token and starts to leave; the page stays until the navigation has ended.\<close>

definition navigateToLogin :: "SetupPage \<Rightarrow> SetupPage" where
  "navigateToLogin s = s\<lparr>setupToken := None\<rparr>"

definition setupFailed :: "thrown \<Rightarrow> authorities \<times> SetupPage \<Rightarrow> authorities \<times> SetupPage" where
  "setupFailed e x =
     (case x of (a, s) \<Rightarrow>
       let s0 = s\<lparr>setupForm := requestDone (setupForm s)\<rparr>;
           (a1, s1) = (if isInvalidSetupToken e then (clearSetupAuthority a, navigateToLogin s0) else (a, s0))
       in if isSetupComplete e then (clearSetupAuthority a1, navigateToLogin s1)
          else (a1, s1\<lparr>setupForm :=
            (setErrors (namedProblems e [(js ''name''), (js ''email''), (js ''password''), (js ''passwordConfirmation'')]) (setupForm s1))\<lparr>formFailure := Some e\<rparr>\<rparr>))"

datatype setupEvent = OnPage "SetupFormValues linkEvent" | Retry "thrown + jstr"

fun setupStep :: "(jstr \<Rightarrow> jstr) \<Rightarrow> jstr \<Rightarrow> setupVisit \<Rightarrow> setupEvent \<Rightarrow> setupVisit \<times> apiMethod list" where
  "setupStep nfc language (a, None) ev = ((a, None), [])"
| "setupStep nfc language (a, Some s) (OnPage (Fill v errs)) = ((a, Some (s\<lparr>setupForm := fill v errs (setupForm s)\<rparr>)), [])"
| "setupStep nfc language (a, Some s) (OnPage Submit) =
     (case setupView s of
        SetupOpen token \<Rightarrow> (case handleSubmit (setupFormSchema nfc) (setupMethod nfc language token) (setupForm s) of
          (f, ms) \<Rightarrow> ((a, Some (s\<lparr>setupForm := f\<rparr>)), ms))
      | _ \<Rightarrow> ((a, Some s), []))"
| "setupStep nfc language (a, Some s) (OnPage Accepted) =
     (if sending (setupForm s) = None then ((a, Some s), [])
      else ((clearSetupAuthority a, Some (navigateToLogin (s\<lparr>setupForm := requestDone (setupForm s)\<rparr>))), []))"
| "setupStep nfc language (a, Some s) (OnPage (Failed e)) =
     (if sending (setupForm s) = None then ((a, Some s), [])
      else (case setupFailed e (a, s) of (b, s') \<Rightarrow> ((b, Some s'), [])))"
| "setupStep nfc language (a, Some s) (OnPage Leave) = ((clearSetupAuthority a, None), [])"
| "setupStep nfc language (a, Some s) (Retry reply) =
     (case setupView s of
        SetupUnavailable _ \<Rightarrow> (case loadSetupRoute a reply of
          (b, None) \<Rightarrow> ((clearSetupAuthority b, None), [])
        | (b, Some loaded) \<Rightarrow> ((b, Some (s\<lparr>setupLoaded := loaded, setupForm := emptyAuthForm noSetupValues\<rparr>)), []))
      | _ \<Rightarrow> ((a, Some s), []))"

section \<open>One-time tokens\<close>

text \<open>The requests of a page, in order, along the events that it sees.\<close>

fun authRun :: "('s \<Rightarrow> 'e \<Rightarrow> 's \<times> 'm list) \<Rightarrow> 's \<Rightarrow> 'e list \<Rightarrow> 's \<times> 'm list" where
  "authRun step s [] = (s, [])"
| "authRun step s (e # es) =
     (case step s e of (s', ms) \<Rightarrow> case authRun step s' es of (s'', ns) \<Rightarrow> (s'', ms @ ns))"

lemma authRun_Cons:
  "fst (authRun step s (e # es)) = fst (authRun step (fst (step s e)) es)"
  "snd (authRun step s (e # es)) = snd (step s e) @ snd (authRun step (fst (step s e)) es)"
  by (simp_all split: prod.splits)

text \<open>The token in a request.\<close>

fun tokenField :: "json \<Rightarrow> jstr option" where
  "tokenField (JObj fs) = (case map_of fs (js ''token'') of Some (JStr t) \<Rightarrow> Some t | _ \<Rightarrow> None)"
| "tokenField _ = None"

fun tokenIn :: "apiMethod \<Rightarrow> jstr option" where
  "tokenIn (Session (Setup j)) = tokenField j"
| "tokenIn (Links (AcceptInvitation j)) = tokenField j"
| "tokenIn (Links (CompletePasswordReset j)) = tokenField j"
| "tokenIn _ = None"

text \<open>
  The contract of a page that was opened with a token: its requests carry the token it holds; the events that
  end the use of the token leave neither the page nor the module with it, and all others leave both alone.
\<close>

locale one_time_token =
  fixes step :: "'s \<Rightarrow> 'e \<Rightarrow> 's \<times> apiMethod list"
    and held :: "'s \<Rightarrow> jstr option"
    and kept :: "'s \<Rightarrow> jstr option"
    and ends :: "'s \<Rightarrow> 'e \<Rightarrow> bool"
  assumes carries: "m \<in> set (snd (step s e)) \<Longrightarrow> held s \<noteq> None \<and> tokenIn m = held s"
    and continues: "\<not> ends s e \<Longrightarrow> held (fst (step s e)) = held s \<and> kept (fst (step s e)) = kept s"
    and finishes: "ends s e \<Longrightarrow> held (fst (step s e)) = None \<and> kept (fst (step s e)) = None"
begin

lemma requests_carry: "m \<in> set (snd (authRun step s es)) \<Longrightarrow> held s \<noteq> None \<and> tokenIn m = held s"
proof (induction es arbitrary: s)
  case (Cons e es)
  have "m \<in> set (snd (step s e)) \<or> m \<in> set (snd (authRun step (fst (step s e)) es))"
    using Cons.prems by (auto simp only: authRun_Cons set_append)
  then show ?case
    using carries [of m s e] continues [of s e] finishes [of s e] Cons.IH [of "fst (step s e)"] by metis
qed simp

lemma stays_spent: "\<lbrakk>held s = None; kept s = None\<rbrakk> \<Longrightarrow>
  held (fst (authRun step s es)) = None \<and> kept (fst (authRun step s es)) = None"
proof (induction es arbitrary: s)
  case (Cons e es)
  then show ?case using continues [of s e] finishes [of s e] by (metis authRun_Cons(1))
qed simp

lemma nothing_after_end:
  assumes "ends s e"
  shows "snd (authRun step (fst (step s e)) es) = []" "kept (fst (authRun step (fst (step s e)) es)) = None"
proof -
  show "snd (authRun step (fst (step s e)) es) = []"
    using requests_carry [of _ "fst (step s e)" es] finishes [OF assms] by (metis list.set_sel(1))
  show "kept (fst (authRun step (fst (step s e)) es)) = None"
    using stays_spent [of "fst (step s e)" es] finishes [OF assms] by simp
qed

lemma held_until_end: "held (fst (authRun step s es)) = held s \<or> held (fst (authRun step s es)) = None"
proof (induction es arbitrary: s)
  case (Cons e es)
  then show ?case using continues [of s e] finishes [of s e] by (metis authRun_Cons(1))
qed simp

end

definition pageToken :: "linkVisit \<Rightarrow> jstr option" where
  "pageToken v = (case snd v of Some s \<Rightarrow> (if linkDone s then None else linkToken s) | None \<Rightarrow> None)"

definition setupPageToken :: "setupVisit \<Rightarrow> jstr option" where
  "setupPageToken v = (case snd v of Some s \<Rightarrow> setupToken s | None \<Rightarrow> None)"

fun resetEnds :: "linkVisit \<Rightarrow> NewPassword linkEvent \<Rightarrow> bool" where
  "resetEnds (a, Some s) Accepted = (sending (linkForm s) \<noteq> None)"
| "resetEnds (a, Some s) (Failed e) = (sending (linkForm s) \<noteq> None \<and> isInvalidPasswordResetToken e)"
| "resetEnds (a, Some s) Leave = True"
| "resetEnds v ev = False"

fun invitationEnds :: "linkVisit \<Rightarrow> NewPassword linkEvent \<Rightarrow> bool" where
  "invitationEnds (a, Some s) Accepted = (sending (linkForm s) \<noteq> None)"
| "invitationEnds (a, Some s) (Failed e) = (sending (linkForm s) \<noteq> None \<and> isInvalidInvitation e)"
| "invitationEnds (a, Some s) Leave = True"
| "invitationEnds v ev = False"

fun setupEnds :: "setupVisit \<Rightarrow> setupEvent \<Rightarrow> bool" where
  "setupEnds (a, Some s) (OnPage Accepted) = (sending (setupForm s) \<noteq> None)"
| "setupEnds (a, Some s) (OnPage (Failed e)) =
     (sending (setupForm s) \<noteq> None \<and> (isInvalidSetupToken e \<or> isSetupComplete e))"
| "setupEnds (a, Some s) (OnPage Leave) = True"
| "setupEnds (a, Some s) (Retry reply) =
     (case setupView s of SetupUnavailable _ \<Rightarrow> snd (loadSetupRoute a reply) = None | _ \<Rightarrow> False)"
| "setupEnds v ev = False"

lemma cleared [simp]:
  "passwordResetAuthority (clearPasswordResetAuthority a) = None"
  "invitationAuthority (clearInvitationAuthority a) = None"
  "setupAuthority (clearSetupAuthority a) = None"
  by (simp_all add: clearPasswordResetAuthority_def clearInvitationAuthority_def clearSetupAuthority_def)

lemma handleSubmit_sent: "\<lbrakk>handleSubmit r send f = (g, ms); m \<in> set ms\<rbrakk> \<Longrightarrow>
  sending f = None \<and> r (formValues f) = [] \<and> m = send (formValues f)"
  by (auto simp: handleSubmit_def Let_def split: if_splits)

lemma linkView_open: "linkView s = LinkOpen t \<longleftrightarrow> \<not> linkDone s \<and> truthy (linkToken s) \<and> linkToken s = Some t"
  by (cases "linkToken s") (auto simp: linkView_def)

lemma setupView_open: "setupView s = SetupOpen t \<Longrightarrow> setupToken s = Some t \<and> truthy (setupToken s)"
  by (cases "setupToken s") (auto simp: setupView_def split: prod.splits option.splits if_splits)

lemmas tokens_in = resetMethod_def invitationMethod_def setupMethod_def

lemma reset_step_carries:
  "m \<in> set (snd (resetStep nfc v ev)) \<Longrightarrow> pageToken v \<noteq> None \<and> tokenIn m = pageToken v"
  by (cases "(nfc, v, ev)" rule: resetStep.cases)
    (auto simp: pageToken_def linkView_open tokens_in map_of_js_hit split: linkView.splits prod.splits if_splits dest!: handleSubmit_sent)

lemma invitation_step_carries:
  "m \<in> set (snd (invitationStep nfc v ev)) \<Longrightarrow> pageToken v \<noteq> None \<and> tokenIn m = pageToken v"
  by (cases "(nfc, v, ev)" rule: invitationStep.cases)
    (auto simp: pageToken_def linkView_open tokens_in map_of_js_hit split: linkView.splits prod.splits if_splits dest!: handleSubmit_sent)

lemma setup_step_carries:
  "m \<in> set (snd (setupStep nfc l v ev)) \<Longrightarrow> setupPageToken v \<noteq> None \<and> tokenIn m = setupPageToken v"
  by (cases "(nfc, l, v, ev)" rule: setupStep.cases)
    (auto simp: setupPageToken_def tokens_in map_of_js_hit split: setupView.splits prod.splits if_splits option.splits
      dest!: handleSubmit_sent setupView_open)

text \<open>Every page of a link keeps the contract.\<close>

lemma setErrors_simps [simp]:
  "sending (setErrors es f) = sending f" "formFailure (setErrors es f) = formFailure f" "formValues (setErrors es f) = formValues f"
  unfolding setErrors_def by (induction es arbitrary: f) auto

lemmas page_steps = pageToken_def clearPasswordResetAuthority_def clearInvitationAuthority_def resetFailed_def invitationFailed_def

lemma reset_step_continues:
  "\<not> resetEnds v ev \<Longrightarrow> pageToken (fst (resetStep nfc v ev)) = pageToken v
     \<and> passwordResetAuthority (fst (fst (resetStep nfc v ev))) = passwordResetAuthority (fst v)"
  by (cases "(nfc, v, ev)" rule: resetStep.cases) (auto simp: page_steps split: linkView.splits prod.splits if_splits)

lemma reset_step_ends:
  "resetEnds v ev \<Longrightarrow> pageToken (fst (resetStep nfc v ev)) = None \<and> passwordResetAuthority (fst (fst (resetStep nfc v ev))) = None"
  by (cases "(nfc, v, ev)" rule: resetStep.cases) (auto simp: page_steps split: linkView.splits prod.splits if_splits)

lemma invitation_step_continues:
  "\<not> invitationEnds v ev \<Longrightarrow> pageToken (fst (invitationStep nfc v ev)) = pageToken v
     \<and> invitationAuthority (fst (fst (invitationStep nfc v ev))) = invitationAuthority (fst v)"
  by (cases "(nfc, v, ev)" rule: invitationStep.cases) (auto simp: page_steps Let_def split: linkView.splits prod.splits if_splits)

lemma invitation_step_ends:
  "invitationEnds v ev \<Longrightarrow> pageToken (fst (invitationStep nfc v ev)) = None \<and> invitationAuthority (fst (fst (invitationStep nfc v ev))) = None"
  by (cases "(nfc, v, ev)" rule: invitationStep.cases) (auto simp: page_steps Let_def split: linkView.splits prod.splits if_splits)

lemmas setup_steps = setupPageToken_def clearSetupAuthority_def setupFailed_def navigateToLogin_def loadSetupRoute_def

lemma setup_step_continues:
  "\<not> setupEnds v ev \<Longrightarrow> setupPageToken (fst (setupStep nfc l v ev)) = setupPageToken v
     \<and> setupAuthority (fst (fst (setupStep nfc l v ev))) = setupAuthority (fst v)"
  by (cases "(nfc, l, v, ev)" rule: setupStep.cases) (auto simp: setup_steps Let_def split: setupView.splits prod.splits if_splits sum.splits)

lemma setup_step_ends:
  "setupEnds v ev \<Longrightarrow> setupPageToken (fst (setupStep nfc l v ev)) = None \<and> setupAuthority (fst (fst (setupStep nfc l v ev))) = None"
  by (cases "(nfc, l, v, ev)" rule: setupStep.cases) (auto simp: setup_steps Let_def split: setupView.splits prod.splits if_splits sum.splits)

interpretation reset_link: one_time_token "resetStep nfc" pageToken "\<lambda>v. passwordResetAuthority (fst v)" resetEnds for nfc
  by unfold_locales (simp_all only: reset_step_carries reset_step_continues reset_step_ends simp_thms)

interpretation invitation_link: one_time_token "invitationStep nfc" pageToken "\<lambda>v. invitationAuthority (fst v)" invitationEnds for nfc
  by unfold_locales (simp_all only: invitation_step_carries invitation_step_continues invitation_step_ends simp_thms)

interpretation setup_link: one_time_token "setupStep nfc l" setupPageToken "\<lambda>v. setupAuthority (fst v)" setupEnds for nfc l
  by unfold_locales (simp_all only: setup_step_carries setup_step_continues setup_step_ends simp_thms)

text \<open>The token with which a page opens.\<close>

lemma opened_tokens:
  "pageToken (openReset a) = passwordResetAuthority a" "pageToken (openInvitation a) = invitationAuthority a"
  "setupPageToken (openSetup a reply) = Some t \<Longrightarrow> setupAuthority a = Some t"
  by (auto simp: pageToken_def setupPageToken_def openReset_def openInvitation_def newLinkPage_def getPasswordResetAuthority_def
      getInvitationAuthority_def openSetup_def loadSetupRoute_def getSetupAuthority_def split: option.splits prod.splits if_splits sum.splits)

lemma started_tokens:
  "passwordResetAuthority (auths (bootstrap_captures w)) = Some t \<Longrightarrow> pathname (loc w) = (js ''/reset-password'') \<and> canonical_reset t"
  "invitationAuthority (auths (bootstrap_captures w)) = Some t \<Longrightarrow> pathname (loc w) = (js ''/accept-invitation'') \<and> canonical_reset t"
  "setupAuthority (auths (bootstrap_captures w)) = Some t \<Longrightarrow> pathname (loc w) = (js ''/setup'') \<and> length t = 43 \<and> b64 t"
  by (auto simp: bootstrap_auths canonical_reset_iff canonical_setup_iff dest!: captured)


definition exampleToken :: jstr where
  "exampleToken = (js ''v1.'') @ replicate 22 0x41 @ (js ''.'') @ replicate 43 0x41"

definition exampleWindow :: window where
  "exampleWindow = \<lparr>auths = no_authorities, loc = \<lparr>pathname = (js ''/reset-password''), search = [], hash = (js ''#token='') @ exampleToken\<rparr>\<rparr>"

definition exampleChoice :: NewPassword where
  "exampleChoice = \<lparr>chosenPassword = (js ''Secret-42''), chosenAgain = (js ''Secret-42'')\<rparr>"

lemma example_captured: "passwordResetAuthority (auths (bootstrap_captures exampleWindow)) = Some exampleToken"
proof -
  have "b64 (replicate 22 0x41)" "b64 (replicate 43 0x41)" by (simp_all add: b64_def alnum_def)
  then have t: "canonical_reset exampleToken" unfolding canonical_reset_def exampleToken_def
    by (intro exI [of _ "replicate 22 0x41"] exI [of _ "replicate 43 0x41"]) simp
  show ?thesis
    using captureAuthority_token [OF canonical_reset_plain [OF t], of isCanonicalPasswordResetAuthority "loc exampleWindow"] t
    by (simp add: bootstrap_auths canonical_reset_iff exampleWindow_def)
qed

lemma example_choice: "newPasswordSchema id exampleChoice = []"
proof -
  have "strongPassword (id (js ''Secret-42''))" by (simp add: strongPassword_def Let_def js_eval isPasswordSpecial_def high_surrogate_def)
  then show ?thesis by (simp add: newPasswordSchema_def passwordResetFormSchema_def exampleChoice_def validatePassword_accepts)
qed

lemma example_link_request:
  "snd (authRun (resetStep id) (openReset (auths (bootstrap_captures exampleWindow))) [Fill exampleChoice Map.empty, Submit])
   = [resetMethod id exampleToken exampleChoice]"
  using example_choice
  by (simp add: openReset_def getPasswordResetAuthority_def example_captured newLinkPage_def linkView_def exampleToken_def js_eval
      fill_def handleSubmit_def emptyAuthForm_def)


text \<open>
  C5. A token is used up once: after the server has accepted the request, or has refused it because of the token, or the page
  has been left, the page sends nothing more, whatever happens on it, and the module does not keep the token.
\<close>

theorem link_tokens_spent:
  assumes "resetEnds v e" "invitationEnds v' e'" "setupEnds x d"
  shows "snd (authRun (resetStep nfc) (fst (resetStep nfc v e)) es) = []
       \<and> passwordResetAuthority (fst (fst (authRun (resetStep nfc) (fst (resetStep nfc v e)) es))) = None
     \<and> snd (authRun (invitationStep nfc) (fst (invitationStep nfc v' e')) es) = []
       \<and> invitationAuthority (fst (fst (authRun (invitationStep nfc) (fst (invitationStep nfc v' e')) es))) = None
     \<and> snd (authRun (setupStep nfc l) (fst (setupStep nfc l x d)) ds) = []
       \<and> setupAuthority (fst (fst (authRun (setupStep nfc l) (fst (setupStep nfc l x d)) ds))) = None"
  using reset_link.nothing_after_end [OF assms(1)] invitation_link.nothing_after_end [OF assms(2)]
    setup_link.nothing_after_end [OF assms(3)] by (simp only: simp_thms)

definition exampleVisit :: linkVisit where
  "exampleVisit = (\<lparr>setupAuthority = None, passwordResetAuthority = Some (js ''v1''), invitationAuthority = Some (js ''v1'')\<rparr>,
     Some ((newLinkPage (Some (js ''v1'')))\<lparr>linkForm := (emptyAuthForm noPassword)\<lparr>sending := Some noPassword\<rparr>\<rparr>))"

definition exampleSetupVisit :: setupVisit where
  "exampleSetupVisit = (\<lparr>setupAuthority = Some (js ''x''), passwordResetAuthority = None, invitationAuthority = None\<rparr>,
     Some \<lparr>setupLoaded = (Some (js ''required''), None), setupToken = Some (js ''x''),
       setupForm = (emptyAuthForm noSetupValues)\<lparr>sending := Some noSetupValues\<rparr>\<rparr>)"

theorem link_tokens_spent_witness:
  "snd (authRun (resetStep id) (fst (resetStep id exampleVisit Accepted)) [Submit]) = []
   \<and> snd (authRun (invitationStep id) (fst (invitationStep id exampleVisit Leave)) [Submit]) = []
   \<and> snd (authRun (setupStep id (js ''en'')) (fst (setupStep id (js ''en'') exampleSetupVisit (OnPage Accepted))) [OnPage Submit]) = []"
proof -
  have "resetEnds exampleVisit Accepted" "invitationEnds exampleVisit Leave" "setupEnds exampleSetupVisit (OnPage Accepted)"
    by (simp_all add: exampleVisit_def exampleSetupVisit_def)
  from link_tokens_spent [OF this, of id "[Submit]" "(js ''en'')" "[OnPage Submit]"] show ?thesis by (simp only: simp_thms)
qed

section \<open>What the forms send\<close>

definition sentName :: "(jstr \<Rightarrow> jstr) \<Rightarrow> json \<Rightarrow> bool" where
  "sentName nfc j \<longleftrightarrow> (\<exists>n. strField (js ''name'') j = Some n \<and> normalizeName nfc n = n \<and> validateName nfc n = [])"

definition sentEmail :: "json \<Rightarrow> bool" where
  "sentEmail j \<longleftrightarrow> (\<exists>e. strField (js ''email'') j = Some e \<and> validAddress e)"

definition sentPassword :: "(jstr \<Rightarrow> jstr) \<Rightarrow> json \<Rightarrow> bool" where
  "sentPassword nfc j \<longleftrightarrow> (\<exists>p. strField (js ''password'') j = Some p \<and> nfc p = p \<and> strongPassword p)"

definition sentLoginPassword :: "json \<Rightarrow> bool" where
  "sentLoginPassword j \<longleftrightarrow> (\<exists>p. strField (js ''password'') j = Some p \<and> p \<noteq> [] \<and> length (codePoints p) \<le> 128)"

fun sentCredentials :: "(jstr \<Rightarrow> jstr) \<Rightarrow> apiMethod \<Rightarrow> bool" where
  "sentCredentials nfc (Session (Setup j)) \<longleftrightarrow> sentName nfc j \<and> sentEmail j \<and> sentPassword nfc j"
| "sentCredentials nfc (Session (Login j)) \<longleftrightarrow> sentEmail j \<and> sentLoginPassword j"
| "sentCredentials nfc (Links (RequestPasswordReset j)) \<longleftrightarrow> sentEmail j"
| "sentCredentials nfc (Links (CompletePasswordReset j)) \<longleftrightarrow> sentPassword nfc j"
| "sentCredentials nfc (Links (AcceptInvitation j)) \<longleftrightarrow> sentPassword nfc j"
| "sentCredentials nfc _ \<longleftrightarrow> False"

lemma valid_email: "validateEmail s = [] \<longleftrightarrow> validAddress (normalizeEmail s)"
  by (simp add: validateEmail_accepts normalizeEmail_def)

lemma valid_password: "validatePassword nfc s = [] \<longleftrightarrow> strongPassword (nfc s)"
  by (simp add: validatePassword_accepts)

lemma valid_login_password:
  "validateLoginPassword nfc s = [] \<longleftrightarrow> nfc s \<noteq> [] \<and> length (codePoints (nfc s)) \<le> 128"
  by (auto simp: validateLoginPassword_def normalizePassword_def Let_def)

lemma valid_name: "normalizer nfc \<Longrightarrow> validateName nfc (normalizeName nfc s) = validateName nfc s"
  unfolding validateName_def by (simp only: normalizeName_idem)

lemmas sent_fields = strField_def sentName_def sentEmail_def sentPassword_def sentLoginPassword_def map_of_js_hit map_of_js_miss

lemma login_sent:
  assumes "m \<in> set (snd (submitLogin nfc l f))"
  shows "sentCredentials nfc m"
proof -
  obtain g where "handleSubmit (loginFormSchema nfc) (loginMethod nfc l) (f\<lparr>formFailure := None\<rparr>) = (g, [m])"
    using assms by (auto simp: submitLogin_def handleSubmit_def Let_def split: if_splits)
  from handleSubmit_sent [OF this, of m] show ?thesis
    by (simp add: loginMethod_def loginFormSchema_def normalizeLoginValues_def normalizePassword_def valid_email
        valid_login_password sent_fields)
qed

lemma reset_request_sent: "m \<in> set (snd (submitResetRequest s)) \<Longrightarrow> sentCredentials nfc m"
  by (auto simp: submitResetRequest_def resetRequestMethod_def passwordResetRequestFormSchema_def
      normalizePasswordResetRequestValues_def valid_email sent_fields split: if_splits prod.splits dest!: handleSubmit_sent)

lemmas sent_values = newPasswordSchema_def passwordResetFormSchema_def setupFormSchema_def normalizeSetupValues_def valid_email
  valid_password valid_name normalizePasswordResetValues_def normalizePassword_def normalizer_idem normalizeName_idem

lemma reset_sent: "\<lbrakk>normalizer nfc; m \<in> set (snd (resetStep nfc v e))\<rbrakk> \<Longrightarrow> sentCredentials nfc m"
  by (cases "(nfc, v, e)" rule: resetStep.cases)
    (auto simp: tokens_in sent_values sent_fields split: linkView.splits prod.splits if_splits dest!: handleSubmit_sent)

lemma invitation_sent: "\<lbrakk>normalizer nfc; m \<in> set (snd (invitationStep nfc v e))\<rbrakk> \<Longrightarrow> sentCredentials nfc m"
  by (cases "(nfc, v, e)" rule: invitationStep.cases)
    (auto simp: tokens_in sent_values sent_fields split: linkView.splits prod.splits if_splits dest!: handleSubmit_sent)

lemma setup_sent: "\<lbrakk>normalizer nfc; m \<in> set (snd (setupStep nfc l w d))\<rbrakk> \<Longrightarrow> sentCredentials nfc m"
  by (cases "(nfc, l, w, d)" rule: setupStep.cases)
    (auto simp: tokens_in sent_values sent_fields split: setupView.splits prod.splits if_splits option.splits dest!: handleSubmit_sent)


definition exampleSubmit :: linkVisit where
  "exampleSubmit = (no_authorities, Some ((newLinkPage (Some exampleToken))\<lparr>linkForm := emptyAuthForm exampleChoice\<rparr>))"

lemma example_submit: "snd (resetStep (\<lambda>s. s) exampleSubmit Submit) = [resetMethod (\<lambda>s. s) exampleToken exampleChoice]"
  using example_choice
  by (simp add: exampleSubmit_def newLinkPage_def linkView_def exampleToken_def js_eval handleSubmit_def emptyAuthForm_def id_def)


section \<open>Failures\<close>

text \<open>The errors that a failed request leaves at the fields.\<close>

lemma setErrors_fields: "fieldErrors (setErrors es f) = fieldErrors f ++ map_of (rev es)"
  unfolding setErrors_def
proof (induction es arbitrary: f)
  case (Cons e es)
  then show ?case by (cases e) (simp add: map_add_def fun_eq_iff split: option.splits)
qed simp

lemma namedProblems_found:
  "\<lbrakk>n \<in> set names; fieldProblemFor e (0x2F # n) = Some p; distinct names\<rbrakk> \<Longrightarrow>
    map_of (rev (namedProblems e names)) n = Some (fcode p)"
proof (induction names)
  case (Cons x names)
  have d: "n \<notin> fst ` set (namedProblems e ns)" if "n \<notin> set ns" for ns
    using that by (auto simp: namedProblems_def List.map_filter_def)
  show ?case
  proof (cases "x = n")
    case True
    then have "map_of (rev (namedProblems e names)) n = None"
      using d [of names] Cons.prems(3) by (simp add: map_of_eq_None_iff)
    then show ?thesis
      using True Cons.prems by (simp add: namedProblems_def List.map_filter_simps map_add_def)
  next
    case False
    then show ?thesis
      using Cons by (auto simp: namedProblems_def List.map_filter_simps map_add_def split: option.splits)
  qed
qed simp

text \<open>A failure is shown: in the alert or at a field, and every field that the server refuses has an error.\<close>

definition failureShown :: "jstr list \<Rightarrow> thrown \<Rightarrow> 'v AuthForm \<Rightarrow> bool" where
  "failureShown names e f \<longleftrightarrow> sending f = None \<and> (formFailure f = Some e \<or> (\<exists>n\<in>set names. fieldErrors f n \<noteq> None))
     \<and> (\<forall>n\<in>set names. fieldProblemFor e (0x2F # n) \<noteq> None \<longrightarrow> fieldErrors f n \<noteq> None)"

lemma named_fields:
  assumes "n \<in> set names" "fieldProblemFor e (0x2F # n) \<noteq> None" "distinct names"
  shows "fieldErrors (setErrors (namedProblems e names) f) n \<noteq> None"
  using namedProblems_found [OF assms(1) _ assms(3)] assms(2) by (auto simp: setErrors_fields map_add_Some_iff)

lemma named_in: "x \<in> set (namedProblems e names) \<Longrightarrow> fst x \<in> set names \<and> fieldProblemFor e (0x2F # fst x) \<noteq> None"
  by (auto simp: namedProblems_def List.map_filter_def)

lemma alert_shown:
  assumes "distinct names"
  shows "failureShown names e ((setErrors (namedProblems e names) (requestDone f))\<lparr>formFailure := Some e\<rparr>)"
    and "failureShown names e (setErrors (namedProblems e names) ((requestDone f)\<lparr>formFailure := Some e\<rparr>))"
proof -
  have f: "\<forall>n\<in>set names. fieldProblemFor e (0x2F # n) \<noteq> None \<longrightarrow> fieldErrors (setErrors (namedProblems e names) g) n \<noteq> None" for g
    using named_fields [OF _ _ assms] by blast
  have s: "sending (requestDone f) = None" by (simp add: requestDone_def)
  show "failureShown names e ((setErrors (namedProblems e names) (requestDone f))\<lparr>formFailure := Some e\<rparr>)"
    using f [of "requestDone f"] s by (simp add: failureShown_def)
  show "failureShown names e (setErrors (namedProblems e names) ((requestDone f)\<lparr>formFailure := Some e\<rparr>))"
    using f [of "(requestDone f)\<lparr>formFailure := Some e\<rparr>"] s by (simp add: failureShown_def)
qed

lemma login_message_fields: "fst (loginMessage nfc v x) = fst x"
  by (simp add: loginMessage_def)

lemma login_shown: "failureShown [(js ''email''), (js ''password'')] e (loginFailed nfc e f)"
proof -
  let ?ns = "[(js ''email''), (js ''password'')]"
  let ?found = "map (loginMessage nfc (the (sending f))) (namedProblems e ?ns)"
  let ?g = "setErrors ?found (requestDone f)"
  have set_field: "fieldErrors ?g n \<noteq> None" if "n \<in> fst ` set ?found" for n
    using that unfolding setErrors_fields by (auto simp: map_add_def map_of_eq_None_iff image_iff split: option.splits)
  have refused: "n \<in> fst ` set ?found" if "n \<in> set ?ns" "fieldProblemFor e (0x2F # n) \<noteq> None" for n
  proof -
    have "distinct ?ns" by simp
    from that(2) obtain p where "fieldProblemFor e (0x2F # n) = Some p" by blast
    from namedProblems_found [OF that(1) this \<open>distinct ?ns\<close>] have "(n, fcode p) \<in> set (namedProblems e ?ns)"
      by (auto dest: map_of_SomeD)
    then have "loginMessage nfc (the (sending f)) (n, fcode p) \<in> set ?found" by auto
    then show ?thesis using login_message_fields [of nfc "the (sending f)" "(n, fcode p)"] by (metis fst_conv imageI)
  qed
  have sent: "sending ?g = None" by (simp add: requestDone_def)
  show ?thesis
  proof (cases "?found = []")
    case True
    then have "loginFailed nfc e f = ?g\<lparr>formFailure := Some e\<rparr>" unfolding loginFailed_def Let_def by simp
    then show ?thesis using set_field refused sent by (simp add: failureShown_def)
  next
    case False
    then have l: "loginFailed nfc e f = ?g" unfolding loginFailed_def Let_def by simp
    from False obtain x where x: "x \<in> set (namedProblems e ?ns)" by (cases "namedProblems e ?ns") auto
    then have "fst x \<in> fst ` set ?found" using refused named_in [OF x] by blast
    then have "\<exists>n\<in>set ?ns. fieldErrors ?g n \<noteq> None" using set_field named_in [OF x] by blast
    then show ?thesis unfolding l failureShown_def using set_field refused sent by blast
  qed
qed


text \<open>
  C39. A failure that is not the token's leaves the link usable: on the page that shows its form, the next valid
  submission is sent with the same token.
\<close>

theorem failed_links_retry:
  assumes "linkView s = LinkOpen t" "sending (linkForm s) \<noteq> None" "newPasswordSchema nfc v = []"
    and "setupView p = SetupOpen u" "sending (setupForm p) \<noteq> None" "setupFormSchema nfc w = []"
  shows "(\<not> isInvalidPasswordResetToken e \<longrightarrow>
      snd (authRun (resetStep nfc) (a, Some s) [Failed e, Fill v errs, Submit]) = [resetMethod nfc t v])
    \<and> (\<not> isInvalidInvitation e \<longrightarrow>
      snd (authRun (invitationStep nfc) (a, Some s) [Failed e, Fill v errs, Submit]) = [invitationMethod nfc t v])
    \<and> (\<not> isInvalidSetupToken e \<and> \<not> isSetupComplete e \<longrightarrow>
      snd (authRun (setupStep nfc l) (c, Some p) [OnPage (Failed e), OnPage (Fill w errs), OnPage Submit]) = [setupMethod nfc l u w])"
  using assms unfolding linkView_def setupView_def
  by (auto simp: resetFailed_def invitationFailed_def setupFailed_def Let_def handleSubmit_def fill_def requestDone_def linkView_def setupView_def
      split: if_splits prod.splits option.splits)

definition exampleNewPassword :: NewPassword where
  "exampleNewPassword = \<lparr>chosenPassword = (js ''Secret-42''), chosenAgain = (js ''Secret-42'')\<rparr>"

lemma example_password: "strongPassword (js ''Secret-42'')"
  by (simp add: strongPassword_def Let_def js_eval isPasswordSpecial_def high_surrogate_def)

lemma example_new_password: "newPasswordSchema (\<lambda>s. s) exampleNewPassword = []"
  by (simp add: newPasswordSchema_def passwordResetFormSchema_def exampleNewPassword_def valid_password example_password)

lemma example_trims: "trim (js '' Ann '') = (js ''Ann'')" "trim (js '' a@b.c '') = (js ''a@b.c'')"
  by (simp_all add: trim_def ws_char_def js_eval)

lemma example_address: "validAddress (js ''a@b.c'')"
proof -
  have e: "(js ''a@b.c'') = (js ''a'') @ (js ''@'') @ (js ''b.c'')" by (simp add: js_eval)
  have "0x40 \<notin> set (js ''a'') \<union> set (js ''b.c'')" "(js ''a'') \<noteq> []" "(js ''b.c'') \<noteq> []" by (simp_all add: js_eval)
  with e have "\<exists>u v. (js ''a@b.c'') = u @ (js ''@'') @ v \<and> u \<noteq> [] \<and> v \<noteq> [] \<and> 0x40 \<notin> set u \<union> set v" by blast
  moreover have "\<not> sublist (js ''..'') (js ''a@b.c'')" by (simp add: js_eval sublist_Cons_right)
  moreover have "length (js ''a@b.c'') \<le> 254 \<and> (\<forall>c\<in>set (js ''a@b.c''). c \<le> 127 \<and> \<not> ws_char c)" by (simp add: js_eval ws_char_def)
  ultimately show ?thesis unfolding validAddress_def by blast
qed

lemma example_name: "validateName (\<lambda>s. s) (js '' Ann '') = []"
  unfolding validateName_def normalizeName_def example_trims by (simp add: isControlCharacter_def js_eval high_surrogate_def)

lemma example_setup: "setupFormSchema (\<lambda>s. s) exampleSetup = []"
  unfolding setupFormSchema_def exampleSetup_def
  by (simp add: valid_email valid_password example_password example_name normalizeEmail_def example_trims example_address)

theorem failed_links_retry_witness:
  "snd (authRun (resetStep (\<lambda>s. s)) exampleVisit [Failed OtherError, Fill exampleNewPassword Map.empty, Submit])
     = [resetMethod (\<lambda>s. s) (js ''v1'') exampleNewPassword]
   \<and> snd (authRun (setupStep (\<lambda>s. s) (js ''zh'')) exampleSetupVisit [OnPage (Failed OtherError), OnPage (Fill exampleSetup Map.empty), OnPage Submit])
     = [setupMethod (\<lambda>s. s) (js ''zh'') (js ''x'') exampleSetup]"
proof -
  obtain s p where v: "snd exampleVisit = Some s" "snd exampleSetupVisit = Some p"
    by (simp add: exampleVisit_def exampleSetupVisit_def)
  have "linkView s = LinkOpen (js ''v1'')" "sending (linkForm s) \<noteq> None" "setupView p = SetupOpen (js ''x'')" "sending (setupForm p) \<noteq> None"
    using v by (auto simp: exampleVisit_def exampleSetupVisit_def linkView_def setupView_def newLinkPage_def)
  from failed_links_retry [OF this(1,2) example_new_password this(3,4) example_setup, of OtherError "fst exampleVisit" Map.empty "(js ''zh'')" "fst exampleSetupVisit"]
  show ?thesis unfolding v [symmetric] by simp
qed

end
