(* ===== verification/AccessShell.thy ===== *)
theory AccessShell
  imports ReleaseJobs Problems ApiClient
begin

text \<open>
  The frame of the authenticated pages (\<open>features/auth/authenticated-shell.tsx\<close>): which menus and entries it offers, which
  of them is current, and the title; the guards of the pages behind the entries (\<open>routes/_authenticated/*.tsx\<close>,
  \<open>features/release/release-console.tsx\<close>); the kinds of failures (\<open>features/access/access-error.tsx\<close>); and the page
  of the users online (\<open>features/access/online-users-page.tsx\<close>). The user of the shell is the cached current user,
  which the loader of the pages has read.
\<close>

section \<open>Pages\<close>

record ShellUser = ConsoleUser +
  shellPermissions :: "jstr list option"
  shellLocale :: "jstr option"

datatype shellPage =
    HomePage | ReleasePage | ReleasesPage | DevicesPage | SchedulesPage | CompliancePage | AlertsPage | AuditPage | AssetsPage
  | UserList | InvitationList | RoleList | OnlineList | LogList | MailTaskList | SystemPage | PersonalPages

text \<open>The pages are finitely many, so a statement about all of them is computed.\<close>

instantiation shellPage :: enum
begin

definition enum_shellPage :: "shellPage list" where
  "enum_shellPage = [HomePage, ReleasePage, ReleasesPage, DevicesPage, SchedulesPage, CompliancePage, AlertsPage, AuditPage, AssetsPage,
     UserList, InvitationList, RoleList, OnlineList, LogList, MailTaskList, SystemPage, PersonalPages]"

definition enum_all_shellPage :: "(shellPage \<Rightarrow> bool) \<Rightarrow> bool" where
  "enum_all_shellPage P \<longleftrightarrow> list_all P enum_class.enum"

definition enum_ex_shellPage :: "(shellPage \<Rightarrow> bool) \<Rightarrow> bool" where
  "enum_ex_shellPage P \<longleftrightarrow> list_ex P enum_class.enum"

instance
proof
  show u: "UNIV = set (enum_class.enum :: shellPage list)"
  proof (rule set_eqI)
    fix x show "x \<in> UNIV \<longleftrightarrow> x \<in> set (enum_class.enum :: shellPage list)" by (cases x) (simp_all add: enum_shellPage_def)
  qed
  show "distinct (enum_class.enum :: shellPage list)" by (simp add: enum_shellPage_def)
  show "enum_class.enum_all P = Ball UNIV P" for P :: "shellPage \<Rightarrow> bool"
    unfolding enum_all_shellPage_def u by (simp add: list_all_iff)
  show "enum_class.enum_ex P = Bex UNIV P" for P :: "shellPage \<Rightarrow> bool"
    unfolding enum_ex_shellPage_def u by (simp add: list_ex_iff)
qed

end

lemma all_pages: "(\<forall>p. P p) \<longleftrightarrow> (\<forall>p\<in>set (enum_class.enum :: shellPage list). P p)"
  using enum_class.UNIV_enum by (metis UNIV_I)

fun pagePath :: "shellPage \<Rightarrow> jstr" where
  "pagePath HomePage = (js ''/'')"
| "pagePath ReleasePage = (js ''/release'')"
| "pagePath ReleasesPage = (js ''/releases'')"
| "pagePath DevicesPage = (js ''/devices'')"
| "pagePath SchedulesPage = (js ''/schedules'')"
| "pagePath CompliancePage = (js ''/compliance'')"
| "pagePath AlertsPage = (js ''/alerts'')"
| "pagePath AuditPage = (js ''/audit'')"
| "pagePath AssetsPage = (js ''/assets'')"
| "pagePath UserList = (js ''/users'')"
| "pagePath InvitationList = (js ''/invitations'')"
| "pagePath RoleList = (js ''/roles'')"
| "pagePath OnlineList = (js ''/online-users'')"
| "pagePath LogList = (js ''/operation-logs'')"
| "pagePath MailTaskList = (js ''/email-tasks'')"
| "pagePath SystemPage = (js ''/settings'')"
| "pagePath PersonalPages = (js ''/personal-settings'')"

section \<open>Access\<close>

definition hasAccess :: "ShellUser \<Rightarrow> jstr \<Rightarrow> bool" where
  "hasAccess u p = (userSuperAdmin u = Some True \<or> (case shellPermissions u of Some ps \<Rightarrow> p \<in> set ps | None \<Rightarrow> False))"

definition shellUserOf :: "ShellUser \<Rightarrow> ConsoleUser" where
  "shellUserOf u = ConsoleUser.truncate u"

text \<open>What a page does with a user: each route decides for itself.\<close>

datatype pageGuard = Opens | AccessDenied | AdminOnly | NeedsRelease

definition guarded :: "ShellUser \<Rightarrow> string \<Rightarrow> pageGuard" where
  "guarded u p = (if userSuperAdmin u \<noteq> Some True \<and> \<not> (case shellPermissions u of Some ps \<Rightarrow> js p \<in> set ps | None \<Rightarrow> False) then AccessDenied else Opens)"

definition adminPage :: "ShellUser \<Rightarrow> pageGuard" where
  "adminPage u = (if \<not> isAdmin (shellUserOf u) then AdminOnly else Opens)"

definition releasePageView :: "ShellUser \<Rightarrow> pageGuard" where
  "releasePageView u = (if \<not> canRelease (shellUserOf u) then NeedsRelease else Opens)"

fun pageOpening :: "ShellUser \<Rightarrow> shellPage \<Rightarrow> pageGuard" where
  "pageOpening u HomePage = Opens"
| "pageOpening u ReleasePage = releasePageView u"
| "pageOpening u ReleasesPage = releasePageView u"
| "pageOpening u DevicesPage = adminPage u"
| "pageOpening u SchedulesPage = adminPage u"
| "pageOpening u CompliancePage = adminPage u"
| "pageOpening u AlertsPage = adminPage u"
| "pageOpening u AuditPage = adminPage u"
| "pageOpening u AssetsPage = adminPage u"
| "pageOpening u UserList = guarded u ''users.read''"
| "pageOpening u InvitationList = guarded u ''invitations.read''"
| "pageOpening u RoleList = guarded u ''roles.read''"
| "pageOpening u OnlineList = guarded u ''online-users.read''"
| "pageOpening u LogList = guarded u ''operation-logs.read''"
| "pageOpening u MailTaskList = guarded u ''mail-tasks.read''"
| "pageOpening u SystemPage = guarded u ''settings.read''"
| "pageOpening u PersonalPages = Opens"

text \<open>What the pages let the user manage.\<close>

definition managesUsers :: "ShellUser \<Rightarrow> bool" where
  "managesUsers u = (userSuperAdmin u = Some True \<or> hasAccess u (js ''users.read'') \<and> hasAccess u (js ''users.write''))"

definition managesInvitations :: "ShellUser \<Rightarrow> bool" where
  "managesInvitations u = (userSuperAdmin u = Some True \<or> hasAccess u (js ''invitations.write'') \<and> hasAccess u (js ''roles.read''))"

definition managesRoles :: "ShellUser \<Rightarrow> bool" where
  "managesRoles u = (userSuperAdmin u = Some True \<or> hasAccess u (js ''roles.read'') \<and> hasAccess u (js ''roles.write''))"

definition managesSessions :: "ShellUser \<Rightarrow> bool" where
  "managesSessions u = hasAccess u (js ''online-users.write'')"

definition managesMail :: "ShellUser \<Rightarrow> bool" where
  "managesMail u = hasAccess u (js ''mail-tasks.write'')"

definition managesSettings :: "ShellUser \<Rightarrow> bool" where
  "managesSettings u = hasAccess u (js ''settings.write'')"

section \<open>The menu\<close>

record MenuState =
  accessMenuOpen :: bool
  monitoringMenuOpen :: bool
  opsMenuOpen :: bool
  releaseMenuOpen :: bool

definition newMenu :: MenuState where
  "newMenu = \<lparr>accessMenuOpen = True, monitoringMenuOpen = True, opsMenuOpen = True, releaseMenuOpen = True\<rparr>"

definition isZh :: "ShellUser \<Rightarrow> bool" where
  "isZh u = (shellLocale u = Some (js ''zh-CN''))"

datatype menuLabel = Told jstr | Keyed jstr

definition releasePages :: "bool \<Rightarrow> (shellPage \<times> menuLabel) list" where
  "releasePages zh = [(ReleasePage, Told (if zh then ([0x89E3, 0x7ED1, 0x63A7, 0x5236, 0x53F0]) else (js ''Release console''))),
     (ReleasesPage, Told (if zh then ([0x89E3, 0x7ED1, 0x8BB0, 0x5F55]) else (js ''Release history'')))]"

definition opsPages :: "bool \<Rightarrow> (shellPage \<times> menuLabel) list" where
  "opsPages zh = [(DevicesPage, Told (if zh then ([0x8BBE, 0x5907]) else (js ''Devices''))), (SchedulesPage, Told (if zh then ([0x8BA1, 0x5212, 0x4EFB, 0x52A1]) else (js ''Schedules''))),
     (CompliancePage, Told (if zh then ([0x5408, 0x89C4, 0x68C0, 0x67E5]) else (js ''Compliance''))), (AlertsPage, Told (if zh then ([0x544A, 0x8B66]) else (js ''Alerts''))),
     (AuditPage, Told (if zh then ([0x5BA1, 0x8BA1, 0x65E5, 0x5FD7]) else (js ''Audit log''))), (AssetsPage, Told (if zh then ([0x8D44, 0x4EA7, 0x914D, 0x7F6E]) else (js ''Asset settings'')))]"

definition homeLabel :: "bool \<Rightarrow> menuLabel" where
  "homeLabel zh = Told (if zh then ([0x9996, 0x9875]) else (js ''Home''))"

definition releasePage :: "bool \<Rightarrow> jstr \<Rightarrow> (shellPage \<times> menuLabel) option" where
  "releasePage zh path = find (\<lambda>(p, l). path = pagePath p) (releasePages zh)"

definition opsPage :: "bool \<Rightarrow> jstr \<Rightarrow> (shellPage \<times> menuLabel) option" where
  "opsPage zh path = find (\<lambda>(p, l). startsWith path (pagePath p)) (opsPages zh)"

definition accessMenuActive :: "jstr \<Rightarrow> bool" where
  "accessMenuActive path = (startsWith path (js ''/users'') \<or> startsWith path (js ''/invitations'') \<or> startsWith path (js ''/roles''))"

definition monitoringMenuActive :: "jstr \<Rightarrow> bool" where
  "monitoringMenuActive path =
     (startsWith path (js ''/online-users'') \<or> startsWith path (js ''/operation-logs'') \<or> startsWith path (js ''/email-tasks''))"

text \<open>An entry with its label and whether it is current; the entries that are shown, in order.\<close>

definition plainEntry :: "jstr \<Rightarrow> shellPage \<Rightarrow> jstr \<Rightarrow> shellPage \<times> menuLabel \<times> bool" where
  "plainEntry path p key = (p, Keyed key, startsWith path (pagePath p))"

definition shownEntries :: "ShellUser \<Rightarrow> MenuState \<Rightarrow> jstr \<Rightarrow> (shellPage \<times> menuLabel \<times> bool) list" where
  "shownEntries u s path =
     (let zh = isZh u; rp = releasePage zh path; op = opsPage zh path;
          home = [(HomePage, homeLabel zh, path = (js ''/''))];
          release = (if canRelease (shellUserOf u) \<and> (releaseMenuOpen s \<or> rp \<noteq> None)
            then map (\<lambda>(p, l). (p, l, map_option fst rp = Some p)) (releasePages zh) else []);
          ops = (if isAdmin (shellUserOf u) \<and> (opsMenuOpen s \<or> op \<noteq> None)
            then map (\<lambda>(p, l). (p, l, map_option fst op = Some p)) (opsPages zh) else []);
          access = (if accessMenuOpen s \<or> accessMenuActive path then
              (if hasAccess u (js ''users.read'') then [plainEntry path UserList (js ''access:users'')] else []) @
              (if hasAccess u (js ''invitations.read'') then [plainEntry path InvitationList (js ''access:invitations'')] else []) @
              (if hasAccess u (js ''roles.read'') then [plainEntry path RoleList (js ''access:roles'')] else []) else []);
          monitoring = (if monitoringMenuOpen s \<or> monitoringMenuActive path then
              (if hasAccess u (js ''online-users.read'') then [plainEntry path OnlineList (js ''onlineUsers:title'')] else []) @
              (if hasAccess u (js ''operation-logs.read'') then [plainEntry path LogList (js ''operationLog:title'')] else []) @
              (if hasAccess u (js ''mail-tasks.read'') then [plainEntry path MailTaskList (js ''emailTasks:title'')] else []) else []);
          settings = (if hasAccess u (js ''settings.read'') then [plainEntry path SystemPage (js ''settings'')] else []);
          account = [plainEntry path PersonalPages (js ''personalSettings'')]
      in home @ release @ ops @ access @ monitoring @ settings @ account)"

datatype menuToggle = ToggleRelease | ToggleOps | ToggleAccess | ToggleMonitoring

fun toggleMenu :: "menuToggle \<Rightarrow> MenuState \<Rightarrow> MenuState" where
  "toggleMenu ToggleRelease s = s\<lparr>releaseMenuOpen := \<not> releaseMenuOpen s\<rparr>"
| "toggleMenu ToggleOps s = s\<lparr>opsMenuOpen := \<not> opsMenuOpen s\<rparr>"
| "toggleMenu ToggleAccess s = s\<lparr>accessMenuOpen := \<not> accessMenuOpen s\<rparr>"
| "toggleMenu ToggleMonitoring s = s\<lparr>monitoringMenuOpen := \<not> monitoringMenuOpen s\<rparr>"

definition frameTitle :: "bool \<Rightarrow> jstr \<Rightarrow> menuLabel" where
  "frameTitle zh path =
     (if startsWith path (js ''/personal-settings'') then Keyed (js ''personalSettings'')
      else if startsWith path (js ''/online-users'') then Keyed (js ''onlineUsers:title'')
      else if startsWith path (js ''/users'') then Keyed (js ''access:users'')
      else if startsWith path (js ''/invitations'') then Keyed (js ''access:invitations'')
      else if startsWith path (js ''/roles'') then Keyed (js ''access:roles'')
      else if startsWith path (js ''/settings'') then Keyed (js ''settings'')
      else if startsWith path (js ''/operation-logs'') then Keyed (js ''operationLog:title'')
      else if startsWith path (js ''/email-tasks'') then Keyed (js ''emailTasks:title'')
      else case opsPage zh path of Some (p, l) \<Rightarrow> l
           | None \<Rightarrow> (case releasePage zh path of Some (p, l) \<Rightarrow> l | None \<Rightarrow> homeLabel zh))"

subsection \<open>Menus and guards agree\<close>

lemma page_prefix: "startsWith (pagePath p) (pagePath r) \<longleftrightarrow> r = HomePage \<or> p = r \<or> p = ReleasesPage \<and> r = ReleasePage"
  by (cases p; cases r; simp add: js_eval)

lemma page_path_inj: "pagePath p = pagePath r \<longleftrightarrow> p = r"
  by (cases p; cases r; simp)

lemma superAdmin_has: "userSuperAdmin u = Some True \<Longrightarrow> hasAccess u p"
  by (simp add: hasAccess_def)

lemma guarded_iff: "guarded u p = Opens \<longleftrightarrow> hasAccess u (js p)"
  by (auto simp: guarded_def hasAccess_def)

lemma role_page_iff:
  "adminPage u = Opens \<longleftrightarrow> isAdmin (shellUserOf u)" "releasePageView u = Opens \<longleftrightarrow> canRelease (shellUserOf u)"
  by (simp_all add: adminPage_def releasePageView_def)

lemmas guards = guarded_iff role_page_iff

lemmas entries = shownEntries_def Let_def releasePages_def opsPages_def plainEntry_def

lemma shown_opens: "p \<in> fst ` set (shownEntries u s path) \<Longrightarrow> pageOpening u p = Opens"
  by (auto simp: entries guards split: if_splits)

lemma opens_shown: "pageOpening u p = Opens \<Longrightarrow> p \<in> fst ` set (shownEntries u newMenu path)"
  by (cases p) (simp_all add: entries guards newMenu_def image_Un)

lemma menu_active:
  "accessMenuActive (pagePath p) \<longleftrightarrow> p \<in> {UserList, InvitationList, RoleList}"
  "monitoringMenuActive (pagePath p) \<longleftrightarrow> p \<in> {OnlineList, LogList, MailTaskList}"
  by (cases p; simp add: accessMenuActive_def monitoringMenuActive_def js_eval)+

lemma menu_pages:
  "map_option fst (releasePage zh (pagePath p)) = (if p \<in> {ReleasePage, ReleasesPage} then Some p else None)"
  "map_option fst (opsPage zh (pagePath p)) =
     (if p \<in> {DevicesPage, SchedulesPage, CompliancePage, AlertsPage, AuditPage, AssetsPage} then Some p else None)"
  unfolding releasePage_def opsPage_def releasePages_def opsPages_def
  by (cases p; simp add: page_prefix page_path_inj del: pagePath.simps)+

lemma menu_pages_none:
  "releasePage zh (pagePath p) \<noteq> None \<longleftrightarrow> p \<in> {ReleasePage, ReleasesPage}"
  "opsPage zh (pagePath p) \<noteq> None \<longleftrightarrow> p \<in> {DevicesPage, SchedulesPage, CompliancePage, AlertsPage, AuditPage, AssetsPage}"
  using menu_pages [of zh p] by (auto split: if_splits)

lemma root_path: "pagePath p = (js ''/'') \<longleftrightarrow> p = HomePage"
  using page_path_inj [of p HomePage] by simp

lemma filter_if: "filter f (if b then xs else ys) = (if b then filter f xs else filter f ys)"
  by simp

text \<open>The title of each page is the label of its entry.\<close>

definition entryLabel :: "bool \<Rightarrow> shellPage \<Rightarrow> menuLabel" where
  "entryLabel zh p = (case map_of (releasePages zh @ opsPages zh @ [(UserList, Keyed (js ''access:users'')), (InvitationList, Keyed (js ''access:invitations'')),
     (RoleList, Keyed (js ''access:roles'')), (OnlineList, Keyed (js ''onlineUsers:title'')), (LogList, Keyed (js ''operationLog:title'')),
     (MailTaskList, Keyed (js ''emailTasks:title'')), (SystemPage, Keyed (js ''settings'')), (PersonalPages, Keyed (js ''personalSettings''))]) p of
       Some l \<Rightarrow> l | None \<Rightarrow> homeLabel zh)"

lemma title_label: "frameTitle zh (pagePath p) = entryLabel zh p"
  unfolding frameTitle_def entryLabel_def opsPage_def releasePage_def opsPages_def releasePages_def
  by (cases p) (simp_all add: js_eval)

lemma entries_labelled: "(p, l, c) \<in> set (shownEntries u s path) \<Longrightarrow> l = entryLabel (isZh u) p"
  by (auto simp: entries entryLabel_def split: if_splits)

definition current :: "shellPage \<times> menuLabel \<times> bool \<Rightarrow> bool" where
  "current e = snd (snd e)"

lemma menu_pages_missing:
  "(releasePage zh (pagePath p) = None) = (p \<notin> {ReleasePage, ReleasesPage})"
  "(opsPage zh (pagePath p) = None) = (p \<notin> {DevicesPage, SchedulesPage, CompliancePage, AlertsPage, AuditPage, AssetsPage})"
  using menu_pages_none [of zh p] by blast+

lemmas current_parts = entries root_path menu_active menu_pages menu_pages_missing page_prefix current_def filter_if if_distrib [of "map fst"]

lemma current_entries: "pageOpening u p = Opens \<Longrightarrow> map fst (filter current (shownEntries u s (pagePath p))) = [p]"
  by (cases p) (simp_all add: current_parts guards del: pagePath.simps not_None_eq)

text \<open>
  C29. The menu of the shell and the guards of the pages agree: with the menus open an entry is shown exactly when its page opens
  for the user, and no state of the menus shows an entry whose page does not open. On the page of an entry, however
  the menus were folded, its entry is shown, is the only current one, and has the title of the frame as its label.
\<close>

theorem menu_and_guards_agree:
  "(p \<in> fst ` set (shownEntries u newMenu path) \<longleftrightarrow> pageOpening u p = Opens)
   \<and> (p \<in> fst ` set (shownEntries u s path) \<longrightarrow> pageOpening u p = Opens)
   \<and> (pageOpening u p = Opens \<longrightarrow>
        filter current (shownEntries u s (pagePath p)) = [(p, frameTitle (isZh u) (pagePath p), True)])"
proof (intro conjI impI iffI)
  assume "pageOpening u p = Opens"
  then have one: "map fst (filter current (shownEntries u s (pagePath p))) = [p]" by (rule current_entries)
  then obtain l c where e: "filter current (shownEntries u s (pagePath p)) = [(p, l, c)]" by auto
  then have "(p, l, c) \<in> set (filter current (shownEntries u s (pagePath p)))" by simp
  then have "l = entryLabel (isZh u) p" "c" using entries_labelled by (auto simp: current_def)
  with e show "filter current (shownEntries u s (pagePath p)) = [(p, frameTitle (isZh u) (pagePath p), True)]"
    by (simp add: title_label)
qed (erule shown_opens opens_shown)+

definition exampleShellUser :: ShellUser where
  "exampleShellUser = \<lparr>userSuperAdmin = None, userRoles = None, shellPermissions = Some [(js ''users.read'')], shellLocale = None\<rparr>"

theorem menu_and_guards_agree_witness:
  "filter current (shownEntries exampleShellUser (toggleMenu ToggleAccess newMenu) (js ''/users'')) = [(UserList, Keyed (js ''access:users''), True)]"
proof -
  have "pageOpening exampleShellUser UserList = Opens" by (simp add: guards hasAccess_def exampleShellUser_def)
  with menu_and_guards_agree [of UserList exampleShellUser "(js ''/'')" "toggleMenu ToggleAccess newMenu"]
  have "filter current (shownEntries exampleShellUser (toggleMenu ToggleAccess newMenu) (pagePath UserList)) =
      [(UserList, entryLabel (isZh exampleShellUser) UserList, True)]"
    unfolding title_label by blast
  then show ?thesis by (simp add: entryLabel_def releasePages_def opsPages_def)
qed

section \<open>Kinds of failures\<close>

datatype failureKind = Forbidden | Conflict | Validation | Dependency

definition conflictCodes :: "jstr list" where
  "conflictCodes = [(js ''role_in_use''), (js ''role_immutable''), (js ''last_super_admin''), (js ''stale_revision''), (js ''role_already_exists''), (js ''invitation_pending'')]"

fun accessFailureKind :: "thrown \<Rightarrow> failureKind" where
  "accessFailureKind (ApiProblemError p) =
     (if status p = 403 \<or> code p = Some (js ''forbidden'') then Forbidden
      else if status p = 409 \<or> nullish (code p) [] \<in> set conflictCodes then Conflict
      else if status p = 422 \<or> code p = Some (js ''validation_failed'') then Validation
      else Dependency)"
| "accessFailureKind e = Dependency"

fun failureTitle :: "failureKind \<Rightarrow> jstr" where
  "failureTitle Forbidden = (js ''forbiddenTitle'')"
| "failureTitle Conflict = (js ''conflictTitle'')"
| "failureTitle Validation = (js ''validationTitle'')"
| "failureTitle Dependency = (js ''unavailableTitle'')"

definition failureDescription :: "thrown \<Rightarrow> jstr option \<Rightarrow> (msgkey \<Rightarrow> jstr) \<Rightarrow> jstr" where
  "failureDescription e override t =
     (case override of Some d \<Rightarrow> d
      | None \<Rightarrow> (case accessFailureKind e of
          Forbidden \<Rightarrow> t (Own (js ''forbiddenDescription''))
        | Dependency \<Rightarrow> t (Own (js ''unavailableDescription''))
        | _ \<Rightarrow> translateProblem e t))"

text \<open>The error that a page shows to a user without access.\<close>

definition deniedError :: thrown where
  "deniedError = ApiProblemError \<lparr>ptype = (js ''/problems/forbidden''), title = (js ''forbidden''), status = 403, code = Some (js ''forbidden''),
     detail = None, errors = None\<rparr>"

lemma denied_forbidden: "accessFailureKind deniedError = Forbidden" "isForbidden deniedError" "\<not> isUnauthenticated deniedError"
  by (simp_all add: deniedError_def)

text \<open>Losing the session or the account is not announced as a lack of rights.\<close>

lemma forbidden_kind: "accessFailureKind e = Forbidden \<longleftrightarrow> isForbidden e"
  by (cases e) auto

section \<open>Users online\<close>

record OnlineUser =
  onlineId :: jstr
  onlineName :: jstr
  onlineEmail :: jstr

record OnlinePage =
  onlineSearch :: jstr
  onlineTarget :: "OnlineUser option"
  kicking :: "OnlineUser option"

definition newOnlinePage :: OnlinePage where
  "newOnlinePage = \<lparr>onlineSearch = [], onlineTarget = None, kicking = None\<rparr>"

text \<open>The arguments \<open>may\<close> and \<open>failed\<close>: whether the user may end sessions, and whether the list could not be read.\<close>

definition clickForceSignOut :: "bool \<Rightarrow> bool \<Rightarrow> OnlineUser \<Rightarrow> OnlinePage \<Rightarrow> OnlinePage" where
  "clickForceSignOut may failed u s = (if \<not> may \<or> kicking s \<noteq> None \<or> failed then s else s\<lparr>onlineTarget := Some u\<rparr>)"

definition kickDialogOpen :: "bool \<Rightarrow> OnlinePage \<Rightarrow> bool" where
  "kickDialogOpen may s = (onlineTarget s \<noteq> None \<and> may)"

definition closeKickDialog :: "OnlinePage \<Rightarrow> OnlinePage" where
  "closeKickDialog s = (if kicking s = None then s\<lparr>onlineTarget := None\<rparr> else s)"

definition confirmForceSignOut :: "bool \<Rightarrow> bool \<Rightarrow> OnlinePage \<Rightarrow> OnlinePage \<times> sessionMethod option" where
  "confirmForceSignOut may failed s =
     (if \<not> kickDialogOpen may s \<or> kicking s \<noteq> None \<or> failed then (s, None)
      else case onlineTarget s of Some u \<Rightarrow> (s\<lparr>kicking := Some u\<rparr>, Some (KickUser (onlineId u))) | None \<Rightarrow> (s, None))"

definition forcedOut :: "OnlinePage \<Rightarrow> OnlinePage" where
  "forcedOut s = s\<lparr>onlineTarget := None, kicking := None\<rparr>"

definition forceSignOutFailed :: "OnlinePage \<Rightarrow> OnlinePage" where
  "forceSignOutFailed s = s\<lparr>kicking := None\<rparr>"

text \<open>What the dialog asks: one's own session is named as such.\<close>

definition confirmKey :: "jstr \<Rightarrow> OnlinePage \<Rightarrow> jstr" where
  "confirmKey actorID s = (if map_option onlineId (onlineTarget s) = Some actorID then (js ''confirmSelf'') else (js ''confirm''))"

datatype onlineEvent = Chosen OnlineUser | Kicked jstr | Settled

inductive online_step :: "bool \<Rightarrow> OnlinePage \<times> onlineEvent list \<Rightarrow> OnlinePage \<times> onlineEvent list \<Rightarrow> bool" for may where
  searches: "online_step may (s, es) (s\<lparr>onlineSearch := v\<rparr>, es)"
| chooses: "clickForceSignOut may failed u s = s' \<Longrightarrow>
    online_step may (s, es) (s', if onlineTarget s' = Some u then es @ [Chosen u] else es)"
| closes: "online_step may (s, es) (closeKickDialog s, es)"
| confirms: "confirmForceSignOut may failed s = (s', Some (KickUser i)) \<Longrightarrow> online_step may (s, es) (s', es @ [Kicked i])"
| succeeds: "kicking s \<noteq> None \<Longrightarrow> online_step may (s, es) (forcedOut s, es @ [Settled])"
| fails: "kicking s \<noteq> None \<Longrightarrow> online_step may (s, es) (forceSignOutFailed s, es @ [Settled])"

inductive_cases online_stepE: "online_step may (s, es) (s', es')"

fun lastChosen :: "onlineEvent list \<Rightarrow> OnlineUser option" where
  "lastChosen [] = None"
| "lastChosen (e # es) = (case lastChosen es of Some u \<Rightarrow> Some u | None \<Rightarrow> (case e of Chosen u \<Rightarrow> Some u | _ \<Rightarrow> None))"

definition underWay :: "onlineEvent list \<Rightarrow> bool" where
  "underWay es = foldl (\<lambda>b e. case e of Kicked i \<Rightarrow> True | Settled \<Rightarrow> False | Chosen u \<Rightarrow> b) False es"

definition soundKick :: "bool \<Rightarrow> onlineEvent list \<Rightarrow> jstr \<Rightarrow> bool" where
  "soundKick may before i \<longleftrightarrow> may \<and> map_option onlineId (lastChosen before) = Some i \<and> \<not> underWay before"

definition soundKicks :: "bool \<Rightarrow> onlineEvent list \<Rightarrow> bool" where
  "soundKicks may es \<longleftrightarrow> (\<forall>before i after. es = before @ Kicked i # after \<longrightarrow> soundKick may before i)"

lemma lastChosen_snoc [simp]: "lastChosen (es @ [e]) = (case e of Chosen u \<Rightarrow> Some u | _ \<Rightarrow> lastChosen es)"
  by (induction es) (auto split: onlineEvent.splits option.splits)

lemma underWay_snoc [simp]: "underWay (es @ [e]) = (case e of Kicked i \<Rightarrow> True | Settled \<Rightarrow> False | Chosen u \<Rightarrow> underWay es)"
  by (cases e) (simp_all add: underWay_def)

lemma snoc_split: "es @ [e] = before @ x # after \<longleftrightarrow>
  after = [] \<and> es = before \<and> e = x \<or> (\<exists>a. after = a @ [e] \<and> es = before @ x # a)"
  by (cases after rule: rev_cases) auto

lemma soundKicks_snoc:
  "soundKicks may (es @ [e]) \<longleftrightarrow> soundKicks may es \<and> (case e of Kicked i \<Rightarrow> soundKick may es i | _ \<Rightarrow> True)"
  unfolding soundKicks_def snoc_split by (auto split: onlineEvent.splits)

definition goodOnline :: "bool \<Rightarrow> OnlinePage \<times> onlineEvent list \<Rightarrow> bool" where
  "goodOnline may x \<longleftrightarrow> (case x of (s, es) \<Rightarrow> soundKicks may es \<and> (kicking s \<noteq> None \<longleftrightarrow> underWay es)
     \<and> (kicking s \<noteq> None \<longrightarrow> kicking s = onlineTarget s) \<and> (onlineTarget s \<noteq> None \<longrightarrow> lastChosen es = onlineTarget s))"

lemma goodOnline_step:
  assumes "online_step may x y" "goodOnline may x"
  shows "goodOnline may y"
  using assms
proof (induction rule: online_step.induct)
  case (chooses failed u s s' es)
  then show ?case
    by (cases "may \<and> kicking s = None \<and> \<not> failed")
      (auto simp: goodOnline_def clickForceSignOut_def soundKicks_snoc split: if_splits)
next
  case (confirms failed s s' i es)
  then show ?case
    by (auto simp: goodOnline_def confirmForceSignOut_def kickDialogOpen_def soundKicks_snoc soundKick_def
        split: if_splits option.splits)
qed (auto simp: goodOnline_def closeKickDialog_def forcedOut_def forceSignOutFailed_def soundKicks_snoc)

lemma goodOnline_reached:
  assumes "(online_step may)\<^sup>*\<^sup>* (newOnlinePage, []) x"
  shows "goodOnline may x"
  using assms
proof (induction rule: rtranclp_induct)
  case base
  show ?case by (simp add: goodOnline_def newOnlinePage_def soundKicks_def underWay_def)
next
  case (step y z)
  then show ?case using goodOnline_step by blast
qed

text \<open>
  Sessions are ended only by users who may, only after choosing the user and confirming, and one at a time: each request
  names the user who was chosen last, no other request is under way then, and while it is the dialog keeps showing
  that user.
\<close>

theorem kicks_confirmed:
  assumes "(online_step may)\<^sup>*\<^sup>* (newOnlinePage, []) (s, es)" "es = before @ Kicked i # after"
  shows "may \<and> map_option onlineId (lastChosen before) = Some i \<and> \<not> underWay before
    \<and> (kicking s \<noteq> None \<longrightarrow> onlineTarget s = kicking s)"
  using goodOnline_reached [OF assms(1)] assms(2) by (auto simp: goodOnline_def soundKicks_def soundKick_def)

definition exampleOnline :: OnlineUser where
  "exampleOnline = \<lparr>onlineId = (js ''7''), onlineName = (js ''Eve''), onlineEmail = (js ''e@x'')\<rparr>"

lemma example_kick:
  "(online_step True)\<^sup>*\<^sup>* (newOnlinePage, []) (newOnlinePage\<lparr>onlineTarget := Some exampleOnline, kicking := Some exampleOnline\<rparr>, [Chosen exampleOnline, Kicked (js ''7'')])"
proof -
  let ?s = "newOnlinePage\<lparr>onlineTarget := Some exampleOnline\<rparr>"
  have "online_step True (newOnlinePage, []) (?s, [Chosen exampleOnline])"
    using chooses [of True False exampleOnline newOnlinePage ?s "[]"] by (simp add: clickForceSignOut_def newOnlinePage_def)
  moreover have "online_step True (?s, [Chosen exampleOnline]) (?s\<lparr>kicking := Some exampleOnline\<rparr>, [Chosen exampleOnline] @ [Kicked (js ''7'')])"
    by (rule confirms [of _ False]) (simp add: confirmForceSignOut_def kickDialogOpen_def newOnlinePage_def exampleOnline_def)
  ultimately show ?thesis by simp
qed

theorem kicks_confirmed_witness:
  "map_option onlineId (lastChosen [Chosen exampleOnline]) = Some (js ''7'') \<and> \<not> underWay [Chosen exampleOnline]"
  using kicks_confirmed [OF example_kick, of "[Chosen exampleOnline]" "(js ''7'')" "[]"] by simp

end
