(* ===== verification/DevicePages.thy ===== *)
theory DevicePages
  imports AccessShell AssetContract Ops QueryCache BulkImport JsonText TableState
begin

text \<open>
  The page of devices (\<open>routes/_authenticated/devices.tsx\<close>) and the list of the release history
  (\<open>routes/_authenticated/releases.tsx\<close>): filters kept in the address, runs of tasks with their confirmation,
  enabling and disabling, and the dialog that adds a switch. The query library and the router are the step
  relation's freedom to load a list at any time; the name that \<open>Number\<close> gives to a text is written out.
\<close>

section \<open>Lists whose filters are in the address\<close>

text \<open>\<open>Number\<close> on a text: \<open>None\<close> is \<open>NaN\<close> or an infinity.\<close>

definition radixValue :: "nat \<Rightarrow> jstr \<Rightarrow> rat option" where
  "radixValue base s =
     (let ds = map hexUnit s in
      if s \<noteq> [] \<and> list_all (\<lambda>d. case d of Some n \<Rightarrow> n < base | None \<Rightarrow> False) ds
      then Some (of_nat (foldl (\<lambda>v d. base * v + the d) 0 ds)) else None)"

definition decimalValue :: "jstr \<Rightarrow> rat option" where
  "decimalValue s =
     (let neg = (case s of c # _ \<Rightarrow> c = 0x2D | [] \<Rightarrow> False);
          u = (case s of c # w \<Rightarrow> if c = 0x2D \<or> c = 0x2B then w else s | [] \<Rightarrow> []);
          ds = takeWhile digit u;
          r = dropWhile digit u;
          fd = (case r of c # t \<Rightarrow> if c = 0x2E then takeWhile digit t else [] | [] \<Rightarrow> []);
          r' = (case r of c # t \<Rightarrow> if c = 0x2E then dropWhile digit t else r | [] \<Rightarrow> [])
      in if ds @ fd = [] then None
         else (case readExponent r' of
             Some (e, []) \<Rightarrow> (let v = of_nat (digits_val (ds @ fd)) * pow10 (e - int (length fd)) in doubleOf (if neg then - v else v))
           | _ \<Rightarrow> None))"

definition stringNumber :: "jstr \<Rightarrow> rat option" where
  "stringNumber s =
     (let t = trim s in
      if t = [] then Some 0
      else if startsWith t (js ''0x'') \<or> startsWith t (js ''0X'') then radixValue 16 (drop 2 t)
      else if startsWith t (js ''0o'') \<or> startsWith t (js ''0O'') then radixValue 8 (drop 2 t)
      else if startsWith t (js ''0b'') \<or> startsWith t (js ''0B'') then radixValue 2 (drop 2 t)
      else decimalValue t)"

text \<open>\<open>Number\<close> on any value: an array is first joined to a text.\<close>

fun jsNumber :: "json \<Rightarrow> rat option" where
  "jsNumber JNull = Some 0"
| "jsNumber (JBool b) = Some (if b then 1 else 0)"
| "jsNumber (JNum x) = Some x"
| "jsNumber (JStr s) = stringNumber s"
| "jsNumber (JArr []) = Some 0"
| "jsNumber (JArr [JBool b]) = None"
| "jsNumber (JArr [v]) = jsNumber v"
| "jsNumber (JArr (u # v # vs)) = None"
| "jsNumber (JObj fs) = None"

record PageSearch =
  searchFilters :: "(jstr \<times> jstr) list"
  searchPage :: "nat option"

definition textFilters :: "jstr list \<Rightarrow> (jstr \<times> json) list \<Rightarrow> (jstr \<times> jstr) list" where
  "textFilters keys search = concat (map (\<lambda>k. case map_of search k of
     Some (JStr v) \<Rightarrow> if v \<noteq> [] then [(k, v)] else [] | _ \<Rightarrow> []) keys)"

definition laterPage :: "json option \<Rightarrow> nat option" where
  "laterPage v = (case v of None \<Rightarrow> None
     | Some p \<Rightarrow> (case jsNumber p of None \<Rightarrow> None
         | Some x \<Rightarrow> if of_int \<lfloor>x\<rfloor> = x \<and> x > 1 then Some (nat \<lfloor>x\<rfloor>) else None))"

definition validateSearch :: "jstr list \<Rightarrow> (jstr \<times> json) list \<Rightarrow> PageSearch" where
  "validateSearch keys search =
     \<lparr>searchFilters = textFilters keys search, searchPage = laterPage (map_of search (js ''page''))\<rparr>"

definition deviceFilterKeys :: "jstr list" where
  "deviceFilterKeys = [(js ''q''), (js ''group''), (js ''vendor''), (js ''reachability''), (js ''backup''), (js ''state'')]"

definition historyFilterKeys :: "jstr list" where
  "historyFilterKeys = [(js ''q''), (js ''kind''), (js ''status'')]"

definition validateDeviceSearch :: "(jstr \<times> json) list \<Rightarrow> PageSearch" where
  "validateDeviceSearch = validateSearch deviceFilterKeys"

definition validateHistorySearch :: "(jstr \<times> json) list \<Rightarrow> PageSearch" where
  "validateHistorySearch = validateSearch historyFilterKeys"

text \<open>A filter of the address, and what the controls do to the address: every change of a filter leads back to the first page.\<close>

definition filterOf :: "PageSearch \<Rightarrow> jstr \<Rightarrow> jstr option" where
  "filterOf s k = map_of (searchFilters s) k"

definition filterBy :: "jstr \<Rightarrow> jstr option \<Rightarrow> PageSearch \<Rightarrow> PageSearch" where
  "filterBy k v s = s\<lparr>searchFilters := (case v of None \<Rightarrow> AList.delete k (searchFilters s)
     | Some x \<Rightarrow> AList.update k x (searchFilters s)), searchPage := None\<rparr>"

definition ANY :: jstr where
  "ANY = (js ''any'')"

definition chooseFilter :: "jstr \<Rightarrow> jstr \<Rightarrow> PageSearch \<Rightarrow> PageSearch" where
  "chooseFilter k v s = filterBy k (if v = ANY then None else Some v) s"

definition shownChoice :: "PageSearch \<Rightarrow> jstr \<Rightarrow> jstr" where
  "shownChoice s k = nullish (filterOf s k) ANY"

definition gotoPage :: "nat \<Rightarrow> PageSearch \<Rightarrow> PageSearch" where
  "gotoPage n s = s\<lparr>searchPage := (if n > 1 then Some n else None)\<rparr>"

text \<open>The effect 300 ms after the last change of the search box.\<close>

definition settleText :: "jstr \<Rightarrow> PageSearch \<Rightarrow> PageSearch" where
  "settleText text s =
     (if nullish (filterOf s (js ''q'')) [] \<noteq> trim text
      then filterBy (js ''q'') (if trim text = [] then None else Some (trim text)) s else s)"

definition currentPage :: "PageSearch \<Rightarrow> nat" where
  "currentPage s = nullish (searchPage s) 1"

definition isFiltered :: "jstr list \<Rightarrow> PageSearch \<Rightarrow> bool" where
  "isFiltered keys s = list_ex (\<lambda>k. truthy (filterOf s k)) keys"

text \<open>The requests of the two lists.\<close>

definition deviceParams :: "PageSearch \<Rightarrow> params" where
  "deviceParams s = params_set (js ''page'') (nat_str (currentPage s))
     (foldl (\<lambda>ps k. paramIf k (filterOf s k) ps) [] deviceFilterKeys)"

definition deviceQuery :: "PageSearch \<Rightarrow> opsQuery" where
  "deviceQuery s = OpsSwitches (params_str (deviceParams s))"

definition historyFilter :: "PageSearch \<Rightarrow> JobFilter" where
  "historyFilter s = \<lparr>filterQ = filterOf s (js ''q''), filterKind = filterOf s (js ''kind''), filterStatus = filterOf s (js ''status''),
     filterPage = Some (int (currentPage s)), filterPageSize = None\<rparr>"

definition historyQuery :: "PageSearch \<Rightarrow> releaseQuery" where
  "historyQuery s = JobHistory (historyFilter s)"

subsection \<open>What the lists keep\<close>

text \<open>A well-formed search: known keys, each once, with a value, and no page number for the first page.\<close>

definition searchOk :: "jstr list \<Rightarrow> PageSearch \<Rightarrow> bool" where
  "searchOk keys s \<longleftrightarrow> distinct (map fst (searchFilters s)) \<and> fst ` set (searchFilters s) \<subseteq> set keys
     \<and> [] \<notin> snd ` set (searchFilters s) \<and> (case searchPage s of None \<Rightarrow> True | Some n \<Rightarrow> n > 1)"

text \<open>The address as the router writes it.\<close>

definition addressOf :: "PageSearch \<Rightarrow> (jstr \<times> json) list" where
  "addressOf s = map (\<lambda>(k, v). (k, JStr v)) (searchFilters s)
     @ (case searchPage s of None \<Rightarrow> [] | Some n \<Rightarrow> [((js ''page''), JNum (of_nat n))])"

lemma textFilters_fst: "map fst (textFilters keys search) = filter (\<lambda>k. \<exists>v. map_of search k = Some (JStr v) \<and> v \<noteq> []) keys"
  unfolding textFilters_def by (induction keys) (auto split: option.splits json.splits)

lemma textFilters_set: "(k, v) \<in> set (textFilters keys search) \<longleftrightarrow> k \<in> set keys \<and> map_of search k = Some (JStr v) \<and> v \<noteq> []"
  unfolding textFilters_def by (auto split: option.splits json.splits if_splits)

lemma textFilters_of:
  assumes "distinct keys" "k \<in> set keys"
  shows "map_of (textFilters keys search) k = (case map_of search k of Some (JStr v) \<Rightarrow> if v \<noteq> [] then Some v else None | _ \<Rightarrow> None)"
proof -
  have d: "distinct (map fst (textFilters keys search))" using assms(1) by (simp add: textFilters_fst)
  show ?thesis
  proof (cases "map_of (textFilters keys search) k")
    case None
    then have "\<forall>v. (k, v) \<notin> set (textFilters keys search)" by (force simp: map_of_eq_None_iff)
    then show ?thesis using assms(2) None by (auto simp: textFilters_set split: option.splits json.splits)
  next
    case (Some v)
    then have "(k, v) \<in> set (textFilters keys search)" by (rule map_of_SomeD)
    then show ?thesis using Some by (simp add: textFilters_set)
  qed
qed

lemma laterPage_gt: "laterPage v = Some n \<Longrightarrow> n > 1"
  unfolding laterPage_def by (auto split: option.splits if_splits)

lemma searchOk_validate: "distinct keys \<Longrightarrow> searchOk keys (validateSearch keys search)"
  unfolding searchOk_def validateSearch_def
  by (auto simp: textFilters_fst textFilters_set dest: laterPage_gt split: option.split)

lemma set_update_subset: "set (AList.update k v xs) \<subseteq> insert (k, v) (set xs)"
  by (induction xs) auto

lemma set_delete_subset: "set (AList.delete k xs) \<subseteq> set xs"
  by (induction xs) auto

lemma searchOk_filterBy:
  assumes "searchOk keys s" "k \<in> set keys" "v \<noteq> Some []"
  shows "searchOk keys (filterBy k v s)"
proof (cases v)
  case None
  then show ?thesis
    using assms set_delete_subset [of k "searchFilters s"] unfolding searchOk_def filterBy_def
    by (simp add: distinct_delete) blast
next
  case (Some x)
  then show ?thesis
    using assms set_update_subset [of k x "searchFilters s"] unfolding searchOk_def filterBy_def
    by (simp add: distinct_update) force
qed

lemma filterOf_filterBy [simp]: "filterOf (filterBy k v s) k' = (if k' = k then v else filterOf s k')"
  by (simp add: filterOf_def filterBy_def update_conv' delete_conv' split: option.split)

lemma searchPage_filterBy [simp]: "searchPage (filterBy k v s) = None"
  by (simp add: filterBy_def)

text \<open>What the user does to a list, by its keys.\<close>

datatype listAction = Choose jstr jstr | SettleText jstr | GoTo nat

fun actOn :: "PageSearch \<Rightarrow> listAction \<Rightarrow> PageSearch" where
  "actOn s (Choose k v) = chooseFilter k v s"
| "actOn s (SettleText text) = settleText text s"
| "actOn s (GoTo n) = gotoPage n s"

fun actionOk :: "jstr list \<Rightarrow> listAction \<Rightarrow> bool" where
  "actionOk keys (Choose k v) = (k \<in> set keys \<and> v \<noteq> [])"
| "actionOk keys a = True"

lemma searchOk_act: "\<lbrakk>searchOk keys s; (js ''q'') \<in> set keys; actionOk keys a\<rbrakk> \<Longrightarrow> searchOk keys (actOn s a)"
  by (cases a) (auto simp: chooseFilter_def settleText_def gotoPage_def searchOk_filterBy, simp_all add: searchOk_def)

lemma searchOk_acts:
  "\<lbrakk>searchOk keys s; (js ''q'') \<in> set keys; list_all (actionOk keys) as\<rbrakk> \<Longrightarrow> searchOk keys (foldl actOn s as)"
  by (induction as arbitrary: s) (auto simp: searchOk_act)

lemma jsNumber_page: "n > 1 \<Longrightarrow> laterPage (Some (JNum (of_nat n))) = Some n"
  by (simp add: laterPage_def)

lemma addressOf_filter: "k \<noteq> (js ''page'') \<Longrightarrow> map_of (addressOf s) k = map_option JStr (filterOf s k)"
proof -
  assume k: "k \<noteq> (js ''page'')"
  have "map_of (map (\<lambda>(k, v). (k, JStr v)) fs) k = map_option JStr (map_of fs k)" for fs :: "(jstr \<times> jstr) list"
    by (induction fs) auto
  then show ?thesis using k unfolding addressOf_def filterOf_def by (auto simp: map_add_def split: option.split)
qed

lemma addressOf_page: "(js ''page'') \<notin> fst ` set (searchFilters s) \<Longrightarrow> map_of (addressOf s) (js ''page'') = map_option (\<lambda>n. JNum (of_nat n)) (searchPage s)"
proof -
  assume "(js ''page'') \<notin> fst ` set (searchFilters s)"
  then have "map_of (map (\<lambda>(k, v). (k, JStr v)) (searchFilters s)) (js ''page'') = None" by (force simp: map_of_eq_None_iff)
  then show ?thesis unfolding addressOf_def by (simp add: map_add_def split: option.split)
qed

subsection \<open>The request is the choice\<close>

text \<open>What a list means: the choice for every filter and the page, and what the actions do to it.\<close>

type_synonym listView = "(jstr \<Rightarrow> jstr option) \<times> nat"

definition searchView :: "PageSearch \<Rightarrow> listView" where
  "searchView s = (filterOf s, currentPage s)"

fun viewAct :: "listView \<Rightarrow> listAction \<Rightarrow> listView" where
  "viewAct (f, n) (Choose k v) = (f(k := if v = ANY then None else Some v), 1)"
| "viewAct (f, n) (SettleText text) =
     (if nullish (f (js ''q'')) [] = trim text then (f, n)
      else (f((js ''q'') := if trim text = [] then None else Some (trim text)), 1))"
| "viewAct (f, n) (GoTo m) = (f, max 1 m)"

lemma searchView_act: "searchView (actOn s a) = viewAct (searchView s) a"
  by (cases a) (auto simp: searchView_def currentPage_def chooseFilter_def settleText_def gotoPage_def fun_eq_iff filterOf_def [of "_\<lparr>searchPage := _\<rparr>"] filterOf_def [symmetric])

lemma searchView_acts: "searchView (foldl actOn s as) = foldl viewAct (searchView s) as"
  by (induction as arbitrary: s) (simp_all add: searchView_act)

lemma foldl_paramIf:
  "\<lbrakk>distinct keys; set keys \<inter> fst ` set ps = {}\<rbrakk> \<Longrightarrow>
   foldl (\<lambda>ps k. paramIf k (f k) ps) ps keys = ps @ concat (map (\<lambda>k. if truthy (f k) then [(k, the (f k))] else []) keys)"
proof (induction keys arbitrary: ps)
  case (Cons k keys)
  have "paramIf k (f k) ps = ps @ (if truthy (f k) then [(k, the (f k))] else [])"
    using Cons.prems(2) by (auto simp: paramIf_def params_set_fresh)
  then show ?case using Cons.prems by (subst foldl_Cons) (subst Cons.IH, auto)
qed simp

definition viewParams :: "listView \<Rightarrow> params" where
  "viewParams v = concat (map (\<lambda>k. if truthy (fst v k) then [(k, the (fst v k))] else []) deviceFilterKeys)
     @ [((js ''page''), nat_str (snd v))]"

lemma deviceParams_view: "deviceParams s = viewParams (searchView s)"
proof -
  have d: "distinct deviceFilterKeys" "(js ''page'') \<notin> set deviceFilterKeys" by (simp_all add: deviceFilterKeys_def)
  have "(js ''page'') \<notin> fst ` set (concat (map (\<lambda>k. if truthy (filterOf s k) then [(k, the (filterOf s k))] else []) deviceFilterKeys))"
    using d(2) by auto
  then show ?thesis
    unfolding deviceParams_def viewParams_def searchView_def fst_conv snd_conv using foldl_paramIf [OF d(1), of "[]"]
    by (simp add: params_set_fresh)
qed

lemma filterOf_validate: "filterOf (validateSearch keys a) k = map_of (textFilters keys a) k"
  by (simp add: filterOf_def validateSearch_def)

lemma same_address:
  assumes "searchOk keys s" "distinct keys" "(js ''page'') \<notin> set keys"
  shows "searchView (validateSearch keys (addressOf s)) = searchView s"
proof -
  have page: "(js ''page'') \<notin> fst ` set (searchFilters s)" using assms by (auto simp: searchOk_def)
  have "filterOf (validateSearch keys (addressOf s)) k = filterOf s k" for k
  proof (cases "k \<in> set keys")
    case True
    then have "k \<noteq> (js ''page'')" using assms(3) by auto
    moreover have "filterOf s k \<noteq> Some []"
      using assms(1) unfolding searchOk_def filterOf_def by (metis image_eqI map_of_SomeD snd_conv)
    ultimately show ?thesis
      using textFilters_of [OF assms(2) True, of "addressOf s"]
      by (auto simp: filterOf_validate addressOf_filter split: option.splits)
  next
    case False
    then have "filterOf s k = None" using assms(1) by (force simp: searchOk_def filterOf_def map_of_eq_None_iff)
    moreover have "k \<notin> fst ` set (textFilters keys (addressOf s))" using False by (auto simp: textFilters_set)
    ultimately show ?thesis by (simp add: filterOf_validate map_of_eq_None_iff)
  qed
  moreover have "searchPage (validateSearch keys (addressOf s)) = searchPage s"
    using assms(1) addressOf_page [OF page] jsNumber_page
    by (auto simp: validateSearch_def searchOk_def laterPage_def split: option.splits)
  ultimately show ?thesis by (simp add: searchView_def currentPage_def fun_eq_iff)
qed

text \<open>
  What the two lists have in common: whatever the actions, the search stays well-formed, means what was chosen, and is
  found again from its address.
\<close>

locale filtered_list =
  fixes keys :: "jstr list"
  assumes keys_distinct: "distinct keys"
    and keys_page: "(js ''page'') \<notin> set keys"
    and keys_text: "(js ''q'') \<in> set keys"
begin

lemma search_ok:
  "list_all (actionOk keys) as \<Longrightarrow> searchOk keys (foldl actOn (validateSearch keys raw) as)"
  by (intro searchOk_acts searchOk_validate keys_distinct keys_text)

lemma reload_keeps:
  "list_all (actionOk keys) as \<Longrightarrow>
   searchView (validateSearch keys (addressOf (foldl actOn (validateSearch keys raw) as)))
   = foldl viewAct (searchView (validateSearch keys raw)) as"
  using same_address [OF search_ok keys_distinct keys_page] by (simp add: searchView_acts)

end

interpretation device_list: filtered_list deviceFilterKeys
  by unfold_locales (simp_all add: deviceFilterKeys_def)

interpretation history_list: filtered_list historyFilterKeys
  by unfold_locales (simp_all add: historyFilterKeys_def)


definition exampleSearch :: PageSearch where
  "exampleSearch = \<lparr>searchFilters = [((js ''vendor''), (js ''cisco'')), ((js ''q''), (js ''sw''))], searchPage = None\<rparr>"

lemma example_acts:
  "exampleSearch = foldl actOn (validateDeviceSearch [((js ''page''), JStr (js ''2''))]) [Choose (js ''vendor'') (js ''cisco''), GoTo 3, SettleText (js ''sw '')]"
  by (simp add: exampleSearch_def validateDeviceSearch_def validateSearch_def textFilters_def deviceFilterKeys_def chooseFilter_def
      filterBy_def gotoPage_def settleText_def filterOf_def ANY_def trim_def ws_char_def js_eval)


section \<open>The page of devices\<close>

datatype TaskKind = ConfigBackup | ReachabilityCheck

fun taskKindText :: "TaskKind \<Rightarrow> jstr" where
  "taskKindText ConfigBackup = (js ''config_backup'')"
| "taskKindText ReachabilityCheck = (js ''reachability'')"

text \<open>A row of the list: the asset with what the worker knows of it.\<close>

record OpsSwitch = SwitchAsset +
  opsGroupName :: "jstr option"
  opsReachable :: "bool option"
  opsLatency :: "int option"
  opsReachabilityError :: "jstr option"
  opsConfigError :: "jstr option"
  opsLatestBackup :: "jstr option"
  opsComplianceFailed :: nat

definition rowTarget :: "OpsSwitch \<Rightarrow> EditTarget" where
  "rowTarget r = ASwitch (SwitchAsset.truncate r)"

definition protocolName :: "jstr option \<Rightarrow> jstr" where
  "protocolName p = (if p = Some (js ''ssh'') then (js ''SSH'') else (js ''Telnet''))"

definition loginPort :: "nat option \<Rightarrow> jstr option \<Rightarrow> nat" where
  "loginPort port protocol = nullish port (if protocol = Some (js ''ssh'') then 22 else 23)"

definition managementLine :: "OpsSwitch \<Rightarrow> jstr" where
  "managementLine r = protocolName (swProtocol r) @ (js '' '') @ nat_str (loginPort (swPort r) (swProtocol r))"

definition siteLine :: "OpsSwitch \<Rightarrow> jstr option" where
  "siteLine r = (if truthy (swSite r) \<or> truthy (swDescription r)
     then Some (joinWith (js '' '' @ [0xB7] @ js '' '') (map the (filter truthy [swSite r, swDescription r]))) else None)"

definition vendorLine :: "OpsSwitch \<Rightarrow> bool \<Rightarrow> jstr" where
  "vendorLine r zh = tmpl (vendorName (nullish (swVendor r) []) zh) @ (if truthy (swModel r) then (js '' '' @ [0xB7] @ js '' '') @ the (swModel r) else [])"

definition groupLine :: "OpsSwitch \<Rightarrow> bool \<Rightarrow> jstr" where
  "groupLine r zh = nullish (opsGroupName r) (pick zh ([0x672A, 0x5206, 0x7EC4]) (js ''No group''))"

text \<open>The cell of the latest backup: a failure hides the time of an older backup.\<close>

datatype backupCell = BackupFailed jstr | BackedUpAt jstr | NeverBackedUp

definition backupCell :: "OpsSwitch \<Rightarrow> bool \<Rightarrow> backupCell" where
  "backupCell r zh =
     (if truthy (serverText (opsConfigError r) zh) then BackupFailed (the (serverText (opsConfigError r) zh))
      else if truthy (opsLatestBackup r) then BackedUpAt (the (opsLatestBackup r)) else NeverBackedUp)"

definition complianceText :: "OpsSwitch \<Rightarrow> bool \<Rightarrow> jstr" where
  "complianceText r zh =
     (if opsComplianceFailed r \<noteq> 0 then pick zh (nat_str (opsComplianceFailed r) @ (js '' '' @ [0x9879, 0x672A, 0x901A, 0x8FC7])) (nat_str (opsComplianceFailed r) @ (js '' failing''))
      else ([0x2014]))"

definition emptyDevices :: "PageSearch \<Rightarrow> bool \<Rightarrow> jstr" where
  "emptyDevices s zh =
     (if isFiltered deviceFilterKeys s then pick zh ([0x6CA1, 0x6709, 0x7B26, 0x5408, 0x7B5B, 0x9009, 0x6761, 0x4EF6, 0x7684, 0x4EA4, 0x6362, 0x673A, 0x3002]) (js ''No switch matches these filters.'')
      else pick zh ([0x8FD8, 0x6CA1, 0x6709, 0x4EA4, 0x6362, 0x673A, 0x3002, 0x53EF, 0x4EE5, 0x9010, 0x53F0, 0x6DFB, 0x52A0, 0xFF0C, 0x6216, 0x7528] @ js '' CSV '' @ [0x6279, 0x91CF, 0x5BFC, 0x5165, 0x3002]) (js ''No switches yet. Add them one by one or import a CSV.''))"

subsection \<open>State and handlers\<close>

text \<open>
  Besides the fields of \<open>useState\<close>, the state holds what the reads have delivered: the rows of the list, and
  for the open details the switch with whether it is enabled.
\<close>

record DevicePage =
  pgSearch :: PageSearch
  pgText :: jstr
  pgBusy :: bool
  pgDetail :: "jstr option"
  pgEditing :: "OpsSwitch option"
  pgDisabling :: "OpsSwitch option"
  pgCreating :: bool
  pgImporting :: bool
  pgBulk :: "TaskKind option"
  pgRows :: "OpsSwitch list"
  pgShown :: "(jstr \<times> bool) option"

definition openDevices :: "PageSearch \<Rightarrow> DevicePage" where
  "openDevices s = \<lparr>pgSearch = s, pgText = nullish (filterOf s (js ''q'')) [], pgBusy = False, pgDetail = None, pgEditing = None,
     pgDisabling = None, pgCreating = False, pgImporting = False, pgBulk = None, pgRows = [], pgShown = None\<rparr>"

text \<open>What a run covers.\<close>

definition switchScope :: "jstr \<Rightarrow> (jstr \<times> json) list" where
  "switchScope i = [((js ''scope''), JStr (js ''switches'')), ((js ''switch_ids''), JArr [JStr i])]"

definition bulkScope :: "PageSearch \<Rightarrow> (jstr \<times> json) list" where
  "bulkScope s = (if truthy (filterOf s (js ''group'')) then [((js ''scope''), JStr (js ''group'')), ((js ''group_id''), JStr (the (filterOf s (js ''group''))))]
     else [((js ''scope''), JStr (js ''all''))])"

definition taskRequest :: "TaskKind \<Rightarrow> (jstr \<times> json) list \<Rightarrow> httpRequest" where
  "taskRequest kd body = opsRequest (js ''tasks'') (Some (JObj (((js ''kind''), JStr (taskKindText kd)) # body))) None"

definition statusRequest :: "OpsSwitch \<Rightarrow> bool \<Rightarrow> httpRequest" where
  "statusRequest r on = callAssets (targetPath (rowTarget r)) (Some (statusBody (rowTarget r) on)) (Some PATCH)"

definition runTask :: "TaskKind \<Rightarrow> (jstr \<times> json) list \<Rightarrow> DevicePage \<Rightarrow> DevicePage \<times> httpRequest option" where
  "runTask kd body p = (p\<lparr>pgBusy := True\<rparr>, Some (taskRequest kd body))"

definition setEnabled :: "OpsSwitch \<Rightarrow> bool \<Rightarrow> DevicePage \<Rightarrow> DevicePage \<times> httpRequest option" where
  "setEnabled r on p = (p\<lparr>pgBusy := True\<rparr>, Some (statusRequest r on))"

definition clickRun :: "TaskKind \<Rightarrow> OpsSwitch \<Rightarrow> DevicePage \<Rightarrow> DevicePage \<times> httpRequest option" where
  "clickRun kd r p = (if pgBusy p \<or> \<not> swEnabled r then (p, None) else runTask kd (switchScope (swId r)) p)"

definition clickDetailRun :: "TaskKind \<Rightarrow> DevicePage \<Rightarrow> DevicePage \<times> httpRequest option" where
  "clickDetailRun kd p = (case pgShown p of None \<Rightarrow> (p, None)
     | Some (i, enabled) \<Rightarrow> if pgBusy p \<or> \<not> enabled then (p, None) else runTask kd (switchScope i) p)"

definition clickBulk :: "TaskKind \<Rightarrow> DevicePage \<Rightarrow> DevicePage" where
  "clickBulk kd p = (if pgBusy p then p else p\<lparr>pgBulk := Some kd\<rparr>)"

definition confirmBulk :: "DevicePage \<Rightarrow> DevicePage \<times> httpRequest option" where
  "confirmBulk p = (case pgBulk p of None \<Rightarrow> (p, None) | Some kd \<Rightarrow> runTask kd (bulkScope (pgSearch p)) (p\<lparr>pgBulk := None\<rparr>))"

definition clickPower :: "OpsSwitch \<Rightarrow> DevicePage \<Rightarrow> DevicePage \<times> httpRequest option" where
  "clickPower r p = (if pgBusy p then (p, None) else if swEnabled r then (p\<lparr>pgDisabling := Some r\<rparr>, None) else setEnabled r True p)"

definition confirmDisable :: "DevicePage \<Rightarrow> DevicePage \<times> httpRequest option" where
  "confirmDisable p = (case pgDisabling p of None \<Rightarrow> (p, None) | Some r \<Rightarrow> setEnabled r False (p\<lparr>pgDisabling := None\<rparr>))"

definition clickEdit :: "OpsSwitch \<Rightarrow> DevicePage \<Rightarrow> DevicePage" where
  "clickEdit r p = (if pgBusy p then p else p\<lparr>pgEditing := Some r\<rparr>)"

definition saveEditRequest :: "jstr \<Rightarrow> json \<Rightarrow> httpRequest" where
  "saveEditRequest path body = callAssets path (Some body) (Some PATCH)"

text \<open>After saving: the next state, and whether the lists are read again; a conflict reads them but keeps the editor open.\<close>

definition editSaved :: "requestError option \<Rightarrow> DevicePage \<Rightarrow> DevicePage \<times> bool" where
  "editSaved failure p = (case failure of None \<Rightarrow> (p\<lparr>pgEditing := None\<rparr>, True)
     | Some (WithStatus m st) \<Rightarrow> (p, st = 409) | Some (Plain m) \<Rightarrow> (p, False))"

definition queuedText :: "TaskKind \<Rightarrow> nat \<Rightarrow> nat \<Rightarrow> bool \<Rightarrow> jstr" where
  "queuedText kd queued skipped zh =
     (let k = kindLabel (taskKindText kd) zh in
      pick zh (k @ ([0x5DF2, 0x6392, 0x961F, 0xFF1A]) @ nat_str queued @ (js '' '' @ [0x53F0]) @ (if skipped \<noteq> 0 then ([0xFF0C]) @ nat_str skipped @ (js '' '' @ [0x53F0, 0x5DF2, 0x5728, 0x961F, 0x5217, 0x4E2D, 0x88AB, 0x8DF3, 0x8FC7]) else []) @ ([0x3002]))
        (k @ (js '' queued for '') @ nat_str queued @ (js '' switch'') @ (if queued = 1 then [] else (js ''es''))
          @ (if skipped \<noteq> 0 then (js ''; '') @ nat_str skipped @ (js '' already pending were skipped'') else []) @ (js ''.'')))"

text \<open>How the confirmation names what a run covers.\<close>

definition scopeName :: "Inventory option \<Rightarrow> PageSearch \<Rightarrow> jstr option" where
  "scopeName inventory s = (case inventory of None \<Rightarrow> None
     | Some i \<Rightarrow> map_option grpName (find (\<lambda>g. Some (grpId g) = filterOf s (js ''group'')) (invGroups i)))"

definition scopeLabel :: "Inventory option \<Rightarrow> PageSearch \<Rightarrow> bool \<Rightarrow> jstr" where
  "scopeLabel inventory s zh =
     (if truthy (scopeName inventory s)
      then pick zh (([0x5206, 0x7EC4, 0x201C]) @ the (scopeName inventory s) @ ([0x201D, 0x4E2D, 0x6240, 0x6709, 0x542F, 0x7528, 0x7684, 0x4EA4, 0x6362, 0x673A])) ((js ''every enabled switch in group '' @ [0x201C]) @ the (scopeName inventory s) @ ([0x201D]))
      else pick zh ([0x6240, 0x6709, 0x542F, 0x7528, 0x7684, 0x4EA4, 0x6362, 0x673A]) (js ''every enabled switch''))"

text \<open>The title of the confirmation, with \<open>toLowerCase\<close> of an English label.\<close>

definition lowered :: "jstr \<Rightarrow> jstr" where
  "lowered s = map (\<lambda>c. if 0x41 \<le> c \<and> c \<le> 0x5A then c + 0x20 else c) s"

definition bulkTitle :: "Inventory option \<Rightarrow> DevicePage \<Rightarrow> bool \<Rightarrow> jstr" where
  "bulkTitle inventory p zh = (case pgBulk p of None \<Rightarrow> []
     | Some kd \<Rightarrow> (let k = kindLabel (taskKindText kd) zh; covers = scopeLabel inventory (pgSearch p) zh in
         pick zh (([0x5BF9]) @ covers @ ([0x6267, 0x884C]) @ k @ ([0xFF1F])) ((js ''Run a '') @ lowered k @ (js '' on '') @ covers @ (js ''?''))))"

subsection \<open>Runs of the page\<close>

text \<open>
  What happens on the page, with the record of what was shown, asked and sent. The dialogs are modal: with one open,
  nothing behind it can be clicked. Lists and details may be delivered at any time.
\<close>

definition noDialog :: "DevicePage \<Rightarrow> bool" where
  "noDialog p \<longleftrightarrow> pgBulk p = None \<and> pgDisabling p = None \<and> pgDetail p = None \<and> pgEditing p = None
     \<and> \<not> pgCreating p \<and> \<not> pgImporting p"

datatype deviceEvent = Listed "OpsSwitch list" | Detailed jstr bool | AskedRun TaskKind | AskedOff OpsSwitch
  | Requested httpRequest | Answered

definition logged :: "deviceEvent list \<Rightarrow> httpRequest option \<Rightarrow> deviceEvent list" where
  "logged es rq = es @ (case rq of None \<Rightarrow> [] | Some r \<Rightarrow> [Requested r])"

inductive device_step :: "DevicePage \<times> deviceEvent list \<Rightarrow> DevicePage \<times> deviceEvent list \<Rightarrow> bool" where
  lists: "device_step (p, es) (p\<lparr>pgRows := rows\<rparr>, es @ [Listed rows])"
| searches: "device_step (p, es) (p\<lparr>pgSearch := s\<rparr>, es)"
| types: "device_step (p, es) (p\<lparr>pgText := v\<rparr>, es)"
| opens: "\<lbrakk>noDialog p; r \<in> set (pgRows p)\<rbrakk> \<Longrightarrow> device_step (p, es) (p\<lparr>pgDetail := Some (swId r), pgShown := None\<rparr>, es)"
| details: "pgDetail p \<noteq> None \<Longrightarrow> device_step (p, es) (p\<lparr>pgShown := Some (i, enabled)\<rparr>, es @ [Detailed i enabled])"
| closes: "device_step (p, es) (p\<lparr>pgDetail := None, pgShown := None\<rparr>, es)"
| runs: "\<lbrakk>noDialog p; r \<in> set (pgRows p); clickRun kd r p = (p', rq)\<rbrakk> \<Longrightarrow> device_step (p, es) (p', logged es rq)"
| runs_shown: "\<lbrakk>pgDetail p \<noteq> None; clickDetailRun kd p = (p', rq)\<rbrakk> \<Longrightarrow> device_step (p, es) (p', logged es rq)"
| asks_all: "\<lbrakk>noDialog p; \<not> pgBusy p\<rbrakk> \<Longrightarrow> device_step (p, es) (clickBulk kd p, es @ [AskedRun kd])"
| cancels_all: "device_step (p, es) (p\<lparr>pgBulk := None\<rparr>, es)"
| runs_all: "confirmBulk p = (p', rq) \<Longrightarrow> device_step (p, es) (p', logged es rq)"
| asks_off: "\<lbrakk>noDialog p; r \<in> set (pgRows p); \<not> pgBusy p; swEnabled r; clickPower r p = (p', None)\<rbrakk> \<Longrightarrow>
    device_step (p, es) (p', es @ [AskedOff r])"
| turns_on: "\<lbrakk>noDialog p; r \<in> set (pgRows p); clickPower r p = (p', Some rq)\<rbrakk> \<Longrightarrow> device_step (p, es) (p', logged es (Some rq))"
| keeps_on: "device_step (p, es) (p\<lparr>pgDisabling := None\<rparr>, es)"
| turns_off: "confirmDisable p = (p', rq) \<Longrightarrow> device_step (p, es) (p', logged es rq)"
| edits: "\<lbrakk>noDialog p; r \<in> set (pgRows p)\<rbrakk> \<Longrightarrow> device_step (p, es) (clickEdit r p, es)"
| edited: "device_step (p, es) (fst (editSaved failure p), es)"
| closes_editor: "device_step (p, es) (p\<lparr>pgEditing := None\<rparr>, es)"
| starts_create: "noDialog p \<Longrightarrow> device_step (p, es) (p\<lparr>pgCreating := True\<rparr>, es)"
| ends_create: "device_step (p, es) (p\<lparr>pgCreating := False\<rparr>, es)"
| starts_import: "noDialog p \<Longrightarrow> device_step (p, es) (p\<lparr>pgImporting := True\<rparr>, es)"
| ends_import: "device_step (p, es) (p\<lparr>pgImporting := False\<rparr>, es)"
| answers: "pgBusy p \<Longrightarrow> device_step (p, es) (p\<lparr>pgBusy := False\<rparr>, es @ [Answered])"

inductive_cases device_stepE: "device_step (p, es) (p', es')"

text \<open>What the record says: the rows and the details shown last, the question asked last, and whether a request waits.\<close>

fun noteEvent :: "OpsSwitch list \<times> (jstr \<times> bool) option \<times> deviceEvent option \<times> bool \<Rightarrow> deviceEvent \<Rightarrow>
    OpsSwitch list \<times> (jstr \<times> bool) option \<times> deviceEvent option \<times> bool" where
  "noteEvent (rows, d, a, w) (Listed rs) = (rs, d, a, w)"
| "noteEvent (rows, d, a, w) (Detailed i b) = (rows, Some (i, b), a, w)"
| "noteEvent (rows, d, a, w) (AskedRun kd) = (rows, d, Some (AskedRun kd), w)"
| "noteEvent (rows, d, a, w) (AskedOff r) = (rows, d, Some (AskedOff r), w)"
| "noteEvent (rows, d, a, w) (Requested r) = (rows, d, a, True)"
| "noteEvent (rows, d, a, w) Answered = (rows, d, a, False)"

definition recordOf :: "deviceEvent list \<Rightarrow> OpsSwitch list \<times> (jstr \<times> bool) option \<times> deviceEvent option \<times> bool" where
  "recordOf es = foldl noteEvent ([], None, None, False) es"

definition rowsShown :: "deviceEvent list \<Rightarrow> OpsSwitch list" where
  "rowsShown es = fst (recordOf es)"

definition detailShown :: "deviceEvent list \<Rightarrow> (jstr \<times> bool) option" where
  "detailShown es = fst (snd (recordOf es))"

definition lastAsked :: "deviceEvent list \<Rightarrow> deviceEvent option" where
  "lastAsked es = fst (snd (snd (recordOf es)))"

definition waiting :: "deviceEvent list \<Rightarrow> bool" where
  "waiting es = snd (snd (snd (recordOf es)))"

lemma record_snoc:
  "rowsShown (es @ [e]) = (case e of Listed rs \<Rightarrow> rs | _ \<Rightarrow> rowsShown es)"
  "detailShown (es @ [e]) = (case e of Detailed i b \<Rightarrow> Some (i, b) | _ \<Rightarrow> detailShown es)"
  "lastAsked (es @ [e]) = (case e of AskedRun kd \<Rightarrow> Some e | AskedOff r \<Rightarrow> Some e | _ \<Rightarrow> lastAsked es)"
  "waiting (es @ [e]) = (case e of Requested r \<Rightarrow> True | Answered \<Rightarrow> False | _ \<Rightarrow> waiting es)"
  unfolding rowsShown_def detailShown_def lastAsked_def waiting_def recordOf_def
  by (cases "foldl noteEvent ([], None, None, False) es"; cases e; simp)+

definition requestAllowed :: "deviceEvent list \<Rightarrow> httpRequest \<Rightarrow> bool" where
  "requestAllowed es r \<longleftrightarrow> \<not> waiting es \<and>
     ((\<exists>row\<in>set (rowsShown es). \<exists>kd. swEnabled row \<and> r = taskRequest kd (switchScope (swId row)))
      \<or> (\<exists>i kd. detailShown es = Some (i, True) \<and> r = taskRequest kd (switchScope i))
      \<or> (\<exists>kd s. lastAsked es = Some (AskedRun kd) \<and> r = taskRequest kd (bulkScope s))
      \<or> (\<exists>row\<in>set (rowsShown es). \<not> swEnabled row \<and> r = statusRequest row True)
      \<or> (\<exists>row. lastAsked es = Some (AskedOff row) \<and> r = statusRequest row False))"

definition requestsAllowed :: "deviceEvent list \<Rightarrow> bool" where
  "requestsAllowed es \<longleftrightarrow> (\<forall>before r after. es = before @ Requested r # after \<longrightarrow> requestAllowed before r)"

lemma request_allowedI:
  "\<lbrakk>\<not> waiting es; row \<in> set (rowsShown es); swEnabled row\<rbrakk> \<Longrightarrow> requestAllowed es (taskRequest kd (switchScope (swId row)))"
  "\<lbrakk>\<not> waiting es; detailShown es = Some (i, True)\<rbrakk> \<Longrightarrow> requestAllowed es (taskRequest kd (switchScope i))"
  "\<lbrakk>\<not> waiting es; lastAsked es = Some (AskedRun kd)\<rbrakk> \<Longrightarrow> requestAllowed es (taskRequest kd (bulkScope s'))"
  "\<lbrakk>\<not> waiting es; row \<in> set (rowsShown es); \<not> swEnabled row\<rbrakk> \<Longrightarrow> requestAllowed es (statusRequest row True)"
  "\<lbrakk>\<not> waiting es; lastAsked es = Some (AskedOff row)\<rbrakk> \<Longrightarrow> requestAllowed es (statusRequest row False)"
  unfolding requestAllowed_def by blast+

lemma requestsAllowed_snoc:
  "requestsAllowed (es @ [e]) \<longleftrightarrow> requestsAllowed es \<and> (case e of Requested r \<Rightarrow> requestAllowed es r | _ \<Rightarrow> True)"
  unfolding requestsAllowed_def snoc_split by (auto split: deviceEvent.splits)

definition goodDevices :: "DevicePage \<times> deviceEvent list \<Rightarrow> bool" where
  "goodDevices x \<longleftrightarrow> (case x of (p, es) \<Rightarrow> requestsAllowed es \<and> pgBusy p = waiting es \<and> pgRows p = rowsShown es
     \<and> (pgShown p = None \<or> pgShown p = detailShown es)
     \<and> (case pgBulk p of None \<Rightarrow> True | Some kd \<Rightarrow> lastAsked es = Some (AskedRun kd) \<and> \<not> pgBusy p \<and> pgDisabling p = None \<and> pgDetail p = None)
     \<and> (case pgDisabling p of None \<Rightarrow> True | Some r \<Rightarrow> lastAsked es = Some (AskedOff r) \<and> \<not> pgBusy p \<and> pgBulk p = None \<and> pgDetail p = None))"

lemmas page_defs = clickRun_def clickDetailRun_def clickBulk_def confirmBulk_def clickPower_def confirmDisable_def clickEdit_def
  editSaved_def runTask_def setEnabled_def noDialog_def logged_def

lemma goodDevices_step:
  assumes "device_step x y" "goodDevices x"
  shows "goodDevices y"
  using assms
proof (induction rule: device_step.induct)
  case (runs p r kd p' rq es)
  then show ?case
    by (auto simp: goodDevices_def page_defs record_snoc requestsAllowed_snoc intro: request_allowedI split: if_splits)
next
  case (runs_shown p kd p' rq es)
  then show ?case
    by (auto simp: goodDevices_def page_defs record_snoc requestsAllowed_snoc intro: request_allowedI split: if_splits option.splits prod.splits)
next
  case (runs_all p p' rq es)
  then show ?case
    by (auto simp: goodDevices_def page_defs record_snoc requestsAllowed_snoc intro: request_allowedI split: option.splits)
next
  case (turns_on p r p' rq es)
  then show ?case
    by (auto simp: goodDevices_def page_defs record_snoc requestsAllowed_snoc intro: request_allowedI split: if_splits)
next
  case (turns_off p p' rq es)
  then show ?case
    by (auto simp: goodDevices_def page_defs record_snoc requestsAllowed_snoc intro: request_allowedI split: option.splits)
next
  case (asks_off p r p' es)
  then show ?case
    by (auto simp: goodDevices_def page_defs record_snoc requestsAllowed_snoc split: if_splits)
next
  case (edited p es failure)
  then show ?case by (auto simp: goodDevices_def page_defs split: option.splits requestError.splits)
qed (auto simp: goodDevices_def page_defs record_snoc requestsAllowed_snoc split: option.splits)

lemma goodDevices_reached:
  assumes "device_step\<^sup>*\<^sup>* (openDevices s, []) x"
  shows "goodDevices x"
  using assms
proof (induction rule: rtranclp_induct)
  case base
  show ?case by (simp add: goodDevices_def openDevices_def requestsAllowed_def recordOf_def rowsShown_def waiting_def)
next
  case (step y z)
  then show ?case using goodDevices_step by blast
qed


definition exampleRow :: OpsSwitch where
  "exampleRow = \<lparr>swId = (js ''7''), swName = (js ''edge''), swManagementIP = (js ''10.0.0.1''), swCredential = (js ''1''), swProfile = (js ''2''), swEnabled = True,
     swVersion = 3, swVendor = Some (js ''cisco''), swModel = None, swSite = None, swDescription = None, swGroup = None, swProtocol = Some (js ''ssh''),
     swPort = None, opsGroupName = None, opsReachable = None, opsLatency = None, opsReachabilityError = None, opsConfigError = None,
     opsLatestBackup = None, opsComplianceFailed = 0\<rparr>"

lemma example_disable:
  "\<exists>p. device_step\<^sup>*\<^sup>* (openDevices exampleSearch, []) (p, [Listed [exampleRow], AskedOff exampleRow, Requested (statusRequest exampleRow False)])"
proof -
  let ?p0 = "openDevices exampleSearch"
  let ?p1 = "?p0\<lparr>pgRows := [exampleRow]\<rparr>"
  let ?p2 = "?p1\<lparr>pgDisabling := Some exampleRow\<rparr>"
  have "device_step (?p0, []) (?p1, [] @ [Listed [exampleRow]])" by (rule lists)
  moreover have "device_step (?p1, [Listed [exampleRow]]) (?p2, [Listed [exampleRow]] @ [AskedOff exampleRow])"
    by (rule asks_off) (simp_all add: page_defs openDevices_def exampleRow_def)
  moreover have "device_step (?p2, [Listed [exampleRow], AskedOff exampleRow])
      (?p2\<lparr>pgDisabling := None, pgBusy := True\<rparr>, logged [Listed [exampleRow], AskedOff exampleRow] (Some (statusRequest exampleRow False)))"
    by (rule turns_off) (simp add: page_defs)
  ultimately have "device_step\<^sup>*\<^sup>* (?p0, []) (?p2\<lparr>pgDisabling := None, pgBusy := True\<rparr>,
      logged [Listed [exampleRow], AskedOff exampleRow] (Some (statusRequest exampleRow False)))"
    unfolding append_Nil append_Cons by (elim converse_rtranclp_into_rtranclp) (rule rtranclp.rtrancl_refl)
  then show ?thesis by (auto simp: logged_def)
qed


section \<open>Adding a switch\<close>

record CreateSwitch =
  crForm :: form
  crError :: "jstr option"
  crBusy :: bool
  crChecked :: bool

definition emptySwitch :: form where
  "emptySwitch = [((js ''name''), FText []), ((js ''management_ip''), FText []), ((js ''credential_id''), FText []), ((js ''command_profile_id''), FText []),
     ((js ''vendor''), FText (js ''huawei'')), ((js ''model''), FText []), ((js ''protocol''), FText (js ''ssh'')), ((js ''port''), FText []), ((js ''group_id''), FText []),
     ((js ''site''), FText []), ((js ''description''), FText [])]"

definition newSwitchDialog :: CreateSwitch where
  "newSwitchDialog = \<lparr>crForm = emptySwitch, crError = Some [], crBusy = False, crChecked = False\<rparr>"

definition newSwitchRequired :: "bool \<Rightarrow> form \<Rightarrow> RequiredField list" where
  "newSwitchRequired zh fm =
     [need fm ''new-name'' ''name'' (pick zh ([0x540D, 0x79F0]) (js ''Name'')) False,
      need fm ''new-management_ip'' ''management_ip'' (pick zh ([0x7BA1, 0x7406] @ js '' IPv4'') (js ''Management IPv4'')) False,
      need fm ''new-credential'' ''credential_id'' (pick zh ([0x51ED, 0x636E]) (js ''Credential'')) True,
      need fm ''new-profile'' ''command_profile_id'' (pick zh ([0x547D, 0x4EE4, 0x6A21, 0x677F]) (js ''Command profile'')) True]"

definition setSwitchField :: "jstr \<Rightarrow> jstr \<Rightarrow> CreateSwitch \<Rightarrow> CreateSwitch" where
  "setSwitchField key v st = st\<lparr>crForm := setForm key (FText v) (crForm st)\<rparr>"

text \<open>The choice of a group: no group is the empty text.\<close>

definition chooseGroup :: "jstr \<Rightarrow> CreateSwitch \<Rightarrow> CreateSwitch" where
  "chooseGroup v st = setSwitchField (js ''group_id'') (if v = NO_GROUP then [] else v) st"

definition portPlaceholder :: "form \<Rightarrow> jstr" where
  "portPlaceholder fm = (if formText fm (js ''protocol'') = (js ''ssh'') then (js ''22'') else (js ''23''))"

text \<open>\<open>Number\<close> of a text of digits; beyond the doubles it is infinite, which \<open>JSON.stringify\<close> writes as \<open>null\<close>.\<close>

definition portValue :: "jstr \<Rightarrow> json" where
  "portValue port = (if port = [] then JNull
     else case roundDouble (digits_val port) of Some n \<Rightarrow> JNum (of_nat n) | None \<Rightarrow> JNull)"

definition newSwitchBody :: "form \<Rightarrow> json" where
  "newSwitchBody fm = JObj (textFields fm [''name'']
     @ [((js ''management_ip''), JStr (trim (formText fm (js ''management_ip''))))]
     @ textFields fm [''credential_id'', ''command_profile_id'', ''vendor'', ''model'', ''protocol'']
     @ [((js ''port''), portValue (formText fm (js ''port'')))] @ textFields fm [''group_id'', ''site'', ''description''])"

definition portMessage :: "bool \<Rightarrow> jstr" where
  "portMessage zh = pick zh ([0x7AEF, 0x53E3, 0x5FC5, 0x987B, 0x662F] @ js '' 1'' @ [0x2013] @ js ''65535 '' @ [0x4E4B, 0x95F4, 0x7684, 0x6570, 0x5B57, 0x3002]) (js ''Port must be a number from 1 to 65535.'')"

text \<open>The button is disabled while a request runs.\<close>

definition submitNewSwitch :: "bool \<Rightarrow> CreateSwitch \<Rightarrow> CreateSwitch \<times> jstr option \<times> httpRequest option" where
  "submitNewSwitch zh st =
     (if crBusy st then (st, None, None)
      else case check (newSwitchRequired zh (crForm st)) of (checked, focus, go) \<Rightarrow>
        let st1 = st\<lparr>crChecked := checked\<rparr>; port = formText (crForm st) (js ''port'') in
        if \<not> go then (st1, focus, None)
        else if port \<noteq> [] \<and> \<not> number port then (st1\<lparr>crError := Some (portMessage zh)\<rparr>, None, None)
        else (st1\<lparr>crBusy := True, crError := Some []\<rparr>, None, Some (callAssets (js ''switches'') (Some (newSwitchBody (crForm st))) None)))"

definition finishNewSwitch :: "bool \<Rightarrow> requestError option \<Rightarrow> CreateSwitch \<Rightarrow> CreateSwitch" where
  "finishNewSwitch zh failure st = (case failure of
     None \<Rightarrow> st\<lparr>crForm := emptySwitch, crChecked := reset, crBusy := False\<rparr>
   | Some e \<Rightarrow> st\<lparr>crError := errorText (ErrorOf (errorMessage e)) zh, crBusy := False\<rparr>)"

lemma check_cases:
  "check fs = (c, focus, go) \<Longrightarrow> c \<and> (go \<longleftrightarrow> (\<forall>f\<in>set fs. \<not> blank f)) \<and> (go \<longleftrightarrow> focus = None)
     \<and> (\<forall>i. focus = Some i \<longrightarrow> (\<exists>f\<in>set fs. fieldId f = i \<and> blank f))"
  using check_iff [of fs] by (auto simp: check_def find_Some_iff split: option.splits)

text \<open>The port the server reads is the one that was typed, up to the numbers a double holds.\<close>

lemma portValue_exact: "n \<le> 2 ^ 53 \<Longrightarrow> portValue (nat_str n) = JNum (of_nat n)"
  by (simp add: portValue_def roundDouble_def)

text \<open>The check lets ports pass that the message excludes.\<close>

lemma any_number_is_a_port:
  "number (js ''70000'') \<and> portValue (js ''70000'') = JNum 70000 \<and> number (js ''0'') \<and> portValue (js ''0'') = JNum 0"
  by (simp add: number_iff portValue_def roundDouble_def digits_val_def digit_def js_eval)

lemma filled_switch:
  "(\<forall>f\<in>set (newSwitchRequired zh fm). \<not> blank f)
   \<longleftrightarrow> list_all (\<lambda>k. trim (formText fm k) \<noteq> []) [(js ''name''), (js ''management_ip''), (js ''credential_id''), (js ''command_profile_id'')]"
  by (simp add: newSwitchRequired_def need_def blank_def)

lemma body_port: "field (js ''port'') (newSwitchBody fm) = Some (portValue (formText fm (js ''port'')))"
  by (simp add: newSwitchBody_def textFields_def)

lemma portValue_empty: "portValue [] = JNull"
  by (simp add: portValue_def)

lemma switches_request:
  "url (callAssets (js ''switches'') (Some b) None) = (js ''/api/releases/admin/switches'')"
  "reqMethod (callAssets (js ''switches'') (Some b) None) = POST" "reqBody (callAssets (js ''switches'') (Some b) None) = Some (Json b)"
  by (simp_all add: callAssets_def consoleInit_def defaultMethod_def js_append [symmetric])


section \<open>The release history\<close>

record HistoryPage =
  hpSearch :: PageSearch
  hpText :: jstr
  hpBusy :: bool
  hpError :: jstr

definition openHistory :: "PageSearch \<Rightarrow> HistoryPage" where
  "openHistory s = \<lparr>hpSearch = s, hpText = nullish (filterOf s (js ''q'')) [], hpBusy = False, hpError = []\<rparr>"

definition clickHistoryRetry :: "bool \<Rightarrow> Job \<Rightarrow> HistoryPage \<Rightarrow> HistoryPage \<times> httpRequest option" where
  "clickHistoryRetry admin j p =
     (if \<not> canRetry j admin \<or> hpBusy p then (p, None)
      else (p\<lparr>hpBusy := True, hpError := []\<rparr>,
        Some (jobRequest ((js ''/api/releases/jobs/'') @ jobId j @ (js ''/retry'')) (Some (JObj [])))))"

text \<open>After the answer: the state, and the job whose page is opened.\<close>

definition finishRetry :: "bool \<Rightarrow> requestError + Job \<Rightarrow> HistoryPage \<Rightarrow> HistoryPage \<times> jstr option" where
  "finishRetry zh out p = (case out of
     Inr j \<Rightarrow> (p\<lparr>hpBusy := False\<rparr>, Some (if truthy (jobJobId j) then the (jobJobId j) else jobId j))
   | Inl e \<Rightarrow> (p\<lparr>hpBusy := False, hpError := nullish (releaseErrorText (ErrorOf (errorMessage e)) zh) []\<rparr>, None))"

definition emptyHistory :: "PageSearch \<Rightarrow> bool \<Rightarrow> jstr" where
  "emptyHistory s zh =
     (if isFiltered historyFilterKeys s then pick zh ([0x6CA1, 0x6709, 0x7B26, 0x5408, 0x7B5B, 0x9009, 0x6761, 0x4EF6, 0x7684, 0x4EFB, 0x52A1, 0x3002]) (js ''No job matches these filters.'')
      else pick zh ([0x8FD8, 0x6CA1, 0x6709, 0x89E3, 0x7ED1, 0x4EFB, 0x52A1, 0x3002]) (js ''No release jobs yet.''))"

text \<open>
  The release history is reached by its address and asks for what it names: after any changes of filters, search
  text and page, the server reads exactly the trimmed search text, the kind and the status that are set, and the
  page unless it is the first; a reload asks for the same.
\<close>

theorem history_list_refines_choice:
  assumes "list_all (actionOk historyFilterKeys) as" "s = foldl actOn (validateHistorySearch raw) as"
    "foldl viewAct (searchView (validateHistorySearch raw)) as = (f, n)" "unicode_params (jobFilters (historyFilter s))"
  shows "queryOf (url (releaseFetch (historyQuery s)))
       = optional ''q'' (map_option trim (f (js ''q''))) @ optional ''kind'' (f (js ''kind'')) @ optional ''status'' (f (js ''status''))
         @ (if n > 1 then [((js ''page''), nat_str n)] else [])
     \<and> searchView (validateHistorySearch (addressOf s)) = (f, n)"
proof
  have "searchView s = (f, n)" using assms(2,3) searchView_acts by metis
  then have v: "filterOf s = f" "currentPage s = n" by (simp_all add: searchView_def)
  show "queryOf (url (releaseFetch (historyQuery s)))
      = optional ''q'' (map_option trim (f (js ''q''))) @ optional ''kind'' (f (js ''kind'')) @ optional ''status'' (f (js ''status''))
        @ (if n > 1 then [((js ''page''), nat_str n)] else [])"
    using queryOf_withQuery [of "''/api/releases/jobs''" "jobFilters (historyFilter s)"] assms(4)
    by (simp add: historyQuery_def jobRequest_def consoleInit_def jobsPath_filters jobFilters_def historyFilter_def v)
      (simp add: optional_def int_str_def)
  show "searchView (validateHistorySearch (addressOf s)) = (f, n)"
    using history_list.reload_keeps [OF assms(1)] by (simp add: assms(2,3) validateHistorySearch_def [symmetric])
qed

definition exampleHistory :: PageSearch where
  "exampleHistory = \<lparr>searchFilters = [((js ''status''), (js ''failed''))], searchPage = Some 2\<rparr>"

lemma example_history:
  "exampleHistory = foldl actOn (validateHistorySearch []) [Choose (js ''status'') (js ''failed''), GoTo 2]"
  "foldl viewAct (searchView (validateHistorySearch [])) [Choose (js ''status'') (js ''failed''), GoTo 2] = ([(js ''status'') \<mapsto> (js ''failed'')], 2)"
  by (simp_all add: exampleHistory_def validateHistorySearch_def validateSearch_def textFilters_def historyFilterKeys_def chooseFilter_def
      filterBy_def gotoPage_def ANY_def laterPage_def searchView_def filterOf_def [abs_def] fun_eq_iff currentPage_def)

theorem history_list_refines_choice_witness:
  "queryOf (url (releaseFetch (historyQuery exampleHistory))) = [((js ''status''), (js ''failed'')), ((js ''page''), (js ''2''))]"
proof -
  have a: "list_all (actionOk historyFilterKeys) [Choose (js ''status'') (js ''failed''), GoTo 2]" by (simp add: historyFilterKeys_def)
  have u: "unicode_params (jobFilters (historyFilter exampleHistory))"
    by (simp add: jobFilters_def historyFilter_def exampleHistory_def filterOf_def currentPage_def optional_def int_str_def nat_str_rec
        digit_unit_def unicode_params_def unicode_def well_formed_def high_surrogate_def low_surrogate_def js_eval)
  show ?thesis
    using history_list_refines_choice [OF a example_history u]
    by (simp add: optional_def nat_str_rec digit_unit_def js_eval)
qed

end
