(* ===== verification/AssetPage.thy ===== *)
theory AssetPage
  imports DevicePages
begin

text \<open>
  The page of asset settings (\<open>routes/_authenticated/assets.tsx\<close>): the four forms that create credentials, command
  profiles, groups and networks, switching an asset on and off, and the lines that describe an asset. How both pages
  with assets switch one off is the locale \<open>status_switch\<close>.
\<close>

section \<open>The four forms\<close>

datatype NewAsset = NewCredential | NewProfile | NewGroup | NewNetwork

fun newKind :: "NewAsset \<Rightarrow> jstr" where
  "newKind NewCredential = (js ''credentials'')"
| "newKind NewProfile = (js ''profiles'')"
| "newKind NewGroup = (js ''groups'')"
| "newKind NewNetwork = (js ''networks'')"

definition quoted :: "string \<Rightarrow> jstr" where
  "quoted s = map (\<lambda>c. if c = 0x60 then 0x22 else c) (js s)"

text \<open>The rules a new profile starts with; backquotes stand for the quotation marks of the source.\<close>

definition emptyProfile :: form where
  "emptyProfile = [((js ''name''), FText []),
     ((js ''command_templates''), FText (quoted ''{`single_arp_query`:``,`arp_release`:``,`config_backup`:`display current-configuration`}'')),
     ((js ''parser_rules''), FText (quoted ''{`arp_entry_regex`:``,`missing_patterns`:[],`static_type_values`:[],`dynamic_type_values`:[]}'')),
     ((js ''login_prompt_patterns''), FText (js ''{}'')), ((js ''prompt_patterns''), FText (js ''{}'')), ((js ''pagination_rules''), FText (js ''{}'')),
     ((js ''success_patterns''), FText (js ''[]'')), ((js ''error_patterns''), FText (js ''[]''))]"

fun emptyAsset :: "NewAsset \<Rightarrow> form" where
  "emptyAsset NewCredential = [((js ''name''), FText []), ((js ''username''), FText []), ((js ''password''), FText []), ((js ''secret''), FText [])]"
| "emptyAsset NewProfile = emptyProfile"
| "emptyAsset NewGroup = [((js ''name''), FText []), ((js ''description''), FText [])]"
| "emptyAsset NewNetwork = [((js ''switch_id''), FText []), ((js ''cidr''), FText []), ((js ''is_validated''), FFlag False)]"

fun assetRequired :: "bool \<Rightarrow> NewAsset \<Rightarrow> form \<Rightarrow> RequiredField list" where
  "assetRequired zh NewCredential fm =
     [need fm ''credential-name'' ''name'' (pick zh ([0x540D, 0x79F0]) (js ''Name'')) False,
      need fm ''credential-username'' ''username'' (pick zh ([0x8BBE, 0x5907, 0x7528, 0x6237, 0x540D]) (js ''Device username'')) False,
      need fm ''credential-password'' ''password'' (pick zh ([0x8BBE, 0x5907, 0x5BC6, 0x7801]) (js ''Device password'')) False]"
| "assetRequired zh NewProfile fm = [need fm ''profile-name'' ''name'' (pick zh ([0x540D, 0x79F0]) (js ''Name'')) False]"
| "assetRequired zh NewGroup fm = [need fm ''group-name'' ''name'' (pick zh ([0x540D, 0x79F0]) (js ''Name'')) False]"
| "assetRequired zh NewNetwork fm =
     [need fm ''network-switch'' ''switch_id'' (pick zh ([0x6240, 0x5C5E, 0x4EA4, 0x6362, 0x673A]) (js ''Switch'')) True,
      need fm ''network-cidr'' ''cidr'' (js ''IPv4 CIDR'') False]"

text \<open>The members of a request; the rules of a profile are parsed, and one that is no JSON stops the form.\<close>

fun parsedRules :: "form \<Rightarrow> jstr list \<Rightarrow> (jstr \<times> json) list option" where
  "parsedRules fm [] = Some []"
| "parsedRules fm (key # keys) = (case parseJson (formText fm key) of None \<Rightarrow> None
     | Some v \<Rightarrow> map_option ((#) (key, v)) (parsedRules fm keys))"

fun assetBody :: "NewAsset \<Rightarrow> form \<Rightarrow> (jstr \<times> json) list option" where
  "assetBody NewCredential fm = Some (textFields fm [''name'', ''username'', ''password'', ''secret''])"
| "assetBody NewProfile fm = map_option (\<lambda>rs. textFields fm [''name''] @ rs) (parsedRules fm (map fst (drop 1 emptyProfile)))"
| "assetBody NewGroup fm = Some (textFields fm [''name'', ''description''])"
| "assetBody NewNetwork fm = Some (textFields fm [''switch_id'', ''cidr''] @ [((js ''is_validated''), JBool (formFlag fm (js ''is_validated'')))])"

definition noJson :: "bool \<Rightarrow> jstr" where
  "noJson zh = pick zh ([0x6A21, 0x677F, 0x4E2D, 0x6709, 0x4E0D, 0x662F, 0x5408, 0x6CD5] @ js '' JSON '' @ [0x7684, 0x5185, 0x5BB9, 0x3002]) (js ''Part of the profile is not valid JSON.'')"

record AssetPage =
  apForm :: "NewAsset \<Rightarrow> form"
  apError :: "NewAsset \<Rightarrow> jstr option"
  apChecked :: "NewAsset \<Rightarrow> bool"
  apBusy :: bool
  apEditing :: "EditTarget option"
  apDisabling :: "EditTarget option"

definition newAssetPage :: AssetPage where
  "newAssetPage = \<lparr>apForm = emptyAsset, apError = (\<lambda>k. None), apChecked = (\<lambda>k. False), apBusy = False, apEditing = None, apDisabling = None\<rparr>"

definition typeAsset :: "NewAsset \<Rightarrow> jstr \<Rightarrow> formValue \<Rightarrow> AssetPage \<Rightarrow> AssetPage" where
  "typeAsset k key v p = p\<lparr>apForm := (apForm p)(k := setForm key v (apForm p k))\<rparr>"

text \<open>\<open>onSubmit\<close> and \<open>submit\<close>: the state, the field to focus, and the request. The buttons are disabled while a request runs.\<close>

definition submitAsset :: "bool \<Rightarrow> NewAsset \<Rightarrow> AssetPage \<Rightarrow> AssetPage \<times> jstr option \<times> httpRequest option" where
  "submitAsset zh k p =
     (if apBusy p then (p, None, None)
      else case check (assetRequired zh k (apForm p k)) of (checked, focus, go) \<Rightarrow>
        let p1 = p\<lparr>apChecked := (apChecked p)(k := checked)\<rparr> in
        if \<not> go then (p1, focus, None)
        else (case assetBody k (apForm p k) of
            None \<Rightarrow> (p1\<lparr>apError := (apError p)(k := Some (noJson zh))\<rparr>, None, None)
          | Some body \<Rightarrow> (p1\<lparr>apBusy := True, apError := (apError p)(k := None)\<rparr>, None,
              Some (callAssets (newKind k) (Some (JObj body)) None))))"

definition assetSubmitted :: "bool \<Rightarrow> NewAsset \<Rightarrow> requestError option \<Rightarrow> AssetPage \<Rightarrow> AssetPage" where
  "assetSubmitted zh k failure p = (case failure of
     None \<Rightarrow> p\<lparr>apForm := (apForm p)(k := emptyAsset k), apChecked := (apChecked p)(k := reset), apBusy := False\<rparr>
   | Some e \<Rightarrow> p\<lparr>apError := (apError p)(k := errorText (ErrorOf (errorMessage e)) zh), apBusy := False\<rparr>)"

lemma filled_asset:
  "(\<forall>f\<in>set (assetRequired zh k fm). \<not> blank f) \<longleftrightarrow>
   list_all (\<lambda>key. trim (formText fm key) \<noteq> []) (case k of NewCredential \<Rightarrow> [(js ''name''), (js ''username''), (js ''password'')]
     | NewNetwork \<Rightarrow> [(js ''switch_id''), (js ''cidr'')] | _ \<Rightarrow> [(js ''name'')])"
  by (cases k) (simp_all add: need_def blank_def)

lemma parsedRules_map: "parsedRules fm keys = Some rs \<Longrightarrow> key \<in> set keys \<Longrightarrow> map_of rs key = parseJson (formText fm key)"
  by (induction keys arbitrary: rs) (auto split: option.splits)

lemma profile_rules:
  assumes "assetBody NewProfile fm = Some body"
  shows "list_all (\<lambda>key. map_of body key = parseJson (formText fm key)) (map fst (drop 1 emptyProfile))"
proof -
  obtain rs where rs: "parsedRules fm (map fst (drop 1 emptyProfile)) = Some rs" "body = textFields fm [''name''] @ rs"
    using assms by auto
  have "key \<noteq> (js ''name'')" if "key \<in> set (map fst (drop 1 emptyProfile))" for key using that by (auto simp: emptyProfile_def)
  then show ?thesis using parsedRules_map [OF rs(1)] by (auto simp: list_all_iff rs(2) textFields_def)
qed

lemma assets_request:
  "url (callAssets path (Some b) None) = (js ''/api/releases/admin/'') @ path" "reqMethod (callAssets path (Some b) None) = POST"
  "reqBody (callAssets path (Some b) None) = Some (Json b)"
  by (simp_all add: callAssets_def consoleInit_def defaultMethod_def)

text \<open>
  An asset is created only from a complete form, and a refusal is explained: each request goes to the kind of the form with
  its required fields not blank and, for a profile, every rule the JSON value of its text; otherwise a field is
  flagged and focused, or the message about JSON is shown at this form, or a request is still running.
\<close>

theorem new_assets_complete:
  "case submitAsset zh k p of
     (p', focus, Some r) \<Rightarrow> \<not> apBusy p \<and> url r = (js ''/api/releases/admin/'') @ newKind k \<and> reqMethod r = POST
       \<and> (\<exists>body. reqBody r = Some (Json (JObj body)) \<and> assetBody k (apForm p k) = Some body
           \<and> (k = NewProfile \<longrightarrow> list_all (\<lambda>key. map_of body key = parseJson (formText (apForm p k) key)) (map fst (drop 1 emptyProfile))))
       \<and> list_all (\<lambda>key. trim (formText (apForm p k) key) \<noteq> []) (case k of NewCredential \<Rightarrow> [(js ''name''), (js ''username''), (js ''password'')]
           | NewNetwork \<Rightarrow> [(js ''switch_id''), (js ''cidr'')] | _ \<Rightarrow> [(js ''name'')])
   | (p', Some i, None) \<Rightarrow> invalid (apChecked p' k) (assetRequired zh k (apForm p k)) i
   | (p', None, None) \<Rightarrow> apBusy p \<and> p' = p \<or> assetBody k (apForm p k) = None \<and> apError p' k = Some (noJson zh)"
proof (cases "apBusy p")
  case True
  then show ?thesis by (simp add: submitAsset_def)
next
  case False
  obtain checked focus go where c: "check (assetRequired zh k (apForm p k)) = (checked, focus, go)" by (cases "check (assetRequired zh k (apForm p k))") auto
  note cc = check_cases [OF c]
  show ?thesis
  proof (cases go)
    case True
    then have "focus = None" using cc by simp
    have filled: "list_all (\<lambda>key. trim (formText (apForm p k) key) \<noteq> []) (case k of NewCredential \<Rightarrow> [(js ''name''), (js ''username''), (js ''password'')]
        | NewNetwork \<Rightarrow> [(js ''switch_id''), (js ''cidr'')] | _ \<Rightarrow> [(js ''name'')])" using cc True filled_asset by blast
    show ?thesis
    proof (cases "assetBody k (apForm p k)")
      case None
      then show ?thesis using False c True by (simp add: submitAsset_def)
    next
      case (Some body)
      then show ?thesis using False c True filled profile_rules [of "apForm p k" body]
        by (auto simp: submitAsset_def assets_request)
    qed
  next
    case False
    then obtain i where "focus = Some i" using cc by auto
    then show ?thesis using False \<open>\<not> apBusy p\<close> c cc by (auto simp: submitAsset_def invalid_iff)
  qed
qed

definition exampleAssets :: AssetPage where
  "exampleAssets = typeAsset NewGroup (js ''name'') (FText (js '' lab '')) newAssetPage"

theorem new_assets_complete_witness:
  "\<exists>p' r. submitAsset True NewGroup exampleAssets = (p', None, Some r) \<and> url r = (js ''/api/releases/admin/groups'')
     \<and> reqBody r = Some (Json (JObj [((js ''name''), JStr (js '' lab '')), ((js ''description''), JStr [])]))"
proof -
  have f: "apForm exampleAssets NewGroup = [((js ''name''), FText (js '' lab '')), ((js ''description''), FText [])]" "\<not> apBusy exampleAssets"
    by (simp_all add: exampleAssets_def typeAsset_def newAssetPage_def setForm_def)
  have "trim (js '' lab '') \<noteq> []" by (simp add: trim_def ws_char_def js_eval)
  then have "\<forall>g\<in>set (assetRequired True NewGroup (apForm exampleAssets NewGroup)). \<not> blank g"
    by (simp add: f need_def blank_def formText_def)
  then obtain c where c: "check (assetRequired True NewGroup (apForm exampleAssets NewGroup)) = (c, None, True)"
    using check_iff [of "assetRequired True NewGroup (apForm exampleAssets NewGroup)"] check_cases
    by (cases "check (assetRequired True NewGroup (apForm exampleAssets NewGroup))") fastforce
  then obtain p' r where s: "submitAsset True NewGroup exampleAssets = (p', None, Some r)"
    using f by (auto simp: submitAsset_def)
  then show ?thesis
    using s new_assets_complete [where zh = True and k = NewGroup and p = exampleAssets] by (simp add: f textFields_def formText_def js_append [symmetric])
qed

section \<open>Switching assets on and off\<close>

definition assetStatusRequest :: "EditTarget \<Rightarrow> bool \<Rightarrow> httpRequest" where
  "assetStatusRequest t on = callAssets (targetPath t) (Some (statusBody t on)) (Some PATCH)"

definition setStatus :: "EditTarget \<Rightarrow> bool \<Rightarrow> AssetPage \<Rightarrow> AssetPage \<times> httpRequest option" where
  "setStatus t on p = (p\<lparr>apBusy := True\<rparr>, Some (assetStatusRequest t on))"

text \<open>The button of a row, which is disabled while a request runs, and the question before an asset is switched off.\<close>

definition toggleAsset :: "EditTarget \<Rightarrow> AssetPage \<Rightarrow> AssetPage \<times> httpRequest option" where
  "toggleAsset t p =
     (if apBusy p then (p, None) else if isOn t then (p\<lparr>apDisabling := Some t\<rparr>, None) else setStatus t True p)"

definition confirmAssetOff :: "AssetPage \<Rightarrow> AssetPage \<times> httpRequest option" where
  "confirmAssetOff p = (case apDisabling p of None \<Rightarrow> (p, None) | Some t \<Rightarrow> setStatus t False (p\<lparr>apDisabling := None\<rparr>))"

text \<open>The editor; errors stay in it, and a conflict reads the list behind it again, which the last component says.\<close>

definition openAssetEditor :: "EditTarget \<Rightarrow> AssetPage \<Rightarrow> AssetPage" where
  "openAssetEditor t p = (if apBusy p then p else p\<lparr>apEditing := Some t\<rparr>)"

definition assetEditSaved :: "requestError option \<Rightarrow> AssetPage \<Rightarrow> AssetPage \<times> bool" where
  "assetEditSaved failure p = (case failure of None \<Rightarrow> (p\<lparr>apEditing := None\<rparr>, True)
     | Some (WithStatus m st) \<Rightarrow> (p, st = 409) | Some (Plain m) \<Rightarrow> (p, False))"

text \<open>
  What both pages with assets have in common: an asset that is on is switched off in two steps. \<open>step\<close> is what one event does,
  \<open>asked\<close> the question that is open.
\<close>

datatype 't switchEvent = Toggled 't | ConfirmedOff | CancelledOff | StatusAnswered

locale status_switch =
  fixes step :: "'p \<Rightarrow> 't switchEvent \<Rightarrow> 'p \<times> httpRequest option"
    and asked :: "'p \<Rightarrow> 't option"
    and on :: "'t \<Rightarrow> bool"
    and change :: "'t \<Rightarrow> bool \<Rightarrow> httpRequest"
  assumes sends: "snd (step p e) = Some r \<Longrightarrow>
      (\<exists>t. e = Toggled t \<and> \<not> on t \<and> r = change t True) \<or> (\<exists>t. e = ConfirmedOff \<and> asked p = Some t \<and> r = change t False)"
    and asks: "asked (fst (step p e)) = Some t \<Longrightarrow> e = Toggled t \<and> on t \<or> asked p = Some t \<and> e \<noteq> ConfirmedOff \<and> e \<noteq> CancelledOff"
begin

lemma question_open:
  "\<lbrakk>asked (foldl (\<lambda>p e. fst (step p e)) p0 es) = Some t; asked p0 = None\<rbrakk> \<Longrightarrow>
   \<exists>before after. es = before @ Toggled t # after \<and> on t \<and> ConfirmedOff \<notin> set after \<and> CancelledOff \<notin> set after"
proof (induction es rule: rev_induct)
  case (snoc e es)
  then have "asked (fst (step (foldl (\<lambda>p e. fst (step p e)) p0 es) e)) = Some t" by simp
  from asks [OF this] show ?case
  proof
    assume "e = Toggled t \<and> on t"
    then show ?thesis by (intro exI [of _ es] exI [of _ "[]"]) simp
  next
    assume a: "asked (foldl (\<lambda>p e. fst (step p e)) p0 es) = Some t \<and> e \<noteq> ConfirmedOff \<and> e \<noteq> CancelledOff"
    then obtain before after where "es = before @ Toggled t # after" "on t" "ConfirmedOff \<notin> set after" "CancelledOff \<notin> set after"
      using snoc.IH snoc.prems(2) by blast
    then show ?thesis using a by (intro exI [of _ before] exI [of _ "after @ [e]"]) auto
  qed
qed simp

lemma off_confirmed:
  assumes "snd (step (foldl (\<lambda>p e. fst (step p e)) p0 es) e) = Some r" "asked p0 = None"
  shows "(\<exists>t. e = Toggled t \<and> \<not> on t \<and> r = change t True)
    \<or> (\<exists>t before after. e = ConfirmedOff \<and> r = change t False \<and> on t \<and> es = before @ Toggled t # after
         \<and> ConfirmedOff \<notin> set after \<and> CancelledOff \<notin> set after)"
  using sends [OF assms(1)] question_open [OF _ assms(2)] by blast

end

fun assetSwitch :: "AssetPage \<Rightarrow> EditTarget switchEvent \<Rightarrow> AssetPage \<times> httpRequest option" where
  "assetSwitch p (Toggled t) = toggleAsset t p"
| "assetSwitch p ConfirmedOff = confirmAssetOff p"
| "assetSwitch p CancelledOff = (p\<lparr>apDisabling := None\<rparr>, None)"
| "assetSwitch p StatusAnswered = (p\<lparr>apBusy := False\<rparr>, None)"

fun deviceSwitch :: "DevicePage \<Rightarrow> OpsSwitch switchEvent \<Rightarrow> DevicePage \<times> httpRequest option" where
  "deviceSwitch p (Toggled r) = clickPower r p"
| "deviceSwitch p ConfirmedOff = confirmDisable p"
| "deviceSwitch p CancelledOff = (p\<lparr>pgDisabling := None\<rparr>, None)"
| "deviceSwitch p StatusAnswered = (p\<lparr>pgBusy := False\<rparr>, None)"

lemmas switch_defs = toggleAsset_def confirmAssetOff_def setStatus_def clickPower_def confirmDisable_def setEnabled_def

interpretation asset_switch: status_switch assetSwitch apDisabling isOn assetStatusRequest
proof
  fix p e r assume "snd (assetSwitch p e) = Some r"
  then show "(\<exists>t. e = Toggled t \<and> \<not> isOn t \<and> r = assetStatusRequest t True)
      \<or> (\<exists>t. e = ConfirmedOff \<and> apDisabling p = Some t \<and> r = assetStatusRequest t False)"
    by (cases e) (auto simp: switch_defs split: option.splits if_splits)
next
  fix p e t assume "apDisabling (fst (assetSwitch p e)) = Some t"
  then show "e = Toggled t \<and> isOn t \<or> apDisabling p = Some t \<and> e \<noteq> ConfirmedOff \<and> e \<noteq> CancelledOff"
    by (cases e) (auto simp: switch_defs split: option.splits if_splits)
qed

interpretation device_switch: status_switch deviceSwitch pgDisabling swEnabled statusRequest
proof
  fix p e r assume "snd (deviceSwitch p e) = Some r"
  then show "(\<exists>t. e = Toggled t \<and> \<not> swEnabled t \<and> r = statusRequest t True)
      \<or> (\<exists>t. e = ConfirmedOff \<and> pgDisabling p = Some t \<and> r = statusRequest t False)"
    by (cases e) (auto simp: switch_defs split: option.splits if_splits)
next
  fix p e t assume "pgDisabling (fst (deviceSwitch p e)) = Some t"
  then show "e = Toggled t \<and> swEnabled t \<or> pgDisabling p = Some t \<and> e \<noteq> ConfirmedOff \<and> e \<noteq> CancelledOff"
    by (cases e) (auto simp: switch_defs split: option.splits if_splits)
qed

text \<open>
  C30. Nothing is switched off by accident, on either page: whatever was clicked, cancelled and answered before, a request for a
  status either enables an asset that was off, or disables one that was on when its button was clicked, and the question about
  it has been confirmed and not answered before.
\<close>

theorem off_is_confirmed:
  assumes "snd (assetSwitch (foldl (\<lambda>p e. fst (assetSwitch p e)) newAssetPage es) e) = Some r"
    "snd (deviceSwitch (foldl (\<lambda>p e. fst (deviceSwitch p e)) (openDevices s) ds) d) = Some rq"
  shows "((\<exists>t. e = Toggled t \<and> \<not> isOn t \<and> r = assetStatusRequest t True)
      \<or> (\<exists>t before after. e = ConfirmedOff \<and> r = assetStatusRequest t False \<and> isOn t \<and> es = before @ Toggled t # after
           \<and> ConfirmedOff \<notin> set after \<and> CancelledOff \<notin> set after))
    \<and> ((\<exists>t. d = Toggled t \<and> \<not> swEnabled t \<and> rq = statusRequest t True)
      \<or> (\<exists>t before after. d = ConfirmedOff \<and> rq = statusRequest t False \<and> swEnabled t \<and> ds = before @ Toggled t # after
           \<and> ConfirmedOff \<notin> set after \<and> CancelledOff \<notin> set after))"
  using asset_switch.off_confirmed [OF assms(1)] device_switch.off_confirmed [OF assms(2)]
  by (simp add: newAssetPage_def openDevices_def)

definition exampleNetwork :: EditTarget where
  "exampleNetwork = ANetwork \<lparr>netId = (js ''3''), netSwitch = (js ''1''), netCidr = (js ''10.0.0.0/24''), netEnabled = True, netValidated = True,
     netVlan = None, netDescription = None, netVersion = 2\<rparr>"

theorem off_is_confirmed_witness:
  "\<exists>t before after. [Toggled exampleNetwork] = before @ Toggled t # after \<and> isOn t \<and>
     snd (assetSwitch (fst (assetSwitch newAssetPage (Toggled exampleNetwork))) ConfirmedOff) = Some (assetStatusRequest t False)"
proof -
  have a: "snd (assetSwitch (foldl (\<lambda>p e. fst (assetSwitch p e)) newAssetPage [Toggled exampleNetwork]) ConfirmedOff)
      = Some (assetStatusRequest exampleNetwork False)"
    by (simp add: switch_defs newAssetPage_def exampleNetwork_def)
  have d: "snd (deviceSwitch (foldl (\<lambda>p e. fst (deviceSwitch p e)) (openDevices exampleSearch) [Toggled exampleRow]) ConfirmedOff)
      = Some (statusRequest exampleRow False)"
    by (simp add: switch_defs openDevices_def exampleRow_def)
  from off_is_confirmed [OF a d] show ?thesis using a by auto
qed

section \<open>The lines of the lists\<close>

definition described :: "jstr option list \<Rightarrow> jstr" where
  "described parts = joinWith (js '' '' @ [0xB7] @ js '' '') (map the (filter truthy parts))"

fun assetDetail :: "bool \<Rightarrow> Inventory option \<Rightarrow> EditTarget \<Rightarrow> jstr" where
  "assetDetail zh data (ACredential c) =
     described [Some (credUsername c), credDescription c, Some (usedBy (switchesUsing (ACredential c) data) zh)]"
| "assetDetail zh data (AProfile p) = usedBy (switchesUsing (AProfile p) data) zh"
| "assetDetail zh data (AGroup g) =
     (let n = (case data of None \<Rightarrow> 0 | Some i \<Rightarrow> length (filter (\<lambda>s. swGroup s = Some (grpId g)) (invSwitches i)))
      in described [grpDescription g, Some (if zh then nat_str n @ (js '' '' @ [0x53F0, 0x4EA4, 0x6362, 0x673A]) else nat_str n @ (js '' switch'') @ (if n = 1 then [] else (js ''es'')))])"
| "assetDetail zh data (ANetwork w) =
     described [Some (ownedBy (nullish (map_of (rev (case data of None \<Rightarrow> [] | Some i \<Rightarrow> map (\<lambda>s. (swId s, swName s)) (invSwitches i))) (netSwitch w)) ([0x2014])) zh),
       (if truthy (netVlan w) then Some ((js ''VLAN '') @ the (netVlan w)) else Some []), netDescription w]"
| "assetDetail zh data (ASwitch s) = []"

end
