(* ===== verification/SchedulePages.thy ===== *)
theory SchedulePages
  imports DevicePages
begin

text \<open>
  The other pages of device operations: schedules and their runs (\<open>routes/_authenticated/schedules.tsx\<close>),
  compliance rules and results (\<open>compliance.tsx\<close>), alerts (\<open>alerts.tsx\<close>), the audit log (\<open>audit.tsx\<close>) with the handler of the server
  that cuts it into pages (\<open>src/next/api/internal/release/ops.go\<close>), and the details of a switch (\<open>features/ops/device-detail.tsx\<close>).
\<close>

section \<open>Dialogs that create or change one record\<close>

text \<open>
  The dialogs of schedules and rules share their shape: the form starts with the record or with defaults, required
  fields are checked, and the form is sent as a new record or as a change with the version that was opened.
\<close>

record 'f recordDialog =
  rdForm :: 'f
  rdError :: "jstr option"
  rdBusy :: bool
  rdChecked :: bool

definition openRecord :: "'f \<Rightarrow> 'f recordDialog" where
  "openRecord f = \<lparr>rdForm = f, rdError = Some [], rdBusy = False, rdChecked = False\<rparr>"

definition saveRequest :: "jstr \<Rightarrow> (jstr \<times> int) option \<Rightarrow> (jstr \<times> json) list \<Rightarrow> httpRequest" where
  "saveRequest base existing body = (case existing of
     Some (i, version) \<Rightarrow> opsRequest (base @ (js ''/'') @ i) (Some (JObj (body @ [((js ''version''), JNum (of_int version))]))) (Some PATCH)
   | None \<Rightarrow> opsRequest base (Some (JObj body)) None)"

text \<open>\<open>submit\<close>: the next state, the field to focus and the request; its button is disabled while a request runs.\<close>

definition submitRecord :: "('f \<Rightarrow> RequiredField list) \<Rightarrow> ('f \<Rightarrow> httpRequest) \<Rightarrow> 'f recordDialog \<Rightarrow>
    'f recordDialog \<times> jstr option \<times> httpRequest option" where
  "submitRecord required send st =
     (if rdBusy st then (st, None, None)
      else case check (required (rdForm st)) of (checked, focus, go) \<Rightarrow>
        if \<not> go then (st\<lparr>rdChecked := checked\<rparr>, focus, None)
        else (st\<lparr>rdChecked := checked, rdBusy := True, rdError := Some []\<rparr>, None, Some (send (rdForm st))))"

definition finishRecord :: "bool \<Rightarrow> requestError option \<Rightarrow> 'f recordDialog \<Rightarrow> 'f recordDialog" where
  "finishRecord zh failure st = (case failure of
     None \<Rightarrow> st\<lparr>rdBusy := False\<rparr>
   | Some e \<Rightarrow> st\<lparr>rdError := errorText (ErrorOf (errorMessage e)) zh, rdBusy := False\<rparr>)"

lemma submitRecord_cases:
  "case submitRecord required send st of
     (st', focus, Some r) \<Rightarrow> \<not> rdBusy st \<and> focus = None \<and> r = send (rdForm st) \<and> (\<forall>f\<in>set (required (rdForm st)). \<not> blank f)
   | (st', Some i, None) \<Rightarrow> \<not> rdBusy st \<and> invalid (rdChecked st') (required (rdForm st)) i
   | (st', None, None) \<Rightarrow> rdBusy st \<and> st' = st"
proof (cases "rdBusy st")
  case True
  then show ?thesis by (simp add: submitRecord_def)
next
  case False
  obtain c focus go where c: "check (required (rdForm st)) = (c, focus, go)" by (cases "check (required (rdForm st))") auto
  show ?thesis using False c check_cases [OF c] by (cases go; cases focus) (auto simp: submitRecord_def invalid_iff)
qed

lemma submitRecord_fresh:
  "\<forall>g\<in>set (required f). \<not> blank g \<Longrightarrow> snd (snd (submitRecord required send (openRecord f))) = Some (send f)"
proof -
  assume a: "\<forall>g\<in>set (required f). \<not> blank g"
  obtain c focus go where c: "check (required f) = (c, focus, go)" by (cases "check (required f)") auto
  then have "go" using check_cases [OF c] a by simp
  then show ?thesis by (simp add: submitRecord_def openRecord_def c)
qed

text \<open>What such a dialog promises: a record that is opened and saved untouched stays as it is.\<close>

locale record_editor =
  fixes initial :: "'r option \<Rightarrow> 'f"
    and required :: "bool \<Rightarrow> 'f \<Rightarrow> RequiredField list"
    and body :: "'f \<Rightarrow> (jstr \<times> json) list"
    and base :: jstr
    and identity :: "'r \<Rightarrow> jstr \<times> int"
    and stored :: "(jstr \<times> json) list \<Rightarrow> 'r \<Rightarrow> 'r"
    and valid :: "'r \<Rightarrow> bool"
  assumes valid_complete: "valid x \<Longrightarrow> \<forall>f\<in>set (required zh (initial (Some x))). \<not> blank f"
    and stored_initial: "valid x \<Longrightarrow> stored (body (initial (Some x))) x = x"
    and no_version: "(js ''version'') \<notin> fst ` set (body f)"
begin

lemma untouched_request:
  assumes "valid x"
  shows "snd (snd (submitRecord (required zh) (\<lambda>f. saveRequest base (Some (identity x)) (body f)) (openRecord (initial (Some x))))) =
      Some (saveRequest base (Some (identity x)) (body (initial (Some x))))"
  by (rule submitRecord_fresh) (rule valid_complete [OF assms])

lemma version_sent:
  assumes "reqBody (saveRequest base (Some (identity x)) (body f)) = Some (Json b)"
  shows "field (js ''version'') b = Some (JNum (of_int (snd (identity x))))"
proof -
  have "map_of (body f) (js ''version'') = None" using no_version [of f] by (simp add: map_of_eq_None_iff)
  then show ?thesis
    using assms by (auto simp: saveRequest_def opsRequest_def consoleInit_def map_add_def split: prod.splits)
qed

lemma untouched_keeps:
  assumes "valid x"
  shows "\<exists>rq fs. snd (snd (submitRecord (required zh) (\<lambda>f. saveRequest base (Some (identity x)) (body f)) (openRecord (initial (Some x))))) = Some rq
    \<and> url rq = (js ''/api/ops/'') @ base @ (js ''/'') @ fst (identity x) \<and> reqMethod rq = PATCH
    \<and> reqBody rq = Some (Json (JObj (fs @ [((js ''version''), JNum (of_int (snd (identity x))))]))) \<and> stored fs x = x"
  using untouched_request [OF assms] stored_initial [OF assms]
  by (auto simp: saveRequest_def opsRequest_def consoleInit_def split: prod.splits)

end

section \<open>Schedules\<close>

datatype ScheduleScope = AllSwitches | OneGroup

fun scopeText :: "ScheduleScope \<Rightarrow> jstr" where
  "scopeText AllSwitches = (js ''all'')"
| "scopeText OneGroup = (js ''group'')"

record Schedule =
  schId :: jstr
  schName :: jstr
  schKind :: TaskKind
  schCron :: jstr
  schScope :: ScheduleScope
  schGroup :: "jstr option"
  schGroupName :: "jstr option"
  schEnabled :: bool
  schNextRun :: "jstr option"
  schLastRun :: "jstr option"
  schVersion :: int

record ScheduleForm =
  sfName :: jstr
  sfKind :: TaskKind
  sfCron :: jstr
  sfScope :: ScheduleScope
  sfGroup :: jstr
  sfEnabled :: bool

definition presets :: "jstr list" where
  "presets = [(js ''0 */4 * * *''), (js ''0 2 * * *''), (js ''0 * * * *''), (js ''*/10 * * * *'')]"

definition scheduleInitial :: "Schedule option \<Rightarrow> ScheduleForm" where
  "scheduleInitial schedule = (case schedule of
     None \<Rightarrow> \<lparr>sfName = [], sfKind = ConfigBackup, sfCron = (js ''0 */4 * * *''), sfScope = AllSwitches, sfGroup = [], sfEnabled = True\<rparr>
   | Some s \<Rightarrow> \<lparr>sfName = schName s, sfKind = schKind s, sfCron = schCron s, sfScope = schScope s, sfGroup = nullish (schGroup s) [],
       sfEnabled = schEnabled s\<rparr>)"

definition needed :: "string \<Rightarrow> jstr \<Rightarrow> jstr \<Rightarrow> bool \<Rightarrow> RequiredField" where
  "needed i text v chosen = \<lparr>fieldId = js i, fieldLabel = text, fieldValue = v, fieldChoose = chosen\<rparr>"

definition scheduleRequired :: "bool \<Rightarrow> ScheduleForm \<Rightarrow> RequiredField list" where
  "scheduleRequired zh f =
     [needed ''schedule-name'' (pick zh ([0x540D, 0x79F0]) (js ''Name'')) (sfName f) False]
     @ (if sfScope f = OneGroup then [needed ''schedule-group'' (pick zh ([0x5206, 0x7EC4]) (js ''Group'')) (sfGroup f) True] else [])
     @ [needed ''schedule-cron'' (pick zh ([0x6267, 0x884C, 0x65F6, 0x95F4]) (js ''When'')) (sfCron f) False]"

definition scheduleBody :: "ScheduleForm \<Rightarrow> (jstr \<times> json) list" where
  "scheduleBody f = [((js ''name''), JStr (sfName f)), ((js ''kind''), JStr (taskKindText (sfKind f))), ((js ''cron''), JStr (sfCron f)),
     ((js ''scope''), JStr (scopeText (sfScope f))), ((js ''group_id''), JStr (if sfScope f = OneGroup then sfGroup f else [])),
     ((js ''is_enabled''), JBool (sfEnabled f))]"

definition scheduleIdentity :: "Schedule \<Rightarrow> jstr \<times> int" where
  "scheduleIdentity s = (schId s, schVersion s)"

definition submitSchedule :: "bool \<Rightarrow> Schedule option \<Rightarrow> ScheduleForm recordDialog \<Rightarrow>
    ScheduleForm recordDialog \<times> jstr option \<times> httpRequest option" where
  "submitSchedule zh schedule = submitRecord (scheduleRequired zh)
     (\<lambda>f. saveRequest (js ''schedules'') (map_option scheduleIdentity schedule) (scheduleBody f))"

text \<open>The record a change leads to: each field is taken from the body, an empty group is none.\<close>

definition textField :: "string \<Rightarrow> (jstr \<times> json) list \<Rightarrow> jstr" where
  "textField k body = (case map_of body (js k) of Some (JStr s) \<Rightarrow> s | _ \<Rightarrow> [])"

definition flagField :: "string \<Rightarrow> (jstr \<times> json) list \<Rightarrow> bool" where
  "flagField k body = (map_of body (js k) = Some (JBool True))"

definition emptyNone :: "jstr \<Rightarrow> jstr option" where
  "emptyNone s = (if s = [] then None else Some s)"

definition storedSchedule :: "(jstr \<times> json) list \<Rightarrow> Schedule \<Rightarrow> Schedule" where
  "storedSchedule body s = s\<lparr>schName := textField ''name'' body,
     schKind := (if textField ''kind'' body = (js ''config_backup'') then ConfigBackup else ReachabilityCheck),
     schCron := textField ''cron'' body, schScope := (if textField ''scope'' body = (js ''all'') then AllSwitches else OneGroup),
     schGroup := emptyNone (textField ''group_id'' body), schEnabled := flagField ''is_enabled'' body\<rparr>"

definition scheduleOk :: "Schedule \<Rightarrow> bool" where
  "scheduleOk s \<longleftrightarrow> trim (schName s) \<noteq> [] \<and> trim (schCron s) \<noteq> []
     \<and> (case schScope s of AllSwitches \<Rightarrow> schGroup s = None | OneGroup \<Rightarrow> trim (nullish (schGroup s) []) \<noteq> [])"

lemmas stored_defs = textField_def flagField_def emptyNone_def needed_def blank_def

lemma trim_Nil [simp]: "trim [] = []"
  by (simp add: trim_def)

interpretation schedule_editor: record_editor scheduleInitial scheduleRequired scheduleBody "(js ''schedules'')" scheduleIdentity storedSchedule scheduleOk
proof
  fix x :: Schedule and zh :: bool and f :: ScheduleForm
  show "scheduleOk x \<Longrightarrow> \<forall>f\<in>set (scheduleRequired zh (scheduleInitial (Some x))). \<not> blank f"
    by (auto simp: scheduleOk_def scheduleRequired_def scheduleInitial_def stored_defs split: ScheduleScope.splits)
  show "scheduleOk x \<Longrightarrow> storedSchedule (scheduleBody (scheduleInitial (Some x))) x = x"
    by (cases x; cases "schKind x"; cases "schScope x"; cases "schGroup x")
      (auto simp: scheduleOk_def storedSchedule_def scheduleBody_def scheduleInitial_def stored_defs)
  show "(js ''version'') \<notin> fst ` set (scheduleBody f)" by (simp add: scheduleBody_def)
qed

subsection \<open>The page of schedules\<close>

text \<open>Starting and switching a schedule; the buttons are disabled while a request runs.\<close>

definition runScheduleRequest :: "Schedule \<Rightarrow> httpRequest" where
  "runScheduleRequest s = opsRequest ((js ''schedules/'') @ schId s @ (js ''/run'')) (Some (JObj [])) None"

definition toggleScheduleRequest :: "Schedule \<Rightarrow> httpRequest" where
  "toggleScheduleRequest s = opsRequest ((js ''schedules/'') @ schId s)
     (Some (JObj [((js ''version''), JNum (of_int (schVersion s))), ((js ''name''), JStr (schName s)), ((js ''is_enabled''), JBool (\<not> schEnabled s))])) (Some PATCH)"

definition scheduleStarted :: "Schedule \<Rightarrow> bool \<Rightarrow> jstr" where
  "scheduleStarted s zh = pick zh (([0x201C]) @ schName s @ ([0x201D, 0x5DF2, 0x5F00, 0x59CB, 0x6267, 0x884C, 0x3002])) (([0x201C]) @ schName s @ ([0x201D] @ js '' started.''))"

definition scheduleToggled :: "Schedule \<Rightarrow> bool \<Rightarrow> jstr" where
  "scheduleToggled s zh = (if schEnabled s then pick zh ([0x5DF2, 0x505C, 0x7528, 0x3002]) (js ''Disabled.'') else pick zh ([0x5DF2, 0x542F, 0x7528, 0x3002]) (js ''Enabled.''))"

text \<open>\<open>act\<close>: whether the page is busy, the request sent, and with the answer the text that is announced and whether the lists are read again.\<close>

definition act :: "httpRequest \<Rightarrow> bool \<Rightarrow> bool \<times> httpRequest option" where
  "act r busy = (if busy then (busy, None) else (True, Some r))"

definition actDone :: "jstr \<Rightarrow> requestError option \<Rightarrow> bool \<Rightarrow> bool \<times> jstr option \<times> jstr option" where
  "actDone announced failure zh = (case failure of
     None \<Rightarrow> (False, Some announced, None)
   | Some e \<Rightarrow> (False, None, errorText (ErrorOf (errorMessage e)) zh))"

definition scheduleScopeText :: "Schedule \<Rightarrow> bool \<Rightarrow> jstr option" where
  "scheduleScopeText s zh = (if schScope s = AllSwitches then Some (pick zh ([0x5168, 0x90E8]) (js ''All'')) else schGroupName s)"

definition nextRunShown :: "Schedule \<Rightarrow> jstr option" where
  "nextRunShown s = (if schEnabled s then schNextRun s else None)"

definition timezoneOf :: "jstr option \<Rightarrow> jstr" where
  "timezoneOf served = nullish served (js ''Asia/Shanghai'')"

record TaskSummary = TaskCounts +
  tsId :: jstr
  tsKind :: TaskKind
  tsScopeLabel :: jstr
  tsActor :: "jstr option"
  tsSchedule :: "jstr option"
  tsChanged :: nat

definition countsPart :: "'a TaskCounts_scheme \<Rightarrow> TaskCounts" where
  "countsPart t = TaskCounts.truncate t"

text \<open>When the list of runs and the details of a run are read again, in milliseconds; details of an ended run are not.\<close>

definition tasksInterval :: "TaskSummary list option \<Rightarrow> nat" where
  "tasksInterval data = (if list_ex (\<lambda>t. taskState (countsPart t) = TaskRunning) (nullish data []) then 3000 else 15000)"

definition taskInterval :: "TaskSummary option \<Rightarrow> nat option" where
  "taskInterval data = (case data of None \<Rightarrow> None | Some t \<Rightarrow> if taskState (countsPart t) = TaskRunning then Some 3000 else None)"

definition taskSource :: "TaskSummary \<Rightarrow> bool \<Rightarrow> jstr" where
  "taskSource t zh = (case tsSchedule t of Some n \<Rightarrow> n
     | None \<Rightarrow> joinWith (js '' '' @ [0xB7] @ js '' '') (map the (filter truthy [Some (taskScopeText (tsScopeLabel t) zh), tsActor t])))"

definition leftText :: "TaskSummary \<Rightarrow> bool \<Rightarrow> jstr option" where
  "leftText t zh = (if taskState (countsPart t) = TaskRunning
     then Some (pick zh (([0x5269, 0x4F59] @ js '' '') @ int_str (tQueued t + tRunning t)) (int_str (tQueued t + tRunning t) @ (js '' left''))) else None)"

definition changedText :: "TaskSummary \<Rightarrow> jstr" where
  "changedText t = (if tsKind t = ConfigBackup then nat_str (tsChanged t) else ([0x2014]))"

definition countsLine :: "TaskSummary \<Rightarrow> jstr" where
  "countsLine t = int_str (tSucceeded t) @ (js '' / '') @ int_str (tFailed t) @ (js '' / '') @ int_str (tSkipped t)"

definition itemTone :: "jstr \<Rightarrow> jstr" where
  "itemTone st = (if st = (js ''succeeded'') then (js ''good'') else if st = (js ''failed'') then (js ''bad'') else (js ''muted''))"

definition taskTitle :: "TaskSummary option \<Rightarrow> bool \<Rightarrow> jstr" where
  "taskTitle task zh = (case task of
     Some t \<Rightarrow> kindLabel (taskKindText (tsKind t)) zh @ (js '' '' @ [0xB7] @ js '' '') @ (case tsSchedule t of Some n \<Rightarrow> n | None \<Rightarrow> taskScopeText (tsScopeLabel t) zh)
   | None \<Rightarrow> pick zh ([0x4EFB, 0x52A1, 0x8BE6, 0x60C5]) (js ''Task run''))"

text \<open>The list of runs is read quickly exactly while some run has switches waiting or being worked on.\<close>

lemma quick_reading:
  "tasksInterval (Some ts) = 3000 \<longleftrightarrow> (\<exists>t\<in>set ts. tQueued t + tRunning t > 0)"
  by (auto simp: tasksInterval_def list_ex_iff taskState_def countsPart_def TaskCounts.truncate_def)

section \<open>Compliance\<close>

datatype RuleMode = MustContain | MustNotContain

fun modeText :: "RuleMode \<Rightarrow> jstr" where
  "modeText MustContain = (js ''must_contain'')"
| "modeText MustNotContain = (js ''must_not_contain'')"

fun severityText :: "Severity \<Rightarrow> jstr" where
  "severityText Info = (js ''info'')"
| "severityText Warning = (js ''warning'')"
| "severityText Critical = (js ''critical'')"

record Rule =
  rlId :: jstr
  rlName :: jstr
  rlDescription :: "jstr option"
  rlPattern :: jstr
  rlMode :: RuleMode
  rlSeverity :: Severity
  rlVendor :: "jstr option"
  rlGroup :: "jstr option"
  rlGroupName :: "jstr option"
  rlEnabled :: bool
  rlVersion :: int

text \<open>The form of a rule; the four choices hold texts, the empty one standing for every vendor or group.\<close>

record RuleForm =
  rfName :: jstr
  rfDescription :: jstr
  rfPattern :: jstr
  rfMode :: jstr
  rfSeverity :: jstr
  rfVendor :: jstr
  rfGroup :: jstr
  rfEnabled :: bool

definition ALL_OPTION :: jstr where
  "ALL_OPTION = (js ''all'')"

definition shownRuleChoice :: "jstr \<Rightarrow> jstr" where
  "shownRuleChoice v = (if v = [] then ALL_OPTION else v)"

definition chosenRuleValue :: "jstr \<Rightarrow> jstr" where
  "chosenRuleValue v = (if v = ALL_OPTION then [] else v)"

definition ruleInitial :: "Rule option \<Rightarrow> RuleForm" where
  "ruleInitial rule = (case rule of
     None \<Rightarrow> \<lparr>rfName = [], rfDescription = [], rfPattern = [], rfMode = (js ''must_contain''), rfSeverity = (js ''warning''), rfVendor = [],
       rfGroup = [], rfEnabled = True\<rparr>
   | Some r \<Rightarrow> \<lparr>rfName = rlName r, rfDescription = nullish (rlDescription r) [], rfPattern = rlPattern r, rfMode = modeText (rlMode r),
       rfSeverity = severityText (rlSeverity r), rfVendor = nullish (rlVendor r) [], rfGroup = nullish (rlGroup r) [], rfEnabled = rlEnabled r\<rparr>)"

definition ruleRequired :: "bool \<Rightarrow> RuleForm \<Rightarrow> RequiredField list" where
  "ruleRequired zh f = [needed ''rule-name'' (pick zh ([0x540D, 0x79F0]) (js ''Name'')) (rfName f) False,
     needed ''rule-pattern'' (pick zh ([0x5339, 0x914D, 0x89C4, 0x5219]) (js ''Pattern'')) (rfPattern f) False]"

definition ruleBody :: "RuleForm \<Rightarrow> (jstr \<times> json) list" where
  "ruleBody f = [((js ''name''), JStr (rfName f)), ((js ''description''), JStr (rfDescription f)), ((js ''pattern''), JStr (rfPattern f)),
     ((js ''mode''), JStr (rfMode f)), ((js ''severity''), JStr (rfSeverity f)), ((js ''vendor''), JStr (rfVendor f)), ((js ''group_id''), JStr (rfGroup f)),
     ((js ''is_enabled''), JBool (rfEnabled f))]"

definition ruleIdentity :: "Rule \<Rightarrow> jstr \<times> int" where
  "ruleIdentity r = (rlId r, rlVersion r)"

definition submitRule :: "bool \<Rightarrow> Rule option \<Rightarrow> RuleForm recordDialog \<Rightarrow> RuleForm recordDialog \<times> jstr option \<times> httpRequest option" where
  "submitRule zh rule = submitRecord (ruleRequired zh)
     (\<lambda>f. saveRequest (js ''compliance/rules'') (map_option ruleIdentity rule) (ruleBody f))"

definition storedRule :: "(jstr \<times> json) list \<Rightarrow> Rule \<Rightarrow> Rule" where
  "storedRule body r = r\<lparr>rlName := textField ''name'' body, rlDescription := emptyNone (textField ''description'' body),
     rlPattern := textField ''pattern'' body,
     rlMode := (if textField ''mode'' body = (js ''must_contain'') then MustContain else MustNotContain),
     rlSeverity := (if textField ''severity'' body = (js ''info'') then Info else if textField ''severity'' body = (js ''warning'') then Warning else Critical),
     rlVendor := emptyNone (textField ''vendor'' body), rlGroup := emptyNone (textField ''group_id'' body),
     rlEnabled := flagField ''is_enabled'' body\<rparr>"

definition ruleOk :: "Rule \<Rightarrow> bool" where
  "ruleOk r \<longleftrightarrow> trim (rlName r) \<noteq> [] \<and> trim (rlPattern r) \<noteq> [] \<and> rlDescription r \<noteq> Some [] \<and> rlVendor r \<noteq> Some [] \<and> rlGroup r \<noteq> Some []"

lemma emptyNone_nullish: "v \<noteq> Some [] \<Longrightarrow> emptyNone (nullish v []) = v"
  by (cases v) (simp_all add: emptyNone_def)

interpretation rule_editor: record_editor ruleInitial ruleRequired ruleBody "(js ''compliance/rules'')" ruleIdentity storedRule ruleOk
proof
  fix x :: Rule and zh :: bool and f :: RuleForm
  show "ruleOk x \<Longrightarrow> \<forall>f\<in>set (ruleRequired zh (ruleInitial (Some x))). \<not> blank f"
    by (auto simp: ruleOk_def ruleRequired_def ruleInitial_def stored_defs)
  show "storedRule (ruleBody (ruleInitial (Some x))) x = x" if "ruleOk x"
  proof -
    have "rlDescription x \<noteq> Some []" "rlVendor x \<noteq> Some []" "rlGroup x \<noteq> Some []"
      using that by (auto simp: ruleOk_def)
    then show ?thesis
      by (cases x; cases "rlMode x"; cases "rlSeverity x")
        (simp_all add: storedRule_def ruleBody_def ruleInitial_def textField_def flagField_def emptyNone_nullish)
  qed
  show "(js ''version'') \<notin> fst ` set (ruleBody f)" by (simp add: ruleBody_def)
qed

text \<open>
  C22. Opening a schedule or a compliance rule and saving it unchanged changes nothing: the form is complete, the change goes
  to the record that was opened with the version that was opened, and the fields it carries are the record's own.
\<close>

theorem untouched_records_keep:
  assumes "scheduleOk s" "ruleOk r"
  shows "(\<exists>rq fs. snd (snd (submitSchedule zh (Some s) (openRecord (scheduleInitial (Some s))))) = Some rq
        \<and> url rq = (js ''/api/ops/'') @ (js ''schedules'') @ (js ''/'') @ schId s \<and> reqMethod rq = PATCH
        \<and> reqBody rq = Some (Json (JObj (fs @ [((js ''version''), JNum (of_int (schVersion s)))]))) \<and> storedSchedule fs s = s)
     \<and> (\<exists>rq fs. snd (snd (submitRule zh (Some r) (openRecord (ruleInitial (Some r))))) = Some rq
        \<and> url rq = (js ''/api/ops/'') @ (js ''compliance/rules'') @ (js ''/'') @ rlId r \<and> reqMethod rq = PATCH
        \<and> reqBody rq = Some (Json (JObj (fs @ [((js ''version''), JNum (of_int (rlVersion r)))]))) \<and> storedRule fs r = r)"
proof
  show "\<exists>rq fs. snd (snd (submitSchedule zh (Some s) (openRecord (scheduleInitial (Some s))))) = Some rq
      \<and> url rq = (js ''/api/ops/'') @ (js ''schedules'') @ (js ''/'') @ schId s \<and> reqMethod rq = PATCH
      \<and> reqBody rq = Some (Json (JObj (fs @ [((js ''version''), JNum (of_int (schVersion s)))]))) \<and> storedSchedule fs s = s"
    using schedule_editor.untouched_keeps [OF assms(1), of zh]
    by (simp add: submitSchedule_def scheduleIdentity_def)
  show "\<exists>rq fs. snd (snd (submitRule zh (Some r) (openRecord (ruleInitial (Some r))))) = Some rq
      \<and> url rq = (js ''/api/ops/'') @ (js ''compliance/rules'') @ (js ''/'') @ rlId r \<and> reqMethod rq = PATCH
      \<and> reqBody rq = Some (Json (JObj (fs @ [((js ''version''), JNum (of_int (rlVersion r)))]))) \<and> storedRule fs r = r"
    using rule_editor.untouched_keeps [OF assms(2), of zh]
    by (simp add: submitRule_def ruleIdentity_def)
qed

definition exampleSchedule :: Schedule where
  "exampleSchedule = \<lparr>schId = (js ''4''), schName = (js ''nightly''), schKind = ReachabilityCheck, schCron = (js ''0 2 * * *''), schScope = OneGroup,
     schGroup = Some (js ''9''), schGroupName = Some (js ''lab''), schEnabled = False, schNextRun = None, schLastRun = None, schVersion = 5\<rparr>"

definition exampleRule :: Rule where
  "exampleRule = \<lparr>rlId = (js ''2''), rlName = (js ''ntp''), rlDescription = None, rlPattern = (js ''^ntp''), rlMode = MustContain, rlSeverity = Critical,
     rlVendor = Some (js ''cisco''), rlGroup = None, rlGroupName = None, rlEnabled = True, rlVersion = 1\<rparr>"

theorem untouched_records_keep_witness:
  "\<exists>rq fs. snd (snd (submitSchedule True (Some exampleSchedule) (openRecord (scheduleInitial (Some exampleSchedule))))) = Some rq
     \<and> storedSchedule fs exampleSchedule = exampleSchedule"
proof -
  have "scheduleOk exampleSchedule" by (simp add: scheduleOk_def exampleSchedule_def trim_def ws_char_def js_eval)
  moreover have "ruleOk exampleRule" by (simp add: ruleOk_def exampleRule_def trim_def ws_char_def js_eval)
  ultimately show ?thesis using untouched_records_keep [of exampleSchedule exampleRule True] by blast
qed

text \<open>
  A schedule is saved only completely described, and for what it covers: its request carries a name and a time that are not
  blank, a group that is not blank when it covers one group, and no group when it covers every switch; a form
  that is refused is flagged at the field that gets the focus.
\<close>

theorem saved_schedules_complete:
  "case submitSchedule zh schedule st of
     (st', focus, Some rq) \<Rightarrow>
       reqBody rq = Some (Json (JObj (scheduleBody (rdForm st) @ (case schedule of None \<Rightarrow> []
         | Some s \<Rightarrow> [((js ''version''), JNum (of_int (schVersion s)))])))) \<and> \<not> rdBusy st
       \<and> trim (sfName (rdForm st)) \<noteq> [] \<and> trim (sfCron (rdForm st)) \<noteq> []
       \<and> (case sfScope (rdForm st) of AllSwitches \<Rightarrow> textField ''group_id'' (scheduleBody (rdForm st)) = []
           | OneGroup \<Rightarrow> trim (textField ''group_id'' (scheduleBody (rdForm st))) \<noteq> [])
   | (st', Some i, None) \<Rightarrow> invalid (rdChecked st') (scheduleRequired zh (rdForm st)) i
   | (st', None, None) \<Rightarrow> rdBusy st \<and> st' = st"
proof -
  note c = submitRecord_cases [where required = "scheduleRequired zh" and st = st
      and send = "\<lambda>f. saveRequest (js ''schedules'') (map_option scheduleIdentity schedule) (scheduleBody f)"]
  have "(\<forall>f\<in>set (scheduleRequired zh (rdForm st)). \<not> blank f) \<longleftrightarrow>
      trim (sfName (rdForm st)) \<noteq> [] \<and> trim (sfCron (rdForm st)) \<noteq> [] \<and> (sfScope (rdForm st) = OneGroup \<longrightarrow> trim (sfGroup (rdForm st)) \<noteq> [])"
    by (auto simp: scheduleRequired_def needed_def blank_def)
  then show ?thesis
    using c unfolding submitSchedule_def
    by (auto simp: saveRequest_def opsRequest_def consoleInit_def scheduleIdentity_def textField_def scheduleBody_def
        split: prod.splits option.splits ScheduleScope.splits)
qed

subsection \<open>The page of rules and results\<close>

record CompliancePage =
  cpStatus :: jstr
  cpRule :: jstr
  cpQ :: jstr
  cpPage :: nat

definition newCompliancePage :: CompliancePage where
  "newCompliancePage = \<lparr>cpStatus = (js ''failed''), cpRule = [], cpQ = [], cpPage = 1\<rparr>"

datatype complianceAction = ChooseStatus jstr | ChooseRule jstr | TypeSwitch jstr | TurnPage nat

fun complianceAct :: "CompliancePage \<Rightarrow> complianceAction \<Rightarrow> CompliancePage" where
  "complianceAct p (ChooseStatus v) = p\<lparr>cpStatus := v, cpPage := 1\<rparr>"
| "complianceAct p (ChooseRule v) = p\<lparr>cpRule := chosenRuleValue v, cpPage := 1\<rparr>"
| "complianceAct p (TypeSwitch v) = p\<lparr>cpQ := v, cpPage := 1\<rparr>"
| "complianceAct p (TurnPage n) = p\<lparr>cpPage := n\<rparr>"

definition complianceParams :: "CompliancePage \<Rightarrow> params" where
  "complianceParams p = [((js ''status''), cpStatus p), ((js ''rule''), cpRule p), ((js ''q''), trim (cpQ p)), ((js ''page''), nat_str (cpPage p))]"

definition complianceQuery :: "CompliancePage \<Rightarrow> opsQuery" where
  "complianceQuery p = OpsResults (params_str (complianceParams p))"

record ComplianceSummary =
  smPassed :: nat
  smFailed :: nat

text \<open>\<open>Math.round(\<dots> * 1000) / 10\<close> in per cent, for the exact quotient; \<open>None\<close> when nothing was checked.\<close>

definition passRate :: "ComplianceSummary option \<Rightarrow> rat option" where
  "passRate summary = (case summary of None \<Rightarrow> None
     | Some s \<Rightarrow> if smPassed s + smFailed s \<noteq> 0
         then Some (of_int \<lfloor>of_nat (smPassed s) / of_nat (smPassed s + smFailed s) * 1000 + 1 / 2 :: rat\<rfloor> / 10) else None)"

definition ruleScope :: "Rule \<Rightarrow> bool \<Rightarrow> jstr" where
  "ruleScope r zh =
     (let parts = filter truthy [if truthy (rlVendor r) then vendorName (the (rlVendor r)) zh else None, rlGroupName r];
          t = joinWith (js '' '' @ [0xB7] @ js '' '') (map the parts)
      in if t \<noteq> [] then t else pick zh ([0x5168, 0x90E8]) (js ''All''))"

definition modeLabel :: "Rule \<Rightarrow> bool \<Rightarrow> jstr" where
  "modeLabel r zh = (if rlMode r = MustContain then pick zh ([0x5FC5, 0x987B, 0x51FA, 0x73B0]) (js ''Must be present'') else pick zh ([0x4E0D, 0x5F97, 0x51FA, 0x73B0]) (js ''Must be absent''))"

definition evidence :: "jstr option \<Rightarrow> bool \<Rightarrow> jstr" where
  "evidence found zh = (if truthy (serverText found zh) then the (serverText found zh) else ([0x2014]))"

definition emptyResults :: "CompliancePage \<Rightarrow> bool \<Rightarrow> jstr" where
  "emptyResults p zh = (if cpStatus p = (js ''failed'') then pick zh ([0x6CA1, 0x6709, 0x672A, 0x901A, 0x8FC7, 0x7684, 0x68C0, 0x67E5, 0x3002]) (js ''Nothing is failing.'')
     else pick zh ([0x6CA1, 0x6709, 0x7ED3, 0x679C, 0x3002, 0x89C4, 0x5219, 0x9700, 0x8981, 0x8BBE, 0x5907, 0x81F3, 0x5C11, 0x6709, 0x4E00, 0x6B21, 0x914D, 0x7F6E, 0x5907, 0x4EFD, 0x624D, 0x80FD, 0x8BC4, 0x4F30, 0x3002]) (js ''No results. Rules are evaluated once a switch has at least one configuration backup.''))"

text \<open>
  The pass rate that is shown is a percentage, at most a twentieth away from the exact one, and it never falls below or rises above
  what every or no failure gives.
\<close>

theorem pass_rate_bounds:
  assumes "passRate (Some s) = Some x"
  shows "0 \<le> x \<and> x \<le> 100 \<and> \<bar>x - 100 * of_nat (smPassed s) / of_nat (smPassed s + smFailed s)\<bar> \<le> 1 / 20
    \<and> (smFailed s = 0 \<longrightarrow> x = 100) \<and> (smPassed s = 0 \<longrightarrow> x = 0)"
proof -
  define y :: rat where "y = of_nat (smPassed s) / of_nat (smPassed s + smFailed s) * 1000"
  have n: "smPassed s + smFailed s \<noteq> 0" and x: "x = of_int \<lfloor>y + 1 / 2\<rfloor> / 10"
    using assms by (auto simp: passRate_def y_def split: if_splits)
  have y: "0 \<le> y" "y \<le> 1000" using n by (simp_all add: y_def divide_simps)
  define z :: rat where "z = of_int \<lfloor>y + 1 / 2\<rfloor>"
  have z: "z \<le> y + 1 / 2" "y - 1 / 2 < z" unfolding z_def by linarith+
  have "0 \<le> \<lfloor>y + 1 / 2\<rfloor>" "\<lfloor>y + 1 / 2\<rfloor> \<le> 1000" using y by linarith+
  then have z': "0 \<le> z" "z \<le> 1000" unfolding z_def by simp_all
  have q: "100 * of_nat (smPassed s) / of_nat (smPassed s + smFailed s) = y / 10"
  proof -
    have "p / d * 1000 / 10 = 100 * p / d" for p d :: rat by simp
    then show ?thesis unfolding y_def by (rule sym)
  qed
  have f: "\<lfloor>1000 + 1 / 2 :: rat\<rfloor> = 1000" "\<lfloor>0 + 1 / 2 :: rat\<rfloor> = 0" by (rule floor_unique; simp)+
  have "smFailed s = 0 \<longrightarrow> y = 1000" "smPassed s = 0 \<longrightarrow> y = 0" using n by (auto simp: y_def)
  then have e: "smFailed s = 0 \<longrightarrow> z = 1000" "smPassed s = 0 \<longrightarrow> z = 0" unfolding z_def using f by auto
  have "\<bar>z / 10 - y / 10\<bar> \<le> 1 / 20" using z unfolding abs_le_iff by linarith
  then show ?thesis unfolding x z_def [symmetric] q using z' e by auto
qed

theorem pass_rate_bounds_witness:
  "passRate (Some \<lparr>smPassed = 2, smFailed = 1\<rparr>) = Some (667 / 10) \<and> \<bar>667 / 10 - 200 / 3\<bar> \<le> (1 / 20 :: rat)"
proof -
  have "passRate (Some \<lparr>smPassed = 2, smFailed = 1\<rparr>) = Some (667 / 10)"
  proof -
    have "\<lfloor>4003 / 6 :: rat\<rfloor> = 667" by (rule floor_unique) simp_all
    then show ?thesis by (simp add: passRate_def)
  qed
  then show ?thesis using pass_rate_bounds [of "\<lparr>smPassed = 2, smFailed = 1\<rparr>" "667 / 10"] by simp
qed

section \<open>Alerts\<close>

datatype AlertTab = ActiveAlerts | ResolvedAlerts

fun tabText :: "AlertTab \<Rightarrow> jstr" where
  "tabText ActiveAlerts = (js ''active'')"
| "tabText ResolvedAlerts = (js ''resolved'')"

datatype AlertKind = DeviceUnreachable | BackupFailure | ComplianceViolation

fun alertKindName :: "AlertKind \<Rightarrow> bool \<Rightarrow> jstr" where
  "alertKindName DeviceUnreachable zh = pick zh ([0x8BBE, 0x5907, 0x4E0D, 0x53EF, 0x8FBE]) (js ''Unreachable'')"
| "alertKindName BackupFailure zh = pick zh ([0x5907, 0x4EFD, 0x5931, 0x8D25]) (js ''Backup failed'')"
| "alertKindName ComplianceViolation zh = pick zh ([0x8FDD, 0x53CD, 0x5408, 0x89C4, 0x89C4, 0x5219]) (js ''Compliance violation'')"

record OpsAlert =
  alId :: int
  alKind :: AlertKind
  alStatus :: jstr
  alAcknowledgedBy :: "jstr option"
  alResolvedAt :: "jstr option"

definition alertsQuery :: "AlertTab \<Rightarrow> opsQuery" where
  "alertsQuery tab = OpsAlerts (tabText tab)"

text \<open>The last cell of an alert: when it was resolved, who has acknowledged it, or the button that acknowledges it.\<close>

datatype handlingCell = ResolvedAt "jstr option" | AcknowledgedBy jstr | AcknowledgeButton

definition handling :: "AlertTab \<Rightarrow> OpsAlert \<Rightarrow> bool \<Rightarrow> handlingCell" where
  "handling tab a zh =
     (if tab = ResolvedAlerts then ResolvedAt (alResolvedAt a)
      else if alStatus a = (js ''acknowledged'')
      then AcknowledgedBy (pick zh (nullish (alAcknowledgedBy a) (js ''null'') @ (js '' '' @ [0x5DF2, 0x786E, 0x8BA4])) ((js ''Acknowledged by '') @ nullish (alAcknowledgedBy a) (js ''null'')))
      else AcknowledgeButton)"

definition acknowledgeRequest :: "OpsAlert \<Rightarrow> httpRequest" where
  "acknowledgeRequest a = opsRequest ((js ''alerts/'') @ int_str (alId a) @ (js ''/acknowledge'')) (Some (JObj [])) None"

definition clickAcknowledge :: "AlertTab \<Rightarrow> OpsAlert \<Rightarrow> bool \<Rightarrow> bool \<times> httpRequest option" where
  "clickAcknowledge tab a busy = (if handling tab a False = AcknowledgeButton then act (acknowledgeRequest a) busy else (busy, None))"

definition emptyAlerts :: "AlertTab \<Rightarrow> bool \<Rightarrow> jstr" where
  "emptyAlerts tab zh = (if tab = ActiveAlerts then pick zh ([0x6CA1, 0x6709, 0x672A, 0x89E3, 0x51B3, 0x7684, 0x544A, 0x8B66, 0x3002]) (js ''No active alerts.'')
     else pick zh ([0x6700, 0x8FD1] @ js '' 180 '' @ [0x5929, 0x6CA1, 0x6709, 0x5DF2, 0x89E3, 0x51B3, 0x7684, 0x544A, 0x8B66, 0x3002]) (js ''No alerts resolved in the last 180 days.''))"

section \<open>The audit log\<close>

definition auditCategories :: "jstr list" where
  "auditCategories = [(js ''credential''), (js ''profile''), (js ''switch''), (js ''network''), (js ''group''), (js ''schedule''), (js ''rule''), (js ''task''), (js ''config''), (js ''alert'')]"

definition categoryNames :: "(jstr \<times> (jstr \<times> jstr)) list" where
  "categoryNames = [((js ''credential''), (([0x51ED, 0x636E]), (js ''Credentials''))), ((js ''profile''), (([0x547D, 0x4EE4, 0x6A21, 0x677F]), (js ''Profiles''))), ((js ''switch''), (([0x4EA4, 0x6362, 0x673A]), (js ''Switches''))),
     ((js ''network''), (([0x7F51, 0x6BB5]), (js ''Networks''))), ((js ''group''), (([0x5206, 0x7EC4]), (js ''Groups''))), ((js ''schedule''), (([0x8BA1, 0x5212, 0x4EFB, 0x52A1]), (js ''Schedules''))),
     ((js ''rule''), (([0x5408, 0x89C4, 0x89C4, 0x5219]), (js ''Compliance rules''))), ((js ''task''), (([0x624B, 0x52A8, 0x4EFB, 0x52A1]), (js ''Manual tasks''))),
     ((js ''config''), (([0x67E5, 0x770B, 0x4E0E, 0x5BF9, 0x6BD4, 0x914D, 0x7F6E]), (js ''Configuration reads''))), ((js ''alert''), (([0x544A, 0x8B66, 0x5904, 0x7406]), (js ''Alert handling'')))]"

definition categoryName :: "jstr \<Rightarrow> bool \<Rightarrow> jstr option" where
  "categoryName c zh = map_option (\<lambda>(ch, en). pick zh ch en) (map_of categoryNames c)"

lemma every_category_named: "list_all (\<lambda>c. categoryName c zh \<noteq> None) auditCategories"
  by (simp add: auditCategories_def categoryName_def categoryNames_def)

record AuditFilters =
  auAction :: jstr
  auActor :: jstr
  auQ :: jstr

definition chooseCategory :: "jstr \<Rightarrow> AuditFilters \<Rightarrow> AuditFilters" where
  "chooseCategory v f = f\<lparr>auAction := chosenRuleValue v\<rparr>"

definition auditParams :: "AuditFilters \<Rightarrow> params" where
  "auditParams f = [((js ''action''), auAction f), ((js ''actor''), trim (auActor f)), ((js ''q''), trim (auQ f))]"

definition auditRequest :: "AuditFilters \<Rightarrow> int \<Rightarrow> httpRequest" where
  "auditRequest f before = opsRequest (auditPath (params_str (auditParams f)) before) None None"

record AuditEvent =
  aeId :: int
  aeActor :: jstr
  aeAction :: jstr
  aeObject :: jstr
  aeChanges :: "(jstr \<times> json) list"

text \<open>\<open>String\<close> of a member: the text of an array or object is the browser's.\<close>

fun textOfValue :: "browser \<Rightarrow> json option \<Rightarrow> jstr" where
  "textOfValue br None = (js ''undefined'')"
| "textOfValue br (Some JNull) = (js ''null'')"
| "textOfValue br (Some (JBool b)) = (if b then (js ''true'') else (js ''false''))"
| "textOfValue br (Some (JNum x)) = showNumber x"
| "textOfValue br (Some (JStr s)) = s"
| "textOfValue br (Some v) = stringOf br v"

definition describeEvent :: "browser \<Rightarrow> AuditEvent \<Rightarrow> bool \<Rightarrow> jstr option" where
  "describeEvent br e zh =
     (if aeAction e = (js ''task.run'')
      then (let queued = textOfValue br (map_of (aeChanges e) (js ''queued''));
                kd = (case map_of (aeChanges e) (js ''kind'') of Some (JStr k) \<Rightarrow> k | _ \<Rightarrow> [])
            in Some (kindLabel kd zh @ (js '' '' @ [0xB7] @ js '' '') @ pick zh (queued @ (js '' '' @ [0x53F0, 0x6392, 0x961F])) (queued @ (js '' queued''))))
      else describeChanges (Some (aeChanges e)) zh)"

subsection \<open>Reading the log to its end\<close>

text \<open>
  A page of the log: its events and the number the next page starts below. The handler of the server keeps the log in the order of
  falling numbers and cuts 50 events from those below the number it is asked for; 0 asks for the first page.
  Which events the filters admit is the argument \<open>admits\<close>.
\<close>

type_synonym auditPage = "AuditEvent list \<times> int option"

definition auditReply :: "(AuditEvent \<Rightarrow> bool) \<Rightarrow> AuditEvent list \<Rightarrow> int \<Rightarrow> auditPage" where
  "auditReply admits entries before =
     (let items = take 51 (filter (\<lambda>e. admits e \<and> (before = 0 \<or> aeId e < before)) entries)
      in if length items > 50 then (take 50 items, Some (aeId (items ! 49))) else (items, None))"

text \<open>\<open>getNextPageParam\<close>, the rows that are shown, and loading more until there is no more; the first page is asked for with 0.\<close>

definition nextPageParam :: "auditPage \<Rightarrow> int option" where
  "nextPageParam page = snd page"

definition auditRows :: "auditPage list \<Rightarrow> AuditEvent list" where
  "auditRows pages = concat (map fst pages)"

partial_function (option) loadPages :: "(int \<Rightarrow> auditPage) \<Rightarrow> int \<Rightarrow> auditPage list option" where
  "loadPages fetch before =
     (case nextPageParam (fetch before) of
        None \<Rightarrow> Some [fetch before]
      | Some cont \<Rightarrow> Option.bind (loadPages fetch cont) (\<lambda>pages. Some (fetch before # pages)))"

definition below :: "(AuditEvent \<Rightarrow> bool) \<Rightarrow> AuditEvent list \<Rightarrow> int \<Rightarrow> AuditEvent list" where
  "below admits entries before = filter (\<lambda>e. admits e \<and> (before = 0 \<or> aeId e < before)) entries"

lemma falling_filter: "sorted_wrt (\<lambda>d e. aeId d > aeId e) entries \<Longrightarrow> sorted_wrt (\<lambda>d e. aeId d > aeId e) (filter P entries)"
  by (rule sorted_wrt_filter)

text \<open>What lies below the last event of a page is what follows it.\<close>

lemma rest_below:
  assumes "sorted_wrt (\<lambda>d e. aeId d > aeId e) xs" "n < length xs"
  shows "filter (\<lambda>e. aeId e < aeId (xs ! n)) xs = drop (Suc n) xs"
proof -
  have xs: "xs = take (Suc n) xs @ drop (Suc n) xs" by simp
  have lo: "\<not> aeId e < aeId (xs ! n)" if "e \<in> set (take (Suc n) xs)" for e
  proof -
    from that obtain i where i: "i < Suc n" "e = xs ! i" using assms(2) by (auto simp: in_set_conv_nth)
    then show ?thesis using assms sorted_wrt_nth_less [OF assms(1), of i n] by (cases "i = n") auto
  qed
  have hi: "aeId e < aeId (xs ! n)" if "e \<in> set (drop (Suc n) xs)" for e
  proof -
    from that obtain i where i: "i < length xs - Suc n" "e = xs ! (Suc n + i)" by (auto simp: in_set_conv_nth)
    then show ?thesis using sorted_wrt_nth_less [OF assms(1), of n "Suc n + i"] by auto
  qed
  have "filter (\<lambda>e. aeId e < aeId (xs ! n)) (take (Suc n) xs) = []" using lo by (auto simp: filter_empty_conv)
  moreover have "filter (\<lambda>e. aeId e < aeId (xs ! n)) (drop (Suc n) xs) = drop (Suc n) xs" using hi by (auto simp: filter_id_conv)
  ultimately show ?thesis by (metis xs filter_append append_Nil)
qed

lemma next_below:
  assumes "sorted_wrt (\<lambda>d e. aeId d > aeId e) entries" "\<forall>e\<in>set entries. aeId e > 0" "auditReply admits entries before = (es, Some cont)"
  shows "length es = 50" "below admits entries cont = drop 50 (below admits entries before)" "es = take 50 (below admits entries before)"
    "50 < length (below admits entries before)"
proof -
  let ?b = "below admits entries before"
  have len: "length (take 51 ?b) > 50" and es: "es = take 50 (take 51 ?b)" and nx: "cont = aeId (take 51 ?b ! 49)"
    using assms(3) by (auto simp: auditReply_def below_def Let_def split: if_splits)
  then show "50 < length ?b" "es = take 50 ?b" "length es = 50" by simp_all
  have nx': "cont = aeId (?b ! 49)" using nx len by simp
  have s: "sorted_wrt (\<lambda>d e. aeId d > aeId e) ?b" unfolding below_def using assms(1) by (rule falling_filter)
  have "?b ! 49 \<in> set ?b" using len by simp
  then have m: "?b ! 49 \<in> set entries" "before = 0 \<or> cont < before" using nx' by (auto simp: below_def)
  then have "cont \<noteq> 0" using assms(2) nx' by force
  then have "below admits entries cont = filter (\<lambda>e. aeId e < cont) ?b"
    unfolding below_def filter_filter using m(2) by (intro filter_cong) auto
  also have "\<dots> = drop (Suc 49) ?b" unfolding nx' by (rule rest_below [OF s]) (use len in simp)
  finally show "below admits entries cont = drop 50 ?b" by simp
qed

text \<open>
  C16. Loading more ends, and by then the audit log is complete: against the server's handler, whatever the filters
  admit, the button disappears after at most one page for every 50 admitted events and one more, and the rows shown
  are the admitted events of the whole log, each once and in their order.
\<close>

theorem audit_log_complete:
  assumes "sorted_wrt (\<lambda>d e. aeId d > aeId e) entries" "\<forall>e\<in>set entries. aeId e > 0"
  shows "\<exists>pages. loadPages (auditReply admits entries) 0 = Some pages \<and> auditRows pages = filter admits entries
    \<and> length pages \<le> length (filter admits entries) div 50 + 1"
proof -
  have "\<exists>pages. loadPages (auditReply admits entries) before = Some pages \<and> auditRows pages = below admits entries before
      \<and> length pages \<le> length (below admits entries before) div 50 + 1" for before
  proof (induction "length (below admits entries before)" arbitrary: before rule: less_induct)
    case less
    obtain es nx where r: "auditReply admits entries before = (es, nx)" by (cases "auditReply admits entries before") auto
    show ?case
    proof (cases nx)
      case None
      then have "es = below admits entries before" using r by (auto simp: auditReply_def below_def Let_def split: if_splits)
      then show ?thesis using r None by (subst loadPages.simps) (simp add: nextPageParam_def auditRows_def)
    next
      case (Some cont)
      note b = next_below [OF assms r [unfolded Some]]
      have "length (below admits entries cont) < length (below admits entries before)" using b(2,4) by simp
      from less [OF this] obtain pages where p: "loadPages (auditReply admits entries) cont = Some pages"
        "auditRows pages = below admits entries cont" "length pages \<le> length (below admits entries cont) div 50 + 1"
        by blast
      have "auditRows (auditReply admits entries before # pages) = below admits entries before"
        using p(2) b(2,3) r by (simp add: auditRows_def)
      moreover have "length (below admits entries cont) div 50 + 1 = length (below admits entries before) div 50"
        using b(2,4) by (simp add: le_div_geq)
      ultimately show ?thesis
        using p r Some by (subst loadPages.simps) (simp add: nextPageParam_def)
    qed
  qed
  from this [of 0] show ?thesis by (simp add: below_def)
qed

definition exampleEvent :: "int \<Rightarrow> AuditEvent" where
  "exampleEvent i = \<lparr>aeId = i, aeActor = (js ''a@b''), aeAction = (js ''config.view''), aeObject = (js ''edge''), aeChanges = []\<rparr>"

theorem audit_log_complete_witness:
  "\<exists>pages. loadPages (auditReply (\<lambda>e. aeId e \<noteq> 2) (map exampleEvent [3, 2, 1])) 0 = Some pages
     \<and> auditRows pages = map exampleEvent [3, 1]"
  using audit_log_complete [of "map exampleEvent [3, 2, 1]" "\<lambda>e. aeId e \<noteq> 2"] by (auto simp: exampleEvent_def)

section \<open>The details of a switch\<close>

definition configLines :: "jstr \<Rightarrow> jstr list" where
  "configLines content = splitOn 0x0A content"

definition numberedLine :: "nat \<Rightarrow> jstr \<Rightarrow> jstr \<times> jstr" where
  "numberedLine index line = (nat_str (index + 1), if line = [] then (js '' '') else line)"

text \<open>A version can be compared with the one listed after it, which is the one before it in time.\<close>

definition comparePair :: "int list \<Rightarrow> nat \<Rightarrow> (int \<times> int) option" where
  "comparePair backups index = (if index + 1 < length backups then Some (backups ! index, backups ! (index + 1)) else None)"

definition compareQuery :: "int \<times> int \<Rightarrow> opsQuery" where
  "compareQuery p = OpsDiff (fst p) (snd p)"

datatype diffKind = ContextLine | AddedLine | RemovedLine

fun diffMark :: "diffKind \<Rightarrow> jstr" where
  "diffMark AddedLine = (js ''+'')"
| "diffMark RemovedLine = ([0x2212])"
| "diffMark ContextLine = (js '' '')"

definition hunkHeader :: "nat \<Rightarrow> nat \<Rightarrow> nat \<Rightarrow> nat \<Rightarrow> jstr" where
  "hunkHeader oldStart oldLines newStart newLines =
     (js ''@@ '' @ [0x2212]) @ nat_str oldStart @ (js '','') @ nat_str oldLines @ (js '' +'') @ nat_str newStart @ (js '','') @ nat_str newLines @ (js '' @@'')"

definition networkTone :: "bool \<Rightarrow> bool \<Rightarrow> jstr" where
  "networkTone enabled validated = (if enabled \<and> validated then (js ''good'') else (js ''muted''))"

definition networkText :: "jstr \<Rightarrow> jstr option \<Rightarrow> jstr" where
  "networkText cidr vlan = cidr @ (if truthy vlan then (js '' '' @ [0xB7] @ js '' VLAN '') @ the vlan else [])"

definition loginLine :: "jstr option \<Rightarrow> nat option \<Rightarrow> jstr" where
  "loginLine protocol port = protocolName protocol @ (js '' '' @ [0xB7] @ js '' '') @ nat_str (loginPort port protocol)"

lemma joinWith_splitOn: "joinWith [c] (splitOn c s) = s"
proof (induction c s rule: splitOn.induct)
  case (2 c d s)
  then show ?case by (cases "splitOn c s"; cases "tl (splitOn c s)") (auto split: if_splits)
qed simp

lemma configLines_all: "joinWith [0x0A] (configLines content) = content"
  by (simp add: configLines_def joinWith_splitOn)

lemma compared_versions: "map_option fst (comparePair ids i) \<noteq> None \<longleftrightarrow> Suc i < length ids"
  by (simp add: comparePair_def)

end
