(* ===== verification/SystemSettings.thy ===== *)
theory SystemSettings
  imports DraftLifecycle ApiContract AccessShell
begin

text \<open>
  The settings of the system: its name and icon (\<open>features/settings/system-identity-page.tsx\<close>), the retention of the
  operation log (\<open>features/settings/operation-log-retention-card.tsx\<close>) and the test of the mail settings with the inputs of
  their form (\<open>features/settings/email-settings-page.tsx\<close>).
\<close>

section \<open>Name and icon of the system\<close>

record SystemIdentity =
  siName :: jstr
  siIcon :: jstr
  siCustomIcon :: bool
  siRevision :: int

datatype IconAction = PreserveIcon | ReplaceIcon | DefaultIcon

fun iconActionText :: "IconAction \<Rightarrow> jstr" where
  "iconActionText PreserveIcon = (js ''preserve'')"
| "iconActionText ReplaceIcon = (js ''replace'')"
| "iconActionText DefaultIcon = (js ''default'')"

text \<open>A chosen file: its bytes and its name.\<close>

record IdentityDraft =
  idName :: jstr
  idAction :: IconAction
  idFile :: "(nat list \<times> jstr) option"
  idPreview :: jstr
  idRevision :: int
  idDirty :: bool
  idConflict :: bool

definition emptyIdentity :: IdentityDraft where
  "emptyIdentity = \<lparr>idName = (js ''Bind Plane''), idAction = PreserveIcon, idFile = None, idPreview = (js ''/api/public/system-identity/icon?default=1''),
     idRevision = 0, idDirty = False, idConflict = False\<rparr>"

definition fromSystemIdentity :: "SystemIdentity \<Rightarrow> IdentityDraft" where
  "fromSystemIdentity i = \<lparr>idName = siName i, idAction = PreserveIcon, idFile = None, idPreview = siIcon i, idRevision = siRevision i,
     idDirty = False, idConflict = False\<rparr>"

definition runeLength :: "jstr \<Rightarrow> nat" where
  "runeLength v = length (codePoints (trim v))"

text \<open>The draft of the page, what the query has read last, whether that reading failed, and whether a save runs.\<close>

record IdentityPage =
  ipDraft :: "IdentityDraft option"
  ipData :: "SystemIdentity option"
  ipError :: bool
  ipSaving :: bool

definition newIdentityPage :: IdentityPage where
  "newIdentityPage = \<lparr>ipDraft = None, ipData = None, ipError = False, ipSaving = False\<rparr>"

definition identityCurrent :: "IdentityPage \<Rightarrow> IdentityDraft" where
  "identityCurrent p = (case ipDraft p of
     Some d \<Rightarrow> if idDirty d then d else (case ipData p of Some i \<Rightarrow> fromSystemIdentity i | None \<Rightarrow> d)
   | None \<Rightarrow> (case ipData p of Some i \<Rightarrow> fromSystemIdentity i | None \<Rightarrow> emptyIdentity))"

text \<open>The form is shown when something was read; after a failed reading only with a draft.\<close>

definition identityFormShown :: "IdentityPage \<Rightarrow> bool" where
  "identityFormShown p \<longleftrightarrow> ipDraft p \<noteq> None \<or> ipData p \<noteq> None \<and> \<not> ipError p"

definition nameTooLong :: "IdentityDraft \<Rightarrow> bool" where
  "nameTooLong d \<longleftrightarrow> runeLength (idName d) > 50"

definition identityEditDisabled :: "bool \<Rightarrow> IdentityPage \<Rightarrow> bool" where
  "identityEditDisabled canWrite p \<longleftrightarrow> ipSaving p \<or> \<not> canWrite \<or> idConflict (identityCurrent p) \<or> ipError p"

definition identitySubmitDisabled :: "bool \<Rightarrow> IdentityPage \<Rightarrow> bool" where
  "identitySubmitDisabled canWrite p \<longleftrightarrow> (let cur = identityCurrent p in
     identityEditDisabled canWrite p \<or> trim (idName cur) = [] \<or> nameTooLong cur \<or> idAction cur = ReplaceIcon \<and> idFile cur = None)"

text \<open>The inputs: the name, a file, and the default icon.\<close>

definition updateIdentity :: "(IdentityDraft \<Rightarrow> IdentityDraft) \<Rightarrow> IdentityPage \<Rightarrow> IdentityPage" where
  "updateIdentity patch p = p\<lparr>ipDraft := Some ((patch (identityCurrent p))\<lparr>idDirty := True, idConflict := False\<rparr>)\<rparr>"

definition typeSystemName :: "jstr \<Rightarrow> IdentityPage \<Rightarrow> IdentityPage" where
  "typeSystemName v = updateIdentity (\<lambda>d. d\<lparr>idName := v\<rparr>)"

definition selectIcon :: "(nat list \<times> jstr) option \<Rightarrow> jstr \<Rightarrow> IdentityPage \<Rightarrow> IdentityPage" where
  "selectIcon chosen preview p = (case chosen of None \<Rightarrow> p
     | Some f \<Rightarrow> updateIdentity (\<lambda>d. d\<lparr>idAction := ReplaceIcon, idFile := Some f, idPreview := preview\<rparr>) p)"

definition restoreDefaultIcon :: "IdentityPage \<Rightarrow> IdentityPage" where
  "restoreDefaultIcon = updateIdentity (\<lambda>d. d\<lparr>idAction := DefaultIcon, idFile := None, idPreview := (js ''/api/public/system-identity/icon?default=1'')\<rparr>)"

text \<open>The form that is sent, and the two outcomes.\<close>

definition identityForm :: "IdentityDraft \<Rightarrow> (jstr \<times> part) list" where
  "identityForm d = [((js ''systemName''), TextPart (idName d)), ((js ''revision''), TextPart (int_str (idRevision d))),
     ((js ''iconAction''), TextPart (iconActionText (idAction d)))]
     @ (case idFile d of Some (bytes, name) \<Rightarrow> if idAction d = ReplaceIcon then [((js ''icon''), FilePart bytes name)] else [] | None \<Rightarrow> [])"

definition submitIdentity :: "bool \<Rightarrow> IdentityPage \<Rightarrow> IdentityPage \<times> systemMethod option" where
  "submitIdentity canWrite p =
     (if identitySubmitDisabled canWrite p then (p, None)
      else (p\<lparr>ipSaving := True\<rparr>, Some (SaveSystemIdentity (identityForm (identityCurrent p)))))"

definition identitySaved :: "SystemIdentity \<Rightarrow> IdentityPage \<Rightarrow> IdentityPage" where
  "identitySaved i p = p\<lparr>ipDraft := Some (fromSystemIdentity i), ipData := Some i, ipError := False, ipSaving := False\<rparr>"

definition identityFailed :: "editorError \<Rightarrow> IdentityPage \<Rightarrow> IdentityPage" where
  "identityFailed e p = p\<lparr>ipDraft := Some ((nullish (ipDraft p) (identityCurrent p))\<lparr>idDirty := True, idConflict := isStaleRevision e\<rparr>),
     ipSaving := False\<rparr>"

definition identityRead :: "SystemIdentity option \<Rightarrow> IdentityPage \<Rightarrow> IdentityPage" where
  "identityRead r p = (case r of Some i \<Rightarrow> p\<lparr>ipData := Some i, ipError := False\<rparr> | None \<Rightarrow> p\<lparr>ipError := True\<rparr>)"

text \<open>After a conflict: the identity is read again and replaces the draft; a failed reading keeps the data of the earlier one.\<close>

definition reloadIdentity :: "SystemIdentity option \<Rightarrow> IdentityPage \<Rightarrow> IdentityPage" where
  "reloadIdentity r p = (let p' = identityRead r p in
     case ipData p' of Some i \<Rightarrow> p'\<lparr>ipDraft := Some (fromSystemIdentity i)\<rparr> | None \<Rightarrow> p')"

subsection \<open>Runs of the page\<close>

datatype identityEvent = IdentityRead SystemIdentity | IdentitySent IdentityDraft | IdentityRefused bool

inductive identity_step :: "bool \<Rightarrow> IdentityPage \<times> identityEvent list \<Rightarrow> IdentityPage \<times> identityEvent list \<Rightarrow> bool" for canWrite where
  reads: "identity_step canWrite (p, es) (identityRead (Some i) p, es @ [IdentityRead i])"
| read_fails: "identity_step canWrite (p, es) (identityRead None p, es)"
| types: "\<lbrakk>identityFormShown p; \<not> identityEditDisabled canWrite p\<rbrakk> \<Longrightarrow> identity_step canWrite (p, es) (typeSystemName v p, es)"
| selects: "\<lbrakk>identityFormShown p; \<not> identityEditDisabled canWrite p\<rbrakk> \<Longrightarrow> identity_step canWrite (p, es) (selectIcon chosen preview p, es)"
| restores: "\<lbrakk>identityFormShown p; \<not> identityEditDisabled canWrite p\<rbrakk> \<Longrightarrow> identity_step canWrite (p, es) (restoreDefaultIcon p, es)"
| submits: "\<lbrakk>identityFormShown p; submitIdentity canWrite p = (p', Some m)\<rbrakk> \<Longrightarrow>
    identity_step canWrite (p, es) (p', es @ [IdentitySent (identityCurrent p)])"
| saved: "ipSaving p \<Longrightarrow> identity_step canWrite (p, es) (identitySaved i p, es @ [IdentityRead i])"
| refused: "ipSaving p \<Longrightarrow> identity_step canWrite (p, es) (identityFailed e p, es @ [IdentityRefused (isStaleRevision e)])"
| reloads: "idConflict (identityCurrent p) \<Longrightarrow>
    identity_step canWrite (p, es) (reloadIdentity r p, es @ (case r of Some i \<Rightarrow> [IdentityRead i] | None \<Rightarrow> []))"

text \<open>The identities that were read, and the one the draft of the page belongs to.\<close>

definition identitiesRead :: "identityEvent list \<Rightarrow> SystemIdentity set" where
  "identitiesRead es = {i. IdentityRead i \<in> set es}"

definition sentDraftOk :: "bool \<Rightarrow> identityEvent list \<Rightarrow> IdentityDraft \<Rightarrow> bool" where
  "sentDraftOk canWrite before d \<longleftrightarrow> canWrite \<and> \<not> idConflict d \<and> trim (idName d) \<noteq> [] \<and> runeLength (idName d) \<le> 50
     \<and> (idAction d = ReplaceIcon \<longrightarrow> idFile d \<noteq> None) \<and> idRevision d \<in> siRevision ` identitiesRead before"

definition sentDraftsOk :: "bool \<Rightarrow> identityEvent list \<Rightarrow> bool" where
  "sentDraftsOk canWrite es \<longleftrightarrow> (\<forall>before d after. es = before @ IdentitySent d # after \<longrightarrow> sentDraftOk canWrite before d)"

lemma identitiesRead_snoc: "identitiesRead (es @ [e]) = (case e of IdentityRead i \<Rightarrow> insert i (identitiesRead es) | _ \<Rightarrow> identitiesRead es)"
  by (auto simp: identitiesRead_def split: identityEvent.split)

definition goodIdentity :: "bool \<Rightarrow> IdentityPage \<times> identityEvent list \<Rightarrow> bool" where
  "goodIdentity canWrite x \<longleftrightarrow> (case x of (p, es) \<Rightarrow>
     (case ipDraft p of None \<Rightarrow> True | Some d \<Rightarrow> idRevision d \<in> siRevision ` identitiesRead es)
     \<and> (case ipData p of None \<Rightarrow> True | Some i \<Rightarrow> i \<in> identitiesRead es)
     \<and> (ipSaving p \<longrightarrow> ipDraft p \<noteq> None \<or> ipData p \<noteq> None)
     \<and> sentDraftsOk canWrite es)"

lemma current_revision:
  assumes "goodIdentity canWrite (p, es)" "ipDraft p \<noteq> None \<or> ipData p \<noteq> None"
  shows "idRevision (identityCurrent p) \<in> siRevision ` identitiesRead es"
  using assms unfolding goodIdentity_def identityCurrent_def
  by (auto simp: fromSystemIdentity_def split: option.splits)

lemma sent_snoc:
  "sentDraftsOk canWrite (es @ [e]) \<longleftrightarrow> sentDraftsOk canWrite es \<and> (case e of IdentitySent d \<Rightarrow> sentDraftOk canWrite es d | _ \<Rightarrow> True)"
  unfolding sentDraftsOk_def snoc_split by (auto split: identityEvent.splits)

lemmas identity_defs = goodIdentity_def identityRead_def updateIdentity_def typeSystemName_def selectIcon_def restoreDefaultIcon_def
  identitySaved_def identityFailed_def reloadIdentity_def identitiesRead_snoc sent_snoc

lemma shown_current: "identityFormShown p \<Longrightarrow> ipDraft p \<noteq> None \<or> ipData p \<noteq> None"
  by (auto simp: identityFormShown_def)

lemma updateIdentity_good:
  assumes "goodIdentity canWrite (p, es)" "identityFormShown p" "\<And>d. idRevision (patch d) = idRevision d"
  shows "goodIdentity canWrite (updateIdentity patch p, es)"
  using assms(1) current_revision [OF assms(1) shown_current [OF assms(2)]] assms(3)
  by (auto simp: goodIdentity_def updateIdentity_def)

lemma goodIdentity_step:
  assumes "identity_step canWrite x y" "goodIdentity canWrite x"
  shows "goodIdentity canWrite y"
  using assms
proof (induction rule: identity_step.induct)
  case (types p es v)
  then show ?case unfolding typeSystemName_def by (intro updateIdentity_good) auto
next
  case (selects p es chosen preview)
  then show ?case
    unfolding selectIcon_def by (cases chosen) (auto intro!: updateIdentity_good)
next
  case (restores p es)
  then show ?case unfolding restoreDefaultIcon_def by (intro updateIdentity_good) auto
next
  case (submits p p' m es)
  have r: "idRevision (identityCurrent p) \<in> siRevision ` identitiesRead es"
    using current_revision [OF submits.prems shown_current [OF submits.hyps(1)]] .
  have d: "\<not> identitySubmitDisabled canWrite p" "p' = p\<lparr>ipSaving := True\<rparr>"
    using submits.hyps(2) by (auto simp: submitIdentity_def split: if_splits)
  then have "sentDraftOk canWrite es (identityCurrent p)"
    using r by (auto simp: sentDraftOk_def identitySubmitDisabled_def identityEditDisabled_def nameTooLong_def Let_def)
  then show ?case
    using submits.prems shown_current [OF submits.hyps(1)] d(2) by (auto simp: goodIdentity_def identitiesRead_snoc sent_snoc split: option.splits)
next
  case (refused p es e)
  have "idRevision (identityCurrent p) \<in> siRevision ` identitiesRead es" if "ipDraft p = None"
    using refused that current_revision [of canWrite p es] by (auto simp: goodIdentity_def)
  then show ?case
    using refused by (auto simp: goodIdentity_def identityFailed_def identitiesRead_snoc sent_snoc split: option.splits)
next
  case (reloads p es r)
  then show ?case by (cases r) (auto simp: identity_defs fromSystemIdentity_def Let_def split: option.splits)
qed (auto simp: identity_defs fromSystemIdentity_def split: option.splits)

lemma goodIdentity_reached:
  assumes "(identity_step canWrite)\<^sup>*\<^sup>* (newIdentityPage, []) x"
  shows "goodIdentity canWrite x"
  using assms
proof (induction rule: rtranclp_induct)
  case base
  show ?case by (simp add: goodIdentity_def newIdentityPage_def sentDraftsOk_def)
next
  case (step y z)
  then show ?case using goodIdentity_step by blast
qed


text \<open>
  A failed reading after a conflict drops the edits nevertheless: the draft becomes what was read before the conflict, and the
  conflict is no longer shown.
\<close>

lemma failed_reload_drops_edits:
  "\<lbrakk>ipData p = Some i; ipDraft p = Some d; idConflict d\<rbrakk> \<Longrightarrow> ipDraft (reloadIdentity None p) = Some (fromSystemIdentity i)"
  by (simp add: reloadIdentity_def identityRead_def Let_def)

definition exampleIdentity :: SystemIdentity where
  "exampleIdentity = \<lparr>siName = (js ''Campus''), siIcon = (js ''/icon''), siCustomIcon = False, siRevision = 4\<rparr>"

lemma example_identity:
  "\<exists>p. (identity_step True)\<^sup>*\<^sup>* (newIdentityPage, []) (p, [IdentityRead exampleIdentity, IdentitySent (fromSystemIdentity exampleIdentity)])"
proof -
  let ?p = "identityRead (Some exampleIdentity) newIdentityPage"
  have c: "identityCurrent ?p = fromSystemIdentity exampleIdentity"
    by (simp add: identityCurrent_def identityRead_def newIdentityPage_def)
  have "identity_step True (newIdentityPage, []) (?p, [] @ [IdentityRead exampleIdentity])" by (rule reads)
  moreover have "identity_step True (?p, [IdentityRead exampleIdentity])
      (?p\<lparr>ipSaving := True\<rparr>, [IdentityRead exampleIdentity] @ [IdentitySent (identityCurrent ?p)])"
    by (rule submits [where m = "SaveSystemIdentity (identityForm (identityCurrent ?p))"])
      (simp_all add: Let_def c submitIdentity_def identitySubmitDisabled_def identityEditDisabled_def nameTooLong_def runeLength_def
        fromSystemIdentity_def exampleIdentity_def identityFormShown_def identityRead_def newIdentityPage_def trim_def ws_char_def
        high_surrogate_def low_surrogate_def js_eval identityCurrent_def)
  ultimately have "(identity_step True)\<^sup>*\<^sup>* (newIdentityPage, []) (?p\<lparr>ipSaving := True\<rparr>, [IdentityRead exampleIdentity, IdentitySent (identityCurrent ?p)])"
    unfolding append_Nil append_Cons by (elim converse_rtranclp_into_rtranclp) (rule rtranclp.rtrancl_refl)
  then show ?thesis unfolding c by blast
qed


section \<open>Retention of the operation log\<close>

record RetentionSetting =
  rsDays :: int
  rsRevision :: int

definition noRetention :: OperationLogRetentionDraft where
  "noRetention = \<lparr>oOwnerID = None, oRetentionDays = Finite 180, oRevision = 0, oSubmitting = False, oConflict = False,
     oAuthoritative = False, oSubmissionID = None\<rparr>"

text \<open>The draft of a setting that was read or saved.\<close>

definition retentionDraft :: "jstr \<Rightarrow> RetentionSetting \<Rightarrow> bool \<Rightarrow> jstr option \<Rightarrow> OperationLogRetentionDraft" where
  "retentionDraft user r submitting i = \<lparr>oOwnerID = Some user, oRetentionDays = Finite (of_int (rsDays r)), oRevision = rsRevision r,
     oSubmitting = submitting, oConflict = False, oAuthoritative = True, oSubmissionID = i\<rparr>"

text \<open>The effect of the card: a draft of another user is dropped, one that is missing or not from the server is filled.\<close>

definition retentionEffect :: "jstr \<Rightarrow> RetentionSetting option \<Rightarrow> DraftState \<Rightarrow> DraftState" where
  "retentionEffect user data s =
     (let draft = operationLogRetention s; owner = Option.bind draft oOwnerID in
      if truthy owner \<and> owner \<noteq> Some user then setOperationLogRetention None s
      else case data of None \<Rightarrow> s
        | Some r \<Rightarrow> if draft = None \<or> owner \<noteq> Some user \<or> \<not> (case draft of Some d \<Rightarrow> oAuthoritative d | None \<Rightarrow> False)
            then setOperationLogRetention (Some (retentionDraft user r (case draft of Some d \<Rightarrow> oSubmitting d | None \<Rightarrow> False)
              (Option.bind draft oSubmissionID))) s
            else s)"

definition retentionShown :: "jstr \<Rightarrow> DraftState \<Rightarrow> OperationLogRetentionDraft" where
  "retentionShown user s = (case operationLogRetention s of
     Some d \<Rightarrow> if \<not> truthy (oOwnerID d) \<or> oOwnerID d = Some user then d else noRetention | None \<Rightarrow> noRetention)"

definition retentionAuthoritative :: "jstr \<Rightarrow> RetentionSetting option \<Rightarrow> DraftState \<Rightarrow> bool" where
  "retentionAuthoritative user data s \<longleftrightarrow> data \<noteq> None \<or> oAuthoritative (retentionShown user s)"

definition retentionValid :: "jsnum \<Rightarrow> bool" where
  "retentionValid n \<longleftrightarrow> isInteger n \<and> inRange 1 3650 n"

definition retentionEditDisabled :: "jstr \<Rightarrow> bool \<Rightarrow> RetentionSetting option \<Rightarrow> bool \<Rightarrow> DraftState \<Rightarrow> bool" where
  "retentionEditDisabled user canWrite data failed s \<longleftrightarrow>
     oSubmitting (retentionShown user s) \<or> \<not> canWrite \<or> \<not> retentionAuthoritative user data s \<or> failed"

definition retentionSubmitDisabled :: "jstr \<Rightarrow> bool \<Rightarrow> RetentionSetting option \<Rightarrow> bool \<Rightarrow> DraftState \<Rightarrow> bool" where
  "retentionSubmitDisabled user canWrite data failed s \<longleftrightarrow>
     retentionEditDisabled user canWrite data failed s \<or> \<not> retentionValid (oRetentionDays (retentionShown user s))
     \<or> oConflict (retentionShown user s)"

text \<open>The warning that shortening deletes entries.\<close>

fun numberBelow :: "jsnum \<Rightarrow> int \<Rightarrow> bool" where
  "numberBelow (Finite x) n = (x < of_int n)"
| "numberBelow NotFinite n = False"

definition rangeWarning :: "jstr \<Rightarrow> RetentionSetting option \<Rightarrow> DraftState \<Rightarrow> bool" where
  "rangeWarning user data s = (case data of None \<Rightarrow> False | Some r \<Rightarrow> numberBelow (oRetentionDays (retentionShown user s)) (rsDays r))"

definition typeRetention :: "jstr \<Rightarrow> RetentionSetting option \<Rightarrow> jsnum \<Rightarrow> DraftState \<Rightarrow> DraftState" where
  "typeRetention user data n s = setOperationLogRetention (Some ((retentionShown user s)\<lparr>oOwnerID := Some user,
     oAuthoritative := retentionAuthoritative user data s, oRetentionDays := n, oConflict := False, oSubmissionID := None\<rparr>)) s"

text \<open>\<open>onMutate\<close> of a save, and the values the request carries.\<close>

definition beginRetention :: "jstr \<Rightarrow> jstr \<Rightarrow> DraftState \<Rightarrow> DraftState" where
  "beginRetention user i s = setOperationLogRetention (Some ((retentionShown user s)\<lparr>oOwnerID := Some user, oAuthoritative := True,
     oSubmissionID := Some i, oSubmitting := True\<rparr>)) s"

definition retentionInput :: "jstr \<Rightarrow> DraftState \<Rightarrow> jsnum \<times> int" where
  "retentionInput user s = (oRetentionDays (retentionShown user s), oRevision (retentionShown user s))"

text \<open>An outcome counts only for the submission that is still the draft's.\<close>

definition retentionOwned :: "jstr \<Rightarrow> submission \<Rightarrow> DraftState \<Rightarrow> bool" where
  "retentionOwned user b s \<longleftrightarrow> (case operationLogRetention s of None \<Rightarrow> False
     | Some d \<Rightarrow> oOwnerID d = Some user \<and> oSubmissionID d = Some (subID b))"

definition retentionUpdate :: "jstr \<Rightarrow> (OperationLogRetentionDraft \<Rightarrow> OperationLogRetentionDraft) \<Rightarrow> submission \<Rightarrow> DraftState \<Rightarrow> DraftState \<times> bool" where
  "retentionUpdate user patch b s = (case operationLogRetention s of None \<Rightarrow> (s, False)
     | Some d \<Rightarrow> if oOwnerID d \<noteq> Some user \<or> oSubmissionID d \<noteq> Some (subID b) then (s, False)
         else (setOperationLogRetention (Some (patch d)) s, True))"

definition retentionSaved :: "jstr \<Rightarrow> RetentionSetting \<Rightarrow> submission \<Rightarrow> DraftState \<Rightarrow> DraftState \<times> bool" where
  "retentionSaved user saved = retentionUpdate user (\<lambda>_. retentionDraft user saved False None)"

definition retentionFailed :: "jstr \<Rightarrow> editorError \<Rightarrow> submission \<Rightarrow> DraftState \<Rightarrow> DraftState \<times> bool" where
  "retentionFailed user e = retentionUpdate user (\<lambda>d. d\<lparr>oOwnerID := Some user, oSubmitting := False, oConflict := isStaleRevision e\<rparr>)"

text \<open>Discarding a conflict: the first look at the draft, and after reading again, with the submission seen first.\<close>

definition beginDiscard :: "jstr \<Rightarrow> DraftState \<Rightarrow> jstr option option" where
  "beginDiscard user s = (case operationLogRetention s of None \<Rightarrow> None
     | Some d \<Rightarrow> if oOwnerID d \<noteq> Some user \<or> \<not> oConflict d then None else Some (oSubmissionID d))"

definition finishDiscard :: "jstr \<Rightarrow> jstr option \<Rightarrow> RetentionSetting option \<Rightarrow> DraftState \<Rightarrow> DraftState" where
  "finishDiscard user i refreshed s = (case refreshed of None \<Rightarrow> s
     | Some r \<Rightarrow> (case operationLogRetention s of None \<Rightarrow> s
         | Some d \<Rightarrow> if oOwnerID d \<noteq> Some user \<or> \<not> oConflict d \<or> oSubmissionID d \<noteq> i then s
             else setOperationLogRetention (Some (retentionDraft user r False None)) s))"

lemma retention_editor: "guarded_editor operationLogRetention setOperationLogRetention (retentionOwned user) (retentionUpdate user)"
  by unfold_locales (auto simp: setOperationLogRetention_def retentionOwned_def retentionUpdate_def split: option.splits)

interpretation retention: guarded_editor operationLogRetention setOperationLogRetention "retentionOwned user" "retentionUpdate user" for user
  by (rule retention_editor)

subsection \<open>Runs of the card\<close>

record RetentionRun =
  rrStore :: DraftState
  rrData :: "RetentionSetting option"
  rrFailed :: bool
  rrFlying :: "jstr list"
  rrSent :: "(jsnum \<times> int) list"
  rrSequence :: nat

definition newRetentionRun :: RetentionRun where
  "newRetentionRun = \<lparr>rrStore = emptyDrafts, rrData = None, rrFailed = False, rrFlying = [], rrSent = [], rrSequence = 0\<rparr>"

inductive retention_step :: "jstr \<Rightarrow> bool \<Rightarrow> RetentionRun \<Rightarrow> RetentionRun \<Rightarrow> bool" for user canWrite where
  renders: "retention_step user canWrite r (r\<lparr>rrStore := retentionEffect user (rrData r) (rrStore r)\<rparr>)"
| reads: "retention_step user canWrite r (r\<lparr>rrData := Some v, rrFailed := False\<rparr>)"
| read_fails: "retention_step user canWrite r (r\<lparr>rrFailed := True\<rparr>)"
| types: "\<not> retentionEditDisabled user canWrite (rrData r) (rrFailed r) (rrStore r) \<Longrightarrow>
    retention_step user canWrite r (r\<lparr>rrStore := typeRetention user (rrData r) n (rrStore r)\<rparr>)"
| submits: "\<lbrakk>\<not> retentionSubmitDisabled user canWrite (rrData r) (rrFailed r) (rrStore r); nextDraftSubmissionID now (rrSequence r) = (k, i)\<rbrakk> \<Longrightarrow>
    retention_step user canWrite r (r\<lparr>rrStore := beginRetention user i (rrStore r), rrFlying := i # rrFlying r,
      rrSent := rrSent r @ [retentionInput user (rrStore r)], rrSequence := k\<rparr>)"
| succeeds: "i \<in> set (rrFlying r) \<Longrightarrow> retention_step user canWrite r
    (r\<lparr>rrStore := fst (retentionSaved user v \<lparr>subOwner = Some user, subUser = [], subID = i\<rparr> (rrStore r)), rrFlying := removeAll i (rrFlying r)\<rparr>)"
| fails: "i \<in> set (rrFlying r) \<Longrightarrow> retention_step user canWrite r
    (r\<lparr>rrStore := fst (retentionFailed user e \<lparr>subOwner = Some user, subUser = [], subID = i\<rparr> (rrStore r)), rrFlying := removeAll i (rrFlying r)\<rparr>)"
| discards: "retention_step user canWrite r (r\<lparr>rrStore := finishDiscard user j v (rrStore r)\<rparr>)"
| signs_in: "retention_step user canWrite r (r\<lparr>rrStore := setOwner w (rrStore r)\<rparr>)"
| signs_out: "retention_step user canWrite r (r\<lparr>rrStore := clearAccessDrafts (rrStore r)\<rparr>)"

definition sentRetentionOk :: "bool \<Rightarrow> jsnum \<times> int \<Rightarrow> bool" where
  "sentRetentionOk canWrite x \<longleftrightarrow> canWrite \<and> (\<exists>k::int. fst x = Finite (of_int k) \<and> 1 \<le> k \<and> k \<le> 3650)"

definition goodRetention :: "jstr \<Rightarrow> bool \<Rightarrow> RetentionRun \<Rightarrow> bool" where
  "goodRetention user canWrite r \<longleftrightarrow> list_all (sentRetentionOk canWrite) (rrSent r)
     \<and> (case operationLogRetention (rrStore r) of None \<Rightarrow> True
         | Some d \<Rightarrow> oOwnerID d = Some user \<and> (oSubmitting d \<longrightarrow> oSubmissionID d \<in> Some ` set (rrFlying r)))"

lemma valid_days: "retentionValid n \<Longrightarrow> \<exists>k::int. n = Finite (of_int k) \<and> 1 \<le> k \<and> k \<le> 3650"
  using whole_inRange [of 1 3650 n] by (simp add: retentionValid_def)

lemmas retention_defs = retentionEffect_def retentionShown_def typeRetention_def beginRetention_def retentionUpdate_def retentionSaved_def
  retentionFailed_def finishDiscard_def setOperationLogRetention_def retentionDraft_def retentionEditDisabled_def noRetention_def

lemma goodRetention_step:
  assumes "retention_step user canWrite r r'" "goodRetention user canWrite r"
  shows "goodRetention user canWrite r'"
  using assms
proof (induction rule: retention_step.induct)
  case (submits r now k i)
  then have "sentRetentionOk canWrite (retentionInput user (rrStore r))"
    using valid_days by (auto simp: sentRetentionOk_def retentionInput_def retentionSubmitDisabled_def retentionEditDisabled_def)
  then show ?case using submits.prems by (simp add: goodRetention_def retention_defs)
next
  case (succeeds i r v)
  then show ?case by (auto simp: goodRetention_def retention_defs split: option.splits)
next
  case (fails i r e)
  then show ?case by (auto simp: goodRetention_def retention_defs split: option.splits)
qed (auto simp: goodRetention_def retention_defs setOwner_def clearAccessDrafts_def clearAll_def emptyDrafts_def Let_def split: option.splits if_splits)

lemma goodRetention_reached:
  assumes "(retention_step user canWrite)\<^sup>*\<^sup>* newRetentionRun r"
  shows "goodRetention user canWrite r"
  using assms
proof (induction rule: rtranclp_induct)
  case base
  show ?case by (simp add: goodRetention_def newRetentionRun_def emptyDrafts_def)
next
  case (step y z)
  then show ?case using goodRetention_step by blast
qed

text \<open>
  C28. The retention of the operation log is changed only by users who may and only to a whole number of days from 1 to 3650; and in
  every interleaving of edits, saves, outcomes, readings and changes of the user, the card is busy only while
  the save of its own draft is under way, so that it never stays locked.
\<close>

theorem retention_saves_sound:
  assumes "(retention_step user canWrite)\<^sup>*\<^sup>* newRetentionRun r"
  shows "(\<forall>x\<in>set (rrSent r). canWrite \<and> (\<exists>k::int. fst x = Finite (of_int k) \<and> 1 \<le> k \<and> k \<le> 3650))
    \<and> (oSubmitting (retentionShown user (rrStore r)) \<longrightarrow> oSubmissionID (retentionShown user (rrStore r)) \<in> Some ` set (rrFlying r))"
  using goodRetention_reached [OF assms]
  by (auto simp: goodRetention_def list_all_iff sentRetentionOk_def retentionShown_def noRetention_def split: option.splits)

definition exampleRetention :: RetentionRun where
  "exampleRetention = newRetentionRun\<lparr>rrData := Some \<lparr>rsDays = 90, rsRevision = 2\<rparr>,
     rrStore := retentionEffect (js ''u'') (Some \<lparr>rsDays = 90, rsRevision = 2\<rparr>) emptyDrafts\<rparr>"

definition exampleID :: jstr where
  "exampleID = snd (nextDraftSubmissionID 0 0)"

definition exampleRetentionSent :: RetentionRun where
  "exampleRetentionSent = exampleRetention\<lparr>rrStore := beginRetention (js ''u'') exampleID (rrStore exampleRetention), rrFlying := [exampleID],
     rrSent := [(Finite 90, 2)], rrSequence := 1\<rparr>"

lemma example_retention: "(retention_step (js ''u'') True)\<^sup>*\<^sup>* newRetentionRun exampleRetentionSent"
proof -
  let ?r = "newRetentionRun\<lparr>rrData := Some \<lparr>rsDays = 90, rsRevision = 2\<rparr>\<rparr>"
  have "retention_step (js ''u'') True newRetentionRun (newRetentionRun\<lparr>rrData := Some \<lparr>rsDays = 90, rsRevision = 2\<rparr>, rrFailed := False\<rparr>)"
    by (rule reads)
  then have "retention_step (js ''u'') True newRetentionRun ?r" by (simp add: newRetentionRun_def)
  moreover have "retention_step (js ''u'') True ?r exampleRetention"
    using renders [of "(js ''u'')" True ?r] by (simp add: exampleRetention_def newRetentionRun_def)
  moreover have shown: "retentionShown (js ''u'') (rrStore exampleRetention) = retentionDraft (js ''u'') \<lparr>rsDays = 90, rsRevision = 2\<rparr> False None"
    by (simp add: exampleRetention_def retention_defs emptyDrafts_def)
  have "nextDraftSubmissionID 0 (rrSequence exampleRetention) = (1, exampleID)"
    by (simp add: exampleID_def nextDraftSubmissionID_def Let_def exampleRetention_def newRetentionRun_def)
  moreover have "\<not> retentionSubmitDisabled (js ''u'') True (rrData exampleRetention) (rrFailed exampleRetention) (rrStore exampleRetention)"
    by (simp add: retentionSubmitDisabled_def retentionEditDisabled_def retentionAuthoritative_def shown)
      (simp add: retentionDraft_def retentionValid_def exampleRetention_def newRetentionRun_def)
  ultimately have "retention_step (js ''u'') True exampleRetention exampleRetentionSent"
    using submits [of "(js ''u'')" True exampleRetention 0 1 exampleID]
    by (simp add: exampleRetentionSent_def retentionInput_def shown)
      (simp add: retentionDraft_def exampleRetention_def newRetentionRun_def)
  then show ?thesis
    using \<open>retention_step (js ''u'') True newRetentionRun ?r\<close> \<open>retention_step (js ''u'') True ?r exampleRetention\<close>
    by (meson converse_rtranclp_into_rtranclp rtranclp.rtrancl_refl)
qed

theorem retention_saves_sound_witness:
  "(\<exists>k::int. Finite 90 = Finite (of_int k) \<and> 1 \<le> k \<and> k \<le> 3650) \<and> oSubmitting (retentionShown (js ''u'') (rrStore exampleRetentionSent))
   \<and> oSubmissionID (retentionShown (js ''u'') (rrStore exampleRetentionSent)) = Some exampleID"
  using retention_saves_sound [OF example_retention]
  by (simp add: exampleRetentionSent_def) (simp add: retentionShown_def beginRetention_def setOperationLogRetention_def)

section \<open>The mail settings: inputs and test\<close>

text \<open>Every input clears the errors and the conflict; these patch the draft.\<close>

definition updateMail :: "(EmailSettingsDraft \<Rightarrow> EmailSettingsDraft) \<Rightarrow> EmailSettingsDraft \<Rightarrow> DraftState \<Rightarrow> DraftState" where
  "updateMail patch cur s = setEmailSettings (Some ((patch cur)\<lparr>eConflict := False\<rparr>)) s"

definition useAuthentication :: "bool \<Rightarrow> EmailSettingsDraft \<Rightarrow> EmailSettingsDraft" where
  "useAuthentication on cur = (if on then cur\<lparr>eAuthentication := True, eClearPassword := False\<rparr>
     else cur\<lparr>eAuthentication := False, eUsername := [], ePassword := [], eClearPassword := ePasswordSet cur\<rparr>)"

definition typeMailPassword :: "jstr \<Rightarrow> EmailSettingsDraft \<Rightarrow> EmailSettingsDraft" where
  "typeMailPassword v cur = cur\<lparr>ePassword := v, eClearPassword := False\<rparr>"

definition removeMailPassword :: "EmailSettingsDraft \<Rightarrow> EmailSettingsDraft" where
  "removeMailPassword cur = cur\<lparr>ePassword := [], eClearPassword := True\<rparr>"

definition removeShown :: "EmailSettingsDraft \<Rightarrow> bool" where
  "removeShown cur \<longleftrightarrow> ePasswordSet cur \<and> eAuthentication cur \<and> \<not> eClearPassword cur"

text \<open>The state of the page beside the draft.\<close>

record MailSettingsPage =
  mpSaving :: bool
  mpTesting :: bool
  mpDialog :: bool
  mpRecipient :: jstr
  mpRecipientError :: bool
  mpLocaleError :: bool
  mpPolicyError :: bool
  mpTask :: "jstr option"

definition mailDisabled :: "bool \<Rightarrow> EmailSettingsDraft \<Rightarrow> MailSettingsPage \<Rightarrow> bool" where
  "mailDisabled canWrite cur p \<longleftrightarrow> mpSaving p \<or> mpTesting p \<or> \<not> canWrite \<or> eConflict cur"

text \<open>The button that opens the test: the state, and whether the failure that the settings are not saved is announced.\<close>

definition clickSendTest :: "bool \<Rightarrow> EmailSettingsDraft \<Rightarrow> EmailSettings option \<Rightarrow> MailSettingsPage \<Rightarrow> MailSettingsPage \<times> bool" where
  "clickSendTest canWrite cur data p =
     (if mailDisabled canWrite cur p then (p, False)
      else if eDefaultLocale cur = None then (p\<lparr>mpLocaleError := True\<rparr>, False)
      else if emailIsDirty cur data then (p, True)
      else (p\<lparr>mpRecipient := [], mpRecipientError := False, mpDialog := True\<rparr>, False))"

definition closeTest :: "bool \<Rightarrow> MailSettingsPage \<Rightarrow> MailSettingsPage" where
  "closeTest opened p = (if mpTesting p then p
     else if opened then p\<lparr>mpDialog := True\<rparr> else p\<lparr>mpDialog := False, mpRecipientError := False\<rparr>)"

definition typeRecipient :: "jstr \<Rightarrow> MailSettingsPage \<Rightarrow> MailSettingsPage" where
  "typeRecipient v p = p\<lparr>mpRecipient := v, mpRecipientError := False\<rparr>"

text \<open>The mutation: an error of its own, or the request.\<close>

definition testMutation :: "EmailSettingsDraft \<Rightarrow> EmailSettings option \<Rightarrow> jstr \<Rightarrow> editorError + mailMethod" where
  "testMutation cur data address =
     (if eDefaultLocale cur = None then Inl (Message (js ''default locale required''))
      else if emailIsDirty cur data then Inl (Message (js ''email settings must be saved first''))
      else Inr (TestEmailSettings (JObj [((js ''recipient''), JStr address)])))"

text \<open>The form of the dialog; \<open>accepts\<close> is the browser's check of an e-mail input. Its button is disabled while a test is sent.\<close>

definition submitTest :: "(jstr \<Rightarrow> bool) \<Rightarrow> EmailSettingsDraft \<Rightarrow> EmailSettings option \<Rightarrow> MailSettingsPage \<Rightarrow>
    MailSettingsPage \<times> (editorError + mailMethod) option" where
  "submitTest accepts cur data p =
     (if mpTesting p then (p, None)
      else if \<not> accepts (mpRecipient p) then (p\<lparr>mpRecipientError := True\<rparr>, None)
      else (p\<lparr>mpTesting := True\<rparr>, Some (testMutation cur data (trim (mpRecipient p)))))"

definition testAccepted :: "jstr option \<Rightarrow> MailSettingsPage \<Rightarrow> MailSettingsPage" where
  "testAccepted task p = p\<lparr>mpTesting := False, mpDialog := False, mpRecipient := [], mpRecipientError := False, mpTask := task\<rparr>"

text \<open>After a failure: the state, and the keys of the title and of the description when it is a fixed one.\<close>

definition testFailed :: "editorError \<Rightarrow> MailSettingsPage \<Rightarrow> MailSettingsPage \<times> jstr \<times> jstr option" where
  "testFailed e p = (p\<lparr>mpTesting := False\<rparr>,
     if e = Message (js ''email settings must be saved first'') then ((js ''email.testNotSavedTitle''), Some (js ''email.testNotSavedDescription''))
     else ((js ''email.testFailed''), None))"

definition testInterval :: "jstr option \<Rightarrow> nat option" where
  "testInterval st = (if st = Some (js ''sent'') \<or> st = Some (js ''failed'') then None else Some 1500)"

definition testText :: "MailSettingsPage \<Rightarrow> jstr option \<Rightarrow> jstr option" where
  "testText p st = (if truthy (mpTask p)
     then Some (if st = Some (js ''sent'') then (js ''email.testDelivered'') else if st = Some (js ''failed'') then (js ''email.testDeliveryFailed'') else (js ''email.testSubmitted''))
     else None)"

text \<open>\<open>onSuccess\<close> and \<open>onError\<close> of a save, for the page; the last component says whether the failure is announced.\<close>

definition mailSaved :: "MailSettingsPage \<Rightarrow> MailSettingsPage" where
  "mailSaved p = p\<lparr>mpSaving := False, mpLocaleError := False, mpPolicyError := False\<rparr>"

definition mailSaveFailed :: "editorError \<Rightarrow> MailSettingsPage \<Rightarrow> MailSettingsPage \<times> bool" where
  "mailSaveFailed e p =
     (if e = Message (js ''default locale required'') then (p\<lparr>mpSaving := False, mpLocaleError := True\<rparr>, False)
      else if e = Message (js ''invalid email task policy'') then (p\<lparr>mpSaving := False, mpPolicyError := True\<rparr>, False)
      else (p\<lparr>mpSaving := False\<rparr>, True))"

lemma authentication_off_clears:
  assumes "emailMutationFn (useAuthentication False cur) s = (s', Inr inp)"
  shows "nUsername inp = [] \<and> nPassword inp = None \<and> nClearPassword inp = ePasswordSet cur"
  using assms by (auto simp: emailMutationFn_def useAuthentication_def split: option.splits if_splits)

text \<open>
  A test mail tests what is stored: it is requested only when the form shows the stored settings, with a default language
  chosen, for one recipient that the browser accepts, without the blanks around it; any other attempt says what is
  missing at the recipient or by an announced failure.
\<close>

theorem test_mail_of_stored_settings:
  "case submitTest accepts cur data p of
     (p', None) \<Rightarrow> mpTesting p \<and> p' = p \<or> \<not> accepts (mpRecipient p) \<and> mpRecipientError p'
   | (p', Some (Inl e)) \<Rightarrow> accepts (mpRecipient p) \<and> (eDefaultLocale cur = None \<or> emailIsDirty cur data)
       \<and> fst (snd (testFailed e p')) \<in> {(js ''email.testNotSavedTitle''), (js ''email.testFailed'')} \<and> mpDialog (fst (testFailed e p')) = mpDialog p
   | (p', Some (Inr m)) \<Rightarrow> accepts (mpRecipient p) \<and> \<not> mpTesting p \<and> eDefaultLocale cur \<noteq> None \<and> \<not> emailIsDirty cur data
       \<and> m = TestEmailSettings (JObj [((js ''recipient''), JStr (trim (mpRecipient p)))])"
  by (auto simp: submitTest_def testMutation_def testFailed_def)

end
