(* ===== verification/Spec2Isabelle.thy ===== *)
theory Spec2Isabelle
  imports SetupAuthority ProblemMessages ApiContract AuthSchemas DraftLifecycle ReleaseViews AssetContract Ops BulkImport EmailTasks
    QueryCache SessionCache Preferences Feedback Avatar PersonalSettings
    TableState OperatorConsole CommandProfiles OperatorSession OperatorAdmin AuthForms AccessShell DevicePages AssetPage SchedulePages SystemSettings
begin

text \<open>
  A verification library for the two browser applications of bind-plane: the administration interface
  \<open>src/next/admin/src\<close> and the older operator console \<open>src/frontend/src\<close>. Both are TypeScript programs that keep forms,
  filters, drafts and cached reads, decide what a user may see and send, and talk to a server. The library
  models this logic as HOL functions and step relations and proves what it promises. Everything stands on
  strings as lists of UTF-16 code units (type \<open>jstr\<close>, \<open>Prelude\<close>), as JavaScript has them.

  \<^bold>\<open>Foundations.\<close> \<open>Prelude\<close>: strings, trimming, numbers in text, objects with inherited properties, code points, the collections
  \<open>js_eval\<close> and \<open>js_defs\<close>. \<open>JsRegex\<close>: regular expressions with captures as the source writes them and their languages.
  \<open>JsUrl\<close>: UTF-8, percent encoding, \<open>encodeURIComponent\<close> and \<open>URLSearchParams\<close> with their round trips. \<open>JsonString\<close>, \<open>JsonText\<close>:
  \<open>JSON.stringify\<close> and \<open>JSON.parse\<close> for all values, and that the second reads back what the first writes.

  \<^bold>\<open>The wire\<close> (\<open>shared/api\<close>). \<open>Contracts\<close>: every zod schema. \<open>ApiClient\<close>, \<open>ApiContract\<close>: \<open>request\<close> and all methods of
  \<open>createApiClient\<close>; seven interpretations of the locale \<open>endpoint_group\<close> show that every method sends a well-formed request and
  returns or throws as the response says. \<open>Problems\<close>, \<open>ProblemMessages\<close>: classification and message keys of failures.
  \<open>Resources\<close>: both catalogues. \<open>Feedback\<close>: one announcement for each failure. \<open>ConsoleRequests\<close>: the three request helpers
  of the device and release pages, by the locale \<open>console_client\<close>.

  \<^bold>\<open>Access\<close> (\<open>features/auth\<close>, \<open>features/access\<close>, \<open>shared/bootstrap\<close>). \<open>SetupAuthority\<close>: the tokens of setup, reset and invitation links.
  \<open>AuthSchemas\<close>, \<open>AuthForms\<close>: validators, the five forms before a session, and the pages of a link, whose tokens are confined
  and spent once by the locale \<open>one_time_token\<close>. \<open>QueryCache\<close>, \<open>SessionCache\<close>: keys of cached reads and what each end of a session
  removes. \<open>AccessShell\<close>: menus, guards and titles of the shell, and the page of the users online. \<open>Permissions\<close>:
  the rules of the role editor. \<open>Drafts\<close>, \<open>DraftEditors\<close>, \<open>DraftLifecycle\<close>: the draft store and the three guarded editors
  (locale \<open>guarded_editor\<close>), with the liveness of their submissions. \<open>Paging\<close>: both kinds of cursor lists refine a stack of pages.

  \<^bold>\<open>Settings and logs.\<close> \<open>Preferences\<close>: language and appearance with overlapping changes. \<open>Avatar\<close>, \<open>PersonalSettings\<close>: the picture, profile,
  password and e-mail change. \<open>SystemSettings\<close>: the system's name and icon, the retention of the operation log (a fourth guarded
  editor), the inputs of the mail settings and the test message.
  \<open>OperationLogs\<close>, \<open>EmailTasks\<close>: filters, requests, labels and the operations on mail tasks.

  \<^bold>\<open>Devices and releases.\<close> \<open>Ops\<close>: states of runs, readings of schedules, badges, pager. \<open>BulkImport\<close>: the import dialog.
  \<open>DevicePages\<close>: both lists that keep their filters in the address (locale \<open>filtered_list\<close>), the actions on switches with their
  confirmations, the dialog that adds a switch. \<open>SchedulePages\<close>: the dialogs of schedules and compliance rules (locale
  \<open>record_editor\<close>), results, alerts, and the audit log read to its end against the server's handler. \<open>AssetPage\<close>: the forms that
  create assets, and switching assets off on both pages (locale \<open>status_switch\<close>). \<open>AssetEditors\<close>, \<open>AssetContract\<close>: the forms of the five assets.
  \<open>RequiredFields\<close>. \<open>ReleaseJobs\<close>, \<open>ReleaseViews\<close>: jobs and the console that prepares, confirms and follows a release.
  \<open>Messages\<close>: translation of the server's texts, recursive over nested causes.

  \<^bold>\<open>The operator console\<close> (\<open>src/frontend\<close>). \<open>TableState\<close>: tables kept in the address, as instances of the locales \<open>url_table\<close> and
  \<open>two_tables\<close>. \<open>FrontendTexts\<close>: its catalogues. \<open>OperatorConsole\<close>: the release console. \<open>CommandProfiles\<close>, \<open>OperatorAdmin\<close>: the administration
  pages. \<open>OperatorSession\<close>: stores, requests, routes and guards.

  \<^bold>\<open>How state corresponds.\<close> A component's \<open>useState\<close>, \<open>useForm\<close> or module variables are the fields of one record; each handler and effect is
  one function from the state to the next state and the requests it sends; what a user, the server or another
  tab can do is an inductive step relation or a list of events, and the invariants are proved by induction over it.
  Errors are values: \<open>thrown\<close> for the client's error classes, sums for results.

  \<^bold>\<open>Parameters.\<close> Code outside the repository is an argument with its documented behaviour as hypothesis where one is needed: the schema
  parser zod, Unicode normalization (\<open>normalizer\<close>, two laws of UAX 15), the matching of query keys (\<open>documented\<close>), the
  translation function, dates and number formats of the browser, decoding of pictures, the server's answers.

  \<^bold>\<open>Bounds.\<close> Numbers that the code treats as integers are HOL integers or naturals; where a double could round, the code's own
  limits keep them below 2 to the 53rd or the model says what rounding it assumes (\<open>roundDouble\<close> in \<open>TableState\<close>, rationals in
  \<open>Avatar\<close>). No definition uses fuel: recursion is structural or has a termination proof; the two loops that may run
  forever, reading the switches and the audit log page by page, are \<open>fetchPages\<close> and \<open>loadPages\<close> in \<open>partial_function\<close>, and both are
  shown to return.

  \<^bold>\<open>What the groups of lemmas show.\<close> Safety of what is sent (requests, credentials, forced releases, identifiers in paths), secrecy
  (tokens, secrets, cached reads of other users), invariants of drafts and pages, round trips of texts and forms, exactness of
  queries, termination of the loops, and that failures are explained.

  \<^bold>\<open>Not modelled.\<close> The Go and Python servers and workers (other languages; the library covers the TypeScript program, and of the servers only
  the paging of the audit log), the vendored
  interface components under \<open>components/ui\<close>, the generated route tree, tests and end-to-end scripts, deployment
  files, and the markup, styles, focus and animation of the modelled pages: they hold no state of their own that a request or a
  decision depends on. Times after which the query library reads again are left out; a read may happen at any time.
\<close>

end
